(* ===== verification/Lattiam_Prelude.thy ===== *)
theory Lattiam_Prelude
  imports Main "HOL-Library.Word"
begin

text \<open>
  What every theory of the development shares: Go errors with their message and their
  chain of wrapped causes, Go maps as association lists, points in time and durations as
  nanosecond counts, the functions of Go's \<^verbatim>\<open>strings\<close> and \<^verbatim>\<open>strconv\<close> packages the
  program calls, and the loop combinators of the models (an error-propagating loop and
  its fuelled form).

  A \<^verbatim>\<open>string\<close> is a list of bytes, as in Go. \<open>to_lower\<close> acts on the ASCII letters.
\<close>

named_theorems go_simps \<open>equations of the Go runtime functions the models call\<close>
named_theorems go_map \<open>lookup equations of association lists that stand for Go maps\<close>

section \<open>Errors\<close>

text \<open>
  An error value: \<open>ErrorString\<close> for \<^verbatim>\<open>errors.New\<close> and \<^verbatim>\<open>fmt.Errorf\<close> without
  \<^verbatim>\<open>%w\<close>; \<open>WrapError before e after\<close> for \<^verbatim>\<open>fmt.Errorf\<close> with one \<^verbatim>\<open>%w\<close>, with the text
  before and after it; the two errors of a \<^verbatim>\<open>context\<close>; and the two error structs of the
  program that code inspects with \<^verbatim>\<open>errors.As\<close>: \<^verbatim>\<open>distributed.MemoryPressureError\<close>
  (usage, threshold, severity) and \<^verbatim>\<open>deployment.Error\<close> (code, message, status, HTTP status).
\<close>

datatype goerror =
    ErrorString string
  | WrapError string goerror string
  | CtxCanceled
  | CtxDeadlineExceeded
  | MemoryPressureError int int string
  | DeploymentError string string string int

fun digits_of :: "nat \<Rightarrow> string" where
  "digits_of n = (if n < 10 then [char_of (48 + n)] else digits_of (n div 10) @ [char_of (48 + n mod 10)])"

declare digits_of.simps [simp del]

text \<open>\<^verbatim>\<open>strconv.Itoa\<close>, which is also \<^verbatim>\<open>%d\<close>.\<close>

definition itoa :: "int \<Rightarrow> string" where
  "itoa i = (if i < 0 then CHR 0x2D # digits_of (nat (- i)) else digits_of (nat i))"

fun error_message :: "goerror \<Rightarrow> string" where
  "error_message (ErrorString s) = s"
| "error_message (WrapError b e a) = b @ error_message e @ a"
| "error_message CtxCanceled = ''context canceled''"
| "error_message CtxDeadlineExceeded = ''context deadline exceeded''"
| "error_message (MemoryPressureError used threshold severity) =
     ''Redis memory pressure ('' @ severity @ ''): '' @ itoa used @ '' bytes used, threshold: '' @
     itoa threshold @ '' bytes''"
| "error_message (DeploymentError code msg _ _) = code @ '': '' @ msg"

text \<open>The chain \<^verbatim>\<open>errors.Is\<close> and \<^verbatim>\<open>errors.As\<close> walk: the error itself, then what it wraps.\<close>

fun error_chain :: "goerror \<Rightarrow> goerror list" where
  "error_chain (WrapError b e a) = WrapError b e a # error_chain e"
| "error_chain e = [e]"

fun is_memory_pressure :: "goerror \<Rightarrow> bool" where
  "is_memory_pressure (MemoryPressureError _ _ _) = True"
| "is_memory_pressure _ = False"

definition errors_as_memory_pressure :: "goerror \<Rightarrow> bool" where
  "errors_as_memory_pressure e \<longleftrightarrow> list_ex is_memory_pressure (error_chain e)"

fun is_deployment_error :: "goerror \<Rightarrow> bool" where
  "is_deployment_error (DeploymentError _ _ _ _) = True"
| "is_deployment_error _ = False"

lemma error_chain_head: "e \<in> set (error_chain e)"
  by (cases e) auto

lemma errors_as_memory_pressure_wrap [simp]:
  "errors_as_memory_pressure (WrapError b e a) = errors_as_memory_pressure e"
  by (simp add: errors_as_memory_pressure_def)

text \<open>How a call that returns an error value ends.\<close>

datatype outcome = Returned "goerror option" | Panicked string

section \<open>Contexts, time and durations\<close>

text \<open>
  A \<^verbatim>\<open>time.Time\<close> is the number of nanoseconds since Go's zero time, so that the zero
  value is 0 and \<^verbatim>\<open>Before\<close>, \<^verbatim>\<open>After\<close> are \<open><\<close>, \<open>>\<close>; a \<^verbatim>\<open>time.Duration\<close> is a number of
  nanoseconds. A \<^verbatim>\<open>context.Context\<close> is read through \<^verbatim>\<open>ctx.Err()\<close>: \<open>None\<close> while it is live.
\<close>

type_synonym time = int
type_synonym duration = int
type_synonym ctx_err = "goerror option"

definition time_zero :: time where
  "time_zero = 0"

definition time_is_zero :: "time \<Rightarrow> bool" where
  "time_is_zero t \<longleftrightarrow> t = time_zero"

definition millisecond :: duration where
  "millisecond = 1000000"

definition second :: duration where
  "second = 1000 * millisecond"

definition minute :: duration where
  "minute = 60 * second"

text \<open>\<^verbatim>\<open>t.UnixNano()\<close>: nanoseconds since 1970, 62135596800 seconds after the zero time.\<close>

definition unix_nano :: "time \<Rightarrow> int" where
  "unix_nano t = t - 62135596800 * second"

lemma unix_nano_inject [simp]: "unix_nano s = unix_nano t \<longleftrightarrow> s = t"
  by (simp add: unix_nano_def)

text \<open>Go's integer division truncates towards zero.\<close>

definition go_quot :: "int \<Rightarrow> int \<Rightarrow> int" where
  "go_quot a b = sgn a * sgn b * (\<bar>a\<bar> div \<bar>b\<bar>)"

lemma go_quot_nonneg: "0 \<le> a \<Longrightarrow> 0 < b \<Longrightarrow> go_quot a b = a div b"
  by (cases "a = 0") (auto simp: go_quot_def)

section \<open>Maps\<close>

text \<open>
  A Go map is an association list with distinct keys; its order stands for the iteration
  order, which Go leaves open, so that a theorem about every such list holds for every
  order. \<open>map_put\<close> is \<^verbatim>\<open>m[k] = v\<close>, \<open>map_del\<close> is \<^verbatim>\<open>delete(m, k)\<close>, \<open>map_of\<close> is the lookup.
\<close>

fun map_put :: "'k \<Rightarrow> 'v \<Rightarrow> ('k \<times> 'v) list \<Rightarrow> ('k \<times> 'v) list" where
  "map_put k v [] = [(k, v)]"
| "map_put k v ((k', v') # m) = (if k' = k then (k, v) # m else (k', v') # map_put k v m)"

definition map_del :: "'k \<Rightarrow> ('k \<times> 'v) list \<Rightarrow> ('k \<times> 'v) list" where
  "map_del k m = filter (\<lambda>e. fst e \<noteq> k) m"

definition map_wf :: "('k \<times> 'v) list \<Rightarrow> bool" where
  "map_wf m \<longleftrightarrow> distinct (map fst m)"

lemma set_map_put: "set (map_put k v m) \<subseteq> insert (k, v) (set m)"
  by (induction k v m rule: map_put.induct) auto

lemma map_of_map_put [simp, go_map]: "map_of (map_put k v m) = (map_of m)(k \<mapsto> v)"
  by (induction k v m rule: map_put.induct) auto

lemma map_of_map_del [simp, go_map]: "map_of (map_del k m) = (map_of m)(k := None)"
  by (induction m) (auto simp: map_del_def)

lemma keys_map_put [simp]: "fst ` set (map_put k v m) = insert k (fst ` set m)"
  by (induction k v m rule: map_put.induct) auto

lemma keys_map_del [simp]: "fst ` set (map_del k m) = fst ` set m - {k}"
  by (auto simp: map_del_def)

lemma map_del_Nil [simp]: "map_del k [] = []"
  by (simp add: map_del_def)

lemma map_wf_Nil [simp]: "map_wf []"
  by (simp add: map_wf_def)

lemma map_wf_put [intro]: "map_wf m \<Longrightarrow> map_wf (map_put k v m)"
  by (induction k v m rule: map_put.induct) (auto simp: map_wf_def)

lemma map_wf_del [intro]: "map_wf m \<Longrightarrow> map_wf (map_del k m)"
  unfolding map_wf_def map_del_def by (induction m) auto

lemma length_map_put:
  "length (map_put k v m) = (if k \<in> fst ` set m then length m else Suc (length m))"
  by (induction k v m rule: map_put.induct) auto

lemma map_put_overwrite [simp]: "map_put k v (map_put k u m) = map_put k v m"
  by (induction k u m rule: map_put.induct) auto

lemma length_map_put_eq: "length (map_put k v m) = length (map_put k u m)"
  by (simp add: length_map_put)

lemma map_put_id: "map_of m k = Some v \<Longrightarrow> map_put k v m = m"
  by (induction k v m rule: map_put.induct) (auto split: if_splits)

lemma map_of_eq_None_keys: "map_of m k = None \<longleftrightarrow> k \<notin> fst ` set m"
  by (simp add: map_of_eq_None_iff)

lemma map_of_filter_wf:
  "map_wf m \<Longrightarrow>
     map_of (filter P m) k = (case map_of m k of None \<Rightarrow> None | Some v \<Rightarrow> if P (k, v) then Some v else None)"
proof (induction m)
  case (Cons e m)
  obtain k' v where e: "e = (k', v)" by (cases e)
  have "k' = k \<Longrightarrow> map_of m k = None" using Cons.prems e by (auto simp: map_wf_def map_of_eq_None_iff)
  then show ?case using Cons e by (auto simp: map_wf_def)
qed simp

text \<open>A map built from a list of distinct keys.\<close>

lemma map_of_fold_put:
  "map_of (fold (\<lambda>x. map_put (f x) x) xs m) = map_of m ++ map_of (rev (map (\<lambda>x. (f x, x)) xs))"
  by (induction xs arbitrary: m) (auto simp: map_of_append)

lemma map_of_keyed:
  assumes "distinct (map f xs)"
  shows "map_of (fold (\<lambda>x. map_put (f x) x) xs []) k = Some x \<longleftrightarrow> x \<in> set xs \<and> f x = k"
proof -
  have "distinct (map fst (rev (map (\<lambda>x. (f x, x)) xs)))"
    using assms by (simp add: rev_map [symmetric] comp_def)
  then show ?thesis by (auto simp: map_of_fold_put)
qed

text \<open>A lookup with a default, which is often the zero value of the type.\<close>

definition opt_else :: "'a \<Rightarrow> 'a option \<Rightarrow> 'a" where
  "opt_else d v = (case v of None \<Rightarrow> d | Some x \<Rightarrow> x)"

section \<open>Strings\<close>

text \<open>\<^verbatim>\<open>strings.HasPrefix\<close>, \<^verbatim>\<open>strings.TrimPrefix\<close> and \<^verbatim>\<open>strings.Contains\<close>.\<close>

fun has_prefix :: "string \<Rightarrow> string \<Rightarrow> bool" where
  "has_prefix s [] = True"
| "has_prefix [] (p # ps) = False"
| "has_prefix (c # s) (p # ps) = (c = p \<and> has_prefix s ps)"

definition trim_prefix :: "string \<Rightarrow> string \<Rightarrow> string" where
  "trim_prefix s p = (if has_prefix s p then drop (length p) s else s)"

fun str_contains :: "string \<Rightarrow> string \<Rightarrow> bool" where
  "str_contains [] p = (p = [])"
| "str_contains (c # s) p = (has_prefix (c # s) p \<or> str_contains s p)"

lemma has_prefix_append: "has_prefix s p \<longleftrightarrow> (\<exists>r. s = p @ r)"
  by (induction s p rule: has_prefix.induct) auto

lemma str_contains_iff: "str_contains s p \<longleftrightarrow> (\<exists>b a. s = b @ p @ a)"
proof (induction s p rule: str_contains.induct)
  case (1 p)
  then show ?case by simp
next
  case (2 c s p)
  have "(\<exists>b a. c # s = b @ p @ a) \<longleftrightarrow> (\<exists>a. c # s = p @ a) \<or> (\<exists>b a. s = b @ p @ a)"
    by (metis Cons_eq_append_conv append_Cons append_Nil)
  then show ?case using 2 by (simp add: has_prefix_append)
qed

text \<open>\<^verbatim>\<open>strings.Split(s, sep)\<close> for a separator of one byte: always at least one piece.\<close>

fun split_on :: "char \<Rightarrow> string \<Rightarrow> string list" where
  "split_on d [] = [[]]"
| "split_on d (c # s) =
     (if c = d then [] # split_on d s
      else (case split_on d s of [] \<Rightarrow> [[c]] | w # ws \<Rightarrow> (c # w) # ws))"

text \<open>\<^verbatim>\<open>strings.SplitN(s, sep, 2)\<close> for a separator of one byte: split at the first one only.\<close>

fun split_first :: "char \<Rightarrow> string \<Rightarrow> string list" where
  "split_first d [] = [[]]"
| "split_first d (c # s) =
     (if c = d then [[], s]
      else (case split_first d s of [] \<Rightarrow> [[c]] | w # ws \<Rightarrow> (c # w) # ws))"

lemma split_on_not_Nil [simp]: "split_on d s \<noteq> []"
  by (induction s) (auto split: list.splits)

lemma split_first_not_Nil [simp]: "split_first d s \<noteq> []"
  by (induction s) (auto split: list.splits)

lemma split_on_single: "d \<notin> set s \<Longrightarrow> split_on d s = [s]"
  by (induction s) auto

lemma split_on_append: "d \<notin> set s \<Longrightarrow> split_on d (s @ d # t) = s # split_on d t"
  by (induction s) auto

lemma split_first_single: "d \<notin> set s \<Longrightarrow> split_first d s = [s]"
  by (induction s) auto

lemma split_first_append: "d \<notin> set s \<Longrightarrow> split_first d (s @ d # t) = [s, t]"
  by (induction s) auto

lemma split_on_parts: "w \<in> set (split_on d s) \<Longrightarrow> d \<notin> set w"
  by (induction s arbitrary: w) (fastforce split: list.splits if_splits)+

text \<open>\<^verbatim>\<open>strings.ToLower\<close> and \<^verbatim>\<open>strings.ToUpper\<close> on ASCII, \<^verbatim>\<open>strings.TrimSpace\<close> on ASCII white space.\<close>

definition upper_char :: "char \<Rightarrow> char" where
  "upper_char c = (let n = of_char c :: nat in if 97 \<le> n \<and> n \<le> 122 then char_of (n - 32) else c)"

definition to_upper :: "string \<Rightarrow> string" where
  "to_upper s = map upper_char s"

definition lower_char :: "char \<Rightarrow> char" where
  "lower_char c = (let n = of_char c :: nat in if 65 \<le> n \<and> n \<le> 90 then char_of (n + 32) else c)"

definition to_lower :: "string \<Rightarrow> string" where
  "to_lower s = map lower_char s"

definition is_space :: "char \<Rightarrow> bool" where
  "is_space c \<longleftrightarrow> (let n = of_char c :: nat in n = 32 \<or> (9 \<le> n \<and> n \<le> 13))"

definition is_alnum :: "char \<Rightarrow> bool" where
  "is_alnum c \<longleftrightarrow> (let n = of_char c :: nat in (48 \<le> n \<and> n \<le> 57) \<or> (65 \<le> n \<and> n \<le> 90) \<or> (97 \<le> n \<and> n \<le> 122))"

definition trim_space :: "string \<Rightarrow> string" where
  "trim_space s = rev (dropWhile is_space (rev (dropWhile is_space s)))"

text \<open>\<^verbatim>\<open>strconv.ParseInt(s, 10, 64)\<close>: an optional sign, one or more digits, within 64 bits.\<close>

definition digit_value :: "char \<Rightarrow> nat option" where
  "digit_value c = (let n = of_char c :: nat in if 48 \<le> n \<and> n \<le> 57 then Some (n - 48) else None)"

fun parse_digits :: "nat \<Rightarrow> string \<Rightarrow> nat option" where
  "parse_digits acc [] = Some acc"
| "parse_digits acc (c # s) =
     (case digit_value c of None \<Rightarrow> None | Some d \<Rightarrow> parse_digits (10 * acc + d) s)"

definition parse_nat :: "string \<Rightarrow> nat option" where
  "parse_nat s = (if s = [] then None else parse_digits 0 s)"

definition parse_int64 :: "string \<Rightarrow> int option" where
  "parse_int64 s =
     (let r = (case s of
                 [] \<Rightarrow> None
               | c # t \<Rightarrow> if c = CHR 0x2D then map_option (\<lambda>n. - int n) (parse_nat t)
                         else if c = CHR 0x2B then map_option int (parse_nat t)
                         else map_option int (parse_nat s))
      in case r of None \<Rightarrow> None
         | Some i \<Rightarrow> if - (2 ^ 63) \<le> i \<and> i < 2 ^ 63 then Some i else None)"

lemma digit_value_char_of: "n < 10 \<Longrightarrow> digit_value (char_of (48 + n)) = Some n"
  by (simp add: digit_value_def Let_def take_bit_eq_mod)

lemma parse_digits_append:
  "parse_digits acc (s @ t) = Option.bind (parse_digits acc s) (\<lambda>a. parse_digits a t)"
  by (induction acc s rule: parse_digits.induct) (auto split: option.splits)

lemma parse_digits_digits_of: "parse_digits 0 (digits_of n) = Some n"
proof (induction n rule: digits_of.induct)
  case (1 n)
  show ?case
  proof (cases "n < 10")
    case True
    then show ?thesis by (simp add: digits_of.simps [of n] digit_value_char_of)
  next
    case False
    with 1 have "parse_digits 0 (digits_of (n div 10)) = Some (n div 10)" by simp
    with False show ?thesis
      by (simp add: digits_of.simps [of n] parse_digits_append digit_value_char_of)
  qed
qed

lemma digits_of_not_Nil [simp]: "digits_of n \<noteq> []"
  by (subst digits_of.simps) simp

lemma digits_of_digit: "c \<in> set (digits_of n) \<Longrightarrow> 48 \<le> (of_char c :: nat) \<and> (of_char c :: nat) \<le> 57"
proof (induction n rule: digits_of.induct)
  case (1 n)
  show ?case
  proof (cases "n < 10")
    case True
    with "1.prems" show ?thesis by (simp add: digits_of.simps [of n] take_bit_eq_mod)
  next
    case False
    have "48 + n mod 10 < 256" by presburger
    with False "1.prems" "1.IH" show ?thesis
      by (auto simp: digits_of.simps [of n] take_bit_eq_mod)
  qed
qed

lemma parse_nat_digits_of: "parse_nat (digits_of n) = Some n"
  by (simp add: parse_nat_def parse_digits_digits_of)

lemma digits_of_inject: "digits_of m = digits_of n \<longleftrightarrow> m = n"
  by (metis option.inject parse_digits_digits_of)

lemma parse_int64_itoa:
  assumes "- (2 ^ 63) \<le> i" and "i < 2 ^ 63"
  shows "parse_int64 (itoa i) = Some i"
proof (cases "i < 0")
  case True
  with assms show ?thesis
    by (simp add: parse_int64_def itoa_def parse_nat_digits_of Let_def)
next
  case False
  obtain c s where cs: "digits_of (nat i) = c # s"
    by (cases "digits_of (nat i)") auto
  have "48 \<le> (of_char c :: nat)" using digits_of_digit [of c "nat i"] cs by simp
  then have "c \<noteq> CHR 0x2D" "c \<noteq> CHR 0x2B" by auto
  moreover have "parse_nat (c # s) = Some (nat i)" using cs parse_nat_digits_of by metis
  ultimately show ?thesis using False assms
    by (simp add: parse_int64_def itoa_def cs Let_def)
qed

section \<open>Loops that stop at the first error\<close>

text \<open>
  A \<^verbatim>\<open>for\<close> loop whose body may return an error, over a threaded state; and the same with
  a body that may also run out of fuel (\<open>None\<close>).
\<close>

fun for_each :: "('a \<Rightarrow> 's \<Rightarrow> 's \<times> 'e option) \<Rightarrow> 'a list \<Rightarrow> 's \<Rightarrow> 's \<times> 'e option" where
  "for_each f [] s = (s, None)"
| "for_each f (x # xs) s =
     (case f x s of (s', None) \<Rightarrow> for_each f xs s' | (s', Some e) \<Rightarrow> (s', Some e))"

fun fuel_each :: "('a \<Rightarrow> 's \<Rightarrow> ('e + 's) option) \<Rightarrow> 'a list \<Rightarrow> 's \<Rightarrow> ('e + 's) option" where
  "fuel_each f [] s = Some (Inr s)"
| "fuel_each f (x # xs) s =
     (case f x s of
        None \<Rightarrow> None
      | Some (Inl e) \<Rightarrow> Some (Inl e)
      | Some (Inr s') \<Rightarrow> fuel_each f xs s')"

lemma fuel_each_cong [fundef_cong]:
  "xs = ys \<Longrightarrow> s = t \<Longrightarrow> (\<And>x s. x \<in> set ys \<Longrightarrow> f x s = g x s) \<Longrightarrow> fuel_each f xs s = fuel_each g ys t"
  by (induction xs arbitrary: ys s t) (auto split: option.splits sum.splits)

lemma fuel_each_Inr:
  assumes "fuel_each f xs s = Some (Inr s')" and "P s"
    and "\<And>x s s'. x \<in> set xs \<Longrightarrow> P s \<Longrightarrow> f x s = Some (Inr s') \<Longrightarrow> P s'"
  shows "P s'"
  using assms
proof (induction xs arbitrary: s)
  case (Cons x xs)
  then obtain s1 where s1: "f x s = Some (Inr s1)" "fuel_each f xs s1 = Some (Inr s')"
    by (auto split: option.splits sum.splits)
  have "P s1" using Cons.prems(2,3) s1(1) list.set_intros(1) by metis
  from s1(2) this show ?case by (rule Cons.IH) (meson Cons.prems(3) list.set_intros(2))
qed simp

lemma fuel_each_Inl:
  assumes "fuel_each f xs s = Some (Inl e)" and "P s"
    and "\<And>x s s'. x \<in> set xs \<Longrightarrow> P s \<Longrightarrow> f x s = Some (Inr s') \<Longrightarrow> P s'"
  obtains x s1 where "x \<in> set xs" and "P s1" and "f x s1 = Some (Inl e)"
proof -
  have "\<exists>x \<in> set xs. \<exists>s1. P s1 \<and> f x s1 = Some (Inl e)"
    using assms
  proof (induction xs arbitrary: s)
    case (Cons x xs)
    from Cons.prems(1) consider "f x s = Some (Inl e)"
      | s' where "f x s = Some (Inr s')" "fuel_each f xs s' = Some (Inl e)"
      by (auto split: option.splits sum.splits)
    then show ?case
    proof cases
      case 2
      have "P s'" using Cons.prems(3) [of x s s'] Cons.prems(2) 2(1) by simp
      from Cons.IH [OF 2(2) this] Cons.prems(3) show ?thesis by auto
    qed (use Cons.prems(2) in auto)
  qed simp
  then show thesis using that by blast
qed

lemma fuel_each_Some:
  assumes "P s" and "\<And>x s. x \<in> set xs \<Longrightarrow> P s \<Longrightarrow> f x s \<noteq> None"
    and "\<And>x s s'. x \<in> set xs \<Longrightarrow> P s \<Longrightarrow> f x s = Some (Inr s') \<Longrightarrow> P s'"
  shows "fuel_each f xs s \<noteq> None"
  using assms
proof (induction xs arbitrary: s)
  case (Cons x xs)
  obtain r where r: "f x s = Some r" using Cons.prems(1,2) by fastforce
  show ?case
  proof (cases r)
    case (Inr s')
    then have "P s'" using Cons.prems(3) [of x s s'] Cons.prems(1) r by simp
    then have "fuel_each f xs s' \<noteq> None" 
      by (rule Cons.IH) (meson Cons.prems(2) list.set_intros(2), meson Cons.prems(3) list.set_intros(2))
    then show ?thesis using r Inr by simp
  qed (use r in simp)
qed simp

lemma fuel_each_rel:
  assumes "\<And>x s t. R s t \<Longrightarrow> rel_option (rel_sum E R) (f x s) (g x t)" and "R s t"
  shows "rel_option (rel_sum E R) (fuel_each f xs s) (fuel_each g xs t)"
  using assms(2)
proof (induction xs arbitrary: s t)
  case (Cons x xs)
  from assms(1) [OF Cons.prems] have "rel_option (rel_sum E R) (f x s) (g x t)" .
  then show ?case
    by (cases "f x s"; cases "g x t")
       (use Cons.IH in \<open>auto simp: rel_sum_sel split: sum.splits elim: rel_sum.cases\<close>)
qed simp

lemma fuel_each_append:
  "fuel_each f (xs @ ys) s =
     (case fuel_each f xs s of
        None \<Rightarrow> None | Some (Inl e) \<Rightarrow> Some (Inl e) | Some (Inr s') \<Rightarrow> fuel_each f ys s')"
  by (induction xs arbitrary: s) (auto split: option.splits sum.splits)

end
