(* ===== verification/Lattiam_Types.thy ===== *)
theory Lattiam_Types
  imports Lattiam_Prelude
begin

text \<open>
  The data of \<^verbatim>\<open>internal/interfaces\<close>: deployment statuses, requests, queued deployments,
  results, metadata records, update plans and Terraform states, with the key functions
  of \<^verbatim>\<open>deployment_types.go\<close> and the provider helpers of \<^verbatim>\<open>internal/utils/provider_utils.go\<close>.
  A pointer that may be nil is an \<open>option\<close>. A field of type \<^verbatim>\<open>map[string]interface{}\<close> is
  a \<open>gmap\<close>, an \<open>option\<close> of it where the code tells nil from empty.
\<close>

section \<open>Dynamic values\<close>

text \<open>
  A value of type \<^verbatim>\<open>interface{}\<close> as the program builds and inspects it: nil, booleans,
  Go integers, float64 values (kept as their bit pattern: the program never computes with
  them), strings, times, slices and string-keyed maps.
\<close>

datatype gval =
    GNil
  | GBool bool
  | GInt int
  | GFloat "64 word"
  | GStr string
  | GTime time
  | GList "gval list"
  | GMap "(string \<times> gval) list"

type_synonym gmap = "(string \<times> gval) list"

text \<open>Type assertions with the comma-ok form, on the value a map index returns.\<close>

fun as_string :: "gval option \<Rightarrow> string option" where
  "as_string (Some (GStr s)) = Some s"
| "as_string _ = None"

fun as_map :: "gval option \<Rightarrow> gmap option" where
  "as_map (Some (GMap m)) = Some m"
| "as_map _ = None"

fun as_bool :: "gval option \<Rightarrow> bool option" where
  "as_bool (Some (GBool b)) = Some b"
| "as_bool _ = None"

lemma as_string_Some: "as_string v = Some s \<longleftrightarrow> v = Some (GStr s)"
  by (cases v rule: as_string.cases) auto

lemma as_map_Some: "as_map v = Some m \<longleftrightarrow> v = Some (GMap m)"
  by (cases v rule: as_map.cases) auto

text \<open>A nil map reads like an empty one.\<close>

definition nil_map :: "gmap option \<Rightarrow> gmap" where
  "nil_map m = (case m of None \<Rightarrow> [] | Some m \<Rightarrow> m)"

section \<open>Deployment statuses\<close>

text \<open>
  \<^verbatim>\<open>DeploymentStatus\<close> is a string type with nine constants; any other string is
  \<open>StatusOther\<close>, which the \<^verbatim>\<open>default\<close> branches of the code see.
\<close>

datatype deployment_status =
    StatusQueued
  | StatusProcessing
  | StatusCompleted
  | StatusFailed
  | StatusCanceled
  | StatusCanceling
  | StatusDestroying
  | StatusDestroyed
  | StatusDeleted
  | StatusOther string

fun status_string :: "deployment_status \<Rightarrow> string" where
  "status_string StatusQueued = ''queued''"
| "status_string StatusProcessing = ''processing''"
| "status_string StatusCompleted = ''completed''"
| "status_string StatusFailed = ''failed''"
| "status_string StatusCanceled = ''canceled''"
| "status_string StatusCanceling = ''canceling''"
| "status_string StatusDestroying = ''destroying''"
| "status_string StatusDestroyed = ''destroyed''"
| "status_string StatusDeleted = ''deleted''"
| "status_string (StatusOther s) = s"

text \<open>The conversion \<^verbatim>\<open>DeploymentStatus(s)\<close> of a string.\<close>

definition status_of_string :: "string \<Rightarrow> deployment_status" where
  "status_of_string s =
     (if s = ''queued'' then StatusQueued
      else if s = ''processing'' then StatusProcessing
      else if s = ''completed'' then StatusCompleted
      else if s = ''failed'' then StatusFailed
      else if s = ''canceled'' then StatusCanceled
      else if s = ''canceling'' then StatusCanceling
      else if s = ''destroying'' then StatusDestroying
      else if s = ''destroyed'' then StatusDestroyed
      else if s = ''deleted'' then StatusDeleted
      else StatusOther s)"

lemma status_string_of_string [simp]: "status_string (status_of_string s) = s"
  by (simp add: status_of_string_def)

lemma status_of_string_string:
  "(\<And>s. st \<noteq> StatusOther s) \<Longrightarrow> status_of_string (status_string st) = st"
  by (cases st) (auto simp: status_of_string_def)

section \<open>Requests, resources and options\<close>

type_synonym provider_config = "(string \<times> gmap) list"

record resource =
  res_type :: string
  res_name :: string
  res_properties :: gmap

record data_source =
  ds_type :: string
  ds_name :: string
  ds_properties :: gmap

record deployment_options =
  opt_dry_run :: bool
  opt_timeout :: duration
  opt_max_retries :: int
  opt_provider_config :: "provider_config option"

section \<open>Update plans\<close>

datatype change_action =
    ActionCreate
  | ActionUpdate
  | ActionDelete
  | ActionReplace
  | ActionNoOp
  | ActionOther string

text \<open>
  The fields \<^verbatim>\<open>OriginalConfig\<close> of a change and \<^verbatim>\<open>Mitigation\<close> of a dangerous change are left out: the program neither sets
  nor reads them, and they are omitted from the JSON while they are empty.
\<close>

record resource_change =
  rc_key :: string
  rc_action :: change_action
  rc_before :: "gmap option"
  rc_after :: "gmap option"
  rc_proposed_state :: "gmap option"
  rc_replace_paths :: "string list"

record update_summary =
  sum_to_create :: nat
  sum_to_update :: nat
  sum_to_delete :: nat
  sum_to_replace :: nat
  sum_no_changes :: nat

record dangerous_change =
  dc_key :: string
  dc_reason :: string
  dc_impact :: string

record update_plan =
  up_deployment_id :: string
  up_plan_id :: string
  up_changes :: "resource_change list"
  up_execution_order :: "resource_change list"
  up_summary :: update_summary
  up_dangerous_changes :: "dangerous_change list"
  up_created_at :: time
  up_requires_approval :: bool
  up_provider_configs :: "provider_config option"
  up_provider_versions :: "(string \<times> string) list"

text \<open>
  The metadata of a request holds dynamic values, and under \<^verbatim>\<open>update_plan\<close> a pointer to
  the plan itself.
\<close>

datatype meta_value = MetaVal gval | MetaPlan update_plan

type_synonym metadata = "(string \<times> meta_value) list"

fun meta_gval :: "meta_value option \<Rightarrow> gval option" where
  "meta_gval (Some (MetaVal v)) = Some v"
| "meta_gval _ = None"

record deployment_request =
  req_resources :: "resource list"
  req_data_sources :: "data_source list"
  req_options :: deployment_options
  req_metadata :: "metadata option"

section \<open>Queued deployments, results and metadata records\<close>

record queued_deployment =
  qd_id :: string
  qd_request_id :: string
  qd_request :: "deployment_request option"
  qd_status :: deployment_status
  qd_created_at :: time
  qd_started_at :: "time option"
  qd_completed_at :: "time option"
  qd_last_error :: "goerror option"
  qd_retry_count :: int
  qd_deleted_at :: "time option"
  qd_deleted_by :: string
  qd_delete_reason :: string

record deployment_result =
  dr_deployment_id :: string
  dr_success :: bool
  dr_error :: "goerror option"
  dr_resources :: "gmap option"
  dr_outputs :: "gmap option"
  dr_completed_at :: time

record deployment_filter =
  flt_status :: "deployment_status list"
  flt_created_after :: time
  flt_created_before :: time

record queue_metrics =
  qm_total_enqueued :: int
  qm_total_dequeued :: int
  qm_current_depth :: nat
  qm_average_wait_time :: duration
  qm_oldest_deployment :: time

record deployment_metadata =
  dm_deployment_id :: string
  dm_status :: deployment_status
  dm_created_at :: time
  dm_updated_at :: time
  dm_configuration :: "gmap option"
  dm_resource_count :: int
  dm_last_applied_at :: "time option"
  dm_error_message :: string

section \<open>Terraform states\<close>

record tf_instance =
  ti_schema_version :: int
  ti_attributes :: "gmap option"
  ti_private :: string

record tf_resource =
  tr_module :: string
  tr_mode :: string
  tr_type :: string
  tr_name :: string
  tr_provider :: string
  tr_instances :: "tf_instance list"

record tf_state =
  ts_version :: int
  ts_terraform_version :: string
  ts_serial :: "64 word"
  ts_lineage :: string
  ts_outputs :: gmap
  ts_resources :: "tf_resource list"

section \<open>Resource keys\<close>

definition make_resource_key :: "string \<Rightarrow> string \<Rightarrow> string" where
  "make_resource_key resourceType resourceName = resourceType @ ''.'' @ resourceName"

definition parse_resource_key :: "string \<Rightarrow> string \<times> string" where
  "parse_resource_key key =
     (case split_on (CHR ''.'') key of
        [a, b] \<Rightarrow> (a, b)
      | _ \<Rightarrow> (key, ''''))"

text \<open>
  Parsing the key made from a type and a name that hold no dot gives the type and the
  name back.
\<close>

theorem parse_make_resource_key:
  assumes "CHR ''.'' \<notin> set t" and "CHR ''.'' \<notin> set n"
  shows "parse_resource_key (make_resource_key t n) = (t, n)"
  using assms by (simp add: parse_resource_key_def make_resource_key_def split_on_append split_on_single)

theorem parse_make_resource_key_witness:
  "parse_resource_key (make_resource_key ''aws_instance'' ''web'') = (''aws_instance'', ''web'')"
  by (rule parse_make_resource_key) simp_all

lemma make_resource_key_inject:
  assumes "CHR ''.'' \<notin> set t" and "CHR ''.'' \<notin> set t'"
    and "make_resource_key t n = make_resource_key t' n'"
  shows "t = t' \<and> n = n'"
proof -
  have "split_first (CHR ''.'') (make_resource_key t n) = split_first (CHR ''.'') (make_resource_key t' n')"
    using assms by simp
  then show ?thesis using assms(1,2) by (simp add: make_resource_key_def split_first_append)
qed

lemma parse_resource_key_three_parts:
  assumes "CHR ''.'' \<notin> set a" and "CHR ''.'' \<notin> set b"
  shows "parse_resource_key (a @ ''.'' @ b @ ''.'' @ c) = (a @ ''.'' @ b @ ''.'' @ c, '''')"
  using assms
  by (simp add: parse_resource_key_def split_on_append split: list.splits)

section \<open>Providers of a resource type\<close>

text \<open>\<^verbatim>\<open>ExtractProviderName\<close>: the part before the first underscore.\<close>

definition extract_provider_name :: "string \<Rightarrow> string" where
  "extract_provider_name resourceType =
     (case split_first (CHR ''_'') resourceType of
        [] \<Rightarrow> resourceType
      | p # _ \<Rightarrow> p)"

lemma extract_provider_name_takeWhile:
  "extract_provider_name s = takeWhile (\<lambda>c. c \<noteq> CHR ''_'') s"
proof (induction s)
  case Nil
  then show ?case by (simp add: extract_provider_name_def)
next
  case (Cons c s)
  then show ?case by (auto simp: extract_provider_name_def split: list.splits)
qed

text \<open>
  \<^verbatim>\<open>ExtractProviderVersions\<close>: first \<^verbatim>\<open>terraform.required_providers\<close>, then the \<^verbatim>\<open>version\<close>
  fields of the provider blocks for the providers not found there.
\<close>

fun required_provider_versions :: "gmap \<Rightarrow> (string \<times> string) list \<Rightarrow> (string \<times> string) list" where
  "required_provider_versions [] versions = versions"
| "required_provider_versions ((provider, config) # rest) versions =
     required_provider_versions rest
       (case config of
          GStr v \<Rightarrow> map_put provider v versions
        | GMap c \<Rightarrow> (case as_string (map_of c ''version'') of
                       Some v \<Rightarrow> map_put provider v versions
                     | None \<Rightarrow> versions)
        | _ \<Rightarrow> versions)"

fun provider_block_versions :: "gmap \<Rightarrow> (string \<times> string) list \<Rightarrow> (string \<times> string) list" where
  "provider_block_versions [] versions = versions"
| "provider_block_versions ((provider, config) # rest) versions =
     provider_block_versions rest
       (if map_of versions provider \<noteq> None then versions
        else (case as_map (Some config) of
                None \<Rightarrow> versions
              | Some c \<Rightarrow> (case as_string (map_of c ''version'') of
                             Some v \<Rightarrow> map_put provider v versions
                           | None \<Rightarrow> versions)))"

definition extract_provider_versions :: "gmap \<Rightarrow> (string \<times> string) list" where
  "extract_provider_versions tfJSON =
     (let v1 = (case as_map (map_of tfJSON ''terraform'') of
                  None \<Rightarrow> []
                | Some t \<Rightarrow> (case as_map (map_of t ''required_providers'') of
                               None \<Rightarrow> []
                             | Some rp \<Rightarrow> required_provider_versions rp []))
      in (case as_map (map_of tfJSON ''provider'') of
            None \<Rightarrow> v1
          | Some ps \<Rightarrow> provider_block_versions ps v1))"

lemma provider_block_versions_keeps:
  "map_of vs p = Some v \<Longrightarrow> map_of (provider_block_versions ps vs) p = Some v"
proof (induction ps vs rule: provider_block_versions.induct)
  case (2 provider config rest versions)
  then show ?case
    by (cases "p = provider") (simp_all split: option.split)
qed simp

text \<open>
  The provider configurations of a Terraform document (the loop that
  \<^verbatim>\<open>Service.extractProviderConfigs\<close> and \<^verbatim>\<open>DeploymentExecutor.extractProviderConfigs\<close>
  share): the entries of the provider block that are maps.
\<close>

fun provider_config_entries :: "gmap \<Rightarrow> provider_config" where
  "provider_config_entries [] = []"
| "provider_config_entries ((name, raw) # rest) =
     (case raw of
        GMap c \<Rightarrow> (name, c) # provider_config_entries rest
      | _ \<Rightarrow> provider_config_entries rest)"

definition provider_configs_of :: "gmap \<Rightarrow> provider_config" where
  "provider_configs_of tfJSON =
     (case as_map (map_of tfJSON ''provider'') of
        None \<Rightarrow> []
      | Some providers \<Rightarrow> provider_config_entries providers)"

section \<open>Plan actions of a provider\<close>

datatype plan_action =
    PlanActionCreate
  | PlanActionUpdate
  | PlanActionDelete
  | PlanActionReplace
  | PlanActionNoop
  | PlanActionOther string

fun convert_plan_action :: "plan_action \<Rightarrow> change_action" where
  "convert_plan_action PlanActionCreate = ActionCreate"
| "convert_plan_action PlanActionUpdate = ActionUpdate"
| "convert_plan_action PlanActionDelete = ActionDelete"
| "convert_plan_action PlanActionReplace = ActionReplace"
| "convert_plan_action PlanActionNoop = ActionNoOp"
| "convert_plan_action (PlanActionOther _) = ActionNoOp"

fun convert_change_action :: "change_action \<Rightarrow> plan_action" where
  "convert_change_action ActionCreate = PlanActionCreate"
| "convert_change_action ActionUpdate = PlanActionUpdate"
| "convert_change_action ActionDelete = PlanActionDelete"
| "convert_change_action ActionReplace = PlanActionReplace"
| "convert_change_action ActionNoOp = PlanActionNoop"
| "convert_change_action (ActionOther _) = PlanActionNoop"

lemma convert_actions_inverse:
  "(\<And>s. a \<noteq> ActionOther s) \<Longrightarrow> convert_plan_action (convert_change_action a) = a"
  by (cases a) auto

record resource_plan =
  rp_resource_type :: string
  rp_action :: plan_action
  rp_current_state :: "gmap option"
  rp_proposed_state :: "gmap option"
  rp_planned_state :: "gmap option"
  rp_requires_replace :: "string list"

end
