(* ===== verification/Circuit_Breaker.thy ===== *)
theory Circuit_Breaker
  imports Lattiam_Types
begin

text \<open>
  The circuit breaker of \<^verbatim>\<open>internal/infra/distributed/circuit_breaker.go\<close>. The mutex makes
  \<^verbatim>\<open>beforeRequest\<close> and \<^verbatim>\<open>afterRequest\<close> atomic; the function runs between them, so
  concurrent calls interleave at that point (\<open>breaker_step\<close>). Every clock reading is an
  argument: \<open>now\<close> is the \<^verbatim>\<open>time.Now()\<close> at the start of an operation and \<open>nano\<close> the second
  \<^verbatim>\<open>time.Now()\<close> inside \<^verbatim>\<open>currentState\<close>. The log line and the \<^verbatim>\<open>OnStateChange\<close> callback of a
  change of state are the field \<open>cb_changes\<close>, newest first.
\<close>

section \<open>State and operations\<close>

datatype circuit_state = CircuitClosed | CircuitOpen | CircuitHalfOpen

fun circuit_state_string :: "circuit_state \<Rightarrow> string" where
  "circuit_state_string CircuitClosed = ''closed''"
| "circuit_state_string CircuitOpen = ''open''"
| "circuit_state_string CircuitHalfOpen = ''half-open''"

record counts =
  cnt_requests :: int
  cnt_total_successes :: int
  cnt_total_failures :: int
  cnt_consecutive_successes :: int
  cnt_consecutive_failures :: int

definition zero_counts :: counts where
  "zero_counts = \<lparr>cnt_requests = 0, cnt_total_successes = 0, cnt_total_failures = 0,
     cnt_consecutive_successes = 0, cnt_consecutive_failures = 0\<rparr>"

record breaker_config =
  bc_max_failures :: int
  bc_timeout :: duration
  bc_ready_to_trip :: "(counts \<Rightarrow> bool) option"

definition default_ready_to_trip :: "counts \<Rightarrow> bool" where
  "default_ready_to_trip c \<longleftrightarrow>
     cnt_requests c \<ge> 10 \<and> cnt_total_failures c > go_quot (cnt_requests c) 2"

definition default_breaker_config :: breaker_config where
  "default_breaker_config =
     \<lparr>bc_max_failures = 5, bc_timeout = 30 * second, bc_ready_to_trip = Some default_ready_to_trip\<rparr>"

record breaker =
  cb_config :: breaker_config
  cb_state :: circuit_state
  cb_counts :: counts
  cb_expiry :: time
  cb_changes :: "(circuit_state \<times> circuit_state) list"

definition new_breaker :: "breaker_config option \<Rightarrow> breaker" where
  "new_breaker cfg =
     \<lparr>cb_config = (case cfg of None \<Rightarrow> default_breaker_config | Some c \<Rightarrow> c),
      cb_state = CircuitClosed, cb_counts = zero_counts, cb_expiry = time_zero, cb_changes = []\<rparr>"

definition set_state :: "circuit_state \<Rightarrow> time \<Rightarrow> breaker \<Rightarrow> breaker" where
  "set_state st now cb =
     (if cb_state cb = st then cb
      else cb\<lparr>cb_state := st,
              cb_counts := zero_counts,
              cb_expiry := (case st of
                              CircuitClosed \<Rightarrow> time_zero
                            | CircuitOpen \<Rightarrow> now + bc_timeout (cb_config cb)
                            | CircuitHalfOpen \<Rightarrow> time_zero),
              cb_changes := (cb_state cb, st) # cb_changes cb\<rparr>)"

definition current_state :: "time \<Rightarrow> time \<Rightarrow> breaker \<Rightarrow> (circuit_state \<times> int) \<times> breaker" where
  "current_state now nano cb =
     (case cb_state cb of
        CircuitClosed \<Rightarrow> ((CircuitClosed, 0), cb)
      | CircuitOpen \<Rightarrow>
          (if cb_expiry cb < now
           then ((CircuitHalfOpen, unix_nano nano), set_state CircuitHalfOpen now cb)
           else ((CircuitOpen, 0), cb))
      | CircuitHalfOpen \<Rightarrow> ((CircuitHalfOpen, unix_nano nano), cb))"

definition open_error :: goerror where
  "open_error = ErrorString ''circuit breaker is open''"

definition half_open_error :: goerror where
  "half_open_error = ErrorString ''circuit breaker is half-open, request limit reached''"

definition before_request :: "time \<Rightarrow> time \<Rightarrow> breaker \<Rightarrow> (int \<times> goerror option) \<times> breaker" where
  "before_request now nano cb =
     (let ((st, generation), cb1) = current_state now nano cb in
      if st = CircuitOpen then ((generation, Some open_error), cb1)
      else if st = CircuitHalfOpen \<and> cnt_requests (cb_counts cb1) \<ge> 1
           then ((generation, Some half_open_error), cb1)
      else ((generation, None),
            cb1\<lparr>cb_counts := (cb_counts cb1)\<lparr>cnt_requests := cnt_requests (cb_counts cb1) + 1\<rparr>\<rparr>))"

definition count_success :: "counts \<Rightarrow> counts" where
  "count_success c =
     c\<lparr>cnt_total_successes := cnt_total_successes c + 1,
       cnt_consecutive_successes := cnt_consecutive_successes c + 1,
       cnt_consecutive_failures := 0\<rparr>"

definition count_failure :: "counts \<Rightarrow> counts" where
  "count_failure c =
     c\<lparr>cnt_total_failures := cnt_total_failures c + 1,
       cnt_consecutive_failures := cnt_consecutive_failures c + 1,
       cnt_consecutive_successes := 0\<rparr>"

definition on_success :: "circuit_state \<Rightarrow> time \<Rightarrow> breaker \<Rightarrow> breaker" where
  "on_success st now cb =
     (case st of
        CircuitClosed \<Rightarrow> cb\<lparr>cb_counts := count_success (cb_counts cb)\<rparr>
      | CircuitHalfOpen \<Rightarrow>
          set_state CircuitClosed now (cb\<lparr>cb_counts := count_success (cb_counts cb)\<rparr>)
      | CircuitOpen \<Rightarrow> cb)"

definition ready_to_trip :: "breaker_config \<Rightarrow> counts \<Rightarrow> bool" where
  "ready_to_trip cfg c = (case bc_ready_to_trip cfg of None \<Rightarrow> False | Some p \<Rightarrow> p c)"

definition on_failure :: "circuit_state \<Rightarrow> time \<Rightarrow> breaker \<Rightarrow> breaker" where
  "on_failure st now cb =
     (case st of
        CircuitClosed \<Rightarrow>
          (let cb1 = cb\<lparr>cb_counts := count_failure (cb_counts cb)\<rparr> in
           if ready_to_trip (cb_config cb1) (cb_counts cb1) then set_state CircuitOpen now cb1 else cb1)
      | CircuitHalfOpen \<Rightarrow>
          set_state CircuitOpen now (cb\<lparr>cb_counts := count_failure (cb_counts cb)\<rparr>)
      | CircuitOpen \<Rightarrow>
          cb\<lparr>cb_counts := (cb_counts cb)\<lparr>cnt_total_failures := cnt_total_failures (cb_counts cb) + 1\<rparr>\<rparr>)"

definition after_request :: "int \<Rightarrow> bool \<Rightarrow> time \<Rightarrow> time \<Rightarrow> breaker \<Rightarrow> breaker" where
  "after_request before success now nano cb =
     (let ((st, generation), cb1) = current_state now nano cb in
      if generation \<noteq> before then cb1
      else if success then on_success st now cb1 else on_failure st now cb1)"

text \<open>
  \<^verbatim>\<open>Execute\<close> around a function on a state of type \<open>'w\<close>, which returns or panics. The four
  clock readings are those of \<^verbatim>\<open>beforeRequest\<close> and of \<^verbatim>\<open>afterRequest\<close>.
\<close>

record exec_clock =
  ck_before :: time
  ck_before_nano :: time
  ck_after :: time
  ck_after_nano :: time

definition cb_execute ::
  "exec_clock \<Rightarrow> ctx_err \<Rightarrow> ('w \<Rightarrow> 'w \<times> outcome) \<Rightarrow> breaker \<times> 'w \<Rightarrow> (breaker \<times> 'w) \<times> outcome" where
  "cb_execute ck ctx fn s =
     (let (cb, w) = s;
          ((generation, err), cb1) = before_request (ck_before ck) (ck_before_nano ck) cb;
          finish = (\<lambda>ok. after_request generation ok (ck_after ck) (ck_after_nano ck) cb1) in
      case err of
        Some e \<Rightarrow> ((cb1, w), Returned (Some e))
      | None \<Rightarrow>
          (case ctx of
             Some e \<Rightarrow> ((finish False, w), Returned (Some e))
           | None \<Rightarrow>
               (case fn w of
                  (w', Returned r) \<Rightarrow> ((finish (r = None), w'), Returned r)
                | (w', Panicked p) \<Rightarrow> ((finish False, w'), Panicked p))))"

fun cb_execute_all ::
  "(exec_clock \<times> ctx_err \<times> ('w \<Rightarrow> 'w \<times> outcome)) list \<Rightarrow> breaker \<times> 'w \<Rightarrow> (breaker \<times> 'w) \<times> outcome list" where
  "cb_execute_all [] s = (s, [])"
| "cb_execute_all ((ck, ctx, fn) # calls) s =
     (let (s1, out) = cb_execute ck ctx fn s;
          (s2, outs) = cb_execute_all calls s1
      in (s2, out # outs))"

lemmas breaker_defs =
  set_state_def current_state_def before_request_def after_request_def on_success_def on_failure_def
  count_success_def count_failure_def zero_counts_def Let_def

section \<open>Closed and open states\<close>

text \<open>
  What holds of a breaker whose calls do not overlap: the counters of a closed breaker
  account for every admitted request, an open breaker has fresh counters, a half-open one
  has admitted at most one request.
\<close>

definition breaker_inv :: "breaker \<Rightarrow> bool" where
  "breaker_inv cb \<longleftrightarrow>
     (let c = cb_counts cb in
      case cb_state cb of
        CircuitClosed \<Rightarrow>
          cnt_requests c = cnt_total_successes c + cnt_total_failures c \<and>
          0 \<le> cnt_consecutive_failures c \<and> cnt_consecutive_failures c \<le> cnt_total_failures c \<and>
          0 \<le> cnt_consecutive_successes c \<and> cnt_consecutive_successes c \<le> cnt_total_successes c
      | CircuitOpen \<Rightarrow> c = zero_counts
      | CircuitHalfOpen \<Rightarrow> cnt_requests c \<in> {0, 1})"

lemma breaker_inv_new: "breaker_inv (new_breaker cfg)"
  by (simp add: breaker_inv_def new_breaker_def zero_counts_def)

lemma breaker_inv_admit_finish:
  assumes "breaker_inv cb" and "before_request now nano cb = ((g, None), cb1)"
  shows "breaker_inv (after_request g ok now' nano' cb1)"
proof (cases "cb_state cb")
  case CircuitClosed
  then show ?thesis using assms
    by (cases ok) (auto simp: breaker_inv_def breaker_defs split: if_splits)
next
  case CircuitOpen
  then show ?thesis using assms
    by (cases ok) (auto simp: breaker_inv_def breaker_defs split: if_splits)
next
  case CircuitHalfOpen
  then show ?thesis using assms
    by (cases ok) (auto simp: breaker_inv_def breaker_defs split: if_splits)
qed

lemma breaker_inv_reject:
  "breaker_inv cb \<Longrightarrow> before_request now nano cb = ((g, Some e), cb1) \<Longrightarrow> breaker_inv cb1"
  by (auto simp: breaker_inv_def breaker_defs split: circuit_state.splits if_splits)

lemma cb_execute_inv:
  assumes "breaker_inv cb"
  shows "breaker_inv (fst (fst (cb_execute ck ctx fn (cb, w))))"
  using assms
  by (auto simp: cb_execute_def Let_def intro: breaker_inv_admit_finish breaker_inv_reject
           split: prod.splits option.splits outcome.splits)

lemma cb_execute_all_inv:
  "breaker_inv (fst s) \<Longrightarrow> breaker_inv (fst (fst (cb_execute_all calls s)))"
proof (induction calls s rule: cb_execute_all.induct)
  case (1 s)
  then show ?case by simp
next
  case (2 ck ctx fn calls s)
  obtain s1 out where e: "cb_execute ck ctx fn s = (s1, out)" by fastforce
  with "2.prems" cb_execute_inv [of "fst s" ck ctx fn "snd s"] have "breaker_inv (fst s1)" by simp
  obtain s2 outs where r: "cb_execute_all calls s1 = (s2, outs)" by fastforce
  have "breaker_inv (fst (fst (cb_execute_all calls s1)))"
    using "2.IH" [OF e [symmetric]] \<open>breaker_inv (fst s1)\<close> by simp
  with e r show ?case by (simp add: Let_def)
qed

text \<open>
  In every sequence of non-overlapping calls from a new breaker, a closed breaker's
  request counter is the sum of its success and failure counters and the runs of
  consecutive outcomes stay within them; an open breaker's counters are zero and a
  half-open breaker has admitted at most one request.
\<close>

theorem breaker_counts_invariant:
  "breaker_inv (fst (fst (cb_execute_all calls (new_breaker cfg, w))))"
  by (rule cb_execute_all_inv) (simp add: breaker_inv_new)

text \<open>
  A request that moves a breaker with the default configuration from closed to open
  is the tenth or a later one of the closed period, and more than half of the requests of
  that period have failed.
\<close>

theorem default_breaker_trips_late:
  assumes "cb_config cb = default_breaker_config" and "breaker_inv cb" and "cb_state cb = CircuitClosed"
    and "cb_execute ck ctx fn (cb, w) = ((cb', w'), out)" and "cb_state cb' = CircuitOpen"
  shows "9 \<le> cnt_requests (cb_counts cb) \<and>
         2 * (cnt_total_failures (cb_counts cb) + 1) > cnt_requests (cb_counts cb) + 1"
proof -
  let ?c = "cb_counts cb"
  have trip: "default_ready_to_trip (count_failure (?c\<lparr>cnt_requests := cnt_requests ?c + 1\<rparr>))"
    using assms
    by (auto simp: cb_execute_def breaker_defs ready_to_trip_def default_breaker_config_def
             split: option.splits outcome.splits if_splits prod.splits)
  then have "10 \<le> cnt_requests ?c + 1"
    by (simp add: default_ready_to_trip_def count_failure_def)
  moreover from this trip have "cnt_total_failures ?c + 1 > (cnt_requests ?c + 1) div 2"
    by (simp add: default_ready_to_trip_def count_failure_def go_quot_nonneg)
  ultimately show ?thesis by presburger
qed

definition nearly_tripped :: breaker where
  "nearly_tripped = (new_breaker None)\<lparr>cb_counts :=
     \<lparr>cnt_requests = 9, cnt_total_successes = 4, cnt_total_failures = 5,
      cnt_consecutive_successes = 0, cnt_consecutive_failures = 3\<rparr>\<rparr>"

theorem default_breaker_trips_late_witness:
  "\<exists>cb' w' out. cb_execute \<lparr>ck_before = 7, ck_before_nano = 7, ck_after = 8, ck_after_nano = 8\<rparr> None
       (\<lambda>w. (w, Returned (Some (ErrorString ''down'')))) (nearly_tripped, 0 :: nat) = ((cb', w'), out) \<and>
     cb_state cb' = CircuitOpen \<and> 9 \<le> cnt_requests (cb_counts nearly_tripped)"
proof -
  let ?ck = "\<lparr>ck_before = 7, ck_before_nano = 7, ck_after = 8, ck_after_nano = 8\<rparr>"
  let ?f = "\<lambda>w. (w, Returned (Some (ErrorString ''down'')))"
  obtain cb' w' out where run: "cb_execute ?ck None ?f (nearly_tripped, 0 :: nat) = ((cb', w'), out)"
    and op: "cb_state cb' = CircuitOpen"
    by (simp add: cb_execute_def breaker_defs nearly_tripped_def new_breaker_def ready_to_trip_def
        default_breaker_config_def default_ready_to_trip_def go_quot_def)
  have "9 \<le> cnt_requests (cb_counts nearly_tripped) \<and>
        2 * (cnt_total_failures (cb_counts nearly_tripped) + 1) > cnt_requests (cb_counts nearly_tripped) + 1"
    by (rule default_breaker_trips_late [OF _ _ _ run op])
       (simp_all add: nearly_tripped_def new_breaker_def breaker_inv_def)
  with run op show ?thesis by blast
qed

text \<open>
  While an open breaker's expiry has not passed, a call is refused with the open error,
  the function is not run and the breaker does not change.
\<close>

theorem open_breaker_rejects:
  assumes "cb_state cb = CircuitOpen" and "ck_before ck \<le> cb_expiry cb"
  shows "cb_execute ck ctx fn (cb, w) = ((cb, w), Returned (Some open_error))"
  using assms by (simp add: cb_execute_def breaker_defs)

definition open_breaker_example :: breaker where
  "open_breaker_example = (new_breaker None)\<lparr>cb_state := CircuitOpen, cb_expiry := 30 * second\<rparr>"

theorem open_breaker_rejects_witness:
  "cb_execute \<lparr>ck_before = 7, ck_before_nano = 7, ck_after = 8, ck_after_nano = 8\<rparr> None
     (\<lambda>w. (w + 1, Returned None)) (open_breaker_example, 0 :: nat) =
   ((open_breaker_example, 0), Returned (Some open_error))"
  by (rule open_breaker_rejects)
     (simp_all add: open_breaker_example_def second_def millisecond_def)

text \<open>After the expiry the next request is admitted, as the probe of the half-open state.\<close>

lemma expired_breaker_probes:
  assumes "cb_state cb = CircuitOpen" and "cb_expiry cb < now"
  shows "\<exists>cb'. before_request now nano cb = ((unix_nano nano, None), cb') \<and>
               cb_state cb' = CircuitHalfOpen \<and> cnt_requests (cb_counts cb') = 1"
  using assms by (simp add: breaker_defs)

text \<open>
  If the two readings of the clock that make the generation of a half-open period are the
  same instant, the probe's outcome is taken into account: success closes the breaker,
  failure opens it again.
\<close>

lemma half_open_probe_same_instant:
  assumes "cb_state cb = CircuitHalfOpen" and "cnt_requests (cb_counts cb) < 1"
    and "before_request now nano cb = ((g, None), cb1)"
  shows "cb_state (after_request g ok now' nano cb1) = (if ok then CircuitClosed else CircuitOpen)"
  using assms by (auto simp: breaker_defs split: if_splits)

section \<open>Overlapping calls and the half-open state\<close>

text \<open>
  The concurrent breaker: \<open>bs_inflight\<close> holds the generations of the admitted requests
  whose function is still running, \<open>bs_now\<close> the last reading of the clock and
  \<open>bs_admitted\<close> the number of admitted requests. One step is one locked operation; the
  clock advances from each operation to the next.
\<close>

record breaker_sys =
  bs_breaker :: breaker
  bs_inflight :: "int list"
  bs_now :: time
  bs_admitted :: nat

inductive breaker_step :: "breaker_sys \<Rightarrow> breaker_sys \<Rightarrow> bool" where
  admit: "bs_now s < now \<Longrightarrow> now \<le> nano \<Longrightarrow>
     before_request now nano (bs_breaker s) = ((g, None), cb') \<Longrightarrow>
     breaker_step s (s\<lparr>bs_breaker := cb', bs_inflight := g # bs_inflight s, bs_now := nano,
                       bs_admitted := Suc (bs_admitted s)\<rparr>)"
| reject: "bs_now s < now \<Longrightarrow> now \<le> nano \<Longrightarrow>
     before_request now nano (bs_breaker s) = ((g, Some e), cb') \<Longrightarrow>
     breaker_step s (s\<lparr>bs_breaker := cb', bs_now := nano\<rparr>)"
| finish: "bs_now s < now \<Longrightarrow> now \<le> nano \<Longrightarrow> g \<in> set (bs_inflight s) \<Longrightarrow>
     after_request g ok now nano (bs_breaker s) = cb' \<Longrightarrow>
     breaker_step s (s\<lparr>bs_breaker := cb', bs_inflight := remove1 g (bs_inflight s), bs_now := nano\<rparr>)"

inductive_cases breaker_stepE: "breaker_step s t"

abbreviation breaker_steps :: "breaker_sys \<Rightarrow> breaker_sys \<Rightarrow> bool" where
  "breaker_steps \<equiv> breaker_step\<^sup>*\<^sup>*"

text \<open>The generations in flight were all issued before now, and the clock is past 1970.\<close>

definition generations_past :: "breaker_sys \<Rightarrow> bool" where
  "generations_past s \<longleftrightarrow>
     0 < unix_nano (bs_now s) \<and> (\<forall>g \<in> set (bs_inflight s). g \<le> unix_nano (bs_now s))"

lemma before_request_generation:
  "before_request now nano cb = ((g, e), cb') \<Longrightarrow> g = 0 \<or> g = unix_nano nano"
  by (auto simp: breaker_defs split: circuit_state.splits if_splits)

lemma unix_nano_less [simp]: "unix_nano s < unix_nano t \<longleftrightarrow> s < t"
  by (simp add: unix_nano_def)

lemma unix_nano_le [simp]: "unix_nano s \<le> unix_nano t \<longleftrightarrow> s \<le> t"
  by (simp add: unix_nano_def)

lemma generations_past_step:
  assumes "breaker_step s t" and "generations_past s"
  shows "generations_past t"
proof -
  have time: "bs_now s < bs_now t" using assms(1) by (auto elim!: breaker_stepE)
  have le: "unix_nano (bs_now s) \<le> unix_nano (bs_now t)" using time by simp
  have flight: "g \<in> set (bs_inflight s) \<or> g = 0 \<or> g = unix_nano (bs_now t)"
    if "g \<in> set (bs_inflight t)" for g
    using assms(1) that
    by (auto elim!: breaker_stepE dest: before_request_generation notin_set_remove1)
  show ?thesis unfolding generations_past_def
  proof (intro conjI ballI)
    show "0 < unix_nano (bs_now t)" using assms(2) le unfolding generations_past_def by linarith
    fix g assume "g \<in> set (bs_inflight t)"
    with flight consider "g \<in> set (bs_inflight s)" | "g = 0" | "g = unix_nano (bs_now t)" by blast
    then show "g \<le> unix_nano (bs_now t)"
      using assms(2) le unfolding generations_past_def by cases (fastforce simp del: unix_nano_le)+
  qed
qed

text \<open>
  The generation of a half-open period is the clock at the time of the call, so the one
  \<^verbatim>\<open>afterRequest\<close> computes is never the one \<^verbatim>\<open>beforeRequest\<close> issued: the outcome of the
  probe is dropped.
\<close>

lemma half_open_finish_ignored:
  assumes "cb_state cb = CircuitHalfOpen" and "g < unix_nano nano"
  shows "after_request g ok now nano cb = cb"
  using assms by (simp add: after_request_def current_state_def)

lemma half_open_step:
  assumes "breaker_step s t" and "generations_past s" and "cb_state (bs_breaker s) = CircuitHalfOpen"
  shows "cb_state (bs_breaker t) = CircuitHalfOpen \<and>
         (if cnt_requests (cb_counts (bs_breaker s)) \<ge> 1
          then bs_breaker t = bs_breaker s \<and> bs_admitted t = bs_admitted s
          else bs_admitted t \<le> Suc (bs_admitted s) \<and>
               (bs_admitted t = Suc (bs_admitted s) \<longrightarrow>
                cnt_requests (cb_counts (bs_breaker t)) = cnt_requests (cb_counts (bs_breaker s)) + 1))"
  using assms(1)
proof cases
  case (admit now nano g cb')
  then show ?thesis using assms(3) by (auto simp: breaker_defs split: if_splits)
next
  case (reject now nano g e cb')
  then show ?thesis using assms(3) by (auto simp: breaker_defs split: if_splits)
next
  case (finish now nano g ok cb')
  have "g \<le> unix_nano (bs_now s)" using assms(2) finish by (simp add: generations_past_def)
  also have "\<dots> < unix_nano nano" using finish by simp
  finally have "cb' = bs_breaker s"
    using half_open_finish_ignored [OF assms(3)] finish by blast
  then show ?thesis using finish assms(3) by simp
qed

lemma half_open_steps:
  assumes "breaker_steps s t" and "generations_past s" and "cb_state (bs_breaker s) = CircuitHalfOpen"
  shows "generations_past t \<and> cb_state (bs_breaker t) = CircuitHalfOpen \<and>
         (cnt_requests (cb_counts (bs_breaker s)) \<ge> 1 \<longrightarrow>
          bs_breaker t = bs_breaker s \<and> bs_admitted t = bs_admitted s)"
  using assms
proof (induction rule: rtranclp_induct)
  case base
  then show ?case by simp
next
  case (step t u)
  then show ?case
    using half_open_step [of t u] generations_past_step [of t u] by (auto split: if_splits)
qed

text \<open>
  C40: the half-open state is a trap. Once the breaker is half-open, every interleaving of
  concurrent calls leaves it half-open, whatever their outcomes: it never closes again and
  never reopens. Once its probe has been admitted, no request is admitted any more.
\<close>

theorem half_open_is_absorbing:
  assumes "breaker_steps s t" and "generations_past s"
    and "cb_state (bs_breaker s) = CircuitHalfOpen"
  shows "cb_state (bs_breaker t) = CircuitHalfOpen \<and>
         (cnt_requests (cb_counts (bs_breaker s)) \<ge> 1 \<longrightarrow> bs_admitted t = bs_admitted s)"
  using half_open_steps [OF assms] by blast

definition tripped_breaker :: breaker where
  "tripped_breaker =
     (new_breaker None)\<lparr>cb_state := CircuitOpen, cb_expiry := 63000000000 * second\<rparr>"

definition probing_sys :: breaker_sys where
  "probing_sys =
     \<lparr>bs_breaker = snd (before_request (63000000001 * second) (63000000001 * second) tripped_breaker),
      bs_inflight = [unix_nano (63000000001 * second)], bs_now = 63000000001 * second, bs_admitted = 1\<rparr>"

text \<open>The probe of a tripped breaker succeeds, and the breaker is still half-open.\<close>

theorem half_open_is_absorbing_witness:
  "\<exists>t. breaker_steps probing_sys t \<and> bs_inflight t = [] \<and>
       cb_state (bs_breaker t) = CircuitHalfOpen \<and> bs_admitted t = bs_admitted probing_sys"
proof -
  let ?n = "63000000002 * second"
  let ?t = "probing_sys\<lparr>bs_breaker := after_request (unix_nano (63000000001 * second)) True ?n ?n (bs_breaker probing_sys),
              bs_inflight := remove1 (unix_nano (63000000001 * second)) (bs_inflight probing_sys), bs_now := ?n\<rparr>"
  have lt: "63000000001 * second < ?n" by (simp add: second_def millisecond_def)
  have "breaker_step probing_sys ?t"
    by (rule breaker_step.finish) (simp_all add: probing_sys_def second_def millisecond_def)
  then have steps: "breaker_steps probing_sys ?t" by blast
  have past: "generations_past probing_sys"
    by (simp add: generations_past_def probing_sys_def unix_nano_def second_def millisecond_def)
  have st: "cb_state (bs_breaker probing_sys) = CircuitHalfOpen \<and>
            cnt_requests (cb_counts (bs_breaker probing_sys)) = 1"
    by (simp add: probing_sys_def tripped_breaker_def new_breaker_def breaker_defs
          second_def millisecond_def)
  have "cb_state (bs_breaker ?t) = CircuitHalfOpen \<and> bs_admitted ?t = bs_admitted probing_sys"
    using half_open_is_absorbing [OF steps past] st by simp
  moreover have "bs_inflight ?t = []" by (simp add: probing_sys_def)
  ultimately show ?thesis using steps by blast
qed

section \<open>The path to the trip\<close>

text \<open>A call whose function never returns nil: it returns an error or panics.\<close>

definition call_fails :: "exec_clock \<times> ctx_err \<times> ('w \<Rightarrow> 'w \<times> outcome) \<Rightarrow> bool" where
  "call_fails call \<longleftrightarrow> (case call of (ck, ctx, fn) \<Rightarrow> \<forall>w. snd (fn w) \<noteq> Returned None)"

definition failures_so_far :: "int \<Rightarrow> counts" where
  "failures_so_far n = \<lparr>cnt_requests = n, cnt_total_successes = 0, cnt_total_failures = n,
     cnt_consecutive_successes = 0, cnt_consecutive_failures = n\<rparr>"

lemma closed_call_fails:
  assumes "cb_state cb = CircuitClosed" and "call_fails (ck, ctx, fn)"
  shows "\<exists>w' out. cb_execute ck ctx fn (cb, w) =
     ((on_failure CircuitClosed (ck_after ck)
         (cb\<lparr>cb_counts := (cb_counts cb)\<lparr>cnt_requests := cnt_requests (cb_counts cb) + 1\<rparr>\<rparr>), w'), out)"
proof -
  obtain w' out where f: "fn w = (w', out)" by fastforce
  then have "out \<noteq> Returned None" using assms(2) by (auto simp: call_fails_def dest: spec [where x = w])
  then show ?thesis using assms(1) f
    by (cases ctx; cases out)
       (auto simp: cb_execute_def before_request_def after_request_def current_state_def Let_def)
qed

lemma failing_call_counts:
  assumes "cb_config cb = default_breaker_config" and "cb_state cb = CircuitClosed"
    and "cb_counts cb = failures_so_far n" and "call_fails (ck, ctx, fn)" and "n < 9"
  shows "\<exists>cb' w' out. cb_execute ck ctx fn (cb, w) = ((cb', w'), out) \<and> cb_state cb' = CircuitClosed \<and>
           cb_config cb' = default_breaker_config \<and> cb_counts cb' = failures_so_far (n + 1)"
  using closed_call_fails [OF assms(2,4), of w] assms
  by (auto simp: on_failure_def count_failure_def failures_so_far_def ready_to_trip_def Let_def
        default_breaker_config_def default_ready_to_trip_def)

lemma tenth_failure_trips:
  assumes "cb_config cb = default_breaker_config" and "cb_state cb = CircuitClosed"
    and "cb_counts cb = failures_so_far 9" and "call_fails (ck, ctx, fn)"
  shows "\<exists>cb' w' out. cb_execute ck ctx fn (cb, w) = ((cb', w'), out) \<and> cb_state cb' = CircuitOpen \<and>
           cb_expiry cb' = ck_after ck + 30 * second"
  using closed_call_fails [OF assms(2,4), of w] assms
  by (auto simp: on_failure_def count_failure_def failures_so_far_def ready_to_trip_def Let_def set_state_def
        default_breaker_config_def default_ready_to_trip_def go_quot_def)

lemma failing_calls_counts:
  assumes "cb_config cb = default_breaker_config" and "cb_state cb = CircuitClosed"
    and "cb_counts cb = failures_so_far n" and "list_all call_fails calls"
    and "0 \<le> n" and "n + int (length calls) \<le> 9"
  shows "\<exists>cb' w' outs. cb_execute_all calls (cb, w) = ((cb', w'), outs) \<and> cb_state cb' = CircuitClosed \<and>
           cb_config cb' = default_breaker_config \<and> cb_counts cb' = failures_so_far (n + int (length calls))"
  using assms
proof (induction calls arbitrary: cb n w)
  case Nil
  then show ?case by simp
next
  case (Cons call calls)
  obtain ck ctx fn where call: "call = (ck, ctx, fn)" by (cases call) auto
  obtain cb' w' out where one: "cb_execute ck ctx fn (cb, w) = ((cb', w'), out)"
      "cb_state cb' = CircuitClosed" "cb_config cb' = default_breaker_config"
      "cb_counts cb' = failures_so_far (n + 1)"
    using failing_call_counts [of cb n ck ctx fn w] Cons.prems call by fastforce
  obtain cb2 w2 outs where "cb_execute_all calls (cb', w') = ((cb2, w2), outs)"
      "cb_state cb2 = CircuitClosed" "cb_config cb2 = default_breaker_config"
      "cb_counts cb2 = failures_so_far (n + 1 + int (length calls))"
    using Cons.IH [of cb' "n + 1" w'] Cons.prems one by fastforce
  then show ?case using one call by (simp add: algebra_simps)
qed

text \<open>
  From a new default breaker, nine calls that fail leave it closed and a tenth failing
  call opens it until thirty seconds after that call ended, whatever their errors.
\<close>

theorem ten_failures_open_breaker:
  assumes "list_all call_fails calls" and "length calls = 9" and "call_fails (ck, ctx, fn)"
  shows "\<exists>cb' w' outs cb'' w'' out.
           cb_execute_all calls (new_breaker None, w) = ((cb', w'), outs) \<and> cb_state cb' = CircuitClosed \<and>
           cb_execute ck ctx fn (cb', w') = ((cb'', w''), out) \<and> cb_state cb'' = CircuitOpen \<and>
           cb_expiry cb'' = ck_after ck + 30 * second"
proof -
  have new: "cb_config (new_breaker None) = default_breaker_config"
    "cb_state (new_breaker None) = CircuitClosed" "cb_counts (new_breaker None) = failures_so_far 0"
    by (simp_all add: new_breaker_def zero_counts_def failures_so_far_def)
  obtain cb' w' outs where closed: "cb_execute_all calls (new_breaker None, w) = ((cb', w'), outs)"
      "cb_state cb' = CircuitClosed" "cb_config cb' = default_breaker_config"
      "cb_counts cb' = failures_so_far 9"
    using failing_calls_counts [OF new assms(1)] assms(2) by fastforce
  then show ?thesis using tenth_failure_trips [of cb' ck ctx fn w'] assms(3) by fastforce
qed

definition failing_call :: "exec_clock \<times> ctx_err \<times> (nat \<Rightarrow> nat \<times> outcome)" where
  "failing_call =
     (\<lparr>ck_before = 1, ck_before_nano = 1, ck_after = 2, ck_after_nano = 2\<rparr>, None,
      \<lambda>w. (w + 1, Returned (Some (ErrorString ''down''))))"

theorem ten_failures_open_breaker_witness:
  "\<exists>cb' w' outs cb'' w'' out.
     cb_execute_all (replicate 9 failing_call) (new_breaker None, 0) = ((cb', w'), outs) \<and>
     cb_state cb' = CircuitClosed \<and>
     cb_execute (fst failing_call) (fst (snd failing_call)) (snd (snd failing_call)) (cb', w') = ((cb'', w''), out) \<and>
     cb_state cb'' = CircuitOpen \<and> cb_expiry cb'' = ck_after (fst failing_call) + 30 * second"
  by (rule ten_failures_open_breaker) (simp_all add: call_fails_def failing_call_def list_all_iff)

end
