(* ===== verification/Error_Classification.thy ===== *)
theory Error_Classification
  imports Lattiam_Types
begin

text \<open>
  The error classifier of \<^verbatim>\<open>internal/infra/distributed/error_classification.go\<close>: an error
  value, by its chain of wrapped causes and then by the text of its message, gets a type
  and the recommendations (retry, back off, use the fallback queue) that the resilient
  executor follows.
\<close>

section \<open>Classification\<close>

datatype error_type =
    ErrorTypeUnknown
  | ErrorTypeTransient
  | ErrorTypePermanent
  | ErrorTypeMemoryPressure
  | ErrorTypeConnectionRefused
  | ErrorTypeTimeout
  | ErrorTypeResourceExhausted
  | ErrorTypeAuthentication
  | ErrorTypePermission

fun error_type_string :: "error_type \<Rightarrow> string" where
  "error_type_string ErrorTypeTransient = ''transient''"
| "error_type_string ErrorTypePermanent = ''permanent''"
| "error_type_string ErrorTypeMemoryPressure = ''memory_pressure''"
| "error_type_string ErrorTypeConnectionRefused = ''connection_refused''"
| "error_type_string ErrorTypeTimeout = ''timeout''"
| "error_type_string ErrorTypeResourceExhausted = ''resource_exhausted''"
| "error_type_string ErrorTypeAuthentication = ''authentication''"
| "error_type_string ErrorTypePermission = ''permission''"
| "error_type_string ErrorTypeUnknown = ''unknown''"

record error_info =
  ei_type :: error_type
  ei_retryable :: bool
  ei_requires_backoff :: bool
  ei_suggested_backoff :: string
  ei_use_fallback :: bool
  ei_description :: string

fun contains_any :: "string \<Rightarrow> string list \<Rightarrow> bool" where
  "contains_any s [] = False"
| "contains_any s (pattern # patterns) = (str_contains s pattern \<or> contains_any s patterns)"

definition connection_patterns :: "string list" where
  "connection_patterns =
     [''connection refused'', ''connection reset by peer'', ''connection closed'',
      ''connection pool exhausted'', ''no route to host'', ''network unreachable'']"

definition timeout_patterns :: "string list" where
  "timeout_patterns =
     [''timeout'', ''deadline exceeded'', ''context deadline exceeded'', ''i/o timeout'',
      ''read timeout'', ''write timeout'']"

definition exhaustion_patterns :: "string list" where
  "exhaustion_patterns =
     [''out of memory'', ''oom'', ''oom command not allowed'', ''maxmemory'',
      ''memory limit exceeded'', ''redis: connection pool exhausted'', ''too many connections'',
      ''resource temporarily unavailable'']"

definition authentication_patterns :: "string list" where
  "authentication_patterns =
     [''authentication failed'', ''invalid username or password'', ''noauth'',
      ''permission denied'', ''access denied'', ''unauthorized'']"

definition transient_patterns :: "string list" where
  "transient_patterns =
     [''temporary'', ''temporarily'', ''unavailable'', ''try again'', ''retry'', ''redis:'',
      ''broken pipe'', ''connection aborted'']"

definition classify :: "goerror option \<Rightarrow> error_info" where
  "classify err =
     (case err of
        None \<Rightarrow> \<lparr>ei_type = ErrorTypeUnknown, ei_retryable = False, ei_requires_backoff = False,
                 ei_suggested_backoff = '''', ei_use_fallback = False, ei_description = ''''\<rparr>
      | Some e \<Rightarrow>
          (if errors_as_memory_pressure e then
             \<lparr>ei_type = ErrorTypeMemoryPressure, ei_retryable = False, ei_requires_backoff = True,
              ei_suggested_backoff = ''5s'', ei_use_fallback = True,
              ei_description = ''Redis memory pressure detected''\<rparr>
           else
             (let errStr = to_lower (error_message e) in
              if contains_any errStr connection_patterns then
                \<lparr>ei_type = ErrorTypeConnectionRefused, ei_retryable = True, ei_requires_backoff = True,
                 ei_suggested_backoff = ''1s'', ei_use_fallback = False,
                 ei_description = ''Connection failure''\<rparr>
              else if contains_any errStr timeout_patterns then
                \<lparr>ei_type = ErrorTypeTimeout, ei_retryable = True, ei_requires_backoff = False,
                 ei_suggested_backoff = ''100ms'', ei_use_fallback = False,
                 ei_description = ''Operation timeout''\<rparr>
              else if contains_any errStr exhaustion_patterns then
                \<lparr>ei_type = ErrorTypeResourceExhausted, ei_retryable = False, ei_requires_backoff = True,
                 ei_suggested_backoff = ''5s'', ei_use_fallback = True,
                 ei_description = ''Resource exhaustion (memory/connection limits)''\<rparr>
              else if contains_any errStr authentication_patterns then
                \<lparr>ei_type = ErrorTypeAuthentication, ei_retryable = False, ei_requires_backoff = False,
                 ei_suggested_backoff = '''', ei_use_fallback = False,
                 ei_description = ''Authentication or permission error''\<rparr>
              else if contains_any errStr transient_patterns then
                \<lparr>ei_type = ErrorTypeTransient, ei_retryable = True, ei_requires_backoff = True,
                 ei_suggested_backoff = ''500ms'', ei_use_fallback = True,
                 ei_description = ''Transient error''\<rparr>
              else
                \<lparr>ei_type = ErrorTypeUnknown, ei_retryable = False, ei_requires_backoff = False,
                 ei_suggested_backoff = '''', ei_use_fallback = False,
                 ei_description = ''Unknown error type''\<rparr>)))"

definition classifier_is_retryable :: "goerror option \<Rightarrow> bool" where
  "classifier_is_retryable err = ei_retryable (classify err)"

definition classifier_is_transient :: "goerror option \<Rightarrow> bool" where
  "classifier_is_transient err =
     (let info = classify err in
      ei_type info = ErrorTypeTransient \<or>
      ei_type info = ErrorTypeConnectionRefused \<or>
      ei_type info = ErrorTypeTimeout \<or>
      ei_type info = ErrorTypeResourceExhausted \<or>
      ei_type info = ErrorTypeMemoryPressure)"

definition classifier_should_use_fallback :: "goerror option \<Rightarrow> bool" where
  "classifier_should_use_fallback err = ei_use_fallback (classify err)"

section \<open>What a classification means\<close>

lemma contains_any_iff: "contains_any s ps \<longleftrightarrow> (\<exists>p \<in> set ps. str_contains s p)"
  by (induction s ps rule: contains_any.induct) auto

lemma str_contains_extend: "str_contains s p \<Longrightarrow> str_contains (b @ s @ a) p"
  by (simp add: str_contains_iff) (metis append.assoc)

lemma str_contains_trans: "str_contains s p \<Longrightarrow> str_contains p q \<Longrightarrow> str_contains s q"
  by (simp add: str_contains_iff) (metis append.assoc)

lemma contains_any_extend: "contains_any s ps \<Longrightarrow> contains_any (b @ s @ a) ps"
  by (auto simp: contains_any_iff intro: str_contains_extend)

lemma to_lower_append [simp]: "to_lower (s @ t) = to_lower s @ to_lower t"
  by (simp add: to_lower_def)

lemma classify_type_cases:
  "ei_type (classify err) \<in>
     {ErrorTypeUnknown, ErrorTypeMemoryPressure, ErrorTypeConnectionRefused, ErrorTypeTimeout,
      ErrorTypeResourceExhausted, ErrorTypeAuthentication, ErrorTypeTransient}"
  by (simp add: classify_def Let_def split: option.split)

lemma retryable_by_type:
  "ei_retryable (classify err) \<longleftrightarrow>
     ei_type (classify err) \<in> {ErrorTypeConnectionRefused, ErrorTypeTimeout, ErrorTypeTransient}"
  by (simp add: classify_def Let_def split: option.split)

lemma fallback_by_type:
  "ei_use_fallback (classify err) \<longleftrightarrow>
     ei_type (classify err) \<in> {ErrorTypeMemoryPressure, ErrorTypeResourceExhausted, ErrorTypeTransient}"
  by (simp add: classify_def Let_def split: option.split)

lemma retryable_is_transient: "classifier_is_retryable err \<Longrightarrow> classifier_is_transient err"
  using retryable_by_type [of err]
  by (auto simp: classifier_is_retryable_def classifier_is_transient_def Let_def)

lemma classify_memory_pressure:
  "ei_type (classify (Some e)) = ErrorTypeMemoryPressure \<longleftrightarrow> errors_as_memory_pressure e"
  by (simp add: classify_def Let_def)

text \<open>
  Wrapping an error in more text (\<^verbatim>\<open>fmt.Errorf\<close> with \<^verbatim>\<open>%w\<close>) never hides a memory
  pressure condition or a connection failure: the wrapped error gets exactly the
  recommendations of the cause. It can only promote an error to an earlier rule.
\<close>

theorem wrapping_keeps_classification:
  assumes "ei_type (classify (Some e)) \<in> {ErrorTypeMemoryPressure, ErrorTypeConnectionRefused}"
  shows "classify (Some (WrapError b e a)) = classify (Some e)"
proof (cases "errors_as_memory_pressure e")
  case True
  then show ?thesis by (simp add: classify_def)
next
  case False
  with assms have "contains_any (to_lower (error_message e)) connection_patterns"
    by (simp add: classify_def Let_def split: if_splits)
  with False show ?thesis by (simp add: classify_def Let_def contains_any_extend)
qed

theorem wrapping_keeps_classification_witness:
  "classify (Some (WrapError ''failed to enqueue: '' (ErrorString ''Connection Refused'') ''; timeout'')) =
   classify (Some (ErrorString ''Connection Refused''))"
  by (rule wrapping_keeps_classification) code_simp

text \<open>
  The pattern \<^verbatim>\<open>redis: connection pool exhausted\<close> of the exhaustion rule never decides: the
  connection rule, which comes first, has a part of it as its own pattern. An exhausted
  pool is retried and never goes to the fallback queue.
\<close>

lemma pool_exhausted_is_connection_failure:
  assumes "\<not> errors_as_memory_pressure e"
    and "str_contains (to_lower (error_message e)) ''redis: connection pool exhausted''"
  shows "ei_type (classify (Some e)) = ErrorTypeConnectionRefused"
proof -
  have "str_contains ''redis: connection pool exhausted'' ''connection pool exhausted''" by code_simp
  with assms(2) have "str_contains (to_lower (error_message e)) ''connection pool exhausted''"
    by (rule str_contains_trans)
  then have "contains_any (to_lower (error_message e)) connection_patterns"
    by (auto simp: contains_any_iff connection_patterns_def)
  with assms(1) show ?thesis by (simp add: classify_def Let_def)
qed

end
