(* ===== verification/Go_Time.thy ===== *)
theory Go_Time
  imports Lattiam_Prelude "HOL-Library.Monad_Syntax"
begin

text \<open>
  The texts of points in time the program writes and reads: Go's \<^verbatim>\<open>time.Format\<close> with the
  layouts \<^verbatim>\<open>20060102-150405.000\<close>, \<^verbatim>\<open>RFC3339\<close> and (for JSON) \<^verbatim>\<open>RFC3339Nano\<close>, and
  \<^verbatim>\<open>time.Parse(time.RFC3339, s)\<close>. Dates are proleptic Gregorian; \<open>zone\<close> is how far the
  zone of the text is ahead of UTC. Two results carry the rest: a text of one layout depends
  on the time up to its resolution, and parsing an RFC3339 text gives the time back,
  truncated to the second.
\<close>

section \<open>Dates\<close>

definition days_of :: "time \<Rightarrow> nat" where
  "days_of t = nat (t div (86400 * second))"

text \<open>Year, day of the year from 0, and whether the year is a leap year, of a day since 1-1-1.\<close>

definition year_day :: "nat \<Rightarrow> nat \<times> nat \<times> bool" where
  "year_day d =
     (let n400 = d div 146097; r400 = d mod 146097;
          n100 = min (r400 div 36524) 3; r100 = r400 - n100 * 36524;
          n4 = r100 div 1461; r4 = r100 mod 1461;
          n1 = min (r4 div 365) 3
      in (400 * n400 + 100 * n100 + 4 * n4 + n1 + 1, r4 - n1 * 365,
          n1 = 3 \<and> (n4 \<noteq> 24 \<or> n100 = 3)))"

definition is_leap :: "nat \<Rightarrow> bool" where
  "is_leap y \<longleftrightarrow> y mod 4 = 0 \<and> (y mod 100 \<noteq> 0 \<or> y mod 400 = 0)"

fun month_day :: "nat list \<Rightarrow> nat \<Rightarrow> nat \<Rightarrow> nat \<times> nat" where
  "month_day [] m d = (m, d + 1)"
| "month_day (n # ns) m d = (if d < n then (m, d + 1) else month_day ns (m + 1) (d - n))"

definition month_lengths :: "bool \<Rightarrow> nat list" where
  "month_lengths leap = [31, if leap then 29 else 28, 31, 30, 31, 30, 31, 31, 30, 31, 30]"

definition days_in_month :: "bool \<Rightarrow> nat \<Rightarrow> nat" where
  "days_in_month leap m = (month_lengths leap @ [31]) ! (m - 1)"

definition days_before_year :: "nat \<Rightarrow> int" where
  "days_before_year y =
     (let p = int y - 1 in 365 * p + p div 4 - p div 100 + p div 400)"

definition days_of_date :: "nat \<Rightarrow> nat \<Rightarrow> nat \<Rightarrow> int" where
  "days_of_date y m d =
     days_before_year y + int (sum_list (take (m - 1) (month_lengths (is_leap y)))) + int d - 1"

lemma min_div_bounds:
  assumes "n = min (r div k) m" and "0 < (k::nat)"
  shows "n \<le> m" and "n * k \<le> r" and "n < m \<Longrightarrow> r < n * k + k"
proof -
  have "r div k * k \<le> r" and less: "r < r div k * k + k"
    using assms(2) dividend_less_div_times [of k r] by simp_all
  moreover have "n * k \<le> r div k * k" using assms(1) by (intro mult_le_mono1) simp
  ultimately show "n * k \<le> r" by linarith
  show "n \<le> m" using assms(1) by simp
  show "r < n * k + k" if "n < m"
  proof -
    have "n = r div k" using that assms(1) by (simp add: min_def split: if_splits)
    with less show ?thesis by simp
  qed
qed

lemma year_day_correct:
  assumes "year_day d = (y, yd, leap)"
  shows "days_before_year y + int yd = int d" and "leap = is_leap y"
    and "yd < (if leap then 366 else 365)" and "1 \<le> y"
proof -
  define n400 where "n400 = d div 146097"
  define r400 where "r400 = d mod 146097"
  define n100 where "n100 = min (r400 div 36524) 3"
  define r100 where "r100 = r400 - n100 * 36524"
  define n4 where "n4 = r100 div 1461"
  define r4 where "r4 = r100 mod 1461"
  define n1 where "n1 = min (r4 div 365) 3"
  have res: "y = 400 * n400 + 100 * n100 + 4 * n4 + n1 + 1" "yd = r4 - n1 * 365"
    "leap = (n1 = 3 \<and> (n4 \<noteq> 24 \<or> n100 = 3))"
    using assms
    unfolding n1_def r4_def n4_def r100_def n100_def r400_def n400_def
    by (simp_all only: year_day_def Let_def prod.inject)
  have d: "d = 146097 * n400 + r400" "r400 < 146097" by (simp_all add: n400_def r400_def)
  note n100 = min_div_bounds [OF n100_def zero_less_numeral]
  have r100: "r400 = 36524 * n100 + r100" using n100(2) by (simp add: r100_def)
  have r100_less: "r100 < 36524" if "n100 < 3" using n100(3) [OF that] r100 by linarith
  have r100_le: "r100 \<le> 36524" using r100_less n100(1) r100 d(2) by (cases "n100 < 3") auto
  have r4: "r100 = 1461 * n4 + r4" "r4 < 1461" by (simp_all add: n4_def r4_def)
  have n4: "n4 \<le> 24" using r100_le r4(1) by linarith
  note n1 = min_div_bounds [OF n1_def zero_less_numeral]
  have p: "int y - 1 = 400 * int n400 + 100 * int n100 + 4 * int n4 + int n1" using res(1) by simp
  have bounds: "int n1 \<le> 3" "int n4 \<le> 24" "int n100 \<le> 3"
    using n1(1) n4 n100(1) by simp_all
  have "(int y - 1) div 4 = 100 * int n400 + 25 * int n100 + int n4"
  proof (rule int_div_pos_eq)
    show "int y - 1 = 4 * (100 * int n400 + 25 * int n100 + int n4) + int n1" using p by simp
  qed (use bounds in simp_all)
  moreover have "(int y - 1) div 100 = 4 * int n400 + int n100"
  proof (rule int_div_pos_eq)
    show "int y - 1 = 100 * (4 * int n400 + int n100) + (4 * int n4 + int n1)" using p by simp
  qed (use bounds in simp_all)
  moreover have "(int y - 1) div 400 = int n400"
  proof (rule int_div_pos_eq)
    show "int y - 1 = 400 * int n400 + (100 * int n100 + 4 * int n4 + int n1)" using p by simp
  qed (use bounds in simp_all)
  ultimately show "days_before_year y + int yd = int d"
    using p d(1) r100 r4(1) n1(2) res(2) by (simp add: days_before_year_def Let_def of_nat_diff)
  have small: "v mod k = 0 \<longleftrightarrow> v = k" if "1 \<le> v" and "v \<le> k" for v k :: nat
    using that by (cases "v = k") auto
  have split_y: "y = 4 * (100 * n400 + 25 * n100 + n4) + (n1 + 1)"
    "y = 100 * (4 * n400 + n100) + (4 * n4 + n1 + 1)"
    "y = 400 * n400 + (100 * n100 + 4 * n4 + n1 + 1)" using res(1) by simp_all
  have m4: "y mod 4 = (n1 + 1) mod 4" unfolding split_y(1) by (metis mod_mult_self4)
  have m100: "y mod 100 = (4 * n4 + n1 + 1) mod 100" unfolding split_y(2) by (metis mod_mult_self4)
  have m400: "y mod 400 = (100 * n100 + 4 * n4 + n1 + 1) mod 400" unfolding split_y(3) by (metis mod_mult_self4)
  show "leap = is_leap y"
  proof -
    have a: "y mod 4 = 0 \<longleftrightarrow> n1 = 3" unfolding m4 using n1(1) by (subst small) auto
    have b: "y mod 100 = 0 \<longleftrightarrow> n4 = 24 \<and> n1 = 3"
      unfolding m100 using n1(1) n4 by (subst small) (simp_all, linarith)
    have c: "y mod 400 = 0 \<longleftrightarrow> n100 = 3 \<and> n4 = 24 \<and> n1 = 3"
      unfolding m400 using n1(1) n4 n100(1) by (subst small) (simp_all, linarith)
    show ?thesis unfolding res(3) is_leap_def a b c by blast
  qed
  show "yd < (if leap then 366 else 365)"
  proof (cases "n1 = 3")
    case False
    then have "r4 < n1 * 365 + 365" using n1 by simp
    then show ?thesis using res(2) n1(2) by (simp split: if_split) linarith
  next
    case True
    have "r4 < 1460" if "n4 = 24" "n100 \<noteq> 3"
      using that r4 r100_less n100(1) by simp
    then show ?thesis using True res(2,3) r4(2) by auto
  qed
  show "1 \<le> y" using res(1) by simp
qed

section \<open>Texts\<close>

text \<open>Year, month, day and the seconds of the day of a time.\<close>

definition civil :: "time \<Rightarrow> nat \<times> nat \<times> nat \<times> nat" where
  "civil t =
     (let (y, yd, leap) = year_day (days_of t);
          (m, d) = month_day (month_lengths leap) 1 yd
      in (y, m, d, nat (t div second mod 86400)))"

definition pad_num :: "nat \<Rightarrow> nat \<Rightarrow> string" where
  "pad_num w n = replicate (w - length (digits_of n)) (CHR ''0'') @ digits_of n"

definition format_stamp :: "duration \<Rightarrow> time \<Rightarrow> string" where
  "format_stamp zone t =
     (let (y, m, d, s) = civil (t + zone)
      in pad_num 4 y @ pad_num 2 m @ pad_num 2 d @ ''-'' @
         pad_num 2 (s div 3600) @ pad_num 2 (s div 60 mod 60) @ pad_num 2 (s mod 60) @ ''.'' @
         pad_num 3 (nat ((t + zone) div millisecond mod 1000)))"

definition zone_text :: "duration \<Rightarrow> string" where
  "zone_text zone =
     (if zone = 0 then ''Z''
      else (if zone < 0 then ''-'' else ''+'') @
           pad_num 2 (nat (\<bar>zone\<bar> div (60 * minute))) @ '':'' @ pad_num 2 (nat (\<bar>zone\<bar> div minute mod 60)))"

definition date_time_text :: "time \<Rightarrow> string" where
  "date_time_text t =
     (let (y, m, d, s) = civil t
      in pad_num 4 y @ ''-'' @ pad_num 2 m @ ''-'' @ pad_num 2 d @ ''T'' @
         pad_num 2 (s div 3600) @ '':'' @ pad_num 2 (s div 60 mod 60) @ '':'' @ pad_num 2 (s mod 60))"

definition format_rfc3339 :: "duration \<Rightarrow> time \<Rightarrow> string" where
  "format_rfc3339 zone t = date_time_text (t + zone) @ zone_text zone"

definition format_rfc3339_nano :: "duration \<Rightarrow> time \<Rightarrow> string" where
  "format_rfc3339_nano zone t =
     (let frac = nat ((t + zone) mod second);
          digits = rev (dropWhile (\<lambda>c. c = CHR ''0'') (rev (pad_num 9 frac)))
      in date_time_text (t + zone) @ (if frac = 0 then '''' else ''.'' @ digits) @ zone_text zone)"

text \<open>
  \<^verbatim>\<open>time.Parse(time.RFC3339, s)\<close> for texts in the form of the layout, with optional
  fractional seconds: fixed widths, ranges checked, the zone subtracted.
\<close>

definition take_num :: "nat \<Rightarrow> string \<Rightarrow> (nat \<times> string) option" where
  "take_num w s =
     (if length s < w then None
      else map_option (\<lambda>n. (n, drop w s)) (parse_digits 0 (take w s)))"

fun expect :: "char \<Rightarrow> string \<Rightarrow> string option" where
  "expect c [] = None"
| "expect c (x # s) = (if x = c then Some s else None)"

definition take_fraction :: "string \<Rightarrow> (int \<times> string) option" where
  "take_fraction s =
     (case s of
        [] \<Rightarrow> Some (0, s)
      | c # r \<Rightarrow>
          (if c = CHR ''.'' then
             (let ds = takeWhile (\<lambda>c. digit_value c \<noteq> None) r;
                  ds9 = take 9 (ds @ replicate 9 (CHR ''0''))
              in if ds = [] then None
                 else map_option (\<lambda>n. (int n, drop (length ds) r)) (parse_digits 0 ds9))
           else Some (0, s)))"

definition parse_zone :: "string \<Rightarrow> duration option" where
  "parse_zone s =
     (case s of
        [] \<Rightarrow> None
      | c # r \<Rightarrow>
          (if c = CHR ''Z'' then (if r = [] then Some 0 else None)
           else if c = CHR ''+'' \<or> c = CHR ''-'' then
             do { (h, r1) \<leftarrow> take_num 2 r; r2 \<leftarrow> expect (CHR '':'') r1; (m, r3) \<leftarrow> take_num 2 r2;
                  if r3 = [] \<and> h \<le> 24 \<and> m < 60
                  then Some ((if c = CHR ''-'' then -1 else 1) * (int h * 60 + int m) * minute)
                  else None }
           else None))"

definition parse_rfc3339 :: "string \<Rightarrow> time option" where
  "parse_rfc3339 s0 =
     do { (y, s1) \<leftarrow> take_num 4 s0; s2 \<leftarrow> expect (CHR ''-'') s1;
          (m, s3) \<leftarrow> take_num 2 s2; s4 \<leftarrow> expect (CHR ''-'') s3;
          (d, s5) \<leftarrow> take_num 2 s4; s6 \<leftarrow> expect (CHR ''T'') s5;
          (h, s7) \<leftarrow> take_num 2 s6; s8 \<leftarrow> expect (CHR '':'') s7;
          (mi, s9) \<leftarrow> take_num 2 s8; s10 \<leftarrow> expect (CHR '':'') s9;
          (sec, s11) \<leftarrow> take_num 2 s10;
          (frac, s12) \<leftarrow> take_fraction s11;
          zone \<leftarrow> parse_zone s12;
          if 1 \<le> m \<and> m \<le> 12 \<and> 1 \<le> d \<and> d \<le> days_in_month (is_leap y) m \<and> h < 24 \<and> mi < 60 \<and> sec < 60
          then Some ((days_of_date y m d * 86400 + int (h * 3600 + mi * 60 + sec)) * second + frac - zone)
          else None }"

text \<open>Two points in time of one millisecond have the same stamp.\<close>

lemma format_stamp_millisecond:
  assumes "(t + zone) div millisecond = (t' + zone) div millisecond"
  shows "format_stamp zone t = format_stamp zone t'"
proof -
  have "u div (86400 * second) = (u div millisecond) div 86400000"
    "u div second = (u div millisecond) div 1000" for u :: int
    by (simp_all add: second_def millisecond_def zdiv_zmult2_eq [symmetric])
  then show ?thesis using assms by (simp add: format_stamp_def civil_def days_of_def)
qed

section \<open>Parsing a printed time\<close>

lemma month_day_spec:
  "month_day ns m d = (m', dd) \<Longrightarrow>
     \<exists>k \<le> length ns. m' = m + k \<and> dd + sum_list (take k ns) = d + 1 \<and> 1 \<le> dd \<and> (k < length ns \<longrightarrow> dd \<le> ns ! k)"
proof (induction ns m d rule: month_day.induct)
  case (1 m d)
  then show ?case by auto
next
  case (2 n ns m d)
  show ?case
  proof (cases "d < n")
    case True
    with "2.prems" show ?thesis by (intro exI [of _ 0]) auto
  next
    case False
    with 2 obtain k where "k \<le> length ns" "m' = m + 1 + k" "dd + sum_list (take k ns) = d - n + 1" "1 \<le> dd"
      "k < length ns \<longrightarrow> dd \<le> ns ! k" by auto
    with False show ?thesis by (intro exI [of _ "Suc k"]) auto
  qed
qed

lemma civil_correct:
  assumes "civil t = (y, m, d, s)" and "0 \<le> t"
  shows "days_of_date y m d * 86400 + int s = t div second"
    and "1 \<le> m" "m \<le> 12" "1 \<le> d" "d \<le> days_in_month (is_leap y) m" "s < 86400" "1 \<le> y"
proof -
  obtain yd leap where yd: "year_day (days_of t) = (y, yd, leap)"
    and md: "month_day (month_lengths leap) 1 yd = (m, d)" and s: "s = nat (t div second mod 86400)"
    using assms(1) by (auto simp: civil_def Let_def split: prod.splits)
  note year = year_day_correct [OF yd]
  from month_day_spec [OF md] obtain k where k: "k \<le> 11" "m = 1 + k" "1 \<le> d"
    "d + sum_list (take k (month_lengths leap)) = yd + 1"
    "k < 11 \<longrightarrow> d \<le> month_lengths leap ! k"
    by (auto simp: month_lengths_def)
  show "1 \<le> m" "m \<le> 12" "1 \<le> d" using k by simp_all
  show "d \<le> days_in_month (is_leap y) m"
  proof (cases "k < 11")
    case True
    have "length (month_lengths (is_leap y)) = 11" by (simp add: month_lengths_def)
    with True show ?thesis using k(2,5) year(2) by (simp add: days_in_month_def nth_append)
  next
    case False
    then have "k = 11" using k(1) by simp
    then show ?thesis using k(2,4) year(2,3)
      by (auto simp: days_in_month_def month_lengths_def split: if_splits)
  qed
  show "1 \<le> y" by (rule year(4))
  show "s < 86400" using s by (simp add: nat_less_iff)
  have "days_of_date y m d = int (days_of t)"
    using k(2,4) year(1,2) by (simp add: days_of_date_def)
  also have "\<dots> = t div second div 86400"
    using assms(2) by (simp add: days_of_def second_def millisecond_def zdiv_zmult2_eq [symmetric] pos_imp_zdiv_nonneg_iff)
  finally show "days_of_date y m d * 86400 + int s = t div second"
    using s by (simp add: mult.commute)
qed

lemma parse_digits_zeros: "parse_digits 0 (replicate k (CHR ''0'') @ s) = parse_digits 0 s"
  by (induction k) (auto simp: digit_value_def)

lemma length_digits_of: "1 \<le> w \<Longrightarrow> n < 10 ^ w \<Longrightarrow> length (digits_of n) \<le> w"
proof (induction n arbitrary: w rule: digits_of.induct)
  case (1 n)
  show ?case
  proof (cases "n < 10")
    case True
    then show ?thesis using 1(2) by (simp add: digits_of.simps [of n])
  next
    case False
    then obtain w' where w: "w = Suc w'" "1 \<le> w'" using 1(2,3) by (cases w; cases "w - 1") auto
    then have "n div 10 < 10 ^ w'" using 1(3) by (simp add: less_mult_imp_div_less mult.commute)
    with False 1(1) [OF False w(2)] w show ?thesis by (simp add: digits_of.simps [of n])
  qed
qed

lemma length_pad_num: "1 \<le> w \<Longrightarrow> n < 10 ^ w \<Longrightarrow> length (pad_num w n) = w"
  using length_digits_of [of w n] by (simp add: pad_num_def)

lemma take_num_pad_num:
  assumes "1 \<le> w" and "n < 10 ^ w"
  shows "take_num w (pad_num w n @ r) = Some (n, r)"
proof -
  have "parse_digits 0 (pad_num w n) = Some n"
    by (simp add: pad_num_def parse_digits_zeros parse_digits_digits_of)
  then show ?thesis using length_pad_num [OF assms] by (simp add: take_num_def)
qed

text \<open>The bounds under which the texts have their fixed widths: the years 1 to 9999.\<close>

definition max_time :: time where
  "max_time = 3652059 * 86400 * second"

lemma year_bound:
  assumes "year_day d = (y, yd, leap)" and "d < 3652059"
  shows "y \<le> 9999"
proof (rule ccontr)
  assume "\<not> y \<le> 9999"
  then have "10000 \<le> y" by simp
  then obtain e' where "y = 10000 + e'" using le_Suc_ex by blast
  then have e: "int y - 1 = 9999 + int e'" by simp
  have "3652059 \<le> days_before_year y"
  proof -
    have "(9999::int) div 4 \<le> (9999 + int e') div 4" "(9999::int) div 400 \<le> (9999 + int e') div 400"
      by (rule zdiv_mono1; simp)+
    moreover have "(9999 + int e') div 100 \<le> 99 + int e'" by linarith
    ultimately show ?thesis unfolding days_before_year_def Let_def e by simp
  qed
  then show False using year_day_correct(1) [OF assms(1)] assms(2) by simp
qed

lemma days_in_month_le:
  assumes "1 \<le> m" and "m \<le> 12"
  shows "days_in_month leap m \<le> 31"
proof -
  have "m - 1 < length (month_lengths leap @ [31])" using assms by (simp add: month_lengths_def)
  then have "days_in_month leap m \<in> set (month_lengths leap @ [31])"
    unfolding days_in_month_def by (rule nth_mem)
  then show ?thesis by (auto simp: month_lengths_def split: if_splits)
qed

text \<open>
  Parsing the RFC3339 text of a time of the years 1 to 9999, printed in UTC, gives the time
  truncated to the second.
\<close>

lemma parse_format_rfc3339:
  assumes "0 \<le> t" and "t < max_time"
  shows "parse_rfc3339 (format_rfc3339 0 t) = Some (t - t mod second)"
proof -
  obtain y m d s where c: "civil t = (y, m, d, s)" by (metis surj_pair)
  note civ = civil_correct [OF c assms(1)]
  have "days_of t < 3652059"
  proof -
    have "t \<le> max_time - 1" using assms(2) by simp
    then have "t div (86400 * second) \<le> (max_time - 1) div (86400 * second)"
      by (rule zdiv_mono1) (simp add: second_def millisecond_def)
    then show ?thesis by (simp add: days_of_def max_time_def second_def millisecond_def)
  qed
  then have "y \<le> 9999" using c year_bound [of "days_of t" y] by (auto simp: civil_def Let_def split: prod.splits)
  then have y: "y < 10 ^ 4" by simp
  have d: "d < 10 ^ 2" using order_trans [OF civ(5) days_in_month_le [OF civ(2,3)]] by simp
  have hms: "s div 3600 < 24" "s div 60 mod 60 < 60" "s mod 60 < 60"
    using civ(6) by (simp_all add: less_mult_imp_div_less)
  then have rest: "m < 10 ^ 2" "s div 3600 < 10 ^ 2" "s div 60 mod 60 < 10 ^ 2" "s mod 60 < 10 ^ 2"
    using civ(3) by simp_all
  have "s div 3600 * 3600 + s div 60 mod 60 * 60 + s mod 60 = s"
  proof -
    have "s div 3600 = s div 60 div 60" by (simp add: div_mult2_eq [symmetric])
    moreover have "s div 60 div 60 * 60 + s div 60 mod 60 = s div 60" "s div 60 * 60 + s mod 60 = s"
      by (rule div_mult_mod_eq)+
    ultimately show ?thesis by linarith
  qed
  then have sec: "(days_of_date y m d * 86400 + int (s div 3600 * 3600 + s div 60 mod 60 * 60 + s mod 60)) * second = t - t mod second"
    using civ(1) minus_mod_eq_div_mult [of t second] by metis
  have take: "take_num 4 (pad_num 4 y @ r) = Some (y, r)" "take_num 2 (pad_num 2 m @ r) = Some (m, r)"
    "take_num 2 (pad_num 2 d @ r) = Some (d, r)"
    "take_num 2 (pad_num 2 (s div 3600) @ r) = Some (s div 3600, r)"
    "take_num 2 (pad_num 2 (s div 60 mod 60) @ r) = Some (s div 60 mod 60, r)"
    "take_num 2 (pad_num 2 (s mod 60) @ r) = Some (s mod 60, r)" for r
    using y d rest by (simp_all only: take_num_pad_num one_le_numeral)
  have tail: "take_fraction ''Z'' = Some (0, ''Z'')" "parse_zone ''Z'' = Some 0"
    by (simp_all add: take_fraction_def parse_zone_def)
  have "parse_rfc3339 (format_rfc3339 0 t) =
     Some ((days_of_date y m d * 86400 + int (s div 3600 * 3600 + s div 60 mod 60 * 60 + s mod 60)) * second + 0 - 0)"
    using civ(2-5) hms
    by (simp only: parse_rfc3339_def format_rfc3339_def date_time_text_def c zone_text_def Let_def case_prod_conv
        append_assoc append_Cons append_Nil take tail expect.simps bind.bind_lunit add_0_right simp_thms if_True)
  then show ?thesis using sec by simp
qed

end
