(* ===== verification/Fallback_Queue.thy ===== *)
theory Fallback_Queue
  imports Lattiam_Types Go_Time
begin

text \<open>
  The in-memory fallback queue of \<^verbatim>\<open>internal/infra/distributed/fallback_queue.go\<close>. An
  operation's function acts on a state of type \<open>'w\<close>. The map's operations are pointers, so
  the attempts a retry counts are visible in the map. Each operation below is one run
  without interference; clock readings are arguments. \<open>fq_stopped\<close> tells that \<^verbatim>\<open>stopCh\<close> has
  been closed, \<open>None\<close> as a result that the operation panics.
\<close>



section \<open>State and operations\<close>

record 'w fallback_operation =
  fo_id :: string
  fo_operation :: string
  fo_timestamp :: time
  fo_expires_at :: time
  fo_attempts :: int
  fo_fn :: "'w \<Rightarrow> 'w \<times> goerror option"

record 'w fallback_queue =
  fq_operations :: "(string \<times> 'w fallback_operation) list"
  fq_ttl :: duration
  fq_stopped :: bool

definition new_fallback_queue :: "duration \<Rightarrow> 'w fallback_queue" where
  "new_fallback_queue ttl = \<lparr>fq_operations = [], fq_ttl = ttl, fq_stopped = False\<rparr>"

definition generate_operation_id :: "duration \<Rightarrow> time \<Rightarrow> string \<Rightarrow> string" where
  "generate_operation_id zone t operation = operation @ ''-'' @ format_stamp zone t"

text \<open>\<^verbatim>\<open>Store\<close>: \<open>idt\<close> is the clock reading of \<^verbatim>\<open>generateOperationID\<close>, \<open>now\<close> the next one.\<close>

definition fq_store ::
  "duration \<Rightarrow> time \<Rightarrow> time \<Rightarrow> string \<Rightarrow> ('w \<Rightarrow> 'w \<times> goerror option) \<Rightarrow> 'w fallback_queue \<Rightarrow>
     'w fallback_queue \<times> goerror option" where
  "fq_store zone idt now operation fn fq =
     (let opid = generate_operation_id zone idt operation;
          entry = \<lparr>fo_id = opid, fo_operation = operation, fo_timestamp = now,
                   fo_expires_at = now + fq_ttl fq, fo_attempts = 0, fo_fn = fn\<rparr>
      in (fq\<lparr>fq_operations := map_put opid entry (fq_operations fq)\<rparr>, None))"

definition fq_remove :: "string \<Rightarrow> 'w fallback_queue \<Rightarrow> 'w fallback_queue" where
  "fq_remove opid fq = fq\<lparr>fq_operations := map_del opid (fq_operations fq)\<rparr>"

definition fq_retry_operation ::
  "'w fallback_operation \<Rightarrow> 'w \<Rightarrow> ('w fallback_operation \<times> 'w) \<times> bool" where
  "fq_retry_operation entry w =
     (let entry' = entry\<lparr>fo_attempts := fo_attempts entry + 1\<rparr>;
          (w', err) = fo_fn entry' w
      in ((entry', w'), err = None))"

fun fq_retry_loop ::
  "'w fallback_operation list \<Rightarrow> nat \<Rightarrow> 'w fallback_queue \<times> 'w \<Rightarrow> ('w fallback_queue \<times> 'w) \<times> nat" where
  "fq_retry_loop [] n (fq, w) = ((fq, w), n)"
| "fq_retry_loop (entry # entries) n (fq, w) =
     (let ((entry', w'), ok) = fq_retry_operation entry w;
          fq1 = fq\<lparr>fq_operations := map_put (fo_id entry) entry' (fq_operations fq)\<rparr>
      in if ok then fq_retry_loop entries (Suc n) (fq_remove (fo_id entry) fq1, w')
         else fq_retry_loop entries n (fq1, w'))"

text \<open>\<^verbatim>\<open>Retry\<close>: \<open>now k\<close> is the clock when the loop looks at the entry under key \<open>k\<close>.\<close>

definition fq_retry ::
  "(string \<Rightarrow> time) \<Rightarrow> 'w fallback_queue \<times> 'w \<Rightarrow> ('w fallback_queue \<times> 'w) \<times> nat" where
  "fq_retry now s =
     fq_retry_loop
       (map snd (filter (\<lambda>(k, entry). \<not> fo_expires_at entry < now k) (fq_operations (fst s)))) 0 s"

definition fq_cleanup :: "time \<Rightarrow> 'w fallback_queue \<Rightarrow> 'w fallback_queue" where
  "fq_cleanup now fq =
     fq\<lparr>fq_operations := filter (\<lambda>(k, entry). \<not> fo_expires_at entry < now) (fq_operations fq)\<rparr>"

definition fq_size :: "'w fallback_queue \<Rightarrow> nat" where
  "fq_size fq = length (fq_operations fq)"

definition fq_close :: "'w fallback_queue \<Rightarrow> 'w fallback_queue option" where
  "fq_close fq =
     (if fq_stopped fq then None else Some (fq\<lparr>fq_operations := [], fq_stopped := True\<rparr>))"

section \<open>Well-formed queues\<close>

text \<open>Keys are distinct and each entry is stored under its own identifier.\<close>

definition fq_wf :: "'w fallback_queue \<Rightarrow> bool" where
  "fq_wf fq \<longleftrightarrow> map_wf (fq_operations fq) \<and> (\<forall>(k, entry) \<in> set (fq_operations fq). fo_id entry = k)"

lemma fq_wf_new: "fq_wf (new_fallback_queue ttl)"
  by (simp add: fq_wf_def new_fallback_queue_def)

lemma fq_wf_put: "fq_wf fq \<Longrightarrow> fo_id entry = k \<Longrightarrow>
    fq_wf (fq\<lparr>fq_operations := map_put k entry (fq_operations fq)\<rparr>)"
  using set_map_put [of k entry "fq_operations fq"] by (auto simp: fq_wf_def map_wf_put)

lemma fq_wf_store: "fq_wf fq \<Longrightarrow> fq_wf (fst (fq_store zone idt now operation fn fq))"
  by (simp add: fq_store_def Let_def fq_wf_put)

lemma fq_wf_remove: "fq_wf fq \<Longrightarrow> fq_wf (fq_remove opid fq)"
  by (auto simp: fq_wf_def fq_remove_def map_wf_del) (auto simp: map_del_def)

lemma fq_wf_cleanup: "fq_wf fq \<Longrightarrow> fq_wf (fq_cleanup now fq)"
  by (auto simp: fq_wf_def fq_cleanup_def map_wf_def distinct_map inj_on_def)

lemma fq_wf_retry_loop: "fq_wf fq \<Longrightarrow> fq_wf (fst (fst (fq_retry_loop entries n (fq, w))))"
proof (induction entries n "(fq, w)" arbitrary: fq w rule: fq_retry_loop.induct)
  case (1 n fq w)
  then show ?case by simp
next
  case (2 entry entries n fq w)
  obtain e' w' ok where r: "fq_retry_operation entry w = ((e', w'), ok)" by (metis surj_pair)
  then have "fo_id e' = fo_id entry" by (auto simp: fq_retry_operation_def Let_def split: prod.splits)
  then have wf: "fq_wf (fq\<lparr>fq_operations := map_put (fo_id entry) e' (fq_operations fq)\<rparr>)"
    using "2.prems" by (simp add: fq_wf_put)
  show ?case
    using 2(1) [OF r [symmetric] refl refl] 2(2) [OF r [symmetric] refl refl] r wf
    by (cases ok) (auto simp: Let_def fq_wf_remove)
qed

section \<open>What a retry and a cleanup leave\<close>

lemma length_map_del:
  "map_wf m \<Longrightarrow> k \<in> fst ` set m \<Longrightarrow> Suc (length (map_del k m)) = length m"
proof (induction m)
  case (Cons e m)
  show ?case
  proof (cases "fst e = k")
    case True
    then have "map_del k m = m" using Cons.prems(1) unfolding map_wf_def map_del_def by (subst filter_id_conv) (force simp: image_iff)
    then show ?thesis using True by (simp add: map_del_def)
  next
    case False
    then show ?thesis using Cons by (auto simp: map_wf_def map_del_def)
  qed
qed simp

lemma fq_retry_operation_id:
  "fq_retry_operation entry w = ((e', w'), ok) \<Longrightarrow>
     e' = entry\<lparr>fo_attempts := fo_attempts entry + 1\<rparr> \<and> (ok \<longleftrightarrow> snd (fo_fn entry w) = None)"
  by (auto simp: fq_retry_operation_def Let_def split: prod.splits)

abbreviation retried :: "'w fallback_operation list \<Rightarrow> nat \<Rightarrow> 'w fallback_queue \<Rightarrow> 'w \<Rightarrow> 'w fallback_queue" where
  "retried entries n fq w \<equiv> fst (fst (fq_retry_loop entries n (fq, w)))"

lemma retry_step:
  obtains e' w' ok where "fq_retry_operation entry w = ((e', w'), ok)"
    and "e' = entry\<lparr>fo_attempts := fo_attempts entry + 1\<rparr>" and "ok \<longleftrightarrow> snd (fo_fn entry w) = None"
    and "\<And>entries n fq. fq_retry_loop (entry # entries) n (fq, w) =
           (if ok then fq_retry_loop entries (Suc n)
                         (fq_remove (fo_id entry) (fq\<lparr>fq_operations := map_put (fo_id entry) e' (fq_operations fq)\<rparr>), w')
            else fq_retry_loop entries n (fq\<lparr>fq_operations := map_put (fo_id entry) e' (fq_operations fq)\<rparr>, w'))"
proof -
  obtain e' w' ok where r: "fq_retry_operation entry w = ((e', w'), ok)" by (metis surj_pair)
  show thesis by (rule that [OF r]) (use r fq_retry_operation_id [OF r] in \<open>simp_all add: Let_def\<close>)
qed

lemma retry_loop_other:
  "k \<notin> fo_id ` set entries \<Longrightarrow> map_of (fq_operations (retried entries n fq w)) k = map_of (fq_operations fq) k"
proof (induction entries arbitrary: n fq w)
  case (Cons entry entries)
  then show ?case by (rule_tac retry_step [of entry w]) (auto simp: fq_remove_def)
qed simp

lemma retry_loop_lookup:
  assumes "distinct (map fo_id entries)" and "e \<in> set entries"
  shows "((\<forall>w. snd (fo_fn e w) \<noteq> None) \<longrightarrow>
            map_of (fq_operations (retried entries n fq w)) (fo_id e) = Some (e\<lparr>fo_attempts := fo_attempts e + 1\<rparr>)) \<and>
         ((\<forall>w. snd (fo_fn e w) = None) \<longrightarrow> map_of (fq_operations (retried entries n fq w)) (fo_id e) = None)"
  using assms
proof (induction entries arbitrary: n fq w)
  case (Cons entry entries)
  show ?case
  proof (cases "e = entry")
    case True
    then have "fo_id e \<notin> fo_id ` set entries" using Cons.prems by auto
    then show ?thesis using True
      by (rule_tac retry_step [of entry w]) (auto simp: fq_remove_def retry_loop_other)
  next
    case False
    then show ?thesis using Cons by (rule_tac retry_step [of entry w]) auto
  qed
qed simp

lemma retry_loop_count:
  assumes "distinct (map fo_id entries)" and "fo_id ` set entries \<subseteq> fst ` set (fq_operations fq)" and "fq_wf fq"
    and "fq_retry_loop entries n (fq, w) = ((fq', w'), n')"
  shows "n' + fq_size fq' = n + fq_size fq"
  using assms
proof (induction entries arbitrary: n fq w)
  case (Cons entry entries)
  obtain e1 w1 ok where r: "e1 = entry\<lparr>fo_attempts := fo_attempts entry + 1\<rparr>"
    "fq_retry_loop (entry # entries) n (fq, w) =
       (if ok then fq_retry_loop entries (Suc n)
                     (fq_remove (fo_id entry) (fq\<lparr>fq_operations := map_put (fo_id entry) e1 (fq_operations fq)\<rparr>), w1)
        else fq_retry_loop entries n (fq\<lparr>fq_operations := map_put (fo_id entry) e1 (fq_operations fq)\<rparr>, w1))"
    by (metis retry_step)
  let ?fq = "fq\<lparr>fq_operations := map_put (fo_id entry) e1 (fq_operations fq)\<rparr>"
  have wf: "fq_wf ?fq" using Cons.prems(3) r(1) by (simp add: fq_wf_put)
  have "fo_id entry \<in> fst ` set (fq_operations fq)" using Cons.prems(2) by auto
  then have size: "fq_size ?fq = fq_size fq" "Suc (fq_size (fq_remove (fo_id entry) ?fq)) = fq_size ?fq"
    using wf by (auto simp: fq_size_def fq_remove_def fq_wf_def length_map_put length_map_del)
  have keys: "fo_id ` set entries \<subseteq> fst ` set (fq_operations ?fq)"
    "fo_id ` set entries \<subseteq> fst ` set (fq_operations (fq_remove (fo_id entry) ?fq))"
    using Cons.prems(1,2) unfolding fq_remove_def by (simp_all del: image_iff) blast+
  show ?case
    using Cons.IH [of ?fq n w1] Cons.IH [of "fq_remove (fo_id entry) ?fq" "Suc n" w1]
      Cons.prems(1,4) r(2) wf keys size fq_wf_remove [OF wf, of "fo_id entry"]
    by (cases ok) simp_all
qed simp

lemma retry_entries:
  assumes "fq_wf fq"
  shows "distinct (map fo_id (map snd (filter P (fq_operations fq))))"
    and "fo_id ` set (map snd (filter P (fq_operations fq))) \<subseteq> fst ` set (fq_operations fq)"
proof -
  have "map (fo_id \<circ> snd) (filter P (fq_operations fq)) = map fst (filter P (fq_operations fq))"
    using assms by (auto simp: fq_wf_def)
  then show "distinct (map fo_id (map snd (filter P (fq_operations fq))))"
    using assms by (simp add: fq_wf_def map_wf_def distinct_map_filter flip: map_map)
  show "fo_id ` set (map snd (filter P (fq_operations fq))) \<subseteq> fst ` set (fq_operations fq)"
    using assms by (force simp: fq_wf_def)
qed

text \<open>
  A retry of the fallback queue returns the number of operations it removed. It removes
  an unexpired operation that succeeds, keeps one that fails with its attempts counted, and
  does not touch an expired one.
\<close>

theorem fallback_retry:
  assumes "fq_wf fq" and "fq_retry now (fq, w) = ((fq', w'), n)"
    and "map_of (fq_operations fq) k = Some e"
  shows "n = fq_size fq - fq_size fq' \<and> fq_size fq' \<le> fq_size fq \<and>
    (fo_expires_at e < now k \<longrightarrow> map_of (fq_operations fq') k = Some e) \<and>
    (\<not> fo_expires_at e < now k \<and> (\<forall>w. snd (fo_fn e w) \<noteq> None) \<longrightarrow>
       map_of (fq_operations fq') k = Some (e\<lparr>fo_attempts := fo_attempts e + 1\<rparr>)) \<and>
    (\<not> fo_expires_at e < now k \<and> (\<forall>w. snd (fo_fn e w) = None) \<longrightarrow>
       map_of (fq_operations fq') k = None)"
proof -
  let ?live = "\<lambda>(k, entry). \<not> fo_expires_at entry < now k"
  let ?es = "map snd (filter ?live (fq_operations fq))"
  have run: "fq_retry_loop ?es 0 (fq, w) = ((fq', w'), n)" using assms(2) by (simp add: fq_retry_def)
  have fq': "fq' = retried ?es 0 fq w" using run by simp
  have kid: "fo_id e = k" using assms(1) map_of_SomeD [OF assms(3)] by (auto simp: fq_wf_def)
  have count: "n + fq_size fq' = fq_size fq"
    using retry_loop_count [OF retry_entries [OF assms(1)] assms(1) run] by simp
  have expired: "k \<notin> fo_id ` set ?es" if "fo_expires_at e < now k"
  proof
    assume "k \<in> fo_id ` set ?es"
    then obtain k' e' where "(k', e') \<in> set (fq_operations fq)" "\<not> fo_expires_at e' < now k'" "fo_id e' = k"
      by auto
    moreover from this have "k' = k" using assms(1) by (auto simp: fq_wf_def)
    ultimately show False using assms(1,3) that by (auto simp: fq_wf_def map_wf_def)
  qed
  have live: "e \<in> set ?es" if "\<not> fo_expires_at e < now k"
    using that map_of_SomeD [OF assms(3)] by force
  show ?thesis
    using count expired live retry_loop_other [of k ?es 0 fq w]
      retry_loop_lookup [OF retry_entries(1) [OF assms(1)], of e ?live 0 fq w]
    by (auto simp: fq' kid assms(3))
qed

definition sample_operation :: "nat fallback_operation" where
  "sample_operation = \<lparr>fo_id = ''a'', fo_operation = ''enqueue'', fo_timestamp = 1, fo_expires_at = 300,
     fo_attempts = 0, fo_fn = (\<lambda>w. (w + 1, None))\<rparr>"

definition sample_fallback :: "nat fallback_queue" where
  "sample_fallback = \<lparr>fq_operations = [(''a'', sample_operation)], fq_ttl = 299, fq_stopped = False\<rparr>"

theorem fallback_retry_witness:
  "\<exists>fq'. fq_retry (\<lambda>_. 7) (sample_fallback, 0) = ((fq', 1), 1) \<and> map_of (fq_operations fq') ''a'' = None"
proof -
  obtain fq' where run: "fq_retry (\<lambda>_. 7) (sample_fallback, 0) = ((fq', 1), 1)"
    by (simp add: fq_retry_def sample_fallback_def sample_operation_def fq_retry_operation_def)
  have "map_of (fq_operations fq') ''a'' = None"
    using fallback_retry [OF _ run, of "''a''" sample_operation]
    by (simp add: sample_fallback_def sample_operation_def fq_wf_def map_wf_def)
  with run show ?thesis by blast
qed

text \<open>
  A cleanup leaves exactly the operations that have not expired, so an operation no retry
  has completed is gone, unrun, after the first cleanup past its time to live.
\<close>

lemma fallback_cleanup:
  assumes "fq_wf fq"
  shows "map_of (fq_operations (fq_cleanup now fq)) k =
           (case map_of (fq_operations fq) k of
              None \<Rightarrow> None | Some e \<Rightarrow> if fo_expires_at e < now then None else Some e)"
  using assms by (auto simp: fq_wf_def fq_cleanup_def map_of_filter_wf split: option.split)

text \<open>
  Identifiers have the resolution of a millisecond. A second operation of one name
  stored within the same millisecond replaces the first, which is lost although its
  \<^verbatim>\<open>Store\<close> returned no error.
\<close>

theorem fallback_store_collision:
  assumes "(t1 + zone) div millisecond = (t2 + zone) div millisecond"
    and "fq_store zone t1 now1 operation f1 fq = (fq1, None)"
    and "fq_store zone t2 now2 operation f2 fq1 = (fq2, None)"
  shows "fq_size fq2 = fq_size fq1 \<and>
         (\<exists>e. map_of (fq_operations fq2) (generate_operation_id zone t1 operation) = Some e \<and> fo_fn e = f2)"
proof -
  have same: "generate_operation_id zone t1 operation = generate_operation_id zone t2 operation"
    using format_stamp_millisecond [OF assms(1)] by (simp add: generate_operation_id_def)
  have fq1: "fq_operations fq1 = map_put (generate_operation_id zone t2 operation)
      \<lparr>fo_id = generate_operation_id zone t2 operation, fo_operation = operation, fo_timestamp = now1,
       fo_expires_at = now1 + fq_ttl fq, fo_attempts = 0, fo_fn = f1\<rparr> (fq_operations fq)"
    using assms(2) same by (auto simp: fq_store_def Let_def)
  show ?thesis using assms(3) same fq1
    by (auto simp: fq_store_def Let_def fq_size_def intro: length_map_put_eq)
qed

theorem fallback_store_collision_witness:
  "\<exists>fq1 fq2. fq_store 0 1200000 1200000 ''enqueue'' (\<lambda>w :: nat. (w + 1, None)) (new_fallback_queue second) = (fq1, None) \<and>
     fq_store 0 1900000 1900000 ''enqueue'' (\<lambda>w. (w + 2, None)) fq1 = (fq2, None) \<and> fq_size fq2 = fq_size fq1"
proof -
  obtain fq1 fq2 where runs:
    "fq_store 0 1200000 1200000 ''enqueue'' (\<lambda>w :: nat. (w + 1, None)) (new_fallback_queue second) = (fq1, None)"
    "fq_store 0 1900000 1900000 ''enqueue'' (\<lambda>w. (w + 2, None)) fq1 = (fq2, None)"
    by (simp add: fq_store_def Let_def)
  have "fq_size fq2 = fq_size fq1"
    using fallback_store_collision [OF _ runs] by (simp add: millisecond_def)
  with runs show ?thesis by blast
qed

end
