(* ===== verification/Queue_Resilience.thy ===== *)
theory Queue_Resilience
  imports Circuit_Breaker Error_Classification Fallback_Queue
begin

text \<open>
  The resilient executor of \<^verbatim>\<open>internal/infra/distributed/queue_resilience.go\<close>: a queue
  operation runs inside the circuit breaker, with retries, a check of the memory Redis
  uses, and the fallback queue. The operation acts on a world \<open>'w\<close>. The Redis client is
  third-party code: its \<^verbatim>\<open>INFO memory\<close> is a function on the world. The readings of the
  context during a run are the argument \<open>env\<close>. Go multiplies the delay in float64; the
  factor is kept as the function on durations that it is (\<open>2 * d\<close> by default, exact for
  every delay the loop can reach). The fields \<open>rx_calls\<close> and \<open>rx_waits\<close> record the calls of
  the operation and the delays waited, newest first.
\<close>

section \<open>State and operations\<close>

record resilience_config =
  rz_max_retries :: int
  rz_initial_delay :: duration
  rz_max_delay :: duration
  rz_backoff :: "duration \<Rightarrow> duration"
  rz_circuit_breaker :: "breaker_config option"
  rz_memory_warning :: int
  rz_memory_disable :: int
  rz_enable_fallback :: bool
  rz_fallback_ttl :: duration

definition default_resilience_config :: resilience_config where
  "default_resilience_config =
     \<lparr>rz_max_retries = 3, rz_initial_delay = 100 * millisecond, rz_max_delay = 5 * second,
      rz_backoff = (\<lambda>d. 2 * d), rz_circuit_breaker = Some default_breaker_config,
      rz_memory_warning = 100 * 1024 * 1024, rz_memory_disable = 500 * 1024 * 1024,
      rz_enable_fallback = True, rz_fallback_ttl = 5 * minute\<rparr>"

type_synonym 'w redis_info = "'w \<Rightarrow> 'w \<times> (goerror + string)"

record 'w resilient =
  rx_fallback :: "'w fallback_queue option"
  rx_world :: 'w
  rx_calls :: nat
  rx_waits :: "duration list"

text \<open>\<open>NewQueueResilientExecutor\<close>: the configuration it uses, its breaker and its state.\<close>

definition new_resilient_executor ::
  "resilience_config option \<Rightarrow> 'w \<Rightarrow> resilience_config \<times> breaker \<times> 'w resilient" where
  "new_resilient_executor config w =
     (let cfg = (case config of None \<Rightarrow> default_resilience_config | Some c \<Rightarrow> c)
      in (cfg, new_breaker (rz_circuit_breaker cfg),
          \<lparr>rx_fallback = (if rz_enable_fallback cfg then Some (new_fallback_queue (rz_fallback_ttl cfg)) else None),
           rx_world = w, rx_calls = 0, rx_waits = []\<rparr>))"

text \<open>\<^verbatim>\<open>parseMemoryUsage\<close>; its error is only logged, so it is \<open>None\<close>.\<close>

definition used_memory_prefix :: string where
  "used_memory_prefix = ''used_memory:''"

fun parse_memory_lines :: "string list \<Rightarrow> int option" where
  "parse_memory_lines [] = None"
| "parse_memory_lines (line # lines) =
     (if \<not> has_prefix line used_memory_prefix then parse_memory_lines lines
      else (case split_on (CHR '':'') line of
              [_, v] \<Rightarrow> parse_int64 (trim_space v)
            | _ \<Rightarrow> parse_memory_lines lines))"

definition parse_memory_usage :: "string \<Rightarrow> int option" where
  "parse_memory_usage info = parse_memory_lines (split_on (CHR 0x0A) info)"

definition check_memory_pressure ::
  "resilience_config \<Rightarrow> 'w redis_info option \<Rightarrow> 'w \<Rightarrow> 'w \<times> goerror option" where
  "check_memory_pressure cfg redis w =
     (case redis of
        None \<Rightarrow> (w, None)
      | Some info_memory \<Rightarrow>
          (case info_memory w of
             (w1, Inl e) \<Rightarrow> (w1, None)
           | (w1, Inr info) \<Rightarrow>
               (case parse_memory_usage info of
                  None \<Rightarrow> (w1, None)
                | Some used \<Rightarrow>
                    if used \<ge> rz_memory_disable cfg
                    then (w1, Some (MemoryPressureError used (rz_memory_disable cfg) ''critical''))
                    else (w1, None))))"

text \<open>
  The environment of one attempt: \<^verbatim>\<open>ctx.Err()\<close> at the head of the loop, the context that
  ends the wait before the timer (\<open>None\<close>: the timer ends it), and for the fallback the
  context and the two clock readings of \<^verbatim>\<open>Store\<close>.
\<close>

record attempt_env =
  ae_ctx :: ctx_err
  ae_wait :: ctx_err
  ae_fallback_ctx :: ctx_err
  ae_id_time :: time
  ae_store_time :: time

definition execute_fallback ::
  "duration \<Rightarrow> attempt_env \<Rightarrow> string \<Rightarrow> ('w \<Rightarrow> 'w \<times> goerror option) \<Rightarrow> 'w resilient \<Rightarrow>
     'w resilient \<times> goerror option" where
  "execute_fallback zone env operation fn rx =
     (case rx_fallback rx of
        None \<Rightarrow> (rx, Some (ErrorString ''fallback queue not available''))
      | Some fq \<Rightarrow>
          (case ae_fallback_ctx env of
             Some e \<Rightarrow> (rx, Some e)
           | None \<Rightarrow>
               (let (fq', err) = fq_store zone (ae_id_time env) (ae_store_time env) operation fn fq
                in (rx\<lparr>rx_fallback := Some fq'\<rparr>, err))))"

definition attempts_message :: "int \<Rightarrow> string \<Rightarrow> string" where
  "attempts_message attempt description =
     ''operation failed after '' @ itoa attempt @ '' attempts ('' @ description @ ''): ''"

definition next_delay :: "resilience_config \<Rightarrow> duration \<Rightarrow> duration" where
  "next_delay cfg delay =
     (let d = rz_backoff cfg delay in if d > rz_max_delay cfg then rz_max_delay cfg else d)"

function execute_with_retry ::
  "resilience_config \<Rightarrow> 'w redis_info option \<Rightarrow> duration \<Rightarrow> (int \<Rightarrow> attempt_env) \<Rightarrow> string \<Rightarrow>
     ('w \<Rightarrow> 'w \<times> goerror option) \<Rightarrow> int \<Rightarrow> duration \<Rightarrow> goerror option \<Rightarrow> 'w resilient \<Rightarrow>
     'w resilient \<times> goerror option" where
  "execute_with_retry cfg redis zone env operation fn attempt delay lastErr rx =
     (if attempt > rz_max_retries cfg then
        (rx, Some (case lastErr of
                     None \<Rightarrow> ErrorString (''operation failed after '' @ itoa (rz_max_retries cfg) @
                                '' attempts: %!w(<nil>)'')
                   | Some e \<Rightarrow> WrapError (''operation failed after '' @ itoa (rz_max_retries cfg) @
                                '' attempts: '') e ''''))
      else
        (case ae_ctx (env attempt) of
           Some e \<Rightarrow> (rx, Some (WrapError ''operation canceled: '' e ''''))
         | None \<Rightarrow>
             (case check_memory_pressure cfg redis (rx_world rx) of
                (w1, Some e) \<Rightarrow> (rx\<lparr>rx_world := w1\<rparr>, Some (WrapError ''memory pressure detected: '' e ''''))
              | (w1, None) \<Rightarrow>
                  (case fn w1 of
                     (w2, None) \<Rightarrow> (rx\<lparr>rx_world := w2, rx_calls := Suc (rx_calls rx)\<rparr>, None)
                   | (w2, Some e) \<Rightarrow>
                       (let rx2 = rx\<lparr>rx_world := w2, rx_calls := Suc (rx_calls rx)\<rparr>;
                            info = classify (Some e) in
                        if \<not> ei_retryable info \<or> attempt = rz_max_retries cfg then
                          (if rx_fallback rx2 \<noteq> None \<and> ei_use_fallback info
                           then execute_fallback zone (env attempt) operation fn rx2
                           else (rx2, Some (WrapError (attempts_message attempt (ei_description info)) e '''')))
                        else
                          (case ae_wait (env attempt) of
                             Some c \<Rightarrow> (rx2, Some (WrapError ''retry canceled: '' c ''''))
                           | None \<Rightarrow>
                               execute_with_retry cfg redis zone env operation fn (attempt + 1)
                                 (next_delay cfg delay) (Some e)
                                 (rx2\<lparr>rx_waits := delay # rx_waits rx2\<rparr>)))))))"
  by pat_completeness auto

termination
  by (relation "measure (\<lambda>(cfg, _, _, _, _, _, attempt, _). nat (rz_max_retries cfg + 1 - attempt))") auto

declare execute_with_retry.simps [simp del]

definition retry_operation_run ::
  "resilience_config \<Rightarrow> 'w redis_info option \<Rightarrow> duration \<Rightarrow> (int \<Rightarrow> attempt_env) \<Rightarrow> string \<Rightarrow>
     ('w \<Rightarrow> 'w \<times> goerror option) \<Rightarrow> 'w resilient \<Rightarrow> 'w resilient \<times> goerror option" where
  "retry_operation_run cfg redis zone env operation fn rx =
     execute_with_retry cfg redis zone env operation fn 1 (rz_initial_delay cfg) None rx"

definition execute_with_resilience ::
  "exec_clock \<Rightarrow> ctx_err \<Rightarrow> resilience_config \<Rightarrow> 'w redis_info option \<Rightarrow> duration \<Rightarrow>
     (int \<Rightarrow> attempt_env) \<Rightarrow> string \<Rightarrow> ('w \<Rightarrow> 'w \<times> goerror option) \<Rightarrow> breaker \<times> 'w resilient \<Rightarrow>
     (breaker \<times> 'w resilient) \<times> outcome" where
  "execute_with_resilience ck ctx cfg redis zone env operation fn s =
     cb_execute ck ctx
       (\<lambda>rx. case retry_operation_run cfg redis zone env operation fn rx of (rx', err) \<Rightarrow> (rx', Returned err)) s"

definition resilient_close :: "'w resilient \<Rightarrow> 'w resilient option" where
  "resilient_close rx =
     (case rx_fallback rx of
        None \<Rightarrow> Some rx
      | Some fq \<Rightarrow> map_option (\<lambda>fq'. rx\<lparr>rx_fallback := Some fq'\<rparr>) (fq_close fq))"

section \<open>Retries\<close>

lemma check_memory_pressure_error:
  "check_memory_pressure cfg redis w = (w', Some e) \<Longrightarrow> \<exists>used. e = MemoryPressureError used (rz_memory_disable cfg) ''critical'' \<and> rz_memory_disable cfg \<le> used"
  by (auto simp: check_memory_pressure_def split: option.splits sum.splits prod.splits if_splits)

lemma execute_fallback_cases:
  assumes "execute_fallback zone env operation fn rx = (rx', r)"
  shows "rx_calls rx' = rx_calls rx \<and> rx_waits rx' = rx_waits rx \<and> rx_world rx' = rx_world rx \<and>
    (r \<noteq> None \<longrightarrow> rx' = rx) \<and>
    (r = None \<longrightarrow> (\<exists>fq' k e. rx_fallback rx' = Some fq' \<and> map_of (fq_operations fq') k = Some e \<and>
                    fo_operation e = operation \<and> fo_fn e = fn))"
  using assms by (auto simp: execute_fallback_def fq_store_def Let_def split: option.splits)

text \<open>
  One turn of the loop: the run ends with the attempt, and then says how, or goes on after a
  wait. Every proof about the loop rests on this case distinction.
\<close>

lemma retry_turn:
  assumes "execute_with_retry cfg redis zone env operation fn attempt delay lastErr rx = (rx', r)"
  obtains (stop) "r \<noteq> None" and "rx_fallback rx' = rx_fallback rx" and "rx_waits rx' = rx_waits rx"
      and "rx_calls rx' \<le> Suc (rx_calls rx)" and "attempt \<le> rz_max_retries cfg \<or> rx' = rx"
  | (finished) w where "attempt \<le> rz_max_retries cfg" and "r = None" and "rx_waits rx' = rx_waits rx"
      and "rx_calls rx' = Suc (rx_calls rx)" and "rx_fallback rx' = rx_fallback rx"
      and "snd (fn w) = None" and "fst (fn w) = rx_world rx'"
  | (fallback) rx2 where "attempt \<le> rz_max_retries cfg"
      and "rx_calls rx2 = Suc (rx_calls rx)" and "rx_waits rx2 = rx_waits rx"
      and "execute_fallback zone (env attempt) operation fn rx2 = (rx', r)"
      and "rx_fallback rx2 = rx_fallback rx"
  | (again) rx2 e where "attempt < rz_max_retries cfg"
      and "rx_calls rx2 = Suc (rx_calls rx)" and "rx_waits rx2 = delay # rx_waits rx"
      and "rx_fallback rx2 = rx_fallback rx"
      and "execute_with_retry cfg redis zone env operation fn (attempt + 1) (next_delay cfg delay) (Some e) rx2 = (rx', r)"
proof (cases "attempt > rz_max_retries cfg")
  case True
  with assms show thesis
    by (intro stop) (auto simp: execute_with_retry.simps [of cfg redis zone env operation fn attempt])
next
  case False
  show thesis
  proof (cases "ae_ctx (env attempt)")
    case (Some c)
    with False assms show thesis
      by (intro stop) (auto simp: execute_with_retry.simps [of cfg redis zone env operation fn attempt])
  next
    case None
    obtain w1 mp where m: "check_memory_pressure cfg redis (rx_world rx) = (w1, mp)" by fastforce
    obtain w2 err where f: "fn w1 = (w2, err)" by fastforce
    note eq = assms [unfolded execute_with_retry.simps [of cfg redis zone env operation fn attempt]]
    show thesis
    proof (cases mp)
      case (Some e)
      with False None m eq show thesis by (intro stop) auto
    next
      case nomem: None
      show thesis
      proof (cases err)
        case noerr: None
        with False None m nomem f eq show thesis by (intro finished [of w1]) auto
      next
        case (Some e)
        show thesis
        proof (cases "\<not> ei_retryable (classify (Some e)) \<or> attempt = rz_max_retries cfg")
          case True
          with False None m nomem f Some eq show thesis
            by (auto simp: Let_def split: if_splits
                intro: stop fallback [of "rx\<lparr>rx_world := w2, rx_calls := Suc (rx_calls rx)\<rparr>"])
        next
          case retry: False
          with False None m nomem f Some eq show thesis
            by (auto simp: Let_def split: option.splits
                intro: stop again [of "rx\<lparr>rx_world := w2, rx_calls := Suc (rx_calls rx), rx_waits := delay # rx_waits rx\<rparr>"])
        qed
      qed
    qed
  qed
qed

lemma next_delay_le: "next_delay cfg d \<le> rz_max_delay cfg"
  by (simp add: next_delay_def Let_def)

lemma retry_bounds:
  assumes "execute_with_retry cfg redis zone env operation fn attempt delay lastErr rx = (rx', r)"
  shows "rx_calls rx' \<le> rx_calls rx + nat (rz_max_retries cfg + 1 - attempt) \<and>
         (\<exists>ws. rx_waits rx' = ws @ rx_waits rx \<and>
               length ws \<le> nat (rz_max_retries cfg - attempt) \<and>
               (\<forall>d \<in> set ws. d = delay \<or> d \<le> rz_max_delay cfg))"
  using assms
proof (induction "nat (rz_max_retries cfg + 1 - attempt)" arbitrary: attempt delay lastErr rx)
  case 0
  then have "attempt > rz_max_retries cfg" by simp
  then show ?case using "0.prems" by (auto simp: execute_with_retry.simps [of cfg redis zone env operation fn attempt])
next
  case (Suc n)
  from Suc.prems show ?case
  proof (cases rule: retry_turn)
    case stop
    then show ?thesis using Suc.hyps(2) by auto
  next
    case (finished w)
    then show ?thesis by auto
  next
    case (fallback rx2)
    then show ?thesis using execute_fallback_cases [OF fallback(4)] by auto
  next
    case (again rx2 e)
    have "n = nat (rz_max_retries cfg + 1 - (attempt + 1))" using Suc.hyps(2) by simp
    from Suc.hyps(1) [OF this again(5)] obtain ws where ws:
      "rx_calls rx' \<le> rx_calls rx2 + nat (rz_max_retries cfg + 1 - (attempt + 1))"
      "rx_waits rx' = ws @ rx_waits rx2" "length ws \<le> nat (rz_max_retries cfg - (attempt + 1))"
      "\<forall>d \<in> set ws. d = next_delay cfg delay \<or> d \<le> rz_max_delay cfg" by auto
    have "rx_waits rx' = (ws @ [delay]) @ rx_waits rx" using ws(2) again(3) by simp
    moreover have "\<forall>d \<in> set (ws @ [delay]). d = delay \<or> d \<le> rz_max_delay cfg"
      using ws(4) next_delay_le [of cfg delay] by auto
    moreover have "length (ws @ [delay]) \<le> nat (rz_max_retries cfg - attempt)"
      using ws(3) again(1) by simp
    ultimately show ?thesis using ws(1) again(1,2) by (intro conjI exI [of _ "ws @ [delay]"]) auto
  qed
qed

text \<open>
  C39: one run of an operation calls it at most \<^verbatim>\<open>MaxRetries\<close> times and waits at most
  \<^verbatim>\<open>MaxRetries - 1\<close> times, each wait being the initial delay or at most \<^verbatim>\<open>MaxDelay\<close>,
  whatever the operation, Redis and the context do.
\<close>

theorem retries_are_bounded:
  assumes "retry_operation_run cfg redis zone env operation fn rx = (rx', r)"
  shows "rx_calls rx' - rx_calls rx \<le> nat (rz_max_retries cfg) \<and>
         length (rx_waits rx') - length (rx_waits rx) \<le> nat (rz_max_retries cfg - 1) \<and>
         set (rx_waits rx') \<subseteq> set (rx_waits rx) \<union> {rz_initial_delay cfg} \<union> {d. d \<le> rz_max_delay cfg}"
  using retry_bounds [OF assms [unfolded retry_operation_run_def]] by auto

lemma retry_success:
  assumes "execute_with_retry cfg redis zone env operation fn attempt delay lastErr rx = (rx', r)"
  shows "(r = None \<longrightarrow> (\<exists>w. fn w = (rx_world rx', None)) \<or>
            (\<exists>fq k e. rx_fallback rx' = Some fq \<and> map_of (fq_operations fq) k = Some e \<and>
                      fo_operation e = operation \<and> fo_fn e = fn)) \<and>
         (r \<noteq> None \<longrightarrow> rx_fallback rx' = rx_fallback rx)"
  using assms
proof (induction "nat (rz_max_retries cfg + 1 - attempt)" arbitrary: attempt delay lastErr rx)
  case 0
  then have "attempt > rz_max_retries cfg" by simp
  then show ?case using "0.prems" by (auto simp: execute_with_retry.simps [of cfg redis zone env operation fn attempt])
next
  case (Suc n)
  from Suc.prems show ?case
  proof (cases rule: retry_turn)
    case stop
    then show ?thesis by auto
  next
    case (finished w)
    then show ?thesis by (metis prod.collapse)
  next
    case (fallback rx2)
    then show ?thesis using execute_fallback_cases [OF fallback(4)] by auto
  next
    case (again rx2 e)
    have "n = nat (rz_max_retries cfg + 1 - (attempt + 1))" using Suc.hyps(2) by simp
    from Suc.hyps(1) [OF this again(5)] again(4) show ?thesis by auto
  qed
qed

text \<open>
  A run reports success only when the operation's last call succeeded or the operation is
  now stored in the fallback queue; a run that reports an error leaves the fallback queue as
  it was.
\<close>

theorem success_means_executed_or_stored:
  assumes "retry_operation_run cfg redis zone env operation fn rx = (rx', r)"
  shows "(r = None \<longrightarrow> (\<exists>w. fn w = (rx_world rx', None)) \<or>
            (\<exists>fq k e. rx_fallback rx' = Some fq \<and> map_of (fq_operations fq) k = Some e \<and>
                      fo_operation e = operation \<and> fo_fn e = fn)) \<and>
         (r \<noteq> None \<longrightarrow> rx_fallback rx' = rx_fallback rx)"
  by (rule retry_success [OF assms [unfolded retry_operation_run_def]])

text \<open>
  Under critical memory pressure an operation is refused with the memory pressure error:
  it is not called and not stored in the fallback queue, although the classifier recommends
  the fallback for that error.
\<close>

theorem memory_pressure_bypasses_fallback:
  assumes "1 \<le> rz_max_retries cfg" and "ae_ctx (env 1) = None"
    and "redis = Some info_memory" and "info_memory (rx_world rx) = (w1, Inr info)"
    and "parse_memory_usage info = Some used" and "rz_memory_disable cfg \<le> used"
  shows "\<exists>e. retry_operation_run cfg redis zone env operation fn rx = (rx\<lparr>rx_world := w1\<rparr>, Some e) \<and>
             ei_use_fallback (classify (Some e))"
  using assms
  by (simp add: retry_operation_run_def execute_with_retry.simps [of cfg _ zone env operation fn 1]
      check_memory_pressure_def classify_def errors_as_memory_pressure_def)

section \<open>The default schedule\<close>

text \<open>A context that stays live while the timers fire, and an operation that is always refused.\<close>

definition live_env :: "int \<Rightarrow> attempt_env" where
  "live_env _ = \<lparr>ae_ctx = None, ae_wait = None, ae_fallback_ctx = None, ae_id_time = 0, ae_store_time = 0\<rparr>"

definition refused_op :: "nat \<Rightarrow> nat \<times> goerror option" where
  "refused_op w = (w + 1, Some (ErrorString ''connection refused''))"

definition fresh_resilient :: "nat resilient" where
  "fresh_resilient = \<lparr>rx_fallback = Some (new_fallback_queue minute), rx_world = 0, rx_calls = 0, rx_waits = []\<rparr>"

text \<open>
  With the default configuration and a live context, an operation that always fails with
  a retryable error outside the fallback's classes is called three times, after waits of 100
  and 200 milliseconds, and its last error comes back with the attempt count.
\<close>

theorem default_retry_schedule:
  assumes "\<And>w. snd (fn w) = Some e" and "ei_retryable (classify (Some e))"
    and "\<not> ei_use_fallback (classify (Some e))"
    and "\<And>i. ae_ctx (env i) = None" and "\<And>i. ae_wait (env i) = None"
  shows "\<exists>rx'. retry_operation_run default_resilience_config None zone env operation fn rx =
            (rx', Some (WrapError (attempts_message 3 (ei_description (classify (Some e)))) e '''')) \<and>
          rx_calls rx' = rx_calls rx + 3 \<and>
          rx_waits rx' = [200 * millisecond, 100 * millisecond] @ rx_waits rx"
proof -
  have fn: "fn w = (fst (fn w), Some e)" for w using assms(1) by (metis prod.collapse)
  have cfg: "rz_max_retries default_resilience_config = 3"
    "rz_initial_delay default_resilience_config = 100 * millisecond"
    by (simp_all add: default_resilience_config_def)
  have delays: "next_delay default_resilience_config (100 * millisecond) = 200 * millisecond"
    by (simp add: next_delay_def default_resilience_config_def Let_def second_def millisecond_def)
  have again: "execute_with_retry default_resilience_config None zone env operation fn i d l rx =
      execute_with_retry default_resilience_config None zone env operation fn (i + 1)
        (next_delay default_resilience_config d) (Some e)
        (rx\<lparr>rx_world := fst (fn (rx_world rx)), rx_calls := Suc (rx_calls rx), rx_waits := d # rx_waits rx\<rparr>)"
    if "i < 3" for i d l and rx :: "'a resilient"
    using that assms
    by (subst execute_with_retry.simps, subst fn) (simp add: cfg check_memory_pressure_def Let_def)
  have last: "execute_with_retry default_resilience_config None zone env operation fn 3 d l rx =
      (rx\<lparr>rx_world := fst (fn (rx_world rx)), rx_calls := Suc (rx_calls rx)\<rparr>,
       Some (WrapError (attempts_message 3 (ei_description (classify (Some e)))) e ''''))"
    for d l and rx :: "'a resilient"
    using assms
    by (subst execute_with_retry.simps, subst fn) (simp add: cfg check_memory_pressure_def Let_def)
  show ?thesis
    by (simp add: retry_operation_run_def cfg again last delays)
qed

lemma refused_op_classified:
  "ei_retryable (classify (Some (ErrorString ''connection refused'')))"
  "\<not> ei_use_fallback (classify (Some (ErrorString ''connection refused'')))"
  by code_simp+

theorem default_retry_schedule_witness:
  "\<exists>rx'. retry_operation_run default_resilience_config None 0 live_env ''enqueue'' refused_op fresh_resilient =
     (rx', Some (WrapError (attempts_message 3 (ei_description (classify (Some (ErrorString ''connection refused'')))))
                   (ErrorString ''connection refused'') '''')) \<and> rx_calls rx' = 3"
  using default_retry_schedule [of refused_op "ErrorString ''connection refused''" live_env 0 "''enqueue''" fresh_resilient]
    refused_op_classified
  by (auto simp: refused_op_def live_env_def fresh_resilient_def)

theorem retries_are_bounded_witness:
  "\<exists>rx' r. retry_operation_run default_resilience_config None 0 live_env ''enqueue'' refused_op fresh_resilient = (rx', r) \<and>
     rx_calls rx' \<le> 3"
proof -
  obtain rx' r where run:
    "retry_operation_run default_resilience_config None 0 live_env ''enqueue'' refused_op fresh_resilient = (rx', r)"
    by fastforce
  then show ?thesis using retries_are_bounded [OF run]
    by (auto simp: fresh_resilient_def default_resilience_config_def)
qed

theorem success_means_executed_or_stored_witness:
  "\<exists>rx'. retry_operation_run default_resilience_config None 0 live_env ''enqueue'' (\<lambda>w. (w + 5, None)) fresh_resilient = (rx', None) \<and>
     ((\<exists>w. (w + 5, None) = (rx_world rx', None :: goerror option)) \<or> rx_fallback rx' \<noteq> None)"
proof -
  obtain rx' where run:
    "retry_operation_run default_resilience_config None 0 live_env ''enqueue'' (\<lambda>w. (w + 5, None)) fresh_resilient = (rx', None)"
    by (simp add: retry_operation_run_def execute_with_retry.simps default_resilience_config_def
        check_memory_pressure_def live_env_def)
  then show ?thesis using success_means_executed_or_stored [OF run] by auto
qed

definition full_redis :: "nat redis_info" where
  "full_redis w = (w, Inr (''# Memory'' @ [CHR 0x0D, CHR 0x0A] @ ''used_memory:600000000'' @ [CHR 0x0D, CHR 0x0A]))"

theorem memory_pressure_bypasses_fallback_witness:
  "\<exists>e. retry_operation_run default_resilience_config (Some full_redis) 0 live_env ''enqueue'' refused_op fresh_resilient =
         (fresh_resilient\<lparr>rx_world := 0\<rparr>, Some e) \<and> ei_use_fallback (classify (Some e))"
proof (rule memory_pressure_bypasses_fallback)
  show "parse_memory_usage (''# Memory'' @ [CHR 0x0D, CHR 0x0A] @ ''used_memory:600000000'' @ [CHR 0x0D, CHR 0x0A]) = Some 600000000"
    by (simp add: parse_memory_usage_def used_memory_prefix_def parse_int64_def trim_space_def
        is_space_def parse_nat_def digit_value_def Let_def)
qed (simp_all add: default_resilience_config_def live_env_def full_redis_def fresh_resilient_def fun_eq_iff)

end
