(* ===== verification/Interpolations.thy ===== *)
theory Interpolations
  imports Lattiam_Types
begin

text \<open>
  The references of a resource: the part of \<^verbatim>\<open>internal/dependency/resolver.go\<close> that scans the
  properties for \<^verbatim>\<open>${...}\<close> and the part of \<^verbatim>\<open>internal/dependency/parser.go\<close> that reads
  a resource key out of each. Strings are UTF-8: the scan compares with ASCII characters only, so
  scanning bytes finds what scanning runes finds.
\<close>

section \<open>The scan\<close>

text \<open>
  From behind \<^verbatim>\<open>${\<close>, with \<open>n\<close> braces open: the expression up to the matching brace and the
  text behind it.
\<close>

fun close_brace :: "nat \<Rightarrow> string \<Rightarrow> (string \<times> string) option" where
  "close_brace n [] = None"
| "close_brace n (c # s) =
     (if c = CHR ''}'' \<and> n = 1 then Some ([], s)
      else map_option (\<lambda>(e, r). (c # e, r))
             (close_brace (if c = CHR ''{'' then n + 1 else if c = CHR ''}'' then n - 1 else n) s))"

lemma close_brace_length: "close_brace n s = Some (e, r) \<Longrightarrow> length r < length s"
  by (induction n s arbitrary: e r rule: close_brace.induct) (fastforce split: if_splits)+

function interpolations_in :: "string \<Rightarrow> string list" where
  "interpolations_in [] = []"
| "interpolations_in [c] = []"
| "interpolations_in (c # d # s) =
     (if c = CHR ''$'' \<and> d = CHR ''{''
      then (case close_brace 1 s of None \<Rightarrow> [] | Some (e, r) \<Rightarrow> e # interpolations_in r)
      else interpolations_in (d # s))"
  by pat_completeness auto
termination by (relation "measure length") (auto dest: close_brace_length)

text \<open>\<^verbatim>\<open>ExtractResourceReferences\<close>: the first two dotted parts of every expression without a call.\<close>

fun resource_references :: "string list \<Rightarrow> string list \<Rightarrow> string list" where
  "resource_references [] refs = refs"
| "resource_references (interp # interps) refs =
     resource_references interps
       (if str_contains interp ''('' then refs
        else (case split_on (CHR ''.'') interp of
                a # b # _ \<Rightarrow> (let key = a @ ''.'' @ b in if key \<in> set refs then refs else refs @ [key])
              | _ \<Rightarrow> refs))"

definition extract_resource_references :: "string list \<Rightarrow> string list" where
  "extract_resource_references interps = resource_references interps []"

definition find_interpolations :: "string \<Rightarrow> string list" where
  "find_interpolations input = extract_resource_references (interpolations_in input)"

text \<open>The recursion over the values; a map is visited in the order of its entries.\<close>

primrec value_dependencies :: "gval \<Rightarrow> string list" where
  "value_dependencies GNil = []"
| "value_dependencies (GBool b) = []"
| "value_dependencies (GInt i) = []"
| "value_dependencies (GFloat f) = []"
| "value_dependencies (GStr s) = find_interpolations s"
| "value_dependencies (GTime t) = []"
| "value_dependencies (GList vs) = concat (map value_dependencies vs)"
| "value_dependencies (GMap m) = concat (map snd (map (map_prod id value_dependencies) m))"

fun remove_duplicates :: "string list \<Rightarrow> string set \<Rightarrow> string list" where
  "remove_duplicates [] seen = []"
| "remove_duplicates (x # xs) seen =
     (if x \<in> seen then remove_duplicates xs seen else x # remove_duplicates xs (insert x seen))"

definition extract_dependencies :: "gmap \<Rightarrow> string list" where
  "extract_dependencies properties = remove_duplicates (value_dependencies (GMap properties)) {}"

section \<open>What the scan finds\<close>

lemma set_remove_duplicates: "set (remove_duplicates xs seen) = set xs - seen"
  by (induction xs seen rule: remove_duplicates.induct) auto

lemma distinct_remove_duplicates: "distinct (remove_duplicates xs seen)"
  by (induction xs seen rule: remove_duplicates.induct) (auto simp: set_remove_duplicates)

lemma set_extract_dependencies:
  "set (extract_dependencies p) = (\<Union>(k, v) \<in> set p. set (value_dependencies v))"
  by (auto simp: extract_dependencies_def set_remove_duplicates)

lemma distinct_extract_dependencies: "distinct (extract_dependencies p)"
  by (simp add: extract_dependencies_def distinct_remove_duplicates)

lemma resource_references_set:
  "set (resource_references interps refs) = set refs \<union>
     {a @ ''.'' @ b | a b interp rest. interp \<in> set interps \<and> \<not> str_contains interp ''('' \<and>
                                      split_on (CHR ''.'') interp = a # b # rest}"
proof (induction interps refs rule: resource_references.induct)
  case (2 interp interps refs)
  show ?case
    by (simp only: resource_references.simps 2) (auto simp: Let_def split: list.splits)
qed auto

lemma resource_references_distinct: "distinct refs \<Longrightarrow> distinct (resource_references interps refs)"
  by (induction interps refs rule: resource_references.induct) (auto simp: Let_def split: list.splits)

text \<open>An expression without braces between the marks is found as it is written.\<close>

lemma close_brace_plain:
  assumes "CHR ''{'' \<notin> set e" and "CHR ''}'' \<notin> set e"
  shows "close_brace 1 (e @ CHR ''}'' # r) = Some (e, r)"
  using assms by (induction e) auto

lemma interpolations_in_plain:
  "CHR ''$'' \<notin> set s \<Longrightarrow> interpolations_in (s @ t) = interpolations_in t"
proof (induction s)
  case (Cons c s)
  then show ?case by (cases "s @ t") auto
qed simp

lemma find_reference:
  assumes "CHR ''$'' \<notin> set pre" and "CHR ''$'' \<notin> set post"
    and "CHR ''.'' \<notin> set t" and "CHR ''.'' \<notin> set n"
    and "\<forall>c \<in> {CHR ''{'', CHR ''}'', CHR ''(''}. c \<notin> set (t @ n @ attr)"
  shows "find_interpolations (pre @ ''${'' @ t @ ''.'' @ n @ ''.'' @ attr @ ''}'' @ post) = [t @ ''.'' @ n]"
proof -
  have call: "\<not> str_contains (t @ ''.'' @ n @ ''.'' @ attr) ''(''"
  proof
    assume "str_contains (t @ ''.'' @ n @ ''.'' @ attr) ''(''"
    then obtain b a where "t @ ''.'' @ n @ ''.'' @ attr = b @ ''('' @ a" by (auto simp: str_contains_iff)
    then have "CHR ''('' \<in> set (t @ ''.'' @ n @ ''.'' @ attr)" by simp
    then show False using assms(5) by auto
  qed
  have "close_brace 1 ((t @ ''.'' @ n @ ''.'' @ attr) @ CHR ''}'' # post) = Some (t @ ''.'' @ n @ ''.'' @ attr, post)"
    by (rule close_brace_plain) (use assms(5) in auto)
  then have "interpolations_in (pre @ ''${'' @ t @ ''.'' @ n @ ''.'' @ attr @ ''}'' @ post)
      = [t @ ''.'' @ n @ ''.'' @ attr]"
    using interpolations_in_plain [OF assms(1)] interpolations_in_plain [OF assms(2), of "[]"] by simp
  then show ?thesis using call assms(3,4)
    by (simp add: find_interpolations_def extract_resource_references_def split_on_append
        split: list.splits)
qed

text \<open>
  A string that holds one reference \<^verbatim>\<open>${type.name.attribute}\<close> makes the resource depend on
  exactly \<open>type.name\<close>. By the same rule a reference to a data source,
  \<^verbatim>\<open>${data.type.name.attribute}\<close>, gives \<open>data.type\<close>, which is not the key
  \<open>data.type.name\<close> under which the graph holds the data source.
\<close>

theorem reference_dependencies:
  assumes "CHR ''$'' \<notin> set pre" and "CHR ''$'' \<notin> set post"
    and "CHR ''.'' \<notin> set t" and "CHR ''.'' \<notin> set n"
    and "\<forall>c \<in> {CHR ''{'', CHR ''}'', CHR ''(''}. c \<notin> set (t @ n @ attr)"
  shows "extract_dependencies [(k, GStr (pre @ ''${'' @ t @ ''.'' @ n @ ''.'' @ attr @ ''}'' @ post))] = [t @ ''.'' @ n] \<and>
      extract_dependencies [(k, GStr (pre @ ''${data.'' @ t @ ''.'' @ n @ ''.'' @ attr @ ''}'' @ post))] = [''data.'' @ t]"
proof
  show "extract_dependencies [(k, GStr (pre @ ''${'' @ t @ ''.'' @ n @ ''.'' @ attr @ ''}'' @ post))] = [t @ ''.'' @ n]"
    using find_reference [OF assms] by (simp add: extract_dependencies_def)
  have "\<forall>c \<in> {CHR ''{'', CHR ''}'', CHR ''(''}. c \<notin> set (''data'' @ t @ n @ ''.'' @ attr)"
    using assms(5) by auto
  then have "find_interpolations (pre @ ''${'' @ ''data'' @ ''.'' @ t @ ''.'' @ (n @ ''.'' @ attr) @ ''}'' @ post)
      = [''data'' @ ''.'' @ t]"
    by (intro find_reference) (use assms in auto)
  then show "extract_dependencies [(k, GStr (pre @ ''${data.'' @ t @ ''.'' @ n @ ''.'' @ attr @ ''}'' @ post))] = [''data.'' @ t]"
    by (simp add: extract_dependencies_def)
qed

theorem reference_dependencies_witness:
  "extract_dependencies [(''vpc'', GStr ''id-${aws_vpc.main.id}'')] = [''aws_vpc.main''] \<and>
   extract_dependencies [(''vpc'', GStr ''id-${data.aws_vpc.main.id}'')] = [''data.aws_vpc'']"
  using reference_dependencies [of "''id-''" "[]" "''aws_vpc''" "''main''" "''id''" "''vpc''"] by simp

end
