(* ===== verification/Dependency_Graph.thy ===== *)
theory Dependency_Graph
  imports Interpolations "HOL-Library.Multiset"
begin

text \<open>
  The dependency graph and its topological order, \<^verbatim>\<open>internal/dependency/resolver.go\<close>. The
  code ranges over Go maps, whose order is open: every operation takes the order in which its
  loops see the keys as a \<open>map_order\<close>, an arbitrary reordering. The recursive
  closures \<^verbatim>\<open>visit\<close> and \<^verbatim>\<open>dfs\<close> are given fuel; \<open>graph_fuel\<close> is always enough, so that no
  operation returns \<open>None\<close>.
\<close>

section \<open>The order of a map\<close>

typedef map_order = "{f :: string list \<Rightarrow> string list. \<forall>xs. mset (f xs) = mset xs}"
  morphisms in_order Map_Order
  by (rule exI [of _ "\<lambda>xs. xs"]) simp

setup_lifting type_definition_map_order

lift_definition insertion_order :: map_order is "\<lambda>xs. xs" by simp

lift_definition reverse_order :: map_order is rev by simp

lemma mset_in_order [simp]: "mset (in_order mo xs) = mset xs"
  by transfer simp

lemma set_in_order [simp]: "set (in_order mo xs) = set xs"
  using mset_in_order by (metis set_mset_mset)

lemma distinct_in_order [simp]: "distinct (in_order mo xs) = distinct xs"
  using mset_in_order mset_eq_imp_distinct_iff by blast

lemma in_insertion_order [simp]: "in_order insertion_order xs = xs"
  by transfer simp

lemma in_reverse_order [simp]: "in_order reverse_order xs = rev xs"
  by transfer simp

section \<open>The graph\<close>

record dependency_graph =
  dg_resources :: "(string \<times> resource) list"
  dg_data_sources :: "(string \<times> data_source) list"
  dg_dependencies :: "(string \<times> string list) list"
  dg_dependents :: "(string \<times> string list) list"
  dg_execution_order :: "string list"

text \<open>Indexing a map of slices: nil, the empty slice, for a missing key.\<close>

definition map_slice :: "(string \<times> string list) list \<Rightarrow> string \<Rightarrow> string list" where
  "map_slice m k = (case map_of m k of None \<Rightarrow> [] | Some xs \<Rightarrow> xs)"

abbreviation deps_of :: "dependency_graph \<Rightarrow> string \<Rightarrow> string list" where
  "deps_of g \<equiv> map_slice (dg_dependencies g)"

definition resource_key :: "resource \<Rightarrow> string" where
  "resource_key r = res_type r @ ''.'' @ res_name r"

definition data_source_key :: "data_source \<Rightarrow> string" where
  "data_source_key d = ''data.'' @ ds_type d @ ''.'' @ ds_name d"

definition add_resource :: "resource \<Rightarrow> dependency_graph \<Rightarrow> dependency_graph" where
  "add_resource r g =
     g\<lparr>dg_resources := map_put (resource_key r) r (dg_resources g),
       dg_dependencies := map_put (resource_key r) (extract_dependencies (res_properties r)) (dg_dependencies g)\<rparr>"

definition add_data_source :: "data_source \<Rightarrow> dependency_graph \<Rightarrow> dependency_graph" where
  "add_data_source d g =
     g\<lparr>dg_data_sources := map_put (data_source_key d) d (dg_data_sources g),
       dg_dependencies :=
         map_put (data_source_key d) (extract_dependencies (ds_properties d)) (dg_dependencies g)\<rparr>"

definition add_dependent :: "string \<Rightarrow> string \<Rightarrow> (string \<times> string list) list \<Rightarrow> (string \<times> string list) list" where
  "add_dependent node dep m = map_put dep (map_slice m dep @ [node]) m"

definition dependents_of :: "map_order \<Rightarrow> (string \<times> string list) list \<Rightarrow> (string \<times> string list) list" where
  "dependents_of mo ds =
     fold (\<lambda>node. fold (add_dependent node) (map_slice ds node)) (in_order mo (map fst ds)) []"

definition empty_graph :: dependency_graph where
  "empty_graph = \<lparr>dg_resources = [], dg_data_sources = [], dg_dependencies = [], dg_dependents = [],
     dg_execution_order = []\<rparr>"

definition build_dependency_graph :: "map_order \<Rightarrow> resource list \<Rightarrow> data_source list \<Rightarrow> dependency_graph" where
  "build_dependency_graph mo resources dataSources =
     (let g = fold add_data_source dataSources (fold add_resource resources empty_graph)
      in g\<lparr>dg_dependents := dependents_of mo (dg_dependencies g)\<rparr>)"

section \<open>The depth-first searches\<close>

text \<open>The state of \<^verbatim>\<open>visit\<close>: the maps \<^verbatim>\<open>visited\<close> and \<^verbatim>\<open>temp\<close> as the sets of their true keys.\<close>

record visit_state =
  vs_visited :: "string set"
  vs_temp :: "string set"
  vs_result :: "string list"

fun visit :: "nat \<Rightarrow> (string \<Rightarrow> string list) \<Rightarrow> string \<Rightarrow> visit_state \<Rightarrow> (goerror + visit_state) option" where
  "visit 0 deps node st = None"
| "visit (Suc n) deps node st =
     (if node \<in> vs_visited st then Some (Inr st)
      else if node \<in> vs_temp st
           then Some (Inl (ErrorString (''cycle detected involving node: '' @ node)))
      else (case fuel_each (visit n deps) (deps node) (st\<lparr>vs_temp := insert node (vs_temp st)\<rparr>) of
              None \<Rightarrow> None
            | Some (Inl e) \<Rightarrow> Some (Inl e)
            | Some (Inr st') \<Rightarrow>
                Some (Inr (st'\<lparr>vs_temp := vs_temp st' - {node}, vs_visited := insert node (vs_visited st'),
                               vs_result := vs_result st' @ [node]\<rparr>))))"

record color_state =
  cs_white :: "string set"
  cs_gray :: "string set"
  cs_black :: "string set"

text \<open>The cycle in the error: the path from the first occurrence of the node, and the node again.\<close>

definition cycle_of :: "string \<Rightarrow> string list \<Rightarrow> string list" where
  "cycle_of node path = dropWhile (\<lambda>n. n \<noteq> node) path @ [node]"

fun arrow_join :: "string list \<Rightarrow> string" where
  "arrow_join [] = ''''"
| "arrow_join [x] = x"
| "arrow_join (x # xs) = x @ '' -> '' @ arrow_join xs"

fun dfs :: "nat \<Rightarrow> (string \<Rightarrow> string list) \<Rightarrow> string list \<Rightarrow> string \<Rightarrow> color_state \<Rightarrow> (goerror + color_state) option" where
  "dfs 0 deps path node st = None"
| "dfs (Suc n) deps path node st =
     (if node \<in> cs_gray st
      then Some (Inl (ErrorString (''dependency cycle detected: '' @ arrow_join (cycle_of node path))))
      else if node \<in> cs_black st then Some (Inr st)
      else (case fuel_each (dfs n deps (path @ [node])) (deps node)
                   (st\<lparr>cs_white := cs_white st - {node}, cs_gray := insert node (cs_gray st)\<rparr>) of
              None \<Rightarrow> None
            | Some (Inl e) \<Rightarrow> Some (Inl e)
            | Some (Inr st') \<Rightarrow>
                Some (Inr (st'\<lparr>cs_gray := cs_gray st' - {node}, cs_black := insert node (cs_black st')\<rparr>))))"

text \<open>Every node of the graph and every node a dependency names.\<close>

definition graph_nodes :: "dependency_graph \<Rightarrow> string list" where
  "graph_nodes g = map fst (dg_resources g) @ map fst (dg_data_sources g) @ concat (map snd (dg_dependencies g))"

definition graph_fuel :: "dependency_graph \<Rightarrow> nat" where
  "graph_fuel g = Suc (length (graph_nodes g))"

text \<open>
  \<^verbatim>\<open>ValidateNoCycles\<close>. Its last loop ranges over \<^verbatim>\<open>white\<close> while \<^verbatim>\<open>dfs\<close> deletes from it: Go does
  not produce a key that was removed before it was reached.
\<close>

fun white_loop :: "(string \<Rightarrow> color_state \<Rightarrow> (goerror + color_state) option) \<Rightarrow> string list \<Rightarrow> color_state \<Rightarrow>
    (goerror + color_state) option" where
  "white_loop f [] st = Some (Inr st)"
| "white_loop f (node # nodes) st =
     (if node \<in> cs_white st
      then (case f node st of
              None \<Rightarrow> None
            | Some (Inl e) \<Rightarrow> Some (Inl e)
            | Some (Inr st') \<Rightarrow> white_loop f nodes st')
      else white_loop f nodes st)"

definition validate_no_cycles :: "map_order \<Rightarrow> dependency_graph \<Rightarrow> goerror option option" where
  "validate_no_cycles mo g =
     (let keys = remdups (map fst (dg_resources g) @ map fst (dg_data_sources g)) in
      case white_loop (dfs (graph_fuel g) (deps_of g) []) (in_order mo keys)
             \<lparr>cs_white = set keys, cs_gray = {}, cs_black = {}\<rparr> of
        None \<Rightarrow> None
      | Some (Inl e) \<Rightarrow> Some (Some e)
      | Some (Inr _) \<Rightarrow> Some None)"

definition get_execution_order ::
  "map_order \<Rightarrow> map_order \<Rightarrow> dependency_graph \<Rightarrow> (goerror + string list) option" where
  "get_execution_order mv mo g =
     (case validate_no_cycles mv g of
        None \<Rightarrow> None
      | Some (Some e) \<Rightarrow> Some (Inl e)
      | Some None \<Rightarrow>
          (let allNodes = in_order mo (map fst (dg_resources g)) @ in_order mo (map fst (dg_data_sources g)) in
           case fuel_each (visit (graph_fuel g) (deps_of g)) allNodes
                  \<lparr>vs_visited = {}, vs_temp = {}, vs_result = []\<rparr> of
             None \<Rightarrow> None
           | Some (Inl e) \<Rightarrow> Some (Inl e)
           | Some (Inr st) \<Rightarrow> Some (Inr (vs_result st))))"

definition parallelizable_groups ::
  "map_order \<Rightarrow> map_order \<Rightarrow> dependency_graph \<Rightarrow> (goerror + string list list) option" where
  "parallelizable_groups mv mo g = map_option (map_sum id (map (\<lambda>r. [r]))) (get_execution_order mv mo g)"

text \<open>\<^verbatim>\<open>ValidateDependenciesExist\<close>: the first dependency, in the order of the map, that is no node.\<close>

definition validate_dependencies_exist :: "map_order \<Rightarrow> dependency_graph \<Rightarrow> goerror option" where
  "validate_dependencies_exist mo g =
     (let allNodes = set (map fst (dg_resources g)) \<union> set (map fst (dg_data_sources g)) in
      snd (for_each (\<lambda>node. for_each (\<lambda>dep s.
             (s, if dep \<in> allNodes then None
                 else Some (ErrorString (''resource '' @ node @ '' depends on non-existent resource '' @ dep))))
             (deps_of g node)) (in_order mo (map fst (dg_dependencies g))) ()))"

record graph_statistics =
  gs_total_nodes :: nat
  gs_total_edges :: nat
  gs_max_depth :: nat
  gs_critical_path_length :: nat
  gs_parallel_groups :: nat

definition get_graph_statistics :: "dependency_graph \<Rightarrow> graph_statistics" where
  "get_graph_statistics g =
     \<lparr>gs_total_nodes = length (dg_resources g) + length (dg_data_sources g),
      gs_total_edges = sum_list (map (length \<circ> snd) (dg_dependencies g)),
      gs_max_depth = 1, gs_critical_path_length = 1, gs_parallel_groups = 1\<rparr>"

section \<open>Topological order\<close>

definition dep_rel :: "(string \<Rightarrow> string list) \<Rightarrow> (string \<times> string) set" where
  "dep_rel deps = {(n, d). d \<in> set (deps n)}"

text \<open>Every node of the list stands behind all its dependencies.\<close>

definition closed_order :: "(string \<Rightarrow> string list) \<Rightarrow> string list \<Rightarrow> bool" where
  "closed_order deps xs \<longleftrightarrow> (\<forall>i < length xs. set (deps (xs ! i)) \<subseteq> set (take i xs))"

lemma closed_order_Nil [simp]: "closed_order deps []"
  by (simp add: closed_order_def)

lemma closed_order_snoc: "closed_order deps xs \<Longrightarrow> set (deps y) \<subseteq> set xs \<Longrightarrow> closed_order deps (xs @ [y])"
  by (auto simp: closed_order_def nth_append less_Suc_eq)

lemma closed_order_reach:
  assumes "closed_order deps xs" and "(xs ! i, y) \<in> (dep_rel deps)\<^sup>+" and "i < length xs"
  shows "\<exists>j < i. y = xs ! j"
  using assms(2)
proof (induction rule: trancl_induct)
  case (base y)
  then have "y \<in> set (take i xs)" using assms(1,3) by (auto simp: closed_order_def dep_rel_def)
  then show ?case using assms(3) by (auto simp: in_set_conv_nth)
next
  case (step y z)
  then obtain j where j: "j < i" "y = xs ! j" by blast
  then have "set (deps (xs ! j)) \<subseteq> set (take j xs)" using assms(1,3) by (simp add: closed_order_def)
  then have "z \<in> set (take j xs)" using step(2) j(2) by (auto simp: dep_rel_def)
  then obtain k where "k < length (take j xs)" "z = take j xs ! k" by (metis in_set_conv_nth)
  then show ?case using j(1) by (intro exI [of _ k]) auto
qed

lemma closed_order_acyclic:
  assumes "closed_order deps xs" and "distinct xs" and "n \<in> set xs" and "(n, m) \<in> (dep_rel deps)\<^sup>*"
  shows "(m, m) \<notin> (dep_rel deps)\<^sup>+"
proof
  assume cycle: "(m, m) \<in> (dep_rel deps)\<^sup>+"
  obtain i where i: "i < length xs" "n = xs ! i" using assms(3) by (auto simp: in_set_conv_nth)
  obtain j where j: "j < length xs" "m = xs ! j"
  proof (cases "n = m")
    case False
    then have "(xs ! i, m) \<in> (dep_rel deps)\<^sup>+" using assms(4) i(2) by (auto dest: rtranclD)
    from closed_order_reach [OF assms(1) this i(1)] obtain k where k: "k < i" "m = xs ! k" by blast
    show thesis by (rule that [of k]) (use k i(1) in auto)
  qed (use that i in blast)
  from closed_order_reach [OF assms(1), of j m] j cycle obtain k where "k < j" "m = xs ! k" by blast
  then show False using assms(2) j by (simp add: nth_eq_iff_index_eq)
qed

text \<open>What a search that comes back has done.\<close>

definition visit_inv :: "(string \<Rightarrow> string list) \<Rightarrow> visit_state \<Rightarrow> bool" where
  "visit_inv deps st \<longleftrightarrow> vs_visited st = set (vs_result st) \<and> distinct (vs_result st) \<and>
     closed_order deps (vs_result st) \<and> vs_temp st \<inter> vs_visited st = {}"

definition visited_to :: "(string \<Rightarrow> string list) \<Rightarrow> string set \<Rightarrow> visit_state \<Rightarrow> visit_state \<Rightarrow> bool" where
  "visited_to deps N st st' \<longleftrightarrow> visit_inv deps st' \<and> vs_temp st' = vs_temp st \<and>
     vs_visited st \<union> N \<subseteq> vs_visited st'"

lemma visit_inv_enter:
  "visit_inv deps st \<Longrightarrow> node \<notin> vs_visited st \<Longrightarrow> visit_inv deps (st\<lparr>vs_temp := insert node (vs_temp st)\<rparr>)"
  unfolding visit_inv_def by auto

lemma visits_ok:
  assumes "\<And>x st st'. f x st = Some (Inr st') \<Longrightarrow> visit_inv deps st \<Longrightarrow> visited_to deps {x} st st'"
    and "fuel_each f xs st = Some (Inr st')" and "visit_inv deps st"
  shows "visited_to deps (set xs) st st'"
  using assms(2,3)
proof (induction xs arbitrary: st)
  case Nil
  then show ?case by (simp add: visited_to_def)
next
  case (Cons x xs)
  then obtain s1 where s1: "f x st = Some (Inr s1)" "fuel_each f xs s1 = Some (Inr st')"
    by (auto split: option.splits sum.splits)
  from assms(1) [OF s1(1) Cons.prems(2)] have v: "visited_to deps {x} st s1" .
  then have "visited_to deps (set xs) s1 st'" using Cons.IH [OF s1(2)] by (simp add: visited_to_def)
  with v show ?case by (auto simp: visited_to_def)
qed

lemma visit_ok:
  "visit n deps node st = Some (Inr st') \<Longrightarrow> visit_inv deps st \<Longrightarrow> visited_to deps {node} st st'"
proof (induction n arbitrary: node st st')
  case (Suc n)
  show ?case
  proof (cases "node \<in> vs_visited st")
    case True
    then show ?thesis using Suc.prems by (auto simp: visited_to_def)
  next
    case False
    let ?st1 = "st\<lparr>vs_temp := insert node (vs_temp st)\<rparr>"
    from Suc.prems(1) False obtain s1 where new: "node \<notin> vs_temp st"
      and s1: "fuel_each (visit n deps) (deps node) ?st1 = Some (Inr s1)"
      and st': "st' = s1\<lparr>vs_temp := vs_temp s1 - {node}, vs_visited := insert node (vs_visited s1),
                        vs_result := vs_result s1 @ [node]\<rparr>"
      by (auto split: if_splits option.splits sum.splits)
    have "visit_inv deps ?st1" using Suc.prems(2) False by (intro visit_inv_enter)
    from visits_ok [OF Suc.IH s1 this] have v: "visited_to deps (set (deps node)) ?st1 s1" .
    then have "node \<notin> vs_visited s1" by (auto simp: visited_to_def visit_inv_def)
    with v show ?thesis unfolding st'
      by (auto simp: visited_to_def visit_inv_def new intro: closed_order_snoc)
  qed
qed simp

lemma visit_error:
  assumes "visit n deps node st = Some (Inl e)" and "\<forall>t \<in> vs_temp st. (t, node) \<in> (dep_rel deps)\<^sup>+"
    and "visit_inv deps st"
  shows "\<exists>m. (node, m) \<in> (dep_rel deps)\<^sup>* \<and> (m, m) \<in> (dep_rel deps)\<^sup>+"
  using assms
proof (induction n arbitrary: node st e)
  case (Suc n)
  show ?case
  proof (cases "node \<in> vs_temp st")
    case True
    then show ?thesis using Suc.prems(2) by blast
  next
    case False
    let ?st1 = "st\<lparr>vs_temp := insert node (vs_temp st)\<rparr>"
    from Suc.prems(1) False have err: "fuel_each (visit n deps) (deps node) ?st1 = Some (Inl e)"
      and new: "node \<notin> vs_visited st" by (auto split: if_splits option.splits sum.splits)
    have inv1: "visit_inv deps ?st1" using Suc.prems(3) new by (intro visit_inv_enter)
    obtain d s1 where d: "d \<in> set (deps node)" "visit_inv deps s1 \<and> vs_temp s1 = insert node (vs_temp st)"
      "visit n deps d s1 = Some (Inl e)"
      by (rule fuel_each_Inl [OF err, where P = "\<lambda>s. visit_inv deps s \<and> vs_temp s = insert node (vs_temp st)"])
         (use inv1 in \<open>auto dest: visit_ok simp: visited_to_def\<close>)
    have edge: "(node, d) \<in> dep_rel deps" using d(1) by (simp add: dep_rel_def)
    have "\<forall>t \<in> vs_temp s1. (t, d) \<in> (dep_rel deps)\<^sup>+"
      using d(2) Suc.prems(2) edge by (auto intro: trancl_into_trancl)
    from Suc.IH [OF d(3) this] d(2) edge show ?thesis by (meson converse_rtrancl_into_rtrancl)
  qed
qed simp

lemma visit_fuel:
  assumes "finite N" and "\<forall>x \<in> N. set (deps x) \<subseteq> N" and "node \<in> N" and "vs_temp st \<subseteq> N"
    and "card (N - vs_temp st) < n" and "visit_inv deps st"
  shows "visit n deps node st \<noteq> None"
  using assms(3-)
proof (induction n arbitrary: node st)
  case (Suc n)
  let ?st1 = "st\<lparr>vs_temp := insert node (vs_temp st)\<rparr>"
  show ?case
  proof (cases "node \<in> vs_visited st \<or> node \<in> vs_temp st")
    case False
    have inv1: "visit_inv deps ?st1" using Suc.prems(4) False by (intro visit_inv_enter) auto
    have "card (N - insert node (vs_temp st)) < card (N - vs_temp st)"
      using assms(1) Suc.prems(1) False by (intro psubset_card_mono) auto
    then have card: "card (N - insert node (vs_temp st)) < n" using Suc.prems(3) by simp
    have "fuel_each (visit n deps) (deps node) ?st1 \<noteq> None"
    proof (rule fuel_each_Some [where P = "\<lambda>s. visit_inv deps s \<and> vs_temp s = insert node (vs_temp st)"])
      fix d s assume "d \<in> set (deps node)" and s: "visit_inv deps s \<and> vs_temp s = insert node (vs_temp st)"
      then have "d \<in> N" using assms(2) Suc.prems(1) by blast
      then show "visit n deps d s \<noteq> None" using Suc.IH [of d s] s card Suc.prems(1,2) by simp
    next
      fix d s s' assume "visit_inv deps s \<and> vs_temp s = insert node (vs_temp st)" "visit n deps d s = Some (Inr s')"
      then show "visit_inv deps s' \<and> vs_temp s' = insert node (vs_temp st)"
        using visit_ok [of n deps d s s'] by (simp add: visited_to_def)
    qed (use inv1 in simp)
    then show ?thesis using False by (auto split: option.splits sum.splits)
  qed auto
qed simp

section \<open>The two searches agree\<close>

text \<open>
  \<^verbatim>\<open>dfs\<close> of the validation and \<^verbatim>\<open>visit\<close> of the ordering walk the same way: gray is
  \<^verbatim>\<open>temp\<close> and black is \<^verbatim>\<open>visited\<close>.
\<close>

definition same_marks :: "color_state \<Rightarrow> visit_state \<Rightarrow> bool" where
  "same_marks ct st \<longleftrightarrow> cs_gray ct = vs_temp st \<and> cs_black ct = vs_visited st \<and> vs_temp st \<inter> vs_visited st = {}"

lemma dfs_visit:
  "same_marks ct st \<Longrightarrow>
     rel_option (rel_sum (\<lambda>_ _. True) same_marks) (dfs n deps path node ct) (visit n deps node st)"
proof (induction n arbitrary: path node ct st)
  case (Suc n)
  show ?case
  proof (cases "node \<in> vs_temp st \<or> node \<in> vs_visited st")
    case True
    then show ?thesis using Suc.prems by (auto simp: same_marks_def)
  next
    case False
    let ?ct1 = "ct\<lparr>cs_white := cs_white ct - {node}, cs_gray := insert node (cs_gray ct)\<rparr>"
    let ?st1 = "st\<lparr>vs_temp := insert node (vs_temp st)\<rparr>"
    have "same_marks ?ct1 ?st1" using Suc.prems False by (auto simp: same_marks_def)
    with Suc.IH have r: "rel_option (rel_sum (\<lambda>_ _. True) same_marks)
        (fuel_each (dfs n deps (path @ [node])) (deps node) ?ct1) (fuel_each (visit n deps) (deps node) ?st1)"
      by (rule fuel_each_rel)
    have "node \<notin> cs_gray ct" "node \<notin> cs_black ct" using Suc.prems False by (auto simp: same_marks_def)
    with r False show ?thesis
      by (cases "fuel_each (dfs n deps (path @ [node])) (deps node) ?ct1";
          cases "fuel_each (visit n deps) (deps node) ?st1")
         (auto simp: same_marks_def split: sum.splits elim: rel_sum.cases)
  qed
qed simp

text \<open>What the validation's loop skips is already black.\<close>

lemma dfs_colors:
  "dfs n deps path node ct = Some (Inr ct') \<Longrightarrow> cs_gray ct' = cs_gray ct \<and>
     cs_white ct \<union> cs_gray ct \<union> cs_black ct \<subseteq> cs_white ct' \<union> cs_gray ct' \<union> cs_black ct'"
proof (induction n arbitrary: path node ct ct')
  case (Suc n)
  show ?case
  proof (cases "node \<in> cs_gray ct \<or> node \<in> cs_black ct")
    case False
    let ?ct1 = "ct\<lparr>cs_white := cs_white ct - {node}, cs_gray := insert node (cs_gray ct)\<rparr>"
    let ?P = "\<lambda>c. cs_gray c = insert node (cs_gray ct) \<and>
      cs_white ct \<union> cs_gray ct \<union> cs_black ct \<subseteq> cs_white c \<union> cs_gray c \<union> cs_black c"
    obtain c1 where c1: "fuel_each (dfs n deps (path @ [node])) (deps node) ?ct1 = Some (Inr c1)"
      and ct': "ct' = c1\<lparr>cs_gray := cs_gray c1 - {node}, cs_black := insert node (cs_black c1)\<rparr>"
      using Suc.prems False by (auto split: if_splits option.splits sum.splits)
    have "?P c1"
    proof (rule fuel_each_Inr [OF c1])
      fix d s s' assume P: "?P s" and d: "dfs n deps (path @ [node]) d s = Some (Inr s')"
      show "?P s'" using P Suc.IH [OF d] by blast
    qed auto
    then show ?thesis unfolding ct' using False by auto
  qed (use Suc.prems in \<open>auto split: if_splits\<close>)
qed simp

lemma white_loop_all:
  "cs_gray ct = {} \<Longrightarrow> set nodes \<subseteq> cs_white ct \<union> cs_black ct \<Longrightarrow>
     white_loop (dfs (Suc n) deps []) nodes ct = fuel_each (dfs (Suc n) deps []) nodes ct"
proof (induction nodes arbitrary: ct)
  case (Cons node nodes)
  show ?case
  proof (cases "node \<in> cs_white ct")
    case True
    have "white_loop (dfs (Suc n) deps []) nodes ct' = fuel_each (dfs (Suc n) deps []) nodes ct'"
      if "dfs (Suc n) deps [] node ct = Some (Inr ct')" for ct'
    proof (rule Cons.IH)
      show "cs_gray ct' = {}" using dfs_colors [OF that] Cons.prems(1) by simp
      show "set nodes \<subseteq> cs_white ct' \<union> cs_black ct'" using dfs_colors [OF that] Cons.prems by fastforce
    qed
    with True show ?thesis by (simp del: dfs.simps split: option.split sum.split)
  next
    case False
    then have "dfs (Suc n) deps [] node ct = Some (Inr ct)" using Cons.prems by auto
    with False Cons show ?thesis by (simp del: dfs.simps)
  qed
qed simp

section \<open>What the resolver promises\<close>

definition graph_keys :: "dependency_graph \<Rightarrow> string set" where
  "graph_keys g = fst ` set (dg_resources g) \<union> fst ` set (dg_data_sources g)"

text \<open>A cycle of dependencies can be reached from a resource or data source.\<close>

definition graph_cyclic :: "dependency_graph \<Rightarrow> bool" where
  "graph_cyclic g \<longleftrightarrow>
     (\<exists>k \<in> graph_keys g. \<exists>m. (k, m) \<in> (dep_rel (deps_of g))\<^sup>* \<and> (m, m) \<in> (dep_rel (deps_of g))\<^sup>+)"

abbreviation no_marks :: visit_state where
  "no_marks \<equiv> \<lparr>vs_visited = {}, vs_temp = {}, vs_result = []\<rparr>"

abbreviation visit_all :: "dependency_graph \<Rightarrow> string list \<Rightarrow> (goerror + visit_state) option" where
  "visit_all g xs \<equiv> fuel_each (visit (graph_fuel g) (deps_of g)) xs no_marks"

lemma visit_inv_no_marks [simp]: "visit_inv deps no_marks"
  by (simp add: visit_inv_def)

lemma deps_of_nodes: "set (deps_of g x) \<subseteq> set (graph_nodes g)"
proof (cases "map_of (dg_dependencies g) x")
  case (Some ds)
  then have "ds \<in> set (map snd (dg_dependencies g))" by (force dest: map_of_SomeD)
  with Some show ?thesis by (auto simp: map_slice_def graph_nodes_def)
qed (simp add: map_slice_def)

lemma visit_all_Some:
  assumes "set xs \<subseteq> graph_keys g"
  shows "visit_all g xs \<noteq> None"
proof (rule fuel_each_Some [where P = "\<lambda>st. visit_inv (deps_of g) st \<and> vs_temp st = {}"])
  fix x st assume x: "x \<in> set xs" and st: "visit_inv (deps_of g) st \<and> vs_temp st = {}"
  have "x \<in> set (graph_nodes g)" using x assms by (auto simp: graph_nodes_def graph_keys_def)
  moreover have "card (set (graph_nodes g) - vs_temp st) < graph_fuel g"
    using st card_length [of "graph_nodes g"] by (simp add: graph_fuel_def)
  ultimately show "visit (graph_fuel g) (deps_of g) x st \<noteq> None"
    using st deps_of_nodes by (intro visit_fuel [of "set (graph_nodes g)"]) auto
next
  fix x st st' assume "visit_inv (deps_of g) st \<and> vs_temp st = {}" "visit (graph_fuel g) (deps_of g) x st = Some (Inr st')"
  then show "visit_inv (deps_of g) st' \<and> vs_temp st' = {}" using visit_ok by (auto simp: visited_to_def)
qed simp

lemma visit_all_Inr:
  assumes "visit_all g xs = Some (Inr st)"
  shows "visited_to (deps_of g) (set xs) no_marks st"
  by (rule visits_ok [OF visit_ok assms]) simp_all

lemma visit_all_Inl:
  assumes "visit_all g xs = Some (Inl e)" and "set xs \<subseteq> graph_keys g"
  shows "graph_cyclic g"
proof -
  obtain k st where k: "k \<in> set xs" "visit_inv (deps_of g) st \<and> vs_temp st = {}"
    "visit (graph_fuel g) (deps_of g) k st = Some (Inl e)"
    by (rule fuel_each_Inl [OF assms(1), where P = "\<lambda>st. visit_inv (deps_of g) st \<and> vs_temp st = {}"])
       (auto dest: visit_ok simp: visited_to_def)
  from visit_error [OF k(3)] k(2) show ?thesis using k(1) assms(2) by (auto simp: graph_cyclic_def)
qed

lemma visit_all_acyclic:
  assumes "visit_all g xs = Some (Inr st)" and "graph_keys g \<subseteq> set xs"
  shows "\<not> graph_cyclic g"
proof -
  have "visited_to (deps_of g) (set xs) no_marks st" using visit_all_Inr [OF assms(1)] .
  then have "closed_order (deps_of g) (vs_result st)" "distinct (vs_result st)" "graph_keys g \<subseteq> set (vs_result st)"
    using assms(2) by (auto simp: visited_to_def visit_inv_def)
  then show ?thesis using closed_order_acyclic by (fastforce simp: graph_cyclic_def)
qed

lemma visit_all_cases:
  assumes "set xs = graph_keys g"
  obtains e where "visit_all g xs = Some (Inl e)" and "graph_cyclic g"
    | st where "visit_all g xs = Some (Inr st)" and "\<not> graph_cyclic g"
proof -
  obtain r where r: "visit_all g xs = Some r" using visit_all_Some [of xs g] assms by auto
  show thesis
  proof (cases r)
    case (Inl e)
    then show ?thesis using that(1) visit_all_Inl [of g xs e] r assms by simp
  next
    case (Inr st)
    then show ?thesis using that(2) visit_all_acyclic [of g xs st] r assms by simp
  qed
qed

lemma validate_ends:
  "\<exists>r. validate_no_cycles mv g = Some r \<and> (r \<noteq> None \<longleftrightarrow> graph_cyclic g)"
proof -
  let ?keys = "remdups (map fst (dg_resources g) @ map fst (dg_data_sources g))"
  let ?ct = "\<lparr>cs_white = set ?keys, cs_gray = {}, cs_black = {}\<rparr>"
  let ?dfs = "dfs (graph_fuel g) (deps_of g) []"
  have keys: "set (in_order mv ?keys) = graph_keys g" by (auto simp: graph_keys_def)
  have loop: "white_loop ?dfs (in_order mv ?keys) ?ct = fuel_each ?dfs (in_order mv ?keys) ?ct"
    unfolding graph_fuel_def by (rule white_loop_all) simp_all
  have "rel_option (rel_sum (\<lambda>_ _. True) same_marks) (fuel_each ?dfs (in_order mv ?keys) ?ct) (visit_all g (in_order mv ?keys))"
    by (rule fuel_each_rel [OF dfs_visit]) (simp_all add: same_marks_def)
  then show ?thesis unfolding validate_no_cycles_def Let_def loop
    by (cases rule: visit_all_cases [OF keys]) (auto simp: option_rel_Some2 elim!: rel_sum.cases)
qed

lemma order_ends:
  "\<exists>r. get_execution_order mv mo g = Some r \<and>
     (case r of
        Inl e \<Rightarrow> graph_cyclic g
      | Inr xs \<Rightarrow> \<not> graph_cyclic g \<and> distinct xs \<and> graph_keys g \<subseteq> set xs \<and> closed_order (deps_of g) xs)"
proof -
  let ?all = "in_order mo (map fst (dg_resources g)) @ in_order mo (map fst (dg_data_sources g))"
  have all: "set ?all = graph_keys g" by (simp add: graph_keys_def)
  obtain r where r: "validate_no_cycles mv g = Some r" "r \<noteq> None \<longleftrightarrow> graph_cyclic g"
    using validate_ends by blast
  show ?thesis
  proof (cases r)
    case (Some e)
    then show ?thesis using r by (simp add: get_execution_order_def)
  next
    case None
    with r(2) obtain st where st: "visit_all g ?all = Some (Inr st)" "\<not> graph_cyclic g"
      using visit_all_cases [OF all] by blast
    have "visited_to (deps_of g) (graph_keys g) no_marks st" using visit_all_Inr [OF st(1)] all by simp
    then have "graph_keys g \<subseteq> set (vs_result st)" "distinct (vs_result st)" "closed_order (deps_of g) (vs_result st)"
      by (auto simp: visited_to_def visit_inv_def)
    then show ?thesis using r(1) None st by (simp add: get_execution_order_def Let_def)
  qed
qed

section \<open>The contract of a resolver\<close>

text \<open>
  The interface \<^verbatim>\<open>DependencyResolver\<close> as its clients use it: \<open>keys\<close> and \<open>deps\<close> are the
  nodes and the dependencies of a graph. The change ordering is proved from this contract.
\<close>

record 'g resolver =
  rv_build :: "resource list \<Rightarrow> data_source list \<Rightarrow> goerror + 'g"
  rv_validate :: "'g \<Rightarrow> goerror option option"
  rv_order :: "'g \<Rightarrow> (goerror + string list) option"

definition production_resolver :: "map_order \<Rightarrow> map_order \<Rightarrow> map_order \<Rightarrow> map_order \<Rightarrow> dependency_graph resolver" where
  "production_resolver mb mv mw mo =
     \<lparr>rv_build = (\<lambda>rs ds. Inr (build_dependency_graph mb rs ds)),
      rv_validate = validate_no_cycles mv, rv_order = get_execution_order mw mo\<rparr>"

definition cyclic_from :: "string set \<Rightarrow> (string \<Rightarrow> string list) \<Rightarrow> bool" where
  "cyclic_from keys deps \<longleftrightarrow> (\<exists>k \<in> keys. \<exists>m. (k, m) \<in> (dep_rel deps)\<^sup>* \<and> (m, m) \<in> (dep_rel deps)\<^sup>+)"

lemma graph_cyclic_from: "graph_cyclic g = cyclic_from (graph_keys g) (deps_of g)"
  by (simp add: graph_cyclic_def cyclic_from_def)

locale dependency_resolver =
  fixes rv :: "'g resolver"
    and keys :: "'g \<Rightarrow> string set"
    and deps :: "'g \<Rightarrow> string \<Rightarrow> string list"
  assumes build_graph: "distinct (map resource_key rs) \<Longrightarrow>
      \<exists>g. rv_build rv rs [] = Inr g \<and> keys g = resource_key ` set rs \<and>
          (\<forall>r \<in> set rs. deps g (resource_key r) = extract_dependencies (res_properties r)) \<and>
          (\<forall>k. k \<notin> keys g \<longrightarrow> deps g k = [])"
    and validate_cycles: "\<exists>r. rv_validate rv g = Some r \<and> (r \<noteq> None \<longleftrightarrow> cyclic_from (keys g) (deps g))"
    and order_spec: "\<exists>r. rv_order rv g = Some r \<and>
      (case r of
         Inl e \<Rightarrow> cyclic_from (keys g) (deps g)
       | Inr xs \<Rightarrow> \<not> cyclic_from (keys g) (deps g) \<and> distinct xs \<and> keys g \<subseteq> set xs \<and> closed_order (deps g) xs)"
begin

lemma order_acyclic:
  assumes "\<not> cyclic_from (keys g) (deps g)"
  obtains xs where "rv_validate rv g = Some None" and "rv_order rv g = Some (Inr xs)" and "distinct xs"
    and "keys g \<subseteq> set xs" and "closed_order (deps g) xs"
proof -
  obtain r where r: "rv_order rv g = Some r"
    "case r of Inl e \<Rightarrow> cyclic_from (keys g) (deps g)
      | Inr xs \<Rightarrow> \<not> cyclic_from (keys g) (deps g) \<and> distinct xs \<and> keys g \<subseteq> set xs \<and> closed_order (deps g) xs"
    using order_spec by blast
  with assms obtain xs where "r = Inr xs" by (cases r) auto
  then show thesis using that r validate_cycles [of g] assms by auto
qed

lemma cyclic_refused:
  assumes "cyclic_from (keys g) (deps g)"
  obtains e where "rv_validate rv g = Some (Some e)"
  using validate_cycles [of g] assms by auto

end

lemma add_resources:
  "map_of (dg_dependencies (fold add_resource rs g)) =
     map_of (dg_dependencies g) ++ map_of (rev (map (\<lambda>r. (resource_key r, extract_dependencies (res_properties r))) rs))"
  "fst ` set (dg_resources (fold add_resource rs g)) = fst ` set (dg_resources g) \<union> resource_key ` set rs"
  "dg_data_sources (fold add_resource rs g) = dg_data_sources g"
  by (induction rs arbitrary: g) (auto simp: add_resource_def map_of_append)

lemma build_resources:
  assumes "distinct (map resource_key rs)"
  shows "graph_keys (build_dependency_graph mb rs []) = resource_key ` set rs"
    and "r \<in> set rs \<Longrightarrow> deps_of (build_dependency_graph mb rs []) (resource_key r) = extract_dependencies (res_properties r)"
    and "k \<notin> resource_key ` set rs \<Longrightarrow> deps_of (build_dependency_graph mb rs []) k = []"
proof -
  show "k \<notin> resource_key ` set rs \<Longrightarrow> deps_of (build_dependency_graph mb rs []) k = []"
    by (auto simp: build_dependency_graph_def Let_def add_resources empty_graph_def map_slice_def dest!: map_of_SomeD
        split: option.split)
  show "graph_keys (build_dependency_graph mb rs []) = resource_key ` set rs"
    by (simp add: graph_keys_def build_dependency_graph_def Let_def add_resources empty_graph_def)
  let ?es = "map (\<lambda>r. (resource_key r, extract_dependencies (res_properties r))) rs"
  assume r: "r \<in> set rs"
  have "distinct (map fst (rev ?es))" using assms by (simp add: rev_map [symmetric] comp_def)
  then have "map_of (rev ?es) (resource_key r) = Some (extract_dependencies (res_properties r))"
    using r by (intro map_of_is_SomeI) auto
  then show "deps_of (build_dependency_graph mb rs []) (resource_key r) = extract_dependencies (res_properties r)"
    by (simp add: build_dependency_graph_def Let_def add_resources empty_graph_def map_slice_def)
qed

interpretation dres: dependency_resolver "production_resolver mb mv mw mo" graph_keys deps_of
  for mb mv mw mo
proof (unfold_locales, goal_cases)
  case (1 rs) then show ?case using build_resources by (auto simp: production_resolver_def)
next
  case (2 g) show ?case using validate_ends by (simp add: production_resolver_def graph_cyclic_from)
next
  case (3 g) show ?case using order_ends [of mw mo g, unfolded graph_cyclic_from] by (simp add: production_resolver_def)
qed

section \<open>Properties\<close>

text \<open>
  The validation always ends, and it returns an error exactly if a cycle of
  dependencies can be reached from a resource or data source, in whatever order the maps are visited.
\<close>

theorem validation_detects_cycles:
  "\<exists>r. validate_no_cycles mv g = Some r \<and> (r \<noteq> None \<longleftrightarrow> graph_cyclic g)"
  by (rule validate_ends)

text \<open>
  C2: the execution order always ends. It is an error exactly if the graph has a
  cycle; otherwise it holds every resource and data source, holds nothing twice, and every
  node stands behind all its dependencies.
\<close>

theorem execution_order_is_topological:
  "\<exists>r. get_execution_order mv mo g = Some r \<and>
     (case r of
        Inl e \<Rightarrow> graph_cyclic g
      | Inr xs \<Rightarrow> \<not> graph_cyclic g \<and> distinct xs \<and> graph_keys g \<subseteq> set xs \<and> closed_order (deps_of g) xs)"
  by (rule order_ends)

definition dependency_cycle :: "(string \<Rightarrow> string list) \<Rightarrow> string list \<Rightarrow> bool" where
  "dependency_cycle deps c \<longleftrightarrow> 2 \<le> length c \<and> hd c = last c \<and> successively (\<lambda>a b. b \<in> set (deps a)) c"

lemma cycle_of_path:
  assumes "node \<in> set path" and "successively (\<lambda>a b. b \<in> set (deps a)) (path @ [node])"
  shows "dependency_cycle deps (cycle_of node path)"
proof -
  have ne: "dropWhile (\<lambda>n. n \<noteq> node) path \<noteq> []" using assms(1) by (simp add: dropWhile_eq_Nil_conv)
  then have hd: "hd (cycle_of node path) = node"
    using hd_dropWhile [OF ne] by (simp add: cycle_of_def)
  have "path @ [node] = takeWhile (\<lambda>n. n \<noteq> node) path @ cycle_of node path" by (simp add: cycle_of_def)
  then have "successively (\<lambda>a b. b \<in> set (deps a)) (cycle_of node path)"
    using assms(2) by (metis successively_append_iff)
  moreover have "2 \<le> length (cycle_of node path)"
    using ne by (cases "dropWhile (\<lambda>n. n \<noteq> node) path") (simp_all add: cycle_of_def)
  ultimately show ?thesis using hd by (simp add: dependency_cycle_def) (simp add: cycle_of_def)
qed

lemma dfs_error:
  "dfs n deps path node ct = Some (Inl e) \<Longrightarrow> cs_gray ct = set path \<Longrightarrow>
     successively (\<lambda>a b. b \<in> set (deps a)) (path @ [node]) \<Longrightarrow>
     \<exists>c. e = ErrorString (''dependency cycle detected: '' @ arrow_join c) \<and> dependency_cycle deps c"
proof (induction n arbitrary: path node ct)
  case (Suc n)
  show ?case
  proof (cases "node \<in> set path")
    case True
    then show ?thesis using Suc.prems cycle_of_path by (auto split: if_splits)
  next
    case False
    let ?ct1 = "ct\<lparr>cs_white := cs_white ct - {node}, cs_gray := insert node (cs_gray ct)\<rparr>"
    from Suc.prems(1,2) False have err: "fuel_each (dfs n deps (path @ [node])) (deps node) ?ct1 = Some (Inl e)"
      by (auto split: if_splits option.splits sum.splits)
    obtain d c1 where d: "d \<in> set (deps node)" "cs_gray c1 = set (path @ [node])"
      "dfs n deps (path @ [node]) d c1 = Some (Inl e)"
      by (rule fuel_each_Inl [OF err, where P = "\<lambda>c. cs_gray c = set (path @ [node])"])
         (use Suc.prems(2) dfs_colors in auto)
    have "successively (\<lambda>a b. b \<in> set (deps a)) ((path @ [node]) @ [d])"
      using Suc.prems(3) d(1) by (subst successively_append_iff) simp
    then show ?thesis using Suc.IH [OF d(3,2)] by simp
  qed
qed simp

text \<open>
  The error of a failed validation names a cycle: its text lists nodes that begin and end
  with the same one and of which each depends on the next.
\<close>

theorem validation_error_names_cycle:
  assumes "validate_no_cycles mv g = Some (Some e)"
  shows "\<exists>c. e = ErrorString (''dependency cycle detected: '' @ arrow_join c) \<and> dependency_cycle (deps_of g) c"
proof -
  let ?keys = "remdups (map fst (dg_resources g) @ map fst (dg_data_sources g))"
  let ?ct = "\<lparr>cs_white = set ?keys, cs_gray = {}, cs_black = {}\<rparr>"
  let ?dfs = "dfs (graph_fuel g) (deps_of g) []"
  have "white_loop ?dfs (in_order mv ?keys) ?ct = fuel_each ?dfs (in_order mv ?keys) ?ct"
    unfolding graph_fuel_def by (rule white_loop_all) simp_all
  then have err: "fuel_each ?dfs (in_order mv ?keys) ?ct = Some (Inl e)"
    using assms by (simp add: validate_no_cycles_def Let_def split: option.splits sum.splits)
  obtain k c1 where "cs_gray c1 = {}" "?dfs k c1 = Some (Inl e)"
    by (rule fuel_each_Inl [OF err, where P = "\<lambda>c. cs_gray c = {}"]) (auto dest: dfs_colors)
  then show ?thesis using dfs_error [of "graph_fuel g" "deps_of g" "[]"] by simp
qed

text \<open>Two resources that name each other.\<close>

definition entangled :: "resource list" where
  "entangled =
     [\<lparr>res_type = ''a'', res_name = ''x'', res_properties = [(''p'', GStr ''${b.y.id}'')]\<rparr>,
      \<lparr>res_type = ''b'', res_name = ''y'', res_properties = [(''q'', GList [GStr ''id ${a.x.id}'', GInt 3])]\<rparr>]"

lemma entangled_dependencies:
  "dg_dependencies (build_dependency_graph insertion_order entangled []) = [(''a.x'', [''b.y'']), (''b.y'', [''a.x''])]"
  "map fst (dg_resources (build_dependency_graph insertion_order entangled [])) = [''a.x'', ''b.y'']"
  "dg_data_sources (build_dependency_graph insertion_order entangled []) = []"
  by (simp_all add: entangled_def build_dependency_graph_def empty_graph_def add_resource_def resource_key_def Let_def
      extract_dependencies_def find_interpolations_def extract_resource_references_def)

lemma entangled_error:
  "validate_no_cycles insertion_order (build_dependency_graph insertion_order entangled []) =
     Some (Some (ErrorString ''dependency cycle detected: a.x -> b.y -> a.x''))"
  by (simp add: validate_no_cycles_def entangled_dependencies graph_fuel_def graph_nodes_def Let_def map_slice_def
      cycle_of_def eval_nat_numeral)

theorem validation_error_names_cycle_witness:
  "\<exists>c. ErrorString ''dependency cycle detected: a.x -> b.y -> a.x'' =
         ErrorString (''dependency cycle detected: '' @ arrow_join c) \<and>
       dependency_cycle (deps_of (build_dependency_graph insertion_order entangled [])) c"
  by (rule validation_error_names_cycle [OF entangled_error])

text \<open>
  The statement on data sources: a reference to a data source of the graph names no node of it,
  so the check of the dependencies refuses the graph, and no edge orders the two.
\<close>

definition reads_data :: dependency_graph where
  "reads_data = build_dependency_graph insertion_order
     [\<lparr>res_type = ''web'', res_name = ''w'', res_properties = [(''ami'', GStr ''${data.ami.linux.id}'')]\<rparr>]
     [\<lparr>ds_type = ''ami'', ds_name = ''linux'', ds_properties = []\<rparr>]"

lemma reads_data_simps:
  "dg_dependencies reads_data = [(''web.w'', [''data.ami'']), (''data.ami.linux'', [])]"
  "map fst (dg_resources reads_data) = [''web.w'']" "map fst (dg_data_sources reads_data) = [''data.ami.linux'']"
  by (simp_all add: reads_data_def build_dependency_graph_def empty_graph_def add_resource_def add_data_source_def
      resource_key_def data_source_key_def Let_def extract_dependencies_def find_interpolations_def
      extract_resource_references_def)

text \<open>
  A resource that reads a data source of the same graph is placed before that data source,
  its reference becoming the foreign node \<open>data.ami\<close>, and the check of the
  dependencies rejects the graph although every reference has its target.
\<close>

theorem data_source_reference_is_lost:
  "get_execution_order insertion_order insertion_order reads_data =
     Some (Inr [''data.ami'', ''web.w'', ''data.ami.linux'']) \<and>
   validate_dependencies_exist insertion_order reads_data =
     Some (ErrorString ''resource web.w depends on non-existent resource data.ami'')"
proof
  have "validate_no_cycles insertion_order reads_data = Some None"
    by (simp add: validate_no_cycles_def reads_data_simps graph_fuel_def graph_nodes_def Let_def map_slice_def
        eval_nat_numeral)
  then show "get_execution_order insertion_order insertion_order reads_data =
      Some (Inr [''data.ami'', ''web.w'', ''data.ami.linux''])"
    by (simp add: get_execution_order_def reads_data_simps graph_fuel_def graph_nodes_def Let_def map_slice_def
        eval_nat_numeral)
  show "validate_dependencies_exist insertion_order reads_data =
      Some (ErrorString ''resource web.w depends on non-existent resource data.ami'')"
    by (simp add: validate_dependencies_exist_def reads_data_simps map_slice_def Let_def flip: set_map)
qed

end
