(* ===== verification/Change_Ordering.thy ===== *)
theory Change_Ordering
  imports Dependency_Graph
begin

text \<open>
  The order in which the changes of an update plan are applied,
  \<^verbatim>\<open>internal/dependency/change_ordering.go\<close>. The calculator is written against the resolver's
  interface: its lemmas are proved in the locale \<open>dependency_resolver\<close> and reach the
  properties through the interpretation on the production resolver.
\<close>

section \<open>The calculator\<close>

text \<open>The properties of a change: a nil map reads as the empty one.\<close>

fun change_properties :: "change_action \<Rightarrow> resource_change \<Rightarrow> gmap" where
  "change_properties ActionCreate c = nil_map (rc_after c)"
| "change_properties ActionUpdate c = nil_map (rc_after c)"
| "change_properties ActionReplace c = nil_map (rc_after c)"
| "change_properties ActionDelete c = nil_map (rc_before c)"
| "change_properties ActionNoOp c =
     (case rc_after c of None \<Rightarrow> nil_map (rc_before c) | Some m \<Rightarrow> m)"
| "change_properties (ActionOther _) c = []"

fun convert_changes_to_resources :: "resource_change list \<Rightarrow> resource list" where
  "convert_changes_to_resources [] = []"
| "convert_changes_to_resources (c # cs) =
     (case split_first (CHR ''.'') (rc_key c) of
        [t, n] \<Rightarrow> \<lparr>res_type = t, res_name = n, res_properties = change_properties (rc_action c) c\<rparr> #
                  convert_changes_to_resources cs
      | _ \<Rightarrow> convert_changes_to_resources cs)"

definition change_map :: "resource_change list \<Rightarrow> (string \<times> resource_change) list" where
  "change_map changes = fold (\<lambda>c. map_put (rc_key c) c) changes []"

definition pick_changes ::
  "(string \<times> resource_change) list \<Rightarrow> (resource_change \<Rightarrow> bool) \<Rightarrow> string list \<Rightarrow> resource_change list" where
  "pick_changes m P ks =
     concat (map (\<lambda>k. case map_of m k of
                        Some c \<Rightarrow> if P c then [c] else []
                      | None \<Rightarrow> []) ks)"

definition is_delete :: "resource_change \<Rightarrow> bool" where
  "is_delete c \<longleftrightarrow> rc_action c = ActionDelete"

definition calculate_execution_order ::
  "'g resolver \<Rightarrow> resource_change list \<Rightarrow> (goerror + resource_change list) option" where
  "calculate_execution_order rv changes =
     (if changes = [] then Some (Inr changes)
      else (case rv_build rv (convert_changes_to_resources changes) [] of
              Inl e \<Rightarrow> Some (Inl (WrapError ''failed to build dependency graph for changes: '' e ''''))
            | Inr g \<Rightarrow>
                (case rv_validate rv g of
                   None \<Rightarrow> None
                 | Some (Some e) \<Rightarrow> Some (Inl (WrapError ''circular dependency detected in update plan: '' e ''''))
                 | Some None \<Rightarrow>
                     (case rv_order rv g of
                        None \<Rightarrow> None
                      | Some (Inl e) \<Rightarrow> Some (Inl (WrapError ''failed to determine execution order: '' e ''''))
                      | Some (Inr order) \<Rightarrow>
                          (let m = change_map changes in
                           Some (Inr (pick_changes m (\<lambda>c. \<not> is_delete c) order @
                                      pick_changes m is_delete (rev order))))))))"

section \<open>The changes of a plan\<close>

text \<open>The keys of a plan's changes are distinct and of the form \<open>type.name\<close>.\<close>

definition plan_keys :: "resource_change list \<Rightarrow> bool" where
  "plan_keys cs \<longleftrightarrow> distinct (map rc_key cs) \<and> (\<forall>c \<in> set cs. CHR ''.'' \<in> set (rc_key c))"

definition change_dependencies :: "resource_change \<Rightarrow> string list" where
  "change_dependencies c = extract_dependencies (change_properties (rc_action c) c)"

text \<open>The dependencies among the changes have a cycle.\<close>

definition cyclic_changes :: "resource_change list \<Rightarrow> bool" where
  "cyclic_changes cs \<longleftrightarrow> (\<exists>m. (m, m) \<in> {(rc_key c, d) | c d. c \<in> set cs \<and> d \<in> set (change_dependencies c)}\<^sup>+)"

text \<open>\<open>x\<close> stands before \<open>y\<close> in the list.\<close>

fun before :: "'a list \<Rightarrow> 'a \<Rightarrow> 'a \<Rightarrow> bool" where
  "before [] x y = False"
| "before (z # zs) x y = (z = x \<and> y \<in> set zs \<or> before zs x y)"

lemma before_append:
  "before (xs @ ys) x y \<longleftrightarrow> before xs x y \<or> before ys x y \<or> x \<in> set xs \<and> y \<in> set ys"
  by (induction xs) auto

lemma before_rev: "before (rev xs) x y \<longleftrightarrow> before xs y x"
  by (induction xs) (auto simp: before_append)

lemma before_map: "before xs x y \<Longrightarrow> before (map f xs) (f x) (f y)"
  by (induction xs) auto

lemma before_filter: "before (filter P xs) x y \<longleftrightarrow> before xs x y \<and> P x \<and> P y"
proof (induction xs)
  case (Cons z zs)
  have "before zs x y \<Longrightarrow> x \<in> set zs \<and> y \<in> set zs" for zs :: "'a list"
    by (induction zs) auto
  with Cons show ?case by auto
qed simp

lemma closed_order_before:
  assumes "closed_order deps xs" and "x \<in> set xs" and "y \<in> set (deps x)"
  shows "before xs y x"
proof -
  obtain i where i: "i < length xs" "xs ! i = x" using assms(2) by (auto simp: in_set_conv_nth)
  then have "y \<in> set (take i xs)" using assms(1,3) by (auto simp: closed_order_def)
  moreover have "take i xs @ x # drop (Suc i) xs = xs" using id_take_nth_drop [OF i(1)] i(2) by simp
  ultimately show ?thesis
    using before_append [of "take i xs" "x # drop (Suc i) xs" y x] by simp
qed

lemma split_first_parts: "split_first d s = [a, b] \<Longrightarrow> s = a @ d # b"
proof (induction d s arbitrary: a rule: split_first.induct)
  case (2 d c s)
  then show ?case by (auto split: if_splits list.splits)
qed simp

lemma split_first_two: "d \<in> set s \<Longrightarrow> \<exists>a b. split_first d s = [a, b]"
  by (induction s) (fastforce split: list.splits)+

lemma convert_plan:
  assumes "\<forall>c \<in> set cs. CHR ''.'' \<in> set (rc_key c)"
  shows "map resource_key (convert_changes_to_resources cs) = map rc_key cs"
    and "map res_properties (convert_changes_to_resources cs) = map (\<lambda>c. change_properties (rc_action c) c) cs"
proof -
  have "map (\<lambda>r. (resource_key r, res_properties r)) (convert_changes_to_resources cs) =
      map (\<lambda>c. (rc_key c, change_properties (rc_action c) c)) cs"
    using assms
  proof (induction cs)
    case (Cons c cs)
    then obtain a b where ab: "split_first (CHR ''.'') (rc_key c) = [a, b]"
      using split_first_two by fastforce
    then have "rc_key c = a @ ''.'' @ b" using split_first_parts by fastforce
    with ab Cons show ?case by (simp add: resource_key_def)
  qed simp
  from arg_cong [where f = "map fst", OF this] arg_cong [where f = "map snd", OF this]
  show "map resource_key (convert_changes_to_resources cs) = map rc_key cs"
    and "map res_properties (convert_changes_to_resources cs) = map (\<lambda>c. change_properties (rc_action c) c) cs"
    by (simp_all add: comp_def)
qed

lemma change_map_Some:
  assumes "distinct (map rc_key cs)"
  shows "map_of (change_map cs) k = Some c \<longleftrightarrow> c \<in> set cs \<and> rc_key c = k"
  using map_of_keyed [OF assms] by (simp add: change_map_def)

lemma change_map_None:
  assumes "distinct (map rc_key cs)" and "k \<notin> rc_key ` set cs"
  shows "map_of (change_map cs) k = None"
  using change_map_Some [OF assms(1)] assms(2) by (metis image_eqI not_None_eq)

section \<open>The order of the changes\<close>

lemma pick_changes_Cons:
  "pick_changes m P (k # ks) =
     (case map_of m k of Some c \<Rightarrow> if P c then [c] else [] | None \<Rightarrow> []) @ pick_changes m P ks"
  by (simp add: pick_changes_def)

lemma pick_changes_Nil [simp]: "pick_changes m P [] = []"
  by (simp add: pick_changes_def)

lemma set_pick:
  assumes keys: "distinct (map rc_key cs)"
  shows "set (pick_changes (change_map cs) P ks) = {c \<in> set cs. P c \<and> rc_key c \<in> set ks}"
proof (induction ks)
  case (Cons k ks)
  show ?case
  proof (cases "map_of (change_map cs) k")
    case None
    then have "c \<in> set cs \<Longrightarrow> rc_key c \<noteq> k" for c using change_map_Some [OF keys, of k c] by auto
    then show ?thesis using Cons None by (auto simp: pick_changes_Cons)
  next
    case (Some c)
    then have c: "c \<in> set cs" "rc_key c = k" using change_map_Some [OF keys, of k c] by simp_all
    have uniq: "c' = c" if "c' \<in> set cs" "rc_key c' = k" for c'
      using change_map_Some [OF keys, of k c'] that Some by simp
    have "{c' \<in> set cs. P c' \<and> rc_key c' \<in> set (k # ks)} =
        {c'. c' = c \<and> P c} \<union> {c' \<in> set cs. P c' \<and> rc_key c' \<in> set ks}"
    proof (rule set_eqI)
      fix x
      show "x \<in> {c' \<in> set cs. P c' \<and> rc_key c' \<in> set (k # ks)} \<longleftrightarrow>
          x \<in> {c'. c' = c \<and> P c} \<union> {c' \<in> set cs. P c' \<and> rc_key c' \<in> set ks}"
        using c uniq unfolding mem_Collect_eq Un_iff list.set(2) insert_iff by blast
    qed
    then show ?thesis using Cons.IH Some by (simp add: pick_changes_Cons)
  qed
qed simp

lemma before_pick:
  assumes keys: "distinct (map rc_key cs)" and "before ks (rc_key a) (rc_key b)" and "a \<in> set cs" "b \<in> set cs" "P a" "P b"
  shows "before (pick_changes (change_map cs) P ks) a b"
  using assms(2)
proof (induction ks)
  case (Cons k ks)
  have lookup: "map_of (change_map cs) (rc_key a) = Some a" using change_map_Some [OF keys] assms(3) by simp
  show ?case
  proof (cases "k = rc_key a \<and> rc_key b \<in> set ks")
    case True
    then have "b \<in> set (pick_changes (change_map cs) P ks)" using assms(4,6) by (simp add: set_pick [OF keys])
    then show ?thesis using True lookup assms(5) by (simp add: pick_changes_Cons)
  next
    case False
    then have "before ks (rc_key a) (rc_key b)" using Cons.prems by auto
    then show ?thesis using Cons.IH by (simp add: pick_changes_Cons before_append)
  qed
qed simp

lemma distinct_pick:
  assumes keys: "distinct (map rc_key cs)"
  shows "distinct ks \<Longrightarrow> distinct (pick_changes (change_map cs) P ks)"
proof (induction ks)
  case (Cons k ks)
  have "map_of (change_map cs) k = Some c \<Longrightarrow> rc_key c = k" for c using change_map_Some [OF keys, of k c] by simp
  with Cons show ?case
    by (cases "map_of (change_map cs) k") (auto simp: pick_changes_Cons set_pick [OF keys])
qed simp

context dependency_resolver begin

lemma plan_graph:
  assumes "plan_keys cs"
  obtains g where "rv_build rv (convert_changes_to_resources cs) [] = Inr g" and "keys g = rc_key ` set cs"
    and "\<And>c. c \<in> set cs \<Longrightarrow> deps g (rc_key c) = change_dependencies c"
    and "cyclic_from (keys g) (deps g) \<longleftrightarrow> cyclic_changes cs"
proof -
  let ?rs = "convert_changes_to_resources cs"
  have cs: "distinct (map rc_key cs)" "\<forall>c \<in> set cs. CHR ''.'' \<in> set (rc_key c)"
    using assms by (simp_all add: plan_keys_def)
  note conv = convert_plan [OF cs(2)]
  obtain g where g: "rv_build rv ?rs [] = Inr g" "keys g = resource_key ` set ?rs"
    "\<forall>r \<in> set ?rs. deps g (resource_key r) = extract_dependencies (res_properties r)"
    "\<forall>k. k \<notin> keys g \<longrightarrow> deps g k = []"
    using build_graph [of ?rs] cs(1) conv(1) by auto
  have ks: "keys g = rc_key ` set cs" using g(2) arg_cong [OF conv(1), of set] by simp
  have ds: "deps g (rc_key c) = change_dependencies c" if "c \<in> set cs" for c
  proof -
    obtain i where i: "i < length cs" "cs ! i = c" using \<open>c \<in> set cs\<close> by (metis in_set_conv_nth)
    moreover have "length ?rs = length cs" using arg_cong [OF conv(1), of length] by simp
    moreover have "map resource_key ?rs ! i = rc_key c" "map res_properties ?rs ! i = change_properties (rc_action c) c"
      unfolding conv using i by simp_all
    ultimately have "deps g (rc_key c) = extract_dependencies (change_properties (rc_action c) c)"
      using g(3) by (metis nth_map nth_mem)
    then show ?thesis by (simp add: change_dependencies_def)
  qed
  have rel: "dep_rel (deps g) = {(rc_key c, d) | c d. c \<in> set cs \<and> d \<in> set (change_dependencies c)}"
  proof -
    have "d \<in> set (deps g n) \<longleftrightarrow> (\<exists>c \<in> set cs. n = rc_key c \<and> d \<in> set (change_dependencies c))" for n d
      using ds g(4) ks by (cases "n \<in> keys g") auto
    then show ?thesis by (auto simp: dep_rel_def)
  qed
  have "m \<in> keys g" if "(m, m) \<in> (dep_rel (deps g))\<^sup>+" for m
    using tranclD [OF that] unfolding rel ks by auto
  then have "cyclic_from (keys g) (deps g) \<longleftrightarrow> cyclic_changes cs"
    by (auto simp: cyclic_from_def cyclic_changes_def rel [symmetric])
  then show thesis using that g(1) ks ds by blast
qed

text \<open>An acyclic plan keeps all its changes, each behind what it needs.\<close>

lemma ordered_changes:
  assumes "plan_keys cs" and "\<not> cyclic_changes cs" and "cs \<noteq> []"
  obtains out where "calculate_execution_order rv cs = Some (Inr out)" and "mset out = mset cs"
    and "\<And>a b. a \<in> set cs \<Longrightarrow> b \<in> set cs \<Longrightarrow> \<not> is_delete a \<Longrightarrow> is_delete b \<Longrightarrow> before out a b"
    and "\<And>a b. a \<in> set cs \<Longrightarrow> b \<in> set cs \<Longrightarrow> rc_key b \<in> set (change_dependencies a) \<Longrightarrow>
           \<not> is_delete a \<Longrightarrow> \<not> is_delete b \<Longrightarrow> before out b a"
    and "\<And>a b. a \<in> set cs \<Longrightarrow> b \<in> set cs \<Longrightarrow> rc_key b \<in> set (change_dependencies a) \<Longrightarrow>
           is_delete a \<Longrightarrow> is_delete b \<Longrightarrow> before out a b"
proof -
  have dist: "distinct (map rc_key cs)" using assms(1) by (simp add: plan_keys_def)
  obtain g where g: "rv_build rv (convert_changes_to_resources cs) [] = Inr g" "keys g = rc_key ` set cs"
    "\<And>c. c \<in> set cs \<Longrightarrow> deps g (rc_key c) = change_dependencies c"
    "cyclic_from (keys g) (deps g) \<longleftrightarrow> cyclic_changes cs"
    using plan_graph [OF assms(1)] by metis
  obtain xs where xs: "rv_validate rv g = Some None" "rv_order rv g = Some (Inr xs)" "distinct xs"
    "keys g \<subseteq> set xs" "closed_order (deps g) xs"
    by (rule order_acyclic [of g]) (use g(4) assms(2) in auto)
  let ?m = "change_map cs"
  let ?out = "pick_changes ?m (\<lambda>c. \<not> is_delete c) xs @ pick_changes ?m is_delete (rev xs)"
  have res: "calculate_execution_order rv cs = Some (Inr ?out)"
    using assms(3) g(1) xs(1,2) by (simp add: calculate_execution_order_def Let_def)
  have inxs: "c \<in> set cs \<Longrightarrow> rc_key c \<in> set xs" for c using g(2) xs(4) by auto
  have pick: "set (pick_changes ?m P ks) = {c \<in> set cs. P c \<and> rc_key c \<in> set ks}" for P ks
    by (rule set_pick [OF dist])
  have "distinct ?out" using distinct_pick [OF dist] xs(3) by (auto simp: pick)
  moreover have "set ?out = set cs" using inxs by (auto simp: pick)
  moreover have "distinct cs" using dist by (simp add: distinct_map)
  ultimately have perm: "mset ?out = mset cs" using set_eq_iff_mset_eq_distinct by blast
  have b1: "before ?out a b" if "a \<in> set cs" "b \<in> set cs" "\<not> is_delete a" "is_delete b" for a b
    using that inxs by (simp add: before_append pick)
  have dep: "before xs (rc_key b) (rc_key a)" if "a \<in> set cs" "rc_key b \<in> set (change_dependencies a)" for a b
    using closed_order_before [OF xs(5) inxs] that g(3) by simp
  have b2: "before ?out b a" if "a \<in> set cs" "b \<in> set cs" "rc_key b \<in> set (change_dependencies a)"
    "\<not> is_delete a" "\<not> is_delete b" for a b
    using before_pick [OF dist dep [OF that(1,3)], of "\<lambda>c. \<not> is_delete c"] that by (simp add: before_append)
  have b3: "before ?out a b" if "a \<in> set cs" "b \<in> set cs" "rc_key b \<in> set (change_dependencies a)"
    "is_delete a" "is_delete b" for a b
    using before_pick [OF dist, of "rev xs" a b is_delete] dep [OF that(1,3)] that
    by (simp add: before_append before_rev)
  show thesis by (rule that [OF res perm b1 b2 b3])
qed

lemma cyclic_changes_refused:
  assumes "plan_keys cs" and "cyclic_changes cs"
  shows "\<exists>e. calculate_execution_order rv cs =
      Some (Inl (WrapError ''circular dependency detected in update plan: '' e ''''))"
proof -
  have "cs \<noteq> []" using assms(2) by (auto simp: cyclic_changes_def dest: tranclD)
  obtain g where g: "rv_build rv (convert_changes_to_resources cs) [] = Inr g"
    "cyclic_from (keys g) (deps g) \<longleftrightarrow> cyclic_changes cs"
    using plan_graph [OF assms(1)] by metis
  obtain e where "rv_validate rv g = Some (Some e)" by (rule cyclic_refused [of g]) (use g(2) assms(2) in auto)
  then show ?thesis using g(1) \<open>cs \<noteq> []\<close> by (simp add: calculate_execution_order_def)
qed

end

section \<open>Properties\<close>

text \<open>
  C1: for a plan whose changes have distinct keys of the form \<open>type.name\<close> and no cyclic
  dependencies, the execution order is a permutation of the changes: every deletion stands
  behind every other change, a change stands behind those it depends on, and the deletion of
  a resource stands before the deletion of what it depends on.
\<close>

theorem changes_in_dependency_order:
  assumes "plan_keys cs" and "\<not> cyclic_changes cs"
  shows "\<exists>out. calculate_execution_order (production_resolver mb mv mw mo) cs = Some (Inr out) \<and> mset out = mset cs \<and>
     (\<forall>a \<in> set cs. \<forall>b \<in> set cs.
        (\<not> is_delete a \<and> is_delete b \<longrightarrow> before out a b) \<and>
        (rc_key b \<in> set (change_dependencies a) \<longrightarrow>
           (\<not> is_delete a \<and> \<not> is_delete b \<longrightarrow> before out b a) \<and> (is_delete a \<and> is_delete b \<longrightarrow> before out a b)))"
proof (cases "cs = []")
  case True
  then show ?thesis by (simp add: calculate_execution_order_def)
next
  case False
  show ?thesis by (rule dres.ordered_changes [OF assms False, of mb mv mw mo]) blast
qed

text \<open>A plan that updates a network, creates a server in it and deletes two resources.\<close>

definition plain_change :: "string \<Rightarrow> change_action \<Rightarrow> gmap \<Rightarrow> resource_change" where
  "plain_change k a m = \<lparr>rc_key = k, rc_action = a, rc_before = Some m, rc_after = Some m,
     rc_proposed_state = None, rc_replace_paths = []\<rparr>"

definition sample_changes :: "resource_change list" where
  "sample_changes =
     [plain_change ''net.old'' ActionDelete [],
      plain_change ''web.w'' ActionCreate [(''net'', GStr ''${net.main.id}'')],
      plain_change ''net.main'' ActionUpdate [],
      plain_change ''web.old'' ActionDelete [(''net'', GStr ''${net.old.id}'')]]"

lemma change_pairs:
  "{(rc_key c, d) | c d. c \<in> set cs \<and> d \<in> set (change_dependencies c)} =
     (\<Union>c \<in> set cs. Pair (rc_key c) ` set (change_dependencies c))"
  by auto

lemmas reference_scan =
  extract_dependencies_def find_interpolations_def extract_resource_references_def

lemma sample_changes_facts:
  "plan_keys sample_changes" "\<not> cyclic_changes sample_changes"
  "{(rc_key c, d) | c d. c \<in> set sample_changes \<and> d \<in> set (change_dependencies c)}
     = {(''web.old'', ''net.old''), (''web.w'', ''net.main'')}"
proof -
  show "plan_keys sample_changes" by (simp add: plan_keys_def sample_changes_def plain_change_def)
  show rel: "{(rc_key c, d) | c d. c \<in> set sample_changes \<and> d \<in> set (change_dependencies c)}
     = {(''web.old'', ''net.old''), (''web.w'', ''net.main'')}"
    unfolding change_pairs
    by (simp add: sample_changes_def plain_change_def change_dependencies_def nil_map_def reference_scan)
  show "\<not> cyclic_changes sample_changes"
    unfolding cyclic_changes_def rel by (auto dest!: tranclD elim: converse_rtranclE)
qed

theorem changes_in_dependency_order_witness:
  "\<exists>out. calculate_execution_order (production_resolver reverse_order reverse_order reverse_order reverse_order)
        sample_changes = Some (Inr out) \<and> mset out = mset sample_changes \<and>
     (\<forall>a \<in> set sample_changes. \<forall>b \<in> set sample_changes.
        (\<not> is_delete a \<and> is_delete b \<longrightarrow> before out a b) \<and>
        (rc_key b \<in> set (change_dependencies a) \<longrightarrow>
           (\<not> is_delete a \<and> \<not> is_delete b \<longrightarrow> before out b a) \<and> (is_delete a \<and> is_delete b \<longrightarrow> before out a b)))"
  by (rule changes_in_dependency_order [OF sample_changes_facts(1,2)])

text \<open>
  A plan with distinct keys of the form \<open>type.name\<close> whose dependencies have a cycle, a
  change that refers to itself included, is refused as a whole.
\<close>

theorem cyclic_plan_refused:
  assumes "plan_keys cs" and "cyclic_changes cs"
  shows "\<exists>e. calculate_execution_order (production_resolver mb mv mw mo) cs =
     Some (Inl (WrapError ''circular dependency detected in update plan: '' e ''''))"
  by (rule dres.cyclic_changes_refused [OF assms])

theorem cyclic_plan_refused_witness:
  "\<exists>e. calculate_execution_order (production_resolver insertion_order insertion_order insertion_order insertion_order)
       [plain_change ''a.x'' ActionUpdate [(''p'', GStr ''${a.x.id}'')]] =
     Some (Inl (WrapError ''circular dependency detected in update plan: '' e ''''))"
proof (rule cyclic_plan_refused)
  show "plan_keys [plain_change ''a.x'' ActionUpdate [(''p'', GStr ''${a.x.id}'')]]"
    by (simp add: plan_keys_def plain_change_def)
  have "{(rc_key c, d) | c d. c \<in> set [plain_change ''a.x'' ActionUpdate [(''p'', GStr ''${a.x.id}'')]] \<and>
      d \<in> set (change_dependencies c)} = {(''a.x'', ''a.x'')}"
    unfolding change_pairs by (simp add: plain_change_def change_dependencies_def nil_map_def reference_scan)
  then show "cyclic_changes [plain_change ''a.x'' ActionUpdate [(''p'', GStr ''${a.x.id}'')]]"
    unfolding cyclic_changes_def by auto
qed

end
