(* ===== verification/State_Store.thy ===== *)
theory State_Store
  imports Lattiam_Types Go_Time
begin

text \<open>
  The state store interface of \<^verbatim>\<open>internal/interfaces/state_store.go\<close>, as the components
  that use a store see it: a record \<open>store_ops\<close> of its operations on a state of any type,
  and the contract of the metadata operations as the locale \<open>deployment_store\<close>. Also what
  writing a dynamic value as JSON and reading it back does to it (\<open>json_reload\<close>).

  A Terraform state file is the document its bytes encode, or bytes that are no such
  document (\<open>TfGarbage\<close>).
\<close>

section \<open>Values through JSON\<close>

text \<open>
  The IEEE 754 binary64 pattern of an integer, rounded to nearest with ties to even: what
  \<^verbatim>\<open>encoding/json\<close> makes of a number it reads into an \<^verbatim>\<open>interface{}\<close>.
\<close>

fun bit_count :: "nat \<Rightarrow> nat" where
  "bit_count n = (if n = 0 then 0 else Suc (bit_count (n div 2)))"

declare bit_count.simps [simp del]

definition float_of_nat :: "nat \<Rightarrow> nat" where
  "float_of_nat n =
     (if n = 0 then 0
      else let e = bit_count n - 1;
               mant = (if e \<le> 52 then n * 2 ^ (52 - e)
                       else let p = 2 ^ (e - 52); q = n div p; r = n mod p
                            in if 2 * r > p \<or> (2 * r = p \<and> odd q) then q + 1 else q)
           in (e + 1023) * 2 ^ 52 + mant - 2 ^ 52)"

definition float_of_int :: "int \<Rightarrow> 64 word" where
  "float_of_int i =
     of_nat (float_of_nat (nat \<bar>i\<bar>)) + (if i < 0 then 2 ^ 63 else 0)"

primrec json_reload :: "gval \<Rightarrow> gval" where
  "json_reload GNil = GNil"
| "json_reload (GBool b) = GBool b"
| "json_reload (GInt i) = GFloat (float_of_int i)"
| "json_reload (GFloat f) = GFloat f"
| "json_reload (GStr s) = GStr s"
| "json_reload (GTime t) = GStr (format_rfc3339_nano 0 t)"
| "json_reload (GList xs) = GList (map json_reload xs)"
| "json_reload (GMap m) = GMap (map (map_prod id json_reload) m)"

definition reload_map :: "gmap \<Rightarrow> gmap" where
  "reload_map m = map (map_prod id json_reload) m"

lemma map_of_reload [simp]: "map_of (reload_map m) k = map_option json_reload (map_of m k)"
  by (induction m) (auto simp: reload_map_def)

lemma json_reload_idem [simp]: "json_reload (json_reload v) = json_reload v"
proof (induction v)
  case (GList xs)
  then show ?case by simp
next
  case (GMap m)
  then show ?case by (force simp: map_prod_def)
qed auto

lemma reload_map_idem [simp]: "reload_map (reload_map m) = reload_map m"
  by (simp add: reload_map_def comp_def map_prod_def split_beta)

lemma json_reload_GMap [simp]: "json_reload (GMap m) = GMap (reload_map m)"
  by (simp add: reload_map_def)

declare json_reload.simps(8) [simp del]

section \<open>The operations of a store\<close>

datatype tf_bytes = TfDoc tf_state | TfGarbage string

record 's store_ops =
  so_create :: "deployment_metadata \<Rightarrow> 's \<Rightarrow> 's \<times> goerror option"
  so_get :: "string \<Rightarrow> 's \<Rightarrow> goerror + deployment_metadata option"
  so_list :: "'s \<Rightarrow> goerror + deployment_metadata list"
  so_update_status :: "string \<Rightarrow> deployment_status \<Rightarrow> 's \<Rightarrow> 's \<times> goerror option"
  so_delete :: "string \<Rightarrow> 's \<Rightarrow> 's \<times> goerror option"
  so_save_tf :: "string \<Rightarrow> tf_bytes \<Rightarrow> 's \<Rightarrow> 's \<times> goerror option"
  so_load_tf :: "string \<Rightarrow> 's \<Rightarrow> goerror + tf_bytes"
  so_delete_tf :: "string \<Rightarrow> 's \<Rightarrow> 's \<times> goerror option"

text \<open>
  The contract of the metadata operations: \<open>view\<close> is what the store holds under an
  identifier, \<open>reloaded\<close> what remains of a metadata record that is put into the store in some state.
  A reading that finds nothing is an error. The laws are about operations that return no
  error; \<open>inv\<close> is the store's invariant.
\<close>

locale deployment_store =
  fixes ops :: "'s store_ops"
    and view :: "'s \<Rightarrow> string \<Rightarrow> deployment_metadata option"
    and reloaded :: "'s \<Rightarrow> deployment_metadata \<Rightarrow> deployment_metadata"
    and inv :: "'s \<Rightarrow> bool"
  assumes get_found: "inv s \<Longrightarrow> view s i = Some m \<Longrightarrow> so_get ops i s = Inr (Some m)"
    and get_missing: "inv s \<Longrightarrow> view s i = None \<Longrightarrow> \<exists>e. so_get ops i s = Inl e"
    and create_view: "inv s \<Longrightarrow> so_create ops m s = (s', None) \<Longrightarrow>
          view s' = (view s)(dm_deployment_id m \<mapsto> reloaded s m)"
    and delete_view: "inv s \<Longrightarrow> so_delete ops i s = (s', None) \<Longrightarrow> view s' = (view s)(i := None)"
    and create_inv: "inv s \<Longrightarrow> inv (fst (so_create ops m s))"
    and delete_inv: "inv s \<Longrightarrow> inv (fst (so_delete ops i s))"
    and reloaded_id: "dm_deployment_id (reloaded s m) = dm_deployment_id m"
begin

lemma get_created:
  assumes "inv s" and "so_create ops m s = (s', None)"
  shows "so_get ops (dm_deployment_id m) s' = Inr (Some (reloaded s m))"
proof -
  have "inv s'" using create_inv [OF assms(1), of m] assms(2) by simp
  then show ?thesis using get_found [of s' "dm_deployment_id m" "reloaded s m"] create_view [OF assms] by simp
qed

lemma get_other:
  assumes "inv s" and "so_create ops m s = (s', None)" and "i \<noteq> dm_deployment_id m"
    and "so_get ops i s = Inr (Some m')"
  shows "so_get ops i s' = Inr (Some m')"
proof -
  have inv': "inv s'" using create_inv [OF assms(1), of m] assms(2) by simp
  have "view s i = Some m'"
    using get_found [OF assms(1), of i] get_missing [OF assms(1), of i] assms(4)
    by (cases "view s i") auto
  then show ?thesis using get_found [OF inv', of i m'] create_view [OF assms(1,2)] assms(3) by simp
qed

lemma get_deleted:
  assumes "inv s" and "so_delete ops i s = (s', None)"
  shows "\<exists>e. so_get ops i s' = Inl e"
proof -
  have "inv s'" using delete_inv [OF assms(1), of i] assms(2) by simp
  then show ?thesis using get_missing [of s' i] delete_view [OF assms] by simp
qed

end

end
