(* ===== verification/File_State_Store.thy ===== *)
theory File_State_Store
  imports State_Store
begin

text \<open>
  The file state store of \<^verbatim>\<open>internal/system/state_store_adapter.go\<close>
  (\<open>RobustFileStateStoreAdapter\<close>). The directories \<^verbatim>\<open>deployments\<close>, \<^verbatim>\<open>meta\<close>,
  \<^verbatim>\<open>resources\<close>, \<^verbatim>\<open>terraform_states\<close> and \<^verbatim>\<open>locks\<close> under the base directory are maps from
  the name that stands before the extension to what a read of the file decodes; a file that
  is not JSON is \<open>Garbage\<close>. Identifiers hold no path separator. The environment of an
  operation is part of the state: \<open>fs_now\<close> the clock, \<open>fs_random\<close> the 16 random bytes of a
  lineage (\<open>None\<close>: the source fails), and \<open>fs_fails\<close> which of the file system calls fail,
  each named by what it does and to which file.

  A value written is read back through \<open>json_reload\<close>. Each operation is one critical
  section; the deployment mutexes make them so.
\<close>

section \<open>State\<close>

record deployment_meta =
  mt_serial :: "64 word"
  mt_lineage :: string
  mt_updated :: time
  mt_version :: int

record file_lock =
  fl_id :: string
  fl_deployment_id :: string
  fl_created_at :: time

datatype json_file = JsonFile gval | Garbage

datatype fs_call =
    MkdirOf string string
  | WriteOf string string
  | RenameOf string string
  | ReadOf string string
  | RemoveOf string string
  | ReadDir string
  | OpenExclusive string
  | LockFile string
  | UnlockFile string

record file_store =
  fs_deployments :: "(string \<times> json_file) list"
  fs_meta_files :: "(string \<times> deployment_meta option) list"
  fs_resources :: "(string \<times> json_file) list"
  fs_tf_states :: "(string \<times> tf_bytes) list"
  fs_lock_files :: "(string \<times> time) list"
  fs_lock_infos :: "(string \<times> file_lock) list"
  fs_metas :: "(string \<times> deployment_meta) list"
  fs_locks :: "(string \<times> file_lock) list"
  fs_now :: time
  fs_random :: "string option"
  fs_fails :: "fs_call \<Rightarrow> goerror option"

section \<open>Writing files\<close>

text \<open>
  \<^verbatim>\<open>atomicWriteJSON\<close> up to the change of the file: the error of the first call that fails.
  Its values always marshal.
\<close>

definition atomic_write :: "file_store \<Rightarrow> string \<Rightarrow> string \<Rightarrow> goerror option" where
  "atomic_write s dir name =
     (case fs_fails s (MkdirOf dir name) of
        Some e \<Rightarrow> Some (WrapError ''failed to create parent directory: '' e '''')
      | None \<Rightarrow>
          (case fs_fails s (WriteOf dir name) of
             Some e \<Rightarrow> Some (WrapError ''failed to write temporary file: '' e '''')
           | None \<Rightarrow>
               (case fs_fails s (RenameOf dir name) of
                  Some e \<Rightarrow> Some (WrapError ''failed to commit atomic write: '' e '''')
                | None \<Rightarrow> None)))"

definition hex_digit :: "nat \<Rightarrow> char" where
  "hex_digit n = (if n < 10 then char_of (48 + n) else char_of (87 + n))"

definition hex_byte :: "char \<Rightarrow> string" where
  "hex_byte c = [hex_digit (of_char c div 16), hex_digit (of_char c mod 16)]"

definition hex_of :: "string \<Rightarrow> string" where
  "hex_of s = concat (map hex_byte s)"

definition generate_lineage :: "file_store \<Rightarrow> string" where
  "generate_lineage s =
     (case fs_random s of
        None \<Rightarrow> ''lineage-'' @ itoa (unix_nano (fs_now s))
      | Some b \<Rightarrow> hex_of (take 4 b) @ ''-'' @ hex_of (take 2 (drop 4 b)) @ ''-'' @
                  hex_of (take 2 (drop 6 b)) @ ''-'' @ hex_of (take 2 (drop 8 b)) @ ''-'' @
                  hex_of (take 6 (drop 10 b)))"

fun load_metas :: "(string \<times> deployment_meta option) list \<Rightarrow> (string \<times> deployment_meta) list \<Rightarrow>
    (string \<times> deployment_meta) list" where
  "load_metas [] metas = metas"
| "load_metas ((i, Some meta) # files) metas = load_metas files (map_put i meta metas)"
| "load_metas ((i, None) # files) metas = load_metas files metas"

definition load_deployment_metadata :: "file_store \<Rightarrow> file_store \<times> goerror option" where
  "load_deployment_metadata s =
     (case fs_fails s (ReadDir ''meta'') of
        Some e \<Rightarrow> (s, Some (WrapError ''failed to read metadata directory: '' e ''''))
      | None \<Rightarrow>
          (s\<lparr>fs_metas := load_metas
               (filter (\<lambda>f. fs_fails s (ReadOf ''meta'' (fst f)) = None) (fs_meta_files s)) (fs_metas s)\<rparr>, None))"

definition new_file_store :: "file_store \<Rightarrow> goerror + file_store" where
  "new_file_store s =
     (case load_deployment_metadata (s\<lparr>fs_metas := [], fs_locks := []\<rparr>) of
        (s1, None) \<Rightarrow> Inr s1
      | (s1, Some e) \<Rightarrow> Inl (WrapError ''failed to load deployment metadata: '' e ''''))"

definition save_deployment_metadata ::
  "string \<Rightarrow> deployment_meta \<Rightarrow> file_store \<Rightarrow> file_store \<times> goerror option" where
  "save_deployment_metadata i meta s =
     (case atomic_write s ''meta'' i of
        Some e \<Rightarrow> (s, Some e)
      | None \<Rightarrow> (s\<lparr>fs_meta_files := map_put i (Some meta) (fs_meta_files s)\<rparr>, None))"

definition get_or_create_meta :: "string \<Rightarrow> file_store \<Rightarrow> file_store \<times> deployment_meta" where
  "get_or_create_meta i s =
     (case map_of (fs_metas s) i of
        Some meta \<Rightarrow> (s, meta)
      | None \<Rightarrow>
          (let meta = \<lparr>mt_serial = 0, mt_lineage = generate_lineage s, mt_updated = fs_now s, mt_version = 1\<rparr>
           in (s\<lparr>fs_metas := map_put i meta (fs_metas s)\<rparr>, meta)))"

section \<open>Deployment states\<close>

definition versioned_state :: "deployment_meta \<Rightarrow> gmap \<Rightarrow> gval" where
  "versioned_state meta st =
     GMap [(''serial'', GInt (uint (mt_serial meta))), (''lineage'', GStr (mt_lineage meta)),
           (''version'', GInt (mt_version meta)),
           (''updated_at'', GStr (format_rfc3339 0 (mt_updated meta))), (''state'', GMap st)]"

definition update_deployment_state :: "string \<Rightarrow> gmap \<Rightarrow> file_store \<Rightarrow> file_store \<times> goerror option" where
  "update_deployment_state i st s =
     (let (s1, meta0) = get_or_create_meta i s;
          meta = meta0\<lparr>mt_serial := mt_serial meta0 + 1, mt_updated := fs_now s1\<rparr>;
          s2 = s1\<lparr>fs_metas := map_put i meta (fs_metas s1)\<rparr> in
      case atomic_write s2 ''deployments'' i of
        Some e \<Rightarrow> (s2, Some (WrapError ''failed to save deployment state: '' e ''''))
      | None \<Rightarrow>
          (let s3 = s2\<lparr>fs_deployments :=
                 map_put i (JsonFile (json_reload (versioned_state meta st))) (fs_deployments s2)\<rparr> in
           case save_deployment_metadata i meta s3 of
             (s4, Some e) \<Rightarrow> (s4, Some (WrapError ''failed to save deployment metadata: '' e ''''))
           | (s4, None) \<Rightarrow> (s4, None)))"

definition get_deployment_state :: "string \<Rightarrow> file_store \<Rightarrow> goerror + gmap" where
  "get_deployment_state i s =
     (case map_of (fs_deployments s) i of
        None \<Rightarrow> Inl (ErrorString (''deployment '' @ i @ '' not found''))
      | Some content \<Rightarrow>
          (case fs_fails s (ReadOf ''deployments'' i) of
             Some e \<Rightarrow> Inl (WrapError ''failed to read deployment state: '' e '''')
           | None \<Rightarrow>
               (case content of
                  JsonFile (GMap m) \<Rightarrow>
                    (case as_map (map_of m ''state'') of Some st \<Rightarrow> Inr st | None \<Rightarrow> Inr m)
                | JsonFile GNil \<Rightarrow> Inr []
                | _ \<Rightarrow> Inl (WrapError ''failed to parse deployment state: '' (ErrorString ''json'') ''''))))"

definition delete_deployment_state :: "string \<Rightarrow> file_store \<Rightarrow> file_store \<times> goerror option" where
  "delete_deployment_state i s =
     (case (if map_of (fs_deployments s) i = None then None else fs_fails s (RemoveOf ''deployments'' i)) of
        Some e \<Rightarrow> (s, Some (WrapError ''failed to delete deployment state: '' e ''''))
      | None \<Rightarrow>
          (let s1 = s\<lparr>fs_deployments := map_del i (fs_deployments s)\<rparr> in
           case (if map_of (fs_meta_files s1) i = None then None else fs_fails s1 (RemoveOf ''meta'' i)) of
             Some e \<Rightarrow> (s1, Some (WrapError ''failed to delete deployment metadata: '' e ''''))
           | None \<Rightarrow>
               (let s2 = s1\<lparr>fs_meta_files := map_del i (fs_meta_files s1), fs_metas := map_del i (fs_metas s1)\<rparr>
                in if fs_fails s2 (ReadDir ''resources'') \<noteq> None then (s2, None)
                   else (s2\<lparr>fs_resources := filter (\<lambda>f. \<not> (has_prefix (fst f @ ''.json'') (i @ ''_'') \<and>
                               fs_fails s2 (RemoveOf ''resources'' (fst f)) = None)) (fs_resources s2)\<rparr>, None))))"

section \<open>Resource states\<close>

definition update_resource_state :: "string \<Rightarrow> gmap \<Rightarrow> file_store \<Rightarrow> file_store \<times> goerror option" where
  "update_resource_state key st s =
     (case atomic_write s ''resources'' key of
        Some e \<Rightarrow> (s, Some e)
      | None \<Rightarrow> (s\<lparr>fs_resources := map_put key (JsonFile (json_reload (GMap st))) (fs_resources s)\<rparr>, None))"

text \<open>A resource state: \<open>Inr None\<close> is the nil map of a file that is not there or holds null.\<close>

definition get_resource_state :: "string \<Rightarrow> file_store \<Rightarrow> goerror + gmap option" where
  "get_resource_state key s =
     (case map_of (fs_resources s) key of
        None \<Rightarrow> Inr None
      | Some content \<Rightarrow>
          (case fs_fails s (ReadOf ''resources'' key) of
             Some e \<Rightarrow> Inl (WrapError ''failed to read resource state: '' e '''')
           | None \<Rightarrow>
               (case content of
                  JsonFile (GMap m) \<Rightarrow> Inr (Some m)
                | JsonFile GNil \<Rightarrow> Inr None
                | _ \<Rightarrow> Inl (WrapError ''failed to parse resource state: '' (ErrorString ''json'') ''''))))"

fun collect_resource_states :: "string \<Rightarrow> string list \<Rightarrow> file_store \<Rightarrow> (string \<times> gmap) list \<Rightarrow> (string \<times> gmap) list" where
  "collect_resource_states prefix [] s result = result"
| "collect_resource_states prefix (fullKey # names) s result =
     collect_resource_states prefix names s
       (if \<not> has_prefix (fullKey @ ''.json'') prefix then result
        else (case get_resource_state fullKey s of
                Inr (Some st) \<Rightarrow> map_put (trim_prefix fullKey prefix) st result
              | _ \<Rightarrow> result))"

definition get_all_resource_states :: "string \<Rightarrow> file_store \<Rightarrow> goerror + (string \<times> gmap) list" where
  "get_all_resource_states i s =
     (case fs_fails s (ReadDir ''resources'') of
        Some e \<Rightarrow> Inl (WrapError ''failed to read resource directory: '' e '''')
      | None \<Rightarrow> Inr (collect_resource_states (i @ ''_'') (map fst (fs_resources s)) s []))"

definition delete_resource_state :: "string \<Rightarrow> file_store \<Rightarrow> file_store \<times> goerror option" where
  "delete_resource_state key s =
     (case (if map_of (fs_resources s) key = None then None else fs_fails s (RemoveOf ''resources'' key)) of
        Some e \<Rightarrow> (s, Some (WrapError ''failed to delete resource state: '' e ''''))
      | None \<Rightarrow> (s\<lparr>fs_resources := map_del key (fs_resources s)\<rparr>, None))"

definition update_resource_states_batch ::
  "(string \<times> gmap) list \<Rightarrow> file_store \<Rightarrow> file_store \<times> goerror option" where
  "update_resource_states_batch states s =
     for_each
       (\<lambda>(key, st) s. case update_resource_state key st s of
          (s', Some e) \<Rightarrow> (s', Some (WrapError (''failed to update resource '' @ key @ '' in batch: '') e ''''))
        | (s', None) \<Rightarrow> (s', None)) states s"

fun get_resource_states_batch :: "string list \<Rightarrow> file_store \<Rightarrow> (string \<times> gmap) list \<Rightarrow> (string \<times> gmap) list" where
  "get_resource_states_batch [] s result = result"
| "get_resource_states_batch (key # keys) s result =
     get_resource_states_batch keys s
       (case get_resource_state key s of Inr (Some st) \<Rightarrow> map_put key st result | _ \<Rightarrow> result)"

section \<open>Locks\<close>

text \<open>\<open>nano\<close> is the clock reading of the lock's identifier, \<open>fs_now\<close> the one of its creation.\<close>

definition lock_deployment :: "time \<Rightarrow> string \<Rightarrow> file_store \<Rightarrow> file_store \<times> (goerror + file_lock)" where
  "lock_deployment nano i s =
     (if map_of (fs_locks s) i \<noteq> None then
        (s, Inl (ErrorString (''deployment '' @ i @ '' is already locked'')))
      else if map_of (fs_lock_files s) i \<noteq> None then
        (s, Inl (ErrorString (''deployment '' @ i @ '' is already locked by another process'')))
      else (case fs_fails s (OpenExclusive i) of
        Some e \<Rightarrow> (s, Inl (WrapError ''failed to create lock file: '' e ''''))
      | None \<Rightarrow>
          (let s1 = s\<lparr>fs_lock_files := map_put i (fs_now s) (fs_lock_files s)\<rparr>;
               undo = (if fs_fails s1 (RemoveOf ''locks'' i) = None
                       then s1\<lparr>fs_lock_files := map_del i (fs_lock_files s1)\<rparr> else s1);
               lock = \<lparr>fl_id = ''lock-'' @ i @ ''-'' @ itoa (unix_nano nano), fl_deployment_id = i,
                       fl_created_at = fs_now s\<rparr> in
           case fs_fails s1 (LockFile i) of
             Some e \<Rightarrow> (undo, Inl (WrapError ''failed to acquire file lock: '' e ''''))
           | None \<Rightarrow>
               (case atomic_write s1 ''locks'' (i @ ''.lock.info'') of
                  Some e \<Rightarrow> (undo, Inl (WrapError ''failed to write lock metadata: '' e ''''))
                | None \<Rightarrow>
                    (s1\<lparr>fs_lock_infos := map_put i lock (fs_lock_infos s1),
                        fs_locks := map_put i lock (fs_locks s1)\<rparr>, Inr lock)))))"

definition release_lock :: "file_lock \<Rightarrow> file_store \<Rightarrow> file_store \<times> goerror option" where
  "release_lock lock s =
     (let i = fl_deployment_id lock in
      case fs_fails s (UnlockFile (fl_id lock)) of
        Some e \<Rightarrow> (s, Some (WrapError ''failed to release file lock: '' e ''''))
      | None \<Rightarrow>
          (s\<lparr>fs_lock_files := (if fs_fails s (RemoveOf ''locks'' i) = None
                               then map_del i (fs_lock_files s) else fs_lock_files s),
             fs_lock_infos := (if fs_fails s (RemoveOf ''locks'' (i @ ''.lock.info'')) = None
                               then map_del i (fs_lock_infos s) else fs_lock_infos s)\<rparr>, None))"

definition unlock_deployment :: "file_lock \<Rightarrow> file_store \<Rightarrow> file_store \<times> goerror option" where
  "unlock_deployment lock s =
     release_lock lock (s\<lparr>fs_locks := map_del (fl_deployment_id lock) (fs_locks s)\<rparr>)"

text \<open>\<^verbatim>\<open>Cleanup\<close> removes old files of the locks directory, in use or not.\<close>

definition cleanup_locks :: "duration \<Rightarrow> file_store \<Rightarrow> file_store" where
  "cleanup_locks olderThan s =
     (if fs_fails s (ReadDir ''locks'') \<noteq> None then s
      else s\<lparr>fs_lock_files := filter (\<lambda>(i, t). \<not> (t < fs_now s - olderThan \<and>
                 fs_fails s (RemoveOf ''locks'' i) = None)) (fs_lock_files s),
             fs_lock_infos := filter (\<lambda>(i, l). \<not> (fl_created_at l < fs_now s - olderThan \<and>
                 fs_fails s (RemoveOf ''locks'' (i @ ''.lock.info'')) = None)) (fs_lock_infos s)\<rparr>)"

section \<open>The interface operations\<close>

fun as_time :: "gval option \<Rightarrow> time option" where
  "as_time (Some (GTime t)) = Some t"
| "as_time _ = None"

fun as_int :: "gval option \<Rightarrow> int option" where
  "as_int (Some (GInt i)) = Some i"
| "as_int _ = None"

definition legacy_state :: "deployment_metadata \<Rightarrow> gmap" where
  "legacy_state m =
     [(''deployment_id'', GStr (dm_deployment_id m)), (''status'', GStr (status_string (dm_status m))),
      (''created_at'', GTime (dm_created_at m)), (''updated_at'', GTime (dm_updated_at m)),
      (''configuration'', case dm_configuration m of None \<Rightarrow> GNil | Some c \<Rightarrow> GMap c),
      (''resource_count'', GInt (dm_resource_count m))] @
     (case dm_last_applied_at m of None \<Rightarrow> [] | Some t \<Rightarrow> [(''last_applied_at'', GTime t)]) @
     (if dm_error_message m \<noteq> '''' then [(''error_message'', GStr (dm_error_message m))] else [])"

definition fs_create_deployment :: "deployment_metadata \<Rightarrow> file_store \<Rightarrow> file_store \<times> goerror option" where
  "fs_create_deployment m s = update_deployment_state (dm_deployment_id m) (legacy_state m) s"

definition metadata_of_state :: "string \<Rightarrow> gmap \<Rightarrow> deployment_metadata" where
  "metadata_of_state i st =
     \<lparr>dm_deployment_id = i,
      dm_status = (case as_string (map_of st ''status'') of
                     None \<Rightarrow> StatusOther '''' | Some x \<Rightarrow> status_of_string x),
      dm_created_at = opt_else time_zero (as_time (map_of st ''created_at'')),
      dm_updated_at = opt_else time_zero (as_time (map_of st ''updated_at'')),
      dm_configuration = as_map (map_of st ''configuration''),
      dm_resource_count = opt_else 0 (as_int (map_of st ''resource_count'')),
      dm_last_applied_at = as_time (map_of st ''last_applied_at''),
      dm_error_message = opt_else '''' (as_string (map_of st ''error_message''))\<rparr>"

definition fs_get_deployment :: "string \<Rightarrow> file_store \<Rightarrow> goerror + deployment_metadata option" where
  "fs_get_deployment i s =
     (case get_deployment_state i s of
        Inl e \<Rightarrow> Inl e
      | Inr st \<Rightarrow> Inr (Some (metadata_of_state i st)))"

fun list_deployments_of :: "string list \<Rightarrow> file_store \<Rightarrow> deployment_metadata list" where
  "list_deployments_of [] s = []"
| "list_deployments_of (i # ids) s =
     (case fs_get_deployment i s of
        Inr (Some m) \<Rightarrow> m # list_deployments_of ids s
      | _ \<Rightarrow> list_deployments_of ids s)"

definition fs_list_deployments :: "file_store \<Rightarrow> goerror + deployment_metadata list" where
  "fs_list_deployments s =
     (case fs_fails s (ReadDir ''deployments'') of
        Some e \<Rightarrow> Inl (WrapError ''failed to read deployments directory: '' e '''')
      | None \<Rightarrow> Inr (list_deployments_of (map fst (fs_deployments s)) s))"

definition fs_update_deployment_status ::
  "string \<Rightarrow> deployment_status \<Rightarrow> file_store \<Rightarrow> file_store \<times> goerror option" where
  "fs_update_deployment_status i st s =
     (case get_deployment_state i s of
        Inl e \<Rightarrow> (s, Some e)
      | Inr cur \<Rightarrow>
          update_deployment_state i
            (map_put ''updated_at'' (GTime (fs_now s)) (map_put ''status'' (GStr (status_string st)) cur)) s)"

definition fs_save_tf :: "string \<Rightarrow> tf_bytes \<Rightarrow> file_store \<Rightarrow> file_store \<times> goerror option" where
  "fs_save_tf i data s =
     (case data of
        TfGarbage _ \<Rightarrow> (s, Some (WrapError ''failed to marshal data: '' (ErrorString ''json'') ''''))
      | TfDoc st \<Rightarrow>
          (case atomic_write s ''terraform_states'' i of
             Some e \<Rightarrow> (s, Some e)
           | None \<Rightarrow> (s\<lparr>fs_tf_states := map_put i data (fs_tf_states s)\<rparr>, None)))"

definition fs_load_tf :: "string \<Rightarrow> file_store \<Rightarrow> goerror + tf_bytes" where
  "fs_load_tf i s =
     (case map_of (fs_tf_states s) i of
        None \<Rightarrow> Inl (ErrorString (''terraform state not found for deployment '' @ i))
      | Some data \<Rightarrow>
          (case fs_fails s (ReadOf ''terraform_states'' i) of
             Some e \<Rightarrow> Inl (WrapError ''failed to read terraform state: '' e '''')
           | None \<Rightarrow> Inr data))"

definition fs_delete_tf :: "string \<Rightarrow> file_store \<Rightarrow> file_store \<times> goerror option" where
  "fs_delete_tf i s =
     (case (if map_of (fs_tf_states s) i = None then None else fs_fails s (RemoveOf ''terraform_states'' i)) of
        Some e \<Rightarrow> (s, Some (WrapError ''failed to delete terraform state: '' e ''''))
      | None \<Rightarrow> (s\<lparr>fs_tf_states := map_del i (fs_tf_states s)\<rparr>, None))"

definition file_store_ops :: "file_store store_ops" where
  "file_store_ops =
     \<lparr>so_create = fs_create_deployment, so_get = fs_get_deployment, so_list = fs_list_deployments,
      so_update_status = fs_update_deployment_status, so_delete = delete_deployment_state,
      so_save_tf = fs_save_tf, so_load_tf = fs_load_tf, so_delete_tf = fs_delete_tf\<rparr>"

section \<open>What the store keeps of a metadata record\<close>

text \<open>A record after a write and a read: times and counts do not come back.\<close>

definition fs_reloaded :: "deployment_metadata \<Rightarrow> deployment_metadata" where
  "fs_reloaded m =
     \<lparr>dm_deployment_id = dm_deployment_id m, dm_status = status_of_string (status_string (dm_status m)),
      dm_created_at = time_zero, dm_updated_at = time_zero,
      dm_configuration = map_option reload_map (dm_configuration m),
      dm_resource_count = 0, dm_last_applied_at = None, dm_error_message = dm_error_message m\<rparr>"

definition fs_view :: "file_store \<Rightarrow> string \<Rightarrow> deployment_metadata option" where
  "fs_view s i =
     (case fs_get_deployment i s of Inr (Some m) \<Rightarrow> Some m | _ \<Rightarrow> None)"

definition reads_succeed :: "file_store \<Rightarrow> bool" where
  "reads_succeed s \<longleftrightarrow> (\<forall>d n. fs_fails s (ReadOf d n) = None)"


lemma metadata_of_reloaded: "metadata_of_state (dm_deployment_id m) (reload_map (legacy_state m)) = fs_reloaded m"
  by (cases "dm_last_applied_at m"; cases "dm_configuration m")
     (simp_all add: metadata_of_state_def fs_reloaded_def legacy_state_def opt_else_def)

lemma get_or_create_meta_fields:
  assumes "get_or_create_meta i s = (s1, meta)"
  shows "fs_deployments s1 = fs_deployments s" and "fs_fails s1 = fs_fails s" and "fs_now s1 = fs_now s"
    and "fs_meta_files s1 = fs_meta_files s" and "map_of (fs_metas s1) i = Some meta"
    and "j \<noteq> i \<Longrightarrow> map_of (fs_metas s1) j = map_of (fs_metas s) j"
    and "meta = (case map_of (fs_metas s) i of Some m \<Rightarrow> m
                 | None \<Rightarrow> \<lparr>mt_serial = 0, mt_lineage = generate_lineage s, mt_updated = fs_now s, mt_version = 1\<rparr>)"
  using assms by (auto simp: get_or_create_meta_def Let_def split: option.splits)

lemma save_deployment_metadata_fields:
  assumes "save_deployment_metadata i meta s = (s', r)"
  shows "fs_deployments s' = fs_deployments s" and "fs_fails s' = fs_fails s" and "fs_metas s' = fs_metas s"
    and "r = None \<Longrightarrow> fs_meta_files s' = map_put i (Some meta) (fs_meta_files s)"
  using assms by (auto simp: save_deployment_metadata_def split: option.splits)

text \<open>The effect of a state update, failed or not, that the other lemmas rest on.\<close>

lemma update_deployment_state_effect:
  assumes "update_deployment_state i st s = (s', r)"
  obtains meta0 meta where
    "meta0 = (case map_of (fs_metas s) i of Some m \<Rightarrow> m
              | None \<Rightarrow> \<lparr>mt_serial = 0, mt_lineage = generate_lineage s, mt_updated = fs_now s, mt_version = 1\<rparr>)"
    and "meta = meta0\<lparr>mt_serial := mt_serial meta0 + 1, mt_updated := fs_now s\<rparr>"
    and "map_of (fs_metas s') = (map_of (fs_metas s))(i \<mapsto> meta)"
    and "fs_fails s' = fs_fails s"
    and "fs_deployments s' = fs_deployments s \<or>
         fs_deployments s' = map_put i (JsonFile (json_reload (versioned_state meta st))) (fs_deployments s)"
    and "r = None \<Longrightarrow>
         fs_deployments s' = map_put i (JsonFile (json_reload (versioned_state meta st))) (fs_deployments s) \<and>
         fs_meta_files s' = map_put i (Some meta) (fs_meta_files s)"
proof -
  obtain s1 meta0 where g: "get_or_create_meta i s = (s1, meta0)" by fastforce
  note gf = get_or_create_meta_fields [OF g]
  define meta where "meta = meta0\<lparr>mt_serial := mt_serial meta0 + 1, mt_updated := fs_now s1\<rparr>"
  define s2 where "s2 = s1\<lparr>fs_metas := map_put i meta (fs_metas s1)\<rparr>"
  define s3 where "s3 = s2\<lparr>fs_deployments :=
      map_put i (JsonFile (json_reload (versioned_state meta st))) (fs_deployments s2)\<rparr>"
  have metas: "map_of (fs_metas s2) = (map_of (fs_metas s))(i \<mapsto> meta)"
    using gf(6) by (auto simp: s2_def fun_eq_iff)
  have eq: "update_deployment_state i st s =
      (case atomic_write s2 ''deployments'' i of
         Some e \<Rightarrow> (s2, Some (WrapError ''failed to save deployment state: '' e ''''))
       | None \<Rightarrow> (case save_deployment_metadata i meta s3 of
             (s4, Some e) \<Rightarrow> (s4, Some (WrapError ''failed to save deployment metadata: '' e ''''))
           | (s4, None) \<Rightarrow> (s4, None)))"
    unfolding update_deployment_state_def g meta_def s2_def s3_def Let_def case_prod_conv by (rule refl)
  show thesis
  proof (cases "atomic_write s2 ''deployments'' i")
    case (Some e)
    then have "s' = s2" "r \<noteq> None" using assms eq by auto
    then show thesis using gf metas
      by (intro that [of meta0 meta]) (simp_all add: meta_def s2_def)
  next
    case None
    obtain s4 r' where sv: "save_deployment_metadata i meta s3 = (s4, r')" by fastforce
    then have s': "s' = s4" "r = None \<longleftrightarrow> r' = None" using assms eq None by (auto split: option.splits)
    note sf = save_deployment_metadata_fields [OF sv]
    show thesis using gf metas sf s'
      by (intro that [of meta0 meta]) (simp_all add: meta_def s2_def s3_def)
  qed
qed

text \<open>
  A successful update of a deployment's state raises the serial of the deployment by one
  (modulo $2^{64}$), keeps its lineage, records the same metadata in memory and in the
  metadata file, and leaves the files and the metadata of every other deployment alone.
\<close>

theorem update_increments_serial:
  assumes "update_deployment_state i st s = (s', None)"
  shows "\<exists>meta. map_of (fs_metas s') i = Some meta \<and> map_of (fs_meta_files s') i = Some (Some meta) \<and>
           mt_serial meta = (case map_of (fs_metas s) i of None \<Rightarrow> 1 | Some m0 \<Rightarrow> mt_serial m0 + 1) \<and>
           (\<forall>m0. map_of (fs_metas s) i = Some m0 \<longrightarrow> mt_lineage meta = mt_lineage m0) \<and>
           (\<forall>j. j \<noteq> i \<longrightarrow> map_of (fs_metas s') j = map_of (fs_metas s) j \<and>
                 map_of (fs_deployments s') j = map_of (fs_deployments s) j \<and>
                 map_of (fs_meta_files s') j = map_of (fs_meta_files s) j)"
  using assms
  by (rule update_deployment_state_effect) (auto split: option.splits)

definition empty_file_store :: file_store where
  "empty_file_store =
     \<lparr>fs_deployments = [], fs_meta_files = [], fs_resources = [], fs_tf_states = [], fs_lock_files = [],
      fs_lock_infos = [], fs_metas = [], fs_locks = [], fs_now = 63745021234 * second,
      fs_random = Some ''0123456789abcdef'', fs_fails = (\<lambda>_. None)\<rparr>"

theorem update_increments_serial_witness:
  "\<exists>s' meta. update_deployment_state ''d1'' [(''a'', GInt 1)] empty_file_store = (s', None) \<and>
     map_of (fs_metas s') ''d1'' = Some meta \<and> mt_serial meta = 1"
proof -
  obtain s' where up: "update_deployment_state ''d1'' [(''a'', GInt 1)] empty_file_store = (s', None)"
    by (simp add: update_deployment_state_def get_or_create_meta_def save_deployment_metadata_def
        atomic_write_def empty_file_store_def Let_def)
  from update_increments_serial [OF up] up show ?thesis by (auto simp: empty_file_store_def)
qed

lemma fs_get_updated:
  assumes "update_deployment_state i st s = (s', None)" and "reads_succeed s"
  shows "fs_get_deployment i s' = Inr (Some (metadata_of_state i (reload_map st)))"
  using assms(1)
proof (rule update_deployment_state_effect)
  fix meta0 meta :: deployment_meta
  assume "None = None \<Longrightarrow> fs_deployments s' = map_put i (JsonFile (json_reload (versioned_state meta st))) (fs_deployments s) \<and>
       fs_meta_files s' = map_put i (Some meta) (fs_meta_files s)"
    and fails: "fs_fails s' = fs_fails s"
  then show ?thesis using assms(2)
    by (simp add: fs_get_deployment_def get_deployment_state_def reads_succeed_def versioned_state_def)
qed

text \<open>
  A metadata record that was created without error and is read back has its identifier,
  status, configuration (with its numbers as floats and times as texts) and error message,
  but neither its creation, update and last-applied times nor its resource count.
\<close>

theorem create_get_loses_times:
  assumes "fs_create_deployment m s = (s', None)" and "reads_succeed s"
  shows "fs_get_deployment (dm_deployment_id m) s' =
           Inr (Some \<lparr>dm_deployment_id = dm_deployment_id m,
             dm_status = status_of_string (status_string (dm_status m)), dm_created_at = time_zero,
             dm_updated_at = time_zero, dm_configuration = map_option reload_map (dm_configuration m),
             dm_resource_count = 0, dm_last_applied_at = None, dm_error_message = dm_error_message m\<rparr>)"
  using fs_get_updated [OF assms(1) [unfolded fs_create_deployment_def] assms(2)]
  by (simp add: metadata_of_reloaded fs_reloaded_def)

definition sample_metadata :: deployment_metadata where
  "sample_metadata =
     \<lparr>dm_deployment_id = ''d1'', dm_status = StatusCompleted, dm_created_at = 63745021234 * second,
      dm_updated_at = 63745021235 * second, dm_configuration = Some [(''region'', GStr ''eu-west-1'')],
      dm_resource_count = 3, dm_last_applied_at = Some (63745021235 * second), dm_error_message = ''''\<rparr>"

theorem create_get_loses_times_witness:
  "\<exists>s'. fs_create_deployment sample_metadata empty_file_store = (s', None) \<and>
     (\<exists>m. fs_get_deployment ''d1'' s' = Inr (Some m) \<and> dm_created_at m = time_zero \<and> dm_resource_count m = 0 \<and>
          dm_last_applied_at m = None \<and> dm_status m = StatusCompleted)"
proof -
  obtain s' where c: "fs_create_deployment sample_metadata empty_file_store = (s', None)"
    by (simp add: fs_create_deployment_def update_deployment_state_def get_or_create_meta_def
        save_deployment_metadata_def atomic_write_def empty_file_store_def Let_def)
  have "reads_succeed empty_file_store" by (simp add: reads_succeed_def empty_file_store_def)
  from create_get_loses_times [OF c this] c show ?thesis
    by (simp add: sample_metadata_def status_of_string_def)
qed

section \<open>The contract of the store\<close>

lemma delete_deployment_state_fields:
  assumes "delete_deployment_state i s = (s', r)"
  shows "fs_fails s' = fs_fails s" and "r = None \<Longrightarrow> fs_deployments s' = map_del i (fs_deployments s)"
  using assms by (auto simp: delete_deployment_state_def Let_def split: option.splits if_splits)

lemma fs_get_deployment_cong:
  "map_of (fs_deployments s') i = map_of (fs_deployments s) i \<Longrightarrow> fs_fails s' = fs_fails s \<Longrightarrow>
     fs_get_deployment i s' = fs_get_deployment i s"
  by (simp add: fs_get_deployment_def get_deployment_state_def cong: option.case_cong)

lemma fs_create_fields:
  assumes "fs_create_deployment m s = (s', r)"
  shows "fs_fails s' = fs_fails s"
    and "i \<noteq> dm_deployment_id m \<Longrightarrow> map_of (fs_deployments s') i = map_of (fs_deployments s) i"
  using assms unfolding fs_create_deployment_def
  by (rule update_deployment_state_effect; auto)+

lemma fs_view_create:
  assumes "reads_succeed s" and "fs_create_deployment m s = (s', None)"
  shows "fs_view s' = (fs_view s)(dm_deployment_id m \<mapsto> fs_reloaded m)"
proof
  fix i
  show "fs_view s' i = ((fs_view s)(dm_deployment_id m \<mapsto> fs_reloaded m)) i"
  proof (cases "i = dm_deployment_id m")
    case True
    then show ?thesis
      using fs_get_updated [OF assms(2) [unfolded fs_create_deployment_def] assms(1)]
      by (simp add: fs_view_def metadata_of_reloaded)
  next
    case False
    then show ?thesis
      using fs_create_fields [OF assms(2)] fs_get_deployment_cong [of s' i s] by (simp add: fs_view_def)
  qed
qed

lemma fs_view_delete:
  assumes "delete_deployment_state i s = (s', None)"
  shows "fs_view s' = (fs_view s)(i := None)"
proof
  fix j
  note f = delete_deployment_state_fields [OF assms]
  show "fs_view s' j = ((fs_view s)(i := None)) j"
  proof (cases "j = i")
    case True
    then show ?thesis using f by (simp add: fs_view_def fs_get_deployment_def get_deployment_state_def)
  next
    case False
    then show ?thesis using f fs_get_deployment_cong [of s' j s] by (simp add: fs_view_def)
  qed
qed

interpretation fstore: deployment_store file_store_ops fs_view "\<lambda>_. fs_reloaded" reads_succeed
proof
  fix s :: file_store and i :: string and m :: deployment_metadata
  assume "fs_view s i = Some m"
  then show "so_get file_store_ops i s = Inr (Some m)"
    by (auto simp: file_store_ops_def fs_view_def split: sum.splits option.splits)
next
  fix s :: file_store and i :: string
  assume "fs_view s i = None"
  then show "\<exists>e. so_get file_store_ops i s = Inl e"
    by (auto simp: file_store_ops_def fs_view_def fs_get_deployment_def split: sum.splits option.splits)
next
  fix s s' :: file_store and m :: deployment_metadata
  assume "reads_succeed s" and "so_create file_store_ops m s = (s', None)"
  then show "fs_view s' = (fs_view s)(dm_deployment_id m \<mapsto> fs_reloaded m)"
    by (intro fs_view_create) (simp_all add: file_store_ops_def)
next
  fix s s' :: file_store and i :: string
  assume "so_delete file_store_ops i s = (s', None)"
  then show "fs_view s' = (fs_view s)(i := None)"
    by (intro fs_view_delete) (simp add: file_store_ops_def)
next
  fix s :: file_store and m :: deployment_metadata
  assume "reads_succeed s"
  moreover obtain s' r where "fs_create_deployment m s = (s', r)" by fastforce
  ultimately show "reads_succeed (fst (so_create file_store_ops m s))"
    using fs_create_fields(1) [of m s s' r] by (simp add: reads_succeed_def file_store_ops_def)
next
  fix s :: file_store and i :: string
  assume "reads_succeed s"
  moreover obtain s' r where "delete_deployment_state i s = (s', r)" by fastforce
  ultimately show "reads_succeed (fst (so_delete file_store_ops i s))"
    using delete_deployment_state_fields(1) [of i s s' r] by (simp add: reads_succeed_def file_store_ops_def)
next
  fix m :: deployment_metadata
  show "dm_deployment_id (fs_reloaded m) = dm_deployment_id m" by (simp add: fs_reloaded_def)
qed

section \<open>Restarts and locks\<close>

lemma load_metas_lookup:
  "map_wf files \<Longrightarrow> map_of (load_metas files metas) i =
     (case map_of files i of Some (Some meta) \<Rightarrow> Some meta | _ \<Rightarrow> map_of metas i)"
proof (induction files metas rule: load_metas.induct)
  case (2 j meta files metas)
  then have "map_of files j = None" by (simp add: map_wf_def map_of_eq_None_iff)
  with 2 show ?case by (auto simp: map_wf_def split: option.splits)
next
  case (3 j files metas)
  then have "map_of files j = None" by (simp add: map_wf_def map_of_eq_None_iff)
  with 3 show ?case by (auto simp: map_wf_def split: option.splits)
qed simp

text \<open>
  A new process that opens the directory after a successful update continues from that
  update: it has the same serial and lineage, so no serial is used twice for a deployment.
\<close>

theorem restart_keeps_serial:
  assumes "update_deployment_state i st s = (s', None)" and "map_wf (fs_meta_files s)"
    and "reads_succeed s" and "fs_fails s (ReadDir ''meta'') = None"
  shows "\<exists>s2. new_file_store s' = Inr s2 \<and> map_of (fs_metas s2) i = map_of (fs_metas s') i \<and>
              map_of (fs_metas s') i \<noteq> None"
  using assms(1)
proof (rule update_deployment_state_effect)
  fix meta0 meta :: deployment_meta
  assume m: "map_of (fs_metas s') = (map_of (fs_metas s))(i \<mapsto> meta)" and fails: "fs_fails s' = fs_fails s"
    and written: "None = None \<Longrightarrow>
       fs_deployments s' = map_put i (JsonFile (json_reload (versioned_state meta st))) (fs_deployments s) \<and>
       fs_meta_files s' = map_put i (Some meta) (fs_meta_files s)"
  have files: "fs_meta_files s' = map_put i (Some meta) (fs_meta_files s)" using written by simp
  then have wf: "map_wf (fs_meta_files s')" using assms(2) by (simp add: map_wf_put)
  have "map_of (load_metas (fs_meta_files s') []) i = Some meta"
    using load_metas_lookup [OF wf, of "[]" i] files by simp
  then show ?thesis
    using assms(3,4) m fails by (simp add: new_file_store_def load_deployment_metadata_def reads_succeed_def)
qed

theorem restart_keeps_serial_witness:
  "\<exists>s' s2. update_deployment_state ''d1'' [] empty_file_store = (s', None) \<and> new_file_store s' = Inr s2 \<and>
     map_of (fs_metas s2) ''d1'' = map_of (fs_metas s') ''d1''"
proof -
  obtain s' where up: "update_deployment_state ''d1'' [] empty_file_store = (s', None)"
    by (simp add: update_deployment_state_def get_or_create_meta_def save_deployment_metadata_def
        atomic_write_def empty_file_store_def Let_def)
  from restart_keeps_serial [OF up] up show ?thesis
    by (auto simp: empty_file_store_def reads_succeed_def)
qed

definition no_failures :: "file_store \<Rightarrow> bool" where
  "no_failures s \<longleftrightarrow> (\<forall>c. fs_fails s c = None)"

text \<open>
  A deployment's lock excludes every other one until it is released: after a successful
  lock, every further attempt on that deployment, in this process or in one that opens the
  directory anew, is refused; after the release the deployment can be locked again.
\<close>

theorem lock_exclusion:
  assumes "lock_deployment t i s = (s1, Inr lock)" and "no_failures s"
  shows "(\<forall>t'. \<exists>e. lock_deployment t' i s1 = (s1, Inl e)) \<and>
         (\<forall>s2 t'. new_file_store s1 = Inr s2 \<longrightarrow> (\<exists>e. lock_deployment t' i s2 = (s2, Inl e))) \<and>
         (\<exists>s3. unlock_deployment lock s1 = (s3, None) \<and> (\<forall>t'. \<exists>s4 lock'. lock_deployment t' i s3 = (s4, Inr lock')))"
proof -
  have clean: "fs_fails s c = None" for c using assms(2) by (simp add: no_failures_def)
  have free: "map_of (fs_locks s) i = None" "map_of (fs_lock_files s) i = None"
    using assms(1) by (auto simp: lock_deployment_def split: if_splits)
  define lk where "lk = \<lparr>fl_id = ''lock-'' @ i @ ''-'' @ itoa (unix_nano t), fl_deployment_id = i, fl_created_at = fs_now s\<rparr>"
  have s1: "s1 = s\<lparr>fs_lock_files := map_put i (fs_now s) (fs_lock_files s), fs_lock_infos := map_put i lk (fs_lock_infos s),
                   fs_locks := map_put i lk (fs_locks s)\<rparr>" and lock: "lock = lk"
    using assms(1) free clean by (auto simp: lock_deployment_def atomic_write_def lk_def Let_def)
  have other: "\<exists>e. lock_deployment t' i s2 = (s2, Inl e)" if "new_file_store s1 = Inr s2" for s2 t'
  proof -
    have "map_of (fs_locks s2) i = None" "map_of (fs_lock_files s2) i \<noteq> None"
      using that clean s1 by (auto simp: new_file_store_def load_deployment_metadata_def)
    then show ?thesis by (simp add: lock_deployment_def)
  qed
  obtain s3 where s3: "unlock_deployment lock s1 = (s3, None)" "map_of (fs_locks s3) i = None"
    "map_of (fs_lock_files s3) i = None" "fs_fails s3 = fs_fails s"
    using s1 lock clean by (simp add: unlock_deployment_def release_lock_def lk_def)
  have "\<exists>s4 lock'. lock_deployment t' i s3 = (s4, Inr lock')" for t'
    using s3(2-4) clean by (simp add: lock_deployment_def atomic_write_def Let_def)
  moreover have "\<exists>e. lock_deployment t' i s1 = (s1, Inl e)" for t'
    using s1 by (simp add: lock_deployment_def)
  ultimately show ?thesis using other s3(1) by blast
qed

theorem lock_exclusion_witness:
  "\<exists>s1 lock e. lock_deployment 7 ''d1'' empty_file_store = (s1, Inr lock) \<and>
     lock_deployment 8 ''d1'' s1 = (s1, Inl e)"
proof -
  obtain s1 lock where l: "lock_deployment 7 ''d1'' empty_file_store = (s1, Inr lock)"
    by (simp add: lock_deployment_def atomic_write_def empty_file_store_def Let_def)
  have "no_failures empty_file_store" by (simp add: no_failures_def empty_file_store_def)
  from lock_exclusion [OF l this] l show ?thesis by blast
qed

end
