(* ===== verification/Terraform_State.thy ===== *)
theory Terraform_State
  imports Change_Ordering File_State_Store
begin

text \<open>
  The Terraform state of a deployment as \<^verbatim>\<open>internal/executor/deployment_executor.go\<close> keeps it:
  building, searching and changing the document, and its way through a state store as
  JSON. \<open>terraform_store\<close> is the contract of a store that does not fail.
\<close>

section \<open>The document\<close>

text \<open>\<^verbatim>\<open>%q\<close> of a string: \<^verbatim>\<open>strconv.Quote\<close>; bytes above ASCII are kept.\<close>

definition hex_digit :: "nat \<Rightarrow> char" where
  "hex_digit n = char_of (if n < 10 then 48 + n else 87 + n)"

definition quote_char :: "char \<Rightarrow> string" where
  "quote_char c =
     (let n = of_char c :: nat in
      if n = 34 then [CHR 0x5C, c]
      else if n = 92 then [CHR 0x5C, c]
      else if n = 7 then CHR 0x5C # ''a''
      else if n = 8 then CHR 0x5C # ''b''
      else if n = 9 then CHR 0x5C # ''t''
      else if n = 10 then CHR 0x5C # ''n''
      else if n = 11 then CHR 0x5C # ''v''
      else if n = 12 then CHR 0x5C # ''f''
      else if n = 13 then CHR 0x5C # ''r''
      else if n < 32 \<or> n = 127 then [CHR 0x5C, CHR ''x'', hex_digit (n div 16), hex_digit (n mod 16)]
      else [c])"

definition go_quote :: "string \<Rightarrow> string" where
  "go_quote s = CHR 0x22 # concat (map quote_char s) @ [CHR 0x22]"

definition unix_seconds :: "time \<Rightarrow> int" where
  "unix_seconds t = unix_nano t div second"

definition generate_state_lineage :: "time \<Rightarrow> string" where
  "generate_state_lineage now = itoa (unix_nano now) @ ''-'' @ itoa (unix_seconds now)"

definition create_empty_state :: "time \<Rightarrow> tf_state" where
  "create_empty_state now =
     \<lparr>ts_version = 4, ts_terraform_version = ''1.5.0'', ts_serial = 1,
      ts_lineage = generate_state_lineage now, ts_outputs = [], ts_resources = []\<rparr>"

text \<open>The instances of one resource, from the \<open>i\<close>-th on; \<open>n\<close> is how many there are.\<close>

fun extract_instances :: "tf_resource \<Rightarrow> nat \<Rightarrow> nat \<Rightarrow> tf_instance list \<Rightarrow> (string \<times> gmap option) list \<Rightarrow>
    (string \<times> gmap option) list" where
  "extract_instances r n i [] m = m"
| "extract_instances r n i (t # ts) m =
     extract_instances r n (Suc i) ts
       (map_put (if n = 1 then tr_type r @ ''.'' @ tr_name r
                 else tr_type r @ ''.'' @ tr_name r @ ''['' @ itoa (int i) @ '']'') (ti_attributes t) m)"

definition extract_resources_from_state :: "tf_state \<Rightarrow> (string \<times> gmap option) list" where
  "extract_resources_from_state st =
     fold (\<lambda>r. extract_instances r (length (tr_instances r)) 0 (tr_instances r)) (ts_resources st) []"

definition same_resource :: "string \<Rightarrow> string \<Rightarrow> tf_resource \<Rightarrow> bool" where
  "same_resource t n r \<longleftrightarrow> tr_type r = t \<and> tr_name r = n"

fun find_resource_index :: "string \<Rightarrow> string \<Rightarrow> tf_resource list \<Rightarrow> nat option" where
  "find_resource_index t n [] = None"
| "find_resource_index t n (r # rs) =
     (if same_resource t n r then Some 0 else map_option Suc (find_resource_index t n rs))"

definition find_resource_in_state :: "string \<Rightarrow> string \<Rightarrow> tf_state \<Rightarrow> (tf_resource \<times> nat) option" where
  "find_resource_in_state t n st =
     map_option (\<lambda>i. (ts_resources st ! i, i)) (find_resource_index t n (ts_resources st))"

definition new_instance :: "gmap option \<Rightarrow> tf_instance" where
  "new_instance attributes = \<lparr>ti_schema_version = 1, ti_attributes = attributes, ti_private = ''''\<rparr>"

definition update_resource_in_state :: "string \<Rightarrow> string \<Rightarrow> gmap option \<Rightarrow> tf_state \<Rightarrow> tf_state" where
  "update_resource_in_state t n attributes st =
     (let st' =
        (case find_resource_in_state t n st of
           None \<Rightarrow>
             st\<lparr>ts_resources := ts_resources st @
                  [\<lparr>tr_module = '''', tr_mode = ''managed'', tr_type = t, tr_name = n,
                    tr_provider = ''provider['' @ go_quote (extract_provider_name t) @ '']'',
                    tr_instances = [new_instance attributes]\<rparr>]\<rparr>
         | Some (r, i) \<Rightarrow>
             st\<lparr>ts_resources := (ts_resources st)[i := r\<lparr>tr_instances :=
                  (case tr_instances r of [] \<Rightarrow> [new_instance attributes]
                   | _ # ts \<Rightarrow> new_instance attributes # ts)\<rparr>]\<rparr>)
      in st'\<lparr>ts_serial := ts_serial st' + 1\<rparr>)"

definition remove_resource_from_state :: "string \<Rightarrow> string \<Rightarrow> tf_state \<Rightarrow> tf_state \<times> bool" where
  "remove_resource_from_state t n st =
     (case find_resource_in_state t n st of
        None \<Rightarrow> (st, False)
      | Some (_, i) \<Rightarrow>
          (st\<lparr>ts_resources := take i (ts_resources st) @ drop (Suc i) (ts_resources st),
              ts_serial := ts_serial st + 1\<rparr>, True))"

text \<open>The attributes of the first instance of a resource: what the executor takes as its state.\<close>

definition existing_attributes :: "string \<Rightarrow> string \<Rightarrow> tf_state \<Rightarrow> gmap option option" where
  "existing_attributes t n st =
     (case find_resource_in_state t n st of
        None \<Rightarrow> None
      | Some (r, _) \<Rightarrow> (case tr_instances r of [] \<Rightarrow> None | i # _ \<Rightarrow> Some (ti_attributes i)))"

section \<open>Through the store\<close>

text \<open>What a document says after it was written as JSON and read back.\<close>

definition json_instance :: "tf_instance \<Rightarrow> tf_instance" where
  "json_instance i = i\<lparr>ti_attributes := map_option reload_map (ti_attributes i)\<rparr>"

definition json_resource :: "tf_resource \<Rightarrow> tf_resource" where
  "json_resource r = r\<lparr>tr_instances := map json_instance (tr_instances r)\<rparr>"

definition json_state :: "tf_state \<Rightarrow> tf_state" where
  "json_state st =
     st\<lparr>ts_outputs := reload_map (ts_outputs st), ts_resources := map json_resource (ts_resources st)\<rparr>"

definition unmarshal_state :: "tf_bytes \<Rightarrow> goerror + tf_state" where
  "unmarshal_state data =
     (case data of
        TfDoc st \<Rightarrow> Inr st
      | TfGarbage _ \<Rightarrow> Inl (WrapError ''failed to parse terraform state: '' (ErrorString ''json'') ''''))"

definition load_terraform_state :: "'s store_ops \<Rightarrow> string \<Rightarrow> 's \<Rightarrow> goerror + tf_state" where
  "load_terraform_state ops i s =
     (case so_load_tf ops i s of
        Inl e \<Rightarrow> Inl (WrapError ''failed to load terraform state: '' e '''')
      | Inr data \<Rightarrow> unmarshal_state data)"

definition save_terraform_state :: "'s store_ops \<Rightarrow> string \<Rightarrow> tf_state \<Rightarrow> 's \<Rightarrow> 's \<times> goerror option" where
  "save_terraform_state ops i st s =
     (case so_save_tf ops i (TfDoc (json_state st)) s of
        (s', Some e) \<Rightarrow> (s', Some (WrapError ''failed to save terraform state: '' e ''''))
      | (s', None) \<Rightarrow> (s', None))"

section \<open>Searching and changing\<close>

text \<open>A document is well formed if no two of its resources have the same type and name.\<close>

definition tf_wf :: "tf_state \<Rightarrow> bool" where
  "tf_wf st \<longleftrightarrow> distinct (map (\<lambda>r. (tr_type r, tr_name r)) (ts_resources st))"

text \<open>The two changes as recursions over the list of resources.\<close>

definition new_resource :: "string \<Rightarrow> string \<Rightarrow> gmap option \<Rightarrow> tf_resource" where
  "new_resource t n a =
     \<lparr>tr_module = '''', tr_mode = ''managed'', tr_type = t, tr_name = n,
      tr_provider = ''provider['' @ go_quote (extract_provider_name t) @ '']'', tr_instances = [new_instance a]\<rparr>"

definition set_instance :: "gmap option \<Rightarrow> tf_resource \<Rightarrow> tf_resource" where
  "set_instance a r = r\<lparr>tr_instances := new_instance a # tl (tr_instances r)\<rparr>"

fun put_resource :: "string \<Rightarrow> string \<Rightarrow> gmap option \<Rightarrow> tf_resource list \<Rightarrow> tf_resource list" where
  "put_resource t n a [] = [new_resource t n a]"
| "put_resource t n a (r # rs) =
     (if same_resource t n r then set_instance a r # rs else r # put_resource t n a rs)"

fun drop_resource :: "string \<Rightarrow> string \<Rightarrow> tf_resource list \<Rightarrow> tf_resource list" where
  "drop_resource t n [] = []"
| "drop_resource t n (r # rs) = (if same_resource t n r then rs else r # drop_resource t n rs)"

lemma put_resource_index:
  "put_resource t n a rs =
     (case find_resource_index t n rs of
        None \<Rightarrow> rs @ [new_resource t n a] | Some i \<Rightarrow> rs[i := set_instance a (rs ! i)])"
  by (induction rs) (auto split: option.splits)

lemma drop_resource_index:
  "drop_resource t n rs =
     (case find_resource_index t n rs of None \<Rightarrow> rs | Some i \<Rightarrow> take i rs @ drop (Suc i) rs)"
  by (induction rs) (auto split: option.splits)

lemma update_resources:
  "ts_resources (update_resource_in_state t n a st) = put_resource t n a (ts_resources st)"
  "ts_serial (update_resource_in_state t n a st) = ts_serial st + 1"
proof -
  have set: "r\<lparr>tr_instances := (case tr_instances r of [] \<Rightarrow> [new_instance a] | _ # ts \<Rightarrow> new_instance a # ts)\<rparr> =
      set_instance a r" for r
    by (simp add: set_instance_def split: list.split)
  show "ts_resources (update_resource_in_state t n a st) = put_resource t n a (ts_resources st)"
    "ts_serial (update_resource_in_state t n a st) = ts_serial st + 1"
    unfolding update_resource_in_state_def set
    by (simp_all add: Let_def find_resource_in_state_def put_resource_index new_resource_def split: option.split)
qed

lemma remove_resources:
  "ts_resources (fst (remove_resource_from_state t n st)) = drop_resource t n (ts_resources st)"
  by (simp add: remove_resource_from_state_def find_resource_in_state_def drop_resource_index split: option.split)

definition first_attributes :: "tf_resource \<Rightarrow> gmap option option" where
  "first_attributes r = (case tr_instances r of [] \<Rightarrow> None | i # _ \<Rightarrow> Some (ti_attributes i))"

fun attributes_in :: "string \<Rightarrow> string \<Rightarrow> tf_resource list \<Rightarrow> gmap option option" where
  "attributes_in t n [] = None"
| "attributes_in t n (r # rs) = (if same_resource t n r then first_attributes r else attributes_in t n rs)"

lemma attributes_in_index:
  "attributes_in t n rs = Option.bind (find_resource_index t n rs) (\<lambda>i. first_attributes (rs ! i))"
  by (induction rs) (auto simp: bind_map_option comp_def)

lemma existing_attributes_in: "existing_attributes t n st = attributes_in t n (ts_resources st)"
  by (simp add: existing_attributes_def find_resource_in_state_def attributes_in_index first_attributes_def
      split: option.split)

lemma attributes_in_json:
  "attributes_in t n (map json_resource rs) = map_option (map_option reload_map) (attributes_in t n rs)"
  by (induction rs)
     (auto simp: same_resource_def json_resource_def first_attributes_def json_instance_def split: list.split)

lemma existing_attributes_json:
  "existing_attributes t n (json_state st) = map_option (map_option reload_map) (existing_attributes t n st)"
  by (simp add: existing_attributes_in attributes_in_json json_state_def)

lemma attributes_in_put:
  "attributes_in t' n' (put_resource t n a rs) = (if t' = t \<and> n' = n then Some a else attributes_in t' n' rs)"
  by (induction rs)
     (auto simp: same_resource_def new_resource_def first_attributes_def set_instance_def new_instance_def)

lemma existing_update:
  "existing_attributes t' n' (update_resource_in_state t n a st) =
     (if t' = t \<and> n' = n then Some a else existing_attributes t' n' st)"
  by (simp add: existing_attributes_in update_resources attributes_in_put)

abbreviation resource_id :: "tf_resource \<Rightarrow> string \<times> string" where
  "resource_id r \<equiv> (tr_type r, tr_name r)"

lemma same_resource_id: "same_resource t n r \<longleftrightarrow> resource_id r = (t, n)"
  by (simp add: same_resource_def)

lemma put_resource_ids:
  "resource_id ` set (put_resource t n a rs) = insert (t, n) (resource_id ` set rs)"
  by (induction rs) (auto simp: same_resource_def new_resource_def set_instance_def)

lemma put_resource_distinct:
  "distinct (map resource_id rs) \<Longrightarrow> distinct (map resource_id (put_resource t n a rs))"
proof (induction rs)
  case (Cons r rs)
  then show ?case
    using put_resource_ids [of t n a rs] by (auto simp: same_resource_def set_instance_def)
qed simp

lemma drop_resource_subset: "set (drop_resource t n rs) \<subseteq> set rs"
  by (induction rs) auto

lemma drop_resource_distinct:
  "distinct (map resource_id rs) \<Longrightarrow> distinct (map resource_id (drop_resource t n rs))"
  using drop_resource_subset by (induction rs) (auto, blast)

lemma attributes_in_absent: "(t, n) \<notin> resource_id ` set rs \<Longrightarrow> attributes_in t n rs = None"
  by (induction rs) (auto simp: same_resource_def)

lemma attributes_in_drop:
  "distinct (map resource_id rs) \<Longrightarrow>
     attributes_in t' n' (drop_resource t n rs) = (if t' = t \<and> n' = n then None else attributes_in t' n' rs)"
  by (induction rs) (auto simp: same_resource_def attributes_in_absent)

lemma tf_wf_empty: "tf_wf (create_empty_state now)"
  by (simp add: tf_wf_def create_empty_state_def)

lemma tf_wf_json: "tf_wf (json_state st) = tf_wf st"
  by (simp add: tf_wf_def json_state_def json_resource_def comp_def)

lemma tf_wf_update: "tf_wf st \<Longrightarrow> tf_wf (update_resource_in_state t n a st)"
  by (simp add: tf_wf_def update_resources put_resource_distinct)

lemma tf_wf_remove: "tf_wf st \<Longrightarrow> tf_wf (fst (remove_resource_from_state t n st))"
  by (simp add: tf_wf_def remove_resources drop_resource_distinct)

lemma existing_remove:
  assumes "tf_wf st"
  shows "existing_attributes t' n' (fst (remove_resource_from_state t n st)) =
    (if t' = t \<and> n' = n then None else existing_attributes t' n' st)"
  using assms by (simp add: existing_attributes_in remove_resources attributes_in_drop tf_wf_def)

section \<open>The contract of a store that works\<close>

locale terraform_store =
  fixes ops :: "'s store_ops"
    and works :: "'s \<Rightarrow> bool"
  assumes save_works: "works s \<Longrightarrow> \<exists>s'. so_save_tf ops i (TfDoc st) s = (s', None) \<and> works s' \<and>
      so_load_tf ops i s' = Inr (TfDoc st) \<and> (\<forall>j. j \<noteq> i \<longrightarrow> so_load_tf ops j s' = so_load_tf ops j s)"
begin

lemma save_load:
  assumes "works s"
  obtains s' where "save_terraform_state ops i st s = (s', None)" and "works s'"
    and "load_terraform_state ops i s' = Inr (json_state st)"
    and "\<And>j. j \<noteq> i \<Longrightarrow> load_terraform_state ops j s' = load_terraform_state ops j s"
  using save_works [OF assms, of i "json_state st"]
  by (auto simp: save_terraform_state_def load_terraform_state_def unmarshal_state_def)

end

text \<open>The file store works while no file operation on the states fails.\<close>

definition tf_files_work :: "file_store \<Rightarrow> bool" where
  "tf_files_work s \<longleftrightarrow> (\<forall>i. atomic_write s ''terraform_states'' i = None \<and> fs_fails s (ReadOf ''terraform_states'' i) = None)"

lemma atomic_write_tf_states [simp]: "atomic_write (s\<lparr>fs_tf_states := m\<rparr>) d n = atomic_write s d n"
  by (simp add: atomic_write_def split: option.split)

interpretation ftf: terraform_store file_store_ops tf_files_work
  by unfold_locales
     (auto simp: tf_files_work_def file_store_ops_def fs_save_tf_def fs_load_tf_def split: option.splits)

end
