(* ===== verification/Update_Plan.thy ===== *)
theory Update_Plan
  imports Lattiam_Types
begin

text \<open>
  Reading an update plan out of a deployment's metadata,
  \<^verbatim>\<open>internal/deployment/serialization.go\<close>. Decoding a map into a plan is the work of the
  \<^verbatim>\<open>mapstructure\<close> package and a parameter (\<open>decode\<close>); the validation of what it returns is
  modelled. A plan that is already a \<^verbatim>\<open>*UpdatePlan\<close> is not validated.
\<close>

section \<open>Validation\<close>

definition change_error :: "nat \<Rightarrow> string \<Rightarrow> goerror" where
  "change_error i msg = ErrorString (''change '' @ itoa (int i) @ '': '' @ msg)"

text \<open>The action-specific requirements of one change.\<close>

fun validate_states :: "nat \<Rightarrow> change_action \<Rightarrow> gmap option \<Rightarrow> gmap option \<Rightarrow> goerror option" where
  "validate_states i ActionCreate before after =
     (if after = None then Some (change_error i (CHR 0x27 # ''after'' @ CHR 0x27 # '' state required for create action'')) else None)"
| "validate_states i ActionUpdate before after =
     (if before = None \<or> after = None
      then Some (change_error i (''both '' @ CHR 0x27 # ''before'' @ CHR 0x27 # '' and '' @ CHR 0x27 # ''after'' @
                   CHR 0x27 # '' states required for update action''))
      else None)"
| "validate_states i ActionDelete before after =
     (if before = None then Some (change_error i (CHR 0x27 # ''before'' @ CHR 0x27 # '' state required for delete action'')) else None)"
| "validate_states i ActionNoOp before after = None"
| "validate_states i ActionReplace before after =
     (if before = None \<or> after = None
      then Some (change_error i (''both '' @ CHR 0x27 # ''before'' @ CHR 0x27 # '' and '' @ CHR 0x27 # ''after'' @
                   CHR 0x27 # '' states required for replace action''))
      else None)"
| "validate_states i (ActionOther s) before after = None"

fun validate_changes :: "nat \<Rightarrow> resource_change list \<Rightarrow> goerror option" where
  "validate_changes i [] = None"
| "validate_changes i (c # cs) =
     (if rc_key c = '''' then Some (change_error i ''resource key is required'')
      else if rc_action c = ActionOther '''' then Some (change_error i ''action is required'')
      else (case validate_states i (rc_action c) (rc_before c) (rc_after c) of
              Some e \<Rightarrow> Some e
            | None \<Rightarrow> validate_changes (Suc i) cs))"

definition validate_plan :: "update_plan \<Rightarrow> goerror option" where
  "validate_plan p =
     (if up_deployment_id p = '''' then Some (ErrorString ''deployment ID is required'')
      else if up_plan_id p = '''' then Some (ErrorString ''plan ID is required'')
      else if up_changes p = [] then Some (ErrorString ''no changes in update plan'')
      else validate_changes 0 (up_changes p))"

section \<open>Reading a plan\<close>

definition deserialize_plan :: "(gval \<Rightarrow> goerror + update_plan) \<Rightarrow> meta_value \<Rightarrow> goerror + update_plan" where
  "deserialize_plan decode v =
     (case v of
        MetaPlan p \<Rightarrow> Inr p
      | MetaVal g \<Rightarrow>
          (if g = GNil then Inl (ErrorString ''input is nil'')
           else (case decode g of
                   Inl e \<Rightarrow> Inl (WrapError ''failed to decode update plan: '' e '''')
                 | Inr p \<Rightarrow>
                     (case validate_plan p of
                        Some e \<Rightarrow> Inl (WrapError ''invalid update plan: '' e '''')
                      | None \<Rightarrow> Inr p))))"

definition extract_update_plan :: "(gval \<Rightarrow> goerror + update_plan) \<Rightarrow> queued_deployment option \<Rightarrow> goerror + update_plan" where
  "extract_update_plan decode deployment =
     (case deployment of
        None \<Rightarrow> Inl (ErrorString ''deployment is nil'')
      | Some d \<Rightarrow>
          (case qd_request d of
             None \<Rightarrow> Inl (ErrorString ''deployment request is nil'')
           | Some rq \<Rightarrow>
               (case req_metadata rq of
                  None \<Rightarrow> Inl (ErrorString ''deployment metadata is nil'')
                | Some md \<Rightarrow>
                    (case map_of md ''update_plan'' of
                       None \<Rightarrow> Inl (ErrorString ''update_plan not found in deployment metadata'')
                     | Some v \<Rightarrow> deserialize_plan decode v))))"

section \<open>What a valid plan has\<close>

text \<open>The states an action needs: the executor reads them without a check.\<close>

definition change_complete :: "resource_change \<Rightarrow> bool" where
  "change_complete c \<longleftrightarrow> rc_key c \<noteq> '''' \<and>
     (rc_action c \<in> {ActionCreate, ActionUpdate, ActionReplace} \<longrightarrow> rc_after c \<noteq> None) \<and>
     (rc_action c \<in> {ActionUpdate, ActionReplace, ActionDelete} \<longrightarrow> rc_before c \<noteq> None)"

lemma validate_changes_complete:
  "validate_changes i cs = None \<Longrightarrow> c \<in> set cs \<Longrightarrow> change_complete c"
proof (induction i cs rule: validate_changes.induct)
  case (2 i c' cs)
  from "2.prems"(1) have ok: "rc_key c' \<noteq> ''''" "validate_states i (rc_action c') (rc_before c') (rc_after c') = None"
    "validate_changes (Suc i) cs = None" "rc_action c' \<noteq> ActionOther ''''"
    by (auto split: if_splits option.splits)
  show ?case
  proof (cases "c = c'")
    case True
    then show ?thesis using ok(1,2) by (cases "rc_action c'") (auto simp: change_complete_def split: if_splits)
  next
    case False
    then show ?thesis using "2.IH" ok "2.prems"(2) by auto
  qed
qed simp

lemma deserialized_plan_complete:
  assumes "deserialize_plan decode (MetaVal g) = Inr p"
  shows "up_deployment_id p \<noteq> ''''" and "up_changes p \<noteq> []" and "\<forall>c \<in> set (up_changes p). change_complete c"
proof -
  have "validate_plan p = None"
    using assms by (auto simp: deserialize_plan_def split: if_splits sum.splits option.splits)
  then have v: "up_deployment_id p \<noteq> ''''" "up_changes p \<noteq> []" "validate_changes 0 (up_changes p) = None"
    by (auto simp: validate_plan_def split: if_splits)
  then show "up_deployment_id p \<noteq> ''''" "up_changes p \<noteq> []" "\<forall>c \<in> set (up_changes p). change_complete c"
    using validate_changes_complete by blast+
qed

end
