(* ===== verification/Executor.thy ===== *)
theory Executor
  imports Terraform_State Update_Plan
begin

text \<open>
  The deployment executor, \<^verbatim>\<open>internal/executor/deployment_executor.go\<close>. The providers are
  processes outside the program: their operations and their state \<open>'p\<close> are parameters, and so
  is the interpolation of values. The events the executor publishes are a list, in the order
  of their publication. The executor does not look at its context, so the context is left to the
  providers. \<open>ex_now\<close> is the clock.
\<close>

section \<open>Providers, events and state\<close>

text \<open>\<open>'i\<close> is a provider instance. A map that may be nil is an option.\<close>

record ('p, 'i) provider_ops =
  po_get :: "string \<Rightarrow> string \<Rightarrow> string \<Rightarrow> provider_config option \<Rightarrow> string \<Rightarrow> 'p \<Rightarrow> 'p \<times> (goerror + 'i)"
  po_release :: "string \<Rightarrow> string \<Rightarrow> 'p \<Rightarrow> 'p \<times> goerror option"
  po_create :: "'i \<Rightarrow> string \<Rightarrow> gmap \<Rightarrow> 'p \<Rightarrow> 'p \<times> (goerror + gmap option)"
  po_update :: "'i \<Rightarrow> string \<Rightarrow> gmap option \<Rightarrow> gmap \<Rightarrow> 'p \<Rightarrow> 'p \<times> (goerror + gmap option)"
  po_delete :: "'i \<Rightarrow> string \<Rightarrow> gmap \<Rightarrow> 'p \<Rightarrow> 'p \<times> goerror option"
  po_plan :: "'i \<Rightarrow> string \<Rightarrow> gmap option \<Rightarrow> gmap \<Rightarrow> 'p \<Rightarrow> 'p \<times> (goerror + resource_plan)"
  po_apply :: "'i \<Rightarrow> string \<Rightarrow> resource_plan \<Rightarrow> 'p \<Rightarrow> 'p \<times> (goerror + gmap option)"
  po_read :: "'i \<Rightarrow> string \<Rightarrow> gmap \<Rightarrow> 'p \<Rightarrow> 'p \<times> (goerror + gmap option)"

datatype event =
    StatusChanged string deployment_status
  | ResultReady string deployment_result
  | ErrorOccurred string goerror

record ('s, 'p, 'i, 'g) executor =
  ex_store :: "'s store_ops option"
  ex_providers :: "('p, 'i) provider_ops"
  ex_resolver :: "'g resolver"
  ex_interpolate :: "gmap \<Rightarrow> provider_config \<Rightarrow> goerror + gmap"
  ex_decode :: "gval \<Rightarrow> goerror + update_plan"
  ex_now :: time

text \<open>
  The state of one execution: the store, the providers, the published events, the result
  under construction and the deployed resources of the execution context.
\<close>

record ('s, 'p) exec_state =
  xs_store :: 's
  xs_providers :: 'p
  xs_events :: "event list"
  xs_result :: deployment_result
  xs_deployed :: gmap

definition publish :: "event \<Rightarrow> ('s, 'p) exec_state \<Rightarrow> ('s, 'p) exec_state" where
  "publish ev x = x\<lparr>xs_events := xs_events x @ [ev]\<rparr>"

definition new_result :: "string \<Rightarrow> deployment_result" where
  "new_result i =
     \<lparr>dr_deployment_id = i, dr_success = False, dr_error = None, dr_resources = Some [],
      dr_outputs = Some [], dr_completed_at = time_zero\<rparr>"

definition put_result_resource :: "string \<Rightarrow> gval \<Rightarrow> ('s, 'p) exec_state \<Rightarrow> ('s, 'p) exec_state" where
  "put_result_resource k v x =
     x\<lparr>xs_result := (xs_result x)\<lparr>dr_resources := Some (map_put k v (nil_map (dr_resources (xs_result x))))\<rparr>\<rparr>"

definition put_result_output :: "string \<Rightarrow> gval \<Rightarrow> ('s, 'p) exec_state \<Rightarrow> ('s, 'p) exec_state" where
  "put_result_output k v x =
     x\<lparr>xs_result := (xs_result x)\<lparr>dr_outputs := Some (map_put k v (nil_map (dr_outputs (xs_result x))))\<rparr>\<rparr>"

text \<open>\<^verbatim>\<open>storeResult\<close>: the result, then the status that follows from it.\<close>

definition store_result :: "string \<Rightarrow> ('s, 'p) exec_state \<Rightarrow> ('s, 'p) exec_state" where
  "store_result i x =
     publish (StatusChanged i (if dr_success (xs_result x) then StatusCompleted else StatusFailed))
       (publish (ResultReady i (xs_result x)) x)"

text \<open>The common ending of a failed execution: the error becomes the result's and is published.\<close>

definition fail_with :: "string \<Rightarrow> goerror \<Rightarrow> ('s, 'p) exec_state \<Rightarrow> ('s, 'p) exec_state \<times> goerror option" where
  "fail_with i e x = (store_result i (x\<lparr>xs_result := (xs_result x)\<lparr>dr_error := Some e\<rparr>\<rparr>), Some e)"

definition mark_successful :: "string \<Rightarrow> time \<Rightarrow> ('s, 'p) exec_state \<Rightarrow> ('s, 'p) exec_state" where
  "mark_successful i now x =
     store_result i (x\<lparr>xs_result := (xs_result x)\<lparr>dr_success := True, dr_completed_at := now\<rparr>\<rparr>)"

text \<open>Get a provider, run the body, release the provider (the deferred call).\<close>

definition with_provider ::
  "('p, 'i) provider_ops \<Rightarrow> string \<Rightarrow> string \<Rightarrow> string \<Rightarrow> provider_config option \<Rightarrow> string \<Rightarrow>
     ('i \<Rightarrow> ('s, 'p) exec_state \<Rightarrow> ('s, 'p) exec_state \<times> goerror option) \<Rightarrow>
     ('s, 'p) exec_state \<Rightarrow> ('s, 'p) exec_state \<times> goerror option" where
  "with_provider P i name version cfg ty body x =
     (case po_get P i name version cfg ty (xs_providers x) of
        (p, Inl e) \<Rightarrow>
          (x\<lparr>xs_providers := p\<rparr>, Some (WrapError (''failed to get provider '' @ name @ '': '') e ''''))
      | (p, Inr inst) \<Rightarrow>
          (case body inst (x\<lparr>xs_providers := p\<rparr>) of
             (x', r) \<Rightarrow> (x'\<lparr>xs_providers := fst (po_release P i name (xs_providers x'))\<rparr>, r)))"

definition lookup_version :: "(string \<times> string) list \<Rightarrow> string \<Rightarrow> string" where
  "lookup_version versions name = opt_else '''' (map_of versions name)"

definition lookup_config :: "provider_config option \<Rightarrow> string \<Rightarrow> provider_config option" where
  "lookup_config configs name =
     (case configs of
        None \<Rightarrow> None
      | Some cs \<Rightarrow> (case map_of cs name of None \<Rightarrow> None | Some cfg \<Rightarrow> Some [(name, cfg)]))"

section \<open>Ordering resources\<close>

definition resource_map :: "resource list \<Rightarrow> (string \<times> resource) list" where
  "resource_map rs = fold (\<lambda>r. map_put (resource_key r) r) rs []"

definition pick_resources :: "resource list \<Rightarrow> string list \<Rightarrow> resource list" where
  "pick_resources rs ks = List.map_filter (map_of (resource_map rs)) ks"

definition sort_resources_by_dependencies :: "'g resolver \<Rightarrow> resource list \<Rightarrow> (goerror + resource list) option" where
  "sort_resources_by_dependencies rv rs =
     (if rs = [] then Some (Inr rs)
      else (case rv_build rv rs [] of
              Inl e \<Rightarrow> Some (Inl (WrapError ''failed to build dependency graph: '' e ''''))
            | Inr g \<Rightarrow>
                (case rv_order rv g of
                   None \<Rightarrow> None
                 | Some (Inl e) \<Rightarrow> Some (Inl (WrapError ''failed to determine execution order: '' e ''''))
                 | Some (Inr order) \<Rightarrow> Some (Inr (pick_resources rs order)))))"

text \<open>
  A resolver holds one choice of the orders in which its loops over maps go; Go makes the choice anew in every call, so two
  calls are two resolvers.
\<close>

definition sort_resources_for_destruction :: "'g resolver \<Rightarrow> resource list \<Rightarrow> (goerror + resource list) option" where
  "sort_resources_for_destruction rv rs =
     (if rs = [] then Some (Inr rs)
      else (case rv_build rv rs [] of
              Inl e \<Rightarrow> Some (Inl (WrapError ''failed to build dependency graph for destruction: '' e ''''))
            | Inr g \<Rightarrow>
                (case rv_order rv g of
                   None \<Rightarrow> None
                 | Some (Inl e) \<Rightarrow>
                     Some (Inl (WrapError ''failed to determine execution order for destruction: '' e ''''))
                 | Some (Inr order) \<Rightarrow> Some (Inr (pick_resources rs (rev order))))))"

definition analyze_update_dependencies :: "'g resolver \<Rightarrow> resource_change list \<Rightarrow> (goerror + resource_change list) option" where
  "analyze_update_dependencies rv changes =
     (case calculate_execution_order rv changes of
        None \<Rightarrow> None
      | Some (Inl e) \<Rightarrow> Some (Inl (WrapError ''failed to calculate execution order: '' e ''''))
      | Some (Inr cs) \<Rightarrow> Some (Inr cs))"

section \<open>Interpolation\<close>

text \<open>The deployed resources in the nested form the interpolation reads.\<close>

definition split_three :: "char \<Rightarrow> string \<Rightarrow> string list" where
  "split_three d s = (case split_first d s of [a, r] \<Rightarrow> a # split_first d r | ws \<Rightarrow> ws)"

fun resource_value :: "gval \<Rightarrow> gval" where
  "resource_value (GMap m) = GMap m"
| "resource_value v = GMap [(''id'', v)]"

definition put_entry :: "string \<Rightarrow> string \<Rightarrow> gval \<Rightarrow> provider_config \<Rightarrow> provider_config" where
  "put_entry t n v acc = map_put t (map_put n v (nil_map (map_of acc t))) acc"

definition put_data_entry :: "string \<Rightarrow> string \<Rightarrow> gval \<Rightarrow> provider_config \<Rightarrow> provider_config" where
  "put_data_entry t n v acc =
     put_entry ''data'' t
       (GMap (map_put n v (nil_map (as_map (map_of (nil_map (map_of acc ''data'')) t))))) acc"

fun format_deployed :: "gmap \<Rightarrow> provider_config \<Rightarrow> provider_config" where
  "format_deployed [] acc = acc"
| "format_deployed ((key, value) # rest) acc =
     format_deployed rest
       (if has_prefix key ''data.'' then
          (case split_three (CHR ''.'') key of
             [_, t, n] \<Rightarrow> put_data_entry t n (resource_value value) acc
           | _ \<Rightarrow> acc)
        else
          (case parse_resource_key key of
             (t, n) \<Rightarrow> if t = '''' \<or> n = '''' then acc else put_entry t n (resource_value value) acc))"

definition interpolate_properties :: "('s, 'p, 'i, 'g) executor \<Rightarrow> gmap \<Rightarrow> gmap \<Rightarrow> goerror + gmap" where
  "interpolate_properties ex properties deployed =
     (case ex_interpolate ex properties (format_deployed deployed []) of
        Inl e \<Rightarrow> Inl (WrapError ''failed to resolve interpolations: '' e '''')
      | Inr m \<Rightarrow> Inr m)"

section \<open>A regular deployment\<close>

text \<open>The \<^verbatim>\<open>terraform_json\<close> of a request's metadata.\<close>

definition request_terraform_json :: "deployment_request \<Rightarrow> gmap option" where
  "request_terraform_json rq =
     (case req_metadata rq of
        None \<Rightarrow> None
      | Some md \<Rightarrow> as_map (meta_gval (map_of md ''terraform_json'')))"

text \<open>A string in the metadata; a nil map has none.\<close>

definition request_string :: "string \<Rightarrow> deployment_request \<Rightarrow> string option" where
  "request_string key rq = as_string (meta_gval (Option.bind (req_metadata rq) (\<lambda>md. map_of md key)))"

definition request_provider_versions :: "deployment_request \<Rightarrow> (string \<times> string) list" where
  "request_provider_versions rq =
     (case request_terraform_json rq of None \<Rightarrow> [] | Some tf \<Rightarrow> extract_provider_versions tf)"

definition request_provider_configs :: "deployment_request \<Rightarrow> provider_config option" where
  "request_provider_configs rq = map_option provider_configs_of (request_terraform_json rq)"

text \<open>\<^verbatim>\<open>createExecutionContext\<close>: the deployed resources the store knows; an error reads as none.\<close>

definition context_resources :: "('s, 'p, 'i, 'g) executor \<Rightarrow> string \<Rightarrow> 's \<Rightarrow> gmap" where
  "context_resources ex i s =
     (case ex_store ex of
        None \<Rightarrow> []
      | Some ops \<Rightarrow>
          (case load_terraform_state ops i s of
             Inl e \<Rightarrow> []
           | Inr st \<Rightarrow>
               fold (\<lambda>(k, a). map_put k (GMap (nil_map a))) (extract_resources_from_state st) []))"

definition process_data_source ::
  "('s, 'p, 'i, 'g) executor \<Rightarrow> string \<Rightarrow> (string \<times> string) list \<Rightarrow> provider_config option \<Rightarrow> data_source \<Rightarrow>
     ('s, 'p) exec_state \<Rightarrow> ('s, 'p) exec_state \<times> goerror option" where
  "process_data_source ex i versions configs d x =
     (let name = extract_provider_name (ds_type d);
          key = ''data.'' @ ds_type d @ ''.'' @ ds_name d in
      with_provider (ex_providers ex) i name (lookup_version versions name) (lookup_config configs name) (ds_type d)
        (\<lambda>inst x.
           (case interpolate_properties ex (ds_properties d) (xs_deployed x) of
              Inl e \<Rightarrow> (x, Some (WrapError ''failed to interpolate data source properties: '' e ''''))
            | Inr props \<Rightarrow>
                (case po_read (ex_providers ex) inst (ds_type d) props (xs_providers x) of
                   (p, Inl e) \<Rightarrow>
                     (x\<lparr>xs_providers := p\<rparr>, Some (WrapError ''failed to read data source: '' e ''''))
                 | (p, Inr data) \<Rightarrow>
                     ((put_result_output key (GMap (nil_map data)) (x\<lparr>xs_providers := p\<rparr>))
                        \<lparr>xs_deployed := map_put key (GMap (nil_map data)) (xs_deployed x)\<rparr>, None)))) x)"

text \<open>The Terraform state before the resource is processed: nil without a store, empty after an error.\<close>

definition working_state :: "('s, 'p, 'i, 'g) executor \<Rightarrow> string \<Rightarrow> 's \<Rightarrow> tf_state option" where
  "working_state ex i s =
     (case ex_store ex of
        None \<Rightarrow> None
      | Some ops \<Rightarrow>
          (case load_terraform_state ops i s of
             Inl e \<Rightarrow> Some (create_empty_state (ex_now ex))
           | Inr st \<Rightarrow> Some st))"

definition save_attributes ::
  "('s, 'p, 'i, 'g) executor \<Rightarrow> string \<Rightarrow> string \<Rightarrow> string \<Rightarrow> gmap option \<Rightarrow> tf_state option \<Rightarrow>
     ('s, 'p) exec_state \<Rightarrow> ('s, 'p) exec_state" where
  "save_attributes ex i t n attributes tfState x =
     (case (ex_store ex, tfState) of
        (Some ops, Some st) \<Rightarrow>
          x\<lparr>xs_store := fst (save_terraform_state ops i (update_resource_in_state t n attributes st) (xs_store x))\<rparr>
      | _ \<Rightarrow> x)"

definition process_resource ::
  "('s, 'p, 'i, 'g) executor \<Rightarrow> string \<Rightarrow> bool \<Rightarrow> (string \<times> string) list \<Rightarrow> provider_config option \<Rightarrow> resource \<Rightarrow>
     ('s, 'p) exec_state \<Rightarrow> ('s, 'p) exec_state \<times> goerror option" where
  "process_resource ex i dryRun versions configs r x =
     (let name = extract_provider_name (res_type r); key = make_resource_key (res_type r) (res_name r) in
      if dryRun then
        (put_result_resource (res_type r @ ''.'' @ res_name r)
           (GMap [(''status'', GStr ''dry-run''), (''type'', GStr (res_type r))]) x, None)
      else
        with_provider (ex_providers ex) i name (lookup_version versions name) (lookup_config configs name) (res_type r)
          (\<lambda>inst x.
             (case interpolate_properties ex (res_properties r) (xs_deployed x) of
                Inl e \<Rightarrow> (x, Some (WrapError ''failed to interpolate resource properties: '' e ''''))
              | Inr props \<Rightarrow>
                  (let tfState = working_state ex i (xs_store x);
                       existing = Option.bind tfState (existing_attributes (res_type r) (res_name r)) in
                   case (case existing of
                           None \<Rightarrow> po_create (ex_providers ex) inst (res_type r) props (xs_providers x)
                         | Some attrs \<Rightarrow> po_update (ex_providers ex) inst (res_type r) attrs props (xs_providers x)) of
                     (p, Inl e) \<Rightarrow>
                       (x\<lparr>xs_providers := p\<rparr>,
                        Some (WrapError (if existing = None then ''failed to create resource: ''
                                         else ''failed to update resource: '') e ''''))
                   | (p, Inr attrs) \<Rightarrow>
                       (save_attributes ex i (res_type r) (res_name r) attrs tfState
                          ((put_result_resource key (GMap (nil_map attrs)) (x\<lparr>xs_providers := p\<rparr>))
                             \<lparr>xs_deployed := map_put key (GMap (nil_map attrs)) (xs_deployed x)\<rparr>), None)))) x)"

text \<open>A loop over items that fails the execution at the first error, wrapped with the item's label.\<close>

fun process_each ::
  "string \<Rightarrow> ('a \<Rightarrow> string) \<Rightarrow> ('a \<Rightarrow> ('s, 'p) exec_state \<Rightarrow> ('s, 'p) exec_state \<times> goerror option) \<Rightarrow> 'a list \<Rightarrow>
     ('s, 'p) exec_state \<Rightarrow> ('s, 'p) exec_state \<times> goerror option" where
  "process_each i label f [] x = (x, None)"
| "process_each i label f (a # as) x =
     (case f a x of
        (x', None) \<Rightarrow> process_each i label f as x'
      | (x', Some e) \<Rightarrow> fail_with i (WrapError (label a) e '''') x')"

definition data_source_label :: "data_source \<Rightarrow> string" where
  "data_source_label d = ''data source '' @ ds_type d @ ''.'' @ ds_name d @ '' failed: ''"

definition resource_label :: "resource \<Rightarrow> string" where
  "resource_label r = ''resource '' @ res_type r @ ''.'' @ res_name r @ '' failed: ''"

text \<open>\<open>None\<close> only if the resolver does not return.\<close>

definition execute_regular_deployment ::
  "('s, 'p, 'i, 'g) executor \<Rightarrow> string \<Rightarrow> deployment_request \<Rightarrow> ('s, 'p) exec_state \<Rightarrow>
     (('s, 'p) exec_state \<times> goerror option) option" where
  "execute_regular_deployment ex i rq x0 =
     (let versions = request_provider_versions rq;
          configs = request_provider_configs rq;
          x = x0\<lparr>xs_result := new_result i, xs_deployed := context_resources ex i (xs_store x0)\<rparr> in
      case process_each i data_source_label (process_data_source ex i versions configs) (req_data_sources rq) x of
        (x1, Some e) \<Rightarrow> Some (x1, Some e)
      | (x1, None) \<Rightarrow>
          (case sort_resources_by_dependencies (ex_resolver ex) (req_resources rq) of
             None \<Rightarrow> None
           | Some (Inl e) \<Rightarrow>
               Some (fail_with i (WrapError ''failed to sort resources by dependencies: '' e '''') x1)
           | Some (Inr rs) \<Rightarrow>
               (case process_each i resource_label
                       (process_resource ex i (opt_dry_run (req_options rq)) versions configs) rs x1 of
                  (x2, Some e) \<Rightarrow> Some (x2, Some e)
                | (x2, None) \<Rightarrow> Some (mark_successful i (ex_now ex) x2, None))))"

section \<open>Updates\<close>

definition dry_run_entry :: "string \<Rightarrow> gval" where
  "dry_run_entry status = GMap [(''status'', GStr status)]"

text \<open>The plan's provider for a resource type, as \<^verbatim>\<open>processCreate\<close>, \<^verbatim>\<open>processDelete\<close> and \<^verbatim>\<open>getProviderForUpdate\<close> get it.\<close>

definition with_plan_provider ::
  "('s, 'p, 'i, 'g) executor \<Rightarrow> update_plan \<Rightarrow> string \<Rightarrow>
     ('i \<Rightarrow> ('s, 'p) exec_state \<Rightarrow> ('s, 'p) exec_state \<times> goerror option) \<Rightarrow>
     ('s, 'p) exec_state \<Rightarrow> ('s, 'p) exec_state \<times> goerror option" where
  "with_plan_provider ex plan ty =
     (let name = extract_provider_name ty in
      with_provider (ex_providers ex) (up_deployment_id plan) name (lookup_version (up_provider_versions plan) name)
        (lookup_config (up_provider_configs plan) name) ty)"

text \<open>Apply a plan and continue with the new attributes.\<close>

definition apply_plan ::
  "('s, 'p, 'i, 'g) executor \<Rightarrow> 'i \<Rightarrow> string \<Rightarrow> resource_plan \<Rightarrow> string \<Rightarrow>
     (gmap option \<Rightarrow> ('s, 'p) exec_state \<Rightarrow> ('s, 'p) exec_state) \<Rightarrow>
     ('s, 'p) exec_state \<Rightarrow> ('s, 'p) exec_state \<times> goerror option" where
  "apply_plan ex inst ty rp msg k x =
     (case po_apply (ex_providers ex) inst ty rp (xs_providers x) of
        (p, Inl e) \<Rightarrow> (x\<lparr>xs_providers := p\<rparr>, Some (WrapError msg e ''''))
      | (p, Inr attrs) \<Rightarrow> (k attrs (x\<lparr>xs_providers := p\<rparr>), None))"

definition process_create ::
  "('s, 'p, 'i, 'g) executor \<Rightarrow> bool \<Rightarrow> update_plan \<Rightarrow> resource_change \<Rightarrow>
     ('s, 'p) exec_state \<Rightarrow> ('s, 'p) exec_state \<times> goerror option" where
  "process_create ex dryRun plan c x =
     (if dryRun then (put_result_resource (rc_key c) (dry_run_entry ''dry-run-create'') x, None)
      else
        (let ty = fst (parse_resource_key (rc_key c)) in
         with_plan_provider ex plan ty
           (\<lambda>inst. apply_plan ex inst ty
              \<lparr>rp_resource_type = ty, rp_action = PlanActionCreate, rp_current_state = None,
               rp_proposed_state = rc_after c, rp_planned_state = rc_after c, rp_requires_replace = []\<rparr>
              ''failed to apply resource: ''
              (\<lambda>attrs. put_result_resource (rc_key c) (GMap (nil_map attrs)))) x))"

definition update_state_store_after_update ::
  "('s, 'p, 'i, 'g) executor \<Rightarrow> string \<Rightarrow> gmap option \<Rightarrow> update_plan \<Rightarrow> ('s, 'p) exec_state \<Rightarrow> ('s, 'p) exec_state" where
  "update_state_store_after_update ex key attrs plan x =
     (if up_deployment_id plan = '''' then x
      else (case parse_resource_key key of
              (t, n) \<Rightarrow>
                save_attributes ex (up_deployment_id plan) t n attrs
                  (working_state ex (up_deployment_id plan) (xs_store x)) x))"

definition update_resource_plan :: "string \<Rightarrow> resource_change \<Rightarrow> resource_plan" where
  "update_resource_plan ty c =
     (let proposed = (case rc_proposed_state c of None \<Rightarrow> rc_after c | Some p \<Rightarrow> Some p) in
      \<lparr>rp_resource_type = ty, rp_action = convert_change_action (rc_action c), rp_current_state = rc_before c,
       rp_proposed_state = proposed, rp_planned_state = proposed, rp_requires_replace = []\<rparr>)"

definition process_update ::
  "('s, 'p, 'i, 'g) executor \<Rightarrow> bool \<Rightarrow> update_plan \<Rightarrow> resource_change \<Rightarrow>
     ('s, 'p) exec_state \<Rightarrow> ('s, 'p) exec_state \<times> goerror option" where
  "process_update ex dryRun plan c x =
     (if dryRun then
        (put_result_resource (rc_key c)
           (dry_run_entry (''dry-run-'' @ (if rc_action c = ActionReplace then ''replacing'' else ''updating''))) x, None)
      else
        (let ty = fst (parse_resource_key (rc_key c)) in
         with_plan_provider ex plan ty
           (\<lambda>inst. apply_plan ex inst ty (update_resource_plan ty c) ''failed to apply resource change: ''
              (\<lambda>attrs x. update_state_store_after_update ex (rc_key c) attrs plan
                 (put_result_resource (rc_key c) (GMap (nil_map attrs)) x))) x))"

definition process_delete ::
  "('s, 'p, 'i, 'g) executor \<Rightarrow> update_plan \<Rightarrow> resource_change \<Rightarrow>
     ('s, 'p) exec_state \<Rightarrow> ('s, 'p) exec_state \<times> goerror option" where
  "process_delete ex plan c x =
     (let ty = fst (parse_resource_key (rc_key c)) in
      with_plan_provider ex plan ty
        (\<lambda>inst. apply_plan ex inst ty
           \<lparr>rp_resource_type = ty, rp_action = PlanActionDelete, rp_current_state = rc_before c,
            rp_proposed_state = None, rp_planned_state = None, rp_requires_replace = []\<rparr>
           ''failed to delete resource: ''
           (\<lambda>_. put_result_resource (rc_key c) (GMap [(''status'', GStr ''deleted'')]))) x)"

fun process_change ::
  "('s, 'p, 'i, 'g) executor \<Rightarrow> bool \<Rightarrow> update_plan \<Rightarrow> change_action \<Rightarrow> resource_change \<Rightarrow>
     ('s, 'p) exec_state \<Rightarrow> ('s, 'p) exec_state \<times> goerror option" where
  "process_change ex dryRun plan ActionDelete c x = process_delete ex plan c x"
| "process_change ex dryRun plan ActionUpdate c x = process_update ex dryRun plan c x"
| "process_change ex dryRun plan ActionReplace c x = process_update ex dryRun plan c x"
| "process_change ex dryRun plan ActionCreate c x = process_create ex dryRun plan c x"
| "process_change ex dryRun plan ActionNoOp c x = (x, None)"
| "process_change ex dryRun plan (ActionOther _) c x = (x, None)"

text \<open>The label \<^verbatim>\<open>processSingleChange\<close> wraps a change's error with.\<close>

fun change_label :: "change_action \<Rightarrow> string \<Rightarrow> string" where
  "change_label ActionDelete key = ''failed to delete '' @ key @ '': ''"
| "change_label ActionCreate key = ''failed to create '' @ key @ '': ''"
| "change_label _ key = ''failed to update '' @ key @ '': ''"

definition process_update_changes ::
  "('s, 'p, 'i, 'g) executor \<Rightarrow> string \<Rightarrow> bool \<Rightarrow> update_plan \<Rightarrow> resource_change list \<Rightarrow>
     ('s, 'p) exec_state \<Rightarrow> ('s, 'p) exec_state \<times> goerror option" where
  "process_update_changes ex i dryRun plan cs x =
     process_each i (\<lambda>c. change_label (rc_action c) (rc_key c))
       (\<lambda>c. process_change ex dryRun plan (rc_action c) c) cs x"

text \<open>The result of the update is published a second time, as the original deployment's result.\<close>

definition update_original_deployment ::
  "('s, 'p, 'i, 'g) executor \<Rightarrow> deployment_request \<Rightarrow> ('s, 'p) exec_state \<Rightarrow> ('s, 'p) exec_state" where
  "update_original_deployment ex rq x =
     (case request_string ''deployment_id'' rq of
        None \<Rightarrow> x
      | Some originalID \<Rightarrow>
          (if originalID = '''' then x
           else publish (ResultReady originalID
                  \<lparr>dr_deployment_id = originalID, dr_success = True, dr_error = None,
                   dr_resources = dr_resources (xs_result x), dr_outputs = dr_outputs (xs_result x),
                   dr_completed_at = ex_now ex\<rparr>) x))"

definition execute_update ::
  "('s, 'p, 'i, 'g) executor \<Rightarrow> queued_deployment \<Rightarrow> deployment_request \<Rightarrow> ('s, 'p) exec_state \<Rightarrow>
     (('s, 'p) exec_state \<times> goerror option) option" where
  "execute_update ex d rq x0 =
     (case extract_update_plan (ex_decode ex) (Some d) of
        Inl e \<Rightarrow> Some (x0, Some (WrapError ''failed to extract update plan: '' e ''''))
      | Inr plan \<Rightarrow>
          (let x = x0\<lparr>xs_result := new_result (qd_id d)\<rparr> in
           case (if up_execution_order plan \<noteq> [] then Some (Inr (up_execution_order plan))
                 else analyze_update_dependencies (ex_resolver ex) (up_changes plan)) of
             None \<Rightarrow> None
           | Some (Inl e) \<Rightarrow>
               Some (fail_with (qd_id d) (WrapError ''failed to analyze update dependencies: '' e '''') x)
           | Some (Inr cs) \<Rightarrow>
               (case process_update_changes ex (qd_id d) (opt_dry_run (req_options rq)) plan cs x of
                  (x1, Some e) \<Rightarrow> Some (x1, Some e)
                | (x1, None) \<Rightarrow>
                    Some (update_original_deployment ex rq (mark_successful (qd_id d) (ex_now ex) x1), None))))"

section \<open>Destruction\<close>

text \<open>\<^verbatim>\<open>destroyResource\<close>: a resource without state counts as destroyed.\<close>

definition destroy_resource ::
  "('s, 'p, 'i, 'g) executor \<Rightarrow> string \<Rightarrow> (string \<times> string) list \<Rightarrow> resource \<Rightarrow>
     ('s, 'p) exec_state \<Rightarrow> ('s, 'p) exec_state \<times> goerror option" where
  "destroy_resource ex original versions r x =
     (let name = extract_provider_name (res_type r);
          key = make_resource_key (res_type r) (res_name r);
          destroyed = put_result_resource key (GMap [(''status'', GStr ''destroyed'')]) in
      with_provider (ex_providers ex) original name (lookup_version versions name) None (res_type r)
        (\<lambda>inst x.
           (case (case ex_store ex of
                    None \<Rightarrow> None
                  | Some ops \<Rightarrow>
                      (case load_terraform_state ops original (xs_store x) of
                         Inl e \<Rightarrow> None
                       | Inr st \<Rightarrow>
                           (case existing_attributes (res_type r) (res_name r) st of
                              Some (Some attrs) \<Rightarrow> Some (ops, st, attrs)
                            | _ \<Rightarrow> None))) of
              None \<Rightarrow> (destroyed x, None)
            | Some (ops, st, attrs) \<Rightarrow>
                (case po_delete (ex_providers ex) inst (res_type r) attrs (xs_providers x) of
                   (p, Some e) \<Rightarrow> (x\<lparr>xs_providers := p\<rparr>, Some (WrapError ''failed to delete resource: '' e ''''))
                 | (p, None) \<Rightarrow>
                     (destroyed (x\<lparr>xs_providers := p,
                        xs_store := fst (save_terraform_state ops original
                          (fst (remove_resource_from_state (res_type r) (res_name r) st)) (xs_store x))\<rparr>), None)))) x)"

text \<open>The loop over the resources: a failure is noted in the result, and the loop goes on.\<close>

fun destroy_each ::
  "('s, 'p, 'i, 'g) executor \<Rightarrow> string \<Rightarrow> (string \<times> string) list \<Rightarrow> resource list \<Rightarrow>
     ('s, 'p) exec_state \<Rightarrow> ('s, 'p) exec_state" where
  "destroy_each ex original versions [] x = x"
| "destroy_each ex original versions (r # rs) x =
     (case destroy_resource ex original versions r x of
        (x', None) \<Rightarrow> destroy_each ex original versions rs x'
      | (x', Some e) \<Rightarrow>
          destroy_each ex original versions rs
            (put_result_resource (make_resource_key (res_type r) (res_name r))
               (GMap [(''status'', GStr ''failed''), (''error'', GStr (error_message e))])
               (x'\<lparr>xs_result := (xs_result x')\<lparr>dr_error :=
                   Some (WrapError (''failed to destroy resource '' @ res_type r @ ''.'' @ res_name r @ '': '') e '''')\<rparr>\<rparr>)))"

definition execute_destroy ::
  "('s, 'p, 'i, 'g) executor \<Rightarrow> queued_deployment \<Rightarrow> deployment_request \<Rightarrow> ('s, 'p) exec_state \<Rightarrow>
     (('s, 'p) exec_state \<times> goerror option) option" where
  "execute_destroy ex d rq x0 =
     (case request_string ''original_deployment_id'' rq of
        None \<Rightarrow>
          Some (x0, Some (ErrorString ''original_deployment_id not found in destroy deployment metadata''))
      | Some original \<Rightarrow>
          (let x = x0\<lparr>xs_result := new_result (qd_id d)\<rparr> in
           case sort_resources_for_destruction (ex_resolver ex) (req_resources rq) of
             None \<Rightarrow> None
           | Some (Inl e) \<Rightarrow>
               Some (fail_with (qd_id d) (WrapError ''failed to sort resources for destruction: '' e '''') x)
           | Some (Inr rs) \<Rightarrow>
               Some (publish (StatusChanged original StatusDestroyed)
                       (mark_successful (qd_id d) (ex_now ex)
                          (destroy_each ex original (request_provider_versions rq) rs x)), None)))"

section \<open>Execution\<close>

definition execute ::
  "('s, 'p, 'i, 'g) executor \<Rightarrow> queued_deployment \<Rightarrow> ('s, 'p) exec_state \<Rightarrow>
     (('s, 'p) exec_state \<times> goerror option) option" where
  "execute ex d x =
     (case qd_request d of
        None \<Rightarrow> Some (x, Some (ErrorString ''deployment request is nil''))
      | Some rq \<Rightarrow>
          (let op = request_string ''operation'' rq in
           if op = Some ''update'' then execute_update ex d rq x
           else if op = Some ''destroy'' then execute_destroy ex d rq x
           else execute_regular_deployment ex (qd_id d) rq x))"

section \<open>What a step leaves alone\<close>

text \<open>
  \<open>held\<close> measures the provider instances in use: getting one raises it by \<open>u\<close>, releasing one lowers
  it by \<open>u\<close>, and nothing else changes it.
\<close>

definition leases :: "('p, 'i) provider_ops \<Rightarrow> ('p \<Rightarrow> int) \<Rightarrow> int \<Rightarrow> bool" where
  "leases P held u \<longleftrightarrow>
     (\<forall>i n v c t p p' r. po_get P i n v c t p = (p', r) \<longrightarrow>
        held p' = (case r of Inl _ \<Rightarrow> held p | Inr _ \<Rightarrow> held p + u)) \<and>
     (\<forall>i n p. held (fst (po_release P i n p)) = held p - u) \<and>
     (\<forall>j t m p. held (fst (po_create P j t m p)) = held p) \<and>
     (\<forall>j t a m p. held (fst (po_update P j t a m p)) = held p) \<and>
     (\<forall>j t m p. held (fst (po_delete P j t m p)) = held p) \<and>
     (\<forall>j t rp p. held (fst (po_apply P j t rp p)) = held p) \<and>
     (\<forall>j t m p. held (fst (po_read P j t m p)) = held p) \<and>
     (\<forall>j t a m p. held (fst (po_plan P j t a m p)) = held p)"

lemma leases_zero: "leases P (\<lambda>_. 0) 0"
  by (simp add: leases_def split: sum.split)

definition undisturbed :: "('p \<Rightarrow> int) \<Rightarrow> ('s, 'p) exec_state \<Rightarrow> ('s, 'p) exec_state \<Rightarrow> bool" where
  "undisturbed held x x' \<longleftrightarrow>
     xs_events x' = xs_events x \<and> dr_success (xs_result x') = dr_success (xs_result x) \<and>
     dr_error (xs_result x') = dr_error (xs_result x) \<and>
     dr_deployment_id (xs_result x') = dr_deployment_id (xs_result x) \<and>
     held (xs_providers x') = held (xs_providers x)"

lemma undisturbed_refl [simp]: "undisturbed held x x"
  by (simp add: undisturbed_def)

lemma undisturbed_trans: "undisturbed held x y \<Longrightarrow> undisturbed held y z \<Longrightarrow> undisturbed held x z"
  by (simp add: undisturbed_def)

lemma undisturbed_put [simp]:
  "undisturbed held x (put_result_resource k v y) = undisturbed held x y"
  "undisturbed held x (put_result_output k v y) = undisturbed held x y"
  "undisturbed held x (xs_deployed_update f y) = undisturbed held x y"
  "undisturbed held x (xs_store_update h y) = undisturbed held x y"
  by (simp_all add: undisturbed_def put_result_resource_def put_result_output_def)

lemma undisturbed_save [simp]: "undisturbed held x (save_attributes ex i t n a st y) = undisturbed held x y"
  by (simp add: save_attributes_def split: option.split)

lemma undisturbed_providers:
  "held p = held (xs_providers y) \<Longrightarrow> undisturbed held x (y\<lparr>xs_providers := p\<rparr>) = undisturbed held x y"
  by (simp add: undisturbed_def)

lemma leases_ops:
  assumes "leases P held u"
  shows "po_get P i n v c t p = (p', Inl e) \<Longrightarrow> held p' = held p"
    and "po_get P i n v c t p = (p', Inr j) \<Longrightarrow> held p' = held p + u"
    and "held (fst (po_release P i n p)) = held p - u"
    and "po_create P j t m p = (p', r1) \<Longrightarrow> held p' = held p"
    and "po_update P j t a m p = (p', r2) \<Longrightarrow> held p' = held p"
    and "po_delete P j t m p = (p', r3) \<Longrightarrow> held p' = held p"
    and "po_apply P j t rp p = (p', r4) \<Longrightarrow> held p' = held p"
    and "po_read P j t m p = (p', r5) \<Longrightarrow> held p' = held p"
proof -
  have L: "\<And>i n v c t p p' r. po_get P i n v c t p = (p', r) \<Longrightarrow>
      held p' = (case r of Inl _ \<Rightarrow> held p | Inr _ \<Rightarrow> held p + u)"
    "\<And>i n p. held (fst (po_release P i n p)) = held p - u"
    "\<And>j t m p. held (fst (po_create P j t m p)) = held p"
    "\<And>j t a m p. held (fst (po_update P j t a m p)) = held p"
    "\<And>j t m p. held (fst (po_delete P j t m p)) = held p"
    "\<And>j t rp p. held (fst (po_apply P j t rp p)) = held p"
    "\<And>j t m p. held (fst (po_read P j t m p)) = held p"
    using assms by (simp_all add: leases_def)
  show "po_get P i n v c t p = (p', Inl e) \<Longrightarrow> held p' = held p"
    "po_get P i n v c t p = (p', Inr j) \<Longrightarrow> held p' = held p + u"
    using L(1) by force+
  show "held (fst (po_release P i n p)) = held p - u" by (rule L(2))
  show "po_create P j t m p = (p', r1) \<Longrightarrow> held p' = held p" using L(3) [of j t m p] by simp
  show "po_update P j t a m p = (p', r2) \<Longrightarrow> held p' = held p" using L(4) [of j t a m p] by simp
  show "po_delete P j t m p = (p', r3) \<Longrightarrow> held p' = held p" using L(5) [of j t m p] by simp
  show "po_apply P j t rp p = (p', r4) \<Longrightarrow> held p' = held p" using L(6) [of j t rp p] by simp
  show "po_read P j t m p = (p', r5) \<Longrightarrow> held p' = held p" using L(7) [of j t m p] by simp
qed

lemma with_provider_undisturbed:
  assumes "leases P held u" and "\<And>inst y. undisturbed held y (fst (body inst y))"
  shows "undisturbed held x (fst (with_provider P i n v c t body x))"
proof (cases "po_get P i n v c t (xs_providers x)")
  case (Pair p r)
  show ?thesis
  proof (cases r)
    case (Inl e)
    then show ?thesis using Pair leases_ops(1) [OF assms(1)] by (simp add: with_provider_def undisturbed_def)
  next
    case (Inr inst)
    obtain x' r' where b: "body inst (x\<lparr>xs_providers := p\<rparr>) = (x', r')" by fastforce
    have "undisturbed held (x\<lparr>xs_providers := p\<rparr>) x'" using assms(2) [of "x\<lparr>xs_providers := p\<rparr>" inst] b by simp
    then show ?thesis
      using Pair Inr b leases_ops(2) [OF assms(1)] leases_ops(3) [OF assms(1), of i n "xs_providers x'"]
      by (simp add: with_provider_def undisturbed_def)
  qed
qed

lemma process_data_source_undisturbed:
  assumes "leases (ex_providers ex) held u"
  shows "undisturbed held x (fst (process_data_source ex i vs cs d x))"
  unfolding process_data_source_def Let_def
  by (rule with_provider_undisturbed [OF assms])
     (auto simp: undisturbed_providers leases_ops(8) [OF assms] split: sum.split prod.split)

lemma process_resource_undisturbed:
  assumes "leases (ex_providers ex) held u"
  shows "undisturbed held x (fst (process_resource ex i dry vs cs r x))"
proof (cases dry)
  case False
  show ?thesis
    unfolding process_resource_def Let_def using False
    by (simp, intro with_provider_undisturbed [OF assms])
       (auto simp: undisturbed_providers leases_ops(4,5) [OF assms] split: sum.split prod.split option.split)
qed (simp add: process_resource_def Let_def)

lemma apply_plan_undisturbed:
  assumes "leases (ex_providers ex) held u" and "\<And>a y. undisturbed held x (k a y) = undisturbed held x y"
  shows "undisturbed held x (fst (apply_plan ex inst ty rp msg k x))"
  unfolding apply_plan_def
  by (auto simp: assms(2) undisturbed_providers leases_ops(7) [OF assms(1)] split: sum.split prod.split)

lemma undisturbed_store_after_update [simp]:
  "undisturbed held x (update_state_store_after_update ex k a plan y) = undisturbed held x y"
  by (simp add: update_state_store_after_update_def split: prod.split)

lemma process_change_undisturbed:
  assumes "leases (ex_providers ex) held u"
  shows "undisturbed held x (fst (process_change ex dry plan a c x))"
proof -
  have apply': "undisturbed held x (fst (with_plan_provider ex plan ty
      (\<lambda>inst. apply_plan ex inst ty (rp inst) msg k) x))"
    if "\<And>a x y. undisturbed held x (k a y) = undisturbed held x y" for x ty rp msg k
    unfolding with_plan_provider_def Let_def
    by (intro with_provider_undisturbed [OF assms] apply_plan_undisturbed [OF assms] that)
  show ?thesis
    by (cases a) (auto simp: process_create_def process_update_def process_delete_def Let_def intro!: apply')
qed

lemma destroy_resource_undisturbed:
  assumes "leases (ex_providers ex) held u"
  shows "undisturbed held x (fst (destroy_resource ex i vs r x))"
  unfolding destroy_resource_def Let_def
  by (rule with_provider_undisturbed [OF assms])
     (auto simp: undisturbed_providers leases_ops(6) [OF assms] split: sum.split prod.split option.split)

section \<open>Sorting\<close>

lemma map_filter_append: "List.map_filter f (xs @ ys) = List.map_filter f xs @ List.map_filter f ys"
  by (simp add: List.map_filter_def)

lemma map_filter_rev: "List.map_filter f (rev xs) = rev (List.map_filter f xs)"
  by (simp add: List.map_filter_def rev_map rev_filter)

lemma pick_resources_simps:
  "pick_resources rs [] = []"
  "pick_resources rs (k # ks) =
     (case map_of (resource_map rs) k of None \<Rightarrow> pick_resources rs ks | Some r \<Rightarrow> r # pick_resources rs ks)"
  by (simp_all add: pick_resources_def List.map_filter_def split: option.split)

lemma pick_resources_spec:
  assumes keys: "distinct (map resource_key rs)"
  shows "set (pick_resources rs ks) = {r \<in> set rs. resource_key r \<in> set ks}"
    and "distinct ks \<Longrightarrow> distinct (pick_resources rs ks)"
    and "a \<in> set rs \<Longrightarrow> b \<in> set rs \<Longrightarrow> before ks (resource_key a) (resource_key b) \<Longrightarrow>
           before (pick_resources rs ks) a b"
proof -
  have found: "map_of (resource_map rs) k = Some r \<longleftrightarrow> r \<in> set rs \<and> resource_key r = k" for k r
    using map_of_keyed [OF keys] by (simp add: resource_map_def)
  have set: "set (pick_resources rs ks) = {r \<in> set rs. resource_key r \<in> set ks}" for ks
  proof -
    have "r \<in> set (pick_resources rs ks) \<longleftrightarrow> (\<exists>k \<in> set ks. map_of (resource_map rs) k = Some r)" for r
      by (induction ks) (auto simp: pick_resources_simps split: option.split)
    then show ?thesis using found by auto
  qed
  then show "set (pick_resources rs ks) = {r \<in> set rs. resource_key r \<in> set ks}" .
  show "distinct (pick_resources rs ks)" if "distinct ks"
    using that
  proof (induction ks)
    case (Cons k ks)
    have "map_of (resource_map rs) k = Some r \<Longrightarrow> resource_key r = k" for r using found [of k r] by simp
    with Cons show ?case
      by (cases "map_of (resource_map rs) k") (auto simp: pick_resources_simps set)
  qed (simp add: pick_resources_simps)
  show "before (pick_resources rs ks) a b"
    if "a \<in> set rs" "b \<in> set rs" "before ks (resource_key a) (resource_key b)"
    using that(3)
  proof (induction ks)
    case (Cons k ks)
    have a: "map_of (resource_map rs) (resource_key a) = Some a" using found that(1) by simp
    show ?case
    proof (cases "k = resource_key a \<and> resource_key b \<in> set ks")
      case True
      then show ?thesis using a set [of ks] that(2) by (simp add: pick_resources_simps)
    next
      case False
      then have "before ks (resource_key a) (resource_key b)" using Cons.prems by auto
      then show ?thesis using Cons.IH by (auto simp: pick_resources_simps split: option.split)
    qed
  qed simp
qed

text \<open>The dependencies of one resource, by key.\<close>

definition resource_dependencies :: "resource \<Rightarrow> string list" where
  "resource_dependencies r = extract_dependencies (res_properties r)"

definition cyclic_resources :: "resource list \<Rightarrow> bool" where
  "cyclic_resources rs \<longleftrightarrow>
     (\<exists>m. (m, m) \<in> {(resource_key r, d) | r d. r \<in> set rs \<and> d \<in> set (resource_dependencies r)}\<^sup>+)"

context dependency_resolver begin

lemma resource_graph:
  assumes "distinct (map resource_key rs)"
  obtains g where "rv_build rv rs [] = Inr g" and "keys g = resource_key ` set rs"
    and "\<And>r. r \<in> set rs \<Longrightarrow> deps g (resource_key r) = resource_dependencies r"
    and "cyclic_from (keys g) (deps g) \<longleftrightarrow> cyclic_resources rs"
proof -
  obtain g where g: "rv_build rv rs [] = Inr g" "keys g = resource_key ` set rs"
    "\<forall>r \<in> set rs. deps g (resource_key r) = resource_dependencies r" "\<forall>k. k \<notin> keys g \<longrightarrow> deps g k = []"
    using build_graph [OF assms] by (auto simp: resource_dependencies_def)
  have rel: "dep_rel (deps g) = {(resource_key r, d) | r d. r \<in> set rs \<and> d \<in> set (resource_dependencies r)}"
  proof -
    have "d \<in> set (deps g n) \<longleftrightarrow> (\<exists>r \<in> set rs. n = resource_key r \<and> d \<in> set (resource_dependencies r))" for n d
      using g by (cases "n \<in> keys g") auto
    then show ?thesis by (auto simp: dep_rel_def)
  qed
  have "m \<in> keys g" if "(m, m) \<in> (dep_rel (deps g))\<^sup>+" for m
    using tranclD [OF that] unfolding rel g(2) by auto
  then have "cyclic_from (keys g) (deps g) \<longleftrightarrow> cyclic_resources rs"
    by (auto simp: cyclic_from_def cyclic_resources_def rel [symmetric])
  then show thesis using that g by blast
qed

lemma sorted_resources:
  assumes "distinct (map resource_key rs)" and "\<not> cyclic_resources rs"
  obtains out where "sort_resources_by_dependencies rv rs = Some (Inr out)" and "mset out = mset rs"
    and "sort_resources_for_destruction rv rs = Some (Inr (rev out))"
    and "\<And>a b. a \<in> set rs \<Longrightarrow> b \<in> set rs \<Longrightarrow> resource_key b \<in> set (resource_dependencies a) \<Longrightarrow> before out b a"
proof (cases "rs = []")
  case True
  then show thesis
    by (intro that) (simp_all add: sort_resources_by_dependencies_def sort_resources_for_destruction_def)
next
  case False
  obtain g where g: "rv_build rv rs [] = Inr g" "keys g = resource_key ` set rs"
    "\<And>r. r \<in> set rs \<Longrightarrow> deps g (resource_key r) = resource_dependencies r"
    "cyclic_from (keys g) (deps g) \<longleftrightarrow> cyclic_resources rs"
    using resource_graph [OF assms(1)] by metis
  obtain xs where xs: "rv_order rv g = Some (Inr xs)" "distinct xs" "keys g \<subseteq> set xs" "closed_order (deps g) xs"
    by (rule order_acyclic [of g]) (use g(4) assms(2) in auto)
  note pick = pick_resources_spec [OF assms(1)]
  have inxs: "r \<in> set rs \<Longrightarrow> resource_key r \<in> set xs" for r using g(2) xs(3) by auto
  have "set (pick_resources rs xs) = set rs" using inxs by (auto simp: pick(1))
  moreover have "distinct rs" using assms(1) by (simp add: distinct_map)
  ultimately have perm: "mset (pick_resources rs xs) = mset rs"
    using pick(2) [OF xs(2)] set_eq_iff_mset_eq_distinct by blast
  have before: "before (pick_resources rs xs) b a"
    if "a \<in> set rs" "b \<in> set rs" "resource_key b \<in> set (resource_dependencies a)" for a b
    using pick(3) [OF that(2,1)] closed_order_before [OF xs(4) inxs [OF that(1)]] g(3) [OF that(1)] that(3) by simp
  have "pick_resources rs (rev xs) = rev (pick_resources rs xs)"
    by (simp add: pick_resources_def map_filter_rev)
  then show thesis
    using False g(1) xs(1) perm before
    by (intro that) (simp_all add: sort_resources_by_dependencies_def sort_resources_for_destruction_def)
qed

lemma sort_ends:
  "sort_resources_by_dependencies rv rs \<noteq> None" "sort_resources_for_destruction rv rs \<noteq> None"
  "analyze_update_dependencies rv cs \<noteq> None"
proof -
  have v: "(rv_validate rv g = None) = False" "(rv_order rv g = None) = False" for g
    using validate_cycles [of g] order_spec [of g] by auto
  show "sort_resources_by_dependencies rv rs \<noteq> None" "sort_resources_for_destruction rv rs \<noteq> None"
    by (auto simp: v sort_resources_by_dependencies_def sort_resources_for_destruction_def
        split: sum.split option.split)
  show "analyze_update_dependencies rv cs \<noteq> None"
    by (auto simp: v analyze_update_dependencies_def calculate_execution_order_def Let_def
        split: sum.split option.split)
qed

lemma execute_ends:
  assumes "ex_resolver ex = rv"
  shows "execute ex d x \<noteq> None"
proof -
  have s: "(sort_resources_by_dependencies rv rs = None) = False" "(sort_resources_for_destruction rv rs = None) = False"
    "(analyze_update_dependencies rv cs = None) = False" for rs cs
    using sort_ends by auto
  have "execute_regular_deployment ex i rq x \<noteq> None" for i rq
    by (simp add: execute_regular_deployment_def Let_def assms s split: option.split sum.split prod.split)
  moreover have "execute_update ex d rq x \<noteq> None" for rq
    by (simp add: execute_update_def Let_def assms s split: option.split sum.split prod.split)
  moreover have "execute_destroy ex d rq x \<noteq> None" for rq
    by (simp add: execute_destroy_def Let_def assms s split: option.split sum.split prod.split)
  ultimately show ?thesis by (simp add: execute_def Let_def split: option.split)
qed

end

end
