(* ===== verification/Embedded_Queue.thy ===== *)
theory Embedded_Queue
  imports Lattiam_Types
begin

text \<open>
  The in-memory deployment queue of \<^verbatim>\<open>internal/infra/embedded/queue.go\<close>, a buffered Go
  channel with a map of cancel functions and metrics, and the contract of a deployment
  queue as the locale \<open>deployment_queue\<close>. A cancel function is the number of its context;
  \<open>eq_canceled\<close> holds the contexts that have been canceled. The lock is not held over the
  channel operations, so \<^verbatim>\<open>Enqueue\<close> is three atomic phases; \<open>enqueue\<close> is their composition
  without interference. When several cases of a \<^verbatim>\<open>select\<close> are ready Go picks one; the
  argument \<open>pick\<close> is that choice.
\<close>

section \<open>State and operations\<close>

record emb_queue =
  eq_channel :: "queued_deployment list"
  eq_capacity :: nat
  eq_cancel_map :: "(string \<times> nat) list"
  eq_next_ctx :: nat
  eq_canceled :: "nat list"
  eq_closed :: bool
  eq_total_enqueued :: int
  eq_total_dequeued :: int
  eq_oldest :: time
  eq_total_wait :: duration

definition new_queue :: "int \<Rightarrow> emb_queue" where
  "new_queue capacity =
     \<lparr>eq_channel = [], eq_capacity = (if capacity \<le> 0 then 100 else nat capacity), eq_cancel_map = [],
      eq_next_ctx = 0, eq_canceled = [], eq_closed = False, eq_total_enqueued = 0,
      eq_total_dequeued = 0, eq_oldest = time_zero, eq_total_wait = 0\<rparr>"

text \<open>First phase, under the lock: the checks and the context of the deployment.\<close>

definition enqueue_begin ::
  "ctx_err \<Rightarrow> queued_deployment option \<Rightarrow> emb_queue \<Rightarrow> emb_queue \<times> (goerror + nat)" where
  "enqueue_begin ctx deployment q =
     (case deployment of
        None \<Rightarrow> (q, Inl (ErrorString ''deployment is nil''))
      | Some d \<Rightarrow>
          (if qd_id d = '''' then (q, Inl (ErrorString ''deployment ID is empty''))
           else if eq_closed q then (q, Inl (ErrorString ''queue is closed''))
           else (case ctx of
                   Some e \<Rightarrow> (q, Inl (WrapError ''enqueue canceled: '' e ''''))
                 | None \<Rightarrow>
                     (q\<lparr>eq_cancel_map := map_put (qd_id d) (eq_next_ctx q) (eq_cancel_map q),
                        eq_next_ctx := Suc (eq_next_ctx q)\<rparr>,
                      Inr (eq_next_ctx q)))))"

text \<open>\<^verbatim>\<open>deployCtx.Err()\<close>: the parent's error, or canceled by its cancel function.\<close>

definition deploy_ctx_err :: "ctx_err \<Rightarrow> nat \<Rightarrow> emb_queue \<Rightarrow> ctx_err" where
  "deploy_ctx_err ctx c q = (if c \<in> set (eq_canceled q) then Some CtxCanceled else ctx)"

text \<open>Second phase: the \<^verbatim>\<open>select\<close>. A send on a closed channel is ready, and panics.\<close>

datatype send_outcome = SendDone | SendCanceled goerror | SendFull | SendPanic

definition enqueue_send ::
  "ctx_err \<Rightarrow> nat \<Rightarrow> bool \<Rightarrow> queued_deployment \<Rightarrow> emb_queue \<Rightarrow> emb_queue \<times> send_outcome" where
  "enqueue_send ctx c pick d q =
     (let send_ready = eq_closed q \<or> length (eq_channel q) < eq_capacity q;
          done_err = deploy_ctx_err ctx c q in
      if send_ready \<and> (done_err = None \<or> pick) then
        (if eq_closed q then (q, SendPanic)
         else (q\<lparr>eq_channel := eq_channel q @ [d]\<rparr>, SendDone))
      else (case done_err of
              Some e \<Rightarrow> (q, SendCanceled e)
            | None \<Rightarrow> (q, SendFull)))"

text \<open>Third phase, under the lock: the metrics, or the removal of the cancel function.\<close>

definition enqueue_finish ::
  "time \<Rightarrow> queued_deployment \<Rightarrow> emb_queue \<times> send_outcome \<Rightarrow> emb_queue \<times> outcome" where
  "enqueue_finish now d s =
     (case s of (q, r) \<Rightarrow>
      (case r of
         SendDone \<Rightarrow>
           (q\<lparr>eq_total_enqueued := eq_total_enqueued q + 1,
              eq_oldest := (if time_is_zero (eq_oldest q) \<or> length (eq_channel q) = 1 then now
                            else eq_oldest q)\<rparr>, Returned None)
       | SendCanceled e \<Rightarrow>
           (q\<lparr>eq_cancel_map := map_del (qd_id d) (eq_cancel_map q)\<rparr>,
            Returned (Some (WrapError ''enqueue canceled: '' e '''')))
       | SendFull \<Rightarrow>
           (q\<lparr>eq_cancel_map := map_del (qd_id d) (eq_cancel_map q)\<rparr>,
            Returned (Some (ErrorString ''queue is full'')))
       | SendPanic \<Rightarrow> (q, Panicked ''send on closed channel'')))"

definition enqueue ::
  "time \<Rightarrow> ctx_err \<Rightarrow> bool \<Rightarrow> queued_deployment option \<Rightarrow> emb_queue \<Rightarrow> emb_queue \<times> outcome" where
  "enqueue now ctx pick deployment q =
     (case deployment of
        None \<Rightarrow> (q, Returned (Some (ErrorString ''deployment is nil'')))
      | Some d \<Rightarrow>
          (case enqueue_begin ctx (Some d) q of
             (q1, Inl e) \<Rightarrow> (q1, Returned (Some e))
           | (q1, Inr c) \<Rightarrow> enqueue_finish now d (enqueue_send ctx c pick d q1)))"

definition queue_cancel :: "string \<Rightarrow> emb_queue \<Rightarrow> emb_queue \<times> goerror option" where
  "queue_cancel deploymentID q =
     (if deploymentID = '''' then (q, Some (ErrorString ''deployment ID is empty''))
      else (case map_of (eq_cancel_map q) deploymentID of
              None \<Rightarrow> (q, Some (ErrorString (''deployment '' @ deploymentID @ '' not found in queue'')))
            | Some c \<Rightarrow>
                (q\<lparr>eq_cancel_map := map_del deploymentID (eq_cancel_map q),
                   eq_canceled := c # eq_canceled q\<rparr>, None)))"

text \<open>
  \<^verbatim>\<open>Dequeue\<close>: \<open>None\<close> while it blocks. A closed channel still delivers what it holds, then nil.
\<close>

definition dequeue ::
  "time \<Rightarrow> ctx_err \<Rightarrow> bool \<Rightarrow> emb_queue \<Rightarrow> (emb_queue \<times> (goerror + queued_deployment)) option" where
  "dequeue now ctx pick q =
     (let recv_ready = eq_channel q \<noteq> [] \<or> eq_closed q in
      if recv_ready \<and> (ctx = None \<or> pick) then
        (case eq_channel q of
           [] \<Rightarrow> Some (q, Inl (ErrorString ''queue is closed''))
         | d # ds \<Rightarrow>
             Some (q\<lparr>eq_channel := ds,
                     eq_total_dequeued := eq_total_dequeued q + 1,
                     eq_total_wait := (if qd_created_at d > time_zero
                                       then eq_total_wait q + (now - qd_created_at d)
                                       else eq_total_wait q),
                     eq_oldest := (if ds = [] then time_zero else eq_oldest q),
                     eq_cancel_map := map_del (qd_id d) (eq_cancel_map q)\<rparr>, Inr d))
      else (case ctx of
              Some e \<Rightarrow> Some (q, Inl (WrapError ''context canceled: '' e ''''))
            | None \<Rightarrow> None))"

definition queue_close :: "emb_queue \<Rightarrow> emb_queue" where
  "queue_close q =
     (if eq_closed q then q
      else q\<lparr>eq_closed := True, eq_canceled := map snd (eq_cancel_map q) @ eq_canceled q,
             eq_cancel_map := []\<rparr>)"

definition queue_size :: "emb_queue \<Rightarrow> nat" where
  "queue_size q = length (eq_channel q)"

definition get_metrics :: "emb_queue \<Rightarrow> queue_metrics" where
  "get_metrics q =
     \<lparr>qm_total_enqueued = eq_total_enqueued q, qm_total_dequeued = eq_total_dequeued q,
      qm_current_depth = length (eq_channel q),
      qm_average_wait_time =
        (if eq_total_dequeued q > 0 then go_quot (eq_total_wait q) (eq_total_dequeued q) else 0),
      qm_oldest_deployment = eq_oldest q\<rparr>"

lemmas queue_defs =
  enqueue_def enqueue_begin_def enqueue_send_def enqueue_finish_def deploy_ctx_err_def
  queue_cancel_def dequeue_def queue_close_def Let_def

section \<open>The contract of a deployment queue\<close>

text \<open>
  What the program relies on when it hands a deployment to a queue and when a worker takes
  the next one: an acceptable deployment is accepted while there is room and goes to the
  back, a refused one leaves the queue as it was, and the front is what a worker gets.
\<close>

datatype ('e, 'd) queue_op = Enq 'e 'd | Deq 'e

fun queue_run ::
  "('e \<Rightarrow> 'd \<Rightarrow> 'q \<Rightarrow> 'q \<times> outcome) \<Rightarrow> ('e \<Rightarrow> 'q \<Rightarrow> ('q \<times> (goerror + 'd)) option) \<Rightarrow>
     ('e, 'd) queue_op list \<Rightarrow> 'q \<Rightarrow> 'q \<times> 'd list \<times> 'd list" where
  "queue_run enq deq [] q = (q, [], [])"
| "queue_run enq deq (Enq e d # ops) q =
     (case enq e d q of
        (q1, Returned None) \<Rightarrow>
          (case queue_run enq deq ops q1 of (q', acc, del) \<Rightarrow> (q', d # acc, del))
      | (q1, _) \<Rightarrow> queue_run enq deq ops q1)"
| "queue_run enq deq (Deq e # ops) q =
     (case deq e q of
        Some (q1, Inr d) \<Rightarrow>
          (case queue_run enq deq ops q1 of (q', acc, del) \<Rightarrow> (q', acc, d # del))
      | Some (q1, Inl _) \<Rightarrow> queue_run enq deq ops q1
      | None \<Rightarrow> queue_run enq deq ops q)"

locale deployment_queue =
  fixes enq :: "'e \<Rightarrow> 'd \<Rightarrow> 'q \<Rightarrow> 'q \<times> outcome"
    and deq :: "'e \<Rightarrow> 'q \<Rightarrow> ('q \<times> (goerror + 'd)) option"
    and contents :: "'q \<Rightarrow> 'd list"
    and has_room :: "'q \<Rightarrow> bool"
    and acceptable :: "'d \<Rightarrow> bool"
    and inv :: "'q \<Rightarrow> bool"
  assumes enq_accepts: "inv q \<Longrightarrow> acceptable d \<Longrightarrow> has_room q \<Longrightarrow> snd (enq e d q) = Returned None"
    and enq_accepted: "inv q \<Longrightarrow> enq e d q = (q', Returned None) \<Longrightarrow> contents q' = contents q @ [d]"
    and enq_refused: "inv q \<Longrightarrow> enq e d q = (q', r) \<Longrightarrow> r \<noteq> Returned None \<Longrightarrow> contents q' = contents q"
    and enq_inv: "inv q \<Longrightarrow> inv (fst (enq e d q))"
    and deq_delivers: "inv q \<Longrightarrow> contents q = d # ds \<Longrightarrow> \<exists>q'. deq e q = Some (q', Inr d) \<and> contents q' = ds"
    and deq_nothing: "inv q \<Longrightarrow> contents q = [] \<Longrightarrow> deq e q = Some (q', res) \<Longrightarrow> contents q' = [] \<and> (\<exists>err. res = Inl err)"
    and deq_inv: "inv q \<Longrightarrow> deq e q = Some (q', res) \<Longrightarrow> inv q'"
begin

lemma deq_cases:
  assumes "inv q"
  obtains (delivered) d q' where "deq e q = Some (q', Inr d)" and "contents q = d # contents q'" and "inv q'"
  | (nothing) "deq e q = None"
  | (refused) q' err where "deq e q = Some (q', Inl err)" and "contents q' = contents q" and "inv q'"
proof (cases "contents q")
  case Nil
  show thesis
  proof (cases "deq e q")
    case None
    then show thesis by (rule nothing)
  next
    case (Some s)
    obtain q' res where s: "s = (q', res)" by fastforce
    show thesis
      using refused [of q'] deq_nothing [of q e q' res] deq_inv [of q e q' res] assms Nil Some s by auto
  qed
next
  case (Cons d ds)
  then show thesis using assms deq_delivers [of q d ds e] deq_inv [of q e] delivered by metis
qed

lemma queue_order:
  assumes "inv q" and "queue_run enq deq ops q = (q', acc, del)"
  shows "contents q @ acc = del @ contents q' \<and> inv q'"
  using assms
proof (induction ops arbitrary: q acc del)
  case Nil
  then show ?case by simp
next
  case (Cons op ops)
  show ?case
  proof (cases op)
    case (Enq e d)
    obtain q1 r where e: "enq e d q = (q1, r)" by fastforce
    have inv1: "inv q1" using enq_inv [of q e d] Cons.prems(1) e by simp
    obtain acc1 del1 where run: "queue_run enq deq ops q1 = (q', acc1, del1)"
      and res: "(acc, del) = (if r = Returned None then (d # acc1, del1) else (acc1, del1))"
      using Cons.prems(2) Enq e by (auto split: outcome.splits option.splits prod.splits)
    show ?thesis using Cons.IH [OF inv1 run] res enq_accepted [of q e d q1] enq_refused [of q e d q1 r]
        Cons.prems(1) e by (auto split: if_splits)
  next
    case (Deq e)
    from Cons.prems(1) show ?thesis
    proof (cases rule: deq_cases [of q e])
      case (delivered d q1)
      then obtain del1 where "queue_run enq deq ops q1 = (q', acc, del1)" "del = d # del1"
        using Cons.prems(2) Deq by (auto split: prod.splits)
      then show ?thesis using Cons.IH [of q1] delivered by auto
    next
      case nothing
      then show ?thesis using Cons Deq by auto
    next
      case (refused q1 err)
      then show ?thesis using Cons.IH [of q1 acc del] Cons.prems Deq by auto
    qed
  qed
qed

end

section \<open>The embedded queue keeps the contract\<close>

text \<open>
  The invariant of the queue between operations: the bounds and the counters, cancel
  functions only for waiting deployments, and context numbers that have been given out.
\<close>

definition queue_inv :: "emb_queue \<Rightarrow> bool" where
  "queue_inv q \<longleftrightarrow>
     length (eq_channel q) \<le> eq_capacity q \<and> 0 < eq_capacity q \<and>
     eq_total_enqueued q - eq_total_dequeued q = int (length (eq_channel q)) \<and>
     0 \<le> eq_total_dequeued q \<and>
     fst ` set (eq_cancel_map q) \<subseteq> qd_id ` set (eq_channel q) \<and>
     set (eq_canceled q) \<subseteq> {..<eq_next_ctx q} \<and> snd ` set (eq_cancel_map q) \<subseteq> {..<eq_next_ctx q} \<and>
     (eq_closed q \<longrightarrow> eq_cancel_map q = []) \<and>
     (eq_channel q = [] \<longrightarrow> eq_oldest q = time_zero)"

lemma queue_inv_new: "queue_inv (new_queue capacity)"
  by (simp add: queue_inv_def new_queue_def)

lemma set_map_put_values: "snd ` set (map_put k v m) \<subseteq> insert v (snd ` set m)"
  by (induction k v m rule: map_put.induct) auto

lemma set_map_del_values: "snd ` set (map_del k m) \<subseteq> snd ` set m"
  by (auto simp: map_del_def)

lemma values_put_fresh: "snd ` set m \<subseteq> {..<n} \<Longrightarrow> snd ` set (map_put k n m) \<subseteq> {..<Suc n}"
  using set_map_put_values [of k n m] by (fastforce simp: less_Suc_eq)

lemma values_del: "snd ` set m \<subseteq> N \<Longrightarrow> snd ` set (map_del k m) \<subseteq> N"
  using set_map_del_values [of k m] by blast

lemma lessThan_Suc_mono: "A \<subseteq> {..<n} \<Longrightarrow> A \<subseteq> {..<Suc n}" for n :: nat
  by auto

lemma enqueue_cases:
  assumes "queue_inv q" and "enqueue now ctx pick dep q = (q', r)"
  obtains (invalid) e where "q' = q" and "r = Returned (Some e)"
      and "dep = None \<or> ctx \<noteq> None \<or> eq_closed q \<or> qd_id (the dep) = ''''"
  | (accepted) d where "dep = Some d" and "r = Returned None" and "ctx = None" and "qd_id d \<noteq> ''''"
      and "\<not> eq_closed q" and "length (eq_channel q) < eq_capacity q"
      and "q' = q\<lparr>eq_cancel_map := map_put (qd_id d) (eq_next_ctx q) (eq_cancel_map q),
                   eq_next_ctx := Suc (eq_next_ctx q), eq_channel := eq_channel q @ [d],
                   eq_total_enqueued := eq_total_enqueued q + 1,
                   eq_oldest := (if time_is_zero (eq_oldest q) \<or> eq_channel q = [] then now
                                 else eq_oldest q)\<rparr>"
  | (full) d where "dep = Some d" and "r = Returned (Some (ErrorString ''queue is full''))"
      and "\<not> eq_closed q" and "length (eq_channel q) = eq_capacity q"
      and "q' = q\<lparr>eq_cancel_map := map_del (qd_id d) (map_put (qd_id d) (eq_next_ctx q) (eq_cancel_map q)),
                   eq_next_ctx := Suc (eq_next_ctx q)\<rparr>"
proof (cases dep)
  case None
  with assms(2) show thesis by (intro invalid) (auto simp: enqueue_def)
next
  case (Some d)
  have fresh: "eq_next_ctx q \<notin> set (eq_canceled q)" and len: "length (eq_channel q) \<le> eq_capacity q"
    using assms(1) by (auto simp: queue_inv_def)
  show thesis
  proof (cases "qd_id d = '''' \<or> eq_closed q \<or> ctx \<noteq> None")
    case True
    have "\<exists>e. q' = q \<and> r = Returned (Some e)"
      using True assms(2) Some by (auto simp: enqueue_def enqueue_begin_def split: if_splits option.splits)
    with True Some invalid show thesis by auto
  next
    case False
    show thesis
    proof (cases "length (eq_channel q) < eq_capacity q")
      case True
      with False Some assms(2) fresh show thesis
        by (intro accepted [of d]) (auto simp: queue_defs)
    next
      case nospace: False
      with False Some assms(2) fresh len show thesis
        by (intro full [of d]) (auto simp: queue_defs)
    qed
  qed
qed

lemma queue_inv_enqueue:
  assumes "queue_inv q"
  shows "queue_inv (fst (enqueue now ctx pick dep q))"
proof -
  obtain q' r where e: "enqueue now ctx pick dep q = (q', r)" by fastforce
  from assms e show ?thesis
  proof (cases rule: enqueue_cases)
    case invalid
    then show ?thesis using assms e by simp
  next
    case (accepted d)
    have "fst ` set (eq_cancel_map q) \<subseteq> insert (qd_id d) (qd_id ` set (eq_channel q))"
      using assms by (auto simp: queue_inv_def)
    then show ?thesis
      using assms e accepted by (simp add: queue_inv_def values_put_fresh lessThan_Suc_mono)
  next
    case (full d)
    have "fst ` set (eq_cancel_map q) - {qd_id d} \<subseteq> qd_id ` set (eq_channel q)"
      using assms by (auto simp: queue_inv_def)
    then show ?thesis
      using assms e full by (simp add: queue_inv_def values_put_fresh values_del lessThan_Suc_mono)
  qed
qed

lemma queue_inv_cancel: "queue_inv q \<Longrightarrow> queue_inv (fst (queue_cancel deploymentID q))"
  by (auto simp: queue_inv_def queue_cancel_def values_del dest!: map_of_SomeD split: option.splits)

lemma queue_inv_close: "queue_inv q \<Longrightarrow> queue_inv (queue_close q)"
  by (auto simp: queue_inv_def queue_close_def)

lemma dequeue_cases:
  assumes "dequeue now ctx pick q = Some (q', r)"
  obtains (delivered) d where "r = Inr d" and "eq_channel q = d # eq_channel q'"
      and "q' = q\<lparr>eq_channel := eq_channel q', eq_total_dequeued := eq_total_dequeued q + 1,
                   eq_total_wait := eq_total_wait q', eq_cancel_map := map_del (qd_id d) (eq_cancel_map q),
                   eq_oldest := (if eq_channel q' = [] then time_zero else eq_oldest q)\<rparr>"
  | (refused) e where "r = Inl e" and "q' = q"
  using assms by (auto simp: dequeue_def Let_def split: if_splits list.splits option.splits)

lemma queue_inv_dequeue:
  assumes "queue_inv q" and "dequeue now ctx pick q = Some (q', r)"
  shows "queue_inv q'"
  using assms(2)
proof (cases rule: dequeue_cases)
  case (delivered d)
  let ?q = "q\<lparr>eq_channel := eq_channel q', eq_total_dequeued := eq_total_dequeued q + 1,
              eq_total_wait := eq_total_wait q', eq_cancel_map := map_del (qd_id d) (eq_cancel_map q),
              eq_oldest := (if eq_channel q' = [] then time_zero else eq_oldest q)\<rparr>"
  have "queue_inv ?q"
    using assms(1) delivered(2) by (auto simp: queue_inv_def values_del)
  then show ?thesis using delivered(3) by metis
next
  case (refused e)
  then show ?thesis using assms(1) by simp
qed

interpretation embq: deployment_queue
  "\<lambda>now d. enqueue now None True (Some d)" "\<lambda>now. dequeue now None True" eq_channel
  "\<lambda>q. \<not> eq_closed q \<and> length (eq_channel q) < eq_capacity q" "\<lambda>d. qd_id d \<noteq> ''''" queue_inv
proof
  fix q :: emb_queue and d :: queued_deployment and e :: time
  assume q: "queue_inv q" and "qd_id d \<noteq> ''''" and "\<not> eq_closed q \<and> length (eq_channel q) < eq_capacity q"
  moreover obtain q' r where run: "enqueue e None True (Some d) q = (q', r)" by fastforce
  ultimately show "snd (enqueue e None True (Some d) q) = Returned None"
    using enqueue_cases [OF q run, of "snd (enqueue e None True (Some d) q) = Returned None"] by auto
next
  fix q q' :: emb_queue and d :: queued_deployment and e :: time
  assume "queue_inv q" and "enqueue e None True (Some d) q = (q', Returned None)"
  then show "eq_channel q' = eq_channel q @ [d]" by (cases rule: enqueue_cases) auto
next
  fix q q' :: emb_queue and d :: queued_deployment and e :: time and r :: outcome
  assume "queue_inv q" and "enqueue e None True (Some d) q = (q', r)" and "r \<noteq> Returned None"
  then show "eq_channel q' = eq_channel q" by (cases rule: enqueue_cases) auto
next
  fix q :: emb_queue and d :: queued_deployment and e :: time
  assume "queue_inv q"
  then show "queue_inv (fst (enqueue e None True (Some d) q))" by (rule queue_inv_enqueue)
next
  fix q :: emb_queue and d :: queued_deployment and ds :: "queued_deployment list" and e :: time
  assume "queue_inv q" and "eq_channel q = d # ds"
  then show "\<exists>q'. dequeue e None True q = Some (q', Inr d) \<and> eq_channel q' = ds" by (simp add: dequeue_def)
next
  fix q q' :: emb_queue and res :: "goerror + queued_deployment" and e :: time
  assume "queue_inv q" and "eq_channel q = []" and "dequeue e None True q = Some (q', res)"
  then show "eq_channel q' = [] \<and> (\<exists>err. res = Inl err)" by (auto simp: dequeue_def split: if_splits)
next
  fix q q' :: emb_queue and res :: "goerror + queued_deployment" and e :: time
  assume "queue_inv q" and "dequeue e None True q = Some (q', res)"
  then show "queue_inv q'" by (rule queue_inv_dequeue)
qed

text \<open>
  C38: a new queue delivers deployments in the order it accepted them: whatever the sequence
  of enqueue and dequeue calls, what was accepted is what was delivered followed by what is
  still waiting, and no more is waiting than the capacity.
\<close>

theorem queue_fifo:
  assumes "queue_run (\<lambda>now d. enqueue now None True (Some d)) (\<lambda>now. dequeue now None True) ops
             (new_queue capacity) = (q, accepted, delivered)"
  shows "accepted = delivered @ eq_channel q \<and> queue_size q \<le> eq_capacity q"
  using embq.queue_order [OF queue_inv_new assms] by (simp add: new_queue_def queue_inv_def queue_size_def)

definition plain_deployment :: "string \<Rightarrow> queued_deployment" where
  "plain_deployment i =
     \<lparr>qd_id = i, qd_request_id = '''', qd_request = None, qd_status = StatusQueued, qd_created_at = 1,
      qd_started_at = None, qd_completed_at = None, qd_last_error = None, qd_retry_count = 0,
      qd_deleted_at = None, qd_deleted_by = '''', qd_delete_reason = ''''\<rparr>"

theorem queue_fifo_witness:
  "\<exists>q. queue_run (\<lambda>now d. enqueue now None True (Some d)) (\<lambda>now. dequeue now None True)
         [Enq 3 (plain_deployment ''a''), Enq 4 (plain_deployment ''b''), Deq 5, Enq 6 (plain_deployment ''a'')]
         (new_queue 2) = (q, map plain_deployment [''a'', ''b'', ''a''], [plain_deployment ''a'']) \<and>
       eq_channel q = map plain_deployment [''b'', ''a'']"
proof -
  obtain q where run: "queue_run (\<lambda>now d. enqueue now None True (Some d)) (\<lambda>now. dequeue now None True)
         [Enq 3 (plain_deployment ''a''), Enq 4 (plain_deployment ''b''), Deq 5, Enq 6 (plain_deployment ''a'')]
         (new_queue 2) = (q, map plain_deployment [''a'', ''b'', ''a''], [plain_deployment ''a''])"
    by (simp add: queue_defs new_queue_def plain_deployment_def time_is_zero_def time_zero_def)
  with queue_fifo [OF run] show ?thesis by auto
qed

text \<open>One operation of the queue, with any context and any choice of the \<^verbatim>\<open>select\<close>.\<close>

datatype emb_op =
    OpEnqueue time ctx_err bool "queued_deployment option"
  | OpDequeue time ctx_err bool
  | OpCancel string
  | OpClose

fun emb_step :: "emb_op \<Rightarrow> emb_queue \<Rightarrow> emb_queue" where
  "emb_step (OpEnqueue now ctx pick d) q = fst (enqueue now ctx pick d q)"
| "emb_step (OpDequeue now ctx pick) q =
     (case dequeue now ctx pick q of None \<Rightarrow> q | Some (q', _) \<Rightarrow> q')"
| "emb_step (OpCancel i) q = fst (queue_cancel i q)"
| "emb_step OpClose q = queue_close q"

lemma queue_inv_step: "queue_inv q \<Longrightarrow> queue_inv (emb_step op q)"
  by (cases op)
     (auto intro: queue_inv_enqueue queue_inv_cancel queue_inv_close queue_inv_dequeue split: option.split)

lemma queue_inv_steps: "queue_inv q \<Longrightarrow> queue_inv (fold emb_step ops q)"
  by (induction ops arbitrary: q) (auto intro: queue_inv_step)

text \<open>
  After every sequence of non-overlapping operations, cancellations and the closing of
  the queue included, the depth is within the capacity and is the number of enqueued minus
  the number of dequeued deployments, cancel functions exist only for waiting deployments
  (and for none once closed), and an empty queue has no oldest deployment.
\<close>

theorem queue_invariant:
  "queue_inv (fold emb_step ops (new_queue capacity))"
  by (rule queue_inv_steps) (rule queue_inv_new)

text \<open>
  Canceling a waiting deployment does not take it out of the queue: the call succeeds,
  the channel is unchanged, and the workers still get every deployment in it, the canceled
  one included.
\<close>

theorem cancel_keeps_deployment:
  assumes "queue_cancel deploymentID q = (q', None)" and "eq_channel q = ds1 @ d # ds2"
    and "qd_id d = deploymentID"
  shows "\<exists>q'' q''' del. queue_run (\<lambda>now d. enqueue now None True (Some d)) (\<lambda>now. dequeue now None True)
             (replicate (length ds1) (Deq now)) q' = (q'', [], ds1) \<and>
           dequeue now None True q'' = Some (q''', Inr d)"
proof -
  have same: "eq_channel q' = ds1 @ d # ds2"
    using assms by (auto simp: queue_cancel_def split: if_splits option.splits)
  have deliver: "\<exists>q2. queue_run (\<lambda>now d. enqueue now None True (Some d)) (\<lambda>now. dequeue now None True)
             (replicate (length ds) (Deq now)) q1 = (q2, [], ds) \<and> eq_channel q2 = rest"
    if "eq_channel q1 = ds @ rest" for q1 ds rest
    using that
  proof (induction ds arbitrary: q1)
    case (Cons x ds)
    obtain q2 where "dequeue now None True q1 = Some (q2, Inr x)" "eq_channel q2 = ds @ rest"
      using Cons.prems by (simp add: dequeue_def)
    then show ?case using Cons.IH [of q2] by auto
  qed simp
  from deliver [OF same] obtain q2 where "queue_run (\<lambda>now d. enqueue now None True (Some d))
      (\<lambda>now. dequeue now None True) (replicate (length ds1) (Deq now)) q' = (q2, [], ds1)"
    and "eq_channel q2 = d # ds2" by blast
  then show ?thesis by (auto simp: dequeue_def)
qed

theorem cancel_keeps_deployment_witness:
  "\<exists>q' q'' q'''. queue_cancel ''a'' (fst (enqueue 3 None True (Some (plain_deployment ''a'')) (new_queue 2))) = (q', None) \<and>
     queue_run (\<lambda>now d. enqueue now None True (Some d)) (\<lambda>now. dequeue now None True) [] q' = (q'', [], []) \<and>
     dequeue 9 None True q'' = Some (q''', Inr (plain_deployment ''a''))"
proof -
  let ?q = "fst (enqueue 3 None True (Some (plain_deployment ''a'')) (new_queue 2))"
  obtain q' where c: "queue_cancel ''a'' ?q = (q', None)"
    by (simp add: queue_defs new_queue_def plain_deployment_def)
  have ch: "eq_channel ?q = [] @ plain_deployment ''a'' # []"
    by (simp add: queue_defs new_queue_def plain_deployment_def)
  from cancel_keeps_deployment [OF c ch, of 9] c show ?thesis
    by (simp add: plain_deployment_def)
qed

text \<open>
  A queue that is closed between the checks of \<^verbatim>\<open>Enqueue\<close> and its channel operation makes
  that call panic with a send on a closed channel, unless its own canceled context is picked.
\<close>

theorem enqueue_close_race_panics:
  assumes "enqueue_begin None (Some d) q = (q1, Inr c)"
  shows "snd (enqueue_finish now d (enqueue_send None c True d (queue_close q1))) =
           Panicked ''send on closed channel''"
  using assms by (auto simp: queue_defs split: if_splits)

theorem enqueue_close_race_panics_witness:
  "snd (enqueue_finish 3 (plain_deployment ''a'')
     (enqueue_send None 0 True (plain_deployment ''a'')
        (queue_close (fst (enqueue_begin None (Some (plain_deployment ''a'')) (new_queue 2)))))) =
   Panicked ''send on closed channel''"
proof -
  have "enqueue_begin None (Some (plain_deployment ''a'')) (new_queue 2) =
      (fst (enqueue_begin None (Some (plain_deployment ''a'')) (new_queue 2)), Inr 0)"
    by (simp add: enqueue_begin_def plain_deployment_def new_queue_def)
  then show ?thesis by (rule enqueue_close_race_panics)
qed

end
