(* ===== verification/Embedded_Tracker.thy ===== *)
theory Embedded_Tracker
  imports File_State_Store
begin

text \<open>
  The deployment tracker of \<^verbatim>\<open>internal/infra/embedded/tracker.go\<close>, with its optional
  persistence to a state store, and the contract of a tracker as the locale
  \<open>deployment_tracker\<close>. The store is shared with other components, so its state \<open>'s\<close> is
  threaded beside the tracker's. Each operation holds the tracker's lock from its first
  access to its last and is atomic.

  The configuration map of a deployment's request is shared with the metadata record that
  is persisted, so the result stored in that record is seen in the request too
  (\<open>share_result\<close>). The clock readings are \<open>now\<close>, and \<open>upd\<close> for the update time of a
  metadata record.
\<close>

section \<open>State\<close>

record 's tracker =
  et_deployments :: "(string \<times> queued_deployment) list"
  et_results :: "(string \<times> deployment_result) list"
  et_store :: "'s store_ops option"

definition new_tracker :: "'s tracker" where
  "new_tracker = \<lparr>et_deployments = [], et_results = [], et_store = None\<rparr>"

type_synonym 's tracked = "'s tracker \<times> 's"

definition empty_id_error :: goerror where
  "empty_id_error = ErrorString ''deployment ID is empty''"

definition not_found_error :: "string \<Rightarrow> goerror" where
  "not_found_error i = ErrorString (''deployment '' @ i @ '' not found'')"

section \<open>Persistence\<close>

definition request_configuration :: "queued_deployment \<Rightarrow> gmap option" where
  "request_configuration d =
     (case qd_request d of
        None \<Rightarrow> None
      | Some r \<Rightarrow> (case req_metadata r of
                     None \<Rightarrow> None
                   | Some md \<Rightarrow> as_map (meta_gval (map_of md ''configuration''))))"

definition queued_deployment_to_metadata :: "time \<Rightarrow> queued_deployment \<Rightarrow> deployment_metadata" where
  "queued_deployment_to_metadata upd d =
     \<lparr>dm_deployment_id = qd_id d, dm_status = qd_status d, dm_created_at = qd_created_at d,
      dm_updated_at = upd,
      dm_configuration = Some (case request_configuration d of Some c \<Rightarrow> c | None \<Rightarrow> []),
      dm_resource_count = 0, dm_last_applied_at = qd_completed_at d,
      dm_error_message = (case qd_last_error d of None \<Rightarrow> '''' | Some e \<Rightarrow> error_message e)\<rparr>"

definition metadata_to_queued_deployment :: "deployment_metadata \<Rightarrow> queued_deployment" where
  "metadata_to_queued_deployment m =
     \<lparr>qd_id = dm_deployment_id m, qd_request_id = '''', qd_request = None, qd_status = dm_status m,
      qd_created_at = dm_created_at m, qd_started_at = None, qd_completed_at = dm_last_applied_at m,
      qd_last_error = None, qd_retry_count = 0, qd_deleted_at = None, qd_deleted_by = '''',
      qd_delete_reason = ''''\<rparr>"

definition gmap_or_nil :: "gmap option \<Rightarrow> gval" where
  "gmap_or_nil m = (case m of None \<Rightarrow> GNil | Some x \<Rightarrow> GMap x)"

definition result_data :: "deployment_result \<Rightarrow> gmap" where
  "result_data r =
     [(''deployment_id'', GStr (dr_deployment_id r)), (''success'', GBool (dr_success r)),
      (''resources'', gmap_or_nil (dr_resources r)), (''outputs'', gmap_or_nil (dr_outputs r))] @
     (case dr_error r of None \<Rightarrow> [] | Some e \<Rightarrow> [(''error'', GStr (error_message e))]) @
     (if time_is_zero (dr_completed_at r) then []
      else [(''completed_at'', GStr (format_rfc3339 0 (dr_completed_at r)))])"

text \<open>The write to the shared configuration map, as the request sees it.\<close>

definition share_result :: "deployment_result \<Rightarrow> queued_deployment \<Rightarrow> queued_deployment" where
  "share_result r d =
     (case qd_request d of
        None \<Rightarrow> d
      | Some rq \<Rightarrow>
          (case (req_metadata rq, request_configuration d) of
             (Some md, Some c) \<Rightarrow>
               d\<lparr>qd_request := Some (rq\<lparr>req_metadata :=
                   Some (map_put ''configuration''
                     (MetaVal (GMap (map_put ''__result__'' (GMap (result_data r)) c))) md)\<rparr>)\<rparr>
           | _ \<Rightarrow> d))"

definition persist_metadata :: "'s store_ops \<Rightarrow> deployment_metadata \<Rightarrow> 's \<Rightarrow> 's" where
  "persist_metadata ops m s =
     (case so_get ops (dm_deployment_id m) s of
        Inl e \<Rightarrow> fst (so_create ops m s)
      | Inr None \<Rightarrow> s
      | Inr (Some existing) \<Rightarrow>
          (let m' = m\<lparr>dm_created_at := dm_created_at existing\<rparr> in
           case so_delete ops (dm_deployment_id m) s of
             (s1, Some e) \<Rightarrow> s1
           | (s1, None) \<Rightarrow> fst (so_create ops m' s1)))"

definition persist_deployment_with_result ::
  "time \<Rightarrow> queued_deployment \<Rightarrow> deployment_result option \<Rightarrow> 's tracked \<Rightarrow> 's tracked" where
  "persist_deployment_with_result upd d result ts =
     (case ts of (t, s) \<Rightarrow>
      (case et_store t of
         None \<Rightarrow> (t, s)
       | Some ops \<Rightarrow>
           (let m = queued_deployment_to_metadata upd d in
            case result of
              None \<Rightarrow> (t, persist_metadata ops m s)
            | Some r \<Rightarrow>
                (let cfg = (case dm_configuration m of None \<Rightarrow> [] | Some c \<Rightarrow> c);
                     m' = m\<lparr>dm_configuration := Some (map_put ''__result__'' (GMap (result_data r)) cfg)\<rparr>
                 in (t\<lparr>et_deployments := map_put (qd_id d) (share_result r d) (et_deployments t)\<rparr>,
                     persist_metadata ops m' s)))))"

definition persist_deployment :: "time \<Rightarrow> queued_deployment \<Rightarrow> 's tracked \<Rightarrow> 's tracked" where
  "persist_deployment upd d ts =
     persist_deployment_with_result upd d (map_of (et_results (fst ts)) (qd_id d)) ts"

section \<open>Operations\<close>

definition tracker_register :: "time \<Rightarrow> queued_deployment option \<Rightarrow> 's tracked \<Rightarrow> 's tracked \<times> goerror option" where
  "tracker_register upd deployment ts =
     (case deployment of
        None \<Rightarrow> (ts, Some (ErrorString ''deployment is nil''))
      | Some d \<Rightarrow>
          (if qd_id d = '''' then (ts, Some empty_id_error)
           else if map_of (et_deployments (fst ts)) (qd_id d) \<noteq> None then
             (ts, Some (ErrorString (''deployment '' @ qd_id d @ '' already exists'')))
           else
             (persist_deployment upd d
                ((fst ts)\<lparr>et_deployments := map_put (qd_id d) d (et_deployments (fst ts))\<rparr>, snd ts), None)))"

definition tracker_get :: "string \<Rightarrow> 's tracked \<Rightarrow> goerror + queued_deployment" where
  "tracker_get i ts =
     (if i = '''' then Inl empty_id_error
      else (case map_of (et_deployments (fst ts)) i of
              None \<Rightarrow> Inl (not_found_error i)
            | Some d \<Rightarrow> Inr d))"

definition tracker_get_status :: "string \<Rightarrow> 's tracked \<Rightarrow> goerror + deployment_status" where
  "tracker_get_status i ts =
     (if i = '''' then Inl empty_id_error
      else (case map_of (et_deployments (fst ts)) i of
              None \<Rightarrow> Inl (not_found_error i)
            | Some d \<Rightarrow> Inr (qd_status d)))"

definition set_completed :: "time \<Rightarrow> queued_deployment \<Rightarrow> queued_deployment" where
  "set_completed now d =
     (if qd_completed_at d = None then d\<lparr>qd_completed_at := Some now\<rparr> else d)"

definition status_timestamps :: "time \<Rightarrow> deployment_status \<Rightarrow> queued_deployment \<Rightarrow> queued_deployment" where
  "status_timestamps now st d =
     (case st of
        StatusQueued \<Rightarrow> d
      | StatusProcessing \<Rightarrow> (if qd_started_at d = None then d\<lparr>qd_started_at := Some now\<rparr> else d)
      | StatusCompleted \<Rightarrow> set_completed now d
      | StatusFailed \<Rightarrow> set_completed now d
      | StatusCanceled \<Rightarrow> set_completed now d
      | StatusCanceling \<Rightarrow> d
      | StatusDestroying \<Rightarrow> d
      | StatusDestroyed \<Rightarrow> set_completed now d
      | StatusDeleted \<Rightarrow> set_completed now d
      | StatusOther _ \<Rightarrow> d)"

definition put_deployment :: "queued_deployment \<Rightarrow> 's tracked \<Rightarrow> 's tracked" where
  "put_deployment d ts =
     ((fst ts)\<lparr>et_deployments := map_put (qd_id d) d (et_deployments (fst ts))\<rparr>, snd ts)"

definition tracker_set_status ::
  "time \<Rightarrow> time \<Rightarrow> string \<Rightarrow> deployment_status \<Rightarrow> 's tracked \<Rightarrow> 's tracked \<times> goerror option" where
  "tracker_set_status now upd i st ts =
     (if i = '''' then (ts, Some empty_id_error)
      else (case map_of (et_deployments (fst ts)) i of
              None \<Rightarrow> (ts, Some (not_found_error i))
            | Some d \<Rightarrow>
                (let d' = status_timestamps now st (d\<lparr>qd_status := st\<rparr>)
                 in (persist_deployment upd d' (put_deployment d' ts), None))))"

definition tracker_get_result :: "string \<Rightarrow> 's tracked \<Rightarrow> goerror + deployment_result option" where
  "tracker_get_result i ts =
     (if i = '''' then Inl empty_id_error else Inr (map_of (et_results (fst ts)) i))"

definition matches_filter :: "queued_deployment \<Rightarrow> deployment_filter \<Rightarrow> bool" where
  "matches_filter d f \<longleftrightarrow>
     (flt_status f = [] \<or> list_ex (\<lambda>st. qd_status d = st) (flt_status f)) \<and>
     (time_is_zero (flt_created_after f) \<or> \<not> qd_created_at d < flt_created_after f) \<and>
     (time_is_zero (flt_created_before f) \<or> \<not> qd_created_at d > flt_created_before f)"

definition tracker_list :: "deployment_filter \<Rightarrow> 's tracked \<Rightarrow> queued_deployment list" where
  "tracker_list f ts = filter (\<lambda>d. matches_filter d f) (map snd (et_deployments (fst ts)))"

definition tracker_remove :: "string \<Rightarrow> 's tracked \<Rightarrow> 's tracked \<times> goerror option" where
  "tracker_remove i ts =
     (if i = '''' then (ts, Some empty_id_error)
      else if map_of (et_deployments (fst ts)) i = None then (ts, Some (not_found_error i))
      else
        (let t1 = (fst ts)\<lparr>et_deployments := map_del i (et_deployments (fst ts)),
                           et_results := map_del i (et_results (fst ts))\<rparr>
         in ((t1, case et_store t1 of None \<Rightarrow> snd ts | Some ops \<Rightarrow> fst (so_delete ops i (snd ts))), None)))"

definition is_terminal_for_result :: "deployment_status \<Rightarrow> bool" where
  "is_terminal_for_result st \<longleftrightarrow> st = StatusCompleted \<or> st = StatusFailed \<or> st = StatusCanceled"

definition tracker_set_result ::
  "time \<Rightarrow> time \<Rightarrow> string \<Rightarrow> deployment_result option \<Rightarrow> 's tracked \<Rightarrow> 's tracked \<times> goerror option" where
  "tracker_set_result now upd i result ts =
     (if i = '''' then (ts, Some empty_id_error)
      else (case result of
              None \<Rightarrow> (ts, Some (ErrorString ''result is nil''))
            | Some r \<Rightarrow>
                (case map_of (et_deployments (fst ts)) i of
                   None \<Rightarrow> (ts, Some (not_found_error i))
                 | Some d \<Rightarrow>
                     (let t1 = (fst ts)\<lparr>et_results := map_put i r (et_results (fst ts))\<rparr>;
                          d' = (if is_terminal_for_result (qd_status d) then d
                                else set_completed now
                                       (d\<lparr>qd_status := (if dr_success r then StatusCompleted else StatusFailed)\<rparr>))
                      in (persist_deployment_with_result upd d' (Some r) (put_deployment d' (t1, snd ts)), None)))))"

definition tracker_set_error ::
  "time \<Rightarrow> time \<Rightarrow> string \<Rightarrow> goerror option \<Rightarrow> 's tracked \<Rightarrow> 's tracked \<times> goerror option" where
  "tracker_set_error now upd i err ts =
     (if i = '''' then (ts, Some empty_id_error)
      else (case map_of (et_deployments (fst ts)) i of
              None \<Rightarrow> (ts, Some (not_found_error i))
            | Some d \<Rightarrow>
                (let d1 = d\<lparr>qd_last_error := err\<rparr>;
                     d' = (if is_terminal_for_result (qd_status d1) then d1
                           else set_completed now (d1\<lparr>qd_status := StatusFailed\<rparr>))
                 in (persist_deployment upd d' (put_deployment d' ts), None))))"

section \<open>Restoring from a store\<close>

definition load_result_from_data :: "string \<Rightarrow> gmap \<Rightarrow> deployment_result" where
  "load_result_from_data i data =
     \<lparr>dr_deployment_id = i,
      dr_success = opt_else False (as_bool (map_of data ''success'')),
      dr_error = (case as_string (map_of data ''error'') of
                    Some e \<Rightarrow> if e \<noteq> '''' then Some (ErrorString e) else None
                  | None \<Rightarrow> None),
      dr_resources = as_map (map_of data ''resources''),
      dr_outputs = as_map (map_of data ''outputs''),
      dr_completed_at =
        (case map_of data ''completed_at'' of
           Some (GStr v) \<Rightarrow> opt_else time_zero (parse_rfc3339 v)
         | Some (GTime t) \<Rightarrow> t
         | _ \<Rightarrow> time_zero)\<rparr>"

definition load_single_deployment :: "deployment_metadata \<Rightarrow> 's tracker \<Rightarrow> 's tracker" where
  "load_single_deployment m t =
     (let d = metadata_to_queued_deployment m;
          t1 = t\<lparr>et_deployments := map_put (qd_id d) d (et_deployments t)\<rparr> in
      case dm_configuration m of
        None \<Rightarrow> t1
      | Some c \<Rightarrow>
          (case as_map (map_of c ''__result__'') of
             None \<Rightarrow> t1
           | Some data \<Rightarrow>
               t1\<lparr>et_results := map_put (qd_id d) (load_result_from_data (qd_id d) data) (et_results t1)\<rparr>))"

definition tracker_load :: "'s store_ops option \<Rightarrow> 's tracked \<Rightarrow> 's tracked \<times> goerror option" where
  "tracker_load store ts =
     (let t1 = (fst ts)\<lparr>et_store := store\<rparr> in
      case store of
        None \<Rightarrow> ((t1, snd ts), None)
      | Some ops \<Rightarrow>
          (case so_list ops (snd ts) of
             Inl e \<Rightarrow> ((t1, snd ts), Some (WrapError ''failed to list deployments from StateStore: '' e ''''))
           | Inr ms \<Rightarrow> ((fold load_single_deployment ms t1, snd ts), None)))"

section \<open>The tracker's view of a deployment\<close>

definition tracked_deployment :: "'s tracked \<Rightarrow> string \<Rightarrow> queued_deployment option" where
  "tracked_deployment ts i = map_of (et_deployments (fst ts)) i"

definition tracker_inv :: "'s tracked \<Rightarrow> bool" where
  "tracker_inv ts \<longleftrightarrow>
     (\<forall>i d. map_of (et_deployments (fst ts)) i = Some d \<longrightarrow> qd_id d = i \<and> i \<noteq> '''') \<and>
     (\<forall>i. map_of (et_deployments (fst ts)) i = None \<longrightarrow> map_of (et_results (fst ts)) i = None)"

text \<open>Two deployments that differ at most in the configuration of their request.\<close>

definition same_but_request :: "queued_deployment \<Rightarrow> queued_deployment \<Rightarrow> bool" where
  "same_but_request d d' \<longleftrightarrow> d' = d\<lparr>qd_request := qd_request d'\<rparr>"

lemma same_but_request_refl [simp]: "same_but_request d d"
  by (simp add: same_but_request_def)

lemma same_but_request_fields:
  assumes "same_but_request d d'"
  shows "qd_id d' = qd_id d" "qd_status d' = qd_status d" "qd_created_at d' = qd_created_at d"
    "qd_started_at d' = qd_started_at d" "qd_completed_at d' = qd_completed_at d"
    "qd_last_error d' = qd_last_error d"
proof -
  have eq: "d' = d\<lparr>qd_request := qd_request d'\<rparr>" using assms by (simp add: same_but_request_def)
  show "qd_id d' = qd_id d" "qd_status d' = qd_status d" "qd_created_at d' = qd_created_at d"
    "qd_started_at d' = qd_started_at d" "qd_completed_at d' = qd_completed_at d"
    "qd_last_error d' = qd_last_error d" by (subst eq, simp)+
qed

lemma same_but_request_share: "same_but_request d (share_result r d)"
  by (simp add: share_result_def same_but_request_def split: option.split)

text \<open>What persisting a deployment that is in the tracker does to the tracker.\<close>

lemma persist_with_result_effect:
  assumes "persist_deployment_with_result upd d result ts = ts'" and "tracked_deployment ts (qd_id d) = Some d"
  obtains d' where "same_but_request d d'"
    and "tracked_deployment ts' = (tracked_deployment ts)(qd_id d \<mapsto> d')"
    and "et_results (fst ts') = et_results (fst ts)" and "et_store (fst ts') = et_store (fst ts)"
proof -
  obtain t s where ts: "ts = (t, s)" by fastforce
  show thesis
  proof (cases "et_store t = None \<or> result = None")
    case True
    then have "fst ts' = t"
      using assms(1) ts by (auto simp: persist_deployment_with_result_def Let_def split: option.splits)
    then show thesis using assms(2) ts by (intro that [of d]) (auto simp: tracked_deployment_def)
  next
    case False
    then obtain ops r where "et_store t = Some ops" "result = Some r" by auto
    then have "fst ts' = t\<lparr>et_deployments := map_put (qd_id d) (share_result r d) (et_deployments t)\<rparr>"
      using assms(1) ts by (auto simp: persist_deployment_with_result_def Let_def)
    then show thesis
      using ts same_but_request_share by (intro that [of "share_result r d"]) (auto simp: tracked_deployment_def)
  qed
qed

lemma persist_effect:
  assumes "persist_deployment upd d ts = ts'" and "tracked_deployment ts (qd_id d) = Some d"
  obtains d' where "same_but_request d d'"
    and "tracked_deployment ts' = (tracked_deployment ts)(qd_id d \<mapsto> d')"
    and "et_results (fst ts') = et_results (fst ts)" and "et_store (fst ts') = et_store (fst ts)"
  using assms unfolding persist_deployment_def by (rule persist_with_result_effect)

lemma tracked_put [simp]: "tracked_deployment (put_deployment d ts) = (tracked_deployment ts)(qd_id d \<mapsto> d)"
  by (auto simp: tracked_deployment_def put_deployment_def)

lemma put_deployment_fields [simp]:
  "et_results (fst (put_deployment d ts)) = et_results (fst ts)"
  "et_store (fst (put_deployment d ts)) = et_store (fst ts)"
  by (simp_all add: put_deployment_def)

text \<open>The effect of each operation that changes one tracked deployment.\<close>

lemma register_effect:
  assumes "tracker_register upd (Some d) ts = (ts', None)"
  obtains d' where "same_but_request d d'" and "tracked_deployment ts (qd_id d) = None" and "qd_id d \<noteq> ''''"
    and "tracked_deployment ts' = (tracked_deployment ts)(qd_id d \<mapsto> d')"
    and "et_results (fst ts') = et_results (fst ts)" and "et_store (fst ts') = et_store (fst ts)"
proof -
  have ok: "qd_id d \<noteq> ''''" "tracked_deployment ts (qd_id d) = None"
    "persist_deployment upd d (put_deployment d ts) = ts'"
    using assms by (auto simp: tracker_register_def tracked_deployment_def put_deployment_def split: if_splits)
  show thesis
    by (rule persist_effect [OF ok(3)]) (simp, rule that, use ok in auto)
qed

lemma update_effect:
  assumes "persist_deployment upd d' (put_deployment d' ts) = ts'"
    and "tracked_deployment ts i = Some d" and "tracker_inv ts" and "qd_id d' = qd_id d"
  obtains d2 where "same_but_request d' d2" and "tracked_deployment ts' = (tracked_deployment ts)(i \<mapsto> d2)"
    and "et_results (fst ts') = et_results (fst ts)" and "et_store (fst ts') = et_store (fst ts)"
proof -
  have "qd_id d = i" using assms(2,3) by (auto simp: tracker_inv_def tracked_deployment_def)
  with assms(4) show thesis
    by (rule_tac persist_effect [OF assms(1)]) (simp, rule that, auto)
qed

lemma status_timestamps_id [simp]:
  "qd_id (status_timestamps now st d) = qd_id d" "qd_status (status_timestamps now st d) = qd_status d"
  "qd_created_at (status_timestamps now st d) = qd_created_at d"
  by (simp_all add: status_timestamps_def set_completed_def split: deployment_status.split)

lemma set_completed_fields [simp]:
  "qd_id (set_completed now d) = qd_id d" "qd_status (set_completed now d) = qd_status d"
  "qd_started_at (set_completed now d) = qd_started_at d"
  by (simp_all add: set_completed_def)

lemma set_status_effect:
  assumes "tracker_set_status now upd i st ts = (ts', None)" and "tracker_inv ts"
  obtains d d' where "tracked_deployment ts i = Some d" and "i \<noteq> ''''"
    and "same_but_request (status_timestamps now st (d\<lparr>qd_status := st\<rparr>)) d'"
    and "tracked_deployment ts' = (tracked_deployment ts)(i \<mapsto> d')"
    and "et_results (fst ts') = et_results (fst ts)" and "et_store (fst ts') = et_store (fst ts)"
proof -
  obtain d where d: "tracked_deployment ts i = Some d" "i \<noteq> ''''"
    and p: "persist_deployment upd (status_timestamps now st (d\<lparr>qd_status := st\<rparr>))
              (put_deployment (status_timestamps now st (d\<lparr>qd_status := st\<rparr>)) ts) = ts'"
    using assms(1) by (auto simp: tracker_set_status_def tracked_deployment_def Let_def split: if_splits option.splits)
  show thesis by (rule update_effect [OF p d(1) assms(2)]) (simp, rule that [OF d], auto)
qed

lemma set_error_effect:
  assumes "tracker_set_error now upd i err ts = (ts', None)" and "tracker_inv ts"
  obtains d d1 d' where "tracked_deployment ts i = Some d" and "i \<noteq> ''''"
    and "d1 = (if is_terminal_for_result (qd_status d) then d\<lparr>qd_last_error := err\<rparr>
               else set_completed now (d\<lparr>qd_last_error := err, qd_status := StatusFailed\<rparr>))"
    and "same_but_request d1 d'" and "tracked_deployment ts' = (tracked_deployment ts)(i \<mapsto> d')"
    and "et_results (fst ts') = et_results (fst ts)" and "et_store (fst ts') = et_store (fst ts)"
proof -
  obtain d where d: "tracked_deployment ts i = Some d" "i \<noteq> ''''"
    using assms(1) by (auto simp: tracker_set_error_def tracked_deployment_def split: if_splits option.splits)
  define d1 where "d1 = (if is_terminal_for_result (qd_status d) then d\<lparr>qd_last_error := err\<rparr>
               else set_completed now (d\<lparr>qd_last_error := err, qd_status := StatusFailed\<rparr>))"
  have p: "persist_deployment upd d1 (put_deployment d1 ts) = ts'"
    using assms(1) d unfolding d1_def by (simp add: tracker_set_error_def tracked_deployment_def Let_def)
  have "qd_id d1 = qd_id d" by (simp add: d1_def)
  from update_effect [OF p d(1) assms(2) this] show thesis
    using that [OF d d1_def] by blast
qed

lemma set_result_effect:
  assumes "tracker_set_result now upd i (Some r) ts = (ts', None)" and "tracker_inv ts"
  obtains d d1 d' where "tracked_deployment ts i = Some d" and "i \<noteq> ''''"
    and "d1 = (if is_terminal_for_result (qd_status d) then d
               else set_completed now (d\<lparr>qd_status := (if dr_success r then StatusCompleted else StatusFailed)\<rparr>))"
    and "same_but_request d1 d'" and "tracked_deployment ts' = (tracked_deployment ts)(i \<mapsto> d')"
    and "et_results (fst ts') = map_put i r (et_results (fst ts))" and "et_store (fst ts') = et_store (fst ts)"
proof -
  obtain d where d: "tracked_deployment ts i = Some d" "i \<noteq> ''''"
    using assms(1) by (auto simp: tracker_set_result_def tracked_deployment_def split: if_splits option.splits)
  define d1 where "d1 = (if is_terminal_for_result (qd_status d) then d
               else set_completed now (d\<lparr>qd_status := (if dr_success r then StatusCompleted else StatusFailed)\<rparr>))"
  define ts1 where "ts1 = ((fst ts)\<lparr>et_results := map_put i r (et_results (fst ts))\<rparr>, snd ts)"
  have p: "persist_deployment_with_result upd d1 (Some r) (put_deployment d1 ts1) = ts'"
    using assms(1) d unfolding d1_def ts1_def by (simp add: tracker_set_result_def tracked_deployment_def Let_def)
  have id: "qd_id d1 = i"
    using d(1) assms(2) by (auto simp: d1_def tracker_inv_def tracked_deployment_def)
  have same: "tracked_deployment ts1 = tracked_deployment ts" by (simp add: ts1_def tracked_deployment_def fun_eq_iff)
  show thesis
  proof (rule persist_with_result_effect [OF p])
    show "tracked_deployment (put_deployment d1 ts1) (qd_id d1) = Some d1" by simp
  next
    fix d'
    assume "same_but_request d1 d'"
      "tracked_deployment ts' = (tracked_deployment (put_deployment d1 ts1))(qd_id d1 \<mapsto> d')"
      "et_results (fst ts') = et_results (fst (put_deployment d1 ts1))"
      "et_store (fst ts') = et_store (fst (put_deployment d1 ts1))"
    then show thesis using id same by (intro that [OF d d1_def]) (auto simp: ts1_def)
  qed
qed

lemma remove_effect:
  assumes "tracker_remove i ts = (ts', None)"
  shows "tracked_deployment ts i \<noteq> None" and "i \<noteq> ''''"
    and "tracked_deployment ts' = (tracked_deployment ts)(i := None)"
    and "et_results (fst ts') = map_del i (et_results (fst ts))" and "et_store (fst ts') = et_store (fst ts)"
  using assms by (auto simp: tracker_remove_def tracked_deployment_def Let_def fun_eq_iff split: if_splits)

lemma tracker_inv_tracked:
  "tracker_inv ts \<longleftrightarrow>
     (\<forall>i d. tracked_deployment ts i = Some d \<longrightarrow> qd_id d = i \<and> i \<noteq> '''') \<and>
     (\<forall>i. tracked_deployment ts i = None \<longrightarrow> map_of (et_results (fst ts)) i = None)"
  by (simp add: tracker_inv_def tracked_deployment_def)

lemma tracker_inv_new: "tracker_inv (new_tracker, s)"
  by (simp add: tracker_inv_def new_tracker_def)

lemma tracker_inv_register:
  assumes "tracker_inv ts" and "tracker_register upd d ts = (ts', r)"
  shows "tracker_inv ts'"
proof (cases r)
  case (Some e)
  then show ?thesis using assms
    by (auto simp: tracker_register_def split: option.splits if_splits)
next
  case None
  then obtain d0 where d0: "d = Some d0"
    using assms(2) by (cases d) (auto simp: tracker_register_def)
  show ?thesis
    by (rule register_effect [OF assms(2) [unfolded d0 None]])
       (use assms(1) in \<open>auto simp: tracker_inv_tracked same_but_request_fields\<close>)
qed

lemma tracker_inv_set_status:
  assumes "tracker_inv ts" and "tracker_set_status now upd i st ts = (ts', r)"
  shows "tracker_inv ts'"
proof (cases r)
  case (Some e)
  then show ?thesis using assms by (auto simp: tracker_set_status_def Let_def split: option.splits if_splits)
next
  case None
  show ?thesis
    by (rule set_status_effect [OF assms(2) [unfolded None] assms(1)])
       (use assms(1) in \<open>auto simp: tracker_inv_tracked same_but_request_fields\<close>)
qed

lemma tracker_inv_set_error:
  assumes "tracker_inv ts" and "tracker_set_error now upd i err ts = (ts', r)"
  shows "tracker_inv ts'"
proof (cases r)
  case (Some e)
  then show ?thesis using assms by (auto simp: tracker_set_error_def Let_def split: option.splits if_splits)
next
  case None
  show ?thesis
    by (rule set_error_effect [OF assms(2) [unfolded None] assms(1)])
       (use assms(1) in \<open>auto simp: tracker_inv_tracked same_but_request_fields split: if_splits\<close>)
qed

lemma tracker_inv_set_result:
  assumes "tracker_inv ts" and "tracker_set_result now upd i res ts = (ts', r)"
  shows "tracker_inv ts'"
proof (cases r)
  case (Some e)
  then show ?thesis using assms by (auto simp: tracker_set_result_def Let_def split: option.splits if_splits)
next
  case None
  then obtain r0 where r0: "res = Some r0"
    using assms(2) by (cases res) (auto simp: tracker_set_result_def split: if_splits)
  show ?thesis
    by (rule set_result_effect [OF assms(2) [unfolded r0 None] assms(1)])
       (use assms(1) in \<open>auto simp: tracker_inv_tracked same_but_request_fields split: if_splits\<close>)
qed

lemma tracker_inv_remove:
  assumes "tracker_inv ts" and "tracker_remove i ts = (ts', r)"
  shows "tracker_inv ts'"
proof (cases r)
  case (Some e)
  then show ?thesis using assms by (auto simp: tracker_remove_def Let_def split: if_splits)
next
  case None
  show ?thesis using remove_effect [OF assms(2) [unfolded None]] assms(1)
    by (auto simp: tracker_inv_tracked split: if_splits)
qed

lemmas tracker_inv_ops =
  tracker_inv_register tracker_inv_set_status tracker_inv_set_error tracker_inv_set_result tracker_inv_remove

section \<open>The contract of a tracker\<close>

text \<open>
  What the deployment service, the transactions and the worker pool rely on: \<open>lookup\<close> is the
  deployment tracked under an identifier.
\<close>

locale deployment_tracker =
  fixes reg :: "queued_deployment \<Rightarrow> 'w \<Rightarrow> 'w \<times> goerror option"
    and get :: "string \<Rightarrow> 'w \<Rightarrow> goerror + queued_deployment"
    and set_st :: "string \<Rightarrow> deployment_status \<Rightarrow> 'w \<Rightarrow> 'w \<times> goerror option"
    and rem :: "string \<Rightarrow> 'w \<Rightarrow> 'w \<times> goerror option"
    and lookup :: "'w \<Rightarrow> string \<Rightarrow> queued_deployment option"
    and inv :: "'w \<Rightarrow> bool"
  assumes get_lookup: "inv w \<Longrightarrow> lookup w i = Some d \<Longrightarrow> get i w = Inr d"
    and get_missing: "inv w \<Longrightarrow> lookup w i = None \<Longrightarrow> \<exists>e. get i w = Inl e"
    and lookup_id: "inv w \<Longrightarrow> lookup w i = Some d \<Longrightarrow> qd_id d = i \<and> i \<noteq> ''''"
    and reg_new: "inv w \<Longrightarrow> qd_id d \<noteq> '''' \<Longrightarrow> lookup w (qd_id d) = None \<Longrightarrow> snd (reg d w) = None"
    and reg_refused: "inv w \<Longrightarrow> reg d w = (w', Some e) \<Longrightarrow> w' = w"
    and reg_known: "inv w \<Longrightarrow> lookup w (qd_id d) \<noteq> None \<Longrightarrow> snd (reg d w) \<noteq> None"
    and reg_done: "inv w \<Longrightarrow> reg d w = (w', None) \<Longrightarrow>
          lookup w (qd_id d) = None \<and> (\<exists>d'. same_but_request d d' \<and> lookup w' = (lookup w)(qd_id d \<mapsto> d'))"
    and set_found: "inv w \<Longrightarrow> lookup w i \<noteq> None \<Longrightarrow> snd (set_st i st w) = None"
    and set_refused: "inv w \<Longrightarrow> set_st i st w = (w', Some e) \<Longrightarrow> w' = w"
    and set_done: "inv w \<Longrightarrow> set_st i st w = (w', None) \<Longrightarrow>
          (\<exists>d d'. lookup w i = Some d \<and> lookup w' = (lookup w)(i \<mapsto> d') \<and> qd_status d' = st \<and>
                  qd_id d' = qd_id d \<and> qd_created_at d' = qd_created_at d)"
    and rem_found: "inv w \<Longrightarrow> lookup w i \<noteq> None \<Longrightarrow> snd (rem i w) = None"
    and rem_refused: "inv w \<Longrightarrow> rem i w = (w', Some e) \<Longrightarrow> w' = w \<and> lookup w i = None"
    and rem_done: "inv w \<Longrightarrow> rem i w = (w', None) \<Longrightarrow> lookup w' = (lookup w)(i := None)"
    and reg_inv: "inv w \<Longrightarrow> inv (fst (reg d w))"
    and set_inv: "inv w \<Longrightarrow> inv (fst (set_st i st w))"
    and rem_inv: "inv w \<Longrightarrow> inv (fst (rem i w))"
begin

lemma register_get:
  assumes "inv w" and "qd_id d \<noteq> ''''" and "lookup w (qd_id d) = None"
  obtains w' d' where "reg d w = (w', None)" and "same_but_request d d'" and "get (qd_id d) w' = Inr d'"
    and "lookup w' = (lookup w)(qd_id d \<mapsto> d')" and "inv w'"
proof -
  obtain w' where r: "reg d w = (w', None)" using reg_new [OF assms] by (metis prod.collapse)
  then have inv': "inv w'" using reg_inv [OF assms(1), of d] by simp
  from reg_done [OF assms(1) r] obtain d' where
    "same_but_request d d'" "lookup w' = (lookup w)(qd_id d \<mapsto> d')" by auto
  then show thesis using that [OF r] get_lookup [OF inv'] inv' by simp
qed

lemma register_remove:
  assumes "inv w" and "reg d w = (w1, None)"
  obtains w2 where "rem (qd_id d) w1 = (w2, None)" and "lookup w2 = lookup w" and "inv w2"
proof -
  have inv1: "inv w1" using reg_inv [OF assms(1), of d] assms(2) by simp
  from reg_done [OF assms] obtain d' where l: "lookup w (qd_id d) = None"
    "lookup w1 = (lookup w)(qd_id d \<mapsto> d')" by auto
  then obtain w2 where r: "rem (qd_id d) w1 = (w2, None)"
    using rem_found [OF inv1, of "qd_id d"] by (metis fun_upd_same option.distinct(1) prod.collapse)
  have "lookup w2 = lookup w" using rem_done [OF inv1 r] l by auto
  then show thesis using that [OF r] rem_inv [OF inv1, of "qd_id d"] r by simp
qed

lemma set_status_get:
  assumes "inv w" and "lookup w i = Some d"
  obtains w' d' where "set_st i st w = (w', None)" and "get i w' = Inr d'" and "qd_status d' = st"
    and "lookup w' = (lookup w)(i \<mapsto> d')" and "inv w'"
proof -
  obtain w' where s: "set_st i st w = (w', None)"
    using set_found [OF assms(1), of i st] assms(2) by (metis option.distinct(1) prod.collapse)
  then have inv': "inv w'" using set_inv [OF assms(1), of i st] by simp
  from set_done [OF assms(1) s] obtain d' where "lookup w' = (lookup w)(i \<mapsto> d')" "qd_status d' = st" by auto
  then show thesis using that [OF s] get_lookup [OF inv'] inv' by simp
qed

end

interpretation etr: deployment_tracker
  "\<lambda>d. tracker_register upd (Some d)" tracker_get "tracker_set_status now upd" tracker_remove
  tracked_deployment tracker_inv
  for now upd :: time
proof
  fix w :: "'a tracked" and i d
  assume "tracker_inv w" "tracked_deployment w i = Some d"
  then show "tracker_get i w = Inr d" "qd_id d = i \<and> i \<noteq> ''''"
    by (auto simp: tracker_get_def tracker_inv_def tracked_deployment_def)
next
  fix w :: "'a tracked" and i
  assume "tracked_deployment w i = None"
  then show "\<exists>e. tracker_get i w = Inl e" by (simp add: tracker_get_def tracked_deployment_def)
next
  fix w :: "'a tracked" and d :: queued_deployment
  assume "qd_id d \<noteq> ''''" "tracked_deployment w (qd_id d) = None"
  then show "snd (tracker_register upd (Some d) w) = None"
    by (simp add: tracker_register_def tracked_deployment_def)
next
  fix w w' :: "'a tracked" and d :: queued_deployment and e
  assume "tracker_register upd (Some d) w = (w', Some e)"
  then show "w' = w" by (auto simp: tracker_register_def split: if_splits)
next
  fix w :: "'a tracked" and d :: queued_deployment
  assume "tracked_deployment w (qd_id d) \<noteq> None"
  then show "snd (tracker_register upd (Some d) w) \<noteq> None"
    by (auto simp: tracker_register_def tracked_deployment_def)
next
  fix w w' :: "'a tracked" and d :: queued_deployment
  assume "tracker_register upd (Some d) w = (w', None)"
  then show "tracked_deployment w (qd_id d) = None \<and>
      (\<exists>d'. same_but_request d d' \<and> tracked_deployment w' = (tracked_deployment w)(qd_id d \<mapsto> d'))"
    by (rule register_effect) blast
next
  fix w :: "'a tracked" and i st
  assume "tracker_inv w" "tracked_deployment w i \<noteq> None"
  then show "snd (tracker_set_status now upd i st w) = None"
    by (auto simp: tracker_set_status_def tracked_deployment_def tracker_inv_def Let_def)
next
  fix w w' :: "'a tracked" and i st e
  assume "tracker_set_status now upd i st w = (w', Some e)"
  then show "w' = w" by (auto simp: tracker_set_status_def Let_def split: if_splits option.splits)
next
  fix w w' :: "'a tracked" and i st
  assume inv: "tracker_inv w" and s: "tracker_set_status now upd i st w = (w', None)"
  show "\<exists>d d'. tracked_deployment w i = Some d \<and> tracked_deployment w' = (tracked_deployment w)(i \<mapsto> d') \<and>
      qd_status d' = st \<and> qd_id d' = qd_id d \<and> qd_created_at d' = qd_created_at d"
  proof (rule set_status_effect [OF s inv])
    fix d d'
    assume "tracked_deployment w i = Some d" "tracked_deployment w' = (tracked_deployment w)(i \<mapsto> d')"
      and "same_but_request (status_timestamps now st (d\<lparr>qd_status := st\<rparr>)) d'"
    then show ?thesis by (intro exI [of _ d] exI [of _ d']) (simp add: same_but_request_fields)
  qed
next
  fix w :: "'a tracked" and i
  assume "tracker_inv w" "tracked_deployment w i \<noteq> None"
  then show "snd (tracker_remove i w) = None"
    by (auto simp: tracker_remove_def tracked_deployment_def tracker_inv_def Let_def)
next
  fix w w' :: "'a tracked" and i e
  assume "tracker_inv w" "tracker_remove i w = (w', Some e)"
  then show "w' = w \<and> tracked_deployment w i = None"
    by (cases "tracked_deployment w i")
       (auto simp: tracker_remove_def tracked_deployment_def tracker_inv_def Let_def split: if_splits)
next
  fix w w' :: "'a tracked" and i
  assume "tracker_remove i w = (w', None)"
  then show "tracked_deployment w' = (tracked_deployment w)(i := None)" by (rule remove_effect)
next
  fix w :: "'a tracked" and d :: queued_deployment and i st
  assume "tracker_inv w"
  then show "tracker_inv (fst (tracker_register upd (Some d) w))"
    "tracker_inv (fst (tracker_set_status now upd i st w))" "tracker_inv (fst (tracker_remove i w))"
    by (metis prod.collapse tracker_inv_ops)+
qed

section \<open>Statuses and timestamps over time\<close>

text \<open>The operations that change a tracked deployment in place.\<close>

datatype tracker_op =
    TrRegister queued_deployment
  | TrSetStatus string deployment_status
  | TrSetResult string deployment_result
  | TrSetError string goerror

fun tracker_call :: "time \<times> time \<times> tracker_op \<Rightarrow> 's tracked \<Rightarrow> 's tracked \<times> goerror option" where
  "tracker_call (now, upd, TrRegister d) ts = tracker_register upd (Some d) ts"
| "tracker_call (now, upd, TrSetStatus i st) ts = tracker_set_status now upd i st ts"
| "tracker_call (now, upd, TrSetResult i r) ts = tracker_set_result now upd i (Some r) ts"
| "tracker_call (now, upd, TrSetError i e) ts = tracker_set_error now upd i (Some e) ts"

definition tracker_step :: "time \<times> time \<times> tracker_op \<Rightarrow> 's tracked \<Rightarrow> 's tracked" where
  "tracker_step op ts = fst (tracker_call op ts)"

lemma tracker_call_error: "tracker_call op ts = (ts', Some e) \<Longrightarrow> ts' = ts"
  by (cases "(op, ts)" rule: tracker_call.cases)
     (auto simp: tracker_register_def tracker_set_status_def tracker_set_result_def
          tracker_set_error_def Let_def split: if_splits option.splits)

text \<open>\<open>d'\<close> may follow \<open>d\<close>: what was set once is unchanged.\<close>

definition later_deployment :: "queued_deployment \<Rightarrow> queued_deployment \<Rightarrow> bool" where
  "later_deployment d d' \<longleftrightarrow>
     qd_id d' = qd_id d \<and> qd_created_at d' = qd_created_at d \<and>
     (\<forall>t. qd_started_at d = Some t \<longrightarrow> qd_started_at d' = Some t) \<and>
     (\<forall>t. qd_completed_at d = Some t \<longrightarrow> qd_completed_at d' = Some t)"

lemma later_deployment_refl [simp]: "later_deployment d d"
  by (simp add: later_deployment_def)

lemma later_deployment_trans: "later_deployment d d' \<Longrightarrow> later_deployment d' d'' \<Longrightarrow> later_deployment d d''"
  by (simp add: later_deployment_def)

lemma later_same_but_request: "same_but_request d d' \<Longrightarrow> later_deployment d d'"
  by (simp add: later_deployment_def same_but_request_fields)

lemma later_status: "later_deployment d (status_timestamps now st (d\<lparr>qd_status := st\<rparr>))"
  by (simp add: later_deployment_def status_timestamps_def set_completed_def split: deployment_status.split)

lemma later_completed: "later_deployment d (set_completed now (d\<lparr>qd_status := st\<rparr>))"
  "later_deployment d (set_completed now (d\<lparr>qd_last_error := e, qd_status := st\<rparr>))"
  "later_deployment d (d\<lparr>qd_last_error := e\<rparr>)"
  by (simp_all add: later_deployment_def set_completed_def)

lemma tracker_step_later:
  assumes "tracker_inv ts" and "tracked_deployment ts i = Some d"
  shows "tracker_inv (tracker_step op ts) \<and> (\<exists>d'. tracked_deployment (tracker_step op ts) i = Some d' \<and> later_deployment d d')"
proof -
  obtain now upd o1 where op: "op = (now, upd, o1)" by (metis surj_pair)
  obtain ts' r where res: "tracker_call (now, upd, o1) ts = (ts', r)" by fastforce
  have run: "ts' = tracker_step op ts" using res by (simp add: tracker_step_def op)
  have inv: "tracker_inv ts'"
    using res assms(1) by (cases o1) (auto dest: tracker_inv_ops)
  have "\<exists>d'. tracked_deployment ts' i = Some d' \<and> later_deployment d d'"
  proof (cases r)
    case (Some e)
    then have "ts' = ts" using res tracker_call_error by blast
    then show ?thesis using assms(2) by simp
  next
    case None

    show ?thesis
    proof (cases o1)
      case (TrRegister d0)
      then have "tracker_register upd (Some d0) ts = (ts', None)" using res None by simp
      then show ?thesis by (rule register_effect) (use assms(2) in auto)
    next
      case (TrSetStatus j st)
      then have "tracker_set_status now upd j st ts = (ts', None)" using res None by simp
      then show ?thesis using assms(1)
        by (rule set_status_effect)
           (use assms(2) in \<open>auto intro: later_deployment_trans [OF later_status later_same_but_request]\<close>)
    next
      case (TrSetResult j r0)
      then have "tracker_set_result now upd j (Some r0) ts = (ts', None)" using res None by simp
      then show ?thesis using assms(1)
        by (rule set_result_effect)
           (use assms(2) in \<open>auto intro: later_same_but_request later_deployment_trans [OF later_completed(1) later_same_but_request]
               split: if_splits\<close>)
    next
      case (TrSetError j e0)
      then have "tracker_set_error now upd j (Some e0) ts = (ts', None)" using res None by simp
      then show ?thesis using assms(1)
        by (rule set_error_effect)
           (use assms(2) in \<open>auto intro: later_deployment_trans [OF later_completed(3) later_same_but_request]
               later_deployment_trans [OF later_completed(2) later_same_but_request]
               split: if_splits\<close>)
    qed
  qed
  with inv run show ?thesis by simp
qed

text \<open>
  Whatever registrations, status changes, results and errors follow, a tracked deployment
  stays tracked, its creation time never changes, and its start and completion times, once
  set, never change.
\<close>

theorem timestamps_set_once:
  assumes "tracker_inv ts" and "tracked_deployment ts i = Some d"
  shows "\<exists>d'. tracked_deployment (fold tracker_step ops ts) i = Some d' \<and> later_deployment d d'"
  using assms
proof (induction ops arbitrary: ts d)
  case Nil
  then show ?case by simp
next
  case (Cons op ops)
  obtain d1 where "tracker_inv (tracker_step op ts)" "tracked_deployment (tracker_step op ts) i = Some d1"
    "later_deployment d d1" using tracker_step_later [OF Cons.prems] by blast
  with Cons.IH [of "tracker_step op ts" d1] show ?case by (auto intro: later_deployment_trans)
qed

definition waiting_deployment :: queued_deployment where
  "waiting_deployment =
     \<lparr>qd_id = ''dep-1'', qd_request_id = '''',
      qd_request = Some \<lparr>req_resources = [], req_data_sources = [],
        req_options = \<lparr>opt_dry_run = False, opt_timeout = 0, opt_max_retries = 0, opt_provider_config = None\<rparr>,
        req_metadata = Some [(''configuration'', MetaVal (GMap [(''region'', GStr ''eu'')]))]\<rparr>,
      qd_status = StatusQueued, qd_created_at = 63745021234 * second, qd_started_at = None,
      qd_completed_at = None, qd_last_error = None, qd_retry_count = 0, qd_deleted_at = None,
      qd_deleted_by = '''', qd_delete_reason = ''''\<rparr>"

definition sample_tracked :: "file_store tracked" where
  "sample_tracked = fst (tracker_register 1 (Some waiting_deployment) (new_tracker, empty_file_store))"

lemma sample_tracked_facts:
  "tracker_inv sample_tracked" "tracked_deployment sample_tracked ''dep-1'' = Some waiting_deployment"
proof -
  show "tracker_inv sample_tracked"
    unfolding sample_tracked_def by (metis prod.collapse tracker_inv_register tracker_inv_new)
  show "tracked_deployment sample_tracked ''dep-1'' = Some waiting_deployment"
    by (simp add: sample_tracked_def tracker_register_def persist_deployment_def new_tracker_def
        persist_deployment_with_result_def tracked_deployment_def waiting_deployment_def)
qed

theorem timestamps_set_once_witness:
  "\<exists>d'. tracked_deployment (fold tracker_step
       [(70, 70, TrSetStatus ''dep-1'' StatusProcessing), (80, 80, TrSetError ''dep-1'' CtxCanceled),
        (90, 90, TrSetStatus ''dep-1'' StatusProcessing)] sample_tracked) ''dep-1'' = Some d' \<and>
     later_deployment waiting_deployment d'"
  using timestamps_set_once [OF sample_tracked_facts] .

text \<open>
  Storing a result keeps the status only of a completed, failed or canceled deployment.
  Every other status is replaced by completed or failed after the result's success flag,
  also the terminal statuses destroyed and deleted.
\<close>

theorem set_result_status:
  assumes "tracker_set_result now upd i (Some r) ts = (ts', None)" and "tracker_inv ts"
    and "tracked_deployment ts i = Some d"
  shows "\<exists>d'. tracked_deployment ts' i = Some d' \<and>
          qd_status d' = (if qd_status d \<in> {StatusCompleted, StatusFailed, StatusCanceled} then qd_status d
                          else if dr_success r then StatusCompleted else StatusFailed) \<and>
          tracker_get_result i ts' = Inr (Some r)"
  by (rule set_result_effect [OF assms(1,2)])
     (use assms(3) in \<open>auto simp: same_but_request_fields is_terminal_for_result_def tracker_get_result_def\<close>)

definition sample_result :: deployment_result where
  "sample_result = \<lparr>dr_deployment_id = ''dep-1'', dr_success = True, dr_error = None,
     dr_resources = Some [(''aws_s3_bucket.b'', GMap [(''id'', GStr ''x'')])], dr_outputs = None,
     dr_completed_at = 63745021299 * second\<rparr>"

theorem set_result_status_witness:
  "\<exists>ts1 ts2 d. tracker_set_status 5 5 ''dep-1'' StatusDestroyed sample_tracked = (ts1, None) \<and>
     tracker_set_result 6 6 ''dep-1'' (Some sample_result) ts1 = (ts2, None) \<and>
     tracked_deployment ts2 ''dep-1'' = Some d \<and> qd_status d = StatusCompleted"
proof -
  obtain ts1 d1 where s: "tracker_set_status 5 5 ''dep-1'' StatusDestroyed sample_tracked = (ts1, None)"
    "tracked_deployment ts1 = (tracked_deployment sample_tracked)(''dep-1'' \<mapsto> d1)"
    "qd_status d1 = StatusDestroyed" "tracker_inv ts1"
    by (rule etr.set_status_get [OF sample_tracked_facts, of 5 5 StatusDestroyed]) blast
  then have d1: "tracked_deployment ts1 ''dep-1'' = Some d1" by simp
  then obtain ts2 where r: "tracker_set_result 6 6 ''dep-1'' (Some sample_result) ts1 = (ts2, None)"
    by (auto simp: tracker_set_result_def tracked_deployment_def Let_def)
  obtain d2 where "tracked_deployment ts2 ''dep-1'' = Some d2" "qd_status d2 = StatusCompleted"
    using set_result_status [OF r s(4) d1] s(3) by (auto simp: sample_result_def)
  with s(1) r show ?thesis by blast
qed

section \<open>The tracker on the file store\<close>

lemma delete_then_create_serial:
  assumes "delete_deployment_state i s = (s1, None)" and "update_deployment_state i st s1 = (s2, None)"
  shows "\<exists>meta. map_of (fs_metas s2) i = Some meta \<and> mt_serial meta = 1"
proof -
  have "map_of (fs_metas s1) i = None"
    using assms(1) by (auto simp: delete_deployment_state_def Let_def split: option.splits if_splits)
  with assms(2) show ?thesis
    by (rule_tac update_deployment_state_effect [OF assms(2)]) (auto split: option.splits)
qed

lemma ops_simps [simp]:
  "so_get file_store_ops = fs_get_deployment" "so_create file_store_ops = fs_create_deployment"
  "so_delete file_store_ops = delete_deployment_state" "so_list file_store_ops = fs_list_deployments"
  by (simp_all add: file_store_ops_def)

lemma update_deployment_state_clean:
  assumes "no_failures s"
  shows "\<exists>s'. update_deployment_state i st s = (s', None)"
  using assms
  by (auto simp: update_deployment_state_def get_or_create_meta_def save_deployment_metadata_def
      atomic_write_def no_failures_def Let_def split: option.split)

lemma delete_deployment_state_done:
  "(\<And>d n. fs_fails s (RemoveOf d n) = None) \<Longrightarrow> \<exists>s'. delete_deployment_state i s = (s', None)"
  by (simp add: delete_deployment_state_def Let_def)

lemma delete_deployment_state_clean:
  assumes "no_failures s"
  shows "\<exists>s'. delete_deployment_state i s = (s', None) \<and> no_failures s'"
  using assms by (simp add: delete_deployment_state_def no_failures_def Let_def)

text \<open>
  Persisting a record that the file store holds already: the record is deleted and created
  again, with the creation time that was read from the store.
\<close>

lemma persist_metadata_file_store:
  assumes "no_failures s" and "fs_get_deployment (dm_deployment_id m) s = Inr (Some old)"
  shows "\<exists>meta. map_of (fs_metas (persist_metadata file_store_ops m s)) (dm_deployment_id m) = Some meta \<and>
           mt_serial meta = 1 \<and>
           fs_view (persist_metadata file_store_ops m s) (dm_deployment_id m) = Some (fs_reloaded m)"
proof -
  let ?i = "dm_deployment_id m"
  let ?m = "m\<lparr>dm_created_at := dm_created_at old\<rparr>"
  obtain s1 where d: "delete_deployment_state ?i s = (s1, None)" "no_failures s1"
    using delete_deployment_state_clean [OF assms(1)] by blast
  obtain s2 where c: "update_deployment_state ?i (legacy_state ?m) s1 = (s2, None)"
    using update_deployment_state_clean [OF d(2)] by blast
  have p: "persist_metadata file_store_ops m s = s2"
    using assms(2) d(1) c by (simp add: persist_metadata_def fs_create_deployment_def)
  have reads: "reads_succeed s1" using d(2) by (simp add: reads_succeed_def no_failures_def)
  have "fs_view s2 ?i = Some (fs_reloaded ?m)"
    using fs_view_create [OF reads, of ?m s2] c by (simp add: fs_create_deployment_def)
  moreover have "fs_reloaded ?m = fs_reloaded m" by (simp add: fs_reloaded_def)
  ultimately show ?thesis using delete_then_create_serial [OF d(1) c] p by simp
qed

text \<open>
  With the file store, every change of the status of a deployment the store knows resets
  the deployment's serial to 1, and the persisted record has no creation time, although the
  tracker passes on the one it read.
\<close>

theorem status_change_resets_serial:
  assumes "et_store (fst ts) = Some file_store_ops" and "tracker_inv ts" and "no_failures (snd ts)"
    and "tracked_deployment ts i = Some d" and "map_of (et_results (fst ts)) i = None"
    and "fs_get_deployment i (snd ts) = Inr (Some old)"
  shows "\<exists>ts' meta m. tracker_set_status now upd i st ts = (ts', None) \<and>
           map_of (fs_metas (snd ts')) i = Some meta \<and> mt_serial meta = 1 \<and>
           fs_get_deployment i (snd ts') = Inr (Some m) \<and>
           dm_status m = status_of_string (status_string st) \<and> dm_created_at m = time_zero"
proof -
  define d' where "d' = status_timestamps now st (d\<lparr>qd_status := st\<rparr>)"
  define m where "m = queued_deployment_to_metadata upd d'"
  have id: "qd_id d = i" "i \<noteq> ''''" using assms(2,4) by (auto simp: tracker_inv_tracked)
  have mi: "dm_deployment_id m = i" "dm_status m = st"
    using id by (simp_all add: m_def d'_def queued_deployment_to_metadata_def)
  obtain ts' where run: "tracker_set_status now upd i st ts = (ts', None)"
      "ts' = persist_deployment upd d' (put_deployment d' ts)"
    using assms(4) id by (simp add: tracker_set_status_def tracked_deployment_def d'_def Let_def)
  have snd': "snd ts' = persist_metadata file_store_ops m (snd ts)"
    using run(2) assms(1,5) id
    by (simp add: persist_deployment_def persist_deployment_with_result_def put_deployment_def d'_def m_def Let_def)
  from persist_metadata_file_store [OF assms(3), of m old] assms(6) mi snd'
  obtain meta where "map_of (fs_metas (snd ts')) i = Some meta" "mt_serial meta = 1"
    "fs_view (snd ts') i = Some (fs_reloaded m)" by auto
  then show ?thesis using run(1) mi
    by (auto simp: fs_view_def fs_reloaded_def split: sum.splits option.splits)
qed

definition stored_tracked :: "file_store tracked" where
  "stored_tracked =
     (\<lparr>et_deployments = [(''dep-1'', waiting_deployment)], et_results = [], et_store = Some file_store_ops\<rparr>,
      fst (fs_create_deployment (queued_deployment_to_metadata 9 waiting_deployment) empty_file_store))"

lemma stored_tracked_facts:
  "et_store (fst stored_tracked) = Some file_store_ops" "tracker_inv stored_tracked"
  "no_failures (snd stored_tracked)" "tracked_deployment stored_tracked ''dep-1'' = Some waiting_deployment"
  "map_of (et_results (fst stored_tracked)) ''dep-1'' = None"
  "\<exists>old. fs_get_deployment ''dep-1'' (snd stored_tracked) = Inr (Some old)"
proof -
  have clean: "no_failures empty_file_store" by (simp add: no_failures_def empty_file_store_def)
  obtain s where c: "fs_create_deployment (queued_deployment_to_metadata 9 waiting_deployment) empty_file_store = (s, None)"
    using update_deployment_state_clean [OF clean] by (auto simp: fs_create_deployment_def)
  have "reads_succeed empty_file_store" by (simp add: reads_succeed_def empty_file_store_def)
  from fs_get_updated [OF c [unfolded fs_create_deployment_def] this] c
  show "\<exists>old. fs_get_deployment ''dep-1'' (snd stored_tracked) = Inr (Some old)"
    by (auto simp: stored_tracked_def queued_deployment_to_metadata_def waiting_deployment_def)
  show "no_failures (snd stored_tracked)"
    using fs_create_fields(1) [OF c] clean c by (simp add: stored_tracked_def no_failures_def)
qed (auto simp: stored_tracked_def tracker_inv_def tracked_deployment_def waiting_deployment_def)

theorem status_change_resets_serial_witness:
  "\<exists>ts' meta. tracker_set_status 5 5 ''dep-1'' StatusProcessing stored_tracked = (ts', None) \<and>
     map_of (fs_metas (snd ts')) ''dep-1'' = Some meta \<and> mt_serial meta = 1"
proof -
  obtain old where "fs_get_deployment ''dep-1'' (snd stored_tracked) = Inr (Some old)"
    using stored_tracked_facts(6) by blast
  from status_change_resets_serial [OF stored_tracked_facts(1-5) this, of 5 5 StatusProcessing]
  show ?thesis by blast
qed

text \<open>
  Persisting is a deletion and a creation, not a replacement: when the second write
  fails, the status change still succeeds for its caller while the store has lost the
  deployment's record.
\<close>

theorem failed_recreate_loses_record:
  assumes "et_store (fst ts) = Some file_store_ops" and "tracker_inv ts"
    and "tracked_deployment ts i = Some d" and "map_of (et_results (fst ts)) i = None"
    and "fs_get_deployment i (snd ts) = Inr (Some old)"
    and "\<And>c. c \<noteq> WriteOf ''deployments'' i \<Longrightarrow> fs_fails (snd ts) c = None"
    and "fs_fails (snd ts) (WriteOf ''deployments'' i) = Some e"
  shows "\<exists>ts'. tracker_set_status now upd i st ts = (ts', None) \<and> fs_view (snd ts') i = None"
proof -
  define d' where "d' = status_timestamps now st (d\<lparr>qd_status := st\<rparr>)"
  define m where "m = queued_deployment_to_metadata upd d'"
  have id: "qd_id d = i" "i \<noteq> ''''" using assms(2,3) by (auto simp: tracker_inv_tracked)
  have mi: "dm_deployment_id m = i" using id by (simp add: m_def d'_def queued_deployment_to_metadata_def)
  obtain ts' where run: "tracker_set_status now upd i st ts = (ts', None)"
      "ts' = persist_deployment upd d' (put_deployment d' ts)"
    using assms(3) id by (simp add: tracker_set_status_def tracked_deployment_def d'_def Let_def)
  have snd': "snd ts' = persist_metadata file_store_ops m (snd ts)"
    using run(2) assms(1,4) id
    by (simp add: persist_deployment_def persist_deployment_with_result_def put_deployment_def d'_def m_def Let_def)
  obtain s1 where del: "delete_deployment_state i (snd ts) = (s1, None)"
    using delete_deployment_state_done [of "snd ts" i] assms(6) by auto
  then have s1: "fs_deployments s1 = map_del i (fs_deployments (snd ts))" "fs_fails s1 = fs_fails (snd ts)"
    using delete_deployment_state_fields by blast+
  have "\<exists>s2 r. update_deployment_state i st' s1 = (s2, r) \<and> fs_deployments s2 = fs_deployments s1" for st'
  proof -
    obtain s2 meta where g: "get_or_create_meta i s1 = (s2, meta)" by fastforce
    note gf = get_or_create_meta_fields [OF g]
    show ?thesis using assms(6,7) gf s1(2) by (simp add: update_deployment_state_def g atomic_write_def Let_def)
  qed
  then obtain s2 r where "update_deployment_state i (legacy_state (m\<lparr>dm_created_at := dm_created_at old\<rparr>)) s1 = (s2, r)"
    "fs_deployments s2 = fs_deployments s1" by blast
  then have "map_of (fs_deployments (snd ts')) i = None"
    using snd' assms(5) del mi s1(1) by (simp add: persist_metadata_def fs_create_deployment_def)
  then have "fs_view (snd ts') i = None"
    by (simp add: fs_view_def fs_get_deployment_def get_deployment_state_def)
  with run(1) show ?thesis by blast
qed

theorem failed_recreate_loses_record_witness:
  "\<exists>ts'. tracker_set_status 5 5 ''dep-1'' StatusProcessing
      (fst stored_tracked, (snd stored_tracked)\<lparr>fs_fails :=
         (\<lambda>c. if c = WriteOf ''deployments'' ''dep-1'' then Some (ErrorString ''disk full'') else None)\<rparr>) = (ts', None) \<and>
     fs_view (snd ts') ''dep-1'' = None"
proof -
  let ?s = "(snd stored_tracked)\<lparr>fs_fails :=
      (\<lambda>c. if c = WriteOf ''deployments'' ''dep-1'' then Some (ErrorString ''disk full'') else None)\<rparr>"
  obtain old where old: "fs_get_deployment ''dep-1'' (snd stored_tracked) = Inr (Some old)"
    using stored_tracked_facts(6) by blast
  have "fs_get_deployment ''dep-1'' ?s = Inr (Some old)"
    using old stored_tracked_facts(3) by (simp add: fs_get_deployment_def get_deployment_state_def no_failures_def cong: option.case_cong)
  then show ?thesis
    using stored_tracked_facts
    by (intro failed_recreate_loses_record) (simp_all add: tracker_inv_def tracked_deployment_def)
qed

section \<open>Restoring after a restart\<close>

lemma load_single_tracked:
  "map_of (et_deployments (load_single_deployment m t)) =
     (map_of (et_deployments t))(dm_deployment_id m \<mapsto> metadata_to_queued_deployment m)"
  by (simp add: load_single_deployment_def metadata_to_queued_deployment_def Let_def split: option.split)

lemma fold_load_tracked:
  "map_of (et_deployments (fold load_single_deployment ms t)) i =
     (case find (\<lambda>m. dm_deployment_id m = i) (rev ms) of
        Some m \<Rightarrow> Some (metadata_to_queued_deployment m)
      | None \<Rightarrow> map_of (et_deployments t) i)"
  by (induction ms rule: rev_induct) (auto simp: load_single_tracked)

lemma list_deployments_set:
  "m \<in> set (list_deployments_of ids s) \<longleftrightarrow> (\<exists>i \<in> set ids. fs_view s i = Some m)"
  by (induction ids) (auto simp: fs_view_def split: sum.splits option.splits)

lemma fs_view_id: "fs_view s i = Some m \<Longrightarrow> dm_deployment_id m = i"
  by (auto simp: fs_view_def fs_get_deployment_def metadata_of_state_def split: sum.splits)

lemma fs_view_file: "fs_view s i = Some m \<Longrightarrow> i \<in> fst ` set (fs_deployments s)"
  by (auto simp: fs_view_def fs_get_deployment_def get_deployment_state_def dest!: map_of_SomeD
      split: sum.splits option.splits intro: rev_image_eqI)

text \<open>The deployment files hold what JSON can hold.\<close>

definition json_files :: "file_store \<Rightarrow> bool" where
  "json_files s \<longleftrightarrow> (\<forall>i v. map_of (fs_deployments s) i = Some (JsonFile v) \<longrightarrow> json_reload v = v)"

lemma json_files_update: "json_files s \<Longrightarrow> json_files (fst (update_deployment_state i st s))"
proof -
  assume j: "json_files s"
  obtain s' r where u: "update_deployment_state i st s = (s', r)" by fastforce
  show ?thesis
    by (rule update_deployment_state_effect [OF u])
       (use j u in \<open>auto simp: json_files_def versioned_state_def split: if_splits\<close>)
qed

lemma reload_map_no_time: "reload_map m = m \<Longrightarrow> as_time (map_of m k) = None"
proof -
  assume "reload_map m = m"
  then have "map_option json_reload (map_of m k) = map_of m k" by (metis map_of_reload)
  then show ?thesis by (cases "map_of m k" rule: as_time.cases) auto
qed

lemma fs_view_json:
  assumes "json_files s" and "fs_view s i = Some m"
  shows "dm_created_at m = time_zero \<and> dm_last_applied_at m = None"
proof -
  from assms(2) obtain st where st: "get_deployment_state i s = Inr st" "m = metadata_of_state i st"
    by (auto simp: fs_view_def fs_get_deployment_def split: sum.splits option.splits)
  have "reload_map st = st"
    using st(1) assms(1) by (auto simp: get_deployment_state_def json_files_def as_map_Some reload_map_def
        split: option.splits json_file.splits gval.splits dest!: spec)
       (metis (no_types, lifting) gval.inject(7) json_reload_GMap map_of_reload option.inject option.simps(9) reload_map_def)+
  then show ?thesis using reload_map_no_time st(2) by (simp add: metadata_of_state_def opt_else_def)
qed

lemma restored_view:
  assumes "tracker_load (Some file_store_ops) (new_tracker, s) = (ts', None)"
  shows "tracked_deployment ts' i = map_option metadata_to_queued_deployment (fs_view s i)"
proof -
  let ?ms = "list_deployments_of (map fst (fs_deployments s)) s"
  have "fst ts' = fold load_single_deployment ?ms (new_tracker\<lparr>et_store := Some file_store_ops\<rparr>)"
    using assms(1) by (auto simp: tracker_load_def fs_list_deployments_def Let_def split: option.splits sum.splits)
  then have tr: "tracked_deployment ts' i =
      (case find (\<lambda>m. dm_deployment_id m = i) (rev ?ms) of
         Some m \<Rightarrow> Some (metadata_to_queued_deployment m) | None \<Rightarrow> None)"
    by (simp add: tracked_deployment_def fold_load_tracked new_tracker_def split: option.split)
  show ?thesis
  proof (cases "find (\<lambda>m. dm_deployment_id m = i) (rev ?ms)")
    case None
    have "fs_view s i = None"
    proof (rule ccontr)
      assume "fs_view s i \<noteq> None"
      then obtain m where m: "fs_view s i = Some m" by blast
      then have "i \<in> set (map fst (fs_deployments s))" using fs_view_file by fastforce
      then have "m \<in> set ?ms" unfolding list_deployments_set using m by blast
      with m None show False using fs_view_id [OF m] by (auto simp: find_None_iff)
    qed
    then show ?thesis using tr None by simp
  next
    case (Some m)
    then have "m \<in> set ?ms" "dm_deployment_id m = i"
      by (auto simp: find_Some_iff in_set_conv_nth) (metis in_set_conv_nth length_rev nth_mem set_rev)
    then have "fs_view s i = Some m" using list_deployments_set fs_view_id by metis
    then show ?thesis using tr Some by simp
  qed
qed

text \<open>
  A tracker that loads from the file store tracks exactly the deployments whose files can
  be read, with their statuses, but without their requests, their creation, start and
  completion times and their errors.
\<close>

theorem restart_forgets_requests:
  assumes "tracker_load (Some file_store_ops) (new_tracker, s) = (ts', None)" and "json_files s"
  shows "tracked_deployment ts' i = map_option metadata_to_queued_deployment (fs_view s i) \<and>
         (\<forall>d. tracked_deployment ts' i = Some d \<longrightarrow>
            qd_request d = None \<and> qd_created_at d = time_zero \<and> qd_started_at d = None \<and>
            qd_completed_at d = None \<and> qd_last_error d = None)"
  using restored_view [OF assms(1), of i] fs_view_json [OF assms(2), of i]
  by (auto simp: metadata_to_queued_deployment_def)

theorem restart_forgets_requests_witness:
  "\<exists>ts' d. tracker_load (Some file_store_ops) (new_tracker, snd stored_tracked) = (ts', None) \<and>
     tracked_deployment ts' ''dep-1'' = Some d \<and> qd_request d = None \<and> qd_created_at d = time_zero"
proof -
  have j: "json_files (snd stored_tracked)"
    unfolding stored_tracked_def snd_conv fs_create_deployment_def
    by (rule json_files_update) (simp add: json_files_def empty_file_store_def)
  obtain ts' where l: "tracker_load (Some file_store_ops) (new_tracker, snd stored_tracked) = (ts', None)"
    using stored_tracked_facts(3) by (simp add: tracker_load_def fs_list_deployments_def no_failures_def Let_def)
  obtain old where "fs_view (snd stored_tracked) ''dep-1'' = Some old"
    using stored_tracked_facts(6) by (auto simp: fs_view_def)
  then show ?thesis using restart_forgets_requests [OF l j, of "''dep-1''"] l by auto
qed

section \<open>Results through the store\<close>

text \<open>
  A deployment result that is persisted and restored has the same success flag, the same
  resources and outputs up to their JSON form, the completion time truncated to the second,
  and an error with the same message (none for an empty message).
\<close>

theorem result_round_trip:
  assumes "0 \<le> dr_completed_at r" and "dr_completed_at r < max_time"
  shows "load_result_from_data i (reload_map (result_data r)) =
     \<lparr>dr_deployment_id = i, dr_success = dr_success r,
      dr_error = (case dr_error r of
                    Some e \<Rightarrow> if error_message e \<noteq> '''' then Some (ErrorString (error_message e)) else None
                  | None \<Rightarrow> None),
      dr_resources = map_option reload_map (dr_resources r),
      dr_outputs = map_option reload_map (dr_outputs r),
      dr_completed_at = dr_completed_at r - dr_completed_at r mod second\<rparr>"
  using parse_format_rfc3339 [OF assms]
  by (cases "dr_error r"; cases "dr_resources r"; cases "dr_outputs r")
     (simp_all add: load_result_from_data_def result_data_def gmap_or_nil_def opt_else_def
        time_is_zero_def time_zero_def)

theorem result_round_trip_witness:
  "dr_completed_at (load_result_from_data ''dep-1'' (reload_map (result_data
      (sample_result\<lparr>dr_completed_at := 63745021299 * second + 7\<rparr>)))) = 63745021299 * second"
proof -
  let ?r = "sample_result\<lparr>dr_completed_at := 63745021299 * second + 7\<rparr>"
  have "0 \<le> dr_completed_at ?r" "dr_completed_at ?r < max_time"
    by (simp_all add: max_time_def second_def millisecond_def)
  from result_round_trip [OF this, of "''dep-1''"] show ?thesis
    by (simp add: second_def millisecond_def)
qed

end
