(* ===== verification/Transactions.thy ===== *)
theory Transactions
  imports Embedded_Queue Embedded_Tracker
begin

text \<open>
  The transaction coordinator of \<^verbatim>\<open>internal/deployment/transaction.go\<close> and the transaction
  that creates a deployment. Operations and compensations act on a world \<open>'w\<close>;
  the coordinator's own map of transactions is beside it. \<open>ctx i\<close> is the context's error when
  the loop reaches operation \<open>i\<close>.
\<close>

section \<open>The coordinator\<close>

record 'w tx_operation =
  op_name :: string
  op_func :: "'w \<Rightarrow> 'w \<times> goerror option"

datatype transaction_state =
    TransactionPending
  | TransactionInProgress
  | TransactionCommitted
  | TransactionRolledBack
  | TransactionFailed

record 'w transaction =
  tx_id :: string
  tx_operations :: "'w tx_operation list"
  tx_compensations :: "'w tx_operation list"
  tx_state :: transaction_state
  tx_started_at :: time
  tx_completed_at :: "time option"

type_synonym 'w coordinator = "(string \<times> 'w transaction) list"

definition new_coordinator :: "'w coordinator" where
  "new_coordinator = []"

definition begin_transaction :: "time \<Rightarrow> string \<Rightarrow> 'w coordinator \<Rightarrow> 'w coordinator \<times> 'w transaction" where
  "begin_transaction now i tc =
     (let tx = \<lparr>tx_id = i, tx_operations = [], tx_compensations = [], tx_state = TransactionPending,
                tx_started_at = now, tx_completed_at = None\<rparr>
      in (map_put i tx tc, tx))"

definition add_operation :: "'w tx_operation \<Rightarrow> 'w tx_operation \<Rightarrow> 'w transaction \<Rightarrow> 'w transaction" where
  "add_operation op undo tx =
     tx\<lparr>tx_operations := tx_operations tx @ [op], tx_compensations := undo # tx_compensations tx\<rparr>"

text \<open>The loop over the operations: the world, how many completed, and the error that ended it.\<close>

fun run_operations :: "(nat \<Rightarrow> ctx_err) \<Rightarrow> nat \<Rightarrow> 'w tx_operation list \<Rightarrow> 'w \<Rightarrow> 'w \<times> nat \<times> goerror option" where
  "run_operations ctx n [] w = (w, n, None)"
| "run_operations ctx n (op # ops) w =
     (case ctx n of
        Some e \<Rightarrow> (w, n, Some (WrapError ''transaction canceled: '' e ''''))
      | None \<Rightarrow>
          (case op_func op w of
             (w', Some e) \<Rightarrow> (w', n, Some (WrapError (''operation '' @ op_name op @ '' failed: '') e ''''))
           | (w', None) \<Rightarrow> run_operations ctx (Suc n) ops w'))"

fun run_compensations :: "'w tx_operation list \<Rightarrow> 'w \<Rightarrow> 'w \<times> goerror list" where
  "run_compensations [] w = (w, [])"
| "run_compensations (undo # undos) w =
     (case op_func undo w of
        (w', r) \<Rightarrow>
          (case run_compensations undos w' of
             (w'', es) \<Rightarrow>
               (w'', (case r of
                        None \<Rightarrow> es
                      | Some e \<Rightarrow> WrapError (''compensation '' @ op_name undo @ '' failed: '') e '''' # es))))"

text \<open>\<^verbatim>\<open>%v\<close> of a slice of errors.\<close>

fun errors_text :: "goerror list \<Rightarrow> string" where
  "errors_text [] = ''''"
| "errors_text [e] = error_message e"
| "errors_text (e # es) = error_message e @ '' '' @ errors_text es"

definition tx_rollback ::
  "time \<Rightarrow> 'w transaction \<Rightarrow> nat \<Rightarrow> goerror \<Rightarrow> 'w \<Rightarrow> 'w \<times> 'w transaction \<times> goerror" where
  "tx_rollback now tx completedOps originalErr w =
     (case run_compensations (take completedOps (tx_compensations tx)) w of
        (w', es) \<Rightarrow>
          (w', tx\<lparr>tx_state := (if es \<noteq> [] then TransactionFailed else TransactionRolledBack),
                  tx_completed_at := Some now\<rparr>,
           if es \<noteq> [] then WrapError ''transaction failed: '' originalErr
                                ('' (rollback errors: ['' @ errors_text es @ ''])'')
           else originalErr))"

definition tx_execute ::
  "time \<Rightarrow> (nat \<Rightarrow> ctx_err) \<Rightarrow> string \<Rightarrow> 'w coordinator \<times> 'w \<Rightarrow> ('w coordinator \<times> 'w) \<times> goerror option" where
  "tx_execute now ctx i s =
     (case s of (tc, w) \<Rightarrow>
      (case map_of tc i of
         None \<Rightarrow> (s, Some (ErrorString (''transaction '' @ i @ '' not found'')))
       | Some tx0 \<Rightarrow>
           (let tx = tx0\<lparr>tx_state := TransactionInProgress\<rparr> in
            case run_operations ctx 0 (tx_operations tx) w of
              (w', n, None) \<Rightarrow>
                ((map_put i (tx\<lparr>tx_state := TransactionCommitted, tx_completed_at := Some now\<rparr>) tc, w'), None)
            | (w', n, Some e) \<Rightarrow>
                (case tx_rollback now tx n e w' of
                   (w'', tx', err) \<Rightarrow> ((map_put i tx' tc, w''), Some err)))))"

section \<open>Creating a deployment\<close>

text \<open>
  The four operations of the tracker and the queue the transaction calls. \<open>deploy_backend\<close>
  is the pair of the embedded implementations.
\<close>

record 'w backend =
  bk_register :: "queued_deployment \<Rightarrow> 'w \<Rightarrow> 'w \<times> goerror option"
  bk_remove :: "string \<Rightarrow> 'w \<Rightarrow> 'w \<times> goerror option"
  bk_enqueue :: "queued_deployment \<Rightarrow> 'w \<Rightarrow> 'w \<times> goerror option"
  bk_set_status :: "string \<Rightarrow> deployment_status \<Rightarrow> 'w \<Rightarrow> 'w \<times> goerror option"

definition create_deployment_transaction ::
  "'w backend \<Rightarrow> time \<Rightarrow> queued_deployment \<Rightarrow> 'w coordinator \<times> 'w \<Rightarrow>
     ('w coordinator \<times> 'w) \<times> goerror option" where
  "create_deployment_transaction bk now d s =
     (case s of (tc, w) \<Rightarrow>
      (let (tc1, tx0) = begin_transaction now (qd_id d) tc;
           tx1 = add_operation
                   \<lparr>op_name = ''register_tracker'', op_func = bk_register bk d\<rparr>
                   \<lparr>op_name = ''unregister_tracker'', op_func = bk_remove bk (qd_id d)\<rparr> tx0;
           tx2 = add_operation
                   \<lparr>op_name = ''enqueue_deployment'', op_func = bk_enqueue bk d\<rparr>
                   \<lparr>op_name = ''dequeue_deployment'',
                    op_func = bk_set_status bk (qd_id d) StatusCanceled\<rparr> tx1
       in tx_execute now (\<lambda>_. None) (qd_id d) (map_put (qd_id d) tx2 tc1, w)))"

text \<open>The world of the embedded implementations: the tracker with its store, and the queue.\<close>

type_synonym 's deploy_world = "'s tracked \<times> emb_queue"

definition on_tracker :: "('s tracked \<Rightarrow> 's tracked \<times> 'r) \<Rightarrow> 's deploy_world \<Rightarrow> 's deploy_world \<times> 'r" where
  "on_tracker f w = (case f (fst w) of (t, r) \<Rightarrow> ((t, snd w), r))"

definition enqueue_result :: "time \<Rightarrow> queued_deployment \<Rightarrow> 's deploy_world \<Rightarrow> 's deploy_world \<times> goerror option" where
  "enqueue_result now d w =
     (case enqueue now None True (Some d) (snd w) of
        (q, Returned e) \<Rightarrow> ((fst w, q), e)
      | (q, Panicked p) \<Rightarrow> ((fst w, q), Some (ErrorString p)))"

definition deploy_backend :: "time \<Rightarrow> time \<Rightarrow> 's deploy_world backend" where
  "deploy_backend now upd =
     \<lparr>bk_register = (\<lambda>d. on_tracker (tracker_register upd (Some d))),
      bk_remove = (\<lambda>i. on_tracker (tracker_remove i)),
      bk_enqueue = enqueue_result now,
      bk_set_status = (\<lambda>i st. on_tracker (tracker_set_status now upd i st))\<rparr>"

lemma enqueue_no_panic: "enqueue now ctx pick d q \<noteq> (q', Panicked p)"
  by (auto simp: enqueue_def enqueue_begin_def enqueue_send_def enqueue_finish_def deploy_ctx_err_def Let_def
      split: option.splits if_splits)

section \<open>Rollback\<close>

lemma add_operations:
  "tx_operations (fold (\<lambda>(op, undo). add_operation op undo) ps tx) = tx_operations tx @ map fst ps"
  "tx_compensations (fold (\<lambda>(op, undo). add_operation op undo) ps tx) = rev (map snd ps) @ tx_compensations tx"
  by (induction ps arbitrary: tx) (auto simp: add_operation_def split_beta)

text \<open>
  When an operation fails after \<open>k\<close> operations have completed, the compensations that
  run are those of the last \<open>k\<close> operations of the transaction, which have not all run,
  instead of those of the first \<open>k\<close>, which have.
\<close>

theorem rollback_compensates_last_operations:
  assumes "map_of tc i = Some (fold (\<lambda>(op, undo). add_operation op undo) ps base)"
    and "tx_operations base = []" and "tx_compensations base = []"
    and "run_operations ctx 0 (map fst ps) w = (w', k, Some e)"
  shows "\<exists>tc' err. tx_execute now ctx i (tc, w) =
      ((tc', fst (run_compensations (rev (drop (length ps - k) (map snd ps))) w')), Some err)"
proof -
  have "tx_operations (fold (\<lambda>(op, undo). add_operation op undo) ps base) = map fst ps"
    "tx_compensations (fold (\<lambda>(op, undo). add_operation op undo) ps base) = rev (map snd ps)"
    using assms(2,3) by (simp_all add: add_operations)
  then show ?thesis
    using assms(1,4) by (simp add: tx_execute_def tx_rollback_def take_rev Let_def split: prod.split)
qed

text \<open>Three operations that push their number; the compensations push ten times it.\<close>

definition push_op :: "string \<Rightarrow> nat \<Rightarrow> nat list tx_operation" where
  "push_op name n = \<lparr>op_name = name, op_func = (\<lambda>w. (n # w, None))\<rparr>"

definition failing_op :: "nat list tx_operation" where
  "failing_op = \<lparr>op_name = ''third'', op_func = (\<lambda>w. (w, Some (ErrorString ''no'')))\<rparr>"

definition three_operations :: "(nat list tx_operation \<times> nat list tx_operation) list" where
  "three_operations = [(push_op ''first'' 1, push_op ''undo first'' 10),
     (failing_op, push_op ''undo second'' 20), (push_op ''third'' 3, push_op ''undo third'' 30)]"

definition three_transaction :: "nat list transaction" where
  "three_transaction = fold (\<lambda>(op, undo). add_operation op undo) three_operations (snd (begin_transaction 0 ''t'' []))"

text \<open>The first operation completed, the second failed: the third one's compensation runs.\<close>

theorem rollback_compensates_last_operations_witness:
  "\<exists>tc' err. tx_execute 9 (\<lambda>_. None) ''t'' ([(''t'', three_transaction)], []) = ((tc', [30, 1]), Some err)"
proof -
  have run: "run_operations (\<lambda>_. None) 0 (map fst three_operations) [] =
      ([1], 1, Some (WrapError ''operation third failed: '' (ErrorString ''no'') ''''))"
    by (simp add: three_operations_def push_op_def failing_op_def)
  have "\<exists>tc' err. tx_execute 9 (\<lambda>_. None) ''t'' ([(''t'', three_transaction)], []) =
      ((tc', fst (run_compensations (rev (drop (length three_operations - 1) (map snd three_operations))) [1])), Some err)"
    by (rule rollback_compensates_last_operations [OF _ _ _ run, where base = "snd (begin_transaction 0 ''t'' [])"])
       (simp_all add: three_transaction_def begin_transaction_def Let_def)
  then show ?thesis by (simp add: three_operations_def push_op_def)
qed

section \<open>The contract of the transaction's backend\<close>

text \<open>
  A tracker together with a queue: \<open>waiting\<close> are the deployments that wait for a worker. The
  lemmas about the creation of a deployment are proved from this contract.
\<close>

locale transaction_backend = deployment_tracker reg get set_st rem lookup inv
  for reg :: "queued_deployment \<Rightarrow> 'w \<Rightarrow> 'w \<times> goerror option"
    and get :: "string \<Rightarrow> 'w \<Rightarrow> goerror + queued_deployment"
    and set_st :: "string \<Rightarrow> deployment_status \<Rightarrow> 'w \<Rightarrow> 'w \<times> goerror option"
    and rem :: "string \<Rightarrow> 'w \<Rightarrow> 'w \<times> goerror option"
    and lookup :: "'w \<Rightarrow> string \<Rightarrow> queued_deployment option"
    and inv :: "'w \<Rightarrow> bool" +
  fixes enq :: "queued_deployment \<Rightarrow> 'w \<Rightarrow> 'w \<times> goerror option"
    and waiting :: "'w \<Rightarrow> queued_deployment list"
    and has_room :: "'w \<Rightarrow> bool"
  assumes enq_room: "inv w \<Longrightarrow> has_room w \<Longrightarrow> qd_id d \<noteq> '''' \<Longrightarrow> snd (enq d w) = None"
    and enq_full: "inv w \<Longrightarrow> \<not> has_room w \<Longrightarrow> snd (enq d w) \<noteq> None"
    and enq_done: "inv w \<Longrightarrow> enq d w = (w', None) \<Longrightarrow> waiting w' = waiting w @ [d] \<and> lookup w' = lookup w"
    and enq_refused: "inv w \<Longrightarrow> enq d w = (w', Some e) \<Longrightarrow> waiting w' = waiting w \<and> lookup w' = lookup w"
    and enq_inv: "inv w \<Longrightarrow> inv (fst (enq d w))"
    and reg_waiting: "waiting (fst (reg d w)) = waiting w" "has_room (fst (reg d w)) = has_room w"
    and set_waiting: "waiting (fst (set_st i st w)) = waiting w"
begin

abbreviation create :: "time \<Rightarrow> queued_deployment \<Rightarrow> 'w coordinator \<times> 'w \<Rightarrow> ('w coordinator \<times> 'w) \<times> goerror option" where
  "create \<equiv> create_deployment_transaction
     \<lparr>bk_register = reg, bk_remove = rem, bk_enqueue = enq, bk_set_status = set_st\<rparr>"

lemmas create_defs =
  create_deployment_transaction_def begin_transaction_def add_operation_def tx_execute_def tx_rollback_def Let_def

lemma create_succeeds:
  assumes "inv w" and "qd_id d \<noteq> ''''" and "lookup w (qd_id d) = None" and "has_room w"
  obtains tc' w' d' where "create now d (tc, w) = ((tc', w'), None)" and "waiting w' = waiting w @ [d]"
    and "lookup w' = (lookup w)(qd_id d \<mapsto> d')" and "same_but_request d d'" and "inv w'"
proof -
  obtain w1 d' where r: "reg d w = (w1, None)" "same_but_request d d'"
    "lookup w1 = (lookup w)(qd_id d \<mapsto> d')" "inv w1"
    using register_get [OF assms(1-3)] by metis
  have room: "has_room w1" "waiting w1 = waiting w" using reg_waiting [of d w] r(1) assms(4) by simp_all
  obtain w2 where e: "enq d w1 = (w2, None)" using enq_room [OF r(4) room(1) assms(2)] by (metis prod.collapse)
  have inv2: "inv w2" using enq_inv [OF r(4), of d] e by simp
  have res: "\<exists>tc'. create now d (tc, w) = ((tc', w2), None)" using r(1) e by (simp add: create_defs)
  then show thesis using that enq_done [OF r(4) e] room(2) r(2,3) inv2 by metis
qed

lemma create_refused:
  assumes "inv w" and "reg d w = (w1, Some e)"
  obtains tc' e' where "create now d (tc, w) = ((tc', w), Some e')"
proof -
  have "w1 = w" using reg_refused [OF assms] .
  then have "\<exists>tc' e'. create now d (tc, w) = ((tc', w), Some e')" using assms(2) by (simp add: create_defs)
  then show thesis using that by blast
qed

lemma create_enqueue_fails:
  assumes "inv w" and "qd_id d \<noteq> ''''" and "lookup w (qd_id d) = None" and "\<not> has_room w"
  obtains tc' w' e d' where "create now d (tc, w) = ((tc', w'), Some e)" and "waiting w' = waiting w"
    and "lookup w' = (lookup w)(qd_id d \<mapsto> d')" and "qd_status d' = StatusCanceled" and "inv w'"
proof -
  obtain w1 d1 where r: "reg d w = (w1, None)" "lookup w1 = (lookup w)(qd_id d \<mapsto> d1)" "inv w1"
    using register_get [OF assms(1-3)] by metis
  have full: "\<not> has_room w1" "waiting w1 = waiting w" using reg_waiting [of d w] r(1) assms(4) by simp_all
  obtain w2 e where e: "enq d w1 = (w2, Some e)" using enq_full [OF r(3) full(1), of d] by (metis not_Some_eq prod.collapse)
  have w2: "inv w2" "lookup w2 = lookup w1" "waiting w2 = waiting w1"
    using enq_inv [OF r(3), of d] enq_refused [OF r(3) e] e by simp_all
  have "lookup w2 (qd_id d) = Some d1" using w2(2) r(2) by simp
  then obtain w3 d3 where s: "set_st (qd_id d) StatusCanceled w2 = (w3, None)" "qd_status d3 = StatusCanceled"
    "lookup w3 = (lookup w2)(qd_id d \<mapsto> d3)" "inv w3"
    using set_status_get [OF w2(1), of "qd_id d" d1 StatusCanceled] by metis
  have "waiting w3 = waiting w" using set_waiting [of "qd_id d" StatusCanceled w2] s(1) w2(3) full(2) by simp
  moreover have "lookup w3 = (lookup w)(qd_id d \<mapsto> d3)" using s(3) w2(2) r(2) by simp
  moreover have "\<exists>tc' e'. create now d (tc, w) = ((tc', w3), Some e')" using r(1) e s(1) by (simp add: create_defs)
  ultimately show thesis using that s(2,4) by metis
qed

end

section \<open>Deployments on the embedded backend\<close>

definition deploy_lookup :: "'s deploy_world \<Rightarrow> string \<Rightarrow> queued_deployment option" where
  "deploy_lookup w = tracked_deployment (fst w)"

definition deploy_waiting :: "'s deploy_world \<Rightarrow> queued_deployment list" where
  "deploy_waiting w = eq_channel (snd w)"

definition deploy_inv :: "'s deploy_world \<Rightarrow> bool" where
  "deploy_inv w \<longleftrightarrow> tracker_inv (fst w) \<and> queue_inv (snd w)"

definition deploy_room :: "'s deploy_world \<Rightarrow> bool" where
  "deploy_room w \<longleftrightarrow> \<not> eq_closed (snd w) \<and> length (eq_channel (snd w)) < eq_capacity (snd w)"

lemma on_tracker_result: "on_tracker f w = (w', r) \<longleftrightarrow> f (fst w) = (fst w', r) \<and> snd w' = snd w"
  by (cases w'; cases "f (fst w)") (auto simp: on_tracker_def)

lemma on_tracker_snd: "snd (on_tracker f w) = snd (f (fst w))" "snd (fst (on_tracker f w)) = snd w"
  "fst (fst (on_tracker f w)) = fst (f (fst w))"
  by (simp_all add: on_tracker_def split: prod.split)

lemma enqueue_result_cases:
  assumes "queue_inv (snd w)" and "enqueue_result now d w = (w', r)"
  shows "fst w' = fst w" and "queue_inv (snd w')"
    and "r = None \<Longrightarrow> eq_channel (snd w') = eq_channel (snd w) @ [d] \<and> deploy_room w"
    and "r \<noteq> None \<Longrightarrow> eq_channel (snd w') = eq_channel (snd w)"
proof -
  obtain q o1 where e: "enqueue now None True (Some d) (snd w) = (q, o1)" by fastforce
  then obtain err where o1: "o1 = Returned err" using enqueue_no_panic by (cases o1) metis+
  have w': "w' = (fst w, q)" "r = err" using assms(2) e o1 by (simp_all add: enqueue_result_def)
  show "fst w' = fst w" using w' by simp
  show "queue_inv (snd w')" using queue_inv_enqueue [OF assms(1), of now None True "Some d"] e w' by simp
  from assms(1) e show "r = None \<Longrightarrow> eq_channel (snd w') = eq_channel (snd w) @ [d] \<and> deploy_room w"
    by (cases rule: enqueue_cases) (use w' o1 in \<open>auto simp: deploy_room_def\<close>)
  from assms(1) e show "r \<noteq> None \<Longrightarrow> eq_channel (snd w') = eq_channel (snd w)"
    by (cases rule: enqueue_cases) (use w' o1 in auto)
qed

interpretation dback: transaction_backend
  "\<lambda>d. on_tracker (tracker_register upd (Some d))" "\<lambda>i w. tracker_get i (fst w)"
  "\<lambda>i st. on_tracker (tracker_set_status now upd i st)" "\<lambda>i. on_tracker (tracker_remove i)"
  deploy_lookup deploy_inv "enqueue_result now" deploy_waiting deploy_room
  for now upd :: time
proof (unfold_locales, goal_cases)
  case (1 w i d) then show ?case by (simp add: deploy_inv_def deploy_lookup_def etr.get_lookup)
next
  case (2 w i) then show ?case by (simp add: deploy_inv_def deploy_lookup_def etr.get_missing)
next
  case (3 w i d) then show ?case using etr.lookup_id [of "fst w" i d] by (simp add: deploy_inv_def deploy_lookup_def)
next
  case (4 w d) then show ?case by (simp add: deploy_inv_def deploy_lookup_def on_tracker_snd etr.reg_new)
next
  case (5 w d w' e) then show ?case
    using etr.reg_refused [of "fst w" upd d "fst w'" e] by (auto simp: on_tracker_result deploy_inv_def intro: prod_eqI)
next
  case (6 w d) then show ?case by (simp add: deploy_inv_def deploy_lookup_def on_tracker_snd etr.reg_known)
next
  case (7 w d w') then show ?case
    using etr.reg_done [of "fst w" upd d "fst w'"] by (auto simp: on_tracker_result deploy_inv_def deploy_lookup_def)
next
  case (8 w i st) then show ?case by (simp add: deploy_inv_def deploy_lookup_def on_tracker_snd etr.set_found)
next
  case (9 w i st w' e) then show ?case
    using etr.set_refused [of "fst w" now upd i st "fst w'" e] by (auto simp: on_tracker_result deploy_inv_def intro: prod_eqI)
next
  case (10 w i st w') then show ?case
    using etr.set_done [of "fst w" now upd i st "fst w'"] by (auto simp: on_tracker_result deploy_inv_def deploy_lookup_def)
next
  case (11 w i) then show ?case by (simp add: deploy_inv_def deploy_lookup_def on_tracker_snd etr.rem_found)
next
  case (12 w i w' e) then show ?case
    using etr.rem_refused [of "fst w" i "fst w'" e]
    by (auto simp: on_tracker_result deploy_inv_def deploy_lookup_def intro: prod_eqI)
next
  case (13 w i w') then show ?case
    using etr.rem_done [of "fst w" i "fst w'"] by (auto simp: on_tracker_result deploy_inv_def deploy_lookup_def)
next
  case (14 w d) then show ?case by (simp add: deploy_inv_def on_tracker_snd etr.reg_inv)
next
  case (15 w i st) then show ?case by (simp add: deploy_inv_def on_tracker_snd etr.set_inv)
next
  case (16 w i) then show ?case by (simp add: deploy_inv_def on_tracker_snd etr.rem_inv)
next
  case (17 w d)
  then have "snd (enqueue now None True (Some d) (snd w)) = Returned None"
    by (intro embq.enq_accepts) (simp_all add: deploy_inv_def deploy_room_def)
  then show ?case by (cases "enqueue now None True (Some d) (snd w)") (simp add: enqueue_result_def)
next
  case (18 w d)
  obtain w' r where e: "enqueue_result now d w = (w', r)" by fastforce
  then show ?case using enqueue_result_cases(3) [OF _ e] 18 by (auto simp: deploy_inv_def)
next
  case (19 w d w') then show ?case
    using enqueue_result_cases [of w now d w' None] by (simp add: deploy_inv_def deploy_waiting_def deploy_lookup_def)
next
  case (20 w d w' e) then show ?case
    using enqueue_result_cases [of w now d w' "Some e"] by (simp add: deploy_inv_def deploy_waiting_def deploy_lookup_def)
next
  case (21 w d)
  obtain w' r where e: "enqueue_result now d w = (w', r)" by fastforce
  then show ?case using enqueue_result_cases [OF _ e] 21 by (simp add: deploy_inv_def)
next
  case (22 d w) then show ?case by (simp add: deploy_waiting_def on_tracker_snd)
next
  case (23 d w) then show ?case by (simp add: deploy_room_def on_tracker_snd)
next
  case (24 i st w) then show ?case by (simp add: deploy_waiting_def on_tracker_snd)
qed

lemma deploy_backend_create:
  "create_deployment_transaction (deploy_backend now upd) =
     create_deployment_transaction
       \<lparr>bk_register = (\<lambda>d. on_tracker (tracker_register upd (Some d))), bk_remove = (\<lambda>i. on_tracker (tracker_remove i)),
        bk_enqueue = enqueue_result now, bk_set_status = (\<lambda>i st. on_tracker (tracker_set_status now upd i st))\<rparr>"
  by (simp add: deploy_backend_def)

text \<open>
  C3: creating a deployment of a new, non-empty ID while the queue has room succeeds: the
  deployment waits at the end of the queue and the tracker holds it, as it was given but for the
  request's options the store rewrites; every other tracked deployment is unchanged, and the
  invariants of the tracker and the queue are kept.
\<close>

theorem create_registers_and_enqueues:
  assumes "deploy_inv w" and "qd_id d \<noteq> ''''" and "deploy_lookup w (qd_id d) = None" and "deploy_room w"
  shows "\<exists>tc' w' d'. create_deployment_transaction (deploy_backend now upd) t d (tc, w) = ((tc', w'), None) \<and>
      deploy_waiting w' = deploy_waiting w @ [d] \<and> deploy_lookup w' = (deploy_lookup w)(qd_id d \<mapsto> d') \<and>
      same_but_request d d' \<and> deploy_inv w'"
  unfolding deploy_backend_create
  by (rule dback.create_succeeds [OF assms, of upd now t tc]) blast

definition second_deployment :: queued_deployment where
  "second_deployment = waiting_deployment\<lparr>qd_id := ''dep-2''\<rparr>"

definition sample_world :: "int \<Rightarrow> file_store deploy_world" where
  "sample_world capacity = (sample_tracked, new_queue capacity)"

lemma sample_world_facts:
  "deploy_inv (sample_world n)" "deploy_waiting (sample_world n) = []"
  "qd_id second_deployment = ''dep-2''"
  "deploy_lookup (sample_world n) ''dep-2'' = None"
  "deploy_lookup (sample_world n) ''dep-1'' = Some waiting_deployment"
  "deploy_room (sample_world n)"
proof -
  show "deploy_inv (sample_world n)" "deploy_waiting (sample_world n) = []"
    using sample_tracked_facts queue_inv_new
    by (simp_all add: deploy_inv_def sample_world_def deploy_waiting_def new_queue_def)
  show "qd_id second_deployment = ''dep-2''" by (simp add: second_deployment_def)
  show "deploy_lookup (sample_world n) ''dep-1'' = Some waiting_deployment"
    using sample_tracked_facts by (simp add: sample_world_def deploy_lookup_def)
  show "deploy_lookup (sample_world n) ''dep-2'' = None"
    by (simp add: sample_world_def deploy_lookup_def sample_tracked_def tracker_register_def persist_deployment_def
        new_tracker_def persist_deployment_with_result_def tracked_deployment_def waiting_deployment_def)
  show "deploy_room (sample_world n)" by (simp add: deploy_room_def sample_world_def new_queue_def)
qed

theorem create_registers_and_enqueues_witness:
  "\<exists>tc' w' d'. create_deployment_transaction (deploy_backend 5 6) 7 second_deployment ([], sample_world 4)
        = ((tc', w'), None) \<and>
      deploy_waiting w' = deploy_waiting (sample_world 4) @ [second_deployment] \<and>
      deploy_lookup w' = (deploy_lookup (sample_world 4))(''dep-2'' \<mapsto> d') \<and>
      same_but_request second_deployment d' \<and> deploy_inv w'"
  by (rule create_registers_and_enqueues [of "sample_world 4" second_deployment, unfolded sample_world_facts(3)])
     (simp_all add: sample_world_facts)

text \<open>
  When the queue refuses a deployment of a new ID, being full or closed, the
  creation fails, nothing is queued, and the deployment stays registered in the tracker, with the
  status canceled: the rollback does not unregister it.
\<close>

theorem refused_creation_stays_registered:
  assumes "deploy_inv w" and "qd_id d \<noteq> ''''" and "deploy_lookup w (qd_id d) = None" and "\<not> deploy_room w"
  shows "\<exists>tc' w' e d'. create_deployment_transaction (deploy_backend now upd) t d (tc, w) = ((tc', w'), Some e) \<and>
      deploy_waiting w' = deploy_waiting w \<and> deploy_lookup w' = (deploy_lookup w)(qd_id d \<mapsto> d') \<and>
      qd_status d' = StatusCanceled \<and> deploy_inv w'"
  unfolding deploy_backend_create
  by (rule dback.create_enqueue_fails [OF assms, of upd now t tc]) blast

definition full_world :: "file_store deploy_world" where
  "full_world = (fst (sample_world 1), fst (enqueue 3 None True (Some waiting_deployment) (new_queue 1)))"

lemma full_world_facts:
  "deploy_inv full_world" "deploy_lookup full_world = deploy_lookup (sample_world 1)" "\<not> deploy_room full_world"
  using sample_world_facts(1) [of 1] queue_inv_enqueue [OF queue_inv_new, of 3 None True "Some waiting_deployment" 1]
  by (simp_all add: deploy_inv_def full_world_def deploy_lookup_def deploy_room_def)
     (simp add: queue_defs new_queue_def waiting_deployment_def)

theorem refused_creation_stays_registered_witness:
  "\<exists>tc' w' e d'. create_deployment_transaction (deploy_backend 5 6) 7 second_deployment ([], full_world)
        = ((tc', w'), Some e) \<and>
      deploy_waiting w' = deploy_waiting full_world \<and>
      deploy_lookup w' = (deploy_lookup full_world)(''dep-2'' \<mapsto> d') \<and> qd_status d' = StatusCanceled \<and> deploy_inv w'"
  by (rule refused_creation_stays_registered [of full_world second_deployment, unfolded sample_world_facts(3)])
     (simp_all add: full_world_facts sample_world_facts(4))

text \<open>
  When the tracker refuses to register a deployment, for instance because its ID is
  already tracked, the creation fails and neither the tracker, the store nor the queue changes.
\<close>

theorem refused_registration_changes_nothing:
  assumes "deploy_inv w" and "tracker_register upd (Some d) (fst w) = (t', Some e)"
  shows "\<exists>tc' e'. create_deployment_transaction (deploy_backend now upd) t d (tc, w) = ((tc', w), Some e')"
proof -
  have "on_tracker (tracker_register upd (Some d)) w = ((t', snd w), Some e)"
    using assms(2) by (simp add: on_tracker_def)
  from dback.create_refused [OF assms(1) this] show ?thesis
    unfolding deploy_backend_create by blast
qed

theorem refused_registration_changes_nothing_witness:
  "\<exists>tc' e'. create_deployment_transaction (deploy_backend 5 6) 7 waiting_deployment ([], sample_world 4)
      = ((tc', sample_world 4), Some e')"
proof -
  have "tracked_deployment (fst (sample_world 4)) ''dep-1'' = Some waiting_deployment"
    using sample_tracked_facts(2) by (simp add: sample_world_def)
  then have "\<exists>t' e. tracker_register 6 (Some waiting_deployment) (fst (sample_world 4)) = (t', Some e)"
    by (simp add: tracker_register_def waiting_deployment_def tracked_deployment_def)
  then show ?thesis using refused_registration_changes_nothing [OF sample_world_facts(1)] by blast
qed

end
