(* ===== verification/Worker_Pool.thy ===== *)
theory Worker_Pool
  imports Executor Transactions
begin

text \<open>
  The worker pool of \<^verbatim>\<open>internal/infra/embedded/worker_pool.go\<close>, which takes deployments from the
  embedded queue, has an executor run them and keeps the tracker up to date. \<^verbatim>\<open>gammazero/workerpool\<close>
  runs at most \<open>workers\<close> submitted tasks at a time and starts them in the order of their submission.
  The executor is a parameter \<open>run\<close>: the events a deployment's execution publishes and how it ends.
  The event bus delivers each event in a goroutine of its own, so at any later time and in any order.

  \<^verbatim>\<open>processDeployment\<close> holds no lock between its calls of the tracker. It is the sequence of
  \<open>phase\<close>s, each one call; \<open>process_deployment\<close> is the straight line through them.
\<close>

section \<open>The pool\<close>

record worker_pool_config =
  wc_min_workers :: int
  wc_max_workers :: int
  wc_has_queue :: bool
  wc_has_tracker :: bool
  wc_has_executor :: bool

text \<open>The number of workers of a new pool.\<close>

definition new_worker_pool :: "worker_pool_config \<Rightarrow> goerror + int" where
  "new_worker_pool c =
     (if \<not> wc_has_queue c then Inl (ErrorString ''queue is required'')
      else if \<not> wc_has_tracker c then Inl (ErrorString ''tracker is required'')
      else if \<not> wc_has_executor c then Inl (ErrorString ''executor is required'')
      else
        (let min = (if wc_min_workers c \<le> 0 then 1 else wc_min_workers c) in
         Inr (if wc_max_workers c < min then min * 2 else wc_max_workers c)))"

text \<open>One delivery of an event to the handlers of \<^verbatim>\<open>ConnectTrackerToEventBus\<close>.\<close>

fun deliver_to_tracker :: "time \<Rightarrow> time \<Rightarrow> event \<Rightarrow> 's tracked \<Rightarrow> 's tracked" where
  "deliver_to_tracker now upd (StatusChanged i st) ts = fst (tracker_set_status now upd i st ts)"
| "deliver_to_tracker now upd (ResultReady i r) ts = fst (tracker_set_result now upd i (Some r) ts)"
| "deliver_to_tracker now upd (ErrorOccurred i e) ts = ts"

section \<open>Processing a deployment\<close>

datatype phase =
    Starting
  | Executing
  | SettingError goerror
  | FinalStatus "goerror option"
  | CheckingResult
  | StoringResult

definition panic_error :: "string \<Rightarrow> goerror" where
  "panic_error p = ErrorString (''panic during execution: '' @ p)"

fun after_execution :: "outcome \<Rightarrow> phase" where
  "after_execution (Returned None) = FinalStatus None"
| "after_execution (Returned (Some e)) = SettingError e"
| "after_execution (Panicked p) = SettingError (panic_error p)"

definition default_result :: "time \<Rightarrow> string \<Rightarrow> deployment_result" where
  "default_result now i =
     \<lparr>dr_deployment_id = i, dr_success = True, dr_error = None, dr_resources = Some [], dr_outputs = None,
      dr_completed_at = now\<rparr>"

text \<open>One phase: the tracker after it, the events it publishes, and the next phase.\<close>

fun advance ::
  "(queued_deployment \<Rightarrow> event list \<times> outcome) \<Rightarrow> time \<Rightarrow> time \<Rightarrow> queued_deployment \<Rightarrow> phase \<Rightarrow> 's tracked \<Rightarrow>
     's tracked \<times> event list \<times> phase option" where
  "advance run now upd d Starting ts =
     (fst (tracker_set_status now upd (qd_id d) StatusProcessing ts), [], Some Executing)"
| "advance run now upd d Executing ts = (ts, fst (run d), Some (after_execution (snd (run d))))"
| "advance run now upd d (SettingError e) ts =
     (fst (tracker_set_error now upd (qd_id d) (Some e) ts), [], Some (FinalStatus (Some e)))"
| "advance run now upd d (FinalStatus r) ts =
     (fst (tracker_set_status now upd (qd_id d) (if r = None then StatusCompleted else StatusFailed) ts), [],
      if r = None then Some CheckingResult else None)"
| "advance run now upd d CheckingResult ts =
     (ts, [], (case tracker_get_result (qd_id d) ts of Inr (Some _) \<Rightarrow> None | _ \<Rightarrow> Some StoringResult))"
| "advance run now upd d StoringResult ts =
     (fst (tracker_set_result now upd (qd_id d) (Some (default_result now (qd_id d))) ts), [], None)"

text \<open>\<^verbatim>\<open>processDeployment\<close> without interference; \<open>deliver\<close> is what becomes of the events meanwhile.\<close>

definition process_deployment ::
  "(queued_deployment \<Rightarrow> event list \<times> outcome) \<Rightarrow> (event list \<Rightarrow> 's tracked \<Rightarrow> 's tracked) \<Rightarrow> time \<Rightarrow> time \<Rightarrow>
     queued_deployment \<Rightarrow> 's tracked \<Rightarrow> 's tracked" where
  "process_deployment run deliver now upd d ts =
     (let i = qd_id d; ts1 = fst (tracker_set_status now upd i StatusProcessing ts); ts2 = deliver (fst (run d)) ts1 in
      case snd (run d) of
        Panicked p \<Rightarrow>
          fst (tracker_set_status now upd i StatusFailed (fst (tracker_set_error now upd i (Some (panic_error p)) ts2)))
      | Returned (Some e) \<Rightarrow>
          fst (tracker_set_status now upd i StatusFailed (fst (tracker_set_error now upd i (Some e) ts2)))
      | Returned None \<Rightarrow>
          (let ts3 = fst (tracker_set_status now upd i StatusCompleted ts2) in
           case tracker_get_result i ts3 of
             Inr (Some _) \<Rightarrow> ts3
           | _ \<Rightarrow> fst (tracker_set_result now upd i (Some (default_result now i)) ts3)))"

section \<open>The pool as a state machine\<close>

text \<open>\<open>wp_events\<close> are the deliveries that have not run yet.\<close>

record 's pool_state =
  wp_started :: bool
  wp_canceled :: bool
  wp_queue :: emb_queue
  wp_submitted :: "queued_deployment list"
  wp_running :: "(queued_deployment \<times> phase) list"
  wp_tracked :: "'s tracked"
  wp_events :: "event list"

definition new_pool_state :: "emb_queue \<Rightarrow> 's tracked \<Rightarrow> 's pool_state" where
  "new_pool_state q ts =
     \<lparr>wp_started = False, wp_canceled = False, wp_queue = q, wp_submitted = [], wp_running = [], wp_tracked = ts,
      wp_events = []\<rparr>"

definition pool_start :: "'s pool_state \<Rightarrow> 's pool_state" where
  "pool_start s = s\<lparr>wp_started := True\<rparr>"

text \<open>The cancellation of \<^verbatim>\<open>Stop\<close>; it then waits for the loop and for the submitted tasks.\<close>

definition pool_stop :: "'s pool_state \<Rightarrow> 's pool_state" where
  "pool_stop s = (if wp_started s then s\<lparr>wp_canceled := True\<rparr> else s)"

text \<open>One iteration of \<^verbatim>\<open>processLoop\<close>.\<close>

datatype 's iteration = LoopReturns | LoopBlocks | LoopContinues "'s pool_state"

definition loop_iteration :: "time \<Rightarrow> 's pool_state \<Rightarrow> 's iteration" where
  "loop_iteration now s =
     (if wp_canceled s then LoopReturns
      else (case dequeue now None True (wp_queue s) of
              None \<Rightarrow> LoopBlocks
            | Some (q, Inl e) \<Rightarrow> LoopContinues (s\<lparr>wp_queue := q\<rparr>)
            | Some (q, Inr d) \<Rightarrow> LoopContinues (s\<lparr>wp_queue := q, wp_submitted := wp_submitted s @ [d]\<rparr>)))"

text \<open>
  Steps of the loop that take a deployment. An iteration on a closed and empty queue leaves the state as it is, as the
  theorem \<open>closed_queue_spins\<close> shows, so it is no step here; the loop then runs without an end.
\<close>

inductive pool_step :: "nat \<Rightarrow> (queued_deployment \<Rightarrow> event list \<times> outcome) \<Rightarrow> 's pool_state \<Rightarrow> 's pool_state \<Rightarrow> bool"
  for workers :: nat and run :: "queued_deployment \<Rightarrow> event list \<times> outcome" where
  take_next: "wp_started s \<Longrightarrow> eq_channel (wp_queue s) \<noteq> [] \<Longrightarrow> loop_iteration now s = LoopContinues s' \<Longrightarrow> pool_step workers run s s'"
| begin_task: "length (wp_running s) < workers \<Longrightarrow> wp_submitted s = d # ds \<Longrightarrow>
     pool_step workers run s (s\<lparr>wp_submitted := ds, wp_running := wp_running s @ [(d, Starting)]\<rparr>)"
| run_phase: "wp_running s = front @ (d, ph) # rest \<Longrightarrow>
     advance run now upd d ph (wp_tracked s) = (ts, es, next) \<Longrightarrow>
     pool_step workers run s
       (s\<lparr>wp_tracked := ts, wp_events := wp_events s @ es,
          wp_running := front @ (case next of None \<Rightarrow> [] | Some ph' \<Rightarrow> [(d, ph')]) @ rest\<rparr>)"
| deliver_event: "wp_events s = es1 @ e # es2 \<Longrightarrow>
     pool_step workers run s (s\<lparr>wp_tracked := deliver_to_tracker now upd e (wp_tracked s), wp_events := es1 @ es2\<rparr>)"

inductive_cases pool_step_cases: "pool_step workers run s s'"

section \<open>The straight line\<close>

text \<open>The phases of one deployment run to their end, the events handed to \<open>deliver\<close> as they are published.\<close>

fun run_phases ::
  "nat \<Rightarrow> (queued_deployment \<Rightarrow> event list \<times> outcome) \<Rightarrow> (event list \<Rightarrow> 's tracked \<Rightarrow> 's tracked) \<Rightarrow> time \<Rightarrow> time \<Rightarrow>
     queued_deployment \<Rightarrow> phase \<Rightarrow> 's tracked \<Rightarrow> 's tracked option" where
  "run_phases 0 run deliver now upd d ph ts = None"
| "run_phases (Suc n) run deliver now upd d ph ts =
     (case advance run now upd d ph ts of
        (ts', es, next) \<Rightarrow>
          (case next of
             None \<Rightarrow> Some (deliver es ts')
           | Some ph' \<Rightarrow> run_phases n run deliver now upd d ph' (deliver es ts')))"

lemma five_phases: "run_phases 5 = run_phases (Suc (Suc (Suc (Suc (Suc 0)))))"
  by (simp add: numeral_eq_Suc)

text \<open>
  Five phases always suffice to process a deployment, and run without interference they do what the straight
  line of \<^verbatim>\<open>processDeployment\<close> does, on the path of success, of an error and of a panic.
\<close>

theorem phases_are_straight_line:
  assumes "\<And>ts. deliver [] ts = ts"
  shows "run_phases 5 run deliver now upd d Starting ts = Some (process_deployment run deliver now upd d ts)"
  unfolding five_phases
  by (cases "snd (run d)" rule: after_execution.cases)
     (simp_all add: assms process_deployment_def Let_def split: sum.split option.split)

theorem phases_are_straight_line_witness:
  "run_phases 5 (\<lambda>_. ([], Panicked ''nil'')) (\<lambda>_ ts. ts) 7 8 waiting_deployment Starting sample_tracked =
     Some (process_deployment (\<lambda>_. ([], Panicked ''nil'')) (\<lambda>_ ts. ts) 7 8 waiting_deployment sample_tracked)"
proof -
  define f :: "event list \<Rightarrow> file_store tracked \<Rightarrow> file_store tracked" where "f = (\<lambda>_ ts. ts)"
  have "f [] ts = ts" for ts by (simp add: f_def)
  from phases_are_straight_line [of f, OF this] show ?thesis unfolding f_def by assumption
qed

section \<open>Progress\<close>

text \<open>A bound of the steps that are left.\<close>

fun phase_cost :: "nat \<Rightarrow> phase \<Rightarrow> nat" where
  "phase_cost n Starting = 5 + n"
| "phase_cost n Executing = 4 + n"
| "phase_cost n (SettingError e) = 2"
| "phase_cost n (FinalStatus None) = 3"
| "phase_cost n (FinalStatus (Some e)) = 1"
| "phase_cost n CheckingResult = 2"
| "phase_cost n StoringResult = 1"

definition pool_measure :: "(queued_deployment \<Rightarrow> event list \<times> outcome) \<Rightarrow> 's pool_state \<Rightarrow> nat" where
  "pool_measure run s =
     sum_list (map (\<lambda>d. 7 + length (fst (run d))) (eq_channel (wp_queue s))) +
     sum_list (map (\<lambda>d. 6 + length (fst (run d))) (wp_submitted s)) +
     sum_list (map (\<lambda>(d, ph). phase_cost (length (fst (run d))) ph) (wp_running s)) + length (wp_events s)"

lemma advance_cost:
  assumes "advance run now upd d ph ts = (ts', es, next)"
  shows "(case next of None \<Rightarrow> 0 | Some ph' \<Rightarrow> phase_cost (length (fst (run d))) ph') + length es < phase_cost (length (fst (run d))) ph"
proof (cases ph)
  case Executing
  then show ?thesis using assms by (cases "snd (run d)" rule: after_execution.cases) auto
next
  case (FinalStatus r)
  then show ?thesis using assms by (cases r) auto
qed (use assms in \<open>auto split: sum.splits option.splits\<close>)

lemma loop_takes:
  assumes "loop_iteration now s = LoopContinues s'" and "eq_channel (wp_queue s) \<noteq> []"
  obtains d ds q where "eq_channel (wp_queue s) = d # ds" and "eq_channel q = ds"
    and "s' = s\<lparr>wp_queue := q, wp_submitted := wp_submitted s @ [d]\<rparr>" and "\<not> wp_canceled s"
proof (cases "eq_channel (wp_queue s)")
  case (Cons d ds)
  obtain q where q: "dequeue now None True (wp_queue s) = Some (q, Inr d)" "eq_channel q = ds"
    using Cons by (simp add: dequeue_def)
  show thesis
    using assms(1) q by (intro that [OF Cons q(2)]) (auto simp: loop_iteration_def split: if_splits)
qed (use assms(2) in simp)

lemma pool_step_measure:
  assumes "pool_step workers run s s'"
  shows "pool_measure run s' < pool_measure run s"
  using assms
proof cases
  case (take_next now)
  then show ?thesis by (elim loop_takes) (auto simp: pool_measure_def)
next
  case (run_phase front d ph rest now upd ts es "next")
  then show ?thesis
    using advance_cost [OF run_phase(3)] by (cases "next") (auto simp: pool_measure_def)
qed (auto simp: pool_measure_def)

lemma pool_runs_bounded: "(pool_step workers run ^^ n) s s' \<Longrightarrow> n + pool_measure run s' \<le> pool_measure run s"
proof (induction n arbitrary: s')
  case (Suc n)
  then obtain s1 where s1: "(pool_step workers run ^^ n) s s1" "pool_step workers run s1 s'" by auto
  from Suc.IH [OF s1(1)] pool_step_measure [OF s1(2)] show ?case by simp
qed simp

lemma stuck_pool:
  assumes "\<nexists>s'. pool_step workers run s s'" and "0 < workers" and "wp_started s" and "\<not> wp_canceled s"
  shows "eq_channel (wp_queue s) = [] \<and> wp_submitted s = [] \<and> wp_running s = [] \<and> wp_events s = []"
proof -
  have queue: "eq_channel (wp_queue s) = []"
  proof (rule ccontr)
    assume "eq_channel (wp_queue s) \<noteq> []"
    then have "\<exists>s'. loop_iteration 0 s = LoopContinues s'"
      using assms(4) by (cases "eq_channel (wp_queue s)") (simp_all add: loop_iteration_def dequeue_def)
    then show False using assms(1,3) \<open>eq_channel (wp_queue s) \<noteq> []\<close> pool_step.take_next by blast
  qed
  have running: "wp_running s = []"
  proof (rule ccontr)
    assume "wp_running s \<noteq> []"
    then obtain d ph rest where r: "wp_running s = [] @ (d, ph) # rest" by (metis append_Nil neq_Nil_conv prod.collapse)
    obtain ts es nxt where "advance run 0 0 d ph (wp_tracked s) = (ts, es, nxt)" by (metis prod.collapse)
    from pool_step.run_phase [OF r this] assms(1) show False by blast
  qed
  have "wp_submitted s = []"
  proof (rule ccontr)
    assume "wp_submitted s \<noteq> []"
    then obtain d ds where "wp_submitted s = d # ds" by (cases "wp_submitted s") auto
    then show False using pool_step.begin_task [of s workers d ds run] running assms(1,2) by simp
  qed
  moreover have "wp_events s = []"
  proof (rule ccontr)
    assume "wp_events s \<noteq> []"
    then obtain e es where "wp_events s = [] @ e # es" by (cases "wp_events s") auto
    from pool_step.deliver_event [OF this] assms(1) show False by blast
  qed
  ultimately show ?thesis using queue running by simp
qed

section \<open>Every deployment is brought to an end\<close>

definition finished_status :: "deployment_status \<Rightarrow> bool" where
  "finished_status st \<longleftrightarrow> st \<in> {StatusCompleted, StatusFailed, StatusCanceled, StatusDestroyed}"

definition finished_at :: "'s tracked \<Rightarrow> string \<Rightarrow> bool" where
  "finished_at ts i \<longleftrightarrow> (\<forall>d. tracked_deployment ts i = Some d \<longrightarrow> finished_status (qd_status d))"

fun finishing_event :: "event \<Rightarrow> bool" where
  "finishing_event (StatusChanged i st) = finished_status st"
| "finishing_event _ = True"

definition active :: "'s pool_state \<Rightarrow> string \<Rightarrow> bool" where
  "active s i \<longleftrightarrow> i \<in> qd_id ` set (eq_channel (wp_queue s)) \<or> i \<in> qd_id ` set (wp_submitted s) \<or>
     (\<exists>d ph. (d, ph) \<in> set (wp_running s) \<and> qd_id d = i \<and> ph \<notin> {CheckingResult, StoringResult})"

definition pool_inv :: "(queued_deployment \<Rightarrow> event list \<times> outcome) \<Rightarrow> string \<Rightarrow> 's pool_state \<Rightarrow> bool" where
  "pool_inv run i s \<longleftrightarrow> tracker_inv (wp_tracked s) \<and> (\<forall>e \<in> set (wp_events s). finishing_event e) \<and>
     (finished_at (wp_tracked s) i \<or> active s i)"

lemma set_status_finished:
  assumes "tracker_inv ts"
  shows "tracker_inv (fst (tracker_set_status now upd i st ts))"
    and "j \<noteq> i \<Longrightarrow> finished_at (fst (tracker_set_status now upd i st ts)) j = finished_at ts j"
    and "finished_status st \<Longrightarrow> finished_at (fst (tracker_set_status now upd i st ts)) i"
proof -
  obtain ts' r where s: "tracker_set_status now upd i st ts = (ts', r)" by fastforce
  show "tracker_inv (fst (tracker_set_status now upd i st ts))" by (rule etr.set_inv [OF assms])
  have "(\<exists>d'. tracked_deployment ts' = (tracked_deployment ts)(i \<mapsto> d') \<and> qd_status d' = st) \<or>
      (ts' = ts \<and> tracked_deployment ts i = None)"
  proof (cases r)
    case None
    then show ?thesis using etr.set_done [OF assms, of now upd i st ts'] s by auto
  next
    case (Some e)
    then show ?thesis
      using etr.set_refused [OF assms, of now upd i st ts' e] etr.set_found [OF assms, of i now upd st] s by auto
  qed
  then show "j \<noteq> i \<Longrightarrow> finished_at (fst (tracker_set_status now upd i st ts)) j = finished_at ts j"
    "finished_status st \<Longrightarrow> finished_at (fst (tracker_set_status now upd i st ts)) i"
    using s by (auto simp: finished_at_def)
qed

lemma set_error_finished:
  assumes "tracker_inv ts"
  shows "tracker_inv (fst (tracker_set_error now upd i e ts)) \<and>
    (finished_at ts j \<longrightarrow> finished_at (fst (tracker_set_error now upd i e ts)) j)"
proof -
  obtain ts' r where s: "tracker_set_error now upd i e ts = (ts', r)" by fastforce
  show ?thesis
  proof (cases r)
    case None
    show ?thesis
    proof (rule set_error_effect [OF s [unfolded None] assms])
      fix d d1 d'
      assume d: "tracked_deployment ts i = Some d" "same_but_request d1 d'"
        "d1 = (if is_terminal_for_result (qd_status d) then d\<lparr>qd_last_error := e\<rparr>
               else set_completed now (d\<lparr>qd_last_error := e, qd_status := StatusFailed\<rparr>))"
        "tracked_deployment ts' = (tracked_deployment ts)(i \<mapsto> d')"
      have "qd_status d' = qd_status d \<or> qd_status d' = StatusFailed"
        using same_but_request_fields(2) [OF d(2)] d(3) by simp
      then show ?thesis
        using s d(1,4) tracker_inv_set_error [OF assms s] by (auto simp: finished_at_def finished_status_def)
    qed
  next
    case (Some err)
    then have "ts' = ts" using s by (auto simp: tracker_set_error_def Let_def split: if_splits option.splits)
    then show ?thesis using s assms by simp
  qed
qed

lemma set_result_finished:
  assumes "tracker_inv ts"
  shows "tracker_inv (fst (tracker_set_result now upd i (Some r) ts)) \<and>
    (finished_at ts j \<longrightarrow> finished_at (fst (tracker_set_result now upd i (Some r) ts)) j)"
proof -
  obtain ts' res where s: "tracker_set_result now upd i (Some r) ts = (ts', res)" by fastforce
  show ?thesis
  proof (cases res)
    case None
    show ?thesis
    proof (rule set_result_effect [OF s [unfolded None] assms])
      fix d d1 d'
      assume d: "tracked_deployment ts i = Some d" "same_but_request d1 d'"
        "d1 = (if is_terminal_for_result (qd_status d) then d
               else set_completed now (d\<lparr>qd_status := (if dr_success r then StatusCompleted else StatusFailed)\<rparr>))"
        "tracked_deployment ts' = (tracked_deployment ts)(i \<mapsto> d')"
      have "qd_status d' = qd_status d \<or> qd_status d' \<in> {StatusFailed, StatusCompleted}"
        using same_but_request_fields(2) [OF d(2)] d(3) by simp
      then show ?thesis
        using s d(1,4) tracker_inv_set_result [OF assms s] by (auto simp: finished_at_def finished_status_def)
    qed
  next
    case (Some err)
    then have "ts' = ts" using s by (auto simp: tracker_set_result_def Let_def split: if_splits option.splits)
    then show ?thesis using s assms by simp
  qed
qed

lemma deliver_finished:
  assumes "tracker_inv ts" and "finishing_event e"
  shows "tracker_inv (deliver_to_tracker now upd e ts) \<and> (finished_at ts j \<longrightarrow> finished_at (deliver_to_tracker now upd e ts) j)"
proof (cases e)
  case (StatusChanged i st)
  then show ?thesis
    using set_status_finished [OF assms(1), where now = now and upd = upd and i = i and st = st] assms(2)
    by (cases "j = i") auto
next
  case (ResultReady i r)
  then show ?thesis using set_result_finished [OF assms(1)] by simp
qed (use assms in simp)

lemma advance_finished:
  assumes "tracker_inv ts" and "advance run now upd d ph ts = (ts', es, next)"
  shows "tracker_inv ts'" and "j \<noteq> qd_id d \<Longrightarrow> finished_at ts j \<Longrightarrow> finished_at ts' j"
    and "finished_at ts j \<Longrightarrow> ph \<noteq> Starting \<Longrightarrow> finished_at ts' j"
    and "ph = FinalStatus r \<Longrightarrow> finished_at ts' (qd_id d)"
proof -
  let ?i = "qd_id d"
  note status = set_status_finished [OF assms(1), where now = now and upd = upd and i = ?i]
  note others = set_error_finished [OF assms(1)] set_result_finished [OF assms(1)]
  have final: "finished_status (if r = None then StatusCompleted else StatusFailed)" for r :: "goerror option"
    by (simp add: finished_status_def)
  show "tracker_inv ts'" using assms status(1) others by (cases ph) auto
  show "finished_at ts' j" if "j \<noteq> ?i" "finished_at ts j"
    using assms status(2) others that by (cases ph) auto
  show "finished_at ts' j" if "finished_at ts j" "ph \<noteq> Starting"
    using assms status(2,3) [OF _] final others that by (cases ph; cases "j = ?i") auto
  show "finished_at ts' ?i" if "ph = FinalStatus r"
    using assms(2) status(3) [OF final [of r]] that by auto
qed

lemma advance_events:
  assumes "advance run now upd d ph ts = (ts', es, next)" and "\<forall>e \<in> set (fst (run d)). finishing_event e"
  shows "\<forall>e \<in> set es. finishing_event e"
  using assms by (cases ph) auto

lemma advance_stays_active:
  assumes "advance run now upd d ph ts = (ts', es, next)" and "ph \<notin> {CheckingResult, StoringResult}"
  shows "(\<exists>r. ph = FinalStatus r) \<or> (\<exists>ph'. next = Some ph' \<and> ph' \<notin> {CheckingResult, StoringResult})"
proof (cases ph)
  case Executing
  then show ?thesis using assms by (cases "snd (run d)" rule: after_execution.cases) auto
qed (use assms in auto)

lemma pool_inv_step:
  assumes "pool_step workers run s s'" and "pool_inv run i s" and "\<forall>d. \<forall>e \<in> set (fst (run d)). finishing_event e"
  shows "pool_inv run i s'"
  using assms(1)
proof cases
  case (take_next now)
  from take_next(3,2) obtain d ds q where "eq_channel (wp_queue s) = d # ds" "eq_channel q = ds"
    "s' = s\<lparr>wp_queue := q, wp_submitted := wp_submitted s @ [d]\<rparr>"
    by (rule loop_takes)
  then show ?thesis using assms(2) by (auto simp: pool_inv_def active_def)
next
  case (begin_task d ds)
  then have "active s i \<Longrightarrow> active s' i" by (fastforce simp: active_def)
  then show ?thesis using assms(2) begin_task by (auto simp: pool_inv_def)
next
  case (run_phase front d ph rest now upd ts es nxt)
  have inv: "tracker_inv (wp_tracked s)" "\<forall>e \<in> set (wp_events s). finishing_event e"
    "finished_at (wp_tracked s) i \<or> active s i"
    using assms(2) by (simp_all add: pool_inv_def)
  note step = advance_finished [OF inv(1) run_phase(3)]
  have others: "active s' i" if "active s i" "i \<noteq> qd_id d \<or> ph \<in> {CheckingResult, StoringResult}"
    using that run_phase(1,2) by (cases nxt) (auto simp: active_def)
  have own: "active s' i" if "i = qd_id d" "nxt = Some ph'" "ph' \<notin> {CheckingResult, StoringResult}" for ph'
    using that run_phase(1) by (auto simp: active_def)
  have "finished_at ts i \<or> active s' i"
  proof (cases "i = qd_id d \<and> ph \<notin> {CheckingResult, StoringResult}")
    case True
    then show ?thesis using advance_stays_active [OF run_phase(3)] step(4) own by blast
  next
    case False
    show ?thesis
    proof (cases "active s i")
      case True
      have "active s' i" by (rule others [OF True]) (use False in auto)
      then show ?thesis ..
    next
      case nact: False
      then have fin: "finished_at (wp_tracked s) i" using inv(3) by simp
      show ?thesis
      proof (cases "i = qd_id d")
        case True
        then have "ph \<noteq> Starting" using False by auto
        from step(3) [OF fin this] show ?thesis ..
      next
        case False
        from step(2) [OF this fin] show ?thesis ..
      qed
    qed
  qed
  then show ?thesis
    using run_phase(1) inv(2) step(1) advance_events [OF run_phase(3)] assms(3) by (auto simp: pool_inv_def)
next
  case (deliver_event es1 e es2 now upd)
  have "active s' i = active s i" using deliver_event(1) by (simp add: active_def)
  then show ?thesis
    using assms(2) deliver_event deliver_finished [of "wp_tracked s" e now upd i] by (auto simp: pool_inv_def)
qed

lemma pool_flags:
  assumes "pool_step workers run s s'"
  shows "wp_started s' = wp_started s" "wp_canceled s' = wp_canceled s"
  using assms by (cases; auto elim!: loop_takes)+

lemma pool_steps_inv:
  assumes "(pool_step workers run)\<^sup>*\<^sup>* s s'" and "pool_inv run i s" and "\<forall>d. \<forall>e \<in> set (fst (run d)). finishing_event e"
  shows "pool_inv run i s' \<and> wp_started s' = wp_started s \<and> wp_canceled s' = wp_canceled s"
  using assms(1)
proof induction
  case (step s1 s2)
  then show ?case using pool_inv_step [OF step.hyps(2) _ assms(3)] pool_flags [OF step.hyps(2)] by simp
qed (use assms(2) in simp)

text \<open>
  C4: the started pool brings every waiting deployment to an end: under every interleaving of the workers and the event
  deliveries the pool can take only as many steps as its measure says, and where no step is left the queue is
  empty and each deployment that waited is completed, failed, canceled or destroyed (or no longer tracked). The
  executor may publish any results and any final statuses.
\<close>

theorem pool_finishes_deployments:
  assumes "0 < workers" and "tracker_inv ts" and "\<forall>d. \<forall>e \<in> set (fst (run d)). finishing_event e"
  shows "(\<forall>n s'. (pool_step workers run ^^ n) (pool_start (new_pool_state q ts)) s' \<longrightarrow>
            n \<le> pool_measure run (pool_start (new_pool_state q ts))) \<and>
         (\<forall>s'. (pool_step workers run)\<^sup>*\<^sup>* (pool_start (new_pool_state q ts)) s' \<longrightarrow> (\<nexists>s''. pool_step workers run s' s'') \<longrightarrow>
            eq_channel (wp_queue s') = [] \<and> (\<forall>d \<in> set (eq_channel q). finished_at (wp_tracked s') (qd_id d)))"
proof (intro conjI allI impI)
  let ?s = "pool_start (new_pool_state q ts)"
  fix n s' assume "(pool_step workers run ^^ n) ?s s'"
  from pool_runs_bounded [OF this] show "n \<le> pool_measure run ?s" by simp
next
  let ?s = "pool_start (new_pool_state q ts)"
  fix s' assume reach: "(pool_step workers run)\<^sup>*\<^sup>* ?s s'" and stuck: "\<nexists>s''. pool_step workers run s' s''"
  have start: "pool_inv run (qd_id d) ?s" if "d \<in> set (eq_channel q)" for d
    using assms(2) that by (simp add: pool_inv_def active_def pool_start_def new_pool_state_def)
  have "wp_started s' \<and> \<not> wp_canceled s'"
    using reach
  proof induction
    case (step s1 s2)
    then show ?case using pool_flags [OF step.hyps(2)] by simp
  qed (simp add: pool_start_def new_pool_state_def)
  from stuck_pool [OF stuck assms(1)] this
  have empty: "eq_channel (wp_queue s') = []" "wp_submitted s' = []" "wp_running s' = []" by simp_all
  then show "eq_channel (wp_queue s') = []" by simp
  have "finished_at (wp_tracked s') (qd_id d)" if "d \<in> set (eq_channel q)" for d
    using pool_steps_inv [OF reach start [OF that] assms(3)] empty by (auto simp: pool_inv_def active_def)
  then show "\<forall>d \<in> set (eq_channel q). finished_at (wp_tracked s') (qd_id d)" by blast
qed

lemma pool_comes_to_rest: "\<exists>s'. (pool_step workers run)\<^sup>*\<^sup>* s s' \<and> (\<nexists>s''. pool_step workers run s' s'')"
proof (induction "pool_measure run s" arbitrary: s rule: less_induct)
  case less
  show ?case
  proof (cases "\<exists>s1. pool_step workers run s s1")
    case True
    then obtain s1 where s1: "pool_step workers run s s1" by blast
    from less [OF pool_step_measure [OF s1]] s1 show ?thesis by (meson converse_rtranclp_into_rtranclp)
  qed blast
qed

theorem pool_finishes_deployments_witness:
  "\<exists>s'. (pool_step 2 (\<lambda>d. ([StatusChanged (qd_id d) StatusFailed], Panicked ''nil'')))\<^sup>*\<^sup>*
      (pool_start (new_pool_state (fst (enqueue 3 None True (Some waiting_deployment) (new_queue 4))) sample_tracked)) s' \<and>
     eq_channel (wp_queue s') = [] \<and> finished_at (wp_tracked s') ''dep-1''"
proof -
  let ?run = "\<lambda>d :: queued_deployment. ([StatusChanged (qd_id d) StatusFailed], Panicked ''nil'')"
  let ?q = "fst (enqueue 3 None True (Some waiting_deployment) (new_queue 4))"
  have q: "eq_channel ?q = [waiting_deployment]"
    by (simp add: enqueue_def enqueue_begin_def enqueue_send_def enqueue_finish_def deploy_ctx_err_def new_queue_def
        waiting_deployment_def Let_def)
  have ev: "\<forall>d. \<forall>e \<in> set (fst (?run d)). finishing_event e" by (simp add: finished_status_def)
  have "0 < (2::nat)" by simp
  note ends = pool_finishes_deployments [OF this sample_tracked_facts(1) ev, of ?q, unfolded q]
  obtain s' where "(pool_step 2 ?run)\<^sup>*\<^sup>* (pool_start (new_pool_state ?q sample_tracked)) s'" "\<nexists>s''. pool_step 2 ?run s' s''"
    using pool_comes_to_rest by blast
  moreover from ends this have "eq_channel (wp_queue s') = []" "finished_at (wp_tracked s') (qd_id waiting_deployment)" by simp_all
  ultimately show ?thesis by (auto simp: waiting_deployment_def)
qed

section \<open>Two behaviours the code does not mean\<close>

lemma set_status_keeps_results:
  assumes "tracker_inv ts" and "tracked_deployment ts i \<noteq> None" and "tracker_set_status now upd i st ts = (ts', e)"
  shows "tracker_inv ts' \<and> tracked_deployment ts' i \<noteq> None \<and> et_results (fst ts') = et_results (fst ts)"
proof -
  have "e = None"
    using assms by (auto simp: tracker_set_status_def tracker_inv_def tracked_deployment_def Let_def split: if_splits)
  with assms(3) have s: "tracker_set_status now upd i st ts = (ts', None)" by simp
  show ?thesis by (rule set_status_effect [OF s assms(1)]) (use tracker_inv_set_status [OF assms(1) s] in auto)
qed

lemma set_result_stores:
  assumes "tracker_inv ts" and "tracked_deployment ts i \<noteq> None" and "tracker_set_result now upd i (Some r) ts = (ts', e)"
  shows "tracker_inv ts' \<and> tracked_deployment ts' i \<noteq> None \<and> tracker_get_result i ts' = Inr (Some r)"
proof -
  have "e = None" "i \<noteq> ''''"
    using assms by (auto simp: tracker_set_result_def tracker_inv_def tracked_deployment_def Let_def split: if_splits)
  with assms(3) have s: "tracker_set_result now upd i (Some r) ts = (ts', None)" by simp
  show ?thesis
    by (rule set_result_effect [OF s assms(1)])
       (use tracker_inv_set_result [OF assms(1) s] \<open>i \<noteq> ''''\<close> in \<open>auto simp: tracker_get_result_def\<close>)
qed

lemma one_worker_phase:
  assumes "wp_running s = [(d, ph)]" and "advance run now upd d ph (wp_tracked s) = (ts, es, next)"
  shows "pool_step workers run s (s\<lparr>wp_tracked := ts, wp_events := wp_events s @ es,
     wp_running := (case next of None \<Rightarrow> [] | Some ph' \<Rightarrow> [(d, ph')])\<rparr>)"
  using pool_step.run_phase [of s "[]" d ph "[]" run now upd ts es "next" workers] assms by simp

lemma one_event:
  assumes "wp_events s = [e]"
  shows "pool_step workers run s (s\<lparr>wp_tracked := deliver_to_tracker now upd e (wp_tracked s), wp_events := []\<rparr>)"
  using pool_step.deliver_event [of s "[]" e "[]" workers run now upd] assms by simp

text \<open>
  C35: the worker looks for a result and then stores a default one, without holding the tracker in between. For the
  same successful execution, which published its result \<open>r\<close>, the pool can come to rest with \<open>r\<close> in the tracker or
  with the empty default result in its place, according to when the event is delivered.
\<close>

theorem default_result_races:
  assumes "tracker_inv ts" and "tracked_deployment ts (qd_id d) \<noteq> None" and "map_of (et_results (fst ts)) (qd_id d) = None"
    and "run d = ([ResultReady (qd_id d) r], Returned None)"
  shows "\<exists>s1 s2. (pool_step workers run)\<^sup>*\<^sup>* ((new_pool_state q ts)\<lparr>wp_running := [(d, Executing)]\<rparr>) s1 \<and>
     (pool_step workers run)\<^sup>*\<^sup>* ((new_pool_state q ts)\<lparr>wp_running := [(d, Executing)]\<rparr>) s2 \<and>
     wp_running s1 = [] \<and> wp_events s1 = [] \<and> wp_running s2 = [] \<and> wp_events s2 = [] \<and>
     tracker_get_result (qd_id d) (wp_tracked s1) = Inr (Some r) \<and>
     tracker_get_result (qd_id d) (wp_tracked s2) = Inr (Some (default_result now (qd_id d)))"
proof -
  let ?i = "qd_id d" and ?s0 = "(new_pool_state q ts)\<lparr>wp_running := [(d, Executing)]\<rparr>"
  have i: "?i \<noteq> ''''" using assms(1,2) by (auto simp: tracker_inv_def tracked_deployment_def)
  obtain ts1 e1 where t1: "tracker_set_status now now ?i StatusCompleted ts = (ts1, e1)" by fastforce
  note f1 = set_status_keeps_results [OF assms(1,2) t1]
  obtain ts2 e2 where t2: "tracker_set_result now now ?i (Some r) ts1 = (ts2, e2)" by fastforce
  note f2 = set_result_stores [OF conjunct1 [OF f1] conjunct1 [OF conjunct2 [OF f1]] t2]
  obtain ts3 e3 where t3: "tracker_set_result now now ?i (Some (default_result now ?i)) ts2 = (ts3, e3)" by fastforce
  note f3 = set_result_stores [OF conjunct1 [OF f2] conjunct1 [OF conjunct2 [OF f2]] t3]
  define sa where "sa = ?s0\<lparr>wp_tracked := ts1, wp_events := [ResultReady ?i r], wp_running := [(d, CheckingResult)]\<rparr>"
  define sb where "sb = sa\<lparr>wp_running := [(d, StoringResult)]\<rparr>"
  have "pool_step workers run ?s0 (?s0\<lparr>wp_events := [ResultReady ?i r], wp_running := [(d, FinalStatus None)]\<rparr>)" (is "pool_step _ _ _ ?sx")
    using one_worker_phase [of ?s0 d Executing run now now ts "[ResultReady ?i r]" "Some (FinalStatus None)" workers] assms(4)
    by (simp add: new_pool_state_def)
  moreover have "pool_step workers run ?sx sa"
    using one_worker_phase [of ?sx d "FinalStatus None" run now now ts1 "[]" "Some CheckingResult" workers] t1
    by (simp add: new_pool_state_def sa_def)
  ultimately have to_sa: "(pool_step workers run)\<^sup>*\<^sup>* ?s0 sa" by simp
  have "pool_step workers run sa (sa\<lparr>wp_tracked := ts2, wp_events := []\<rparr>)" (is "pool_step _ _ _ ?sy")
    using one_event [of sa "ResultReady ?i r" workers run now now] t2 by (simp add: sa_def)
  moreover have "pool_step workers run ?sy (?sy\<lparr>wp_running := []\<rparr>)"
    using one_worker_phase [of ?sy d CheckingResult run now now ts2 "[]" None workers] f2 by (simp add: sa_def new_pool_state_def)
  ultimately have first: "(pool_step workers run)\<^sup>*\<^sup>* ?s0 (?sy\<lparr>wp_running := []\<rparr>)" using to_sa by simp
  have "pool_step workers run sa sb"
    using one_worker_phase [of sa d CheckingResult run now now ts1 "[]" "Some StoringResult" workers] f1 assms(3) i
    by (simp add: sa_def sb_def new_pool_state_def tracker_get_result_def)
  moreover have "pool_step workers run sb (sb\<lparr>wp_tracked := ts2, wp_events := []\<rparr>)" (is "pool_step _ _ _ ?sz")
    using one_event [of sb "ResultReady ?i r" workers run now now] t2 by (simp add: sa_def sb_def)
  moreover have "pool_step workers run ?sz (?sz\<lparr>wp_tracked := ts3, wp_running := []\<rparr>)"
    using one_worker_phase [of ?sz d StoringResult run now now ts3 "[]" None workers] t3
    by (simp add: sa_def sb_def new_pool_state_def)
  ultimately have "(pool_step workers run)\<^sup>*\<^sup>* ?s0 (?sz\<lparr>wp_tracked := ts3, wp_running := []\<rparr>)" using to_sa by simp
  with first show ?thesis
    using f2 f3
    by (intro exI [of _ "?sy\<lparr>wp_running := []\<rparr>"] exI [of _ "?sz\<lparr>wp_tracked := ts3, wp_running := []\<rparr>"] conjI)
       (simp_all add: sa_def sb_def)
qed

theorem default_result_races_witness:
  "\<exists>s2. (pool_step 2 (\<lambda>d. ([ResultReady (qd_id d) sample_result], Returned None)))\<^sup>*\<^sup>*
      ((new_pool_state (new_queue 4) sample_tracked)\<lparr>wp_running := [(waiting_deployment, Executing)]\<rparr>) s2 \<and>
     wp_events s2 = [] \<and> tracker_get_result ''dep-1'' (wp_tracked s2) = Inr (Some (default_result 7 ''dep-1''))"
proof -
  let ?run = "\<lambda>d. ([ResultReady (qd_id d) sample_result], Returned None)"
  have i: "qd_id waiting_deployment = ''dep-1''" by (simp add: waiting_deployment_def)
  have "map_of (et_results (fst sample_tracked)) ''dep-1'' = None"
    by (simp add: sample_tracked_def tracker_register_def persist_deployment_def new_tracker_def
        persist_deployment_with_result_def waiting_deployment_def)
  then show ?thesis
    using default_result_races [of sample_tracked waiting_deployment ?run sample_result 2 "new_queue 4" 7]
      sample_tracked_facts unfolding i by auto
qed

text \<open>
  Once the queue is closed and empty, the loop of a pool that is not stopped does not wait any more: each
  iteration returns at once with an error and changes nothing, so the loop spins.
\<close>

theorem closed_queue_spins:
  assumes "eq_channel (wp_queue s) = []" and "eq_closed (wp_queue s)" and "\<not> wp_canceled s"
  shows "loop_iteration now s = LoopContinues s"
  using assms by (simp add: loop_iteration_def dequeue_def)

theorem closed_queue_spins_witness:
  "loop_iteration 5 (pool_start (new_pool_state (queue_close (new_queue 4)) sample_tracked)) =
     LoopContinues (pool_start (new_pool_state (queue_close (new_queue 4)) sample_tracked))"
  by (rule closed_queue_spins) (simp_all add: pool_start_def new_pool_state_def queue_close_def new_queue_def)

end
