(* ===== verification/Executor_Samples.thy ===== *)
theory Executor_Samples
  imports Executor
begin

text \<open>Concrete executors, providers and requests, at which the properties of the executor are evaluated.\<close>

text \<open>
  A provider that counts its instances, creates and updates what it is asked for and never
  fails, and an executor over it and the file store.
\<close>

definition counting_provider :: "(int, unit) provider_ops" where
  "counting_provider =
     \<lparr>po_get = (\<lambda>i n v c t p. (p + 1, Inr ())), po_release = (\<lambda>i n p. (p - 1, None)),
      po_create = (\<lambda>j t m p. (p, Inr (Some (map_put ''id'' (GStr ''new'') m)))),
      po_update = (\<lambda>j t a m p. (p, Inr (Some m))), po_delete = (\<lambda>j t m p. (p, None)),
      po_plan = (\<lambda>j t a m p. (p, Inr \<lparr>rp_resource_type = t, rp_action = PlanActionUpdate, rp_current_state = a,
         rp_proposed_state = Some m, rp_planned_state = Some m, rp_requires_replace = []\<rparr>)),
      po_apply = (\<lambda>j t rp p. (p, Inr (rp_planned_state rp))), po_read = (\<lambda>j t m p. (p, Inr (Some m)))\<rparr>"

lemma counting_leases: "leases counting_provider id 1"
  by (auto simp: leases_def counting_provider_def)

definition sample_executor :: "(file_store, int, unit, dependency_graph) executor" where
  "sample_executor =
     \<lparr>ex_store = Some file_store_ops, ex_providers = counting_provider,
      ex_resolver = production_resolver insertion_order insertion_order insertion_order insertion_order,
      ex_interpolate = (\<lambda>m _. Inr m), ex_decode = (\<lambda>_. Inl (ErrorString ''no plan'')), ex_now = 63745021234 * second\<rparr>"

definition sample_start :: "(file_store, int) exec_state" where
  "sample_start =
     \<lparr>xs_store = empty_file_store, xs_providers = 0, xs_events = [], xs_result = new_result '''', xs_deployed = []\<rparr>"

definition sample_request :: "resource list \<Rightarrow> metadata option \<Rightarrow> deployment_request" where
  "sample_request rs md =
     \<lparr>req_resources = rs, req_data_sources = [],
      req_options = \<lparr>opt_dry_run = False, opt_timeout = 0, opt_max_retries = 3, opt_provider_config = None\<rparr>,
      req_metadata = md\<rparr>"

definition sample_queued :: "deployment_request \<Rightarrow> queued_deployment" where
  "sample_queued rq =
     \<lparr>qd_id = ''job-1'', qd_request_id = '''', qd_request = Some rq, qd_status = StatusQueued, qd_created_at = 0,
      qd_started_at = None, qd_completed_at = None, qd_last_error = None, qd_retry_count = 0, qd_deleted_at = None,
      qd_deleted_by = '''', qd_delete_reason = ''''\<rparr>"

definition sample_bucket :: resource where
  "sample_bucket = \<lparr>res_type = ''aws_s3_bucket'', res_name = ''b'', res_properties = [(''acl'', GStr ''private'')]\<rparr>"

lemma single_sorted:
  assumes "resource_dependencies r = []"
  shows "sort_resources_by_dependencies (production_resolver mb mv mw mo) [r] = Some (Inr [r])"
    and "sort_resources_for_destruction (production_resolver mb mv mw mo) [r] = Some (Inr [r])"
proof -
  have pairs: "{(resource_key q, d) | q d. q \<in> set [r] \<and> d \<in> set (resource_dependencies q)} = {}" using assms by simp
  have d: "distinct (map resource_key [r])" by simp
  have acyclic: "\<not> cyclic_resources [r]" unfolding cyclic_resources_def pairs by simp
  obtain out where out: "sort_resources_by_dependencies (production_resolver mb mv mw mo) [r] = Some (Inr out)"
    "mset out = mset [r]" "sort_resources_for_destruction (production_resolver mb mv mw mo) [r] = Some (Inr (rev out))"
    using dres.sorted_resources [OF d acyclic] by blast
  moreover from out(2) have "out = [r]" by (cases out) auto
  ultimately show "sort_resources_by_dependencies (production_resolver mb mv mw mo) [r] = Some (Inr [r])"
    "sort_resources_for_destruction (production_resolver mb mv mw mo) [r] = Some (Inr [r])" by simp_all
qed

lemma sample_bucket_facts:
  "resource_dependencies sample_bucket = []" "extract_provider_name (res_type sample_bucket) = ''aws''"
  "resource_key sample_bucket = ''aws_s3_bucket.b''"
  by (simp_all add: resource_dependencies_def sample_bucket_def reference_scan resource_key_def extract_provider_name_def)

lemma sample_files: "tf_files_work empty_file_store"
  by (simp add: tf_files_work_def empty_file_store_def atomic_write_def)

end
