(* ===== verification/Terraform_Request.thy ===== *)
theory Terraform_Request
  imports Executor_Samples
begin

text \<open>
  From the API's request to a deployment request, \<^verbatim>\<open>internal/apiserver/types/types.go\<close>: the
  parser of the Terraform JSON and the converter of \<^verbatim>\<open>RequestConverter\<close>. A document is decoded
  JSON; where the code ranges over one of its maps, the order is that of the list.

  The provider configurations in the options are the maps of the document itself, not copies:
  what the AWS overrides write into them is also in the document of the request's metadata.
\<close>

section \<open>Requests\<close>

record deployment_config =
  dcfg_aws_profile :: string
  dcfg_aws_region :: string

record api_request =
  api_name :: string
  api_terraform_json :: "gmap option"
  api_config :: "deployment_config option"

record deployment_defaults =
  dd_dry_run :: bool
  dd_timeout :: duration
  dd_max_retries :: int

definition converter_defaults :: deployment_defaults where
  "converter_defaults = \<lparr>dd_dry_run = False, dd_timeout = 30 * minute, dd_max_retries = 3\<rparr>"

section \<open>Parsing\<close>

text \<open>The entries of one type; \<open>what\<close> is what the error calls them.\<close>

fun parse_entries :: "string \<Rightarrow> (string \<Rightarrow> string \<Rightarrow> gmap \<Rightarrow> 'a) \<Rightarrow> string \<Rightarrow> gmap \<Rightarrow> goerror + 'a list" where
  "parse_entries what mk t [] = Inr []"
| "parse_entries what mk t ((n, v) # rest) =
     (case as_map (Some v) of
        None \<Rightarrow> Inl (ErrorString (''invalid '' @ what @ '' properties for '' @ t @ ''.'' @ n))
      | Some props \<Rightarrow>
          (case parse_entries what mk t rest of
             Inl e \<Rightarrow> Inl e
           | Inr rs \<Rightarrow> Inr (mk t n props # rs)))"

fun parse_block :: "string \<Rightarrow> (string \<Rightarrow> string \<Rightarrow> gmap \<Rightarrow> 'a) \<Rightarrow> gmap \<Rightarrow> goerror + 'a list" where
  "parse_block what mk [] = Inr []"
| "parse_block what mk ((t, v) # rest) =
     (case as_map (Some v) of
        None \<Rightarrow> parse_block what mk rest
      | Some entries \<Rightarrow>
          (case parse_entries what mk t entries of
             Inl e \<Rightarrow> Inl e
           | Inr rs \<Rightarrow>
               (case parse_block what mk rest of
                  Inl e \<Rightarrow> Inl e
                | Inr rest' \<Rightarrow> Inr (rs @ rest'))))"

definition parse_resource_block :: "gmap \<Rightarrow> goerror + resource list" where
  "parse_resource_block =
     parse_block ''resource'' (\<lambda>t n props. \<lparr>res_type = t, res_name = n, res_properties = props\<rparr>)"

definition parse_data_block :: "gmap \<Rightarrow> goerror + data_source list" where
  "parse_data_block =
     parse_block ''data source'' (\<lambda>t n props. \<lparr>ds_type = t, ds_name = n, ds_properties = props\<rparr>)"

definition parse_terraform_json :: "gmap \<Rightarrow> goerror + resource list \<times> data_source list" where
  "parse_terraform_json tf =
     (case (case as_map (map_of tf ''resource'') of None \<Rightarrow> Inr [] | Some b \<Rightarrow> parse_resource_block b) of
        Inl e \<Rightarrow> Inl e
      | Inr rs \<Rightarrow>
          (case (case as_map (map_of tf ''data'') of None \<Rightarrow> Inr [] | Some b \<Rightarrow> parse_data_block b) of
             Inl e \<Rightarrow> Inl e
           | Inr ds \<Rightarrow>
               (if rs = [] \<and> ds = []
                then Inl (ErrorString ''no resources or data sources found in Terraform JSON'')
                else Inr (rs, ds))))"

section \<open>Conversion\<close>

definition set_aws :: "string \<Rightarrow> string \<Rightarrow> provider_config \<Rightarrow> provider_config" where
  "set_aws key v configs =
     (if v = '''' then configs
      else map_put ''aws'' (map_put key (GStr v) (nil_map (map_of configs ''aws''))) configs)"

definition build_deployment_options :: "deployment_defaults \<Rightarrow> deployment_config option \<Rightarrow> gmap \<Rightarrow> deployment_options" where
  "build_deployment_options dd config tf =
     (let configs = provider_configs_of tf in
      \<lparr>opt_dry_run = dd_dry_run dd, opt_timeout = dd_timeout dd, opt_max_retries = dd_max_retries dd,
       opt_provider_config = Some
         (case config of
            None \<Rightarrow> configs
          | Some c \<Rightarrow> set_aws ''region'' (dcfg_aws_region c) (set_aws ''profile'' (dcfg_aws_profile c) configs))\<rparr>)"

text \<open>The document after the overrides were written: its AWS block is the map in the options.\<close>

definition share_aws :: "provider_config \<Rightarrow> gmap \<Rightarrow> gmap" where
  "share_aws configs tf =
     (case as_map (map_of tf ''provider'') of
        None \<Rightarrow> tf
      | Some ps \<Rightarrow>
          (case as_map (map_of ps ''aws'') of
             None \<Rightarrow> tf
           | Some _ \<Rightarrow>
               map_put ''provider'' (GMap (map_put ''aws'' (GMap (nil_map (map_of configs ''aws''))) ps)) tf))"

definition build_metadata :: "string \<Rightarrow> gmap \<Rightarrow> metadata" where
  "build_metadata name tf = [(''name'', MetaVal (GStr name)), (''terraform_json'', MetaVal (GMap tf))]"

definition to_deployment_request ::
  "deployment_defaults \<Rightarrow> api_request \<Rightarrow> resource list \<Rightarrow> data_source list \<Rightarrow> deployment_request" where
  "to_deployment_request dd req rs ds =
     (let options = build_deployment_options dd (api_config req) (nil_map (api_terraform_json req)) in
      \<lparr>req_resources = rs, req_data_sources = ds, req_options = options,
       req_metadata = Some (build_metadata (api_name req)
         (share_aws (opt_else [] (opt_provider_config options)) (nil_map (api_terraform_json req))))\<rparr>)"

section \<open>What a document declares\<close>

definition declared :: "string \<Rightarrow> gmap \<Rightarrow> string \<Rightarrow> string \<Rightarrow> gmap \<Rightarrow> bool" where
  "declared block tf t n props \<longleftrightarrow>
     (\<exists>b es. as_map (map_of tf block) = Some b \<and> (t, GMap es) \<in> set b \<and> (n, GMap props) \<in> set es)"

definition malformed :: "string \<Rightarrow> gmap \<Rightarrow> bool" where
  "malformed block tf \<longleftrightarrow>
     (\<exists>b t es n v. as_map (map_of tf block) = Some b \<and> (t, GMap es) \<in> set b \<and> (n, v) \<in> set es \<and> as_map (Some v) = None)"

lemma as_map_Some_v: "as_map (Some v) = Some m \<longleftrightarrow> v = GMap m"
  by (simp add: as_map_Some)

lemma parse_entries_spec:
  "case parse_entries what mk t es of
     Inl e \<Rightarrow> \<exists>n v. (n, v) \<in> set es \<and> as_map (Some v) = None
   | Inr rs \<Rightarrow> (\<forall>n v. (n, v) \<in> set es \<longrightarrow> as_map (Some v) \<noteq> None) \<and> set rs = {mk t n props | n props. (n, GMap props) \<in> set es}"
proof (induction es)
  case (Cons e es)
  obtain n v where e: "e = (n, v)" by (cases e)
  show ?case
  proof (cases "as_map (Some v)")
    case (Some props)
    then have "v = GMap props" by (simp add: as_map_Some)
    then show ?thesis using Cons.IH e by (auto split: sum.splits)
  qed (use e in auto)
qed simp

lemma parse_block_spec:
  "case parse_block what mk b of
     Inl e \<Rightarrow> \<exists>t es n v. (t, GMap es) \<in> set b \<and> (n, v) \<in> set es \<and> as_map (Some v) = None
   | Inr rs \<Rightarrow> (\<forall>t es n v. (t, GMap es) \<in> set b \<longrightarrow> (n, v) \<in> set es \<longrightarrow> as_map (Some v) \<noteq> None) \<and>
       set rs = {mk t n props | t es n props. (t, GMap es) \<in> set b \<and> (n, GMap props) \<in> set es}"
proof (induction b)
  case (Cons e b)
  obtain t v where e: "e = (t, v)" by (cases e)
  show ?case
  proof (cases "as_map (Some v)")
    case None
    then have "v \<noteq> GMap es" for es by auto
    then show ?thesis using Cons.IH e None by (auto split: sum.splits)
  next
    case (Some es)
    then have "v = GMap es" by (simp add: as_map_Some)
    then show ?thesis
      using Cons.IH parse_entries_spec [where what = what and mk = mk and t = t and es = es] e
      by (auto split: sum.splits)
  qed
qed simp

lemma parsed_block:
  assumes "p = (case as_map (map_of tf block) of None \<Rightarrow> Inr [] | Some b \<Rightarrow> parse_block what mk b)"
  shows "(malformed block tf \<longrightarrow> (\<exists>e. p = Inl e)) \<and>
     (\<not> malformed block tf \<longrightarrow> (\<exists>rs. p = Inr rs \<and> set rs = {mk t n props | t n props. declared block tf t n props}))"
proof (cases "as_map (map_of tf block)")
  case (Some b)
  then show ?thesis
  proof (cases p)
    case (Inl e)
    then show ?thesis
      using parse_block_spec [where what = what and mk = mk and b = b] assms Some by (auto simp: malformed_def)
  next
    case (Inr rs)
    then have "parse_block what mk b = Inr rs" using assms Some by simp
    then show ?thesis
      using parse_block_spec [where what = what and mk = mk and b = b] Some Inr
      by (auto simp: malformed_def declared_def)
  qed
qed (use assms in \<open>auto simp: malformed_def declared_def\<close>)

text \<open>
  C34: the parser fails exactly if the document has a resource or data source whose properties are no
  map, or declares none at all; otherwise it returns exactly the declared resources and data sources.
\<close>

theorem parser_is_exact:
  "case parse_terraform_json tf of
     Inl e \<Rightarrow> malformed ''resource'' tf \<or> malformed ''data'' tf \<or>
       (\<forall>t n props. \<not> declared ''resource'' tf t n props \<and> \<not> declared ''data'' tf t n props)
   | Inr (rs, ds) \<Rightarrow> \<not> malformed ''resource'' tf \<and> \<not> malformed ''data'' tf \<and> (rs \<noteq> [] \<or> ds \<noteq> []) \<and>
       set rs = {\<lparr>res_type = t, res_name = n, res_properties = props\<rparr> | t n props. declared ''resource'' tf t n props} \<and>
       set ds = {\<lparr>ds_type = t, ds_name = n, ds_properties = props\<rparr> | t n props. declared ''data'' tf t n props}"
proof -
  define pr where "pr = (case as_map (map_of tf ''resource'') of None \<Rightarrow> Inr [] | Some b \<Rightarrow> parse_resource_block b)"
  define pd where "pd = (case as_map (map_of tf ''data'') of None \<Rightarrow> Inr [] | Some b \<Rightarrow> parse_data_block b)"
  note specs = parsed_block [OF pr_def [unfolded parse_resource_block_def]] parsed_block [OF pd_def [unfolded parse_data_block_def]]
  have parse: "parse_terraform_json tf =
      (case pr of Inl e \<Rightarrow> Inl e | Inr rs \<Rightarrow>
        (case pd of Inl e \<Rightarrow> Inl e | Inr ds \<Rightarrow>
          (if rs = [] \<and> ds = [] then Inl (ErrorString ''no resources or data sources found in Terraform JSON'') else Inr (rs, ds))))"
    unfolding parse_terraform_json_def pr_def pd_def by (rule refl)
  show ?thesis
  proof (cases "malformed ''resource'' tf \<or> malformed ''data'' tf")
    case True
    then show ?thesis using specs parse by (auto split: sum.split)
  next
    case False
    then obtain rs ds where ok: "pr = Inr rs" "pd = Inr ds"
      "set rs = {\<lparr>res_type = t, res_name = n, res_properties = props\<rparr> | t n props. declared ''resource'' tf t n props}"
      "set ds = {\<lparr>ds_type = t, ds_name = n, ds_properties = props\<rparr> | t n props. declared ''data'' tf t n props}"
      using specs by auto
    have empty: "rs = [] \<longleftrightarrow> set rs = {}" "ds = [] \<longleftrightarrow> set ds = {}" by simp_all
    show ?thesis
    proof (cases "rs = [] \<and> ds = []")
      case True
      then show ?thesis using parse ok(1,2) ok(3,4) by auto
    next
      case nonempty: False
      then have "parse_terraform_json tf = Inr (rs, ds)" using parse ok(1,2) by simp
      then show ?thesis using False nonempty ok(3,4) by simp
    qed
  qed
qed

theorem parser_is_exact_witness:
  "\<not> malformed ''resource'' [(''resource'', GMap [(''aws_s3_bucket'', GMap [(''b'', GMap [])])])] \<and>
   declared ''resource'' [(''resource'', GMap [(''aws_s3_bucket'', GMap [(''b'', GMap [])])])] ''aws_s3_bucket'' ''b'' []"
proof -
  let ?tf = "[(''resource'', GMap [(''aws_s3_bucket'', GMap [(''b'', GMap [])])])]"
  let ?r = "\<lparr>res_type = ''aws_s3_bucket'', res_name = ''b'', res_properties = []\<rparr>"
  have "parse_terraform_json ?tf = Inr ([?r], [])" by (simp add: parse_terraform_json_def parse_resource_block_def)
  with parser_is_exact [of ?tf] have "\<not> malformed ''resource'' ?tf"
    "{?r} = {\<lparr>res_type = t, res_name = n, res_properties = props\<rparr> | t n props. declared ''resource'' ?tf t n props}"
    by simp_all
  then show ?thesis by auto
qed

section \<open>The AWS overrides\<close>

definition put_nonempty :: "string \<Rightarrow> string \<Rightarrow> gmap \<Rightarrow> gmap" where
  "put_nonempty key v m = (if v = '''' then m else map_put key (GStr v) m)"

definition with_overrides :: "deployment_config \<Rightarrow> gmap \<Rightarrow> gmap" where
  "with_overrides c m = put_nonempty ''region'' (dcfg_aws_region c) (put_nonempty ''profile'' (dcfg_aws_profile c) m)"

lemma set_aws_lookup:
  "map_of (set_aws ''region'' r (set_aws ''profile'' p cs)) ''aws'' =
     (if r = '''' \<and> p = '''' then map_of cs ''aws''
      else Some (put_nonempty ''region'' r (put_nonempty ''profile'' p (nil_map (map_of cs ''aws'')))))"
  by (simp add: set_aws_def put_nonempty_def nil_map_def)

lemma config_entries_lookup:
  "map_wf ps \<Longrightarrow> map_of (provider_config_entries ps) k = as_map (map_of ps k)"
proof (induction ps)
  case (Cons e ps)
  obtain n v where e: "e = (n, v)" by (cases e)
  have "k = n \<Longrightarrow> map_of ps k = None" using Cons.prems e by (simp add: map_wf_def map_of_eq_None_iff)
  then show ?case using Cons e by (auto simp: map_wf_def split: gval.split)
qed simp

text \<open>
  The AWS profile and region of a request always reach the options of the deployment, which nothing
  reads. They reach the configuration the executor takes from the document only if the document
  has an AWS provider block; without one they are lost.
\<close>

theorem overrides_need_provider_block:
  assumes "api_config req = Some c" and "dcfg_aws_region c \<noteq> '''' \<or> dcfg_aws_profile c \<noteq> ''''"
    and "\<forall>ps. as_map (map_of (nil_map (api_terraform_json req)) ''provider'') = Some ps \<longrightarrow> map_wf ps"
  shows "map_of (opt_else [] (opt_provider_config (req_options (to_deployment_request dd req rs ds)))) ''aws'' =
           Some (with_overrides c (nil_map (map_of (provider_configs_of (nil_map (api_terraform_json req))) ''aws''))) \<and>
         Option.bind (request_provider_configs (to_deployment_request dd req rs ds)) (\<lambda>cs. map_of cs ''aws'') =
           map_option (with_overrides c) (map_of (provider_configs_of (nil_map (api_terraform_json req))) ''aws'')"
proof -
  let ?tf = "nil_map (api_terraform_json req)"
  let ?cs = "set_aws ''region'' (dcfg_aws_region c) (set_aws ''profile'' (dcfg_aws_profile c) (provider_configs_of ?tf))"
  have aws: "map_of ?cs ''aws'' = Some (with_overrides c (nil_map (map_of (provider_configs_of ?tf) ''aws'')))"
    using assms(2) by (auto simp: set_aws_lookup with_overrides_def)
  have options: "opt_provider_config (req_options (to_deployment_request dd req rs ds)) = Some ?cs"
    by (simp add: to_deployment_request_def build_deployment_options_def assms(1) Let_def)
  have json: "request_terraform_json (to_deployment_request dd req rs ds) = Some (share_aws ?cs ?tf)"
    by (simp add: request_terraform_json_def to_deployment_request_def build_deployment_options_def build_metadata_def
        assms(1) Let_def opt_else_def)
  have shared: "map_of (provider_configs_of (share_aws ?cs ?tf)) ''aws'' =
      map_option (with_overrides c) (map_of (provider_configs_of ?tf) ''aws'')"
  proof (cases "as_map (map_of ?tf ''provider'')")
    case None
    then show ?thesis by (simp add: share_aws_def provider_configs_of_def)
  next
    case (Some ps)
    then have ps: "map_wf ps" using assms(3) by simp
    then have "map_of (provider_configs_of ?tf) ''aws'' = as_map (map_of ps ''aws'')"
      using Some by (simp add: provider_configs_of_def config_entries_lookup)
    then show ?thesis
      using Some ps aws
      by (cases "as_map (map_of ps ''aws'')")
         (simp_all add: share_aws_def provider_configs_of_def config_entries_lookup nil_map_def map_wf_put)
  qed
  show ?thesis using options aws json shared by (simp add: request_provider_configs_def opt_else_def)
qed

definition sample_api_request :: "gmap \<Rightarrow> api_request" where
  "sample_api_request providers =
     \<lparr>api_name = ''web'',
      api_terraform_json = Some
        [(''resource'', GMap [(''aws_s3_bucket'', GMap [(''b'', GMap [])])]), (''provider'', GMap providers)],
      api_config = Some \<lparr>dcfg_aws_profile = '''', dcfg_aws_region = ''eu-west-1''\<rparr>\<rparr>"

theorem overrides_need_provider_block_witness:
  "Option.bind (request_provider_configs (to_deployment_request converter_defaults (sample_api_request []) [] []))
     (\<lambda>cs. map_of cs ''aws'') = None"
  using overrides_need_provider_block [of "sample_api_request []" "\<lparr>dcfg_aws_profile = '''', dcfg_aws_region = ''eu-west-1''\<rparr>"
      converter_defaults "[]" "[]"]
  by (simp add: sample_api_request_def provider_configs_of_def nil_map_def)

end
