(* ===== verification/Deployment_Service.thy ===== *)
theory Deployment_Service
  imports Terraform_Request Transactions
begin

text \<open>
  The deployment service, \<^verbatim>\<open>internal/deployment/service.go\<close>, on the embedded tracker and queue.
  The state store, the provider manager, the interpolator and the dependency resolver are
  optional, as in \<^verbatim>\<open>ServiceConfig\<close>; providers and interpolation are parameters. \<open>now\<close> is the clock
  of an operation, \<open>upd\<close> the time the tracker writes into its records. A dereference of a nil
  request is a \<open>Panic\<close>. The stores return no nil data without an error.
\<close>

section \<open>State\<close>

record ('s, 'p, 'i, 'g) service =
  sv_store :: "'s store_ops option"
  sv_providers :: "('p, 'i) provider_ops option"
  sv_interpolate :: "(gmap \<Rightarrow> provider_config \<Rightarrow> goerror + gmap) option"
  sv_resolver :: "'g resolver option"

record ('s, 'p) service_state =
  sw_coordinator :: "'s deploy_world coordinator"
  sw_world :: "'s deploy_world"
  sw_providers :: 'p

datatype 'a maybe_panic = NoPanic 'a | Panic string

definition nil_dereference :: string where
  "nil_dereference = ''runtime error: invalid memory address or nil pointer dereference''"

definition id_required :: goerror where
  "id_required = ErrorString ''deployment ID is required''"

definition sw_store :: "('s, 'p) service_state \<Rightarrow> 's" where
  "sw_store x = snd (fst (sw_world x))"

definition set_store :: "'s \<Rightarrow> ('s, 'p) service_state \<Rightarrow> ('s, 'p) service_state" where
  "set_store s x = x\<lparr>sw_world := ((fst (fst (sw_world x)), s), snd (sw_world x))\<rparr>"

definition run_on_tracker ::
  "('s tracked \<Rightarrow> 's tracked \<times> 'r) \<Rightarrow> ('s, 'p) service_state \<Rightarrow> ('s, 'p) service_state \<times> 'r" where
  "run_on_tracker f x = (case on_tracker f (sw_world x) of (w, r) \<Rightarrow> (x\<lparr>sw_world := w\<rparr>, r))"

section \<open>Creating and reading\<close>

definition new_queued :: "string \<Rightarrow> string \<Rightarrow> deployment_request \<Rightarrow> time \<Rightarrow> queued_deployment" where
  "new_queued i requestID rq now =
     \<lparr>qd_id = i, qd_request_id = requestID, qd_request = Some rq, qd_status = StatusQueued, qd_created_at = now,
      qd_started_at = None, qd_completed_at = None, qd_last_error = None, qd_retry_count = 0, qd_deleted_at = None,
      qd_deleted_by = '''', qd_delete_reason = ''''\<rparr>"

definition generate_deployment_id :: "time \<Rightarrow> string" where
  "generate_deployment_id now = ''dep-'' @ itoa (unix_nano now)"

definition generate_update_id :: "time \<Rightarrow> string" where
  "generate_update_id now = ''upd-'' @ itoa (unix_nano now)"

text \<open>Register and enqueue, in one transaction.\<close>

definition submit :: "time \<Rightarrow> time \<Rightarrow> queued_deployment \<Rightarrow> ('s, 'p) service_state \<Rightarrow> ('s, 'p) service_state \<times> goerror option" where
  "submit now upd d x =
     (case create_deployment_transaction (deploy_backend now upd) now d (sw_coordinator x, sw_world x) of
        ((tc, w), r) \<Rightarrow> (x\<lparr>sw_coordinator := tc, sw_world := w\<rparr>, r))"

definition create_deployment ::
  "time \<Rightarrow> time \<Rightarrow> deployment_request option \<Rightarrow> ('s, 'p) service_state \<Rightarrow>
     ('s, 'p) service_state \<times> (goerror + queued_deployment)" where
  "create_deployment now upd request x =
     (case request of
        None \<Rightarrow> (x, Inl (ErrorString ''deployment request is required''))
      | Some rq \<Rightarrow>
          (let d = new_queued (generate_deployment_id now) (opt_else '''' (request_string ''request_id'' rq)) rq now in
           case submit now upd d x of
             (x', Some e) \<Rightarrow> (x', Inl (WrapError ''failed to create deployment: '' e ''''))
           | (x', None) \<Rightarrow> (x', Inr d)))"

definition list_deployments :: "deployment_filter \<Rightarrow> ('s, 'p) service_state \<Rightarrow> queued_deployment list" where
  "list_deployments f x = tracker_list f (fst (sw_world x))"

definition get_deployment_by_id :: "string \<Rightarrow> ('s, 'p) service_state \<Rightarrow> goerror + queued_deployment" where
  "get_deployment_by_id i x =
     (if i = '''' then Inl id_required
      else (case tracker_get i (fst (sw_world x)) of
              Inl e \<Rightarrow> Inl (WrapError ''failed to get deployment: '' e '''')
            | Inr d \<Rightarrow> Inr d))"

definition get_deployment_status :: "string \<Rightarrow> ('s, 'p) service_state \<Rightarrow> goerror + deployment_status" where
  "get_deployment_status i x =
     (if i = '''' then Inl id_required
      else (case tracker_get_status i (fst (sw_world x)) of
              Inl e \<Rightarrow> Inl (WrapError ''failed to get deployment status: '' e '''')
            | Inr st \<Rightarrow> Inr st))"

definition get_deployment_state_of :: "string \<Rightarrow> ('s, 'p) service_state \<Rightarrow> goerror + gmap option" where
  "get_deployment_state_of i x =
     (if i = '''' then Inl id_required
      else (case tracker_get_result i (fst (sw_world x)) of
              Inl e \<Rightarrow> Inl (WrapError ''failed to get deployment result: '' e '''')
            | Inr None \<Rightarrow> Inr None
            | Inr (Some r) \<Rightarrow> Inr (dr_resources r)))"

definition cancel_deployment :: "string \<Rightarrow> ('s, 'p) service_state \<Rightarrow> ('s, 'p) service_state \<times> goerror option" where
  "cancel_deployment i x =
     (if i = '''' then (x, Some id_required)
      else (case queue_cancel i (snd (sw_world x)) of
              (q, Some e) \<Rightarrow> (x\<lparr>sw_world := (fst (sw_world x), q)\<rparr>, Some (WrapError ''failed to cancel deployment: '' e ''''))
            | (q, None) \<Rightarrow> (x\<lparr>sw_world := (fst (sw_world x), q)\<rparr>, None)))"

section \<open>Deleting\<close>

definition deployment_needs_destruction :: "string \<Rightarrow> ('s, 'p) service_state \<Rightarrow> (goerror + bool) maybe_panic" where
  "deployment_needs_destruction i x =
     (if i = '''' then NoPanic (Inl id_required)
      else if (case tracker_get_result i (fst (sw_world x)) of Inr (Some r) \<Rightarrow> nil_map (dr_resources r) \<noteq> [] | _ \<Rightarrow> False)
      then NoPanic (Inr True)
      else (case get_deployment_by_id i x of
              Inl e \<Rightarrow> NoPanic (Inr False)
            | Inr d \<Rightarrow>
                (case qd_request d of
                   None \<Rightarrow> Panic nil_dereference
                 | Some rq \<Rightarrow> NoPanic (Inr (req_resources rq \<noteq> [])))))"

definition destruction_job :: "time \<Rightarrow> string \<Rightarrow> deployment_request \<Rightarrow> queued_deployment" where
  "destruction_job now i rq =
     new_queued (''destroy-'' @ i @ ''-'' @ itoa (unix_nano now)) ''''
       \<lparr>req_resources = req_resources rq, req_data_sources = req_data_sources rq, req_options = req_options rq,
        req_metadata = Some (map_put ''original_deployment_id'' (MetaVal (GStr i))
          (map_put ''operation'' (MetaVal (GStr ''destroy'')) (opt_else [] (req_metadata rq))))\<rparr> now"

definition queue_destruction_job :: "time \<Rightarrow> time \<Rightarrow> string \<Rightarrow> ('s, 'p) service_state \<Rightarrow> ('s, 'p) service_state \<times> outcome" where
  "queue_destruction_job now upd i x =
     (case get_deployment_by_id i x of
        Inl e \<Rightarrow> (x, Returned (Some (WrapError ''failed to find deployment: '' e '''')))
      | Inr d \<Rightarrow>
          (case qd_request d of
             None \<Rightarrow> (x, Panicked nil_dereference)
           | Some rq \<Rightarrow>
               (case submit now upd (destruction_job now i rq) x of
                  (x', Some e) \<Rightarrow> (x', Returned (Some (WrapError ''failed to create destruction deployment: '' e '''')))
                | (x', None) \<Rightarrow> (fst (run_on_tracker (tracker_set_status now upd i StatusDestroying) x'), Returned None))))"

text \<open>The record in the state store, if there is a store.\<close>

definition delete_stored :: "('s, 'p, 'i, 'g) service \<Rightarrow> string \<Rightarrow> ('s, 'p) service_state \<Rightarrow> ('s, 'p) service_state \<times> goerror option" where
  "delete_stored sv i x =
     (case sv_store sv of
        None \<Rightarrow> (x, None)
      | Some ops \<Rightarrow> (case so_delete ops i (sw_store x) of (s, r) \<Rightarrow> (set_store s x, r)))"

definition remove_tracked :: "string \<Rightarrow> ('s, 'p) service_state \<Rightarrow> ('s, 'p) service_state \<times> goerror option" where
  "remove_tracked i x =
     (case run_on_tracker (tracker_remove i) x of
        (x', Some e) \<Rightarrow> (x', Some (WrapError ''failed to remove deployment: '' e ''''))
      | (x', None) \<Rightarrow> (x', None))"

text \<open>A finished deployment: destroyed first if it has resources, else cleaned up.\<close>

definition delete_finished ::
  "('s, 'p, 'i, 'g) service \<Rightarrow> time \<Rightarrow> time \<Rightarrow> string \<Rightarrow> ('s, 'p) service_state \<Rightarrow> ('s, 'p) service_state \<times> outcome" where
  "delete_finished sv now upd i x =
     (case deployment_needs_destruction i x of
        Panic p \<Rightarrow> (x, Panicked p)
      | NoPanic (Inl e) \<Rightarrow> (x, Returned (Some (WrapError ''failed to check destruction needs: '' e '''')))
      | NoPanic (Inr True) \<Rightarrow> queue_destruction_job now upd i x
      | NoPanic (Inr False) \<Rightarrow>
          (case delete_stored sv i x of
             (x1, Some e) \<Rightarrow> (x1, Returned (Some (WrapError ''failed to clean up state store: '' e '''')))
           | (x1, None) \<Rightarrow> (case remove_tracked i x1 of (x2, r) \<Rightarrow> (x2, Returned r))))"

fun delete_in_status ::
  "('s, 'p, 'i, 'g) service \<Rightarrow> time \<Rightarrow> time \<Rightarrow> string \<Rightarrow> deployment_status \<Rightarrow> ('s, 'p) service_state \<Rightarrow>
     ('s, 'p) service_state \<times> outcome" where
  "delete_in_status sv now upd i StatusCompleted x = delete_finished sv now upd i x"
| "delete_in_status sv now upd i StatusFailed x = delete_finished sv now upd i x"
| "delete_in_status sv now upd i StatusCanceled x = delete_finished sv now upd i x"
| "delete_in_status sv now upd i StatusProcessing x =
     (case run_on_tracker (tracker_set_status now upd i StatusCanceling) x of
        (x', Some e) \<Rightarrow> (x', Returned (Some (WrapError ''failed to set deployment status: '' e '''')))
      | (x', None) \<Rightarrow> (x', Returned None))"
| "delete_in_status sv now upd i StatusQueued x =
     (case cancel_deployment i x of
        (x1, Some e) \<Rightarrow> (x1, Returned (Some e))
      | (x1, None) \<Rightarrow> (case remove_tracked i (fst (delete_stored sv i x1)) of (x2, r) \<Rightarrow> (x2, Returned r)))"
| "delete_in_status sv now upd i StatusCanceling x =
     (x, Returned (Some (ErrorString ''cannot delete deployment while cancellation is in progress'')))"
| "delete_in_status sv now upd i StatusDestroying x =
     (x, Returned (Some (ErrorString ''cannot delete deployment while destruction is in progress'')))"
| "delete_in_status sv now upd i StatusDestroyed x =
     (fst (remove_tracked i (fst (delete_stored sv i x))), Returned None)"
| "delete_in_status sv now upd i StatusDeleted x =
     (fst (remove_tracked i (fst (delete_stored sv i x))), Returned None)"
| "delete_in_status sv now upd i (StatusOther s) x =
     (x, Returned (Some (ErrorString (''cannot delete deployment in status: '' @ s))))"

definition delete_deployment ::
  "('s, 'p, 'i, 'g) service \<Rightarrow> time \<Rightarrow> time \<Rightarrow> string \<Rightarrow> ('s, 'p) service_state \<Rightarrow> ('s, 'p) service_state \<times> outcome" where
  "delete_deployment sv now upd i x =
     (if i = '''' then (x, Returned (Some id_required))
      else (case get_deployment_status i x of
              Inl e \<Rightarrow> (x, Returned (Some e))
            | Inr st \<Rightarrow> delete_in_status sv now upd i st x))"

end
