(* ===== verification/Update_Service.thy ===== *)
theory Update_Service
  imports Deployment_Service
begin

text \<open>
  Planning and queueing updates, the second half of \<^verbatim>\<open>internal/deployment/service.go\<close>, with the
  errors of \<^verbatim>\<open>errors.go\<close> and the resolution of provider versions of \<^verbatim>\<open>provider_version.go\<close>.
\<close>

section \<open>Errors\<close>

definition err_deployment_in_progress :: goerror where
  "err_deployment_in_progress =
     DeploymentError ''DEPLOYMENT_IN_PROGRESS'' ''cannot update a deployment that is currently in progress'' ''processing'' 409"

definition err_deployment_queued :: goerror where
  "err_deployment_queued =
     DeploymentError ''DEPLOYMENT_QUEUED'' ''Cannot update a deployment that is still queued'' ''queued'' 409"

definition err_deployment_canceled :: goerror where
  "err_deployment_canceled = DeploymentError ''DEPLOYMENT_CANCELED'' ''Cannot update a canceled deployment'' ''canceled'' 410"

definition err_deployment_destroying :: goerror where
  "err_deployment_destroying =
     DeploymentError ''DEPLOYMENT_DESTROYING'' ''Cannot update a deployment that is being destroyed'' ''destroying'' 409"

definition err_deployment_destroyed :: goerror where
  "err_deployment_destroyed =
     DeploymentError ''DEPLOYMENT_DESTROYED'' ''Cannot update a deployment that has been destroyed'' ''destroyed'' 410"

text \<open>\<^verbatim>\<open>errors.As\<close>: the first deployment error of the chain.\<close>

definition deployment_error :: "goerror \<Rightarrow> goerror option" where
  "deployment_error e = find is_deployment_error (error_chain e)"

fun validate_deployment_for_update :: "deployment_status \<Rightarrow> goerror option" where
  "validate_deployment_for_update StatusProcessing = Some err_deployment_in_progress"
| "validate_deployment_for_update StatusQueued = Some err_deployment_queued"
| "validate_deployment_for_update StatusCanceled = Some err_deployment_canceled"
| "validate_deployment_for_update StatusCanceling =
     Some (DeploymentError ''DEPLOYMENT_CANCELING'' ''cannot update a deployment that is being canceled'' '''' 409)"
| "validate_deployment_for_update StatusDestroying = Some err_deployment_destroying"
| "validate_deployment_for_update StatusDestroyed = Some err_deployment_destroyed"
| "validate_deployment_for_update StatusDeleted =
     Some (DeploymentError ''DEPLOYMENT_DELETED'' ''cannot update a deleted deployment'' '''' 410)"
| "validate_deployment_for_update StatusCompleted = None"
| "validate_deployment_for_update StatusFailed = None"
| "validate_deployment_for_update (StatusOther s) =
     Some (DeploymentError ''INVALID_STATUS'' (''invalid deployment status for update: '' @ s) '''' 400)"

definition check_deployment_update_eligibility :: "string \<Rightarrow> ('s, 'p) service_state \<Rightarrow> goerror option" where
  "check_deployment_update_eligibility i x =
     (case get_deployment_status i x of Inl e \<Rightarrow> Some e | Inr st \<Rightarrow> validate_deployment_for_update st)"

section \<open>The inputs of a plan\<close>

text \<open>The deployment's current Terraform document.\<close>

definition extract_current_state :: "string \<Rightarrow> ('s, 'p) service_state \<Rightarrow> goerror + gmap option" where
  "extract_current_state i x =
     (case get_deployment_by_id i x of
        Inl e \<Rightarrow> Inl (WrapError ''failed to get deployment: '' e '''')
      | Inr d \<Rightarrow> Inr (Option.bind (qd_request d) request_terraform_json))"

definition fill_version :: "string \<times> string \<Rightarrow> (string \<times> string) list \<Rightarrow> (string \<times> string) list" where
  "fill_version = (\<lambda>(p, v) vs. if map_of vs p = None then map_put p v vs else vs)"

definition merged_provider_versions :: "gmap \<Rightarrow> gmap option \<Rightarrow> (string \<times> string) list" where
  "merged_provider_versions new current =
     (case current of
        None \<Rightarrow> extract_provider_versions new
      | Some c \<Rightarrow> fold fill_version (extract_provider_versions c) (extract_provider_versions new))"

text \<open>The attributes by resource key; of several instances the last one's.\<close>

definition states_by_key :: "tf_state \<Rightarrow> (string \<times> gmap option) list" where
  "states_by_key st =
     fold (\<lambda>r m. fold (\<lambda>i m. map_put (tr_type r @ ''.'' @ tr_name r) (ti_attributes i) m) (tr_instances r) m)
       (ts_resources st) []"

definition load_states :: "'s store_ops \<Rightarrow> string \<Rightarrow> 's \<Rightarrow> goerror + (string \<times> gmap option) list" where
  "load_states ops i s = (case load_terraform_state ops i s of Inl e \<Rightarrow> Inl e | Inr st \<Rightarrow> Inr (states_by_key st))"

fun interpolation_states :: "string \<Rightarrow> (string \<times> gmap option) list \<Rightarrow> provider_config \<Rightarrow> provider_config" where
  "interpolation_states i [] acc = acc"
| "interpolation_states i ((key, state) # rest) acc =
     (case parse_resource_key (if has_prefix key (i @ ''_'') then drop (length i + 1) key else key) of
        (t, n) \<Rightarrow>
          interpolation_states i rest
            (if t \<noteq> '''' \<and> n \<noteq> '''' then put_entry t n (GMap (nil_map state)) acc else acc))"

definition get_deployed_resources_for_interpolation :: "'s store_ops \<Rightarrow> string \<Rightarrow> 's \<Rightarrow> goerror + provider_config" where
  "get_deployed_resources_for_interpolation ops i s =
     (case load_states ops i s of Inl e \<Rightarrow> Inl e | Inr m \<Rightarrow> Inr (interpolation_states i m []))"

definition parse_configurations :: "gmap \<Rightarrow> gmap option \<Rightarrow> goerror + resource list \<times> resource list" where
  "parse_configurations new current =
     (case parse_terraform_json new of
        Inl e \<Rightarrow> Inl (WrapError ''failed to parse new terraform JSON: '' e '''')
      | Inr (rs, _) \<Rightarrow>
          Inr (rs, (case current of
                      None \<Rightarrow> []
                    | Some c \<Rightarrow> (case parse_terraform_json c of Inl _ \<Rightarrow> [] | Inr (cs, _) \<Rightarrow> cs))))"

section \<open>The changes of a plan\<close>

definition plan_resource_change_with_state ::
  "('s, 'p, 'i, 'g) service \<Rightarrow> ('p, 'i) provider_ops \<Rightarrow> string \<Rightarrow> provider_config \<Rightarrow> (string \<times> string) list \<Rightarrow>
     provider_config \<Rightarrow> (string \<times> gmap option) list \<Rightarrow> resource \<Rightarrow> 'p \<Rightarrow> 'p \<times> (goerror + resource_change)" where
  "plan_resource_change_with_state sv P i configs versions deployed states r p =
     (let key = make_resource_key (res_type r) (res_name r);
          current = opt_else None (map_of states key);
          name = extract_provider_name (res_type r);
          version = opt_else '''' (map_of versions name) in
      if version = '''' then (p, Inl (ErrorString (''provider version not specified for provider '' @ name)))
      else
        (case po_get P i name version (Some configs) (res_type r) p of
           (p1, Inl e) \<Rightarrow>
             (p1, Inl (WrapError (''failed to get provider '' @ name @ '' for resource '' @ res_type r @ '': '') e ''''))
         | (p1, Inr inst) \<Rightarrow>
             (let userConfig =
                (case sv_interpolate sv of
                   None \<Rightarrow> res_properties r
                 | Some f \<Rightarrow> (case f (res_properties r) deployed of Inl _ \<Rightarrow> res_properties r | Inr m \<Rightarrow> m)) in
              case po_plan P inst (res_type r) current userConfig p1 of
                (p2, Inl e) \<Rightarrow>
                  (p2, Inl (WrapError (''failed to plan resource '' @ res_type r @ ''.'' @ res_name r @ '': '') e ''''))
              | (p2, Inr plan) \<Rightarrow>
                  (p2, Inr \<lparr>rc_key = key, rc_action = convert_plan_action (rp_action plan), rc_before = current,
                            rc_after = rp_planned_state plan, rc_proposed_state = Some userConfig,
                            rc_replace_paths = rp_requires_replace plan\<rparr>))))"

fun plan_resources ::
  "(resource \<Rightarrow> 'p \<Rightarrow> 'p \<times> (goerror + resource_change)) \<Rightarrow> resource list \<Rightarrow> 'p \<Rightarrow> 'p \<times> (goerror + resource_change list)" where
  "plan_resources f [] p = (p, Inr [])"
| "plan_resources f (r # rs) p =
     (case f r p of
        (p1, Inl e) \<Rightarrow> (p1, Inl e)
      | (p1, Inr c) \<Rightarrow>
          (case plan_resources f rs p1 of
             (p2, Inl e) \<Rightarrow> (p2, Inl e)
           | (p2, Inr cs) \<Rightarrow> (p2, Inr (c # cs))))"

definition find_deleted_resources :: "resource list \<Rightarrow> resource list \<Rightarrow> resource_change list" where
  "find_deleted_resources new current =
     map (\<lambda>c. \<lparr>rc_key = make_resource_key (res_type c) (res_name c), rc_action = ActionDelete,
               rc_before = Some (res_properties c), rc_after = None, rc_proposed_state = None, rc_replace_paths = []\<rparr>)
       (filter (\<lambda>c. \<not> list_ex (\<lambda>n. res_type c = res_type n \<and> res_name c = res_name n) new) current)"

definition generate_resource_changes ::
  "('s, 'p, 'i, 'g) service \<Rightarrow> ('p, 'i) provider_ops \<Rightarrow> 's store_ops \<Rightarrow> string \<Rightarrow> resource list \<Rightarrow> resource list \<Rightarrow>
     provider_config \<Rightarrow> (string \<times> string) list \<Rightarrow> provider_config \<Rightarrow> 's \<Rightarrow> 'p \<Rightarrow> 'p \<times> (goerror + resource_change list)" where
  "generate_resource_changes sv P ops i new current configs versions deployed s p =
     (case load_states ops i s of
        Inl e \<Rightarrow> (p, Inl e)
      | Inr states \<Rightarrow>
          (case plan_resources (plan_resource_change_with_state sv P i configs versions deployed states) new p of
             (p1, Inl e) \<Rightarrow> (p1, Inl e)
           | (p1, Inr cs) \<Rightarrow> (p1, Inr (cs @ find_deleted_resources new current))))"

section \<open>The plan\<close>

definition empty_summary :: update_summary where
  "empty_summary = \<lparr>sum_to_create = 0, sum_to_update = 0, sum_to_delete = 0, sum_to_replace = 0, sum_no_changes = 0\<rparr>"

fun count_change :: "change_action \<Rightarrow> update_summary \<Rightarrow> update_summary" where
  "count_change ActionCreate sm = sm\<lparr>sum_to_create := sum_to_create sm + 1\<rparr>"
| "count_change ActionUpdate sm = sm\<lparr>sum_to_update := sum_to_update sm + 1\<rparr>"
| "count_change ActionDelete sm = sm\<lparr>sum_to_delete := sum_to_delete sm + 1\<rparr>"
| "count_change ActionReplace sm = sm\<lparr>sum_to_replace := sum_to_replace sm + 1\<rparr>"
| "count_change ActionNoOp sm = sm"
| "count_change (ActionOther _) sm = sm"

fun dangers_of :: "change_action \<Rightarrow> string \<Rightarrow> dangerous_change list" where
  "dangers_of ActionDelete key =
     [\<lparr>dc_key = key, dc_reason = ''Resource deletion'', dc_impact = ''Data loss - resource will be permanently deleted''\<rparr>]"
| "dangers_of ActionReplace key =
     [\<lparr>dc_key = key, dc_reason = ''Resource replacement'',
       dc_impact = ''Resource will be deleted and recreated, potential downtime''\<rparr>]"
| "dangers_of _ key = []"

text \<open>\<open>None\<close> only if the resolver does not return.\<close>

definition build_update_plan ::
  "('s, 'p, 'i, 'g) service \<Rightarrow> time \<Rightarrow> string \<Rightarrow> resource_change list \<Rightarrow> provider_config \<Rightarrow> (string \<times> string) list \<Rightarrow>
     update_plan option" where
  "build_update_plan sv now i changes configs versions =
     (let order = (case sv_resolver sv of
                     None \<Rightarrow> Some []
                   | Some rv \<Rightarrow>
                       (if changes = [] then Some []
                        else (case calculate_execution_order rv changes of
                                None \<Rightarrow> None | Some (Inl _) \<Rightarrow> Some [] | Some (Inr cs) \<Rightarrow> Some cs)));
          dangers = concat (map (\<lambda>c. dangers_of (rc_action c) (rc_key c)) changes) in
      case order of
        None \<Rightarrow> None
      | Some cs \<Rightarrow>
          Some \<lparr>up_deployment_id = i, up_plan_id = ''plan-'' @ i @ ''-'' @ itoa (unix_seconds now), up_changes = changes,
                up_execution_order = cs, up_summary = fold (\<lambda>c. count_change (rc_action c)) changes empty_summary,
                up_dangerous_changes = dangers, up_created_at = now, up_requires_approval = dangers \<noteq> [],
                up_provider_configs = Some configs, up_provider_versions = versions\<rparr>)"

definition generate_update_plan ::
  "('s, 'p, 'i, 'g) service \<Rightarrow> time \<Rightarrow> string \<Rightarrow> gmap option \<Rightarrow> ('s, 'p) service_state \<Rightarrow>
     (('s, 'p) service_state \<times> (goerror + update_plan)) option" where
  "generate_update_plan sv now i newJSON x =
     (if i = '''' then Some (x, Inl id_required)
      else case newJSON of
        None \<Rightarrow> Some (x, Inl (ErrorString ''new terraform JSON is required''))
      | Some tf \<Rightarrow>
          (case (sv_store sv, sv_providers sv) of
             (Some ops, Some P) \<Rightarrow>
               (case extract_current_state i x of
                  Inl e \<Rightarrow> Some (x, Inl (WrapError ''failed to extract current state: '' e ''''))
                | Inr current \<Rightarrow>
                    (let configs = provider_configs_of tf; versions = merged_provider_versions tf current in
                     case get_deployed_resources_for_interpolation ops i (sw_store x) of
                       Inl e \<Rightarrow> Some (x, Inl (WrapError ''failed to get deployed resources: '' e ''''))
                     | Inr deployed \<Rightarrow>
                         (case parse_configurations tf current of
                            Inl e \<Rightarrow> Some (x, Inl (WrapError ''failed to parse configurations: '' e ''''))
                          | Inr (new, old) \<Rightarrow>
                              (case generate_resource_changes sv P ops i new old configs versions deployed
                                      (sw_store x) (sw_providers x) of
                                 (p, Inl e) \<Rightarrow>
                                   Some (x\<lparr>sw_providers := p\<rparr>, Inl (WrapError ''failed to generate resource changes: '' e ''''))
                               | (p, Inr changes) \<Rightarrow>
                                   map_option (\<lambda>plan. (x\<lparr>sw_providers := p\<rparr>, Inr plan))
                                     (build_update_plan sv now i changes configs versions)))))
           | _ \<Rightarrow> Some (x, Inl (ErrorString ''update planning requires state store and provider manager''))))"

section \<open>Queueing an update\<close>

record update_request =
  ur_deployment_id :: string
  ur_request_id :: string
  ur_new_terraform_json :: "gmap option"
  ur_plan_first :: bool
  ur_auto_approve :: bool
  ur_force_update :: bool
  ur_updated_by :: string
  ur_update_reason :: string

datatype update_status =
    UpdatePending | UpdatePlanning | UpdateApproval | UpdateApplying | UpdateCompleted | UpdateFailed | UpdateCanceled

fun update_status_string :: "update_status \<Rightarrow> string" where
  "update_status_string UpdatePending = ''pending''"
| "update_status_string UpdatePlanning = ''planning''"
| "update_status_string UpdateApproval = ''approval''"
| "update_status_string UpdateApplying = ''applying''"
| "update_status_string UpdateCompleted = ''completed''"
| "update_status_string UpdateFailed = ''failed''"
| "update_status_string UpdateCanceled = ''canceled''"

record queued_update =
  qu_id :: string
  qu_deployment_id :: string
  qu_request :: update_request
  qu_status :: update_status
  qu_plan :: update_plan
  qu_created_at :: time
  qu_started_at :: "time option"
  qu_completed_at :: "time option"
  qu_last_error :: "goerror option"

definition zero_options :: deployment_options where
  "zero_options = \<lparr>opt_dry_run = False, opt_timeout = 0, opt_max_retries = 0, opt_provider_config = None\<rparr>"

definition convert_terraform_to_request :: "gmap \<Rightarrow> goerror + deployment_request" where
  "convert_terraform_to_request tf =
     (case parse_terraform_json tf of
        Inl e \<Rightarrow> Inl (WrapError ''failed to parse terraform JSON: '' e '''')
      | Inr (rs, ds) \<Rightarrow>
          Inr \<lparr>req_resources = rs, req_data_sources = ds, req_options = zero_options, req_metadata = Some []\<rparr>)"

definition build_update_deployment_request ::
  "string \<Rightarrow> string \<Rightarrow> gmap \<Rightarrow> update_plan \<Rightarrow> goerror + deployment_request" where
  "build_update_deployment_request i updateID tf plan =
     (case convert_terraform_to_request tf of
        Inl e \<Rightarrow> Inl (WrapError ''failed to convert terraform JSON: '' e '''')
      | Inr rq \<Rightarrow>
          Inr (rq\<lparr>req_metadata := Some
            [(''operation'', MetaVal (GStr ''update'')), (''deployment_id'', MetaVal (GStr i)),
             (''update_id'', MetaVal (GStr updateID)), (''update_plan'', MetaPlan plan),
             (''terraform_json'', MetaVal (GMap tf))]\<rparr>))"

definition build_queued_update_deployment :: "time \<Rightarrow> string \<Rightarrow> string \<Rightarrow> deployment_request \<Rightarrow> queued_deployment" where
  "build_queued_update_deployment now i updateID rq = new_queued (''update-'' @ i @ ''-'' @ updateID) '''' rq now"

definition create_and_queue_update ::
  "time \<Rightarrow> time \<Rightarrow> string \<Rightarrow> update_request \<Rightarrow> update_plan \<Rightarrow> ('s, 'p) service_state \<Rightarrow>
     ('s, 'p) service_state \<times> (goerror + queued_update)" where
  "create_and_queue_update now upd i request plan x =
     (let updateID = generate_update_id now in
      case build_update_deployment_request i updateID (nil_map (ur_new_terraform_json request)) plan of
        Inl e \<Rightarrow> (x, Inl e)
      | Inr rq \<Rightarrow>
          (case submit now upd (build_queued_update_deployment now i updateID rq) x of
             (x', Some e) \<Rightarrow> (x', Inl (WrapError ''failed to create update deployment: '' e ''''))
           | (x', None) \<Rightarrow>
               (x', Inr \<lparr>qu_id = updateID, qu_deployment_id = i, qu_request = request, qu_status = UpdatePending,
                         qu_plan = plan, qu_created_at = now, qu_started_at = None, qu_completed_at = None,
                         qu_last_error = None\<rparr>)))"

definition update_deployment ::
  "('s, 'p, 'i, 'g) service \<Rightarrow> time \<Rightarrow> time \<Rightarrow> string \<Rightarrow> update_request option \<Rightarrow> ('s, 'p) service_state \<Rightarrow>
     (('s, 'p) service_state \<times> (goerror + queued_update)) option" where
  "update_deployment sv now upd i request x =
     (if i = '''' then Some (x, Inl id_required)
      else case request of
        None \<Rightarrow> Some (x, Inl (ErrorString ''update request is required''))
      | Some ur \<Rightarrow>
          (case check_deployment_update_eligibility i x of
             Some e \<Rightarrow> Some (x, Inl e)
           | None \<Rightarrow>
               (case generate_update_plan sv now i (ur_new_terraform_json ur) x of
                  None \<Rightarrow> None
                | Some (x1, Inl e) \<Rightarrow> Some (x1, Inl (WrapError ''failed to generate update plan: '' e ''''))
                | Some (x1, Inr plan) \<Rightarrow> Some (create_and_queue_update now upd i ur plan x1))))"

section \<open>Provider versions\<close>

text \<open>\<open>env\<close> is the environment, \<open>upper\<close> the upper-casing of a name.\<close>

fun required_versions :: "gmap \<Rightarrow> (string \<times> string) list \<Rightarrow> (string \<times> string) list" where
  "required_versions [] versions = versions"
| "required_versions ((provider, config) # rest) versions =
     required_versions rest
       (case as_map (Some config) of
          None \<Rightarrow> versions
        | Some c \<Rightarrow> (case as_string (map_of c ''version'') of None \<Rightarrow> versions | Some v \<Rightarrow> map_put provider v versions))"

definition new_version_resolver :: "gmap \<Rightarrow> (string \<times> string) list" where
  "new_version_resolver tf =
     (case as_map (map_of tf ''terraform'') of
        None \<Rightarrow> []
      | Some t \<Rightarrow> (case as_map (map_of t ''required_providers'') of None \<Rightarrow> [] | Some rp \<Rightarrow> required_versions rp []))"

definition default_provider_version :: "string \<Rightarrow> string" where
  "default_provider_version name =
     (if name = ''aws'' then ''6.0.0'' else if name = ''azurerm'' then ''3.85.0'' else if name = ''google'' then ''5.10.0''
      else if name = ''null'' then ''3.2.2'' else if name = ''random'' then ''3.6.0'' else ''unspecified'')"

definition get_provider_version :: "(string \<Rightarrow> string) \<Rightarrow> (string \<Rightarrow> string) \<Rightarrow> (string \<times> string) list \<Rightarrow> string \<Rightarrow> string \<Rightarrow> string" where
  "get_provider_version env upper versions name override =
     (if override \<noteq> '''' then override
      else if env (upper name @ ''_PROVIDER_VERSION'') \<noteq> '''' then env (upper name @ ''_PROVIDER_VERSION'')
      else (case map_of versions name of Some v \<Rightarrow> v | None \<Rightarrow> default_provider_version name))"

definition get_provider_versions_map ::
  "(string \<Rightarrow> string) \<Rightarrow> (string \<Rightarrow> string) \<Rightarrow> (string \<times> string) list \<Rightarrow> resource list \<Rightarrow> (string \<times> string) list" where
  "get_provider_versions_map env upper versions rs =
     fold (\<lambda>name. map_put name (get_provider_version env upper versions name ''''))
       (map fst (fold (\<lambda>r. map_put (extract_provider_name (res_type r)) True) rs [])) []"

end
