(* ===== verification/Request_Validation.thy ===== *)
theory Request_Validation
  imports Terraform_Request
begin

text \<open>
  What stands before the handlers of the API: the validators of
  \<^verbatim>\<open>internal/apiserver/middleware/validation.go\<close>, and the decoding of a request's body into
  \<^verbatim>\<open>types.DeploymentRequest\<close>.

  A body is its length and what \<^verbatim>\<open>encoding/json\<close> reads in it; the members of an object are in the
  order of the text, repeated ones included. A validator is the error it answers with, if any.
\<close>

section \<open>Requests\<close>

datatype json_text = JsonObject gmap | JsonNull | NotAnObject

record http_request =
  rq_method :: string
  rq_content_length :: int
  rq_transfer_encoding :: string
  rq_content_type :: string
  rq_body_size :: nat
  rq_body :: json_text
  rq_force_update :: string
  rq_auto_approve :: string
  rq_update_reason :: string
  rq_user_id :: string
  rq_request_id :: string

text \<open>Decoding into a map: of repeated members the last one remains, at every level.\<close>

definition put_all :: "('k \<times> 'v) list \<Rightarrow> ('k \<times> 'v) list \<Rightarrow> ('k \<times> 'v) list" where
  "put_all = fold (\<lambda>(k, v). map_put k v)"

primrec decode_value :: "gval \<Rightarrow> gval" where
  "decode_value GNil = GNil"
| "decode_value (GBool b) = GBool b"
| "decode_value (GInt i) = GInt i"
| "decode_value (GFloat f) = GFloat f"
| "decode_value (GStr s) = GStr s"
| "decode_value (GTime t) = GTime t"
| "decode_value (GList xs) = GList (map decode_value xs)"
| "decode_value (GMap m) = GMap (put_all (map (map_prod id decode_value) m) [])"

definition decode_members :: "gmap \<Rightarrow> gmap \<Rightarrow> gmap" where
  "decode_members m old = put_all (map (map_prod id decode_value) m) old"

fun decode_map :: "json_text \<Rightarrow> gmap option" where
  "decode_map (JsonObject m) = Some (decode_members m [])"
| "decode_map JsonNull = Some []"
| "decode_map NotAnObject = None"

section \<open>Validators\<close>

record validation_error =
  ve_message :: string
  ve_field :: string

definition is_modifying_request :: "http_request \<Rightarrow> bool" where
  "is_modifying_request rq \<longleftrightarrow> rq_method rq = ''POST'' \<or> rq_method rq = ''PUT''"

definition max_request_body_size :: nat where
  "max_request_body_size = 10 * 1024 * 1024"

definition parse_and_restore_body :: "http_request \<Rightarrow> goerror + gmap" where
  "parse_and_restore_body rq =
     (if rq_body_size rq > max_request_body_size
      then Inl (ErrorString (''request body too large (max '' @ itoa (int max_request_body_size) @ '' bytes)''))
      else (case decode_map (rq_body rq) of
              None \<Rightarrow> Inl (ErrorString ''invalid JSON in request body'')
            | Some m \<Rightarrow> Inr m))"

text \<open>The patterns of identifiers and names.\<close>

definition valid_id_pattern :: "string \<Rightarrow> bool" where
  "valid_id_pattern s \<longleftrightarrow> 1 \<le> length s \<and> length s \<le> 100 \<and> list_all (\<lambda>c. is_alnum c \<or> c = CHR ''-'') s"

definition valid_name_pattern :: "string \<Rightarrow> bool" where
  "valid_name_pattern s \<longleftrightarrow> 2 \<le> length s \<and> length s \<le> 100 \<and> is_alnum (hd s) \<and> is_alnum (last s) \<and>
     list_all (\<lambda>c. is_alnum c \<or> c = CHR ''.'' \<or> c = CHR ''_'' \<or> c = CHR ''-'') (butlast (tl s))"

definition id_validator :: "string \<Rightarrow> string \<Rightarrow> validation_error option" where
  "id_validator param i =
     (if i = '''' then Some \<lparr>ve_message = param @ '' is required'', ve_field = param\<rparr>
      else if \<not> valid_id_pattern i
      then Some \<lparr>ve_message = param @ '' contains invalid characters or is too long'', ve_field = param\<rparr>
      else None)"

definition validate_name_field :: "gmap \<Rightarrow> goerror option" where
  "validate_name_field body =
     (case as_string (map_of body ''name'') of
        None \<Rightarrow> None
      | Some n \<Rightarrow>
          (if n = '''' then Some (ErrorString ''name cannot be empty'')
           else if length n < 2 then Some (ErrorString ''name must be at least 2 characters long'')
           else if \<not> valid_name_pattern n then Some (ErrorString ''name contains invalid characters or format'')
           else None))"

definition validate_terraform_json :: "gmap \<Rightarrow> goerror option" where
  "validate_terraform_json body =
     (case as_map (map_of body ''terraform_json'') of
        None \<Rightarrow> None
      | Some tf \<Rightarrow>
          (if map_of tf ''resource'' = None \<and> map_of tf ''data'' = None
           then Some (ErrorString ''terraform JSON must contain at least one resource or data block'')
           else None))"

text \<open>The two validators that read the body: \<open>check\<close> on the body of a modifying request.\<close>

definition body_validator :: "(gmap \<Rightarrow> goerror option) \<Rightarrow> string \<Rightarrow> http_request \<Rightarrow> validation_error option" where
  "body_validator check field rq =
     (if \<not> is_modifying_request rq then None
      else (case parse_and_restore_body rq of
              Inl e \<Rightarrow> Some \<lparr>ve_message = error_message e, ve_field = ''body''\<rparr>
            | Inr body \<Rightarrow> map_option (\<lambda>e. \<lparr>ve_message = error_message e, ve_field = field\<rparr>) (check body)))"

definition name_validator :: "http_request \<Rightarrow> validation_error option" where
  "name_validator = body_validator validate_name_field ''name''"

definition terraform_json_validator :: "http_request \<Rightarrow> validation_error option" where
  "terraform_json_validator = body_validator validate_terraform_json ''terraform_json''"

definition content_type_validator :: "http_request \<Rightarrow> validation_error option" where
  "content_type_validator rq =
     (if (rq_method rq = ''POST'' \<or> rq_method rq = ''PUT'' \<or> rq_method rq = ''PATCH'') \<and>
         (rq_content_length rq > 0 \<or> rq_transfer_encoding rq \<noteq> '''') \<and> rq_content_type rq \<noteq> ''application/json''
      then Some \<lparr>ve_message = ''Content-Type must be application/json'', ve_field = ''header''\<rparr>
      else None)"

section \<open>Decoding the request\<close>

text \<open>
  \<^verbatim>\<open>encoding/json\<close> finds the field of a member by its name up to case: ASCII letters are raised, and the
  two other characters that fold to ASCII letters, U+017F and U+212A, are taken for S and K.
\<close>

function fold_name :: "string \<Rightarrow> string" where
  "fold_name [] = []"
| "fold_name (c # s) =
     (if take 2 (c # s) = [CHR 0xC5, CHR 0xBF] then CHR ''S'' # fold_name (drop 1 s)
      else if take 3 (c # s) = [CHR 0xE2, CHR 0x84, CHR 0xAA] then CHR ''K'' # fold_name (drop 2 s)
      else upper_char c # fold_name s)"
  by pat_completeness auto

termination fold_name
  by (relation "measure length") auto

definition names_field :: "string \<Rightarrow> string \<Rightarrow> bool" where
  "names_field k field \<longleftrightarrow> fold_name k = fold_name field"

text \<open>A string, an object for a map, an object for the configuration; null leaves a string and clears the others.\<close>

fun decode_string :: "gval \<Rightarrow> string \<Rightarrow> string option" where
  "decode_string (GStr s) old = Some s"
| "decode_string GNil old = Some old"
| "decode_string _ old = None"

fun decode_object :: "gval \<Rightarrow> gmap option \<Rightarrow> gmap option option" where
  "decode_object (GMap m) old = Some (Some (decode_members m (nil_map old)))"
| "decode_object GNil old = Some None"
| "decode_object _ old = None"

fun decode_config_members :: "gmap \<Rightarrow> deployment_config \<Rightarrow> deployment_config option" where
  "decode_config_members [] c = Some c"
| "decode_config_members ((k, v) # rest) c =
     (if names_field k ''aws_profile''
      then Option.bind (decode_string v (dcfg_aws_profile c)) (\<lambda>s. decode_config_members rest (c\<lparr>dcfg_aws_profile := s\<rparr>))
      else if names_field k ''aws_region''
      then Option.bind (decode_string v (dcfg_aws_region c)) (\<lambda>s. decode_config_members rest (c\<lparr>dcfg_aws_region := s\<rparr>))
      else decode_config_members rest c)"

fun decode_config :: "gval \<Rightarrow> deployment_config option \<Rightarrow> deployment_config option option" where
  "decode_config (GMap m) old =
     map_option Some (decode_config_members m (opt_else \<lparr>dcfg_aws_profile = '''', dcfg_aws_region = ''''\<rparr> old))"
| "decode_config GNil old = Some None"
| "decode_config _ old = None"

fun decode_request_members :: "gmap \<Rightarrow> api_request \<Rightarrow> api_request option" where
  "decode_request_members [] r = Some r"
| "decode_request_members ((k, v) # rest) r =
     (if names_field k ''name''
      then Option.bind (decode_string v (api_name r)) (\<lambda>s. decode_request_members rest (r\<lparr>api_name := s\<rparr>))
      else if names_field k ''terraform_json''
      then Option.bind (decode_object v (api_terraform_json r)) (\<lambda>t. decode_request_members rest (r\<lparr>api_terraform_json := t\<rparr>))
      else if names_field k ''config''
      then Option.bind (decode_config v (api_config r)) (\<lambda>c. decode_request_members rest (r\<lparr>api_config := c\<rparr>))
      else decode_request_members rest r)"

definition empty_api_request :: api_request where
  "empty_api_request = \<lparr>api_name = '''', api_terraform_json = None, api_config = None\<rparr>"

fun decode_request :: "json_text \<Rightarrow> api_request option" where
  "decode_request (JsonObject m) = decode_request_members m empty_api_request"
| "decode_request JsonNull = Some empty_api_request"
| "decode_request NotAnObject = None"

section \<open>What the validators guarantee\<close>

lemma put_all_lookup: "map_of (put_all m old) k = (case map_of (rev m) k of None \<Rightarrow> map_of old k | Some v \<Rightarrow> Some v)"
  by (induction m arbitrary: old) (auto simp: put_all_def map_of_append map_add_def split: option.splits)

lemma map_of_rev_wf: "map_wf m \<Longrightarrow> map_of (rev m) = map_of m"
  by (metis map_of_eqI map_wf_def rev_rev_ident distinct_rev rev_map set_rev map_of_inject_set)

lemma decode_members_lookup:
  assumes "map_wf m"
  shows "map_of (decode_members m []) k = map_option decode_value (map_of m k)"
proof -
  have "map_wf (map (map_prod id decode_value) m)" using assms by (simp add: map_wf_def)
  then have "map_of (decode_members m []) k = map_of (map (map_prod id decode_value) m) k"
    by (simp add: decode_members_def put_all_lookup map_of_rev_wf split: option.split)
  also have "\<dots> = map_option decode_value (map_of m k)" by (induction m) auto
  finally show ?thesis .
qed

lemma decode_value_str: "decode_value v = GStr s \<longleftrightarrow> v = GStr s"
  by (cases v) auto

lemma folded_names [simp]:
  "fold_name ''name'' = ''NAME''" "fold_name ''Name'' = ''NAME''" "fold_name ''config'' = ''CONFIG''"
  "fold_name ''terraform_json'' = ''TERRAFORM_JSON''"
  by code_simp+

text \<open>The name a request is decoded to.\<close>

lemma decoded_name:
  assumes "decode_request_members m r = Some r'" and "map_wf m" and "\<forall>k \<in> fst ` set m. names_field k ''name'' \<longrightarrow> k = ''name''"
  shows "case map_of m ''name'' of None \<Rightarrow> api_name r' = api_name r | Some v \<Rightarrow> decode_string v (api_name r) = Some (api_name r')"
  using assms
proof (induction m arbitrary: r)
  case (Cons e m)
  obtain k v where e: "e = (k, v)" by (cases e)
  have wf: "map_wf m" "k \<notin> fst ` set m" using Cons.prems(2) e by (auto simp: map_wf_def)
  have names: "\<forall>k \<in> fst ` set m. names_field k ''name'' \<longrightarrow> k = ''name''" using Cons.prems(3) by simp
  have fields: "\<not> names_field ''terraform_json'' ''name''" "\<not> names_field ''config'' ''name''" "names_field ''name'' ''name''"
    by (simp_all add: names_field_def del: fold_name.simps)
  show ?case
  proof (cases "names_field k ''name''")
    case True
    then have k: "k = ''name''" using Cons.prems(3) e by simp
    then obtain s where s: "decode_string v (api_name r) = Some s" "decode_request_members m (r\<lparr>api_name := s\<rparr>) = Some r'"
      using Cons.prems(1) e fields(3) by (auto split: bind_splits)
    have "map_of m ''name'' = None" using wf(2) k by (simp add: map_of_eq_None_keys)
    then show ?thesis using Cons.IH [OF s(2) wf(1) names] s(1) e k by simp
  next
    case False
    then have "k \<noteq> ''name''" using fields(3) by auto
    moreover obtain r1 where "decode_request_members m r1 = Some r'" "api_name r1 = api_name r"
      using Cons.prems(1) e False by (auto split: bind_splits if_splits)
    ultimately show ?thesis using Cons.IH [OF _ wf(1) names, of r1] e by (auto split: option.splits)
  qed
qed simp

text \<open>
  When the members of the body are spelled like the fields of the request and none is repeated, the
  name validator guarantees that the handler sees a name of the pattern, or none at all.
\<close>

theorem validated_name:
  assumes "is_modifying_request rq" and "name_validator rq = None" and "rq_body rq = JsonObject m" and "map_wf m"
    and "\<forall>k \<in> fst ` set m. names_field k ''name'' \<longrightarrow> k = ''name''" and "decode_request (rq_body rq) = Some r"
  shows "api_name r = '''' \<or> valid_name_pattern (api_name r)"
proof -
  have ok: "validate_name_field (decode_members m []) = None"
    using assms(1-3) by (auto simp: name_validator_def body_validator_def parse_and_restore_body_def split: if_splits)
  have "decode_request_members m empty_api_request = Some r" using assms(3,6) by simp
  from decoded_name [OF this assms(4,5)] have name: "case map_of m ''name'' of None \<Rightarrow> api_name r = ''''
    | Some v \<Rightarrow> decode_string v '''' = Some (api_name r)"
    by (auto simp: empty_api_request_def split: option.splits)
  show ?thesis
  proof (cases "map_of m ''name''")
    case (Some v)
    then have "decode_string v '''' = Some (api_name r)" using name by simp
    then have "v = GStr (api_name r) \<or> api_name r = ''''" by (cases v) auto
    then show ?thesis
      using ok Some by (auto simp: validate_name_field_def decode_members_lookup [OF assms(4)] split: if_splits)
  qed (use name in simp)
qed

definition sample_http_request :: "gmap \<Rightarrow> http_request" where
  "sample_http_request m =
     \<lparr>rq_method = ''POST'', rq_content_length = 100, rq_transfer_encoding = '''', rq_content_type = ''application/json'',
      rq_body_size = 100, rq_body = JsonObject m, rq_force_update = '''', rq_auto_approve = '''', rq_update_reason = '''',
      rq_user_id = '''', rq_request_id = ''req-1''\<rparr>"

theorem validated_name_witness:
  "valid_name_pattern ''web'' \<and> \<not> valid_name_pattern ''web!''"
proof
  let ?m = "[(''name'', GStr ''web'')]"
  have "is_modifying_request (sample_http_request ?m)" "name_validator (sample_http_request ?m) = None"
    "decode_request (rq_body (sample_http_request ?m)) = Some (empty_api_request\<lparr>api_name := ''web''\<rparr>)"
    by (simp_all add: sample_http_request_def is_modifying_request_def name_validator_def body_validator_def
        parse_and_restore_body_def max_request_body_size_def validate_name_field_def valid_name_pattern_def is_alnum_def
        decode_members_def put_all_def names_field_def empty_api_request_def del: fold_name.simps)
  from validated_name [OF this(1,2) _ _ _ this(3), of ?m] show "valid_name_pattern ''web''"
    by (simp add: sample_http_request_def map_wf_def)
qed (simp add: valid_name_pattern_def is_alnum_def)

text \<open>
  The validator looks for the member \<^verbatim>\<open>name\<close>, the decoder for any spelling of it: a body that says \<^verbatim>\<open>Name\<close>
  passes with every name, and the handler gets that name.
\<close>

theorem name_check_is_bypassed:
  "name_validator (sample_http_request [(''Name'', GStr n), (''terraform_json'', GMap tf)]) = None \<and>
   map_option api_name (decode_request (rq_body (sample_http_request [(''Name'', GStr n), (''terraform_json'', GMap tf)]))) = Some n"
  by (simp add: sample_http_request_def name_validator_def body_validator_def is_modifying_request_def parse_and_restore_body_def
      max_request_body_size_def validate_name_field_def decode_members_def put_all_def names_field_def empty_api_request_def del: fold_name.simps)

end
