(* ===== verification/Deployment_Handler.thy ===== *)
theory Deployment_Handler
  imports Update_Service Request_Validation
begin

text \<open>
  The HTTP handlers of deployments, \<^verbatim>\<open>internal/apiserver/handlers/deployment_handler.go\<close>, on the deployment
  service. A handler takes the request and the service's state and gives the state and the response;
  a panic of the service is passed on to the recoverer of the server. \<open>zone\<close> is the zone a time carries.

  A response is a status and a body of values that are still to be encoded: \<open>BodySeconds\<close> and \<open>BodyDuration\<close>
  stand for a duration written in seconds and in Go's notation.
\<close>

section \<open>Responses\<close>

datatype body_value =
    BodyVal gval
  | BodySeconds duration
  | BodyDuration duration
  | BodySummary update_summary
  | BodyPlan update_plan
  | BodyDangers "dangerous_change list"
  | BodyMap "(string \<times> body_value) list"

type_synonym body_fields = "(string \<times> body_value) list"

datatype response_body = NoBody | ObjectBody body_fields | ArrayBody "body_fields list"

record response =
  rp_status :: int
  rp_body :: response_body

abbreviation body_str :: "string \<Rightarrow> body_value" where
  "body_str s \<equiv> BodyVal (GStr s)"

definition write_error :: "int \<Rightarrow> string \<Rightarrow> string \<Rightarrow> response" where
  "write_error status code message =
     \<lparr>rp_status = status, rp_body = ObjectBody [(''error'', body_str code), (''message'', body_str message)]\<rparr>"

text \<open>
  What \<^verbatim>\<open>json.Marshal\<close> encodes: every value but infinite floats, those that are no number, and times of a
  year before 0 or after 9999.
\<close>

definition marshals_time :: "time \<Rightarrow> bool" where
  "marshals_time t \<longleftrightarrow> - 366 * 86400 * second \<le> t \<and> t < 3652059 * 86400 * second"

primrec marshals :: "gval \<Rightarrow> bool" where
  "marshals GNil = True"
| "marshals (GBool b) = True"
| "marshals (GInt i) = True"
| "marshals (GFloat f) = (take_bit 11 (drop_bit 52 f) \<noteq> 2047)"
| "marshals (GStr s) = True"
| "marshals (GTime t) = marshals_time t"
| "marshals (GList xs) = list_all id (map marshals xs)"
| "marshals (GMap m) = list_all snd (map (map_prod id marshals) m)"

definition marshals_map :: "gmap \<Rightarrow> bool" where
  "marshals_map m \<longleftrightarrow> list_all (\<lambda>e. marshals (snd e)) m"

definition marshals_change :: "resource_change \<Rightarrow> bool" where
  "marshals_change c \<longleftrightarrow> marshals_map (nil_map (rc_before c)) \<and> marshals_map (nil_map (rc_after c)) \<and>
     marshals_map (nil_map (rc_proposed_state c))"

definition marshals_plan :: "update_plan \<Rightarrow> bool" where
  "marshals_plan plan \<longleftrightarrow> list_all marshals_change (up_changes plan) \<and> list_all marshals_change (up_execution_order plan) \<and>
     marshals_time (up_created_at plan) \<and> list_all (\<lambda>e. marshals_map (snd e)) (opt_else [] (up_provider_configs plan))"

primrec marshals_body :: "body_value \<Rightarrow> bool" where
  "marshals_body (BodyVal v) = marshals v"
| "marshals_body (BodySeconds d) = True"
| "marshals_body (BodyDuration d) = True"
| "marshals_body (BodySummary sm) = True"
| "marshals_body (BodyPlan plan) = marshals_plan plan"
| "marshals_body (BodyDangers ds) = True"
| "marshals_body (BodyMap m) = list_all snd (map (map_prod id marshals_body) m)"

definition marshals_fields :: "body_fields \<Rightarrow> bool" where
  "marshals_fields m \<longleftrightarrow> list_all (\<lambda>e. marshals_body (snd e)) m"

fun marshals_response :: "response_body \<Rightarrow> bool" where
  "marshals_response NoBody = True"
| "marshals_response (ObjectBody m) = marshals_fields m"
| "marshals_response (ArrayBody ms) = list_all marshals_fields ms"

definition write_json :: "int \<Rightarrow> response_body \<Rightarrow> response" where
  "write_json status data =
     (if marshals_response data then \<lparr>rp_status = status, rp_body = data\<rparr>
      else write_error 500 ''encoding_error'' ''Failed to encode response'')"

definition no_content :: response where
  "no_content = \<lparr>rp_status = 204, rp_body = NoBody\<rparr>"

section \<open>Building responses\<close>

definition format_time :: "(time \<Rightarrow> duration) \<Rightarrow> time \<Rightarrow> body_value" where
  "format_time zone t = body_str (format_rfc3339 (zone t) t)"

definition opt_field :: "string \<Rightarrow> ('a \<Rightarrow> body_value) \<Rightarrow> 'a option \<Rightarrow> body_fields" where
  "opt_field k f v = (case v of None \<Rightarrow> [] | Some a \<Rightarrow> [(k, f a)])"

definition build_queued_deployment_response :: "(time \<Rightarrow> duration) \<Rightarrow> queued_deployment \<Rightarrow> body_fields" where
  "build_queued_deployment_response zone qd =
     [(''id'', body_str (qd_id qd)), (''status'', body_str (status_string (qd_status qd))),
      (''created_at'', format_time zone (qd_created_at qd))] @
     opt_field ''name'' body_str (Option.bind (qd_request qd) (request_string ''name'')) @
     opt_field ''started_at'' (format_time zone) (qd_started_at qd) @
     opt_field ''completed_at'' (format_time zone) (qd_completed_at qd) @
     opt_field ''error'' (\<lambda>e. body_str (error_message e)) (qd_last_error qd)"

text \<open>One resource of a deployment's result; nothing for a key that is no resource key.\<close>

definition resource_entry :: "string \<Rightarrow> gval \<Rightarrow> gval option" where
  "resource_entry key data =
     (case parse_resource_key key of
        (t, n) \<Rightarrow>
          (if t = '''' \<or> n = '''' then None
           else (case as_map (Some data) of
                   Some m \<Rightarrow>
                     (let err = opt_else '''' (as_string (map_of m ''error'')) in
                      Some (GMap ([(''type'', GStr t), (''name'', GStr n),
                        (''status'', GStr (opt_else ''completed'' (as_string (map_of m ''status'')))), (''state'', GMap m)] @
                        (if err = '''' then [] else [(''error'', GStr err)]))))
                 | None \<Rightarrow>
                     Some (GMap [(''type'', GStr t), (''name'', GStr n), (''status'', GStr ''completed''),
                       (''state'', GMap [(''id'', data)])]))))"

definition convert_resource_map_to_array :: "gmap \<Rightarrow> gval list" where
  "convert_resource_map_to_array m = List.map_filter (\<lambda>(key, data). resource_entry key data) m"

definition summary_slot :: "string \<Rightarrow> string" where
  "summary_slot s =
     (if s \<in> set [''completed'', ''created'', ''updated''] then ''completed''
      else if s \<in> set [''failed'', ''pending'', ''deleted'', ''destroyed'', ''processing''] then s
      else if s \<in> set [''dry-run'', ''dry-run-create'', ''dry-run-update'', ''dry-run-delete''] then ''dry_run''
      else ''completed'')"

text \<open>One resource of the array, counted in its slot if it has a status.\<close>

definition count_resource :: "gval \<Rightarrow> (string \<times> int) list \<Rightarrow> (string \<times> int) list" where
  "count_resource r summary =
     (case as_map (Some r) of
        None \<Rightarrow> summary
      | Some m \<Rightarrow>
          (case as_string (map_of m ''status'') of
             None \<Rightarrow> summary
           | Some s \<Rightarrow> map_put (summary_slot s) (opt_else 0 (map_of summary (summary_slot s)) + 1) summary))"

definition calculate_resource_summary :: "gval list \<Rightarrow> (string \<times> int) list" where
  "calculate_resource_summary rs =
     fold count_resource rs
       ((''total'', int (length rs)) #
        map (\<lambda>k. (k, 0)) [''completed'', ''failed'', ''pending'', ''dry_run'', ''deleted'', ''destroyed'', ''processing''])"

definition resource_fields :: "gval list \<Rightarrow> body_fields" where
  "resource_fields rs =
     [(''resources'', BodyVal (GList rs)),
      (''resource_summary'', BodyMap (map (map_prod id (\<lambda>n. BodyVal (GInt n))) (calculate_resource_summary rs)))]"

definition pending_resource :: "resource \<Rightarrow> gval" where
  "pending_resource r =
     GMap [(''type'', GStr (res_type r)), (''name'', GStr (res_name r)), (''status'', GStr ''pending''), (''state'', GMap [])]"

definition deletion_fields :: "(time \<Rightarrow> duration) \<Rightarrow> queued_deployment \<Rightarrow> body_fields" where
  "deletion_fields zone qd =
     (if qd_status qd = StatusDestroyed \<or> qd_status qd = StatusDeleted
      then opt_field ''deleted_at'' (format_time zone) (qd_deleted_at qd) @
           (if qd_deleted_by qd = '''' then [] else [(''deleted_by'', body_str (qd_deleted_by qd))]) @
           (if qd_delete_reason qd = '''' then [] else [(''delete_reason'', body_str (qd_delete_reason qd))]) @
           [(''message'', body_str ''This deployment has been destroyed and is kept for audit purposes only'')]
      else [])"

definition state_fields :: "queued_deployment \<Rightarrow> ('s, 'p) service_state \<Rightarrow> body_fields" where
  "state_fields qd x =
     (case get_deployment_state_of (qd_id qd) x of
        Inl e \<Rightarrow> []
      | Inr st \<Rightarrow>
          (let m = nil_map st in
           if m \<noteq> []
           then resource_fields (convert_resource_map_to_array m) @
                opt_field ''success'' (\<lambda>b. BodyVal (GBool b)) (as_bool (map_of m ''success'')) @
                opt_field ''start_time'' BodyVal (map_of m ''start_time'') @
                opt_field ''end_time'' BodyVal (map_of m ''end_time'')
           else if qd_status qd = StatusProcessing \<or> qd_status qd = StatusQueued
           then (case qd_request qd of
                   None \<Rightarrow> []
                 | Some rq \<Rightarrow> (if req_resources rq = [] then [] else resource_fields (map pending_resource (req_resources rq))))
           else []))"

definition build_queued_deployment_response_with_state ::
  "(time \<Rightarrow> duration) \<Rightarrow> queued_deployment \<Rightarrow> ('s, 'p) service_state \<Rightarrow> body_fields" where
  "build_queued_deployment_response_with_state zone qd x =
     build_queued_deployment_response zone qd @ deletion_fields zone qd @ state_fields qd x"

definition build_queued_update_response :: "(time \<Rightarrow> duration) \<Rightarrow> queued_update \<Rightarrow> update_plan \<Rightarrow> body_fields" where
  "build_queued_update_response zone qu plan =
     [(''update_id'', body_str (qu_id qu)), (''deployment_id'', body_str (qu_deployment_id qu)),
      (''status'', body_str (update_status_string (qu_status qu))), (''created_at'', format_time zone (qu_created_at qu)),
      (''plan'', BodyMap
        [(''plan_id'', body_str (up_plan_id plan)), (''summary'', BodySummary (up_summary plan)),
         (''requires_approval'', BodyVal (GBool (up_requires_approval plan))),
         (''dangerous_changes'', BodyVal (GInt (int (length (up_dangerous_changes plan)))))])] @
     opt_field ''started_at'' (format_time zone) (qu_started_at qu) @
     opt_field ''completed_at'' (format_time zone) (qu_completed_at qu) @
     opt_field ''error'' (\<lambda>e. body_str (error_message e)) (qu_last_error qu)"

section \<open>The handlers\<close>

definition validate_deployment_request :: "api_request \<Rightarrow> goerror option" where
  "validate_deployment_request req =
     (if api_name req = '''' then Some (ErrorString ''deployment name is required'')
      else if api_terraform_json req = None then Some (ErrorString ''terraform JSON configuration is required'')
      else None)"

definition handle_create_deployment ::
  "time \<Rightarrow> time \<Rightarrow> (time \<Rightarrow> duration) \<Rightarrow> http_request \<Rightarrow> ('s, 'p) service_state \<Rightarrow> ('s, 'p) service_state \<times> response" where
  "handle_create_deployment now upd zone rq x =
     (case decode_request (rq_body rq) of
        None \<Rightarrow> (x, write_error 400 ''invalid_json'' ''Invalid JSON in request body'')
      | Some req \<Rightarrow>
          (case validate_deployment_request req of
             Some e \<Rightarrow> (x, write_error 400 ''validation_failed'' (error_message e))
           | None \<Rightarrow>
               (case parse_terraform_json (nil_map (api_terraform_json req)) of
                  Inl e \<Rightarrow> (x, write_error 400 ''invalid_terraform_json'' (error_message e))
                | Inr (rs, ds) \<Rightarrow>
                    (let dr = to_deployment_request converter_defaults req rs ds;
                         dr' = dr\<lparr>req_metadata := Some (map_put ''request_id'' (MetaVal (GStr (rq_request_id rq)))
                                                        (opt_else [] (req_metadata dr)))\<rparr> in
                     case create_deployment now upd (Some dr') x of
                       (x', Inl e) \<Rightarrow> (x', write_error 500 ''deployment_failed'' (error_message e))
                     | (x', Inr qd) \<Rightarrow>
                         (let metrics = get_metrics (snd (sw_world x')) in
                          (x', write_json 201 (ObjectBody (build_queued_deployment_response zone qd @
                            [(''queue_info'', BodyMap
                               [(''queue_depth'', BodyVal (GInt (int (qm_current_depth metrics)))),
                                (''average_wait_time'', BodySeconds (qm_average_wait_time metrics))])]))))))))"

fun write_service_error :: "response \<Rightarrow> goerror \<Rightarrow> response" where
  "write_service_error other e =
     (case deployment_error e of
        Some (DeploymentError code message status http) \<Rightarrow> write_error http code message
      | _ \<Rightarrow> other)"

definition handle_get_deployment :: "(time \<Rightarrow> duration) \<Rightarrow> string \<Rightarrow> ('s, 'p) service_state \<Rightarrow> response" where
  "handle_get_deployment zone i x =
     (case get_deployment_by_id i x of
        Inl e \<Rightarrow> write_service_error (write_error 404 ''not_found'' ''deployment not found'') e
      | Inr qd \<Rightarrow> write_json 200 (ObjectBody (build_queued_deployment_response_with_state zone qd x)))"

definition empty_filter :: deployment_filter where
  "empty_filter = \<lparr>flt_status = [], flt_created_after = time_zero, flt_created_before = time_zero\<rparr>"

definition handle_list_deployments :: "(time \<Rightarrow> duration) \<Rightarrow> ('s, 'p) service_state \<Rightarrow> response" where
  "handle_list_deployments zone x =
     write_json 200 (ArrayBody (map (\<lambda>qd.
       if qd_status qd = StatusCompleted \<or> qd_status qd = StatusFailed
       then build_queued_deployment_response_with_state zone qd x
       else build_queued_deployment_response zone qd) (list_deployments empty_filter x)))"

fun handler_validate_for_update :: "deployment_status \<Rightarrow> goerror option" where
  "handler_validate_for_update StatusProcessing =
     Some (ErrorString ''cannot update a deployment that is currently in progress'')"
| "handler_validate_for_update StatusQueued = Some (ErrorString ''cannot update a deployment that is still queued'')"
| "handler_validate_for_update StatusCanceled = Some (ErrorString ''cannot update a canceled deployment'')"
| "handler_validate_for_update StatusCanceling =
     Some (ErrorString ''cannot update a deployment that is being canceled'')"
| "handler_validate_for_update StatusDestroying =
     Some (ErrorString ''cannot update a deployment that is being destroyed'')"
| "handler_validate_for_update StatusDestroyed = Some (ErrorString ''cannot update a destroyed deployment'')"
| "handler_validate_for_update StatusDeleted = Some (ErrorString ''cannot update a deleted deployment'')"
| "handler_validate_for_update StatusCompleted = None"
| "handler_validate_for_update StatusFailed = None"
| "handler_validate_for_update (StatusOther s) = Some (ErrorString ''invalid deployment status'')"

definition dangerous_response :: "update_plan \<Rightarrow> response" where
  "dangerous_response plan =
     write_json 409 (ObjectBody
       [(''error'', body_str ''dangerous_changes_detected''),
        (''message'', body_str ''Update contains potentially dangerous changes that could cause data loss or downtime''),
        (''plan'', BodyPlan plan), (''dangerous_changes'', BodyDangers (up_dangerous_changes plan)),
        (''mitigation'', body_str (''Review the changes carefully and add '' @ [CHR 0x27] @ ''?force_update=true'' @
           [CHR 0x27] @ '' to proceed''))])"

text \<open>\<open>now1\<close> is the time of the plan that is reviewed here, \<open>now2\<close> that of the update the service plans and queues.\<close>

definition handle_update_deployment ::
  "('s, 'p, 'i, 'g) service \<Rightarrow> time \<Rightarrow> time \<Rightarrow> time \<Rightarrow> (time \<Rightarrow> duration) \<Rightarrow> http_request \<Rightarrow> string \<Rightarrow>
     ('s, 'p) service_state \<Rightarrow> (('s, 'p) service_state \<times> response) option" where
  "handle_update_deployment sv now1 now2 upd zone rq i x =
     (case get_deployment_status i x of
        Inl e \<Rightarrow> Some (x, write_error 404 ''not_found'' ''deployment not found'')
      | Inr st \<Rightarrow>
     (case decode_request (rq_body rq) of
        None \<Rightarrow> Some (x, write_error 400 ''invalid_json'' ''Invalid JSON in request body'')
      | Some req \<Rightarrow>
     (case validate_deployment_request req of
        Some e \<Rightarrow> Some (x, write_error 400 ''validation_failed'' (error_message e))
      | None \<Rightarrow>
     (case handler_validate_for_update st of
        Some e \<Rightarrow> Some (x, write_error 409 ''invalid_state'' (error_message e))
      | None \<Rightarrow>
     (case generate_update_plan sv now1 i (api_terraform_json req) x of
        None \<Rightarrow> None
      | Some (x1, Inl e) \<Rightarrow> Some (x1, write_error 400 ''plan_failed'' (''Failed to generate update plan: '' @ error_message e))
      | Some (x1, Inr plan) \<Rightarrow>
          (let force = (rq_force_update rq = ''true'');
               ur = \<lparr>ur_deployment_id = i, ur_request_id = rq_request_id rq, ur_new_terraform_json = api_terraform_json req,
                     ur_plan_first = True, ur_auto_approve = (rq_auto_approve rq = ''true''), ur_force_update = force,
                     ur_updated_by = rq_user_id rq, ur_update_reason = rq_update_reason rq\<rparr> in
           if up_dangerous_changes plan \<noteq> [] \<and> \<not> force then Some (x1, dangerous_response plan)
           else map_option (\<lambda>(x2, r). (x2,
             case r of
               Inl e \<Rightarrow> write_service_error (write_error 500 ''update_failed'' (error_message e)) e
             | Inr qu \<Rightarrow> write_json 200 (ObjectBody (build_queued_update_response zone qu plan))))
             (update_deployment sv now2 upd i (Some ur) x1)))))))"

text \<open>The answer of a deletion that goes on in the background.\<close>

definition deletion_accepted :: "string \<Rightarrow> string \<Rightarrow> string \<Rightarrow> response" where
  "deletion_accepted message status i =
     write_json 202 (ObjectBody [(''message'', body_str message), (''status'', body_str status), (''id'', body_str i)])"

text \<open>Deleting through the service; \<open>code\<close> is that of a failure.\<close>

definition delete_through_service ::
  "('s, 'p, 'i, 'g) service \<Rightarrow> time \<Rightarrow> time \<Rightarrow> string \<Rightarrow> string \<Rightarrow> response \<Rightarrow> ('s, 'p) service_state \<Rightarrow>
     ('s, 'p) service_state \<times> response maybe_panic" where
  "delete_through_service sv now upd i code done x =
     (case delete_deployment sv now upd i x of
        (x', Panicked p) \<Rightarrow> (x', Panic p)
      | (x', Returned (Some e)) \<Rightarrow> (x', NoPanic (write_error 500 code (error_message e)))
      | (x', Returned None) \<Rightarrow> (x', NoPanic done))"

fun handle_delete_in_status ::
  "('s, 'p, 'i, 'g) service \<Rightarrow> time \<Rightarrow> time \<Rightarrow> string \<Rightarrow> deployment_status \<Rightarrow> ('s, 'p) service_state \<Rightarrow>
     ('s, 'p) service_state \<times> response maybe_panic" where
  "handle_delete_in_status sv now upd i StatusProcessing x =
     delete_through_service sv now upd i ''cancel_failed''
       (deletion_accepted ''Deployment cancellation initiated, will complete after current resource operation'' ''canceling'' i) x"
| "handle_delete_in_status sv now upd i StatusQueued x =
     (case cancel_deployment i x of
        (x', Some e) \<Rightarrow> (x', NoPanic (write_error 500 ''cancel_failed'' (error_message e)))
      | (x', None) \<Rightarrow> (x', NoPanic no_content))"
| "handle_delete_in_status sv now upd i StatusCanceled x = (x, NoPanic no_content)"
| "handle_delete_in_status sv now upd i StatusCanceling x = (x, NoPanic no_content)"
| "handle_delete_in_status sv now upd i StatusDestroying x =
     (x, NoPanic (deletion_accepted ''Deployment destruction already in progress'' ''destroying'' i))"
| "handle_delete_in_status sv now upd i StatusDestroyed x = (x, NoPanic no_content)"
| "handle_delete_in_status sv now upd i StatusDeleted x = (x, NoPanic no_content)"
| "handle_delete_in_status sv now upd i (StatusOther s) x =
     (x, NoPanic (write_error 400 ''invalid_status'' ''invalid deployment status for deletion''))"
| "handle_delete_in_status sv now upd i _ x =
     (case deployment_needs_destruction i x of
        Panic p \<Rightarrow> (x, Panic p)
      | NoPanic (Inl e) \<Rightarrow> (x, NoPanic (write_error 500 ''resource_check_failed'' (error_message e)))
      | NoPanic (Inr True) \<Rightarrow>
          delete_through_service sv now upd i ''destruction_queue_failed''
            (deletion_accepted ''Infrastructure destruction initiated, resources will be deleted'' ''destroying'' i) x
      | NoPanic (Inr False) \<Rightarrow> delete_through_service sv now upd i ''remove_failed'' no_content x)"

definition handle_delete_deployment ::
  "('s, 'p, 'i, 'g) service \<Rightarrow> time \<Rightarrow> time \<Rightarrow> string \<Rightarrow> ('s, 'p) service_state \<Rightarrow>
     ('s, 'p) service_state \<times> response maybe_panic" where
  "handle_delete_deployment sv now upd i x =
     (case get_deployment_status i x of
        Inl e \<Rightarrow>
          (x, NoPanic (if str_contains (error_message e) ''not found'' then write_error 404 ''not_found'' ''deployment not found''
                       else write_error 500 ''status_check_failed'' (error_message e)))
      | Inr st \<Rightarrow> handle_delete_in_status sv now upd i st x)"

end
