(* ===== verification/API_Server.thy ===== *)
theory API_Server
  imports Deployment_Handler
begin

text \<open>
  The API server, \<^verbatim>\<open>internal/apiserver/server.go\<close>: its own endpoints and the routes with their validators. The
  router is \<^verbatim>\<open>go-chi/chi\<close>: a request arrives here with the route it chose. The state store's \<^verbatim>\<open>Ping\<close> and the
  runtime's statistics are arguments.
\<close>

section \<open>The server\<close>

record api_components =
  ac_config :: bool
  ac_queue :: bool
  ac_tracker :: bool
  ac_worker_pool :: bool
  ac_state_store :: bool

definition new_api_server :: "api_components \<Rightarrow> goerror option" where
  "new_api_server c =
     (if \<not> ac_config c then Some (ErrorString ''configuration is required'')
      else if \<not> ac_queue c then Some (ErrorString ''deployment queue is required'')
      else if \<not> ac_tracker c then Some (ErrorString ''deployment tracker is required'')
      else if \<not> ac_worker_pool c then Some (ErrorString ''worker pool is required'')
      else if \<not> ac_state_store c then Some (ErrorString ''state store is required'')
      else None)"

definition validate_deployment_id :: "string \<Rightarrow> goerror option" where
  "validate_deployment_id i =
     (if i = '''' then Some (ErrorString ''deployment ID is required'')
      else if length i > 100 then Some (ErrorString ''deployment ID must be less than 100 characters'')
      else if \<not> list_all (\<lambda>c. is_alnum c \<or> c = CHR ''-'') i then Some (ErrorString ''deployment ID contains invalid characters'')
      else None)"

definition handle_cancel_deployment ::
  "api_components \<Rightarrow> string \<Rightarrow> ('s, 'p) service_state \<Rightarrow> ('s, 'p) service_state \<times> response" where
  "handle_cancel_deployment c i x =
     (case validate_deployment_id i of
        Some e \<Rightarrow> (x, write_error 400 ''invalid_id'' (error_message e))
      | None \<Rightarrow>
          (if \<not> ac_queue c then (x, write_error 501 ''not_implemented'' ''Queue not configured'')
           else (case queue_cancel i (snd (sw_world x)) of
                   (q, Some e) \<Rightarrow> (x\<lparr>sw_world := (fst (sw_world x), q)\<rparr>, write_error 400 ''cancel_failed'' (error_message e))
                 | (q, None) \<Rightarrow>
                     (x\<lparr>sw_world := (fst (sw_world x), q)\<rparr>,
                      \<lparr>rp_status = 200, rp_body = ObjectBody [(''id'', body_str i), (''status'', body_str ''canceled'')]\<rparr>))))"

definition handle_queue_metrics :: "(time \<Rightarrow> duration) \<Rightarrow> ('s, 'p) service_state \<Rightarrow> response" where
  "handle_queue_metrics zone x =
     (let m = get_metrics (snd (sw_world x)) in
      \<lparr>rp_status = 200, rp_body = ObjectBody
         [(''total_enqueued'', BodyVal (GInt (qm_total_enqueued m))), (''total_dequeued'', BodyVal (GInt (qm_total_dequeued m))),
          (''current_depth'', BodyVal (GInt (int (qm_current_depth m)))),
          (''average_wait_time'', BodyDuration (qm_average_wait_time m)),
          (''oldest_deployment'', format_time zone (qm_oldest_deployment m))]\<rparr>)"

section \<open>Health\<close>

record component_health =
  ch_status :: string
  ch_details :: gmap
  ch_healthy :: bool

definition unhealthy :: "string \<Rightarrow> component_health" where
  "unhealthy message =
     \<lparr>ch_status = ''unhealthy'', ch_details = [(''status'', GStr ''unhealthy''), (''message'', GStr message)], ch_healthy = False\<rparr>"

definition check_queue_health :: "api_components \<Rightarrow> emb_queue \<Rightarrow> component_health" where
  "check_queue_health c q =
     (if \<not> ac_queue c then unhealthy ''Queue not initialized''
      else
        (let m = get_metrics q; high = qm_current_depth m > 1000; st = (if high then ''warning'' else ''healthy'') in
         \<lparr>ch_status = st,
          ch_details = [(''status'', GStr st), (''depth'', GInt (int (qm_current_depth m))),
            (''enqueued'', GInt (qm_total_enqueued m)), (''dequeued'', GInt (qm_total_dequeued m))] @
            (if high then [(''message'', GStr ''Queue depth is high'')] else []),
          ch_healthy = \<not> high\<rparr>))"

text \<open>The embedded tracker lists its deployments without an error.\<close>

definition check_tracker_health :: "api_components \<Rightarrow> time \<Rightarrow> 's tracked \<Rightarrow> component_health" where
  "check_tracker_health c now ts =
     (if \<not> ac_tracker c then unhealthy ''Tracker not initialized''
      else \<lparr>ch_status = ''healthy'',
        ch_details = [(''status'', GStr ''healthy''), (''recent_deployments'', GInt (int (length
          (tracker_list \<lparr>flt_status = [], flt_created_after = now - minute, flt_created_before = time_zero\<rparr> ts))))],
        ch_healthy = True\<rparr>)"

definition check_worker_pool_health :: "api_components \<Rightarrow> component_health" where
  "check_worker_pool_health c =
     (if \<not> ac_worker_pool c then unhealthy ''Worker pool not initialized''
      else \<lparr>ch_status = ''healthy'', ch_details = [(''status'', GStr ''healthy'')], ch_healthy = True\<rparr>)"

definition check_state_store_health :: "api_components \<Rightarrow> goerror option \<Rightarrow> component_health" where
  "check_state_store_health c ping =
     (if \<not> ac_state_store c then unhealthy ''State store not initialized''
      else (case ping of
              Some e \<Rightarrow> unhealthy (''State store connectivity issue: '' @ error_message e)
            | None \<Rightarrow> \<lparr>ch_status = ''healthy'', ch_details = [(''status'', GStr ''healthy'')], ch_healthy = True\<rparr>))"

definition send_health_response :: "(time \<Rightarrow> duration) \<Rightarrow> time \<Rightarrow> bool \<Rightarrow> gmap \<Rightarrow> gmap \<Rightarrow> response" where
  "send_health_response zone now healthy components system =
     \<lparr>rp_status = (if healthy then 200 else 503),
      rp_body = ObjectBody
        [(''status'', body_str (if healthy then ''healthy'' else ''degraded'')), (''time'', format_time zone now),
         (''components'', BodyVal (GMap components)), (''system'', BodyVal (GMap system)),
         (''version'', BodyVal (GMap [(''api'', GStr ''v1'')]))]\<rparr>"

definition handle_system_health ::
  "api_components \<Rightarrow> goerror option \<Rightarrow> gmap \<Rightarrow> (time \<Rightarrow> duration) \<Rightarrow> time \<Rightarrow> ('s, 'p) service_state \<Rightarrow> response" where
  "handle_system_health c ping system zone now x =
     (let q = check_queue_health c (snd (sw_world x)); t = check_tracker_health c now (fst (sw_world x));
          w = check_worker_pool_health c; s = check_state_store_health c ping in
      send_health_response zone now (ch_healthy q \<and> ch_healthy t \<and> ch_healthy w \<and> ch_healthy s)
        [(''queue'', GMap (ch_details q)), (''tracker'', GMap (ch_details t)), (''workerPool'', GMap (ch_details w)),
         (''stateStore'', GMap (ch_details s))] system)"

section \<open>Routes\<close>

datatype route =
    CreateDeployment
  | ListDeployments
  | GetDeployment string
  | UpdateDeployment string
  | DeleteDeployment string
  | CancelDeployment string
  | QueueMetrics
  | SystemHealth

definition validation_response :: "validation_error \<Rightarrow> response" where
  "validation_response e =
     \<lparr>rp_status = 400, rp_body = ObjectBody ([(''error'', body_str ''validation_error''), (''message'', body_str (ve_message e))] @
       (if ve_field e = '''' then [] else [(''field'', body_str (ve_field e))]))\<rparr>"

text \<open>The validators a route passes, in their order.\<close>

fun route_validators :: "route \<Rightarrow> http_request \<Rightarrow> validation_error option list" where
  "route_validators CreateDeployment rq = [content_type_validator rq, name_validator rq, terraform_json_validator rq]"
| "route_validators (GetDeployment i) rq = [content_type_validator rq, id_validator ''id'' i]"
| "route_validators (UpdateDeployment i) rq =
     [content_type_validator rq, id_validator ''id'' i, terraform_json_validator rq]"
| "route_validators (DeleteDeployment i) rq = [content_type_validator rq, id_validator ''id'' i]"
| "route_validators (CancelDeployment i) rq = [content_type_validator rq, id_validator ''id'' i]"
| "route_validators _ rq = [content_type_validator rq]"

fun first_error :: "'e option list \<Rightarrow> 'e option" where
  "first_error [] = None"
| "first_error (Some e # vs) = Some e"
| "first_error (None # vs) = first_error vs"

text \<open>What the handlers depend on besides the state.\<close>

record ('s, 'p, 'i, 'g) server_env =
  en_components :: api_components
  en_service :: "('s, 'p, 'i, 'g) service"
  en_zone :: "time \<Rightarrow> duration"
  en_now :: time
  en_later :: time
  en_upd :: time
  en_ping :: "goerror option"
  en_system :: gmap

fun handle_route ::
  "('s, 'p, 'i, 'g) server_env \<Rightarrow> http_request \<Rightarrow> route \<Rightarrow> ('s, 'p) service_state \<Rightarrow>
     (('s, 'p) service_state \<times> response maybe_panic) option" where
  "handle_route en rq CreateDeployment x =
     Some (case handle_create_deployment (en_now en) (en_upd en) (en_zone en) rq x of (x', r) \<Rightarrow> (x', NoPanic r))"
| "handle_route en rq ListDeployments x = Some (x, NoPanic (handle_list_deployments (en_zone en) x))"
| "handle_route en rq (GetDeployment i) x = Some (x, NoPanic (handle_get_deployment (en_zone en) i x))"
| "handle_route en rq (UpdateDeployment i) x =
     map_option (\<lambda>(x', r). (x', NoPanic r))
       (handle_update_deployment (en_service en) (en_now en) (en_later en) (en_upd en) (en_zone en) rq i x)"
| "handle_route en rq (DeleteDeployment i) x =
     Some (handle_delete_deployment (en_service en) (en_now en) (en_upd en) i x)"
| "handle_route en rq (CancelDeployment i) x =
     Some (case handle_cancel_deployment (en_components en) i x of (x', r) \<Rightarrow> (x', NoPanic r))"
| "handle_route en rq QueueMetrics x = Some (x, NoPanic (handle_queue_metrics (en_zone en) x))"
| "handle_route en rq SystemHealth x =
     Some (x, NoPanic (handle_system_health (en_components en) (en_ping en) (en_system en) (en_zone en) (en_now en) x))"

text \<open>\<open>None\<close> only if the resolver that a plan needs does not return.\<close>

definition serve ::
  "('s, 'p, 'i, 'g) server_env \<Rightarrow> http_request \<Rightarrow> route \<Rightarrow> ('s, 'p) service_state \<Rightarrow>
     (('s, 'p) service_state \<times> response maybe_panic) option" where
  "serve en rq rt x =
     (case first_error (route_validators rt rq) of
        Some e \<Rightarrow> Some (x, NoPanic (validation_response e))
      | None \<Rightarrow> handle_route en rq rt x)"

end
