(* ===== verification/Service_Results.thy ===== *)
theory Service_Results
  imports Update_Service
begin

text \<open>
  What the deployment service promises: deletions by status, updates and their plans, and how the
  queued jobs meet the executor that takes them.
\<close>

section \<open>The service over the contract of its backend\<close>

abbreviation sw_lookup :: "('s, 'p) service_state \<Rightarrow> string \<Rightarrow> queued_deployment option" where
  "sw_lookup x \<equiv> deploy_lookup (sw_world x)"

abbreviation sw_waiting :: "('s, 'p) service_state \<Rightarrow> queued_deployment list" where
  "sw_waiting x \<equiv> deploy_waiting (sw_world x)"

definition sw_inv :: "('s, 'p) service_state \<Rightarrow> bool" where
  "sw_inv x \<longleftrightarrow> deploy_inv (sw_world x)"

lemma get_by_id:
  assumes "sw_inv x" and "sw_lookup x i = Some d"
  shows "get_deployment_by_id i x = Inr d" "get_deployment_status i x = Inr (qd_status d)" "i \<noteq> ''''"
proof -
  have d: "tracker_inv (fst (sw_world x))" "tracked_deployment (fst (sw_world x)) i = Some d"
    using assms by (simp_all add: sw_inv_def deploy_inv_def deploy_lookup_def)
  show i: "i \<noteq> ''''" using etr.lookup_id [OF d] by simp
  show "get_deployment_by_id i x = Inr d" using i etr.get_lookup [OF d] by (simp add: get_deployment_by_id_def)
  show "get_deployment_status i x = Inr (qd_status d)"
    using i d by (simp add: get_deployment_status_def tracker_get_status_def tracked_deployment_def)
qed

lemma delete_by_status:
  assumes "sw_inv x" and "sw_lookup x i = Some d"
  shows "delete_deployment sv now upd i x = delete_in_status sv now upd i (qd_status d) x"
  using get_by_id [OF assms] by (simp add: delete_deployment_def)

text \<open>A submission that returns no error has registered and enqueued the deployment.\<close>

lemma submit_new:
  assumes "sw_inv x" and "qd_id d \<noteq> ''''" and "sw_lookup x (qd_id d) = None" and "deploy_room (sw_world x)"
  obtains x' d' where "submit now upd d x = (x', None)" and "sw_waiting x' = sw_waiting x @ [d]"
    and "sw_lookup x' = (sw_lookup x)(qd_id d \<mapsto> d')" and "same_but_request d d'" and "sw_inv x'"
    and "sw_providers x' = sw_providers x"
proof -
  obtain tc' w' d' where c: "create_deployment_transaction (deploy_backend now upd) now d (sw_coordinator x, sw_world x) =
      ((tc', w'), None)" "deploy_waiting w' = sw_waiting x @ [d]" "deploy_lookup w' = (sw_lookup x)(qd_id d \<mapsto> d')"
    "same_but_request d d'" "deploy_inv w'"
    unfolding deploy_backend_create
    by (rule dback.create_succeeds [OF assms(1) [unfolded sw_inv_def] assms(2-4), of upd now now "sw_coordinator x"]) blast
  show thesis
    by (rule that [of "x\<lparr>sw_coordinator := tc', sw_world := w'\<rparr>" d'])
       (use c in \<open>simp_all add: submit_def sw_inv_def\<close>)
qed

lemma submit_done:
  assumes "sw_inv x" and "submit now upd d x = (x', None)" and "qd_id d \<noteq> ''''"
  shows "sw_waiting x' = sw_waiting x @ [d] \<and> sw_inv x' \<and> sw_lookup x (qd_id d) = None \<and> sw_providers x' = sw_providers x"
proof -
  let ?s = "(sw_coordinator x, sw_world x)"
  let ?create = "create_deployment_transaction (deploy_backend now upd) now d ?s"
  have ok: "snd ?create = None" using assms(2) by (auto simp: submit_def split: prod.splits)
  have inv: "deploy_inv (sw_world x)" using assms(1) by (simp add: sw_inv_def)
  have new: "sw_lookup x (qd_id d) = None"
  proof (rule ccontr)
    assume "sw_lookup x (qd_id d) \<noteq> None"
    then obtain w1 e where "on_tracker (tracker_register upd (Some d)) (sw_world x) = (w1, Some e)"
      using dback.reg_known [OF inv, of d upd] by (metis not_Some_eq prod.collapse)
    then show False
      using ok unfolding deploy_backend_create
      by (rule_tac dback.create_refused [OF inv, of upd d w1 e now now "sw_coordinator x"]) auto
  qed
  have room: "deploy_room (sw_world x)"
  proof (rule ccontr)
    assume full: "\<not> deploy_room (sw_world x)"
    show False
      using ok unfolding deploy_backend_create
      by (rule_tac dback.create_enqueue_fails [OF inv assms(3) new full, of upd now now "sw_coordinator x"]) auto
  qed
  show ?thesis by (rule submit_new [OF assms(1,3) new room, of now upd]) (use assms(2) new in auto)
qed

text \<open>Operations that leave the tracker's deployments or the queue alone.\<close>

lemma delete_stored_simps [simp]:
  "sw_lookup (fst (delete_stored sv i x)) = sw_lookup x" "sw_waiting (fst (delete_stored sv i x)) = sw_waiting x"
  "sw_inv (fst (delete_stored sv i x)) = sw_inv x"
  by (simp_all add: delete_stored_def set_store_def deploy_lookup_def tracked_deployment_def deploy_waiting_def sw_inv_def
      deploy_inv_def tracker_inv_def fun_eq_iff split: option.split prod.split)

lemma remove_tracked_done:
  assumes "sw_inv x" and "sw_lookup x i \<noteq> None"
  shows "\<exists>x'. remove_tracked i x = (x', None) \<and> sw_lookup x' = (sw_lookup x)(i := None) \<and> sw_waiting x' = sw_waiting x \<and> sw_inv x'"
proof -
  have inv: "tracker_inv (fst (sw_world x))" and found: "tracked_deployment (fst (sw_world x)) i \<noteq> None"
    using assms by (simp_all add: sw_inv_def deploy_inv_def deploy_lookup_def)
  obtain t where t: "tracker_remove i (fst (sw_world x)) = (t, None)" using etr.rem_found [OF inv found] by (metis prod.collapse)
  moreover have "tracked_deployment t = (tracked_deployment (fst (sw_world x)))(i := None)" by (rule etr.rem_done [OF inv t])
  moreover have "tracker_inv t" using etr.rem_inv [OF inv, of i] t by simp
  ultimately show ?thesis
    using assms(1) by (simp add: remove_tracked_def run_on_tracker_def on_tracker_def deploy_lookup_def deploy_waiting_def
        sw_inv_def deploy_inv_def)
qed

lemma set_status_done:
  assumes "sw_inv x" and "sw_lookup x i \<noteq> None"
  shows "\<exists>x' d'. run_on_tracker (tracker_set_status now upd i st) x = (x', None) \<and>
     sw_lookup x' = (sw_lookup x)(i \<mapsto> d') \<and> qd_status d' = st \<and> sw_waiting x' = sw_waiting x \<and> sw_inv x'"
proof -
  obtain d where inv: "tracker_inv (fst (sw_world x))" and d: "tracked_deployment (fst (sw_world x)) i = Some d"
    using assms by (auto simp: sw_inv_def deploy_inv_def deploy_lookup_def)
  obtain t d' where "tracker_set_status now upd i st (fst (sw_world x)) = (t, None)" "qd_status d' = st"
    "tracked_deployment t = (tracked_deployment (fst (sw_world x)))(i \<mapsto> d')" "tracker_inv t"
    by (rule etr.set_status_get [OF inv d, of now upd st])
  then show ?thesis
    using assms(1) by (auto simp: run_on_tracker_def on_tracker_def deploy_lookup_def deploy_waiting_def sw_inv_def deploy_inv_def)
qed

section \<open>Deletions\<close>

text \<open>
  What a deletion does to a deployment that is in use or already destroyed: while it is canceling
  or being destroyed the deletion is refused and changes nothing, while it is processing it becomes
  canceling, and once it is destroyed or deleted it leaves the tracker, even if the store fails.
\<close>

theorem deletion_follows_status:
  assumes "sw_inv x" and "sw_lookup x i = Some d"
  shows "(qd_status d \<in> {StatusCanceling, StatusDestroying} \<longrightarrow>
            (\<exists>e. delete_deployment sv now upd i x = (x, Returned (Some e)))) \<and>
         (qd_status d = StatusProcessing \<longrightarrow>
            (\<exists>x' d'. delete_deployment sv now upd i x = (x', Returned None) \<and> sw_lookup x' = (sw_lookup x)(i \<mapsto> d') \<and>
               qd_status d' = StatusCanceling \<and> sw_waiting x' = sw_waiting x)) \<and>
         (qd_status d \<in> {StatusDestroyed, StatusDeleted} \<longrightarrow>
            (\<exists>x'. delete_deployment sv now upd i x = (x', Returned None) \<and> sw_lookup x' = (sw_lookup x)(i := None) \<and>
               sw_waiting x' = sw_waiting x))"
proof -
  have gone: "\<exists>x'. remove_tracked i (fst (delete_stored sv i x)) = (x', None) \<and> sw_lookup x' = (sw_lookup x)(i := None) \<and>
      sw_waiting x' = sw_waiting x"
    using remove_tracked_done [of "fst (delete_stored sv i x)" i] assms by auto
  have canceling: "\<exists>x' d'. run_on_tracker (tracker_set_status now upd i StatusCanceling) x = (x', None) \<and>
      sw_lookup x' = (sw_lookup x)(i \<mapsto> d') \<and> qd_status d' = StatusCanceling \<and> sw_waiting x' = sw_waiting x"
    using set_status_done [OF assms(1), of i now upd StatusCanceling] assms(2) by auto
  show ?thesis
    unfolding delete_by_status [OF assms] using gone canceling by (cases "qd_status d") auto
qed

text \<open>A deployment with one bucket that has come to a status, tracked on the file store.\<close>

definition bucket_deployment :: "deployment_status \<Rightarrow> queued_deployment" where
  "bucket_deployment st =
     new_queued ''dep-1'' '''' (sample_request [sample_bucket] (Some [(''terraform_json'', MetaVal (GMap []))])) 1\<lparr>qd_status := st\<rparr>"

definition service_sample :: "deployment_status \<Rightarrow> (file_store, int) service_state" where
  "service_sample st =
     \<lparr>sw_coordinator = [],
      sw_world = (fst (tracker_register 1 (Some (bucket_deployment st)) (new_tracker, empty_file_store)), new_queue 4),
      sw_providers = 0\<rparr>"

definition sample_service :: "(file_store, int, unit, dependency_graph) service" where
  "sample_service =
     \<lparr>sv_store = Some file_store_ops, sv_providers = Some counting_provider, sv_interpolate = None,
      sv_resolver = Some (production_resolver insertion_order insertion_order insertion_order insertion_order)\<rparr>"

lemma service_sample_facts:
  "sw_inv (service_sample st)" "sw_lookup (service_sample st) = [''dep-1'' \<mapsto> bucket_deployment st]"
  "deploy_room (sw_world (service_sample st))" "sw_waiting (service_sample st) = []" "sw_providers (service_sample st) = 0"
proof -
  have "snd (tracker_register 1 (Some (bucket_deployment st)) (new_tracker, empty_file_store)) = None"
    by (rule etr.reg_new [OF tracker_inv_new])
       (simp_all add: bucket_deployment_def new_queued_def tracked_deployment_def new_tracker_def)
  have "tracker_inv (fst (tracker_register 1 (Some (bucket_deployment st)) (new_tracker, empty_file_store)))"
    by (rule etr.reg_inv [OF tracker_inv_new])
  then show "sw_inv (service_sample st)"
    using queue_inv_new by (simp add: sw_inv_def service_sample_def deploy_inv_def)
  show "sw_lookup (service_sample st) = [''dep-1'' \<mapsto> bucket_deployment st]"
    by (auto simp: service_sample_def deploy_lookup_def tracked_deployment_def tracker_register_def persist_deployment_def
        persist_deployment_with_result_def bucket_deployment_def new_queued_def new_tracker_def)
  show "deploy_room (sw_world (service_sample st))" "sw_waiting (service_sample st) = []" "sw_providers (service_sample st) = 0"
    by (simp_all add: service_sample_def deploy_room_def new_queue_def deploy_waiting_def)
qed

lemma bucket_deployment_simps [simp]:
  "qd_status (bucket_deployment st) = st"
  "qd_request (bucket_deployment st) =
     Some (sample_request [sample_bucket] (Some [(''terraform_json'', MetaVal (GMap []))]))"
  by (simp_all add: bucket_deployment_def new_queued_def)

theorem deletion_follows_status_witness:
  "\<exists>x'. delete_deployment sample_service 7 8 ''dep-1'' (service_sample StatusDestroyed) = (x', Returned None) \<and>
     sw_lookup x' ''dep-1'' = None"
proof -
  have d: "sw_lookup (service_sample StatusDestroyed) ''dep-1'' = Some (bucket_deployment StatusDestroyed)"
    by (simp add: service_sample_facts)
  from deletion_follows_status [OF service_sample_facts(1) d, of sample_service 7 8] show ?thesis by auto
qed

text \<open>
  C8: the deletion of a finished deployment that has resources queues one destruction job behind the
  waiting ones and marks the deployment as destroying. The executor recognizes the job: its operation is a destruction, of
  this deployment, over the same resources.
\<close>

theorem deletion_queues_destruction:
  assumes "sw_inv x" and "sw_lookup x i = Some d" and "qd_request d = Some rq" and "req_resources rq \<noteq> []"
    and "qd_status d \<in> {StatusCompleted, StatusFailed, StatusCanceled}"
    and "sw_lookup x (qd_id (destruction_job now i rq)) = None" and "deploy_room (sw_world x)"
  shows "\<exists>x' d'. delete_deployment sv now upd i x = (x', Returned None) \<and>
     sw_waiting x' = sw_waiting x @ [destruction_job now i rq] \<and>
     sw_lookup x' i = Some d' \<and> qd_status d' = StatusDestroying \<and>
     (\<exists>job. qd_request (destruction_job now i rq) = Some job \<and> request_string ''operation'' job = Some ''destroy'' \<and>
        request_string ''original_deployment_id'' job = Some i \<and> req_resources job = req_resources rq)"
proof -
  have job_id: "qd_id (destruction_job now i rq) = ''destroy-'' @ i @ ''-'' @ itoa (unix_nano now)"
    by (simp add: destruction_job_def new_queued_def)
  then have "length (qd_id (destruction_job now i rq)) > length i" by simp
  then have other: "i \<noteq> qd_id (destruction_job now i rq)" by auto
  note get = get_by_id [OF assms(1,2)]
  have needs: "deployment_needs_destruction i x = NoPanic (Inr True)"
    using get assms(3,4) by (simp add: deployment_needs_destruction_def)
  obtain x1 d1 where x1: "submit now upd (destruction_job now i rq) x = (x1, None)"
    "sw_waiting x1 = sw_waiting x @ [destruction_job now i rq]"
    "sw_lookup x1 = (sw_lookup x)(qd_id (destruction_job now i rq) \<mapsto> d1)" "sw_inv x1"
    by (rule submit_new [OF assms(1) _ assms(6,7), of now upd]) (use job_id in auto)
  have "sw_lookup x1 i \<noteq> None" using x1(3) assms(2) other by simp
  from set_status_done [OF x1(4) this, of now upd StatusDestroying] obtain x2 d2 where
    x2: "run_on_tracker (tracker_set_status now upd i StatusDestroying) x1 = (x2, None)"
    "sw_lookup x2 = (sw_lookup x1)(i \<mapsto> d2)" "qd_status d2 = StatusDestroying" "sw_waiting x2 = sw_waiting x1" by auto
  have "delete_deployment sv now upd i x = (x2, Returned None)"
    using assms(3,5) needs get(1) x1(1) x2(1)
    unfolding delete_by_status [OF assms(1,2)]
    by (auto simp: delete_finished_def queue_destruction_job_def)
  moreover have "\<exists>job. qd_request (destruction_job now i rq) = Some job \<and> request_string ''operation'' job = Some ''destroy'' \<and>
      request_string ''original_deployment_id'' job = Some i \<and> req_resources job = req_resources rq"
    by (simp add: destruction_job_def new_queued_def request_string_def)
  ultimately show ?thesis using x1(2) x2(2-4) by auto
qed

theorem deletion_queues_destruction_witness:
  "\<exists>x' d'. delete_deployment sample_service 7 8 ''dep-1'' (service_sample StatusCompleted) = (x', Returned None) \<and>
     length (sw_waiting x') = 1 \<and> sw_lookup x' ''dep-1'' = Some d' \<and> qd_status d' = StatusDestroying"
proof -
  let ?x = "service_sample StatusCompleted" and ?rq = "sample_request [sample_bucket] (Some [(''terraform_json'', MetaVal (GMap []))])"
  have d: "sw_lookup ?x ''dep-1'' = Some (bucket_deployment StatusCompleted)" by (simp add: service_sample_facts)
  have new: "sw_lookup ?x (qd_id (destruction_job 7 ''dep-1'' ?rq)) = None"
    by (simp add: service_sample_facts destruction_job_def new_queued_def)
  have res: "req_resources ?rq \<noteq> []" by (simp add: sample_request_def)
  from deletion_queues_destruction [OF service_sample_facts(1) d bucket_deployment_simps(2) res _ new service_sample_facts(3),
      of sample_service 8]
  show ?thesis by (auto simp: service_sample_facts(4))
qed

text \<open>Every deployment a tracker restores has no request.\<close>

lemma loaded_without_request:
  "(\<forall>i d. map_of (et_deployments t) i = Some d \<longrightarrow> qd_request d = None) \<Longrightarrow>
   map_of (et_deployments (fold load_single_deployment ms t)) i = Some d \<Longrightarrow> qd_request d = None"
  by (auto simp: fold_load_tracked metadata_to_queued_deployment_def split: option.splits)

lemma restored_without_request:
  assumes "tracker_load store (new_tracker, s) = (ts, r)" and "tracked_deployment ts i = Some d"
  shows "qd_request d = None"
proof -
  have "fst ts = new_tracker\<lparr>et_store := store\<rparr> \<or> (\<exists>ms. fst ts = fold load_single_deployment ms (new_tracker\<lparr>et_store := store\<rparr>))"
    using assms(1) by (auto simp: tracker_load_def Let_def split: option.splits sum.splits)
  then show ?thesis
    using assms(2) loaded_without_request [of "new_tracker\<lparr>et_store := store\<rparr>"]
    by (auto simp: tracked_deployment_def new_tracker_def)
qed

lemma tracker_inv_loaded:
  assumes "tracker_load store (new_tracker, s) = (ts, r)" and "tracked_deployment ts i = Some d" and "i \<noteq> ''''"
  shows "tracker_get i ts = Inr d" "tracker_get_status i ts = Inr (qd_status d)"
  using assms(2,3) by (simp_all add: tracker_get_def tracker_get_status_def tracked_deployment_def)

text \<open>
  After a restart the deletion of a finished deployment panics: the tracker has restored it without its
  request, which the deletion reads. The state stays as it was, so the deployment can never be deleted.
\<close>

theorem deletion_after_restart_panics:
  assumes "tracker_load store (new_tracker, s) = (ts, None)" and "fst (sw_world x) = ts"
    and "tracked_deployment ts i = Some d" and "i \<noteq> ''''"
    and "qd_status d \<in> {StatusCompleted, StatusFailed, StatusCanceled}"
  shows "delete_deployment sv now upd i x = (x, Panicked nil_dereference)"
proof -
  have get: "get_deployment_by_id i x = Inr d" "get_deployment_status i x = Inr (qd_status d)"
    using tracker_inv_loaded [OF assms(1,3,4)] assms(2,4) by (simp_all add: get_deployment_by_id_def get_deployment_status_def)
  have none: "qd_request d = None" by (rule restored_without_request [OF assms(1,3)])
  have "delete_finished sv now upd i x = (x, Panicked nil_dereference)"
    using get(1) none assms(4) by (simp add: delete_finished_def deployment_needs_destruction_def queue_destruction_job_def)
  then show ?thesis using get(2) assms(4,5) by (auto simp: delete_deployment_def)
qed

definition finished_store :: file_store where
  "finished_store =
     fst (fs_create_deployment (queued_deployment_to_metadata 9 (bucket_deployment StatusCompleted)) empty_file_store)"

lemma finished_store_view:
  "\<exists>m. fs_view finished_store ''dep-1'' = Some m \<and> dm_status m = StatusCompleted" "no_failures finished_store"
proof -
  let ?m = "queued_deployment_to_metadata 9 (bucket_deployment StatusCompleted)"
  have clean: "no_failures empty_file_store" by (simp add: no_failures_def empty_file_store_def)
  obtain s where c: "fs_create_deployment ?m empty_file_store = (s, None)"
    using update_deployment_state_clean [OF clean] by (auto simp: fs_create_deployment_def)
  have r: "reads_succeed empty_file_store" by (simp add: reads_succeed_def empty_file_store_def)
  have m: "dm_deployment_id ?m = ''dep-1''" "dm_status ?m = StatusCompleted"
    by (simp_all add: queued_deployment_to_metadata_def bucket_deployment_def new_queued_def)
  have "fs_view s = (fs_view empty_file_store)(dm_deployment_id ?m \<mapsto> fs_reloaded ?m)"
    using fstore.create_view [OF r] c by simp
  then show "\<exists>m. fs_view finished_store ''dep-1'' = Some m \<and> dm_status m = StatusCompleted"
    using c m by (simp add: finished_store_def fs_reloaded_def status_of_string_def)
  show "no_failures finished_store"
    using fs_create_fields(1) [OF c] clean c by (simp add: finished_store_def no_failures_def)
qed

theorem deletion_after_restart_panics_witness:
  "\<exists>ts. tracker_load (Some file_store_ops) (new_tracker, finished_store) = (ts, None) \<and>
     delete_deployment sample_service 7 8 ''dep-1'' ((service_sample StatusQueued)\<lparr>sw_world := (ts, new_queue 4)\<rparr>) =
       ((service_sample StatusQueued)\<lparr>sw_world := (ts, new_queue 4)\<rparr>, Panicked nil_dereference)"
proof -
  obtain ts where l: "tracker_load (Some file_store_ops) (new_tracker, finished_store) = (ts, None)"
    using finished_store_view(2) by (simp add: tracker_load_def fs_list_deployments_def no_failures_def Let_def)
  obtain m where "fs_view finished_store ''dep-1'' = Some m" "dm_status m = StatusCompleted"
    using finished_store_view(1) by blast
  then have d: "tracked_deployment ts ''dep-1'' = Some (metadata_to_queued_deployment m)"
    and st: "qd_status (metadata_to_queued_deployment m) = StatusCompleted"
    using restored_view [OF l] by (simp_all add: metadata_to_queued_deployment_def)
  have "delete_deployment sample_service 7 8 ''dep-1'' ((service_sample StatusQueued)\<lparr>sw_world := (ts, new_queue 4)\<rparr>) =
       ((service_sample StatusQueued)\<lparr>sw_world := (ts, new_queue 4)\<rparr>, Panicked nil_dereference)"
    by (rule deletion_after_restart_panics [OF l _ d]) (simp_all add: st)
  then show ?thesis using l by blast
qed

section \<open>Updates\<close>

text \<open>
  An update of a tracked deployment that is neither completed nor failed is refused with a structured
  error that carries an HTTP status, before any provider is asked: the state does not change.
\<close>

theorem update_needs_finished_deployment:
  assumes "sw_inv x" and "sw_lookup x i = Some d" and "qd_status d \<notin> {StatusCompleted, StatusFailed}"
  shows "\<exists>code msg st http. update_deployment sv now upd i (Some ur) x = Some (x, Inl (DeploymentError code msg st http)) \<and>
     http \<in> {400, 409, 410}"
  using get_by_id [OF assms(1,2)] assms(3)
  by (cases "qd_status d")
     (simp_all add: update_deployment_def check_deployment_update_eligibility_def err_deployment_in_progress_def
       err_deployment_queued_def err_deployment_canceled_def err_deployment_destroying_def err_deployment_destroyed_def)

definition empty_update :: update_request where
  "empty_update =
     \<lparr>ur_deployment_id = ''dep-1'', ur_request_id = '''',
      ur_new_terraform_json = Some [(''data'', GMap [(''aws_ami'', GMap [(''a'', GMap [])])])],
      ur_plan_first = True, ur_auto_approve = False, ur_force_update = False, ur_updated_by = '''', ur_update_reason = ''''\<rparr>"

theorem update_needs_finished_deployment_witness:
  "\<exists>code msg st. update_deployment sample_service 7 8 ''dep-1'' (Some empty_update) (service_sample StatusDestroying) =
     Some (service_sample StatusDestroying, Inl (DeploymentError code msg st 409))"
proof -
  have d: "sw_lookup (service_sample StatusDestroying) ''dep-1'' = Some (bucket_deployment StatusDestroying)"
    by (simp add: service_sample_facts)
  have "\<exists>code msg st http. update_deployment sample_service 7 8 ''dep-1'' (Some empty_update) (service_sample StatusDestroying) =
      Some (service_sample StatusDestroying, Inl (DeploymentError code msg st http)) \<and> http \<in> {400, 409, 410}"
    by (rule update_needs_finished_deployment [OF service_sample_facts(1) d]) simp
  then show ?thesis
    using get_by_id [OF service_sample_facts(1) d]
    by (auto simp: update_deployment_def check_deployment_update_eligibility_def err_deployment_destroying_def)
qed

section \<open>Plans\<close>

lemma plan_success:
  assumes "generate_update_plan sv now i newJSON x = Some (x', Inr plan)"
  obtains tf ops P current new old changes p versions deployed states where "newJSON = Some tf" and "sv_store sv = Some ops"
    and "sv_providers sv = Some P" and "x' = x\<lparr>sw_providers := p\<rparr>"
    and "extract_current_state i x = Inr current" and "parse_configurations tf current = Inr (new, old)"
    and "plan_resources (plan_resource_change_with_state sv P i (provider_configs_of tf) versions deployed states)
           new (sw_providers x) = (p, Inr changes)"
    and "build_update_plan sv now i (changes @ find_deleted_resources new old) (provider_configs_of tf) versions = Some plan"
    and "load_states ops i (sw_store x) = Inr states"
proof (cases "newJSON")
  case (Some tf)
  then obtain ops P where store: "sv_store sv = Some ops" "sv_providers sv = Some P"
    using assms by (auto simp: generate_update_plan_def split: if_splits option.splits)
  from assms Some store obtain current deployed new old where
    steps: "extract_current_state i x = Inr current"
    "get_deployed_resources_for_interpolation ops i (sw_store x) = Inr deployed"
    "parse_configurations tf current = Inr (new, old)"
    and gen: "(case generate_resource_changes sv P ops i new old (provider_configs_of tf) (merged_provider_versions tf current)
                  deployed (sw_store x) (sw_providers x) of
               (p, Inl e) \<Rightarrow> Some (x\<lparr>sw_providers := p\<rparr>, Inl (WrapError ''failed to generate resource changes: '' e ''''))
             | (p, Inr changes) \<Rightarrow>
                 map_option (\<lambda>plan. (x\<lparr>sw_providers := p\<rparr>, Inr plan))
                   (build_update_plan sv now i changes (provider_configs_of tf) (merged_provider_versions tf current))) =
             Some (x', Inr plan)"
    by (auto simp: generate_update_plan_def Let_def split: if_splits sum.splits)
  from gen obtain p all where
    all: "generate_resource_changes sv P ops i new old (provider_configs_of tf) (merged_provider_versions tf current)
                  deployed (sw_store x) (sw_providers x) = (p, Inr all)"
    and built: "build_update_plan sv now i all (provider_configs_of tf) (merged_provider_versions tf current) = Some plan"
    and x': "x' = x\<lparr>sw_providers := p\<rparr>"
    by (auto split: prod.splits sum.splits)
  from all obtain states changes where
    "load_states ops i (sw_store x) = Inr states"
    "plan_resources (plan_resource_change_with_state sv P i (provider_configs_of tf) (merged_provider_versions tf current)
        deployed states) new (sw_providers x) = (p, Inr changes)"
    "all = changes @ find_deleted_resources new old"
    by (auto simp: generate_resource_changes_def split: prod.splits sum.splits)
  then show thesis using that Some store steps(1,3) built x' by blast
qed (use assms in \<open>simp add: generate_update_plan_def split: if_splits\<close>)

lemma planned_change:
  assumes "plan_resource_change_with_state sv P i configs versions deployed states r p = (p', Inr c)"
  shows "rc_key c = resource_key r" and "leases P held u \<Longrightarrow> held p' = held p + u"
proof -
  let ?name = "extract_provider_name (res_type r)"
  obtain p1 inst p2 pl uc cur where steps: "po_get P i ?name (opt_else '''' (map_of versions ?name)) (Some configs) (res_type r) p = (p1, Inr inst)"
    "po_plan P inst (res_type r) cur uc p1 = (p2, Inr pl)" "p' = p2" "rc_key c = make_resource_key (res_type r) (res_name r)"
    using assms by (auto simp: plan_resource_change_with_state_def Let_def split: if_splits prod.splits sum.splits)
  then show "rc_key c = resource_key r" by (simp add: resource_key_def make_resource_key_def)
  assume l: "leases P held u"
  then have "\<And>j t a m q. held (fst (po_plan P j t a m q)) = held q" by (simp add: leases_def)
  then have "held p2 = held p1" using steps(2) by (metis fst_conv)
  then show "held p' = held p + u" using leases_ops(2) [OF l steps(1)] steps(3) by simp
qed

lemma planned_resources:
  assumes "plan_resources (plan_resource_change_with_state sv P i configs versions deployed states) rs p = (p', Inr cs)"
  shows "map rc_key cs = map resource_key rs \<and> (leases P held u \<longrightarrow> held p' = held p + int (length rs) * u)"
  using assms
proof (induction rs arbitrary: p cs)
  case (Cons r rs)
  let ?f = "plan_resource_change_with_state sv P i configs versions deployed states"
  obtain p1 c cs' where c: "?f r p = (p1, Inr c)" and rest: "plan_resources ?f rs p1 = (p', Inr cs')" and cs: "cs = c # cs'"
    using Cons.prems by (auto split: prod.splits sum.splits)
  from Cons.IH [OF rest] planned_change [OF c] cs show ?case by (auto simp: algebra_simps)
qed simp

lemma summary_counts:
  "sum_to_create (fold (\<lambda>c. count_change (rc_action c)) cs sm) = sum_to_create sm + length (filter (\<lambda>c. rc_action c = ActionCreate) cs)"
  "sum_to_update (fold (\<lambda>c. count_change (rc_action c)) cs sm) = sum_to_update sm + length (filter (\<lambda>c. rc_action c = ActionUpdate) cs)"
  "sum_to_delete (fold (\<lambda>c. count_change (rc_action c)) cs sm) = sum_to_delete sm + length (filter (\<lambda>c. rc_action c = ActionDelete) cs)"
  "sum_to_replace (fold (\<lambda>c. count_change (rc_action c)) cs sm) = sum_to_replace sm + length (filter (\<lambda>c. rc_action c = ActionReplace) cs)"
proof -
  have "sum_to_create (count_change a sm) = sum_to_create sm + (if a = ActionCreate then 1 else 0) \<and>
      sum_to_update (count_change a sm) = sum_to_update sm + (if a = ActionUpdate then 1 else 0) \<and>
      sum_to_delete (count_change a sm) = sum_to_delete sm + (if a = ActionDelete then 1 else 0) \<and>
      sum_to_replace (count_change a sm) = sum_to_replace sm + (if a = ActionReplace then 1 else 0)" for a sm
    by (cases a) simp_all
  then show "sum_to_create (fold (\<lambda>c. count_change (rc_action c)) cs sm) = sum_to_create sm + length (filter (\<lambda>c. rc_action c = ActionCreate) cs)"
    "sum_to_update (fold (\<lambda>c. count_change (rc_action c)) cs sm) = sum_to_update sm + length (filter (\<lambda>c. rc_action c = ActionUpdate) cs)"
    "sum_to_delete (fold (\<lambda>c. count_change (rc_action c)) cs sm) = sum_to_delete sm + length (filter (\<lambda>c. rc_action c = ActionDelete) cs)"
    "sum_to_replace (fold (\<lambda>c. count_change (rc_action c)) cs sm) = sum_to_replace sm + length (filter (\<lambda>c. rc_action c = ActionReplace) cs)"
    by (induction cs arbitrary: sm) simp_all
qed

lemma built_plan:
  assumes "build_update_plan sv now i changes configs versions = Some plan"
  shows "up_deployment_id plan = i" "up_changes plan = changes" "up_provider_configs plan = Some configs"
    "up_provider_versions plan = versions" "up_summary plan = fold (\<lambda>c. count_change (rc_action c)) changes empty_summary"
    "up_requires_approval plan \<longleftrightarrow> (\<exists>c \<in> set changes. rc_action c \<in> {ActionDelete, ActionReplace})"
proof -
  have dangers: "dangers_of a k = [] \<longleftrightarrow> a \<notin> {ActionDelete, ActionReplace}" for a k by (cases a) simp_all
  show "up_deployment_id plan = i" "up_changes plan = changes" "up_provider_configs plan = Some configs"
    "up_provider_versions plan = versions" "up_summary plan = fold (\<lambda>c. count_change (rc_action c)) changes empty_summary"
    "up_requires_approval plan \<longleftrightarrow> (\<exists>c \<in> set changes. rc_action c \<in> {ActionDelete, ActionReplace})"
    using assms by (auto simp: build_update_plan_def Let_def dangers split: option.splits if_splits sum.splits)
qed

lemma deleted_keys:
  "map rc_key (find_deleted_resources rs old) = map resource_key
     (filter (\<lambda>q. (res_type q, res_name q) \<notin> (\<lambda>r. (res_type r, res_name r)) ` set rs) old)"
  "\<forall>c \<in> set (find_deleted_resources rs old). rc_action c = ActionDelete"
proof -
  have "filter (\<lambda>c. \<not> list_ex (\<lambda>n. res_type c = res_type n \<and> res_name c = res_name n) rs) old =
      filter (\<lambda>q. (res_type q, res_name q) \<notin> (\<lambda>r. (res_type r, res_name r)) ` set rs) old"
    by (rule filter_cong) (auto simp: list_ex_iff)
  then show "map rc_key (find_deleted_resources rs old) = map resource_key
      (filter (\<lambda>q. (res_type q, res_name q) \<notin> (\<lambda>r. (res_type r, res_name r)) ` set rs) old)"
    unfolding find_deleted_resources_def by (simp add: make_resource_key_def comp_def resource_key_def [abs_def])
  show "\<forall>c \<in> set (find_deleted_resources rs old). rc_action c = ActionDelete"
    by (simp add: find_deleted_resources_def)
qed

text \<open>
  C7: a plan covers the new document and the current one: its changes are, in order, one for each new resource and then
  one deletion for each resource of the current document, as the service reads it from the deployment, whose type and
  name the new document no longer has. It needs approval exactly if it deletes or replaces something, and its summary
  counts the changes by action.
\<close>

theorem plan_covers_document:
  assumes "generate_update_plan sv now i (Some tf) x = Some (x', Inr plan)" and "parse_terraform_json tf = Inr (rs, ds)"
  shows "\<exists>cs dels current old. extract_current_state i x = Inr current \<and> parse_configurations tf current = Inr (rs, old) \<and>
           up_changes plan = cs @ dels \<and> map rc_key cs = map resource_key rs \<and>
           map rc_key dels = map resource_key
             (filter (\<lambda>q. (res_type q, res_name q) \<notin> (\<lambda>r. (res_type r, res_name r)) ` set rs) old) \<and>
           (\<forall>c \<in> set dels. rc_action c = ActionDelete) \<and>
           (up_requires_approval plan \<longleftrightarrow> (\<exists>c \<in> set (up_changes plan). rc_action c \<in> {ActionDelete, ActionReplace})) \<and>
           sum_to_create (up_summary plan) = length (filter (\<lambda>c. rc_action c = ActionCreate) (up_changes plan)) \<and>
           sum_to_update (up_summary plan) = length (filter (\<lambda>c. rc_action c = ActionUpdate) (up_changes plan)) \<and>
           sum_to_delete (up_summary plan) = length (filter (\<lambda>c. rc_action c = ActionDelete) (up_changes plan)) \<and>
           sum_to_replace (up_summary plan) = length (filter (\<lambda>c. rc_action c = ActionReplace) (up_changes plan))"
  using assms(1)
proof (rule plan_success, goal_cases)
  case (1 tf' ops P current new old changes p versions deployed states)
  then have new: "new = rs" using assms(2) by (auto simp: parse_configurations_def)
  have cs: "map rc_key changes = map resource_key rs" using planned_resources [OF 1(7)] new by simp
  have up: "up_changes plan = changes @ find_deleted_resources rs old" using built_plan(2) [OF 1(8)] new by simp
  have "parse_configurations tf current = Inr (rs, old)" using 1(1,6) new by simp
  then show ?case
    using 1(5) built_plan(5,6) [OF 1(8)] cs up deleted_keys new
    by (intro exI [of _ changes] exI [of _ "find_deleted_resources rs old"] exI [of _ current] exI [of _ old])
       (simp add: summary_counts empty_summary_def)
qed

text \<open>A deployment with an empty Terraform state, and a document with one bucket for it.\<close>

definition planning_sample :: "deployment_status \<Rightarrow> (file_store, int) service_state" where
  "planning_sample st =
     set_store (empty_file_store\<lparr>fs_tf_states := [(''dep-1'', TfDoc (create_empty_state 0))]\<rparr>) (service_sample st)"

definition bucket_document :: gmap where
  "bucket_document =
     [(''terraform'', GMap [(''required_providers'', GMap [(''aws'', GMap [(''version'', GStr ''6.0.0'')])])]),
      (''resource'', GMap [(''aws_s3_bucket'', GMap [(''b'', GMap [(''acl'', GStr ''private'')])])])]"

definition planning_service :: "(file_store, int, unit, dependency_graph) service" where
  "planning_service = sample_service\<lparr>sv_resolver := None\<rparr>"

lemma bucket_document_parses: "parse_terraform_json bucket_document = Inr ([sample_bucket], [])"
  by (simp add: parse_terraform_json_def bucket_document_def parse_resource_block_def sample_bucket_def)

lemma planning_sample_facts:
  "sw_inv (planning_sample st)" "sw_lookup (planning_sample st) = [''dep-1'' \<mapsto> bucket_deployment st]"
  "deploy_room (sw_world (planning_sample st))" "sw_waiting (planning_sample st) = []" "sw_providers (planning_sample st) = 0"
proof -
  have "sw_lookup (planning_sample st) = sw_lookup (service_sample st)" "sw_inv (planning_sample st) = sw_inv (service_sample st)"
    "deploy_room (sw_world (planning_sample st)) = deploy_room (sw_world (service_sample st))"
    "sw_waiting (planning_sample st) = sw_waiting (service_sample st)"
    "sw_providers (planning_sample st) = sw_providers (service_sample st)"
    by (simp_all add: planning_sample_def set_store_def deploy_lookup_def tracked_deployment_def sw_inv_def deploy_inv_def
        tracker_inv_def deploy_room_def deploy_waiting_def fun_eq_iff)
  then show "sw_inv (planning_sample st)" "sw_lookup (planning_sample st) = [''dep-1'' \<mapsto> bucket_deployment st]"
    "deploy_room (sw_world (planning_sample st))" "sw_waiting (planning_sample st) = []" "sw_providers (planning_sample st) = 0"
    by (simp_all add: service_sample_facts)
qed

lemma sample_planned:
  "\<exists>x' plan. generate_update_plan planning_service now ''dep-1'' (Some bucket_document)
     ((planning_sample StatusCompleted)\<lparr>sw_providers := p\<rparr>) = Some (x', Inr plan) \<and> up_dangerous_changes plan = []"
proof -
  let ?x = "(planning_sample StatusCompleted)\<lparr>sw_providers := p\<rparr>"
  have "sw_inv ?x" "sw_lookup ?x ''dep-1'' = Some (bucket_deployment StatusCompleted)"
    using planning_sample_facts(1,2) [of StatusCompleted] by (simp_all add: sw_inv_def)
  then have d: "get_deployment_by_id ''dep-1'' ?x = Inr (bucket_deployment StatusCompleted)" by (rule get_by_id)
  have state: "extract_current_state ''dep-1'' ?x = Inr (Some [])"
    using d by (simp add: extract_current_state_def sample_request_def request_terraform_json_def)
  have store: "sw_store ?x = empty_file_store\<lparr>fs_tf_states := [(''dep-1'', TfDoc (create_empty_state 0))]\<rparr>"
    by (simp add: planning_sample_def sw_store_def set_store_def)
  have load: "load_states file_store_ops ''dep-1'' (sw_store ?x) = Inr []"
    by (simp add: load_states_def load_terraform_state_def store file_store_ops_def fs_load_tf_def empty_file_store_def
        unmarshal_state_def states_by_key_def create_empty_state_def)
  have versions: "merged_provider_versions bucket_document (Some []) = [(''aws'', ''6.0.0'')]"
    by (simp add: merged_provider_versions_def extract_provider_versions_def bucket_document_def Let_def)
  have "\<exists>e. parse_terraform_json [] = Inl e" by (simp add: parse_terraform_json_def)
  then have configs: "parse_configurations bucket_document (Some []) = Inr ([sample_bucket], [])"
    by (auto simp: parse_configurations_def bucket_document_parses)
  have sv: "sv_store planning_service = Some file_store_ops" "sv_providers planning_service = Some counting_provider"
    "sv_interpolate planning_service = None" "sv_resolver planning_service = None"
    by (simp_all add: planning_service_def sample_service_def)
  show ?thesis
    by (simp add: generate_update_plan_def sv state load versions configs get_deployed_resources_for_interpolation_def
        generate_resource_changes_def plan_resource_change_with_state_def sample_bucket_facts counting_provider_def Let_def
        build_update_plan_def opt_else_def find_deleted_resources_def)
qed

lemma sample_plan_generated:
  "\<exists>x' plan. generate_update_plan planning_service 7 ''dep-1'' (Some bucket_document) (planning_sample StatusCompleted) =
     Some (x', Inr plan)"
proof -
  have "(planning_sample StatusCompleted)\<lparr>sw_providers := sw_providers (planning_sample StatusCompleted)\<rparr> =
      planning_sample StatusCompleted" by simp
  then show ?thesis using sample_planned [of 7 "sw_providers (planning_sample StatusCompleted)"] by auto
qed

theorem plan_covers_document_witness:
  "\<exists>x' plan cs. generate_update_plan planning_service 7 ''dep-1'' (Some bucket_document) (planning_sample StatusCompleted) =
     Some (x', Inr plan) \<and> take 1 (up_changes plan) = cs \<and> map rc_key cs = [''aws_s3_bucket.b'']"
proof -
  obtain x' plan where g: "generate_update_plan planning_service 7 ''dep-1'' (Some bucket_document)
      (planning_sample StatusCompleted) = Some (x', Inr plan)"
    using sample_plan_generated by blast
  from plan_covers_document [OF g bucket_document_parses] obtain cs dels where
    cs: "up_changes plan = cs @ dels" "map rc_key cs = map resource_key [sample_bucket]"
    by blast
  then have "take 1 (up_changes plan) = cs" by (cases cs) auto
  then show ?thesis using g cs(2) by (auto simp: sample_bucket_facts)
qed

text \<open>
  Planning never gives a provider instance back: a successful plan leaves one more instance in use for
  every resource of the new document.
\<close>

theorem planning_keeps_providers:
  assumes "generate_update_plan sv now i (Some tf) x = Some (x', Inr plan)" and "parse_terraform_json tf = Inr (rs, ds)"
    and "sv_providers sv = Some P" and "leases P held u"
  shows "held (sw_providers x') = held (sw_providers x) + int (length rs) * u"
  using assms(1)
proof (rule plan_success, goal_cases)
  case (1 tf' ops P' current new old changes p versions deployed states)
  then have "new = rs" "P' = P" using assms(2,3) by (auto simp: parse_configurations_def)
  then show ?case using planned_resources [OF 1(7)] assms(4) 1(4) by simp
qed

theorem planning_keeps_providers_witness:
  "\<exists>x' plan. generate_update_plan planning_service 7 ''dep-1'' (Some bucket_document) (planning_sample StatusCompleted) =
     Some (x', Inr plan) \<and> sw_providers x' = 1"
proof -
  obtain x' plan where g: "generate_update_plan planning_service 7 ''dep-1'' (Some bucket_document)
      (planning_sample StatusCompleted) = Some (x', Inr plan)"
    using sample_plan_generated by blast
  have "sv_providers planning_service = Some counting_provider" by (simp add: planning_service_def sample_service_def)
  from planning_keeps_providers [OF g bucket_document_parses this counting_leases] g show ?thesis
    by (simp add: planning_sample_facts)
qed

text \<open>
  C9: an accepted update puts one job behind the waiting deployments, which the executor recognizes: its operation is an
  update of this deployment, and the plan the executor extracts from the job is the plan of the update.
\<close>

theorem update_job_carries_plan:
  assumes "sw_inv x" and "update_deployment sv now upd i (Some ur) x = Some (x', Inr qu)"
  shows "\<exists>job rq. sw_waiting x' = sw_waiting x @ [job] \<and> qd_request job = Some rq \<and> sw_inv x' \<and>
     extract_update_plan dec (Some job) = Inr (qu_plan qu) \<and> up_deployment_id (qu_plan qu) = i \<and>
     request_string ''operation'' rq = Some ''update'' \<and> request_string ''deployment_id'' rq = Some i"
proof -
  obtain x1 plan where plan: "generate_update_plan sv now i (ur_new_terraform_json ur) x = Some (x1, Inr plan)"
    and queued: "create_and_queue_update now upd i ur plan x1 = (x', Inr qu)"
    using assms(2) by (auto simp: update_deployment_def split: if_splits option.splits sum.splits)
  obtain p where x1: "x1 = x\<lparr>sw_providers := p\<rparr>" and pid: "up_deployment_id plan = i"
    by (rule plan_success [OF plan]) (use built_plan(1) in blast)
  obtain rq where rq: "build_update_deployment_request i (generate_update_id now) (nil_map (ur_new_terraform_json ur)) plan = Inr rq"
    and sub: "submit now upd (build_queued_update_deployment now i (generate_update_id now) rq) x1 = (x', None)"
    and qu: "qu_plan qu = plan"
    using queued by (auto simp: create_and_queue_update_def Let_def split: sum.splits prod.splits option.splits)
  let ?job = "build_queued_update_deployment now i (generate_update_id now) rq"
  have job: "qd_request ?job = Some rq" "qd_id ?job \<noteq> ''''"
    by (simp_all add: build_queued_update_deployment_def new_queued_def)
  have "sw_inv x1" using assms(1) x1 by (simp add: sw_inv_def)
  from submit_done [OF this sub job(2)] have "sw_waiting x' = sw_waiting x @ [?job]" "sw_inv x'" using x1 by simp_all
  moreover have md: "req_metadata rq = Some
      [(''operation'', MetaVal (GStr ''update'')), (''deployment_id'', MetaVal (GStr i)),
       (''update_id'', MetaVal (GStr (generate_update_id now))), (''update_plan'', MetaPlan plan),
       (''terraform_json'', MetaVal (GMap (nil_map (ur_new_terraform_json ur))))]"
    using rq by (auto simp: build_update_deployment_request_def split: sum.splits)
  moreover have "extract_update_plan dec (Some ?job) = Inr plan"
    using job(1) md by (simp add: extract_update_plan_def deserialize_plan_def)
  ultimately show ?thesis using job(1) qu pid by (auto simp: request_string_def)
qed

definition bucket_update :: update_request where
  "bucket_update = empty_update\<lparr>ur_new_terraform_json := Some bucket_document\<rparr>"

theorem update_job_carries_plan_witness:
  "\<exists>x' qu job. update_deployment planning_service 7 8 ''dep-1'' (Some bucket_update) (planning_sample StatusCompleted) =
     Some (x', Inr qu) \<and> sw_waiting x' = [job] \<and> extract_update_plan (\<lambda>_. Inl CtxCanceled) (Some job) = Inr (qu_plan qu)"
proof -
  obtain x1 plan where g: "generate_update_plan planning_service 7 ''dep-1'' (Some bucket_document)
      (planning_sample StatusCompleted) = Some (x1, Inr plan)"
    using sample_plan_generated by blast
  have d: "sw_lookup (planning_sample StatusCompleted) ''dep-1'' = Some (bucket_deployment StatusCompleted)"
    by (simp add: planning_sample_facts)
  note get = get_by_id [OF planning_sample_facts(1) d]
  obtain p where x1: "x1 = (planning_sample StatusCompleted)\<lparr>sw_providers := p\<rparr>" by (rule plan_success [OF g])
  obtain rq where rq: "build_update_deployment_request ''dep-1'' (generate_update_id 7) bucket_document plan = Inr rq"
    by (simp add: build_update_deployment_request_def convert_terraform_to_request_def bucket_document_parses)
  let ?job = "build_queued_update_deployment 7 ''dep-1'' (generate_update_id 7) rq"
  have id: "qd_id ?job = ''update-dep-1-'' @ generate_update_id 7" by (simp add: build_queued_update_deployment_def new_queued_def)
  have world: "sw_inv x1" "sw_lookup x1 (qd_id ?job) = None" "deploy_room (sw_world x1)"
    using x1 id planning_sample_facts(1-3) [of StatusCompleted] by (simp_all add: sw_inv_def)
  obtain x' d' where "submit 7 8 ?job x1 = (x', None)"
    by (rule submit_new [OF world(1) _ world(2,3), of 7 8]) (use id in auto)
  then obtain qu where up: "update_deployment planning_service 7 8 ''dep-1'' (Some bucket_update) (planning_sample StatusCompleted) =
     Some (x', Inr qu)"
    using g get rq
    by (simp add: update_deployment_def check_deployment_update_eligibility_def bucket_update_def create_and_queue_update_def
        Let_def nil_map_def)
  from update_job_carries_plan [OF planning_sample_facts(1) up] up show ?thesis by (auto simp: planning_sample_facts)
qed

end
