(* ===== verification/Handler_Results.thy ===== *)
theory Handler_Results
  imports API_Server Service_Results
begin

text \<open>
  What a client of the API can rely on: which requests reach the service, what a response says of the
  deployments and the queue, and where it says more than what happened.
\<close>

section \<open>Identifiers\<close>

lemma digits_length: "n < 10 ^ k \<Longrightarrow> length (digits_of n) \<le> max 1 k"
proof (induction n arbitrary: k rule: digits_of.induct)
  case (1 n)
  show ?case
  proof (cases "n < 10")
    case False
    then obtain k' where k: "k = Suc k'" using "1.prems" by (cases k) auto
    then have "n div 10 < 10 ^ k'" using "1.prems" by (simp add: less_mult_imp_div_less mult.commute)
    from "1.IH" [OF False this] False k "1.prems" show ?thesis by (cases k') (auto simp: digits_of.simps [of n])
  qed (simp add: digits_of.simps [of n])
qed

lemma itoa_id_chars: "0 \<le> i \<Longrightarrow> list_all (\<lambda>c. is_alnum c \<or> c = CHR ''-'') (itoa i)"
  using digits_of_digit by (auto simp: itoa_def list_all_iff is_alnum_def Let_def)

text \<open>
  The validator of the routes and that of the cancel endpoint accept the same identifiers.
\<close>

theorem id_checks_agree: "validate_deployment_id i = None \<longleftrightarrow> id_validator param i = None"
  by (auto simp: validate_deployment_id_def id_validator_def valid_id_pattern_def Suc_le_eq)

text \<open>
  Every identifier the service generates, from any time from 1970 on that fits in 64 bits, is one the routes accept.
\<close>

theorem generated_ids_are_routable:
  assumes "0 \<le> unix_nano now" and "unix_nano now < 2 ^ 63"
  shows "id_validator param (generate_deployment_id now) = None"
proof -
  have "nat (unix_nano now) < 10 ^ 19" using assms by simp
  from digits_length [OF this] have "length (itoa (unix_nano now)) \<le> 19" using assms(1) by (simp add: itoa_def)
  moreover have "list_all (\<lambda>c. is_alnum c \<or> c = CHR ''-'') (itoa (unix_nano now))" by (rule itoa_id_chars [OF assms(1)])
  ultimately show ?thesis
    by (simp add: id_validator_def valid_id_pattern_def generate_deployment_id_def is_alnum_def)
qed

theorem generated_ids_are_routable_witness:
  "id_validator ''id'' (generate_deployment_id (63745021234 * second)) = None"
  by (rule generated_ids_are_routable) (simp_all add: unix_nano_def second_def millisecond_def)

section \<open>Summaries\<close>

abbreviation summary_slots :: "string list" where
  "summary_slots \<equiv> [''completed'', ''failed'', ''pending'', ''dry_run'', ''deleted'', ''destroyed'', ''processing'']"

definition slot_sum :: "(string \<times> int) list \<Rightarrow> int" where
  "slot_sum s = sum_list (map (\<lambda>k. opt_else 0 (map_of s k)) summary_slots)"

lemma summary_slot_in: "summary_slot s \<in> set summary_slots"
  by (simp add: summary_slot_def)

lemma slot_sum_put: "k \<in> set summary_slots \<Longrightarrow> slot_sum (map_put k (opt_else 0 (map_of s k) + 1) s) = slot_sum s + 1"
  by (auto simp: slot_sum_def opt_else_def)

definition has_status :: "gval \<Rightarrow> bool" where
  "has_status r \<longleftrightarrow> (\<exists>m st. r = GMap m \<and> map_of m ''status'' = Some (GStr st))"

lemma count_resource_sum: "has_status r \<Longrightarrow> slot_sum (count_resource r s) = slot_sum s + 1"
  by (auto simp: count_resource_def has_status_def slot_sum_put [OF summary_slot_in])

lemma count_resource_total: "map_of (count_resource r s) ''total'' = map_of s ''total''"
proof -
  have "summary_slot st \<noteq> ''total''" for st by (simp add: summary_slot_def)
  then have "\<forall>st. summary_slot st \<noteq> ''total'' \<and> ''total'' \<noteq> summary_slot st" by metis
  then show ?thesis by (simp add: count_resource_def split: option.split)
qed

lemma summary_sums: "\<forall>r \<in> set rs. has_status r \<Longrightarrow>
  slot_sum (fold count_resource rs s) = slot_sum s + int (length rs) \<and> map_of (fold count_resource rs s) ''total'' = map_of s ''total''"
  by (induction rs arbitrary: s) (auto simp: count_resource_sum count_resource_total)

text \<open>
  The summary of a deployment's resources adds up: every entry of the result whose key is a resource key is
  in the array and is counted in exactly one of the seven slots, whatever its status, and the total is their sum.
\<close>

theorem summary_adds_up:
  "let rs = convert_resource_map_to_array m; s = calculate_resource_summary rs in
     map_of s ''total'' = Some (slot_sum s) \<and> slot_sum s = int (length rs) \<and>
     length rs = length (filter (\<lambda>e. fst (parse_resource_key (fst e)) \<noteq> '''' \<and> snd (parse_resource_key (fst e)) \<noteq> '''') m)"
proof -
  have st: "\<forall>r \<in> set (convert_resource_map_to_array m). has_status r"
    by (fastforce simp: convert_resource_map_to_array_def List.map_filter_def resource_entry_def has_status_def Let_def
        split: if_splits option.splits prod.splits)
  have len: "length (convert_resource_map_to_array m) =
      length (filter (\<lambda>e. fst (parse_resource_key (fst e)) \<noteq> '''' \<and> snd (parse_resource_key (fst e)) \<noteq> '''') m)"
    by (induction m) (auto simp: convert_resource_map_to_array_def List.map_filter_def resource_entry_def Let_def
        split: option.split prod.split)
  have "slot_sum ((''total'', n) # map (\<lambda>k. (k, 0)) summary_slots) = 0" for n by (simp add: slot_sum_def opt_else_def)
  then show ?thesis
    using summary_sums [OF st] len by (simp add: calculate_resource_summary_def Let_def)
qed

section \<open>Creations\<close>

text \<open>
  C5: a creation that is answered with 201 has put one deployment behind the waiting ones: it is queued, carries the request's
  identifier, and asks for the resources and data sources the document declares; nothing else is in the queue.
  A creation that is answered with 400 has changed nothing.
\<close>

theorem creation_is_answered_truly:
  assumes "sw_inv x" and "handle_create_deployment now upd zone rq x = (x', r)"
  shows "(rp_status r = 201 \<longrightarrow>
            (\<exists>req rs ds d dr. decode_request (rq_body rq) = Some req \<and> api_name req \<noteq> '''' \<and>
               parse_terraform_json (nil_map (api_terraform_json req)) = Inr (rs, ds) \<and>
               sw_waiting x' = sw_waiting x @ [d] \<and> sw_inv x' \<and> qd_status d = StatusQueued \<and>
               qd_request_id d = rq_request_id rq \<and> qd_request d = Some dr \<and> req_resources dr = rs \<and>
               req_data_sources dr = ds)) \<and>
         (rp_status r = 400 \<longrightarrow> x' = x)"
proof (cases "\<exists>req rs ds. decode_request (rq_body rq) = Some req \<and> validate_deployment_request req = None \<and>
    parse_terraform_json (nil_map (api_terraform_json req)) = Inr (rs, ds)")
  case False
  then have "x' = x \<and> rp_status r = 400"
    using assms(2) by (auto simp: handle_create_deployment_def write_error_def split: option.splits sum.splits)
  then show ?thesis by simp
next
  case True
  then obtain req rs ds where ok: "decode_request (rq_body rq) = Some req" "validate_deployment_request req = None"
    "parse_terraform_json (nil_map (api_terraform_json req)) = Inr (rs, ds)" by blast
  define dr where "dr = to_deployment_request converter_defaults req rs ds"
  define dr' where "dr' = dr\<lparr>req_metadata := Some (map_put ''request_id'' (MetaVal (GStr (rq_request_id rq)))
     (opt_else [] (req_metadata dr)))\<rparr>"
  define d where "d = new_queued (generate_deployment_id now) (rq_request_id rq) dr' now"
  have rid: "opt_else '''' (request_string ''request_id'' dr') = rq_request_id rq"
    by (simp add: dr'_def request_string_def opt_else_def)
  have fields: "qd_status d = StatusQueued" "qd_request_id d = rq_request_id rq" "qd_request d = Some dr'"
    "req_resources dr' = rs" "req_data_sources dr' = ds" "qd_id d \<noteq> ''''"
    by (simp_all add: d_def new_queued_def dr'_def dr_def to_deployment_request_def Let_def generate_deployment_id_def)
  obtain x1 e where sub: "submit now upd d x = (x1, e)" by fastforce
  show ?thesis
  proof (cases e)
    case None
    have "x' = x1" "rp_status r = 201 \<or> rp_status r = 500"
      using assms(2) sub ok rid unfolding None handle_create_deployment_def create_deployment_def
      by (auto simp: dr_def [symmetric] dr'_def [symmetric] d_def [symmetric] Let_def write_json_def write_error_def split: if_splits)
    then show ?thesis
      using submit_done [OF assms(1) sub [unfolded None] fields(6)] fields ok
      by (auto simp: validate_deployment_request_def split: if_splits)
  next
    case (Some err)
    then have "rp_status r = 500"
      using assms(2) sub ok rid unfolding handle_create_deployment_def create_deployment_def
      by (auto simp: dr_def [symmetric] dr'_def [symmetric] d_def [symmetric] Let_def write_error_def)
    then show ?thesis by simp
  qed
qed

definition bucket_request :: gmap where
  "bucket_request = [(''name'', GStr ''web''), (''terraform_json'', GMap bucket_document)]"

definition decoded_bucket_request :: api_request where
  "decoded_bucket_request = \<lparr>api_name = ''web'', api_terraform_json = Some bucket_document, api_config = None\<rparr>"

lemma bucket_request_decodes: "decode_request (JsonObject bucket_request) = Some decoded_bucket_request"
  by code_simp

lemma bucket_creation:
  "\<exists>x' r. handle_create_deployment 7 8 (\<lambda>_. 0) (sample_http_request bucket_request) (service_sample StatusCompleted) = (x', r) \<and>
     rp_status r = 201"
proof -
  define dr where "dr = to_deployment_request converter_defaults decoded_bucket_request [sample_bucket] []"
  define dr' where "dr' = dr\<lparr>req_metadata := Some (map_put ''request_id'' (MetaVal (GStr ''req-1'')) (opt_else [] (req_metadata dr)))\<rparr>"
  define d where "d = new_queued (generate_deployment_id 7) ''req-1'' dr' 7"
  have rid: "opt_else '''' (request_string ''request_id'' dr') = ''req-1''" by (simp add: dr'_def request_string_def opt_else_def)
  have id: "qd_id d \<noteq> ''dep-1''" "qd_id d \<noteq> ''''"
    by (simp_all add: d_def new_queued_def generate_deployment_id_def itoa_def unix_nano_def second_def millisecond_def)
  obtain x' d' where sub: "submit 7 8 d (service_sample StatusCompleted) = (x', None)"
    by (rule submit_new [OF service_sample_facts(1) id(2) _ service_sample_facts(3), where now = 7 and upd = 8]) (use id in \<open>simp_all add: service_sample_facts\<close>)
  have ok: "validate_deployment_request decoded_bucket_request = None"
    "parse_terraform_json (nil_map (api_terraform_json decoded_bucket_request)) = Inr ([sample_bucket], [])"
    by (simp_all add: decoded_bucket_request_def validate_deployment_request_def nil_map_def bucket_document_parses)
  have fields: "qd_started_at d = None" "qd_completed_at d = None" "qd_last_error d = None" by (simp_all add: d_def new_queued_def)
  have "handle_create_deployment 7 8 (\<lambda>_. 0) (sample_http_request bucket_request) (service_sample StatusCompleted) =
      (x', write_json 201 (ObjectBody (build_queued_deployment_response (\<lambda>_. 0) d @
        [(''queue_info'', BodyMap
           [(''queue_depth'', BodyVal (GInt (int (qm_current_depth (get_metrics (snd (sw_world x'))))))),
            (''average_wait_time'', BodySeconds (qm_average_wait_time (get_metrics (snd (sw_world x')))))])])))"
    using sub ok rid
    by (simp add: handle_create_deployment_def sample_http_request_def bucket_request_decodes create_deployment_def Let_def
        dr_def [symmetric] dr'_def [symmetric] d_def [symmetric] del: decode_request.simps)
  then show ?thesis
    using fields
    by (auto simp: write_json_def marshals_fields_def build_queued_deployment_response_def opt_field_def format_time_def
        split: option.split)
qed

theorem creation_is_answered_truly_witness:
  "\<exists>d. sw_waiting (fst (handle_create_deployment 7 8 (\<lambda>_. 0) (sample_http_request bucket_request)
       (service_sample StatusCompleted))) = [d] \<and> qd_status d = StatusQueued \<and> qd_request_id d = ''req-1''"
proof -
  obtain x' r where r: "handle_create_deployment 7 8 (\<lambda>_. 0) (sample_http_request bucket_request) (service_sample StatusCompleted) = (x', r)"
    "rp_status r = 201"
    using bucket_creation by blast
  from creation_is_answered_truly [OF service_sample_facts(1) r(1)] r show ?thesis
    by (auto simp: service_sample_facts sample_http_request_def)
qed

section \<open>Deletions and cancellations\<close>

text \<open>
  A queued deployment survives its deletion over the API: the answer is that there is no content any more, but
  the deployment keeps its place in the queue, its record and its status, and a worker that comes takes it.
\<close>

theorem deleted_queued_deployment_stays:
  assumes "sw_inv x" and "sw_lookup x i = Some d" and "qd_status d = StatusQueued"
    and "map_of (eq_cancel_map (snd (sw_world x))) i \<noteq> None"
  shows "\<exists>x'. handle_delete_deployment sv now upd i x = (x', NoPanic no_content) \<and>
     sw_waiting x' = sw_waiting x \<and> sw_lookup x' = sw_lookup x"
proof -
  note get = get_by_id [OF assms(1,2)]
  show ?thesis
    using get assms(3,4)
    by (auto simp: handle_delete_deployment_def cancel_deployment_def queue_cancel_def deploy_waiting_def deploy_lookup_def)
qed

definition queued_sample :: "(file_store, int) service_state" where
  "queued_sample = (service_sample StatusQueued)\<lparr>sw_world :=
     (fst (sw_world (service_sample StatusQueued)),
      fst (enqueue 3 None True (Some (bucket_deployment StatusQueued)) (new_queue 4)))\<rparr>"

lemma queued_sample_facts:
  "sw_inv queued_sample" "sw_lookup queued_sample ''dep-1'' = Some (bucket_deployment StatusQueued)"
  "sw_waiting queued_sample = [bucket_deployment StatusQueued]"
  "map_of (eq_cancel_map (snd (sw_world queued_sample))) ''dep-1'' \<noteq> None"
proof -
  have q: "enqueue 3 None True (Some (bucket_deployment StatusQueued)) (new_queue 4) =
      (fst (enqueue 3 None True (Some (bucket_deployment StatusQueued)) (new_queue 4)), Returned None)"
    "eq_channel (fst (enqueue 3 None True (Some (bucket_deployment StatusQueued)) (new_queue 4))) = [bucket_deployment StatusQueued]"
    "map_of (eq_cancel_map (fst (enqueue 3 None True (Some (bucket_deployment StatusQueued)) (new_queue 4)))) ''dep-1'' \<noteq> None"
    by (simp_all add: enqueue_def enqueue_begin_def enqueue_send_def enqueue_finish_def deploy_ctx_err_def new_queue_def
        bucket_deployment_def new_queued_def Let_def)
  have "queue_inv (fst (enqueue 3 None True (Some (bucket_deployment StatusQueued)) (new_queue 4)))"
    by (rule queue_inv_enqueue [OF queue_inv_new])
  then show "sw_inv queued_sample"
    using service_sample_facts(1) [of StatusQueued] by (simp add: queued_sample_def sw_inv_def deploy_inv_def)
  show "sw_lookup queued_sample ''dep-1'' = Some (bucket_deployment StatusQueued)"
    using service_sample_facts(2) [of StatusQueued] by (simp add: queued_sample_def deploy_lookup_def)
  show "sw_waiting queued_sample = [bucket_deployment StatusQueued]"
    "map_of (eq_cancel_map (snd (sw_world queued_sample))) ''dep-1'' \<noteq> None"
    using q by (simp_all add: queued_sample_def deploy_waiting_def)
qed

theorem deleted_queued_deployment_stays_witness:
  "\<exists>x'. handle_delete_deployment sample_service 7 8 ''dep-1'' queued_sample = (x', NoPanic no_content) \<and>
     sw_waiting x' = [bucket_deployment StatusQueued] \<and> sw_lookup x' ''dep-1'' = Some (bucket_deployment StatusQueued)"
proof -
  have "qd_status (bucket_deployment StatusQueued) = StatusQueued" by simp
  from deleted_queued_deployment_stays [OF queued_sample_facts(1,2) this queued_sample_facts(4), of sample_service 7 8]
  show ?thesis by (auto simp: queued_sample_facts)
qed

section \<open>Updates\<close>

lemma submit_refused:
  assumes "sw_inv x" and "submit now upd d x = (x', Some e)" and "qd_id d \<noteq> ''''"
  shows "sw_waiting x' = sw_waiting x"
proof -
  let ?s = "(sw_coordinator x, sw_world x)"
  have inv: "deploy_inv (sw_world x)" using assms(1) by (simp add: sw_inv_def)
  have x': "sw_world x' = snd (fst (create_deployment_transaction (deploy_backend now upd) now d ?s))"
    using assms(2) by (auto simp: submit_def split: prod.splits)
  consider (known) "sw_lookup x (qd_id d) \<noteq> None" | (full) "sw_lookup x (qd_id d) = None" "\<not> deploy_room (sw_world x)"
    | (ok) "sw_lookup x (qd_id d) = None" "deploy_room (sw_world x)" by blast
  then show ?thesis
  proof cases
    case known
    then obtain w1 e1 where "on_tracker (tracker_register upd (Some d)) (sw_world x) = (w1, Some e1)"
      using dback.reg_known [OF inv, of d upd] by (metis not_Some_eq prod.collapse)
    from dback.create_refused [OF inv this, of now now "sw_coordinator x"] show ?thesis
      unfolding x' deploy_backend_create by (metis fst_conv snd_conv)
  next
    case full
    show ?thesis
      unfolding x' deploy_backend_create
      by (rule dback.create_enqueue_fails [OF inv assms(3) full, of upd now now "sw_coordinator x"]) simp
  next
    case ok
    show ?thesis by (rule submit_new [OF assms(1,3) ok, of now upd]) (use assms(2) in simp)
  qed
qed

lemma plan_keeps_world:
  assumes "generate_update_plan sv now i newJSON x = Some (x', r)"
  shows "\<exists>p. x' = x\<lparr>sw_providers := p\<rparr>"
proof -
  have same: "\<exists>p. x = x\<lparr>sw_providers := p\<rparr>" by (rule exI [of _ "sw_providers x"]) simp
  show ?thesis
    using assms same
    by (auto simp: generate_update_plan_def Let_def split: if_splits option.splits sum.splits prod.splits)
qed

lemma queued_update_job:
  assumes "sw_inv x" and "create_and_queue_update now upd i ur plan x = (x', r)"
  shows "sw_waiting x' = sw_waiting x \<or> (\<exists>job qu. r = Inr qu \<and> qu_plan qu = plan \<and> sw_waiting x' = sw_waiting x @ [job])"
proof (cases "build_update_deployment_request i (generate_update_id now) (nil_map (ur_new_terraform_json ur)) plan")
  case (Inr rq)
  let ?job = "build_queued_update_deployment now i (generate_update_id now) rq"
  have id: "qd_id ?job \<noteq> ''''" by (simp add: build_queued_update_deployment_def new_queued_def)
  obtain x1 e where s: "submit now upd ?job x = (x1, e)" by fastforce
  show ?thesis
    using submit_refused [OF assms(1) _ id, of now upd x1] submit_done [OF assms(1) _ id, of now upd x1] s assms(2) Inr
    by (cases e) (auto simp: create_and_queue_update_def Let_def)
qed (use assms(2) in \<open>auto simp: create_and_queue_update_def Let_def\<close>)

text \<open>
  C6: an update over the API puts a job into the queue only for a finished deployment and after a plan for the new
  document was reviewed: the plan deletes and replaces nothing, or the client forces the update.
\<close>

theorem updates_are_reviewed:
  assumes "sw_inv x" and "handle_update_deployment sv now1 now2 upd zone rq i x = Some (x', r)"
    and "sw_waiting x' \<noteq> sw_waiting x"
  shows "\<exists>d req x1 plan job. sw_lookup x i = Some d \<and> qd_status d \<in> {StatusCompleted, StatusFailed} \<and>
     decode_request (rq_body rq) = Some req \<and> api_name req \<noteq> '''' \<and>
     generate_update_plan sv now1 i (api_terraform_json req) x = Some (x1, Inr plan) \<and>
     (up_dangerous_changes plan = [] \<or> rq_force_update rq = ''true'') \<and> sw_waiting x' = sw_waiting x @ [job]"
proof -
  obtain st where st: "get_deployment_status i x = Inr st"
    using assms(2,3) by (auto simp: handle_update_deployment_def split: sum.splits)
  then obtain d where d: "sw_lookup x i = Some d" "qd_status d = st"
    by (auto simp: get_deployment_status_def tracker_get_status_def deploy_lookup_def tracked_deployment_def
        split: if_splits option.splits sum.splits)
  obtain req where req: "decode_request (rq_body rq) = Some req" "validate_deployment_request req = None"
    "handler_validate_for_update st = None"
    using assms(2,3) st by (auto simp: handle_update_deployment_def split: option.splits)
  obtain x1 res where g: "generate_update_plan sv now1 i (api_terraform_json req) x = Some (x1, res)"
    using assms(2) st req by (auto simp: handle_update_deployment_def split: option.splits)
  obtain p where x1: "x1 = x\<lparr>sw_providers := p\<rparr>" using plan_keeps_world [OF g] by blast
  obtain plan where plan: "res = Inr plan"
    using assms(2,3) st req g x1 by (cases res) (auto simp: handle_update_deployment_def)
  define ur where "ur = \<lparr>ur_deployment_id = i, ur_request_id = rq_request_id rq,
    ur_new_terraform_json = api_terraform_json req, ur_plan_first = True, ur_auto_approve = (rq_auto_approve rq = ''true''),
    ur_force_update = (rq_force_update rq = ''true''), ur_updated_by = rq_user_id rq, ur_update_reason = rq_update_reason rq\<rparr>"
  have safe: "up_dangerous_changes plan = [] \<or> rq_force_update rq = ''true''"
    using assms(2,3) st req g x1 plan by (auto simp: handle_update_deployment_def Let_def split: if_splits)
  obtain ru where up: "update_deployment sv now2 upd i (Some ur) x1 = Some (x', ru)"
    using assms(2) st req g plan safe
    by (auto simp: handle_update_deployment_def Let_def ur_def split: if_splits)
  have inv1: "sw_inv x1" using assms(1) x1 by (simp add: sw_inv_def)
  have same: "sw_waiting x1 = sw_waiting x" using x1 by simp
  have "\<exists>x2 plan2. generate_update_plan sv now2 i (ur_new_terraform_json ur) x1 = Some (x2, Inr plan2) \<and>
      create_and_queue_update now2 upd i ur plan2 x2 = (x', ru)"
  proof (rule ccontr)
    assume *: "\<not> ?thesis"
    then have "\<exists>p. x' = x1\<lparr>sw_providers := p\<rparr> \<or> x' = x1"
      using up plan_keeps_world [of sv now2 i "ur_new_terraform_json ur" x1]
      by (auto simp: update_deployment_def split: if_splits option.splits sum.splits)
    then show False using assms(3) same by auto
  qed
  then obtain x2 plan2 where x2: "generate_update_plan sv now2 i (ur_new_terraform_json ur) x1 = Some (x2, Inr plan2)"
    "create_and_queue_update now2 upd i ur plan2 x2 = (x', ru)" by blast
  obtain p2 where "x2 = x1\<lparr>sw_providers := p2\<rparr>" using plan_keeps_world [OF x2(1)] by blast
  then have "sw_inv x2" "sw_waiting x2 = sw_waiting x" using inv1 same by (simp_all add: sw_inv_def)
  with queued_update_job [OF _ x2(2)] assms(3) obtain job where "sw_waiting x' = sw_waiting x @ [job]" by metis
  moreover have "st \<in> {StatusCompleted, StatusFailed}" using req(3) by (cases st) auto
  moreover have "api_name req \<noteq> ''''" using req(2) by (auto simp: validate_deployment_request_def split: if_splits)
  ultimately show ?thesis using d req(1) g plan safe by blast
qed

definition update_sample :: "(file_store, int) service_state" where
  "update_sample = planning_sample StatusCompleted"

lemma sample_update_queued:
  "\<exists>x' r. handle_update_deployment planning_service 7 9 8 (\<lambda>_. 0) (sample_http_request bucket_request) ''dep-1'' update_sample =
     Some (x', r) \<and> sw_waiting x' \<noteq> []"
proof -
  have x: "update_sample\<lparr>sw_providers := sw_providers update_sample\<rparr> = update_sample" by simp
  obtain x1 plan where g1: "generate_update_plan planning_service 7 ''dep-1'' (Some bucket_document) update_sample = Some (x1, Inr plan)"
    "up_dangerous_changes plan = []"
    using sample_planned [of 7 "sw_providers update_sample"] x unfolding update_sample_def by auto
  obtain p where x1: "x1 = update_sample\<lparr>sw_providers := p\<rparr>" using plan_keeps_world [OF g1(1)] by blast
  obtain x2 plan2 where g2: "generate_update_plan planning_service 9 ''dep-1'' (Some bucket_document) x1 = Some (x2, Inr plan2)"
    using sample_planned [of 9 p] x1 unfolding update_sample_def by auto
  obtain p2 where x2: "x2 = x1\<lparr>sw_providers := p2\<rparr>" using plan_keeps_world [OF g2] by blast
  have world: "sw_world x1 = sw_world update_sample" "sw_world x2 = sw_world update_sample" using x1 x2 by simp_all
  have inv: "sw_inv x1" "sw_lookup x1 ''dep-1'' = Some (bucket_deployment StatusCompleted)"
    using planning_sample_facts(1,2) [of StatusCompleted] world by (simp_all add: sw_inv_def update_sample_def)
  note get = get_by_id [OF inv]
  have get0: "get_deployment_status ''dep-1'' update_sample = Inr StatusCompleted"
    using get_by_id [OF planning_sample_facts(1), of StatusCompleted] planning_sample_facts(2) [of StatusCompleted]
    by (simp add: update_sample_def)
  obtain rq where rq: "build_update_deployment_request ''dep-1'' (generate_update_id 9) bucket_document plan2 = Inr rq"
    by (simp add: build_update_deployment_request_def convert_terraform_to_request_def bucket_document_parses)
  let ?job = "build_queued_update_deployment 9 ''dep-1'' (generate_update_id 9) rq"
  have id: "qd_id ?job = ''update-dep-1-'' @ generate_update_id 9" by (simp add: build_queued_update_deployment_def new_queued_def)
  have room: "sw_inv x2" "sw_lookup x2 (qd_id ?job) = None" "deploy_room (sw_world x2)"
    using world(2) id planning_sample_facts(1-3) [of StatusCompleted] by (simp_all add: sw_inv_def update_sample_def)
  obtain x' d' where sub: "submit 9 8 ?job x2 = (x', None)" "sw_waiting x' = sw_waiting x2 @ [?job]"
    by (rule submit_new [OF room(1) _ room(2,3), where now = 9 and upd = 8]) (use id in auto)
  have "handle_update_deployment planning_service 7 9 8 (\<lambda>_. 0) (sample_http_request bucket_request) ''dep-1'' update_sample \<noteq> None \<and>
      fst (the (handle_update_deployment planning_service 7 9 8 (\<lambda>_. 0) (sample_http_request bucket_request) ''dep-1'' update_sample)) = x'"
    using get0 g1 g2 get rq sub(1)
    by (simp add: handle_update_deployment_def sample_http_request_def bucket_request_decodes decoded_bucket_request_def
        validate_deployment_request_def update_deployment_def check_deployment_update_eligibility_def
        create_and_queue_update_def Let_def nil_map_def del: decode_request.simps)
  moreover have "sw_waiting x' \<noteq> []" using sub(2) by simp
  ultimately show ?thesis by (metis option.exhaust_sel prod.collapse)
qed

theorem updates_are_reviewed_witness:
  "\<exists>x' r job. handle_update_deployment planning_service 7 9 8 (\<lambda>_. 0) (sample_http_request bucket_request) ''dep-1'' update_sample =
     Some (x', r) \<and> sw_waiting x' = [job]"
proof -
  obtain x' r where h: "handle_update_deployment planning_service 7 9 8 (\<lambda>_. 0) (sample_http_request bucket_request) ''dep-1''
      update_sample = Some (x', r)" "sw_waiting x' \<noteq> []"
    using sample_update_queued by blast
  have start: "sw_inv update_sample" "sw_waiting update_sample = []" by (simp_all add: update_sample_def planning_sample_facts)
  from updates_are_reviewed [OF start(1) h(1)] h start(2) show ?thesis by auto
qed

section \<open>The server\<close>

text \<open>
  C10: no request that fails a validator reaches the service: whatever the route, the state stays as it is and the answer is
  400. In particular a deployment is read, changed, deleted or canceled only under an identifier of the accepted form.
\<close>

theorem validators_guard_service:
  assumes "serve en rq rt x = Some (x', r)" and "x' \<noteq> x \<or> (\<forall>e. r \<noteq> NoPanic (validation_response e))"
  shows "list_all (\<lambda>v. v = None) (route_validators rt rq) \<and> handle_route en rq rt x = Some (x', r) \<and>
     (\<forall>i. rt \<in> {GetDeployment i, UpdateDeployment i, DeleteDeployment i, CancelDeployment i} \<longrightarrow> valid_id_pattern i)"
proof -
  have none: "first_error vs = None \<longleftrightarrow> list_all (\<lambda>v. v = None) vs" for vs :: "validation_error option list"
    by (induction vs rule: first_error.induct) auto
  have ok: "first_error (route_validators rt rq) = None" "handle_route en rq rt x = Some (x', r)"
    using assms by (auto simp: serve_def split: option.splits)
  then have "list_all (\<lambda>v. v = None) (route_validators rt rq)" using none by simp
  moreover from this have "\<forall>i. rt \<in> {GetDeployment i, UpdateDeployment i, DeleteDeployment i, CancelDeployment i} \<longrightarrow> valid_id_pattern i"
    by (auto simp: id_validator_def split: if_splits)
  ultimately show ?thesis using ok(2) by simp
qed

definition sample_env :: "(file_store, int, unit, dependency_graph) server_env" where
  "sample_env = \<lparr>en_components = \<lparr>ac_config = True, ac_queue = True, ac_tracker = True, ac_worker_pool = True, ac_state_store = True\<rparr>,
     en_service = sample_service, en_zone = (\<lambda>_. 0), en_now = 7, en_later = 9, en_upd = 8, en_ping = None, en_system = []\<rparr>"

theorem validators_guard_service_witness:
  "\<exists>x' r. serve sample_env (sample_http_request []) (DeleteDeployment ''dep-1'') queued_sample = Some (x', r) \<and>
     valid_id_pattern ''dep-1''"
proof -
  have v: "list_all (\<lambda>v. v = None) (route_validators (DeleteDeployment ''dep-1'') (sample_http_request []))"
    by (simp add: content_type_validator_def sample_http_request_def id_validator_def valid_id_pattern_def is_alnum_def)
  obtain x' r where s: "serve sample_env (sample_http_request []) (DeleteDeployment ''dep-1'') queued_sample = Some (x', NoPanic r)"
    "rp_status r = 204"
  proof -
    have "get_deployment_status ''dep-1'' queued_sample = Inr StatusQueued"
      using get_by_id [OF queued_sample_facts(1,2)] by simp
    then have "\<exists>x'. serve sample_env (sample_http_request []) (DeleteDeployment ''dep-1'') queued_sample = Some (x', NoPanic no_content)"
      using v queued_sample_facts(4)
      by (auto simp: serve_def handle_delete_deployment_def cancel_deployment_def queue_cancel_def)
    then show thesis using that by (auto simp: no_content_def)
  qed
  have "\<forall>e. NoPanic r \<noteq> NoPanic (validation_response e)" using s(2) by (auto simp: validation_response_def)
  then show ?thesis using validators_guard_service [OF s(1)] s(1) by auto
qed

end
