(* ===== verification/Provider_Environment.thy ===== *)
theory Provider_Environment
  imports Lattiam_Types
begin

text \<open>
  The environment a provider plugin starts with: \<^verbatim>\<open>startProviderWithConfigAndDeployment\<close> and its helpers in
  \<^verbatim>\<open>pkg/provider/protocol/manager.go\<close>, the part of \<^verbatim>\<open>plugin_instance.go\<close> that adds to it, and the default source
  of configurations, \<^verbatim>\<open>internal/config/default_config_source.go\<close>.

  An environment is a list of entries \<^verbatim>\<open>KEY=value\<close>, as in Go. \<^verbatim>\<open>os.Getenv\<close> reads the first entry of a key; a
  command with several entries of a key gets the last one. Debugging is off, and paths are joined with a
  slash. \<open>fmt\<close> is the verb \<^verbatim>\<open>%v\<close>.
\<close>

section \<open>Entries\<close>

definition env_entry :: "string \<Rightarrow> string \<Rightarrow> string" where
  "env_entry k v = k @ ''='' @ v"

definition entries :: "string list \<Rightarrow> string \<Rightarrow> string list" where
  "entries env k = filter (\<lambda>e. has_prefix e (k @ ''='')) env"

definition getenv :: "string list \<Rightarrow> string \<Rightarrow> string" where
  "getenv env k = (case entries env k of [] \<Rightarrow> '''' | e # _ \<Rightarrow> drop (length k + 1) e)"

text \<open>What the started process sees.\<close>

definition child_value :: "string list \<Rightarrow> string \<Rightarrow> string option" where
  "child_value env k = (if entries env k = [] then None else Some (drop (length k + 1) (last (entries env k))))"

fun set_env_var :: "string list \<Rightarrow> string \<Rightarrow> string \<Rightarrow> string list" where
  "set_env_var [] k v = [env_entry k v]"
| "set_env_var (e # env) k v =
     (if has_prefix e (k @ ''='') then env_entry k v # env else e # set_env_var env k v)"

section \<open>The environment of a plugin\<close>

definition magic_cookie :: string where
  "magic_cookie = ''d602bf8f470bc67ca7faa0386276bbdd4330efaf76d1a219cb4d6991ca9872b2''"

definition setup_base_environment :: "string list \<Rightarrow> string list" where
  "setup_base_environment server = server @ [''TF_PLUGIN_MAGIC_COOKIE='' @ magic_cookie]"

definition aws_env_vars :: "string list" where
  "aws_env_vars =
     [''AWS_ENDPOINT_URL'', ''AWS_ENDPOINT_URL_S3'', ''AWS_ENDPOINT_URL_DYNAMODB'', ''AWS_ENDPOINT_URL_EC2'',
      ''AWS_ENDPOINT_URL_IAM'', ''AWS_ENDPOINT_URL_STS'', ''AWS_ENDPOINT_URL_LAMBDA'', ''AWS_ENDPOINT_URL_CLOUDFORMATION'',
      ''AWS_ENDPOINT_URL_LOGS'', ''AWS_ENDPOINT_URL_EVENTS'', ''AWS_ENDPOINT_URL_KMS'', ''AWS_ENDPOINT_URL_SECRETSMANAGER'',
      ''AWS_ACCESS_KEY_ID'', ''AWS_SECRET_ACCESS_KEY'', ''AWS_DEFAULT_REGION'', ''AWS_REGION'', ''AWS_PROFILE'',
      ''AWS_SHARED_CREDENTIALS_FILE'', ''AWS_CONFIG_FILE'', ''AWS_SKIP_CREDENTIALS_VALIDATION'',
      ''AWS_SKIP_METADATA_API_CHECK'', ''AWS_SKIP_REQUESTING_ACCOUNT_ID'', ''AWS_EC2_METADATA_DISABLED'', ''AWS_DISABLE_SSL'',
      ''LOCALSTACK_ENDPOINT'', ''NO_PROXY'', ''SSH_AUTH_SOCK'', ''HOME'', ''USER'', ''XDG_RUNTIME_DIR'', ''PATH'']"

definition aws_endpoint :: "(gval \<Rightarrow> string) \<Rightarrow> string \<times> gval \<Rightarrow> string list \<Rightarrow> string list" where
  "aws_endpoint fmt e env = set_env_var env (''AWS_ENDPOINT_URL_'' @ to_upper (fst e)) (fmt (snd e))"

definition aws_env_key :: "string \<Rightarrow> string" where
  "aws_env_key k =
     (if k = ''access_key'' then ''AWS_ACCESS_KEY_ID''
      else if k = ''secret_key'' then ''AWS_SECRET_ACCESS_KEY''
      else if k = ''region'' then ''AWS_DEFAULT_REGION''
      else ''AWS_'' @ to_upper k)"

definition aws_setting :: "(gval \<Rightarrow> string) \<Rightarrow> string \<times> gval \<Rightarrow> string list \<Rightarrow> string list" where
  "aws_setting fmt kv env =
     (if fst kv = ''endpoints'' then
        (case snd kv of
           GMap eps \<Rightarrow>
             (let env' = fold (aws_endpoint fmt) eps env in
              case map_of eps ''s3'' of Some v \<Rightarrow> set_env_var env' ''AWS_ENDPOINT_URL'' (fmt v) | None \<Rightarrow> env')
         | _ \<Rightarrow> env)
      else set_env_var env (aws_env_key (fst kv)) (fmt (snd kv)))"

definition apply_aws_provider_config :: "(gval \<Rightarrow> string) \<Rightarrow> gmap \<Rightarrow> string list \<Rightarrow> string list" where
  "apply_aws_provider_config fmt config env = fold (aws_setting fmt) config env"

definition apply_provider_config :: "(gval \<Rightarrow> string) \<Rightarrow> provider_config option \<Rightarrow> string list \<Rightarrow> string list" where
  "apply_provider_config fmt cfg env =
     (case cfg of
        None \<Rightarrow> env
      | Some ps \<Rightarrow>
          fold (\<lambda>(provider, config) env.
                  if provider = ''aws'' then apply_aws_provider_config fmt config env
                  else fold (\<lambda>(k, v) env. set_env_var env (to_upper (provider @ ''_'' @ k)) (fmt v)) config env) ps env)"

definition should_skip_env_var :: "string \<Rightarrow> provider_config option \<Rightarrow> bool" where
  "should_skip_env_var v cfg =
     (case cfg of
        None \<Rightarrow> False
      | Some ps \<Rightarrow>
          list_ex (\<lambda>(provider, config).
            let prefix = to_upper provider @ ''_'' in
            has_prefix v prefix \<and> map_of config (to_lower (trim_prefix v prefix)) \<noteq> None) ps)"

definition apply_aws_environment_vars :: "string list \<Rightarrow> provider_config option \<Rightarrow> string list \<Rightarrow> string list" where
  "apply_aws_environment_vars server cfg env =
     fold (\<lambda>v env. if getenv server v \<noteq> '''' \<and> \<not> should_skip_env_var v cfg then env @ [env_entry v (getenv server v)] else env)
       aws_env_vars env"

text \<open>\<^verbatim>\<open>filepath.Join(os.TempDir(), "lattiam-deployments", deploymentID)\<close>.\<close>

definition deployment_dir :: "string \<Rightarrow> string \<Rightarrow> string" where
  "deployment_dir tmp i = tmp @ ''/lattiam-deployments/'' @ i"

definition provider_environment ::
  "(gval \<Rightarrow> string) \<Rightarrow> string list \<Rightarrow> string \<Rightarrow> string \<Rightarrow> provider_config option \<Rightarrow> string list" where
  "provider_environment fmt server tmp i cfg =
     apply_aws_environment_vars server cfg (apply_provider_config fmt cfg (setup_base_environment server)) @
     [''TF_DATA_DIR='' @ deployment_dir tmp i @ ''/terraform-state'',
      ''TF_PLUGIN_CACHE_DIR='' @ deployment_dir tmp i @ ''/provider-state'']"

text \<open>What \<^verbatim>\<open>NewPluginProviderInstanceWithEnv\<close> adds for AWS: the server's variables that are not there.\<close>

definition plugin_environment :: "string list \<Rightarrow> string \<Rightarrow> string list \<Rightarrow> string list" where
  "plugin_environment server name env =
     (if name = ''aws''
      then fold (\<lambda>v env. if getenv server v \<noteq> '''' \<and> entries env v = [] then env @ [env_entry v (getenv server v)] else env)
             [''AWS_ACCESS_KEY_ID'', ''AWS_SECRET_ACCESS_KEY'', ''AWS_DEFAULT_REGION'', ''AWS_ENDPOINT_URL''] env
      else env)"

section \<open>The default source of configurations\<close>

definition put_env :: "string list \<Rightarrow> string \<Rightarrow> string \<Rightarrow> gmap \<Rightarrow> gmap" where
  "put_env server v k m = (if getenv server v \<noteq> '''' then map_put k (GStr (getenv server v)) m else m)"

definition put_flag :: "string list \<Rightarrow> string \<Rightarrow> string \<Rightarrow> gmap \<Rightarrow> gmap" where
  "put_flag server v k m = (if getenv server v = ''true'' then map_put k (GBool True) m else m)"

definition put_region :: "string list \<Rightarrow> gmap \<Rightarrow> gmap" where
  "put_region server m =
     (if getenv server ''AWS_REGION'' \<noteq> '''' then map_put ''region'' (GStr (getenv server ''AWS_REGION'')) m
      else put_env server ''AWS_DEFAULT_REGION'' ''region'' m)"

definition put_role :: "string list \<Rightarrow> gmap \<Rightarrow> gmap" where
  "put_role server m =
     (if getenv server ''AWS_ROLE_ARN'' = '''' then m
      else map_put ''assume_role''
             (GList [GMap (put_env server ''AWS_EXTERNAL_ID'' ''external_id''
                (put_env server ''AWS_ROLE_SESSION_NAME'' ''session_name''
                   [(''role_arn'', GStr (getenv server ''AWS_ROLE_ARN''))]))]) m)"

definition apply_aws_environment :: "string list \<Rightarrow> gmap \<Rightarrow> gmap" where
  "apply_aws_environment server config =
     put_flag server ''AWS_USE_DUALSTACK_ENDPOINT'' ''use_dualstack_endpoint''
       (put_flag server ''AWS_USE_FIPS_ENDPOINT'' ''use_fips_endpoint''
         (put_role server
           (put_env server ''AWS_PROFILE'' ''profile''
             (put_env server ''AWS_SESSION_TOKEN'' ''token''
               (put_env server ''AWS_SECRET_ACCESS_KEY'' ''secret_key''
                 (put_env server ''AWS_ACCESS_KEY_ID'' ''access_key'' (put_region server config)))))))"

text \<open>\<^verbatim>\<open>GetProviderConfig\<close> without a schema, as the provider manager calls it.\<close>

definition get_provider_config :: "string list \<Rightarrow> string \<Rightarrow> provider_config" where
  "get_provider_config server name =
     [(name, if name = ''aws'' \<or> str_contains name ''aws'' then apply_aws_environment server [] else [])]"

definition passed_vars :: "string list" where
  "passed_vars =
     [''AWS_REGION'', ''AWS_DEFAULT_REGION'', ''AWS_ACCESS_KEY_ID'', ''AWS_SECRET_ACCESS_KEY'', ''AWS_SESSION_TOKEN'',
      ''AWS_PROFILE'', ''AWS_CONFIG_FILE'', ''AWS_SHARED_CREDENTIALS_FILE'', ''AWS_ROLE_ARN'', ''AWS_ROLE_SESSION_NAME'',
      ''AWS_EXTERNAL_ID'', ''AWS_MFA_SERIAL'', ''AWS_STS_REGIONAL_ENDPOINTS'', ''AWS_SDK_LOAD_CONFIG'', ''AWS_CA_BUNDLE'',
      ''AWS_METADATA_SERVICE_TIMEOUT'', ''AWS_METADATA_SERVICE_NUM_ATTEMPTS'', ''AWS_EC2_METADATA_SERVICE_ENDPOINT'',
      ''AWS_EC2_METADATA_SERVICE_ENDPOINT_MODE'', ''AWS_EC2_METADATA_DISABLED'', ''AWS_ECS_SERVICE_CONNECT_ENDPOINT'',
      ''AWS_USE_FIPS_ENDPOINT'', ''AWS_USE_DUALSTACK_ENDPOINT'', ''AWS_CONTAINER_CREDENTIALS_FULL_URI'',
      ''AWS_CONTAINER_CREDENTIALS_RELATIVE_URI'', ''AWS_CONTAINER_AUTHORIZATION_TOKEN'',
      ''AWS_CONTAINER_AUTHORIZATION_TOKEN_FILE'',
      ''HTTP_PROXY'', ''HTTPS_PROXY'', ''NO_PROXY'', ''http_proxy'', ''https_proxy'', ''no_proxy'']"

definition get_environment_config :: "string list \<Rightarrow> (string \<times> string) list" where
  "get_environment_config server =
     fold (\<lambda>v m. if getenv server v \<noteq> '''' then map_put v (getenv server v) m else m) passed_vars []"

section \<open>Which value a plugin sees\<close>

text \<open>The entries of \<open>k\<close> are not those of \<open>k'\<close>.\<close>

definition apart :: "string \<Rightarrow> string \<Rightarrow> bool" where
  "apart k k' \<longleftrightarrow> \<not> has_prefix (k @ ''='') (k' @ ''='') \<and> \<not> has_prefix (k' @ ''='') (k @ ''='')"

lemma prefix_comparable: "has_prefix s p \<Longrightarrow> has_prefix s q \<Longrightarrow> has_prefix p q \<or> has_prefix q p"
  by (auto simp: has_prefix_append append_eq_append_conv2)

lemma apart_entry: "apart k k' \<Longrightarrow> has_prefix e (k @ ''='') \<Longrightarrow> \<not> has_prefix e (k' @ ''='')"
  using prefix_comparable by (fastforce simp: apart_def)

lemma entry_prefix: "has_prefix (env_entry k v) (k @ ''='')"
  by (auto simp: env_entry_def has_prefix_append)

lemma entries_simps [simp]:
  "entries [] k = []" "entries (env @ env') k = entries env k @ entries env' k"
  "entries (env_entry k v # env) k = env_entry k v # entries env k"
  by (auto simp: entries_def entry_prefix)

lemma entries_apart [simp]: "apart k k' \<Longrightarrow> entries (env_entry k v # env) k' = entries env k'"
  using apart_entry [OF _ entry_prefix] by (auto simp: entries_def)

lemma entries_set:
  "entries (set_env_var env k v) k = env_entry k v # tl (entries env k)"
  by (induction env) (auto simp: entries_def entry_prefix)

lemma entries_set_apart: "apart k k' \<Longrightarrow> entries (set_env_var env k v) k' = entries env k'"
proof (induction env)
  case (Cons e env)
  then show ?case
    using apart_entry [OF Cons.prems entry_prefix] apart_entry [OF Cons.prems, of e] by (auto simp: entries_def)
qed (use entries_apart in simp)

lemma fold_apart:
  assumes "\<And>x env. x \<in> set xs \<Longrightarrow> entries (f x env) k = entries env k"
  shows "entries (fold f xs env) k = entries env k"
  using assms by (induction xs arbitrary: env) auto

lemma aws_vars_apart:
  assumes "v \<in> set aws_env_vars" and "u \<in> set aws_env_vars" and "u \<noteq> v"
  shows "apart u v"
proof -
  have "\<forall>w \<in> set aws_env_vars. CHR ''='' \<notin> set w" by (simp add: aws_env_vars_def)
  then have no_eq: "CHR ''='' \<notin> set u" "CHR ''='' \<notin> set v" using assms(1,2) by blast+
  have "w = w'" if pre: "has_prefix (w @ ''='') (w' @ ''='')" and free: "CHR ''='' \<notin> set w" "CHR ''='' \<notin> set w'" for w w'
  proof -
    obtain r where "w @ ''='' = w' @ ''='' @ r" using pre unfolding has_prefix_append append_assoc by blast
    moreover have "takeWhile (\<lambda>c. c \<noteq> CHR ''='') (x @ ''='' @ s) = x" if "CHR ''='' \<notin> set x" for x s :: string
      using that by (induction x) auto
    from this [OF free(1), of "''''"] this [OF free(2), of r] show ?thesis using calculation by simp
  qed
  from this [of u v] this [of v u] show ?thesis using assms(3) no_eq unfolding apart_def by blast
qed

text \<open>What the server sets and the configuration does not hide comes last.\<close>

lemma entries_aws_environment:
  assumes "v \<in> set aws_env_vars"
  shows "entries (apply_aws_environment_vars server cfg env) v =
     entries env v @ (if getenv server v \<noteq> '''' \<and> \<not> should_skip_env_var v cfg then [env_entry v (getenv server v)] else [])"
proof -
  let ?f = "\<lambda>v env. if getenv server v \<noteq> '''' \<and> \<not> should_skip_env_var v cfg then env @ [env_entry v (getenv server v)] else env"
  obtain as bs where split: "aws_env_vars = as @ v # bs" "v \<notin> set as" "v \<notin> set bs"
  proof -
    have d: "distinct aws_env_vars" by (simp add: aws_env_vars_def)
    obtain as bs where s: "aws_env_vars = as @ v # bs" using assms by (meson split_list)
    have "distinct (as @ v # bs)" using d unfolding s .
    then have "v \<notin> set as \<and> v \<notin> set bs" by simp
    then show thesis using that s by blast
  qed
  have other: "entries (fold ?f us env) v = entries env v" if "set us \<subseteq> set aws_env_vars - {v}" for us env
  proof (rule fold_apart)
    fix u env
    assume "u \<in> set us"
    then have "apart u v" using that by (intro aws_vars_apart [OF assms]) auto
    then show "entries (?f u env) v = entries env v" by simp
  qed
  have "entries (fold ?f as env) v = entries env v" "\<And>env. entries (fold ?f bs env) v = entries env v"
  proof -
    have "set aws_env_vars = set as \<union> {v} \<union> set bs" unfolding split(1) by auto
    then have "set as \<subseteq> set aws_env_vars - {v}" "set bs \<subseteq> set aws_env_vars - {v}" using split(2,3) by auto
    then show "entries (fold ?f as env) v = entries env v" "\<And>env. entries (fold ?f bs env) v = entries env v"
      by - (rule other, assumption)+
  qed
  then show ?thesis by (auto simp: apply_aws_environment_vars_def split(1))
qed

lemma plugin_entries: "entries env v \<noteq> [] \<Longrightarrow> v \<in> set aws_env_vars \<Longrightarrow> entries (plugin_environment server name env) v = entries env v"
proof -
  assume some: "entries env v \<noteq> []" and v: "v \<in> set aws_env_vars"
  let ?f = "\<lambda>v env. if getenv server v \<noteq> '''' \<and> entries env v = [] then env @ [env_entry v (getenv server v)] else env"
  have "entries (fold ?f us env) v = entries env v" if "set us \<subseteq> set aws_env_vars" for us
    using that some
  proof (induction us arbitrary: env)
    case (Cons u us)
    have "entries (?f u env) v = entries env v"
      using Cons.prems aws_vars_apart [OF v, of u] by (cases "u = v") simp_all
    then show ?case using Cons.IH [of "?f u env"] Cons.prems by simp
  qed simp
  moreover have "set [''AWS_ACCESS_KEY_ID'', ''AWS_SECRET_ACCESS_KEY'', ''AWS_DEFAULT_REGION'', ''AWS_ENDPOINT_URL''] \<subseteq> set aws_env_vars"
    by (simp add: aws_env_vars_def)
  ultimately show ?thesis unfolding plugin_environment_def by presburger
qed

text \<open>The region of an AWS configuration, and keys of it that name the variable of the region.\<close>

definition names_region :: "string \<Rightarrow> bool" where
  "names_region k \<longleftrightarrow> k \<noteq> ''region'' \<and> k \<noteq> ''endpoints'' \<and> \<not> apart (aws_env_key k) ''AWS_DEFAULT_REGION''"

lemma region_apart:
  "apart (''AWS_ENDPOINT_URL_'' @ s) ''AWS_DEFAULT_REGION''" "apart ''AWS_ENDPOINT_URL'' ''AWS_DEFAULT_REGION''"
  by (simp_all add: apart_def)

lemma other_setting:
  assumes "fst kv \<noteq> ''region''" and "\<not> names_region (fst kv)"
  shows "entries (aws_setting fmt kv env) ''AWS_DEFAULT_REGION'' = entries env ''AWS_DEFAULT_REGION''"
proof -
  have "entries (fold (aws_endpoint fmt) eps env) ''AWS_DEFAULT_REGION'' = entries env ''AWS_DEFAULT_REGION''" for eps
    using region_apart(1) by (intro fold_apart) (simp add: aws_endpoint_def entries_set_apart)
  then show ?thesis
    using assms entries_set_apart [OF region_apart(2)]
    by (auto simp: aws_setting_def Let_def names_region_def entries_set_apart split: gval.split option.split)
qed

lemma configured_region:
  assumes "map_wf m" and "\<And>k. k \<in> fst ` set m \<Longrightarrow> \<not> names_region k"
  shows "entries (apply_aws_provider_config fmt m env) ''AWS_DEFAULT_REGION'' =
     (case map_of m ''region'' of
        None \<Rightarrow> entries env ''AWS_DEFAULT_REGION''
      | Some v \<Rightarrow> env_entry ''AWS_DEFAULT_REGION'' (fmt v) # tl (entries env ''AWS_DEFAULT_REGION''))"
  using assms
proof (induction m arbitrary: env)
  case (Cons kv m)
  have m: "map_wf m" "\<And>k. k \<in> fst ` set m \<Longrightarrow> \<not> names_region k" "fst kv \<notin> fst ` set m"
    using Cons.prems by (auto simp: map_wf_def)
  note IH = Cons.IH [OF m(1,2), of "aws_setting fmt kv env"]
  show ?case
  proof (cases "fst kv = ''region''")
    case True
    then have "map_of m ''region'' = None" using m(3) by (simp add: map_of_eq_None_iff)
    moreover have "aws_setting fmt kv env = set_env_var env ''AWS_DEFAULT_REGION'' (fmt (snd kv))"
      using True by (simp add: aws_setting_def aws_env_key_def)
    ultimately show ?thesis using IH True
      by (cases kv) (simp add: apply_aws_provider_config_def entries_set)
  next
    case False
    then have "entries (aws_setting fmt kv env) ''AWS_DEFAULT_REGION'' = entries env ''AWS_DEFAULT_REGION''"
      using Cons.prems(2) [of "fst kv"] by (intro other_setting) auto
    moreover have "map_of (kv # m) ''region'' = map_of m ''region''" using False by (cases kv) simp
    ultimately show ?thesis using IH by (simp add: apply_aws_provider_config_def split: option.splits)
  qed
qed (simp add: apply_aws_provider_config_def)

lemma skipped_region:
  "should_skip_env_var ''AWS_DEFAULT_REGION'' (Some [(''aws'', m)]) \<longleftrightarrow> map_of m ''default_region'' \<noteq> None"
proof -
  have "to_upper ''aws'' = ''AWS''" "to_lower (trim_prefix ''AWS_DEFAULT_REGION'' ''AWS_'') = ''default_region''" by code_simp+
  then show ?thesis by (simp add: should_skip_env_var_def)
qed

lemma final_entries: "apart ''TF_DATA_DIR'' v \<Longrightarrow> apart ''TF_PLUGIN_CACHE_DIR'' v \<Longrightarrow>
  entries (env @ [''TF_DATA_DIR='' @ d, ''TF_PLUGIN_CACHE_DIR='' @ e]) v = entries env v"
  using entries_apart [of "''TF_DATA_DIR''" v d] entries_apart [of "''TF_PLUGIN_CACHE_DIR''" v e]
  by (simp add: env_entry_def)

text \<open>
  The region of the server wins over the region of the configuration: the plugin of AWS sees the server's
  \<^verbatim>\<open>AWS_DEFAULT_REGION\<close> if the server has one, whatever the region of the configuration is, unless the configuration
  has a key \<^verbatim>\<open>default_region\<close>; only without it does it see the configured region.
\<close>

theorem server_region_wins:
  assumes "map_wf m" and "\<And>k. k \<in> fst ` set m \<Longrightarrow> \<not> names_region k" and "map_of m ''region'' = Some v"
    and "length (entries server ''AWS_DEFAULT_REGION'') \<le> 1"
  shows "child_value (plugin_environment server ''aws'' (provider_environment fmt server tmp i (Some [(''aws'', m)])))
           ''AWS_DEFAULT_REGION'' =
         Some (if getenv server ''AWS_DEFAULT_REGION'' \<noteq> '''' \<and> map_of m ''default_region'' = None
               then getenv server ''AWS_DEFAULT_REGION'' else fmt v)"
proof -
  let ?v = "''AWS_DEFAULT_REGION''"
  let ?env = "provider_environment fmt server tmp i (Some [(''aws'', m)])"
  have v: "?v \<in> set aws_env_vars" by (simp add: aws_env_vars_def)
  have "entries (setup_base_environment server) ?v = entries server ?v"
    by (simp add: setup_base_environment_def entries_def)
  moreover have "tl (entries server ?v) = []" using assms(4) by (cases "entries server ?v") auto
  moreover have "entries ?env ?v = entries (apply_aws_environment_vars server (Some [(''aws'', m)])
      (apply_provider_config fmt (Some [(''aws'', m)]) (setup_base_environment server))) ?v"
    unfolding provider_environment_def by (rule final_entries) (simp_all add: apart_def)
  ultimately have "entries ?env ?v = env_entry ?v (fmt v) #
      (if getenv server ?v \<noteq> '''' \<and> map_of m ''default_region'' = None then [env_entry ?v (getenv server ?v)] else [])"
    using configured_region [OF assms(1,2)] assms(3)
    by (simp add: entries_aws_environment [OF v] apply_provider_config_def skipped_region)
  then show ?thesis
    using plugin_entries [OF _ v, of ?env server "''aws''"] by (simp add: child_value_def env_entry_def)
qed

theorem server_region_wins_witness:
  "child_value (plugin_environment [''AWS_DEFAULT_REGION=us-east-1''] ''aws''
     (provider_environment (\<lambda>v. case v of GStr s \<Rightarrow> s | _ \<Rightarrow> '''') [''AWS_DEFAULT_REGION=us-east-1''] ''/tmp'' ''dep-1''
        (Some [(''aws'', [(''region'', GStr ''eu-west-1'')])]))) ''AWS_DEFAULT_REGION'' = Some ''us-east-1''"
  using server_region_wins [of "[(''region'', GStr ''eu-west-1'')]" "GStr ''eu-west-1''" "[''AWS_DEFAULT_REGION=us-east-1'']"
      "\<lambda>v. case v of GStr s \<Rightarrow> s | _ \<Rightarrow> ''''" "''/tmp''" "''dep-1''"]
  by (simp add: map_wf_def names_region_def entries_def getenv_def)

end
