(* ===== verification/Provider_Manager.thy ===== *)
theory Provider_Manager
  imports Provider_Environment
begin

text \<open>
  The provider manager, \<^verbatim>\<open>pkg/provider/protocol/manager.go\<close> and \<^verbatim>\<open>manager_unified.go\<close>: the pool of plugin
  instances by deployment and provider, the list of active instances, and the operations that start, reuse and
  stop them.

  The processes and files are outside the program: \<open>plugin_host\<close> holds what the manager does to them, over a world
  \<open>'w\<close> with process handles \<open>'c\<close>. \<^verbatim>\<open>GetProvider\<close> is two phases, the search in the pool and the part under the write
  lock of the pool; other operations may run between them. A nil error is None.
\<close>

section \<open>Instances, the host and the manager\<close>

record 'c plugin_instance =
  pi_name :: string
  pi_version :: string
  pi_client :: 'c

record ('w, 'c) plugin_host =
  ph_server :: "string list"
  ph_tmp :: string
  ph_format :: "gval \<Rightarrow> string"
  ph_make_dirs :: "string \<Rightarrow> 'w \<Rightarrow> 'w \<times> goerror option"
  ph_remove_dirs :: "string \<Rightarrow> 'w \<Rightarrow> 'w \<times> goerror option"
  ph_binary :: "string \<Rightarrow> string \<Rightarrow> 'w \<Rightarrow> 'w \<times> (goerror + string)"
  ph_source :: "(string \<Rightarrow> string \<Rightarrow> 'w \<Rightarrow> 'w \<times> (goerror + provider_config)) option"
  ph_start :: "string \<Rightarrow> string \<Rightarrow> string \<Rightarrow> string list \<Rightarrow> 'w \<Rightarrow> 'w \<times> (goerror + 'c)"
  ph_client :: "'c \<Rightarrow> 'w \<Rightarrow> 'w \<times> goerror option"
  ph_schema :: "'c \<Rightarrow> 'w \<Rightarrow> 'w \<times> goerror option"
  ph_configure :: "string \<Rightarrow> 'c \<Rightarrow> gmap \<Rightarrow> 'w \<Rightarrow> 'w \<times> goerror option"
  ph_stop :: "'c \<Rightarrow> 'w \<Rightarrow> 'w \<times> goerror option"
  ph_healthy :: "'c \<Rightarrow> 'w \<Rightarrow> bool"

type_synonym 'c pool = "(string \<times> (string \<times> 'c plugin_instance) list) list"

record ('w, 'c) manager =
  pm_pool :: "'c pool"
  pm_active :: "'c plugin_instance list"
  pm_world :: 'w

definition new_manager :: "'w \<Rightarrow> ('w, 'c) manager" where
  "new_manager w = \<lparr>pm_pool = [], pm_active = [], pm_world = w\<rparr>"

definition cache_key :: "string \<Rightarrow> string \<Rightarrow> string" where
  "cache_key name version = name @ ''@'' @ version"

definition pool_of :: "'c pool \<Rightarrow> string \<Rightarrow> (string \<times> 'c plugin_instance) list" where
  "pool_of pool i = opt_else [] (map_of pool i)"

definition pooled :: "'c pool \<Rightarrow> string \<Rightarrow> string \<Rightarrow> 'c plugin_instance option" where
  "pooled pool i key = map_of (pool_of pool i) key"

definition unpool :: "string \<Rightarrow> string \<Rightarrow> ('w, 'c) manager \<Rightarrow> ('w, 'c) manager" where
  "unpool i key m =
     (case map_of (pm_pool m) i of
        None \<Rightarrow> m
      | Some es \<Rightarrow> m\<lparr>pm_pool := map_put i (map_del key es) (pm_pool m)\<rparr>)"

definition put_pool :: "string \<Rightarrow> string \<Rightarrow> 'c plugin_instance \<Rightarrow> ('w, 'c) manager \<Rightarrow> ('w, 'c) manager" where
  "put_pool i key inst m = m\<lparr>pm_pool := map_put i (map_put key inst (pool_of (pm_pool m) i)) (pm_pool m)\<rparr>"

section \<open>Working directories\<close>

definition create_working_dir :: "('w, 'c) plugin_host \<Rightarrow> string \<Rightarrow> 'w \<Rightarrow> 'w \<times> goerror option" where
  "create_working_dir ph i w =
     (let base = deployment_dir (ph_tmp ph) i in
      case ph_make_dirs ph (base @ ''/provider-state'') w of
        (w1, Some e) \<Rightarrow> (w1, Some (WrapError ''failed to create provider state directory: '' e ''''))
      | (w1, None) \<Rightarrow>
          (case ph_make_dirs ph (base @ ''/terraform-state'') w1 of
             (w2, Some e) \<Rightarrow> (w2, Some (WrapError ''failed to create terraform state directory: '' e ''''))
           | (w2, None) \<Rightarrow> (w2, None)))"

definition cleanup_working_dir :: "('w, 'c) plugin_host \<Rightarrow> string \<Rightarrow> 'w \<Rightarrow> 'w \<times> goerror option" where
  "cleanup_working_dir ph i w =
     (case ph_remove_dirs ph (deployment_dir (ph_tmp ph) i) w of
        (w1, Some e) \<Rightarrow> (w1, Some (WrapError ''failed to remove deployment directory: '' e ''''))
      | (w1, None) \<Rightarrow> (w1, None))"

section \<open>Getting a provider\<close>

text \<open>The first unhealthy active instance of this name and version is removed.\<close>

fun drop_unhealthy :: "('c \<Rightarrow> bool) \<Rightarrow> string \<Rightarrow> string \<Rightarrow> 'c plugin_instance list \<Rightarrow> 'c plugin_instance list" where
  "drop_unhealthy healthy name version [] = []"
| "drop_unhealthy healthy name version (p # ps) =
     (if pi_name p = name \<and> pi_version p = version \<and> \<not> healthy (pi_client p) then ps
      else p # drop_unhealthy healthy name version ps)"

definition drop_dead ::
  "('w, 'c) plugin_host \<Rightarrow> string \<Rightarrow> string \<Rightarrow> ('w, 'c) manager \<Rightarrow> ('w, 'c) manager" where
  "drop_dead ph name version m =
     m\<lparr>pm_active := drop_unhealthy (\<lambda>c. ph_healthy ph c (pm_world m)) name version (pm_active m)\<rparr>"

text \<open>
  A dead instance is forgotten: the first phase deletes it if it is still the one in the pool, the second, which holds
  the lock, whatever is under its key.
\<close>

definition forget_cached ::
  "('w, 'c) plugin_host \<Rightarrow> string \<Rightarrow> string \<Rightarrow> string \<Rightarrow> 'c plugin_instance \<Rightarrow> ('w, 'c) manager \<Rightarrow> ('w, 'c) manager" where
  "forget_cached ph i name version p m =
     drop_dead ph name version
       (if pooled (pm_pool m) i (cache_key name version) = Some p then unpool i (cache_key name version) m else m)"

definition forget_dead ::
  "('w, 'c) plugin_host \<Rightarrow> string \<Rightarrow> string \<Rightarrow> string \<Rightarrow> ('w, 'c) manager \<Rightarrow> ('w, 'c) manager" where
  "forget_dead ph i name version m = drop_dead ph name version (unpool i (cache_key name version) m)"

text \<open>The configuration of this provider, if the call brings one.\<close>

definition config_for :: "provider_config option \<Rightarrow> string \<Rightarrow> gmap option" where
  "config_for cfg name = (case cfg of None \<Rightarrow> None | Some ps \<Rightarrow> map_of ps name)"

datatype 'c found = Reuse "'c plugin_instance" | Dead "'c plugin_instance" | Unconfigured | Missing

text \<open>Look at the cached instance: is there one, does it answer, does it take the configuration.\<close>

definition probe ::
  "('w, 'c) plugin_host \<Rightarrow> string \<Rightarrow> string \<Rightarrow> string \<Rightarrow> provider_config option \<Rightarrow> ('w, 'c) manager \<Rightarrow>
     ('w, 'c) manager \<times> 'c found" where
  "probe ph i name version cfg m =
     (case pooled (pm_pool m) i (cache_key name version) of
        None \<Rightarrow> (m, Missing)
      | Some p \<Rightarrow>
          (case ph_schema ph (pi_client p) (pm_world m) of
             (w1, Some e) \<Rightarrow> (m\<lparr>pm_world := w1\<rparr>, Dead p)
           | (w1, None) \<Rightarrow>
               (case config_for cfg name of
                  None \<Rightarrow> (m\<lparr>pm_world := w1\<rparr>, Reuse p)
                | Some c \<Rightarrow>
                    (case ph_configure ph name (pi_client p) c w1 of
                       (w2, None) \<Rightarrow> (m\<lparr>pm_world := w2\<rparr>, Reuse p)
                     | (w2, Some e) \<Rightarrow> (m\<lparr>pm_world := w2\<rparr>, Unconfigured)))))"

text \<open>A dead instance is one of the pool, so forgetting it makes the pool of its deployment smaller.\<close>

lemma length_map_del_less: "map_of m k = Some v \<Longrightarrow> length (map_del k m) < length m"
  unfolding map_del_def by (rule length_filter_less [of "(k, v)"]) (auto dest: map_of_SomeD)

lemma probe_pool: "probe ph i name version cfg m = (m', r) \<Longrightarrow> pm_pool m' = pm_pool m \<and> pm_active m' = pm_active m"
  by (auto simp: probe_def split: option.splits prod.splits)

lemma pool_of_unpool: "pool_of (pm_pool (unpool i key m)) i = map_del key (pool_of (pm_pool m) i)"
  by (simp add: unpool_def pool_of_def opt_else_def map_del_def split: option.split)

lemma forget_cached_shrinks:
  assumes "probe ph i name version cfg m = (m', Dead p)"
  shows "length (pool_of (pm_pool (forget_cached ph i name version p m')) i) < length (pool_of (pm_pool m) i)"
proof -
  have p: "pooled (pm_pool m) i (cache_key name version) = Some p"
    using assms by (auto simp: probe_def split: option.splits prod.splits)
  then have "length (map_del (cache_key name version) (pool_of (pm_pool m) i)) < length (pool_of (pm_pool m) i)"
    unfolding pooled_def by (rule length_map_del_less)
  then show ?thesis using probe_pool [OF assms] p by (simp add: forget_cached_def drop_dead_def pool_of_unpool)
qed

text \<open>
  The first phase. A dead instance is forgotten and the search starts again. After a failed configuration the code
  deletes the key of the instance from the outer map of the pool, whose keys are deployments.
\<close>

function get_cached ::
  "('w, 'c) plugin_host \<Rightarrow> string \<Rightarrow> string \<Rightarrow> string \<Rightarrow> provider_config option \<Rightarrow> ('w, 'c) manager \<Rightarrow>
     ('w, 'c) manager \<times> 'c plugin_instance option" where
  "get_cached ph i name version cfg m =
     (case probe ph i name version cfg m of
        (m1, Reuse p) \<Rightarrow> (m1, Some p)
      | (m1, Dead p) \<Rightarrow> get_cached ph i name version cfg (forget_cached ph i name version p m1)
      | (m1, Unconfigured) \<Rightarrow> (m1\<lparr>pm_pool := map_del (cache_key name version) (pm_pool m1)\<rparr>, None)
      | (m1, Missing) \<Rightarrow> (m1, None))"
  by pat_completeness auto

termination get_cached
  by (relation "measure (\<lambda>(ph, i, name, version, cfg, m). length (pool_of (pm_pool m) i))") (auto intro: forget_cached_shrinks sym)

declare get_cached.simps [simp del]

text \<open>Start a process in the environment of the deployment, and list it as active.\<close>

definition start_provider ::
  "('w, 'c) plugin_host \<Rightarrow> string \<Rightarrow> string \<Rightarrow> string \<Rightarrow> string \<Rightarrow> provider_config option \<Rightarrow> ('w, 'c) manager \<Rightarrow>
     ('w, 'c) manager \<times> (goerror + 'c plugin_instance)" where
  "start_provider ph i name version path cfg m =
     (case ph_start ph path name version
             (plugin_environment (ph_server ph) name
               (provider_environment (ph_format ph) (ph_server ph) (ph_tmp ph) i cfg)) (pm_world m) of
        (w1, Inl e) \<Rightarrow> (m\<lparr>pm_world := w1\<rparr>, Inl e)
      | (w1, Inr c) \<Rightarrow>
          (let p = \<lparr>pi_name = name, pi_version = version, pi_client = c\<rparr> in
           (m\<lparr>pm_world := w1, pm_active := pm_active m @ [p]\<rparr>, Inr p)))"

text \<open>\<^verbatim>\<open>createProviderClient\<close>: a failed configuration stops the process.\<close>

definition create_provider_client ::
  "('w, 'c) plugin_host \<Rightarrow> 'c plugin_instance \<Rightarrow> string \<Rightarrow> provider_config option \<Rightarrow> 'w \<Rightarrow> 'w \<times> goerror option" where
  "create_provider_client ph p name cfg w =
     (case ph_client ph (pi_client p) w of
        (w1, Some e) \<Rightarrow> (w1, Some (WrapError ''failed to create unified provider client: '' e ''''))
      | (w1, None) \<Rightarrow>
          (case config_for cfg name of
             None \<Rightarrow> (w1, None)
           | Some c \<Rightarrow>
               (case ph_configure ph name (pi_client p) c w1 of
                  (w2, None) \<Rightarrow> (w2, None)
                | (w2, Some e) \<Rightarrow>
                    (fst (ph_stop ph (pi_client p) w2), Some (WrapError ''failed to configure provider: '' e '''')))))"

text \<open>Other unhealthy instances of the name and version leave the active list before the new one is pooled.\<close>

definition drop_stale :: "('c \<Rightarrow> bool) \<Rightarrow> 'c plugin_instance \<Rightarrow> 'c plugin_instance list \<Rightarrow> 'c plugin_instance list" where
  "drop_stale healthy p ps =
     filter (\<lambda>q. \<not> (pi_name q = pi_name p \<and> pi_version q = pi_version p \<and> pi_client q \<noteq> pi_client p \<and>
                    \<not> healthy (pi_client q))) ps"

text \<open>The configuration of a new instance: the one of the call, or that of the source if the call has none.\<close>

definition sourced_config ::
  "('w, 'c) plugin_host \<Rightarrow> string \<Rightarrow> string \<Rightarrow> provider_config option \<Rightarrow> 'w \<Rightarrow> 'w \<times> (goerror + provider_config option)" where
  "sourced_config ph name version cfg w =
     (case (ph_source ph, cfg) of
        (Some source, None) \<Rightarrow>
          (case source name version w of
             (w1, Inl e) \<Rightarrow> (w1, Inl (WrapError ''failed to get provider config from source: '' e ''''))
           | (w1, Inr c) \<Rightarrow> (w1, Inr (Some c)))
      | _ \<Rightarrow> (w, Inr cfg))"

definition create_provider ::
  "('w, 'c) plugin_host \<Rightarrow> string \<Rightarrow> string \<Rightarrow> string \<Rightarrow> provider_config option \<Rightarrow> ('w, 'c) manager \<Rightarrow>
     ('w, 'c) manager \<times> (goerror + 'c plugin_instance)" where
  "create_provider ph i name version cfg m =
     (case ph_binary ph name version (pm_world m) of
        (w1, Inl e) \<Rightarrow> (m\<lparr>pm_world := w1\<rparr>, Inl (WrapError ''failed to ensure provider binary: '' e ''''))
      | (w1, Inr path) \<Rightarrow>
          (case sourced_config ph name version cfg w1 of
             (w2, Inl e) \<Rightarrow> (m\<lparr>pm_world := w2\<rparr>, Inl e)
           | (w2, Inr cfg') \<Rightarrow>
               (case start_provider ph i name version path cfg' (m\<lparr>pm_world := w2\<rparr>) of
                  (m3, Inl e) \<Rightarrow> (m3, Inl (WrapError ''failed to start provider: '' e ''''))
                | (m3, Inr p) \<Rightarrow>
                    (case create_provider_client ph p name cfg' (pm_world m3) of
                       (w4, Some e) \<Rightarrow> (m3\<lparr>pm_world := w4\<rparr>, Inl e)
                     | (w4, None) \<Rightarrow>
                         (put_pool i (cache_key name version) p
                            (m3\<lparr>pm_world := w4, pm_active := drop_stale (\<lambda>c. ph_healthy ph c w4) p (pm_active m3)\<rparr>),
                          Inr p)))))"

text \<open>The second phase, under the write lock of the pool.\<close>

definition get_locked ::
  "('w, 'c) plugin_host \<Rightarrow> string \<Rightarrow> string \<Rightarrow> string \<Rightarrow> provider_config option \<Rightarrow> ('w, 'c) manager \<Rightarrow>
     ('w, 'c) manager \<times> (goerror + 'c plugin_instance)" where
  "get_locked ph i name version cfg m =
     (case probe ph i name version cfg m of
        (m1, Reuse p) \<Rightarrow> (m1, Inr p)
      | (m1, Dead p) \<Rightarrow> create_provider ph i name version cfg (forget_dead ph i name version m1)
      | (m1, Unconfigured) \<Rightarrow> create_provider ph i name version cfg (unpool i (cache_key name version) m1)
      | (m1, Missing) \<Rightarrow> create_provider ph i name version cfg m1)"

definition get_provider ::
  "('w, 'c) plugin_host \<Rightarrow> string \<Rightarrow> string \<Rightarrow> string \<Rightarrow> provider_config option \<Rightarrow> ('w, 'c) manager \<Rightarrow>
     ('w, 'c) manager \<times> (goerror + 'c plugin_instance)" where
  "get_provider ph i name version cfg m =
     (case create_working_dir ph i (pm_world m) of
        (w1, Some e) \<Rightarrow> (m\<lparr>pm_world := w1\<rparr>, Inl (WrapError ''failed to create deployment working directory: '' e ''''))
      | (w1, None) \<Rightarrow>
          (case get_cached ph i name version cfg (m\<lparr>pm_world := w1\<rparr>) of
             (m2, Some p) \<Rightarrow> (m2, Inr p)
           | (m2, None) \<Rightarrow> get_locked ph i name version cfg m2))"

definition ensure_provider_binary ::
  "('w, 'c) plugin_host \<Rightarrow> string \<Rightarrow> string \<Rightarrow> ('w, 'c) manager \<Rightarrow> ('w, 'c) manager \<times> (goerror + string)" where
  "ensure_provider_binary ph name version m =
     (case ph_binary ph name version (pm_world m) of
        (w1, Inl e) \<Rightarrow> (m\<lparr>pm_world := w1\<rparr>, Inl (WrapError ''failed to ensure provider binary: '' e ''''))
      | (w1, Inr path) \<Rightarrow> (m\<lparr>pm_world := w1\<rparr>, Inr path))"

definition download_provider ::
  "('w, 'c) plugin_host \<Rightarrow> string \<Rightarrow> string \<Rightarrow> ('w, 'c) manager \<Rightarrow> ('w, 'c) manager \<times> goerror option" where
  "download_provider ph name version m =
     (case ensure_provider_binary ph name version m of
        (m1, Inl e) \<Rightarrow> (m1, Some e)
      | (m1, Inr _) \<Rightarrow> (m1, None))"

section \<open>Listing, releasing and stopping\<close>

record provider_listing =
  pl_name :: string
  pl_version :: string
  pl_status :: string

definition list_providers :: "('w, 'c) manager \<Rightarrow> provider_listing list" where
  "list_providers m = map (\<lambda>p. \<lparr>pl_name = pi_name p, pl_version = pi_version p, pl_status = ''running''\<rparr>) (pm_active m)"

text \<open>Stop the instances of some entries, and collect what \<open>report\<close> makes of the errors.\<close>

fun stop_all ::
  "('w, 'c) plugin_host \<Rightarrow> (string \<Rightarrow> goerror \<Rightarrow> goerror) \<Rightarrow> (string \<times> 'c plugin_instance) list \<Rightarrow> 'w \<Rightarrow> 'w \<times> goerror list" where
  "stop_all ph report [] w = (w, [])"
| "stop_all ph report ((key, p) # es) w =
     (case ph_stop ph (pi_client p) w of
        (w1, r) \<Rightarrow>
          (case stop_all ph report es w1 of
             (w2, errs) \<Rightarrow> (w2, (case r of None \<Rightarrow> [] | Some e \<Rightarrow> [report key e]) @ errs)))"

text \<open>The verb \<^verbatim>\<open>%v\<close> of a list of errors.\<close>

fun join_messages :: "goerror list \<Rightarrow> string" where
  "join_messages [] = ''''"
| "join_messages [e] = error_message e"
| "join_messages (e # es) = error_message e @ '' '' @ join_messages es"

definition errors_text :: "goerror list \<Rightarrow> string" where
  "errors_text es = ''['' @ join_messages es @ '']''"

text \<open>
  \<^verbatim>\<open>ReleaseProvider\<close>: the instances of this name in the pool of the deployment are stopped, errors only logged; the
  active list loses every instance of this name, of whatever deployment.
\<close>

definition release_provider :: "('w, 'c) plugin_host \<Rightarrow> string \<Rightarrow> string \<Rightarrow> ('w, 'c) manager \<Rightarrow> ('w, 'c) manager" where
  "release_provider ph i name m =
     (case map_of (pm_pool m) i of
        None \<Rightarrow> m
      | Some es \<Rightarrow>
          (let out = filter (\<lambda>kp. has_prefix (fst kp) (name @ ''@'')) es in
           m\<lparr>pm_world := fst (stop_all ph (\<lambda>_ e. e) out (pm_world m)),
             pm_pool := map_put i (filter (\<lambda>kp. fst kp \<notin> fst ` set out) es) (pm_pool m),
             pm_active := filter (\<lambda>p. pi_name p \<noteq> name) (pm_active m)\<rparr>))"

definition manager_shutdown_deployment ::
  "('w, 'c) plugin_host \<Rightarrow> string \<Rightarrow> ('w, 'c) manager \<Rightarrow> ('w, 'c) manager \<times> goerror option" where
  "manager_shutdown_deployment ph i m =
     (case map_of (pm_pool m) i of
        None \<Rightarrow> (m, None)
      | Some es \<Rightarrow>
          (case stop_all ph (\<lambda>key e. WrapError (''failed to stop provider '' @ key @ '': '') e '''') es (pm_world m) of
             (w1, errs) \<Rightarrow>
               (case cleanup_working_dir ph i w1 of
                  (w2, r) \<Rightarrow>
                    (let errs' = errs @ (case r of
                           None \<Rightarrow> []
                         | Some e \<Rightarrow> [WrapError ''failed to cleanup deployment working directory: '' e '''']) in
                     (m\<lparr>pm_world := w2, pm_pool := map_del i (pm_pool m),
                        pm_active := filter (\<lambda>p. ph_healthy ph (pi_client p) w2) (pm_active m)\<rparr>,
                      if errs' = [] then None
                      else Some (ErrorString (''deployment shutdown errors: '' @ errors_text errs')))))))"

text \<open>The entries of all deployments, and how an error is reported for each.\<close>

fun stop_pool ::
  "('w, 'c) plugin_host \<Rightarrow> (string \<Rightarrow> string \<Rightarrow> goerror \<Rightarrow> goerror) \<Rightarrow> 'c pool \<Rightarrow> 'w \<Rightarrow> 'w \<times> goerror list" where
  "stop_pool ph report [] w = (w, [])"
| "stop_pool ph report ((i, es) # pool) w =
     (case stop_all ph (report i) es w of
        (w1, errs) \<Rightarrow> (case stop_pool ph report pool w1 of (w2, errs') \<Rightarrow> (w2, errs @ errs')))"

text \<open>\<^verbatim>\<open>Close\<close> returns the first error.\<close>

definition close_manager :: "('w, 'c) plugin_host \<Rightarrow> ('w, 'c) manager \<Rightarrow> ('w, 'c) manager \<times> goerror option" where
  "close_manager ph m =
     (case stop_pool ph (\<lambda>i key e. WrapError (''failed to stop provider instance for '' @ key @ '' in deployment '' @ i @ '': '') e '''')
             (pm_pool m) (pm_world m) of
        (w1, errs) \<Rightarrow>
          (m\<lparr>pm_world := w1, pm_pool := [], pm_active := []\<rparr>, case errs of [] \<Rightarrow> None | e # _ \<Rightarrow> Some e))"

definition cleanup_providers :: "('w, 'c) plugin_host \<Rightarrow> ('w, 'c) manager \<Rightarrow> ('w, 'c) manager \<times> goerror option" where
  "cleanup_providers ph m =
     (case stop_pool ph (\<lambda>i key e. WrapError (''failed to stop provider '' @ key @ '' in deployment '' @ i @ '': '') e '''')
             (pm_pool m) (pm_world m) of
        (w1, errs) \<Rightarrow>
          (m\<lparr>pm_world := w1, pm_pool := []\<rparr>,
           if errs = [] then None else Some (ErrorString (''cleanup errors: '' @ errors_text errs))))"

definition clear_provider_cache :: "('w, 'c) manager \<Rightarrow> ('w, 'c) manager" where
  "clear_provider_cache m = m\<lparr>pm_pool := []\<rparr>"

section \<open>What the pool holds\<close>

lemma pooled_Nil [simp]: "pooled [] i k = None"
  by (simp add: pooled_def pool_of_def opt_else_def)

lemma pooled_map_del [simp]: "pooled (map_del j pool) i k = (if i = j then None else pooled pool i k)"
  by (simp add: pooled_def pool_of_def opt_else_def)

lemma pooled_put [simp]:
  "pooled (pm_pool (put_pool j key p m)) i k = (if i = j \<and> k = key then Some p else pooled (pm_pool m) i k)"
  by (simp add: put_pool_def pooled_def pool_of_def opt_else_def)

lemma pooled_unpool [simp]:
  "pooled (pm_pool (unpool j key m)) i k = (if i = j \<and> k = key then None else pooled (pm_pool m) i k)"
  by (simp add: unpool_def pooled_def pool_of_def opt_else_def split: option.split)

lemma manager_fields [simp]:
  "pm_world (put_pool j key p m) = pm_world m" "pm_active (put_pool j key p m) = pm_active m"
  "pm_world (unpool j key m) = pm_world m" "pm_active (unpool j key m) = pm_active m"
  "pm_world (forget_dead ph i name version m) = pm_world m"
  "pm_pool (forget_dead ph i name version m) = pm_pool (unpool i (cache_key name version) m)"
  "pm_world (forget_cached ph i name version p m) = pm_world m"
  "pm_pool (forget_cached ph i name version p m) =
     (if pooled (pm_pool m) i (cache_key name version) = Some p then pm_pool (unpool i (cache_key name version) m) else pm_pool m)"
  by (simp_all add: put_pool_def unpool_def forget_dead_def forget_cached_def drop_dead_def split: option.split)

lemma map_of_filter_keys: "map_of (filter (\<lambda>kp. P (fst kp)) es) k = (if P k then map_of es k else None)"
  by (induction es) auto

text \<open>
  Every instance of the pool is under its own key, was started, and is in one place only; \<open>started\<close> reads the handles
  of the processes started so far.
\<close>

definition pool_wf :: "'c pool \<Rightarrow> bool" where
  "pool_wf pool \<longleftrightarrow> map_wf pool \<and> (\<forall>ie \<in> set pool. map_wf (snd ie))"

lemma pool_wf_entries: "pool_wf pool \<Longrightarrow> (i, es) \<in> set pool \<Longrightarrow> (k, p) \<in> set es \<Longrightarrow> pooled pool i k = Some p"
  by (auto simp: pool_wf_def map_wf_def pooled_def pool_of_def opt_else_def)

lemma pooled_entries:
  "pooled pool i k = Some p \<Longrightarrow> \<exists>es. map_of pool i = Some es \<and> (i, es) \<in> set pool \<and> (k, p) \<in> set es"
  by (auto simp: pooled_def pool_of_def opt_else_def split: option.splits dest: map_of_SomeD)

lemma map_wf_pool_of: "pool_wf pool \<Longrightarrow> map_wf (pool_of pool i)"
  by (fastforce simp: pool_wf_def pool_of_def opt_else_def split: option.split dest: map_of_SomeD)

lemma pool_wf_put: "pool_wf pool \<Longrightarrow> map_wf es \<Longrightarrow> pool_wf (map_put i es pool)"
  using set_map_put [of i es pool] by (fastforce simp: pool_wf_def)

lemma pool_wf_del: "pool_wf pool \<Longrightarrow> pool_wf (map_del i pool)"
  by (auto simp: pool_wf_def map_del_def map_wf_def distinct_map_filter)

definition isolated :: "('w \<Rightarrow> 'c set) \<Rightarrow> ('w, 'c) manager \<Rightarrow> bool" where
  "isolated started m \<longleftrightarrow> pool_wf (pm_pool m) \<and>
     (\<forall>i k p. pooled (pm_pool m) i k = Some p \<longrightarrow> k = cache_key (pi_name p) (pi_version p) \<and> pi_client p \<in> started (pm_world m)) \<and>
     (\<forall>i k p j l q. pooled (pm_pool m) i k = Some p \<and> pooled (pm_pool m) j l = Some q \<and> pi_client p = pi_client q \<longrightarrow>
        i = j \<and> k = l)"

lemma isolatedD:
  "isolated started m \<Longrightarrow> pooled (pm_pool m) i k = Some p \<Longrightarrow> k = cache_key (pi_name p) (pi_version p)"
  "isolated started m \<Longrightarrow> pooled (pm_pool m) i k = Some p \<Longrightarrow> pi_client p \<in> started (pm_world m)"
  "isolated started m \<Longrightarrow> pooled (pm_pool m) i k = Some p \<Longrightarrow> pooled (pm_pool m) j l = Some q \<Longrightarrow>
     pi_client p = pi_client q \<Longrightarrow> i = j \<and> k = l"
  "isolated started m \<Longrightarrow> pool_wf (pm_pool m)"
  unfolding isolated_def by blast+

lemma isolated_fewer:
  assumes "isolated started m" and "\<And>i k p. pooled (pm_pool m') i k = Some p \<Longrightarrow> pooled (pm_pool m) i k = Some p"
    and "started (pm_world m) \<subseteq> started (pm_world m')" and "pool_wf (pm_pool m')"
  shows "isolated started m'"
  using assms unfolding isolated_def by (metis in_mono)

lemma probe_Dead:
  "probe ph i name version cfg m = (m', Dead p) \<Longrightarrow> pooled (pm_pool m') i (cache_key name version) = Some p"
  by (auto simp: probe_def split: option.splits prod.splits)

text \<open>The search looks again at most once: a forgotten instance is not found again.\<close>

lemma get_cached_eq:
  "get_cached ph i name version cfg m =
     (case probe ph i name version cfg m of
        (m1, Reuse p) \<Rightarrow> (m1, Some p)
      | (m1, Dead p) \<Rightarrow> (forget_cached ph i name version p m1, None)
      | (m1, Unconfigured) \<Rightarrow> (m1\<lparr>pm_pool := map_del (cache_key name version) (pm_pool m1)\<rparr>, None)
      | (m1, Missing) \<Rightarrow> (m1, None))"
proof -
  have "get_cached ph i name version cfg (forget_cached ph i name version p m1) = (forget_cached ph i name version p m1, None)"
    if "pooled (pm_pool m1) i (cache_key name version) = Some p" for m1 p
    using that by (subst get_cached.simps) (simp add: probe_def)
  then show ?thesis
    using probe_Dead [of ph i name version cfg m] by (subst get_cached.simps) (auto split: prod.split found.split)
qed

lemma probe_Reuse:
  "probe ph i name version cfg m = (m', Reuse p) \<Longrightarrow> pooled (pm_pool m) i (cache_key name version) = Some p"
  by (auto simp: probe_def split: option.splits prod.splits)

lemma probe_Missing:
  "probe ph i name version cfg m = (m', Missing) \<Longrightarrow> pooled (pm_pool m) i (cache_key name version) = None"
  by (auto simp: probe_def split: option.splits prod.splits)

text \<open>
  The operations as steps. Looking at a cached instance, forgetting it, and the deletion of the first phase are
  steps of their own, since the first phase holds no lock between them: the instance \<open>p\<close> that is forgotten need not be
  in the pool any more. \<open>other\<close> is what the rest of the world does, among it the death of a process.
\<close>

inductive manager_step ::
  "('w, 'c) plugin_host \<Rightarrow> ('w \<Rightarrow> 'w \<Rightarrow> bool) \<Rightarrow> ('w, 'c) manager \<Rightarrow> ('w, 'c) manager \<Rightarrow> bool"
  for ph :: "('w, 'c) plugin_host" and other :: "'w \<Rightarrow> 'w \<Rightarrow> bool" where
  outside: "other (pm_world m) w' \<Longrightarrow> manager_step ph other m (m\<lparr>pm_world := w'\<rparr>)"
| prepare: "create_working_dir ph i (pm_world m) = (w', r) \<Longrightarrow> manager_step ph other m (m\<lparr>pm_world := w'\<rparr>)"
| look: "probe ph i name version cfg m = (m', f) \<Longrightarrow> manager_step ph other m m'"
| forget: "manager_step ph other m (forget_cached ph i name version p m)"
| misdelete: "manager_step ph other m (m\<lparr>pm_pool := map_del (cache_key name version) (pm_pool m)\<rparr>)"
| locked: "get_locked ph i name version cfg m = (m', s) \<Longrightarrow> manager_step ph other m m'"
| release: "manager_step ph other m (release_provider ph i name m)"
| shutdown: "manager_shutdown_deployment ph i m = (m', r) \<Longrightarrow> manager_step ph other m m'"
| close: "close_manager ph m = (m', r) \<Longrightarrow> manager_step ph other m m'"
| cleanup: "cleanup_providers ph m = (m', r) \<Longrightarrow> manager_step ph other m m'"
| clear: "manager_step ph other m (clear_provider_cache m)"

text \<open>\<^verbatim>\<open>GetProvider\<close> is a sequence of steps.\<close>

lemma get_provider_steps:
  assumes "get_provider ph i name version cfg m = (m', s)"
  shows "(manager_step ph other)\<^sup>*\<^sup>* m m'"
proof -
  obtain w1 r where d: "create_working_dir ph i (pm_world m) = (w1, r)" by (cases "create_working_dir ph i (pm_world m)")
  note start = r_into_rtranclp [of "manager_step ph other", OF prepare [OF d]]
  show ?thesis
  proof (cases r)
    case None
    obtain m2 q where c: "get_cached ph i name version cfg (m\<lparr>pm_world := w1\<rparr>) = (m2, q)"
      by (cases "get_cached ph i name version cfg (m\<lparr>pm_world := w1\<rparr>)")
    obtain m1 f where pr: "probe ph i name version cfg (m\<lparr>pm_world := w1\<rparr>) = (m1, f)"
      by (cases "probe ph i name version cfg (m\<lparr>pm_world := w1\<rparr>)")
    have "(manager_step ph other)\<^sup>*\<^sup>* m1 m2"
      using c pr forget [of ph other m1 i name version] misdelete [of ph other m1 name version]
      by (cases f) (auto simp: get_cached_eq)
    then have to2: "(manager_step ph other)\<^sup>*\<^sup>* m m2"
      using rtranclp.rtrancl_into_rtrancl [OF start, OF look, OF pr] by (rule rtranclp_trans [rotated])
    show ?thesis
    proof (cases q)
      case n: None
      then have "get_locked ph i name version cfg m2 = (m', s)" using assms d None c by (simp add: get_provider_def)
      then show ?thesis by (rule rtranclp.rtrancl_into_rtrancl [OF to2, OF locked])
    qed (use assms d None c to2 in \<open>simp add: get_provider_def\<close>)
  qed (use assms d start in \<open>simp add: get_provider_def\<close>)
qed

text \<open>
  The host keeps account of its processes: a started process has a new handle, a stopped one is stopped, and nothing
  else starts or stops one.
\<close>

locale plugin_processes =
  fixes ph :: "('w, 'c) plugin_host" and started stopped :: "'w \<Rightarrow> 'c set"
  assumes start_fresh: "ph_start ph path n v env w = (w', Inr c) \<Longrightarrow>
      c \<notin> started w \<and> started w' = insert c (started w) \<and> stopped w' = stopped w"
    and start_failed: "ph_start ph path n v env w = (w', Inl e) \<Longrightarrow> started w' = started w \<and> stopped w' = stopped w"
    and stop: "started (fst (ph_stop ph c w)) = started w \<and> stopped (fst (ph_stop ph c w)) = insert c (stopped w)"
    and dirs: "started (fst (ph_make_dirs ph d w)) = started w \<and> stopped (fst (ph_make_dirs ph d w)) = stopped w"
    and remove: "started (fst (ph_remove_dirs ph d w)) = started w \<and> stopped (fst (ph_remove_dirs ph d w)) = stopped w"
    and binary: "started (fst (ph_binary ph n v w)) = started w \<and> stopped (fst (ph_binary ph n v w)) = stopped w"
    and source: "ph_source ph = Some s \<Longrightarrow> started (fst (s n v w)) = started w \<and> stopped (fst (s n v w)) = stopped w"
    and client: "started (fst (ph_client ph c w)) = started w \<and> stopped (fst (ph_client ph c w)) = stopped w"
    and schema: "started (fst (ph_schema ph c w)) = started w \<and> stopped (fst (ph_schema ph c w)) = stopped w"
    and configure: "started (fst (ph_configure ph n c cf w)) = started w \<and> stopped (fst (ph_configure ph n c cf w)) = stopped w"
begin

definition same :: "'w \<Rightarrow> 'w \<Rightarrow> bool" where
  "same w w' \<longleftrightarrow> started w' = started w \<and> stopped w' = stopped w"

lemma same_host:
  "ph_make_dirs ph d w = (w', r) \<Longrightarrow> same w w'" "ph_remove_dirs ph d w = (w', r) \<Longrightarrow> same w w'"
  "ph_binary ph n v w = (w', s) \<Longrightarrow> same w w'" "ph_client ph c w = (w', r) \<Longrightarrow> same w w'"
  "ph_schema ph c w = (w', r) \<Longrightarrow> same w w'" "ph_configure ph n c cf w = (w', r) \<Longrightarrow> same w w'"
  using dirs [of d w] remove [of d w] binary [of n v w] client [of c w] schema [of c w] configure [of n c cf w]
  by (auto simp: same_def)

lemma same_refl [simp]: "same w w"
  by (simp add: same_def)

lemma same_trans: "same w w' \<Longrightarrow> same w' w'' \<Longrightarrow> same w w''"
  by (simp add: same_def)

lemma same_working_dir: "create_working_dir ph i w = (w', r) \<Longrightarrow> same w w'"
  by (auto simp: create_working_dir_def Let_def split: prod.splits option.splits dest!: same_host intro: same_trans)

lemma same_cleanup: "cleanup_working_dir ph i w = (w', r) \<Longrightarrow> same w w'"
  by (auto simp: cleanup_working_dir_def split: prod.splits option.splits dest!: same_host)

lemma same_probe: "probe ph i name version cfg m = (m', r) \<Longrightarrow> same (pm_world m) (pm_world m')"
  by (auto simp: probe_def split: prod.splits option.splits dest!: same_host intro: same_trans)

lemma same_sourced: "sourced_config ph name version cfg w = (w', r) \<Longrightarrow> same w w'"
proof -
  have "same w w1" if "ph_source ph = Some s" "s name version w = (w1, x)" for s w1 x
    using source [OF that(1), of name version w] that(2) by (simp add: same_def)
  then show "sourced_config ph name version cfg w = (w', r) \<Longrightarrow> same w w'"
    by (auto simp: sourced_config_def split: prod.splits option.splits sum.splits)
qed

lemma same_create_client:
  "create_provider_client ph p name cfg w = (w', None) \<Longrightarrow> same w w'"
  by (auto simp: create_provider_client_def split: prod.splits option.splits dest!: same_host intro: same_trans)

lemma failed_create_client:
  "create_provider_client ph p name cfg w = (w', Some e) \<Longrightarrow>
     started w' = started w \<and> stopped w' \<subseteq> insert (pi_client p) (stopped w) \<and> stopped w \<subseteq> stopped w'"
  using stop [of "pi_client p"]
  by (auto simp: create_provider_client_def same_def split: prod.splits option.splits dest!: same_host)

lemma started_provider:
  assumes "start_provider ph i name version path cfg m = (m', Inr p)"
  shows "pi_name p = name" "pi_version p = version" "pm_pool m' = pm_pool m" "pi_client p \<notin> started (pm_world m)"
    "started (pm_world m') = insert (pi_client p) (started (pm_world m))" "stopped (pm_world m') = stopped (pm_world m)"
    "pm_active m' = pm_active m @ [p]"
  using assms by (auto simp: start_provider_def Let_def split: prod.splits sum.splits dest!: start_fresh)

lemma start_provider_failed:
  assumes "start_provider ph i name version path cfg m = (m', Inl e)"
  shows "pm_pool m' = pm_pool m" "same (pm_world m) (pm_world m')"
  using assms by (auto simp: start_provider_def same_def Let_def split: prod.splits sum.splits dest!: start_failed)

text \<open>A new instance is pooled, or there is none and at most a process of this call was stopped.\<close>

lemma created_provider:
  assumes "create_provider ph i name version cfg m = (m', Inr p)"
  shows "pm_pool m' = pm_pool (put_pool i (cache_key name version) p m)" "pi_name p = name" "pi_version p = version"
    "pi_client p \<notin> started (pm_world m)" "started (pm_world m') = insert (pi_client p) (started (pm_world m))"
    "stopped (pm_world m') = stopped (pm_world m)"
proof -
  obtain w1 path w2 cfg' m3 w4 where steps: "ph_binary ph name version (pm_world m) = (w1, Inr path)"
    "sourced_config ph name version cfg w1 = (w2, Inr cfg')"
    "start_provider ph i name version path cfg' (m\<lparr>pm_world := w2\<rparr>) = (m3, Inr p)"
    "create_provider_client ph p name cfg' (pm_world m3) = (w4, None)"
    and m': "m' = put_pool i (cache_key name version) p
        (m3\<lparr>pm_world := w4, pm_active := drop_stale (\<lambda>c. ph_healthy ph c w4) p (pm_active m3)\<rparr>)"
    using assms by (auto simp: create_provider_def split: prod.splits sum.splits option.splits)
  note st = started_provider [OF steps(3)]
  have "same (pm_world m) w2" "same (pm_world m3) w4"
    using same_host(3) [OF steps(1)] same_sourced [OF steps(2)] same_create_client [OF steps(4)] by (auto intro: same_trans)
  then show "pi_client p \<notin> started (pm_world m)" "started (pm_world m') = insert (pi_client p) (started (pm_world m))"
    "stopped (pm_world m') = stopped (pm_world m)"
    using st m' by (simp_all add: same_def)
  show "pi_name p = name" "pi_version p = version" by (rule st)+
  show "pm_pool m' = pm_pool (put_pool i (cache_key name version) p m)" using m' st(3) by (simp add: put_pool_def)
qed

lemma create_provider_failed:
  assumes "create_provider ph i name version cfg m = (m', Inl e)"
  shows "pm_pool m' = pm_pool m" "started (pm_world m) \<subseteq> started (pm_world m')"
    "stopped (pm_world m') \<subseteq> stopped (pm_world m) \<union> (started (pm_world m') - started (pm_world m))"
proof -
  obtain w1 s where b: "ph_binary ph name version (pm_world m) = (w1, s)" by (cases "ph_binary ph name version (pm_world m)")
  note b' = same_host(3) [OF b]
  have "pm_pool m' = pm_pool m \<and> started (pm_world m) \<subseteq> started (pm_world m') \<and>
      stopped (pm_world m') \<subseteq> stopped (pm_world m) \<union> (started (pm_world m') - started (pm_world m))"
  proof (cases s)
    case (Inr path)
    obtain w2 c where c: "sourced_config ph name version cfg w1 = (w2, c)" by (cases "sourced_config ph name version cfg w1")
    note c' = same_sourced [OF c]
    show ?thesis
    proof (cases c)
      case cfg: (Inr cfg')
      obtain m3 q where q: "start_provider ph i name version path cfg' (m\<lparr>pm_world := w2\<rparr>) = (m3, q)"
        by (cases "start_provider ph i name version path cfg' (m\<lparr>pm_world := w2\<rparr>)")
      show ?thesis
      proof (cases q)
        case (Inl e')
        note st = start_provider_failed [OF q [unfolded Inl]]
        have "m' = m3" using assms b \<open>s = Inr path\<close> c cfg q Inl by (simp add: create_provider_def)
        then show ?thesis using st b' c' by (simp add: same_def)
      next
        case p: (Inr p)
        note st = started_provider [OF q [unfolded p]]
        obtain w4 where "create_provider_client ph p name cfg' (pm_world m3) = (w4, Some e)" "m' = m3\<lparr>pm_world := w4\<rparr>"
          using assms b Inr c cfg q p by (auto simp: create_provider_def split: prod.splits option.splits)
        with failed_create_client [OF this(1)] st b' c' show ?thesis by (auto simp: same_def)
      qed
    qed (use assms b Inr c b' c' in \<open>auto simp: create_provider_def same_def\<close>)
  qed (use assms b b' in \<open>auto simp: create_provider_def same_def\<close>)
  then show "pm_pool m' = pm_pool m" "started (pm_world m) \<subseteq> started (pm_world m')"
    "stopped (pm_world m') \<subseteq> stopped (pm_world m) \<union> (started (pm_world m') - started (pm_world m))" by blast+
qed

lemma stopped_all:
  "stop_all ph report es w = (w', errs) \<Longrightarrow>
     started w' = started w \<and> stopped w' = stopped w \<union> (\<lambda>kp. pi_client (snd kp)) ` set es"
proof (induction es arbitrary: w errs)
  case (Cons kp es)
  obtain w1 r where s: "ph_stop ph (pi_client (snd kp)) w = (w1, r)" by (cases "ph_stop ph (pi_client (snd kp)) w")
  obtain errs1 where "stop_all ph report es w1 = (w', errs1)"
    using Cons.prems s by (cases kp) (auto split: prod.splits)
  from Cons.IH [OF this] stop [of "pi_client (snd kp)" w] s show ?case by auto
qed simp

lemma stopped_pool:
  "stop_pool ph report pool w = (w', errs) \<Longrightarrow>
     started w' = started w \<and> stopped w' = stopped w \<union> (\<Union>ie \<in> set pool. (\<lambda>kp. pi_client (snd kp)) ` set (snd ie))"
proof (induction pool arbitrary: w errs)
  case (Cons ie pool)
  obtain w1 e1 where s: "stop_all ph (report (fst ie)) (snd ie) w = (w1, e1)" by (cases "stop_all ph (report (fst ie)) (snd ie) w")
  obtain e2 where "stop_pool ph report pool w1 = (w', e2)"
    using Cons.prems s by (cases ie) (auto split: prod.splits)
  from Cons.IH [OF this] stopped_all [OF s] show ?case by auto
qed simp

lemma found_cached:
  assumes "get_cached ph i name version cfg m = (m', Some p)"
  shows "pm_pool m' = pm_pool m" "pooled (pm_pool m) i (cache_key name version) = Some p" "same (pm_world m) (pm_world m')"
  using assms
  by (auto simp: get_cached_eq split: prod.splits found.splits dest: probe_Reuse probe_pool same_probe)

lemma not_found_cached:
  assumes "get_cached ph i name version cfg m = (m', None)"
  shows "same (pm_world m) (pm_world m')" "pooled (pm_pool m') j k = Some q \<Longrightarrow> pooled (pm_pool m) j k = Some q"
    "j \<noteq> i \<Longrightarrow> j \<noteq> cache_key name version \<Longrightarrow> pooled (pm_pool m') j k = pooled (pm_pool m) j k"
proof -
  obtain m1 r where pr: "probe ph i name version cfg m = (m1, r)" by (cases "probe ph i name version cfg m")
  then show "same (pm_world m) (pm_world m')" "pooled (pm_pool m') j k = Some q \<Longrightarrow> pooled (pm_pool m) j k = Some q"
    "j \<noteq> i \<Longrightarrow> j \<noteq> cache_key name version \<Longrightarrow> pooled (pm_pool m') j k = pooled (pm_pool m) j k"
    using assms probe_pool [OF pr] same_probe [OF pr]
    by (cases r; auto simp: get_cached_eq split: if_splits)+
qed

text \<open>What a new instance is, with respect to the world before and after.\<close>

definition fresh :: "string \<Rightarrow> string \<Rightarrow> 'c plugin_instance \<Rightarrow> 'w \<Rightarrow> 'w \<Rightarrow> bool" where
  "fresh name version p w w' \<longleftrightarrow>
     pi_name p = name \<and> pi_version p = version \<and> pi_client p \<notin> started w \<and>
     started w' = insert (pi_client p) (started w) \<and> stopped w' = stopped w"

lemma fresh_same: "same w w1 \<Longrightarrow> fresh name version p w1 w' \<Longrightarrow> fresh name version p w w'"
  by (simp add: fresh_def same_def)

lemma created_fresh:
  "create_provider ph i name version cfg m = (m', Inr p) \<Longrightarrow> fresh name version p (pm_world m) (pm_world m')"
  using created_provider unfolding fresh_def by metis

lemma got_locked:
  assumes "get_locked ph i name version cfg m = (m', Inr p)"
  shows "pooled (pm_pool m') j k = (if j = i \<and> k = cache_key name version then Some p else pooled (pm_pool m) j k)"
    "pooled (pm_pool m) i (cache_key name version) = Some p \<and> same (pm_world m) (pm_world m') \<or>
     fresh name version p (pm_world m) (pm_world m')"
proof -
  obtain m1 r where pr: "probe ph i name version cfg m = (m1, r)" by (cases "probe ph i name version cfg m")
  note facts = probe_pool [OF pr] same_probe [OF pr]
  have created: "pooled (pm_pool m') j k = (if j = i \<and> k = cache_key name version then Some p else pooled (pm_pool m) j k) \<and>
      fresh name version p (pm_world m) (pm_world m')"
    if "create_provider ph i name version cfg m2 = (m', Inr p)" "pm_world m2 = pm_world m1"
      "\<And>j k. \<not> (j = i \<and> k = cache_key name version) \<Longrightarrow> pooled (pm_pool m2) j k = pooled (pm_pool m) j k" for m2
    using created_provider(1) [OF that(1)] created_fresh [OF that(1)] that(2,3) facts by (auto intro: fresh_same)
  have "pooled (pm_pool m') j k = (if j = i \<and> k = cache_key name version then Some p else pooled (pm_pool m) j k) \<and>
    (pooled (pm_pool m) i (cache_key name version) = Some p \<and> same (pm_world m) (pm_world m') \<or>
     fresh name version p (pm_world m) (pm_world m'))"
  proof (cases r)
    case (Reuse q)
    then show ?thesis using assms pr facts probe_Reuse [OF pr [unfolded Reuse]] by (auto simp: get_locked_def)
  next
    case (Dead q)
    then have "create_provider ph i name version cfg (forget_dead ph i name version m1) = (m', Inr p)"
      using assms pr by (simp add: get_locked_def)
    then have "pooled (pm_pool m') j k = (if j = i \<and> k = cache_key name version then Some p else pooled (pm_pool m) j k) \<and>
        fresh name version p (pm_world m) (pm_world m')"
      by (rule created) (use facts in auto)
    then show ?thesis by blast
  next
    case Unconfigured
    then have "create_provider ph i name version cfg (unpool i (cache_key name version) m1) = (m', Inr p)"
      using assms pr by (simp add: get_locked_def)
    then have "pooled (pm_pool m') j k = (if j = i \<and> k = cache_key name version then Some p else pooled (pm_pool m) j k) \<and>
        fresh name version p (pm_world m) (pm_world m')"
      by (rule created) (use facts in auto)
    then show ?thesis by blast
  next
    case Missing
    then have "create_provider ph i name version cfg m1 = (m', Inr p)"
      using assms pr by (simp add: get_locked_def)
    then have "pooled (pm_pool m') j k = (if j = i \<and> k = cache_key name version then Some p else pooled (pm_pool m) j k) \<and>
        fresh name version p (pm_world m) (pm_world m')"
      by (rule created) (use facts in auto)
    then show ?thesis by blast
  qed
  then show "pooled (pm_pool m') j k = (if j = i \<and> k = cache_key name version then Some p else pooled (pm_pool m) j k)"
    "pooled (pm_pool m) i (cache_key name version) = Some p \<and> same (pm_world m) (pm_world m') \<or>
     fresh name version p (pm_world m) (pm_world m')" by blast+
qed

lemma not_got_locked:
  assumes "get_locked ph i name version cfg m = (m', Inl e)"
  shows "pooled (pm_pool m') j k = (if j = i \<and> k = cache_key name version then None else pooled (pm_pool m) j k)"
    "started (pm_world m) \<subseteq> started (pm_world m')"
    "stopped (pm_world m') \<subseteq> stopped (pm_world m) \<union> (started (pm_world m') - started (pm_world m))"
proof -
  obtain m1 r where pr: "probe ph i name version cfg m = (m1, r)" by (cases "probe ph i name version cfg m")
  note facts = probe_pool [OF pr] same_probe [OF pr]
  obtain m2 where m2: "create_provider ph i name version cfg m2 = (m', Inl e)" "pm_world m2 = pm_world m1"
    "\<And>j k. pooled (pm_pool m2) j k = (if j = i \<and> k = cache_key name version then None else pooled (pm_pool m) j k)"
  proof (cases r)
    case Missing
    then show thesis using assms pr facts probe_Missing [OF pr [unfolded Missing]] by (intro that [of m1]) (auto simp: get_locked_def)
  next
    case (Dead q)
    then show thesis using assms pr facts
      by (intro that [of "forget_dead ph i name version m1"]) (auto simp: get_locked_def)
  next
    case Unconfigured
    then show thesis using assms pr facts
      by (intro that [of "unpool i (cache_key name version) m1"]) (auto simp: get_locked_def)
  qed (use assms pr in \<open>auto simp: get_locked_def\<close>)
  then show "pooled (pm_pool m') j k = (if j = i \<and> k = cache_key name version then None else pooled (pm_pool m) j k)"
    "started (pm_world m) \<subseteq> started (pm_world m')"
    "stopped (pm_world m') \<subseteq> stopped (pm_world m) \<union> (started (pm_world m') - started (pm_world m))"
    using create_provider_failed [OF m2(1)] facts by (auto simp: same_def)
qed

lemma pool_wf_ops:
  "pool_wf (pm_pool m) \<Longrightarrow> pool_wf (pm_pool (put_pool i key p m))"
  "pool_wf (pm_pool m) \<Longrightarrow> pool_wf (pm_pool (unpool i key m))"
  using map_wf_pool_of [of "pm_pool m" i]
  by (auto simp: put_pool_def unpool_def pool_of_def opt_else_def map_wf_def [of "[_]"] split: option.splits
      intro!: pool_wf_put map_wf_put map_wf_del)

lemma isolated_put:
  assumes "isolated started m" and "fresh name version p (pm_world m) (pm_world m')"
    and "\<And>j k. pooled (pm_pool m') j k = (if j = i \<and> k = cache_key name version then Some p else pooled (pm_pool m) j k)"
    and "pool_wf (pm_pool m')"
  shows "isolated started m'"
proof -
  have old: "pi_client q \<noteq> pi_client p" if "pooled (pm_pool m) j k = Some q" for j k q
    using isolatedD(2) [OF assms(1) that] assms(2) unfolding fresh_def by metis
  note one = isolatedD(3) [OF assms(1)]
  have "k = cache_key (pi_name q) (pi_version q) \<and> pi_client q \<in> started (pm_world m')"
    if "pooled (pm_pool m') j k = Some q" for j k q
    using that assms(2) isolatedD(1,2) [OF assms(1), of j k q] by (auto simp: assms(3) fresh_def split: if_splits)
  moreover have "j = j' \<and> k = k'"
    if "pooled (pm_pool m') j k = Some q" "pooled (pm_pool m') j' k' = Some q'" "pi_client q = pi_client q'" for j k q j' k' q'
    using that old one old [symmetric] by (auto simp: assms(3) split: if_splits)
  ultimately show ?thesis using assms(4) unfolding isolated_def by blast
qed

lemma create_pool_wf:
  "create_provider ph i name version cfg m = (m', s) \<Longrightarrow> pool_wf (pm_pool m) \<Longrightarrow> pool_wf (pm_pool m')"
  using created_provider(1) [of i name version cfg m m'] create_provider_failed(1) [of i name version cfg m m']
    pool_wf_ops(1) [of m i "cache_key name version"]
  by (cases s) auto

lemma locked_pool_wf:
  assumes "get_locked ph i name version cfg m = (m', s)" and "pool_wf (pm_pool m)"
  shows "pool_wf (pm_pool m')"
proof -
  obtain m1 r where pr: "probe ph i name version cfg m = (m1, r)" by (cases "probe ph i name version cfg m")
  then have "pool_wf (pm_pool m1)" using probe_pool [OF pr] assms(2) by simp
  then show ?thesis
    using assms(1) pr create_pool_wf [of i name version cfg _ m' s] pool_wf_ops(2) [of m1]
    by (cases r) (auto simp: get_locked_def)
qed

lemma locked_isolated:
  assumes "isolated started m" and "get_locked ph i name version cfg m = (m', s)"
  shows "isolated started m'"
proof -
  have wf: "pool_wf (pm_pool m')" using locked_pool_wf [OF assms(2)] assms(1) by (simp add: isolated_def)
  show ?thesis
  proof (cases s)
    case (Inl e)
    show ?thesis
      by (rule isolated_fewer [OF assms(1)])
         (use not_got_locked [OF assms(2) [unfolded Inl]] wf in \<open>auto split: if_splits\<close>)
  next
    case (Inr p)
    note got = got_locked [OF assms(2) [unfolded Inr]]
    show ?thesis
      using got(2)
    proof
      assume "pooled (pm_pool m) i (cache_key name version) = Some p \<and> same (pm_world m) (pm_world m')"
      then show ?thesis
        by (intro isolated_fewer [OF assms(1)]) (auto simp: got(1) same_def wf split: if_splits)
    next
      assume "fresh name version p (pm_world m) (pm_world m')"
      then show ?thesis by (rule isolated_put [OF assms(1)]) (auto simp: got(1) wf)
    qed
  qed
qed

lemma release_pooled:
  "pooled (pm_pool (release_provider ph i name m)) j k =
     (if j = i \<and> has_prefix k (name @ ''@'') then None else pooled (pm_pool m) j k)"
proof (cases "map_of (pm_pool m) i")
  case None
  then show ?thesis by (simp add: release_provider_def pooled_def pool_of_def opt_else_def)
next
  case (Some es)
  let ?out = "filter (\<lambda>kp. has_prefix (fst kp) (name @ ''@'')) es"
  have "map_of (filter (\<lambda>kp. fst kp \<notin> fst ` set ?out) es) k = (if has_prefix k (name @ ''@'') then None else map_of es k)"
    by (subst map_of_filter_keys) (force simp: map_of_eq_None_iff)
  then show ?thesis using Some by (simp add: release_provider_def Let_def pooled_def pool_of_def opt_else_def)
qed

lemma release_fields:
  assumes "pool_wf (pm_pool m)"
  shows "started (pm_world (release_provider ph i name m)) = started (pm_world m)"
    "pool_wf (pm_pool (release_provider ph i name m))"
proof -
  have "started (pm_world (release_provider ph i name m)) = started (pm_world m) \<and> pool_wf (pm_pool (release_provider ph i name m))"
  proof (cases "map_of (pm_pool m) i")
    case (Some es)
    let ?out = "filter (\<lambda>kp. has_prefix (fst kp) (name @ ''@'')) es"
    have "map_wf es" using map_wf_pool_of [OF assms, of i] Some by (simp add: pool_of_def opt_else_def)
    then have "map_wf (filter (\<lambda>kp. fst kp \<notin> fst ` set ?out) es)" by (auto simp: map_wf_def distinct_map_filter)
    moreover obtain w' errs where "stop_all ph (\<lambda>_ e. e) ?out (pm_world m) = (w', errs)"
      by (cases "stop_all ph (\<lambda>_ e. e) ?out (pm_world m)")
    ultimately show ?thesis using Some assms stopped_all by (auto simp: release_provider_def Let_def intro: pool_wf_put)
  qed (use assms in \<open>simp add: release_provider_def\<close>)
  then show "started (pm_world (release_provider ph i name m)) = started (pm_world m)"
    "pool_wf (pm_pool (release_provider ph i name m))" by blast+
qed

text \<open>Shutting a deployment down stops its instances and no other.\<close>

lemma shutdown_effect:
  assumes "manager_shutdown_deployment ph i m = (m', r)" and "pool_wf (pm_pool m)"
  shows "pooled (pm_pool m') j k = (if j = i then None else pooled (pm_pool m) j k)" "pool_wf (pm_pool m')"
    "started (pm_world m') = started (pm_world m)"
    "stopped (pm_world m') = stopped (pm_world m) \<union> {pi_client p |p k. pooled (pm_pool m) i k = Some p}"
proof -
  have "pooled (pm_pool m') j k = (if j = i then None else pooled (pm_pool m) j k) \<and> pool_wf (pm_pool m') \<and>
    started (pm_world m') = started (pm_world m) \<and>
    stopped (pm_world m') = stopped (pm_world m) \<union> {pi_client p |p k. pooled (pm_pool m) i k = Some p}"
  proof (cases "map_of (pm_pool m) i")
    case None
    then have "pooled (pm_pool m) i k = None" for k by (simp add: pooled_def pool_of_def opt_else_def)
    then show ?thesis using assms None by (simp add: manager_shutdown_deployment_def)
  next
    case (Some es)
    let ?report = "\<lambda>key e. WrapError (''failed to stop provider '' @ key @ '': '') e ''''"
    obtain w1 errs where st: "stop_all ph ?report es (pm_world m) = (w1, errs)" by (cases "stop_all ph ?report es (pm_world m)")
    obtain w2 q where cl: "cleanup_working_dir ph i w1 = (w2, q)" by (cases "cleanup_working_dir ph i w1")
    have m': "pm_pool m' = map_del i (pm_pool m)" "pm_world m' = w2"
      using assms(1) Some st cl by (auto simp: manager_shutdown_deployment_def Let_def)
    have "map_wf es" "pool_of (pm_pool m) i = es"
      using map_wf_pool_of [OF assms(2), of i] Some by (simp_all add: pool_of_def opt_else_def)
    then have "(\<lambda>kp. pi_client (snd kp)) ` set es = {pi_client p |p k. pooled (pm_pool m) i k = Some p}"
      by (force simp: pooled_def map_wf_def)
    then show ?thesis using m' stopped_all [OF st] same_cleanup [OF cl] pool_wf_del [OF assms(2)] by (simp add: same_def)
  qed
  then show "pooled (pm_pool m') j k = (if j = i then None else pooled (pm_pool m) j k)" "pool_wf (pm_pool m')"
    "started (pm_world m') = started (pm_world m)"
    "stopped (pm_world m') = stopped (pm_world m) \<union> {pi_client p |p k. pooled (pm_pool m) i k = Some p}" by blast+
qed

lemma pool_clients:
  "pool_wf pool \<Longrightarrow> (\<Union>ie \<in> set pool. (\<lambda>kp. pi_client (snd kp)) ` set (snd ie)) = {pi_client p |p i k. pooled pool i k = Some p}"
proof (intro equalityI subsetI)
  fix c
  assume "pool_wf pool" and "c \<in> (\<Union>ie \<in> set pool. (\<lambda>kp. pi_client (snd kp)) ` set (snd ie))"
  then obtain i es k p where "(i, es) \<in> set pool" "(k, p) \<in> set es" "c = pi_client p" by auto
  with pool_wf_entries [OF \<open>pool_wf pool\<close> this(1,2)] show "c \<in> {pi_client p |p i k. pooled pool i k = Some p}" by blast
next
  fix c
  assume "c \<in> {pi_client p |p i k. pooled pool i k = Some p}"
  then obtain p i k where "pooled pool i k = Some p" "c = pi_client p" by blast
  with pooled_entries [OF this(1)] show "c \<in> (\<Union>ie \<in> set pool. (\<lambda>kp. pi_client (snd kp)) ` set (snd ie))"
    by force
qed

lemma close_effect:
  assumes "close_manager ph m = (m', r)" and "pool_wf (pm_pool m)"
  shows "pm_pool m' = []" "pm_active m' = []" "started (pm_world m') = started (pm_world m)"
    "stopped (pm_world m') = stopped (pm_world m) \<union> {pi_client p |p i k. pooled (pm_pool m) i k = Some p}"
  using assms by (auto simp: close_manager_def pool_clients split: prod.splits dest!: stopped_pool)

lemma cleanup_effect:
  assumes "cleanup_providers ph m = (m', r)"
  shows "pm_pool m' = []" "started (pm_world m') = started (pm_world m)"
  using assms by (auto simp: cleanup_providers_def split: prod.splits dest!: stopped_pool)

lemma isolated_step:
  assumes "manager_step ph other m m'" and "isolated started m" and "\<And>w w'. other w w' \<Longrightarrow> started w \<subseteq> started w'"
  shows "isolated started m'"
  using assms
proof cases
  case (locked i name version cfg s)
  then show ?thesis using locked_isolated assms(2) by blast
next
  case (look i name version cfg f)
  show ?thesis
    by (rule isolated_fewer [OF assms(2)])
       (use probe_pool [OF look] same_probe [OF look] assms(2) in \<open>auto simp: same_def isolated_def\<close>)
next
  case (prepare i w' r)
  show ?thesis
    by (rule isolated_fewer [OF assms(2)]) (use prepare same_working_dir [OF prepare(2)] assms(2) in \<open>auto simp: same_def isolated_def\<close>)
next
  case (shutdown i r)
  have wf: "pool_wf (pm_pool m)" using assms(2) by (simp add: isolated_def)
  show ?thesis
    by (rule isolated_fewer [OF assms(2)]) (use shutdown_effect [OF shutdown wf] in \<open>auto split: if_splits\<close>)
next
  case (close r)
  have wf: "pool_wf (pm_pool m)" using assms(2) by (simp add: isolated_def)
  show ?thesis
    by (rule isolated_fewer [OF assms(2)]) (use close_effect [OF close wf] in \<open>auto simp: pool_wf_def\<close>)
next
  case (cleanup r)
  show ?thesis
    by (rule isolated_fewer [OF assms(2)]) (use cleanup_effect [OF cleanup] in \<open>auto simp: pool_wf_def\<close>)
next
  case (release i name)
  have wf: "pool_wf (pm_pool m)" using assms(2) by (simp add: isolated_def)
  show ?thesis unfolding release
    by (rule isolated_fewer [OF assms(2)]) (use release_fields [OF wf] in \<open>auto simp: release_pooled split: if_splits\<close>)
next
  case (forget i name version q)
  show ?thesis unfolding forget
    by (rule isolated_fewer [OF assms(2)]) (use assms(2) in \<open>auto simp: isolated_def intro: pool_wf_ops split: if_splits\<close>)
next
  case (misdelete name version)
  show ?thesis unfolding misdelete
    by (rule isolated_fewer [OF assms(2)]) (use assms(2) in \<open>auto simp: isolated_def intro: pool_wf_del split: if_splits\<close>)
next
  case (outside w')
  show ?thesis unfolding outside(1)
    by (rule isolated_fewer [OF assms(2)]) (use assms(3) [OF outside(2)] isolatedD(4) [OF assms(2)] in auto)
next
  case clear
  show ?thesis unfolding clear
    by (rule isolated_fewer [OF assms(2)]) (auto simp: clear_provider_cache_def pool_wf_def)
qed

text \<open>What a step does to the pool: it removes instances and adds new processes, and never moves one.\<close>

lemma step_effect:
  assumes "manager_step ph other m m'" and "isolated started m" and "\<And>w w'. other w w' \<Longrightarrow> started w \<subseteq> started w'"
  shows "started (pm_world m) \<subseteq> started (pm_world m') \<and>
    (pooled (pm_pool m') j k = Some q \<longrightarrow> pooled (pm_pool m) j k = Some q \<or> pi_client q \<notin> started (pm_world m))"
  using assms(1)
proof cases
  case (locked i name version cfg s)
  show ?thesis
  proof (cases s)
    case (Inl e)
    then show ?thesis using not_got_locked [OF locked [unfolded Inl]] by (auto split: if_splits)
  next
    case (Inr p)
    then show ?thesis using got_locked [OF locked [unfolded Inr]] by (auto simp: same_def fresh_def split: if_splits)
  qed
next
  case (look i name version cfg f)
  then show ?thesis using probe_pool [OF look] same_probe [OF look] by (simp add: same_def)
next
  case (prepare i w' r)
  then show ?thesis using same_working_dir [OF prepare(2)] by (simp add: same_def)
next
  case (shutdown i r)
  then show ?thesis using shutdown_effect [OF shutdown isolatedD(4) [OF assms(2)]] by simp
next
  case (close r)
  then show ?thesis using close_effect [OF close isolatedD(4) [OF assms(2)]] by simp
next
  case (cleanup r)
  then show ?thesis using cleanup_effect [OF cleanup] by simp
next
  case (release i name)
  then show ?thesis using release_fields(1) [OF isolatedD(4) [OF assms(2)]] by (simp add: release_pooled)
next
  case (outside w')
  then show ?thesis using assms(3) [OF outside(2)] by simp
qed (simp_all add: clear_provider_cache_def)

text \<open>So a process that is pooled for one deployment at most stays so.\<close>

definition kept_for :: "string \<Rightarrow> 'c \<Rightarrow> ('w, 'c) manager \<Rightarrow> bool" where
  "kept_for i c m \<longleftrightarrow>
     isolated started m \<and> c \<in> started (pm_world m) \<and> (\<forall>j k q. pooled (pm_pool m) j k = Some q \<and> pi_client q = c \<longrightarrow> j = i)"

lemma kept_for_steps:
  assumes "(manager_step ph other)\<^sup>*\<^sup>* m m'" and "\<And>w w'. other w w' \<Longrightarrow> started w \<subseteq> started w'" and "kept_for i c m"
  shows "kept_for i c m'"
  using assms(1)
proof (induction rule: rtranclp_induct)
  case (step y z)
  note kept = step.IH [unfolded kept_for_def]
  have iso: "isolated started y" using kept by blast
  note eff = step_effect [OF step.hyps(2) iso assms(2)]
  have "j = i" if "pooled (pm_pool z) j k = Some q" "pi_client q = c" for j k q
    using eff [of j k q] that kept by blast
  then show ?case using isolated_step [OF step.hyps(2) iso assms(2)] kept eff unfolding kept_for_def by blast
qed (rule assms(3))

lemma isolated_reachable:
  assumes "(manager_step ph other)\<^sup>*\<^sup>* (new_manager w) m" and "\<And>w w'. other w w' \<Longrightarrow> started w \<subseteq> started w'"
  shows "isolated started m"
  using assms(1)
proof (induction rule: rtranclp_induct)
  case (step y z)
  then show ?case using isolated_step assms(2) by blast
qed (simp add: isolated_def new_manager_def pool_wf_def)

lemma got_provider:
  assumes "isolated started m" and "get_provider ph i name version cfg m = (m', Inr p)"
  shows "pooled (pm_pool m') i (cache_key name version) = Some p"
    "pooled (pm_pool m) i (cache_key name version) = Some p \<and> same (pm_world m) (pm_world m') \<or>
     fresh name version p (pm_world m) (pm_world m')"
    "pooled (pm_pool m') j k = Some q \<Longrightarrow>
       (j = i \<and> k = cache_key name version \<and> q = p) \<or> (\<not> (j = i \<and> k = cache_key name version) \<and> pooled (pm_pool m) j k = Some q)"
    "j \<noteq> i \<Longrightarrow> j \<noteq> cache_key name version \<Longrightarrow> pooled (pm_pool m') j k = pooled (pm_pool m) j k"
    "isolated started m'"
proof -
  obtain w1 where d: "create_working_dir ph i (pm_world m) = (w1, None)"
    using assms(2) by (auto simp: get_provider_def split: prod.splits option.splits)
  note sd = same_working_dir [OF d]
  obtain m2 f where c: "get_cached ph i name version cfg (m\<lparr>pm_world := w1\<rparr>) = (m2, f)"
    by (cases "get_cached ph i name version cfg (m\<lparr>pm_world := w1\<rparr>)")
  have goal: "pooled (pm_pool m') i (cache_key name version) = Some p \<and>
    (pooled (pm_pool m) i (cache_key name version) = Some p \<and> same (pm_world m) (pm_world m') \<or>
     fresh name version p (pm_world m) (pm_world m')) \<and>
    (pooled (pm_pool m') j k = Some q \<longrightarrow>
       (j = i \<and> k = cache_key name version \<and> q = p) \<or> (\<not> (j = i \<and> k = cache_key name version) \<and> pooled (pm_pool m) j k = Some q)) \<and>
    (j \<noteq> i \<longrightarrow> j \<noteq> cache_key name version \<longrightarrow> pooled (pm_pool m') j k = pooled (pm_pool m) j k)" for j k q
  proof (cases f)
    case (Some p')
    then have "m' = m2" "p' = p" using assms(2) d c by (simp_all add: get_provider_def)
    then show ?thesis using found_cached [OF c [unfolded Some]] sd by (auto intro: same_trans)
  next
    case None
    then have l: "get_locked ph i name version cfg m2 = (m', Inr p)" using assms(2) d c by (simp add: get_provider_def)
    note nf = not_found_cached [OF c [unfolded None]] and gl = got_locked [OF l]
    have "same (pm_world m) (pm_world m2)" using nf(1) sd by (auto intro: same_trans)
    then show ?thesis using gl nf(2) [of i "cache_key name version" p] nf(2) [of j k q] nf(3) [of j k]
      by (auto intro: same_trans fresh_same split: if_splits)
  qed
  show "pooled (pm_pool m') i (cache_key name version) = Some p"
    "pooled (pm_pool m) i (cache_key name version) = Some p \<and> same (pm_world m) (pm_world m') \<or>
     fresh name version p (pm_world m) (pm_world m')"
    "pooled (pm_pool m') j k = Some q \<Longrightarrow>
       (j = i \<and> k = cache_key name version \<and> q = p) \<or> (\<not> (j = i \<and> k = cache_key name version) \<and> pooled (pm_pool m) j k = Some q)"
    "j \<noteq> i \<Longrightarrow> j \<noteq> cache_key name version \<Longrightarrow> pooled (pm_pool m') j k = pooled (pm_pool m) j k"
    using goal [of j k q] goal [of j k p] by blast+
  show "isolated started m'"
    using get_provider_steps [OF assms(2), of "\<lambda>_ _. False"] assms(1)
  proof (induction rule: rtranclp_induct)
    case (step y z)
    then show ?case using isolated_step by blast
  qed
qed

text \<open>An instance once given is one deployment's, so a later call for another deployment gives another process.\<close>

lemma given_kept:
  assumes "isolated started m" and "get_provider ph i name version cfg m = (m', Inr p)"
  shows "kept_for i (pi_client p) m'"
proof -
  note got = got_provider [OF assms]
  show ?thesis
    using got(5) isolatedD(2) [OF got(5) got(1)] isolatedD(3) [OF got(5) got(1)] unfolding kept_for_def by metis
qed

lemma given_elsewhere:
  assumes "kept_for i c m" and "get_provider ph j name version cfg m = (m', Inr q)" and "j \<noteq> i"
  shows "pi_client q \<noteq> c"
proof -
  note kept = assms(1) [unfolded kept_for_def]
  have iso: "isolated started m" using kept by blast
  show ?thesis using got_provider(2) [OF iso assms(2)] kept assms(3) by (auto simp: fresh_def)
qed

end

section \<open>Properties of the pool\<close>

text \<open>A host whose processes are numbered; process 0 refuses a configuration with the key \<^verbatim>\<open>moved\<close>.\<close>

definition tally_host :: "(nat \<times> nat list, nat) plugin_host" where
  "tally_host =
     \<lparr>ph_server = [], ph_tmp = ''/tmp'', ph_format = (\<lambda>_. ''''), ph_make_dirs = \<lambda>d w. (w, None),
      ph_remove_dirs = \<lambda>d w. (w, None), ph_binary = \<lambda>n v w. (w, Inr ''/bin/provider''), ph_source = None,
      ph_start = \<lambda>path n v env w. ((fst w + 1, snd w), Inr (fst w)), ph_client = \<lambda>c w. (w, None),
      ph_schema = \<lambda>c w. (w, None),
      ph_configure = \<lambda>n c cf w.
        (w, if c = 0 \<and> map_of cf ''moved'' \<noteq> None then Some (ErrorString ''refused'') else None),
      ph_stop = \<lambda>c w. ((fst w, c # snd w), None), ph_healthy = \<lambda>c w. c \<notin> set (snd w)\<rparr>"

definition tally_started :: "nat \<times> nat list \<Rightarrow> nat set" where
  "tally_started w = {c. c < fst w}"

definition tally_stopped :: "nat \<times> nat list \<Rightarrow> nat set" where
  "tally_stopped w = set (snd w)"

interpretation tally: plugin_processes tally_host tally_started tally_stopped
  by unfold_locales (auto simp: tally_host_def tally_started_def tally_stopped_def)

text \<open>
  C27: deployments do not share plugin processes. Whatever operations of the manager ran before, in any interleaving
  and whatever else happened to the processes, when \<^verbatim>\<open>GetProvider\<close> gives an instance to a deployment, and after any
  further operations gives one to another deployment, of the same provider and version or not, the two instances are
  different processes, each pooled under its own deployment and key. The two calls are taken as a whole here; the phases
  of all other calls are among the operations before and between them.
\<close>

theorem pool_isolates_deployments:
  assumes "plugin_processes ph started stopped" and "\<And>w w'. other w w' \<Longrightarrow> started w \<subseteq> started w'"
    and "(manager_step ph other)\<^sup>*\<^sup>* (new_manager w) m"
    and "get_provider ph i name version cfg m = (m1, Inr p)"
    and "(manager_step ph other)\<^sup>*\<^sup>* m1 m2"
    and "get_provider ph j name' version' cfg' m2 = (m3, Inr q)" and "i \<noteq> j"
  shows "pi_client p \<noteq> pi_client q \<and> pooled (pm_pool m1) i (cache_key name version) = Some p \<and>
     pooled (pm_pool m3) j (cache_key name' version') = Some q"
proof -
  note kept = plugin_processes.given_kept [OF assms(1) plugin_processes.isolated_reachable [OF assms(1,3,2)] assms(4)]
  have kept': "plugin_processes.kept_for started i (pi_client p) m2"
    by (rule plugin_processes.kept_for_steps [OF assms(1,5,2) kept])
  then have iso: "isolated started m2" by (simp add: plugin_processes.kept_for_def [OF assms(1)])
  show ?thesis
    using plugin_processes.given_elsewhere [OF assms(1) kept' assms(6)] assms(7)
      plugin_processes.got_provider(1) [OF assms(1) plugin_processes.isolated_reachable [OF assms(1,3,2)] assms(4)]
      plugin_processes.got_provider(1) [OF assms(1) iso assms(6)] by simp
qed

lemma tally_get:
  "get_provider tally_host i ''aws'' ''1'' None (new_manager (n, [])) =
     (let p = \<lparr>pi_name = ''aws'', pi_version = ''1'', pi_client = n\<rparr> in
      (\<lparr>pm_pool = [(i, [(''aws@1'', p)])], pm_active = [p], pm_world = (n + 1, [])\<rparr>, Inr p))"
  by (simp add: get_provider_def create_working_dir_def get_cached_eq get_locked_def probe_def new_manager_def
      create_provider_def sourced_config_def start_provider_def create_provider_client_def config_for_def put_pool_def
      pool_of_def opt_else_def drop_stale_def cache_key_def Let_def tally_host_def)

text \<open>The same provider for two deployments, one after the other.\<close>

definition tally_one :: "(nat \<times> nat list, nat) manager" where
  "tally_one =
     (let p = \<lparr>pi_name = ''aws'', pi_version = ''1'', pi_client = 0\<rparr> in
      \<lparr>pm_pool = [(''dep-1'', [(''aws@1'', p)])], pm_active = [p], pm_world = (1, [])\<rparr>)"

lemmas tally_run = get_provider_def create_working_dir_def get_cached_eq get_locked_def probe_def create_provider_def
  sourced_config_def start_provider_def create_provider_client_def config_for_def put_pool_def unpool_def map_del_def
  pooled_def pool_of_def opt_else_def drop_stale_def cache_key_def Let_def tally_host_def

lemma tally_first: "\<exists>p. get_provider tally_host ''dep-1'' ''aws'' ''1'' None (new_manager (0, [])) = (tally_one, Inr p)"
  by (simp add: tally_get Let_def tally_one_def)

theorem pool_isolates_deployments_witness:
  "\<exists>m1 p m3 q. get_provider tally_host ''dep-1'' ''aws'' ''1'' None (new_manager (0, [])) = (m1, Inr p) \<and>
     get_provider tally_host ''dep-2'' ''aws'' ''1'' None m1 = (m3, Inr q) \<and> pi_client p \<noteq> pi_client q \<and>
     pooled (pm_pool m3) ''dep-2'' (cache_key ''aws'' ''1'') = Some q"
proof -
  obtain p where p: "get_provider tally_host ''dep-1'' ''aws'' ''1'' None (new_manager (0, [])) = (tally_one, Inr p)"
    using tally_first by blast
  obtain m3 q where q: "get_provider tally_host ''dep-2'' ''aws'' ''1'' None tally_one = (m3, Inr q)"
    by (simp add: tally_one_def tally_run)
  have "\<And>w w'. False \<Longrightarrow> tally_started w \<subseteq> tally_started w'" by simp
  from pool_isolates_deployments [where other = "\<lambda>_ _. False", OF tally.plugin_processes_axioms this
      rtranclp.rtrancl_refl p rtranclp.rtrancl_refl q] p q show ?thesis by auto
qed

text \<open>
  What \<^verbatim>\<open>GetProvider\<close> gives: the instance is in the pool of the deployment under its name and version, and it is
  either the one that was there or a new process; the pools of the other deployments are as before, but for a
  deployment named like the key of the instance.
\<close>

theorem provider_of_deployment:
  assumes "plugin_processes ph started stopped" and "isolated started m"
    and "get_provider ph i name version cfg m = (m', Inr p)"
  shows "pooled (pm_pool m') i (cache_key name version) = Some p \<and>
     cache_key (pi_name p) (pi_version p) = cache_key name version \<and>
     (pooled (pm_pool m) i (cache_key name version) = Some p \<and> started (pm_world m') = started (pm_world m) \<or>
      pi_client p \<notin> started (pm_world m) \<and> started (pm_world m') = insert (pi_client p) (started (pm_world m))) \<and>
     stopped (pm_world m') = stopped (pm_world m) \<and>
     (\<forall>j k. j \<noteq> i \<and> j \<noteq> cache_key name version \<longrightarrow> pooled (pm_pool m') j k = pooled (pm_pool m) j k)"
proof -
  note got = plugin_processes.got_provider [OF assms]
  show ?thesis
    using got(1,2,4) isolatedD(1) [OF got(5) got(1)]
    by (auto simp: plugin_processes.same_def [OF assms(1)] plugin_processes.fresh_def [OF assms(1)])
qed


lemma isolated_new: "isolated started (new_manager w)"
  by (simp add: isolated_def new_manager_def pool_wf_def)

theorem provider_of_deployment_witness:
  "\<exists>m p. get_provider tally_host ''dep-1'' ''aws'' ''1'' None (new_manager (7, [])) = (m, Inr p) \<and>
     pooled (pm_pool m) ''dep-1'' (cache_key ''aws'' ''1'') = Some p \<and> tally_started (pm_world m) = insert 7 {c. c < 7}"
proof -
  obtain m where g: "get_provider tally_host ''dep-1'' ''aws'' ''1'' None (new_manager (7, [])) =
      (m, Inr \<lparr>pi_name = ''aws'', pi_version = ''1'', pi_client = 7\<rparr>)"
    by (simp add: tally_get Let_def)
  from provider_of_deployment [OF tally.plugin_processes_axioms isolated_new g] g show ?thesis
    by (auto simp: tally_started_def new_manager_def)
qed

text \<open>
  C33: whatever operations of the manager ran before, in any interleaving, shutting a deployment down empties its pool and
  stops exactly its processes: those of the other deployments stay pooled and, if they were running, keep running.
\<close>

theorem shutdown_stops_deployment:
  assumes "plugin_processes ph started stopped" and "\<And>w w'. other w w' \<Longrightarrow> started w \<subseteq> started w'"
    and "(manager_step ph other)\<^sup>*\<^sup>* (new_manager w) m" and "manager_shutdown_deployment ph i m = (m', r)"
  shows "(\<forall>k. pooled (pm_pool m') i k = None) \<and>
     (\<forall>k p. pooled (pm_pool m) i k = Some p \<longrightarrow> pi_client p \<in> stopped (pm_world m')) \<and>
     (\<forall>j k q. j \<noteq> i \<and> pooled (pm_pool m) j k = Some q \<longrightarrow> pooled (pm_pool m') j k = Some q \<and>
        (pi_client q \<in> stopped (pm_world m') \<longleftrightarrow> pi_client q \<in> stopped (pm_world m)))"
proof -
  have iso: "isolated started m" by (rule plugin_processes.isolated_reachable [OF assms(1,3,2)])
  note sh = plugin_processes.shutdown_effect [OF assms(1,4) isolatedD(4) [OF iso]]
  have "pi_client q \<in> stopped (pm_world m') \<longleftrightarrow> pi_client q \<in> stopped (pm_world m)"
    if "j \<noteq> i" "pooled (pm_pool m) j k = Some q" for j k q
  proof -
    have "pi_client q \<noteq> pi_client p" if "pooled (pm_pool m) i k' = Some p" for p k'
      using isolatedD(3) [OF iso \<open>pooled (pm_pool m) j k = Some q\<close> that] \<open>j \<noteq> i\<close> by blast
    then show ?thesis unfolding sh(4) by blast
  qed
  moreover have "pi_client p \<in> stopped (pm_world m')" if "pooled (pm_pool m) i k = Some p" for k p
    using that unfolding sh(4) by blast
  ultimately show ?thesis using sh(1) by simp metis
qed

lemma tally_one_facts:
  "isolated tally_started tally_one"
  "pooled (pm_pool tally_one) ''dep-1'' ''aws@1'' = Some \<lparr>pi_name = ''aws'', pi_version = ''1'', pi_client = 0\<rparr>"
  using tally.got_provider(5) [OF isolated_new tally_get [unfolded Let_def], of "''dep-1''" 0]
  by (simp_all add: tally_one_def Let_def pooled_def pool_of_def opt_else_def)

lemma tally_world:
  "\<exists>m p q. (manager_step tally_host (\<lambda>_ _. False))\<^sup>*\<^sup>* (new_manager (0, [])) m \<and>
    pooled (pm_pool m) ''dep-1'' ''aws@1'' = Some p \<and>
    pooled (pm_pool m) ''dep-2'' ''aws@1'' = Some q \<and> pi_client p = 0 \<and> pi_client q = 1 \<and> pm_world m = (2, []) \<and>
    pm_active m = [p, q]"
proof -
  obtain m q where g: "get_provider tally_host ''dep-2'' ''aws'' ''1'' None tally_one = (m, Inr q)"
    and p: "pooled (pm_pool m) ''dep-1'' ''aws@1'' = Some \<lparr>pi_name = ''aws'', pi_version = ''1'', pi_client = 0\<rparr>"
    and q: "pooled (pm_pool m) ''dep-2'' ''aws@1'' = Some q" "q = \<lparr>pi_name = ''aws'', pi_version = ''1'', pi_client = 1\<rparr>"
    and rest: "pm_world m = (2, [])"
      "pm_active m = [\<lparr>pi_name = ''aws'', pi_version = ''1'', pi_client = 0\<rparr>, q]"
    by (simp add: tally_one_def tally_run)
  have "(manager_step tally_host (\<lambda>_ _. False))\<^sup>*\<^sup>* (new_manager (0, [])) tally_one"
    using tally_first get_provider_steps by blast
  also have "(manager_step tally_host (\<lambda>_ _. False))\<^sup>*\<^sup>* tally_one m" by (rule get_provider_steps [OF g])
  finally show ?thesis using p q rest by auto
qed

theorem shutdown_stops_deployment_witness:
  "\<exists>m m' r p q. pooled (pm_pool m) ''dep-1'' ''aws@1'' = Some p \<and> pooled (pm_pool m) ''dep-2'' ''aws@1'' = Some q \<and>
     manager_shutdown_deployment tally_host ''dep-1'' m = (m', r) \<and>
     pi_client p \<in> set (snd (pm_world m')) \<and> pooled (pm_pool m') ''dep-2'' ''aws@1'' = Some q \<and>
     pi_client q \<notin> set (snd (pm_world m'))"
proof -
  obtain m p q where w: "(manager_step tally_host (\<lambda>_ _. False))\<^sup>*\<^sup>* (new_manager (0, [])) m" "pooled (pm_pool m) ''dep-1'' ''aws@1'' = Some p"
    "pooled (pm_pool m) ''dep-2'' ''aws@1'' = Some q" "pm_world m = (2, [])"
    using tally_world by blast
  obtain m' r where s: "manager_shutdown_deployment tally_host ''dep-1'' m = (m', r)"
    by (cases "manager_shutdown_deployment tally_host ''dep-1'' m")
  have mono: "\<And>w w'. False \<Longrightarrow> tally_started w \<subseteq> tally_started w'" by simp
  note sh = shutdown_stops_deployment [OF tally.plugin_processes_axioms mono w(1) s]
  have "pi_client p \<in> set (snd (pm_world m'))" "pooled (pm_pool m') ''dep-2'' ''aws@1'' = Some q"
    "pi_client q \<notin> set (snd (pm_world m'))"
  proof -
    have "''dep-2'' \<noteq> (''dep-1'' :: string)" by simp
    then show "pi_client p \<in> set (snd (pm_world m'))" "pooled (pm_pool m') ''dep-2'' ''aws@1'' = Some q"
      "pi_client q \<notin> set (snd (pm_world m'))"
      using sh w(2-4) unfolding tally_stopped_def by (metis empty_iff list.set(1) snd_conv)+
  qed
  then show ?thesis using w(2,3) s by blast
qed

text \<open>
  An instance that is replaced runs on: if \<^verbatim>\<open>GetProvider\<close> gives another process than the one in the pool,
  because that one did not answer or refused the configuration, the old process is not in the pool any more, this call
  does not stop it, and closing the manager afterwards does not either.
\<close>

theorem replaced_instance_runs_on:
  assumes "plugin_processes ph started stopped" and "isolated started m"
    and "pooled (pm_pool m) i (cache_key name version) = Some p" and "pi_client p \<notin> stopped (pm_world m)"
    and "get_provider ph i name version cfg m = (m', Inr q)" and "pi_client q \<noteq> pi_client p"
    and "close_manager ph m' = (m'', r)"
  shows "(\<forall>j k. \<forall>p'. pooled (pm_pool m') j k = Some p' \<longrightarrow> pi_client p' \<noteq> pi_client p) \<and>
     pi_client p \<notin> stopped (pm_world m') \<and> pi_client p \<notin> stopped (pm_world m'')"
proof -
  note got = plugin_processes.got_provider [OF assms(1,2,5)]
  have gone: "pi_client p' \<noteq> pi_client p" if "pooled (pm_pool m') j k = Some p'" for j k p'
    using got(3) [OF that] isolatedD(3) [OF assms(2) _ assms(3)] assms(6) by blast
  have "stopped (pm_world m') = stopped (pm_world m)"
    using got(2) by (auto simp: plugin_processes.same_def [OF assms(1)] plugin_processes.fresh_def [OF assms(1)])
  moreover have "pi_client p \<notin> {pi_client p' |p' j k. pooled (pm_pool m') j k = Some p'}" using gone by force
  ultimately show ?thesis
    using gone assms(4) plugin_processes.close_effect(4) [OF assms(1,7) isolatedD(4) [OF got(5)]] by simp
qed

theorem replaced_instance_runs_on_witness:
  "\<exists>m p m' q m'' r. pooled (pm_pool m) ''dep-1'' ''aws@1'' = Some p \<and>
     get_provider tally_host ''dep-1'' ''aws'' ''1'' (Some [(''aws'', [(''moved'', GBool True)])]) m = (m', Inr q) \<and>
     close_manager tally_host m' = (m'', r) \<and> ph_healthy tally_host (pi_client p) (pm_world m'')"
proof -
  have m: "pooled (pm_pool tally_one) ''dep-1'' (cache_key ''aws'' ''1'') =
      Some \<lparr>pi_name = ''aws'', pi_version = ''1'', pi_client = 0\<rparr>"
    using tally_one_facts(2) by (simp add: cache_key_def)
  obtain m' where g: "get_provider tally_host ''dep-1'' ''aws'' ''1'' (Some [(''aws'', [(''moved'', GBool True)])]) tally_one =
      (m', Inr \<lparr>pi_name = ''aws'', pi_version = ''1'', pi_client = 1\<rparr>)"
    by (simp add: tally_one_def tally_run)
  obtain m'' r where c: "close_manager tally_host m' = (m'', r)" by (cases "close_manager tally_host m'")
  have "0 \<notin> tally_stopped (pm_world m'')"
    using replaced_instance_runs_on [OF tally.plugin_processes_axioms tally_one_facts(1) m _ g _ c]
    by (simp add: tally_one_def tally_stopped_def Let_def)
  then show ?thesis using tally_one_facts(2) g c
    by (intro exI conjI) (assumption, assumption, assumption, simp add: tally_host_def tally_stopped_def)
qed

end
