(* ===== verification/Dynamic_Values.thy ===== *)
theory Dynamic_Values
  imports Lattiam_Types
begin

text \<open>
  The values the program exchanges with provider plugins, \<^verbatim>\<open>pkg/provider/protocol/dynamic_value_helpers.go\<close>
  and \<^verbatim>\<open>dynamic_schema_converter_unified.go\<close>: how dynamic data becomes a value of a schema's type and
  how a value becomes data again, and how the configuration of a provider is completed.

  Types and values belong to the packages \<^verbatim>\<open>tftypes\<close> and \<^verbatim>\<open>tfprotov6\<close>, which are outside the source:
  \<open>value_ops\<close> holds the functions the program calls, on values \<open>'v\<close> and messages \<open>'d\<close>. \<open>vo_view\<close> is what
  \<^verbatim>\<open>IsNull\<close>, \<^verbatim>\<open>IsKnown\<close>, \<^verbatim>\<open>Type\<close> and \<^verbatim>\<open>As\<close> report of a value and of the values inside it. The locale
  \<open>value_library\<close> states what the documentation of the package promises of them.
  \<^verbatim>\<open>tftypes.NewValue\<close> panics on content that is not of the type, which no law is about.
\<close>

section \<open>Types, values and messages\<close>

datatype tf_type =
    TfString
  | TfNumber
  | TfBool
  | TfDynamic
  | TfList tf_type
  | TfSet tf_type
  | TfMap tf_type
  | TfTuple "tf_type list"
  | TfObject "(string \<times> tf_type) list"

text \<open>The second argument of \<^verbatim>\<open>tftypes.NewValue\<close>.\<close>

datatype 'v tf_content =
    NullContent
  | PlainContent gval
  | NamedContent "(string \<times> 'v) list"
  | ListContent "'v list"

text \<open>A number is read as an int64, else as a float64, else as a \<^verbatim>\<open>big.Float\<close>: its int64 if it is integral, and its float64.\<close>

datatype tf_view =
    ViewNull
  | ViewObject "goerror + (string \<times> tf_view) list"
  | ViewMap "goerror + (string \<times> tf_view) list"
  | ViewList "goerror + tf_view list"
  | ViewSet "goerror + tf_view list"
  | ViewString "goerror + string"
  | ViewNumber "goerror + int" "goerror + 64 word" "goerror + int option \<times> 64 word"
  | ViewBool "goerror + bool"
  | ViewOther string "goerror + gval"

record ('v, 'd) value_ops =
  vo_new :: "tf_type \<Rightarrow> 'v tf_content \<Rightarrow> 'v"
  vo_view :: "'v \<Rightarrow> tf_view"
  vo_marshal :: "tf_type \<Rightarrow> 'v \<Rightarrow> goerror + 'd"
  vo_unmarshal :: "'d \<Rightarrow> tf_type \<Rightarrow> goerror + 'v"
  vo_is_empty :: "'d \<Rightarrow> bool"
  vo_nil :: 'd
  vo_format :: "gval \<Rightarrow> string"

text \<open>The verb \<^verbatim>\<open>%T\<close>.\<close>

fun go_type_name :: "gval \<Rightarrow> string" where
  "go_type_name GNil = ''<nil>''"
| "go_type_name (GBool _) = ''bool''"
| "go_type_name (GInt _) = ''int''"
| "go_type_name (GFloat _) = ''float64''"
| "go_type_name (GStr _) = ''string''"
| "go_type_name (GTime _) = ''time.Time''"
| "go_type_name (GList _) = ''[]interface {}''"
| "go_type_name (GMap _) = ''map[string]interface {}''"

text \<open>What the program reads of a \<^verbatim>\<open>tfprotov6.SchemaBlock\<close>; \<open>sb_type\<close> is its \<^verbatim>\<open>ValueType()\<close>.\<close>

record schema_block =
  sb_attributes :: "string list"
  sb_blocks :: "(string \<times> string list option) list"
  sb_type :: tf_type

section \<open>From data to values\<close>

fun create_string :: "('v, 'd) value_ops \<Rightarrow> gval \<Rightarrow> 'v" where
  "create_string vo (GStr s) = vo_new vo TfString (PlainContent (GStr s))"
| "create_string vo (GBool b) = vo_new vo TfString (PlainContent (GStr (if b then ''true'' else ''false'')))"
| "create_string vo v = vo_new vo TfString (PlainContent (GStr (vo_format vo v)))"

fun create_number :: "('v, 'd) value_ops \<Rightarrow> gval \<Rightarrow> goerror + 'v" where
  "create_number vo (GInt i) = Inr (vo_new vo TfNumber (PlainContent (GInt i)))"
| "create_number vo (GFloat w) = Inr (vo_new vo TfNumber (PlainContent (GFloat w)))"
| "create_number vo v = Inl (ErrorString (''expected number, got '' @ go_type_name v))"

fun create_bool :: "('v, 'd) value_ops \<Rightarrow> gval \<Rightarrow> goerror + 'v" where
  "create_bool vo (GBool b) = Inr (vo_new vo TfBool (PlainContent (GBool b)))"
| "create_bool vo v = Inl (ErrorString (''expected bool, got '' @ go_type_name v))"

fun string_entries :: "('v, 'd) value_ops \<Rightarrow> gmap \<Rightarrow> (string \<times> 'v) list" where
  "string_entries vo [] = []"
| "string_entries vo ((k, GStr s) # m) = (k, vo_new vo TfString (PlainContent (GStr s))) # string_entries vo m"
| "string_entries vo (_ # m) = string_entries vo m"

fun create_dynamic :: "('v, 'd) value_ops \<Rightarrow> gval \<Rightarrow> 'v" where
  "create_dynamic vo (GStr s) = vo_new vo TfString (PlainContent (GStr s))"
| "create_dynamic vo (GBool b) = vo_new vo TfBool (PlainContent (GBool b))"
| "create_dynamic vo (GInt i) = vo_new vo TfNumber (PlainContent (GInt i))"
| "create_dynamic vo (GFloat w) = vo_new vo TfNumber (PlainContent (GFloat w))"
| "create_dynamic vo (GMap m) = vo_new vo (TfMap TfString) (NamedContent (string_entries vo m))"
| "create_dynamic vo v = vo_new vo TfString (PlainContent (GStr (vo_format vo v)))"

text \<open>
  \<^verbatim>\<open>CreateValueFromData\<close>. Its loops over the attributes of an object type, the entries of a map and the
  elements of a list take the conversions of what is inside; an attribute without data becomes null.
\<close>

fun create_attributes :: "(string \<times> (gval \<Rightarrow> goerror + 'v)) list \<Rightarrow> gmap \<Rightarrow> goerror + (string \<times> 'v) list" where
  "create_attributes [] m = Inr []"
| "create_attributes ((a, f) # fs) m =
     (case f (case map_of m a of Some d \<Rightarrow> d | None \<Rightarrow> GNil) of
        Inl e \<Rightarrow> Inl (WrapError (''failed to create value for attribute '' @ a @ '': '') e '''')
      | Inr v \<Rightarrow> map_sum id (Cons (a, v)) (create_attributes fs m))"

fun create_entries :: "(gval \<Rightarrow> goerror + 'v) \<Rightarrow> gmap \<Rightarrow> goerror + (string \<times> 'v) list" where
  "create_entries f [] = Inr []"
| "create_entries f ((k, d) # m) =
     (case f d of
        Inl e \<Rightarrow> Inl (WrapError (''failed to create map element for key '' @ k @ '': '') e '''')
      | Inr v \<Rightarrow> map_sum id (Cons (k, v)) (create_entries f m))"

fun create_elements :: "string \<Rightarrow> (gval \<Rightarrow> goerror + 'v) \<Rightarrow> nat \<Rightarrow> gval list \<Rightarrow> goerror + 'v list" where
  "create_elements kind f n [] = Inr []"
| "create_elements kind f n (d # ds) =
     (case f d of
        Inl e \<Rightarrow> Inl (WrapError (''failed to create '' @ kind @ '' element at index '' @ itoa (int n) @ '': '') e '''')
      | Inr v \<Rightarrow> map_sum id (Cons v) (create_elements kind f (Suc n) ds))"

definition or_null :: "('v, 'd) value_ops \<Rightarrow> tf_type \<Rightarrow> (gval \<Rightarrow> goerror + 'v) \<Rightarrow> gval \<Rightarrow> goerror + 'v" where
  "or_null vo t f d = (if d = GNil then Inr (vo_new vo t NullContent) else f d)"

primrec create_value :: "('v, 'd) value_ops \<Rightarrow> tf_type \<Rightarrow> gval \<Rightarrow> goerror + 'v" where
  "create_value vo (TfObject ats) =
     or_null vo (TfObject ats) (\<lambda>d. case d of
         GMap m \<Rightarrow> map_sum id (\<lambda>vs. vo_new vo (TfObject ats) (NamedContent vs))
                     (create_attributes (map (map_prod id (create_value vo)) ats) m)
       | _ \<Rightarrow> Inl (ErrorString (''expected map for object type, got '' @ go_type_name d)))"
| "create_value vo (TfMap t) =
     or_null vo (TfMap t) (\<lambda>d. case d of
         GMap m \<Rightarrow> map_sum id (\<lambda>vs. vo_new vo (TfMap t) (NamedContent vs)) (create_entries (create_value vo t) m)
       | _ \<Rightarrow> Inl (ErrorString (''expected map, got '' @ go_type_name d)))"
| "create_value vo (TfList t) =
     or_null vo (TfList t) (\<lambda>d. case d of
         GList ds \<Rightarrow> map_sum id (\<lambda>vs. vo_new vo (TfList t) (ListContent vs))
                       (create_elements ''list'' (create_value vo t) 0 ds)
       | _ \<Rightarrow> Inl (ErrorString (''expected list, got '' @ go_type_name d)))"
| "create_value vo (TfSet t) =
     or_null vo (TfSet t) (\<lambda>d. case d of
         GList ds \<Rightarrow> map_sum id (\<lambda>vs. vo_new vo (TfSet t) (ListContent vs))
                       (create_elements ''set'' (create_value vo t) 0 ds)
       | _ \<Rightarrow> Inl (ErrorString (''expected list for set type, got '' @ go_type_name d)))"
| "create_value vo TfString = or_null vo TfString (\<lambda>d. Inr (create_string vo d))"
| "create_value vo TfNumber = or_null vo TfNumber (create_number vo)"
| "create_value vo TfBool = or_null vo TfBool (create_bool vo)"
| "create_value vo TfDynamic = or_null vo TfDynamic (\<lambda>d. Inr (create_dynamic vo d))"
| "create_value vo (TfTuple ts) = or_null vo (TfTuple ts) (\<lambda>d. Inr (vo_new vo (TfTuple ts) (PlainContent d)))"

definition create_dynamic_value :: "('v, 'd) value_ops \<Rightarrow> gmap \<Rightarrow> schema_block \<Rightarrow> goerror + 'd" where
  "create_dynamic_value vo data b =
     (case create_value vo (sb_type b) (GMap data) of
        Inl e \<Rightarrow> Inl (WrapError ''failed to create typed value: '' e '''')
      | Inr v \<Rightarrow>
          (case vo_marshal vo (sb_type b) v of
             Inl e \<Rightarrow> Inl (WrapError ''failed to create dynamic value: '' e '''')
           | Inr dv \<Rightarrow> Inr dv))"

section \<open>From values to data\<close>

fun convert_number :: "goerror + int \<Rightarrow> goerror + 64 word \<Rightarrow> goerror + int option \<times> 64 word \<Rightarrow> goerror + gval" where
  "convert_number (Inr i) _ _ = Inr (GInt i)"
| "convert_number (Inl _) (Inr f) _ = Inr (GFloat f)"
| "convert_number (Inl _) (Inl _) (Inl e) = Inl (WrapError ''failed to convert number value: '' e '''')"
| "convert_number (Inl _) (Inl _) (Inr (Some i, _)) = Inr (GInt i)"
| "convert_number (Inl _) (Inl _) (Inr (None, f)) = Inr (GFloat f)"

text \<open>\<^verbatim>\<open>ConvertTftypesValueToInterface\<close>; its loops take the converted values.\<close>

fun convert_entries :: "string \<Rightarrow> (string \<times> (goerror + gval)) list \<Rightarrow> goerror + gmap" where
  "convert_entries kind [] = Inr []"
| "convert_entries kind ((k, Inl e) # vs) = Inl (WrapError (''failed to convert '' @ kind @ k @ '': '') e '''')"
| "convert_entries kind ((k, Inr d) # vs) = map_sum id (Cons (k, d)) (convert_entries kind vs)"

fun convert_elements :: "string \<Rightarrow> nat \<Rightarrow> (goerror + gval) list \<Rightarrow> goerror + gval list" where
  "convert_elements kind n [] = Inr []"
| "convert_elements kind n (Inl e # vs) = Inl (WrapError (''failed to convert '' @ kind @ itoa (int n) @ '': '') e '''')"
| "convert_elements kind n (Inr d # vs) = map_sum id (Cons d) (convert_elements kind (Suc n) vs)"

text \<open>Read the content with \<^verbatim>\<open>As\<close>, then convert it.\<close>

fun after_as :: "string \<Rightarrow> ('a \<Rightarrow> goerror + gval) \<Rightarrow> goerror + 'a \<Rightarrow> goerror + gval" where
  "after_as what f (Inl e) = Inl (WrapError (''failed to convert '' @ what @ '': '') e '''')"
| "after_as what f (Inr x) = f x"

primrec convert_value :: "tf_view \<Rightarrow> goerror + gval" where
  "convert_value ViewNull = Inr GNil"
| "convert_value (ViewObject r) =
     after_as ''object value'' (\<lambda>vs. map_sum id GMap (convert_entries ''attribute '' vs))
       (map_sum id (map (map_prod id convert_value)) r)"
| "convert_value (ViewMap r) =
     after_as ''map value'' (\<lambda>vs. map_sum id GMap (convert_entries ''map element '' vs))
       (map_sum id (map (map_prod id convert_value)) r)"
| "convert_value (ViewList r) =
     after_as ''list value'' (\<lambda>vs. map_sum id GList (convert_elements ''list element '' 0 vs)) (map_sum id (map convert_value) r)"
| "convert_value (ViewSet r) =
     after_as ''set value'' (\<lambda>vs. map_sum id GList (convert_elements ''set element '' 0 vs)) (map_sum id (map convert_value) r)"
| "convert_value (ViewString r) = after_as ''string value'' (\<lambda>s. Inr (GStr s)) r"
| "convert_value (ViewNumber i f b) = convert_number i f b"
| "convert_value (ViewBool r) = after_as ''bool value'' (\<lambda>b. Inr (GBool b)) r"
| "convert_value (ViewOther t r) = after_as (''value of type '' @ t) Inr r"

text \<open>\<^verbatim>\<open>ConvertDynamicValueToMap\<close>; a nil message is None, a nil map is None.\<close>

definition convert_dynamic_value_to_map ::
  "('v, 'd) value_ops \<Rightarrow> 'd option \<Rightarrow> tf_type \<Rightarrow> goerror + gmap option" where
  "convert_dynamic_value_to_map vo dv t =
     (case dv of
        None \<Rightarrow> Inr None
      | Some d \<Rightarrow>
          (if vo_is_empty vo d then Inr None
           else case vo_unmarshal vo d t of
             Inl e \<Rightarrow> Inl (WrapError ''failed to unmarshal dynamic value: '' e '''')
           | Inr v \<Rightarrow>
               (case convert_value (vo_view vo v) of
                  Inl e \<Rightarrow> Inl (WrapError ''failed to convert value to interface: '' e '''')
                | Inr GNil \<Rightarrow> Inr None
                | Inr (GMap m) \<Rightarrow> Inr (Some m)
                | Inr r \<Rightarrow> Inl (ErrorString (''expected map[string]interface{}, got '' @ go_type_name r)))))"

section \<open>Completing the configuration of a provider\<close>

definition complete_attribute :: "gmap \<Rightarrow> string \<Rightarrow> gmap \<Rightarrow> gmap" where
  "complete_attribute config a m = map_put a (case map_of config a of Some v \<Rightarrow> v | None \<Rightarrow> GNil) m"

text \<open>The endpoints of AWS: a map becomes the one element of a set, with every attribute of the block.\<close>

fun endpoints_value :: "string list option \<Rightarrow> gval \<Rightarrow> gval" where
  "endpoints_value nested (GList xs) = GList xs"
| "endpoints_value nested (GMap m) =
     (if m = [] then GList []
      else GList [GMap (fold (\<lambda>(s, e). map_put s e) m
             (case nested of None \<Rightarrow> [] | Some as \<Rightarrow> fold (\<lambda>a. map_put a GNil) as []))])"
| "endpoints_value nested v = GList []"

definition complete_block :: "gmap \<Rightarrow> string \<Rightarrow> string \<times> string list option \<Rightarrow> gmap \<Rightarrow> gmap" where
  "complete_block config provider blk m =
     map_put (fst blk)
       (case map_of config (fst blk) of
          Some v \<Rightarrow> if fst blk = ''endpoints'' \<and> provider = ''aws'' then endpoints_value (snd blk) v else v
        | None \<Rightarrow> GList []) m"

text \<open>\<^verbatim>\<open>CompleteProviderConfig\<close>; None is a provider without a schema of its configuration.\<close>

definition complete_provider_config :: "schema_block option \<Rightarrow> gmap \<Rightarrow> string \<Rightarrow> gmap" where
  "complete_provider_config schema config provider =
     (case schema of
        None \<Rightarrow> config
      | Some b \<Rightarrow>
          fold (\<lambda>(k, v) m. if map_of m k = None then map_put k v m else m) config
            (fold (complete_block config provider) (sb_blocks b)
              (fold (complete_attribute config) (sb_attributes b) [])))"

text \<open>Every attribute and every block of the schema is set, and what the configuration sets keeps its value.\<close>

lemma fold_put_keys:
  assumes "\<And>x m. f x m = map_put (key x) (val x) m"
  shows "map_of (fold f xs m) k = (if k \<in> key ` set xs then Some (val (last (filter (\<lambda>x. key x = k) xs))) else map_of m k)"
proof (induction xs rule: rev_induct)
  case (snoc x xs)
  then show ?case by (auto simp: assms)
qed simp

lemma map_of_extras:
  assumes "map_wf config"
  shows "map_of (fold (\<lambda>(k, v) m. if map_of m k = None then map_put k v m else m) config m) k =
     (case map_of m k of None \<Rightarrow> map_of config k | Some v \<Rightarrow> Some v)"
  using assms
proof (induction config arbitrary: m)
  case (Cons kv config)
  then show ?case by (cases kv) (auto simp: map_wf_def split: option.splits)
qed (simp split: option.split)

lemma completed_config:
  assumes "map_wf config"
  shows "map_of (complete_provider_config (Some b) config provider) k =
     (if k \<in> fst ` set (sb_blocks b)
      then Some (case map_of config k of
             Some v \<Rightarrow> if k = ''endpoints'' \<and> provider = ''aws''
                       then endpoints_value (snd (last (filter (\<lambda>x. fst x = k) (sb_blocks b)))) v else v
           | None \<Rightarrow> GList [])
      else if k \<in> set (sb_attributes b) then Some (case map_of config k of Some v \<Rightarrow> v | None \<Rightarrow> GNil)
      else map_of config k)"
proof -
  let ?f = "\<lambda>blk. case map_of config (fst blk) of
      Some v \<Rightarrow> if fst blk = ''endpoints'' \<and> provider = ''aws'' then endpoints_value (snd blk) v else v
    | None \<Rightarrow> GList []"
  have blocks: "map_of (fold (complete_block config provider) bs m) k =
      (if k \<in> fst ` set bs then Some (?f (last (filter (\<lambda>x. fst x = k) bs))) else map_of m k)" for bs m
    by (rule fold_put_keys) (simp add: complete_block_def)
  have attributes: "map_of (fold (complete_attribute config) as m) k =
      (if k \<in> (\<lambda>x. x) ` set as
       then Some (case map_of config (last (filter (\<lambda>x. x = k) as)) of Some v \<Rightarrow> v | None \<Rightarrow> GNil) else map_of m k)" for as m
    by (rule fold_put_keys) (simp add: complete_attribute_def)
  have last: "fst (last (filter (\<lambda>x. fst x = k) bs)) = k" if "k \<in> fst ` set bs" for bs :: "(string \<times> string list option) list"
    using that last_in_set [of "filter (\<lambda>x. fst x = k) bs"] by (auto simp: filter_empty_conv)
  have "last (filter (\<lambda>x. x = k) as) = k" if "k \<in> set as" for as
    using that last_in_set [of "filter (\<lambda>x. x = k) as"] by (auto simp: filter_empty_conv)
  then show ?thesis
    by (auto simp: complete_provider_config_def map_of_extras [OF assms] blocks attributes last split: option.split)
qed

section \<open>Data of a type, and what becomes of it\<close>

definition is_int64 :: "int \<Rightarrow> bool" where
  "is_int64 i \<longleftrightarrow> - (2 ^ 63) \<le> i \<and> i < 2 ^ 63"

definition data_at :: "gmap \<Rightarrow> string \<Rightarrow> gval" where
  "data_at m a = (case map_of m a of Some d \<Rightarrow> d | None \<Rightarrow> GNil)"

text \<open>
  The data that the program turns into a value without an error, a panic or a formatting verb, and the data it reads
  back. The elements of a list, a set or a map must have one type, which those of a dynamic element type need not.
\<close>

primrec conforms :: "tf_type \<Rightarrow> gval \<Rightarrow> bool" where
  "conforms TfString d = (case d of GNil \<Rightarrow> True | GStr _ \<Rightarrow> True | GBool _ \<Rightarrow> True | _ \<Rightarrow> False)"
| "conforms TfNumber d = (case d of GNil \<Rightarrow> True | GInt i \<Rightarrow> is_int64 i | _ \<Rightarrow> False)"
| "conforms TfBool d = (case d of GNil \<Rightarrow> True | GBool _ \<Rightarrow> True | _ \<Rightarrow> False)"
| "conforms TfDynamic d = (case d of GNil \<Rightarrow> True | GStr _ \<Rightarrow> True | GBool _ \<Rightarrow> True | GInt i \<Rightarrow> is_int64 i | _ \<Rightarrow> False)"
| "conforms (TfList t) d = (case d of GNil \<Rightarrow> True | GList ds \<Rightarrow> t \<noteq> TfDynamic \<and> list_all (conforms t) ds | _ \<Rightarrow> False)"
| "conforms (TfSet t) d = (case d of GNil \<Rightarrow> True | GList ds \<Rightarrow> t \<noteq> TfDynamic \<and> list_all (conforms t) ds | _ \<Rightarrow> False)"
| "conforms (TfMap t) d =
     (case d of GNil \<Rightarrow> True | GMap m \<Rightarrow> t \<noteq> TfDynamic \<and> list_all (\<lambda>kv. conforms t (snd kv)) m | _ \<Rightarrow> False)"
| "conforms (TfTuple ts) d = (d = GNil)"
| "conforms (TfObject ats) d =
     (case d of
        GNil \<Rightarrow> True
      | GMap m \<Rightarrow> list_all (\<lambda>(a, f). f (data_at m a)) (map (map_prod id conforms) ats)
      | _ \<Rightarrow> False)"

primrec completed :: "tf_type \<Rightarrow> gval \<Rightarrow> gval" where
  "completed TfString d = (case d of GBool b \<Rightarrow> GStr (if b then ''true'' else ''false'') | _ \<Rightarrow> d)"
| "completed TfNumber d = d"
| "completed TfBool d = d"
| "completed TfDynamic d = d"
| "completed (TfList t) d = (case d of GList ds \<Rightarrow> GList (map (completed t) ds) | _ \<Rightarrow> d)"
| "completed (TfSet t) d = (case d of GList ds \<Rightarrow> GList (map (completed t) ds) | _ \<Rightarrow> d)"
| "completed (TfMap t) d = (case d of GMap m \<Rightarrow> GMap (map (map_prod id (completed t)) m) | _ \<Rightarrow> d)"
| "completed (TfTuple ts) d = d"
| "completed (TfObject ats) d =
     (case d of
        GMap m \<Rightarrow> GMap (map (\<lambda>(a, f). (a, f (data_at m a))) (map (map_prod id completed) ats))
      | _ \<Rightarrow> d)"

text \<open>
  The documented behaviour of the packages of values and messages; \<open>fits t v\<close> says that the type of a value
  is usable as \<open>t\<close>. A number is read as a \<^verbatim>\<open>big.Float\<close> only: into an int64 or a float64 \<^verbatim>\<open>As\<close> fails. Content that is not
  of the type, and elements of different types, make \<^verbatim>\<open>NewValue\<close> panic; no law is about them.
\<close>

locale value_library =
  fixes vo :: "('v, 'd) value_ops" and fits :: "tf_type \<Rightarrow> 'v \<Rightarrow> bool"
  assumes new_null: "vo_view vo (vo_new vo t NullContent) = ViewNull \<and> fits t (vo_new vo t NullContent)"
    and new_string: "vo_view vo (vo_new vo TfString (PlainContent (GStr s))) = ViewString (Inr s) \<and>
      fits TfString (vo_new vo TfString (PlainContent (GStr s)))"
    and new_number: "is_int64 i \<Longrightarrow>
      (\<exists>e e' f. vo_view vo (vo_new vo TfNumber (PlainContent (GInt i))) = ViewNumber (Inl e) (Inl e') (Inr (Some i, f))) \<and>
      fits TfNumber (vo_new vo TfNumber (PlainContent (GInt i)))"
    and new_bool: "vo_view vo (vo_new vo TfBool (PlainContent (GBool b))) = ViewBool (Inr b) \<and>
      fits TfBool (vo_new vo TfBool (PlainContent (GBool b)))"
    and new_object: "map fst vs = map fst ats \<Longrightarrow> list_all2 fits (map snd ats) (map snd vs) \<Longrightarrow>
      vo_view vo (vo_new vo (TfObject ats) (NamedContent vs)) = ViewObject (Inr (map (map_prod id (vo_view vo)) vs)) \<and>
      fits (TfObject ats) (vo_new vo (TfObject ats) (NamedContent vs))"
    and new_map: "t \<noteq> TfDynamic \<Longrightarrow> list_all (\<lambda>kv. fits t (snd kv)) vs \<Longrightarrow>
      vo_view vo (vo_new vo (TfMap t) (NamedContent vs)) = ViewMap (Inr (map (map_prod id (vo_view vo)) vs)) \<and>
      fits (TfMap t) (vo_new vo (TfMap t) (NamedContent vs))"
    and new_list: "t \<noteq> TfDynamic \<Longrightarrow> list_all (fits t) us \<Longrightarrow>
      vo_view vo (vo_new vo (TfList t) (ListContent us)) = ViewList (Inr (map (vo_view vo) us)) \<and>
      fits (TfList t) (vo_new vo (TfList t) (ListContent us))"
    and new_set: "t \<noteq> TfDynamic \<Longrightarrow> list_all (fits t) us \<Longrightarrow>
      vo_view vo (vo_new vo (TfSet t) (ListContent us)) = ViewSet (Inr (map (vo_view vo) us)) \<and>
      fits (TfSet t) (vo_new vo (TfSet t) (ListContent us))"
    and fits_dynamic: "fits t v \<Longrightarrow> fits TfDynamic v"
    and read_back: "fits t v \<Longrightarrow> vo_marshal vo t v = Inr d \<Longrightarrow>
      \<not> vo_is_empty vo d \<and> (\<exists>v'. vo_unmarshal vo d t = Inr v' \<and> vo_view vo v' = vo_view vo v)"
begin

definition becomes :: "tf_type \<Rightarrow> goerror + 'v \<Rightarrow> gval \<Rightarrow> bool" where
  "becomes t r d \<longleftrightarrow> (\<exists>v. r = Inr v \<and> fits t v \<and> convert_value (vo_view vo v) = Inr d)"

lemma created_elements:
  assumes "\<And>d. d \<in> set ds \<Longrightarrow> becomes t (f d) (g d)"
  shows "\<exists>vs. create_elements kind f n ds = Inr vs \<and> list_all (fits t) vs \<and>
     convert_elements kind' n' (map (\<lambda>v. convert_value (vo_view vo v)) vs) = Inr (map g ds)"
  using assms
proof (induction ds arbitrary: n n')
  case (Cons d ds)
  obtain v where "f d = Inr v" "fits t v" "convert_value (vo_view vo v) = Inr (g d)"
    using Cons.prems [of d] by (auto simp: becomes_def)
  moreover obtain vs where "create_elements kind f (Suc n) ds = Inr vs" "list_all (fits t) vs"
    "convert_elements kind' (Suc n') (map (\<lambda>v. convert_value (vo_view vo v)) vs) = Inr (map g ds)"
    using Cons.IH [of "Suc n" "Suc n'"] Cons.prems by auto
  ultimately show ?case by (intro exI [of _ "v # vs"]) simp
qed simp

lemma created_entries:
  assumes "\<And>kd. kd \<in> set m \<Longrightarrow> becomes t (f (snd kd)) (g (snd kd))"
  shows "\<exists>vs. create_entries f m = Inr vs \<and> list_all (\<lambda>kv. fits t (snd kv)) vs \<and>
     convert_entries kind (map (map_prod id (\<lambda>v. convert_value (vo_view vo v))) vs) = Inr (map (map_prod id g) m)"
  using assms
proof (induction m)
  case (Cons kd m)
  obtain v where "f (snd kd) = Inr v" "fits t v" "convert_value (vo_view vo v) = Inr (g (snd kd))"
    using Cons.prems [of kd] by (auto simp: becomes_def)
  moreover obtain vs where "create_entries f m = Inr vs" "list_all (\<lambda>kv. fits t (snd kv)) vs"
    "convert_entries kind (map (map_prod id (\<lambda>v. convert_value (vo_view vo v))) vs) = Inr (map (map_prod id g) m)"
    using Cons.IH [OF Cons.prems] by (meson list.set_intros(2))
  ultimately show ?case by (cases kd, intro exI [of _ "(fst kd, v) # vs"]) (simp add: id_def)
qed simp

lemma created_attributes:
  assumes "\<And>a t. (a, t) \<in> set ats \<Longrightarrow> becomes t (f t (data_at m a)) (g t (data_at m a))"
  shows "\<exists>vs. create_attributes (map (map_prod id f) ats) m = Inr vs \<and> map fst vs = map fst ats \<and>
     list_all2 fits (map snd ats) (map snd vs) \<and>
     convert_entries kind (map (map_prod id (\<lambda>v. convert_value (vo_view vo v))) vs) =
       Inr (map (\<lambda>(a, h). (a, h (data_at m a))) (map (map_prod id g) ats))"
  using assms
proof (induction ats)
  case (Cons e ats)
  obtain a t where e: "e = (a, t)" by (cases e)
  then obtain v where "f t (data_at m a) = Inr v" "fits t v" "convert_value (vo_view vo v) = Inr (g t (data_at m a))"
    using Cons.prems [of a t] by (auto simp: becomes_def)
  moreover obtain vs where "create_attributes (map (map_prod id f) ats) m = Inr vs" "map fst vs = map fst ats"
    "list_all2 fits (map snd ats) (map snd vs)"
    "convert_entries kind (map (map_prod id (\<lambda>v. convert_value (vo_view vo v))) vs) =
       Inr (map (\<lambda>(a, h). (a, h (data_at m a))) (map (map_prod id g) ats))"
    using Cons.IH [OF Cons.prems] by (meson list.set_intros(2))
  ultimately show ?case using e by (intro exI [of _ "(a, v) # vs"]) (simp add: data_at_def id_def)
qed simp

lemma becomes_null [simp]: "becomes t (Inr (vo_new vo t NullContent)) GNil"
  by (simp add: becomes_def new_null)

lemma becomes_number: "is_int64 i \<Longrightarrow> becomes TfNumber (Inr (vo_new vo TfNumber (PlainContent (GInt i)))) (GInt i)"
  using new_number [of i] by (auto simp: becomes_def)

lemma becomes_dynamic: "becomes t r d \<Longrightarrow> becomes TfDynamic r d"
  by (auto simp: becomes_def intro: fits_dynamic)

lemma becomes_plain:
  "becomes TfString (Inr (vo_new vo TfString (PlainContent (GStr s)))) (GStr s)"
  "becomes TfBool (Inr (vo_new vo TfBool (PlainContent (GBool b)))) (GBool b)"
  by (simp_all add: becomes_def new_string new_bool)

lemma created_value: "conforms t d \<Longrightarrow> becomes t (create_value vo t d) (completed t d)"
proof (induction t arbitrary: d)
  case TfString
  then show ?case by (cases d) (simp_all add: or_null_def becomes_plain)
next
  case TfNumber
  then show ?case by (cases d) (simp_all add: or_null_def becomes_number)
next
  case TfBool
  then show ?case by (cases d) (simp_all add: or_null_def becomes_plain)
next
  case TfDynamic
  then show ?case
    by (cases d) (simp_all add: or_null_def becomes_plain [THEN becomes_dynamic] becomes_number [THEN becomes_dynamic])
next
  case (TfTuple ts)
  then show ?case by (simp add: or_null_def)
next
  case (TfList t)
  show ?case
  proof (cases d)
    case (GList ds)
    then have "\<And>d. d \<in> set ds \<Longrightarrow> becomes t (create_value vo t d) (completed t d)" and "t \<noteq> TfDynamic"
      using TfList by (simp_all add: list_all_iff)
    from created_elements [where ds = ds and f = "create_value vo t" and g = "completed t", OF this(1), where kind = "''list''" and n = 0 and kind' = "''list element ''" and n' = 0]
    show ?thesis using GList \<open>t \<noteq> TfDynamic\<close> by (auto simp: or_null_def becomes_def new_list comp_def)
  qed (use TfList in \<open>auto simp: or_null_def becomes_def new_null\<close>)
next
  case (TfSet t)
  show ?case
  proof (cases d)
    case (GList ds)
    then have "\<And>d. d \<in> set ds \<Longrightarrow> becomes t (create_value vo t d) (completed t d)" and "t \<noteq> TfDynamic"
      using TfSet by (simp_all add: list_all_iff)
    from created_elements [where ds = ds and f = "create_value vo t" and g = "completed t", OF this(1), where kind = "''set''" and n = 0 and kind' = "''set element ''" and n' = 0]
    show ?thesis using GList \<open>t \<noteq> TfDynamic\<close> by (auto simp: or_null_def becomes_def new_set comp_def)
  qed (use TfSet in \<open>auto simp: or_null_def becomes_def new_null\<close>)
next
  case (TfMap t)
  show ?case
  proof (cases d)
    case (GMap m)
    then have "\<And>kd. kd \<in> set m \<Longrightarrow> becomes t (create_value vo t (snd kd)) (completed t (snd kd))" and "t \<noteq> TfDynamic"
      using TfMap by (simp_all add: list_all_iff)
    from created_entries [where m = m and f = "create_value vo t" and g = "completed t", OF this(1), where kind = "''map element ''"]
    show ?thesis using GMap \<open>t \<noteq> TfDynamic\<close> by (auto simp: or_null_def becomes_def new_map comp_def prod.map_comp id_def)
  qed (use TfMap in \<open>auto simp: or_null_def becomes_def new_null\<close>)
next
  case (TfObject ats)
  show ?case
  proof (cases d)
    case (GMap m)
    have "becomes t (create_value vo t (data_at m a)) (completed t (data_at m a))" if "(a, t) \<in> set ats" for a t
      using TfObject that GMap by (auto simp: list_all_iff)
    from created_attributes [where ats = ats and m = m and f = "create_value vo" and g = completed, OF this, where kind = "''attribute ''"] obtain vs where
      vs: "create_attributes (map (map_prod id (create_value vo)) ats) m = Inr vs" "map fst vs = map fst ats"
      "list_all2 fits (map snd ats) (map snd vs)"
      "convert_entries ''attribute '' (map (map_prod id (\<lambda>v. convert_value (vo_view vo v))) vs) =
         Inr (map (\<lambda>(a, h). (a, h (data_at m a))) (map (map_prod id completed) ats))" by blast
    have "map (map_prod id convert_value) (map (map_prod id (vo_view vo)) vs) =
        map (map_prod id (\<lambda>v. convert_value (vo_view vo v))) vs" by (simp add: map_prod_def case_prod_unfold)
    then show ?thesis using GMap vs by (auto simp: or_null_def becomes_def new_object simp del: map_map)
  qed (use TfObject in \<open>auto simp: or_null_def becomes_def new_null\<close>)
qed

lemma dynamic_value_read_back:
  assumes "conforms (sb_type b) (GMap m)" and "sb_type b = TfObject ats" and "create_dynamic_value vo m b = Inr d"
  shows "convert_dynamic_value_to_map vo (Some d) (sb_type b) =
     Inr (Some (map (\<lambda>(a, t). (a, completed t (data_at m a))) ats))"
proof -
  from created_value [OF assms(1)] obtain v where v: "create_value vo (sb_type b) (GMap m) = Inr v" "fits (sb_type b) v"
    "convert_value (vo_view vo v) = Inr (completed (sb_type b) (GMap m))"
    by (auto simp: becomes_def)
  then have "vo_marshal vo (sb_type b) v = Inr d"
    using assms(3) by (auto simp: create_dynamic_value_def split: sum.splits)
  from read_back [OF v(2) this] v assms(2) show ?thesis
    by (auto simp: convert_dynamic_value_to_map_def comp_def case_prod_unfold)
qed

end

text \<open>The library as terms: a value is the call that made it, a message is the value, or None for nil.\<close>

datatype tf_term = Term tf_type "tf_term tf_content"

fun view_of_plain :: "tf_type \<Rightarrow> gval \<Rightarrow> tf_view" where
  "view_of_plain TfString (GStr s) = ViewString (Inr s)"
| "view_of_plain TfNumber (GInt i) = ViewNumber (Inl (ErrorString '''')) (Inl (ErrorString '''')) (Inr (Some i, 0))"
| "view_of_plain TfNumber (GFloat w) = ViewNumber (Inl (ErrorString '''')) (Inl (ErrorString '''')) (Inr (None, w))"
| "view_of_plain TfBool (GBool b) = ViewBool (Inr b)"
| "view_of_plain t d = ViewOther '''' (Inr d)"

fun view_of_content :: "tf_type \<Rightarrow> tf_view tf_content \<Rightarrow> tf_view" where
  "view_of_content t NullContent = ViewNull"
| "view_of_content t (PlainContent d) = view_of_plain t d"
| "view_of_content (TfObject ats) (NamedContent vs) = ViewObject (Inr vs)"
| "view_of_content t (NamedContent vs) = ViewMap (Inr vs)"
| "view_of_content (TfSet t) (ListContent us) = ViewSet (Inr us)"
| "view_of_content t (ListContent us) = ViewList (Inr us)"

primrec term_view :: "tf_term \<Rightarrow> tf_view" where
  "term_view (Term t c) = view_of_content t (map_tf_content term_view c)"

definition term_values :: "(tf_term, tf_term option) value_ops" where
  "term_values =
     \<lparr>vo_new = Term, vo_view = term_view, vo_marshal = \<lambda>t v. Inr (Some v),
      vo_unmarshal = \<lambda>d t. Inr (case d of Some v \<Rightarrow> v | None \<Rightarrow> Term t NullContent),
      vo_is_empty = \<lambda>d. False, vo_nil = None, vo_format = go_type_name\<rparr>"

fun term_fits :: "tf_type \<Rightarrow> tf_term \<Rightarrow> bool" where
  "term_fits t (Term t' c) \<longleftrightarrow> t = TfDynamic \<or> t' = t"

interpretation terms: value_library term_values term_fits
proof
  fix t :: tf_type and v :: tf_term
  show "term_fits t v \<Longrightarrow> term_fits TfDynamic v" by (cases v) simp
qed (auto simp: term_values_def)

text \<open>
  C30: what the program sends to a plugin it reads back, on the attributes of the schema: for data that conforms to the
  type of the schema, the attributes it gives keep their value (an integer of 64 bits by way of a \<^verbatim>\<open>big.Float\<close>, a
  boolean for a string attribute as its name), those it does not give become nil, and what the schema does not name is
  dropped without an error.
\<close>

theorem dynamic_value_round_trip:
  assumes "value_library vo fits" and "sb_type b = TfObject ats" and "distinct (map fst ats)"
    and "conforms (sb_type b) (GMap m)" and "create_dynamic_value vo m b = Inr d"
  shows "\<exists>r. convert_dynamic_value_to_map vo (Some d) (sb_type b) = Inr (Some r) \<and> map fst r = map fst ats \<and>
     (\<forall>a. map_of r a = (case map_of ats a of None \<Rightarrow> None | Some t \<Rightarrow> Some (completed t (data_at m a))))"
proof -
  let ?r = "map (\<lambda>(a, t). (a, completed t (data_at m a))) ats"
  have "map_of ?r a = (case map_of ats a of None \<Rightarrow> None | Some t \<Rightarrow> Some (completed t (data_at m a)))" for a
    by (induction ats) auto
  then show ?thesis
    using value_library.dynamic_value_read_back [OF assms(1,4,2,5)] by (intro exI [of _ ?r]) auto
qed

definition bucket_block :: schema_block where
  "bucket_block =
     \<lparr>sb_attributes = [''bucket'', ''arn'', ''versioned''], sb_blocks = [],
      sb_type = TfObject [(''bucket'', TfString), (''arn'', TfString), (''versioned'', TfString)]\<rparr>"

definition disk_block :: schema_block where
  "disk_block =
     \<lparr>sb_attributes = [''size'', ''arn'', ''encrypted'', ''zones''], sb_blocks = [],
      sb_type = TfObject [(''size'', TfNumber), (''arn'', TfString), (''encrypted'', TfString), (''zones'', TfList TfString)]\<rparr>"

theorem dynamic_value_round_trip_witness:
  "\<exists>d r. create_dynamic_value term_values
        [(''size'', GInt 8), (''encrypted'', GBool True), (''zones'', GList [GStr ''a'', GNil]), (''sise'', GInt 9)] disk_block =
          Inr d \<and>
     convert_dynamic_value_to_map term_values (Some d) (sb_type disk_block) = Inr (Some r) \<and>
     map_of r ''size'' = Some (GInt 8) \<and> map_of r ''encrypted'' = Some (GStr ''true'') \<and> map_of r ''arn'' = Some GNil \<and>
     map_of r ''zones'' = Some (GList [GStr ''a'', GNil]) \<and> map_of r ''sise'' = None"
proof -
  let ?m = "[(''size'', GInt 8), (''encrypted'', GBool True), (''zones'', GList [GStr ''a'', GNil]), (''sise'', GInt 9)]"
  let ?ats = "[(''size'', TfNumber), (''arn'', TfString), (''encrypted'', TfString), (''zones'', TfList TfString)]"
  have ok: "conforms (sb_type disk_block) (GMap ?m)" by (simp add: disk_block_def data_at_def is_int64_def)
  obtain d where d: "create_dynamic_value term_values ?m disk_block = Inr d"
    by (simp add: create_dynamic_value_def disk_block_def or_null_def term_values_def)
  have t: "sb_type disk_block = TfObject ?ats" by (simp add: disk_block_def)
  have "distinct (map fst ?ats)" by simp
  from dynamic_value_round_trip [OF terms.value_library_axioms t this ok d] obtain r where
    r: "convert_dynamic_value_to_map term_values (Some d) (sb_type disk_block) = Inr (Some r)"
    "\<forall>a. map_of r a = (case map_of ?ats a of None \<Rightarrow> None | Some t \<Rightarrow> Some (completed t (data_at ?m a)))" by blast
  then show ?thesis using d by (intro exI [of _ d] exI [of _ r]) (simp add: data_at_def)
qed

end
