(* ===== verification/Provider_Wrapper.thy ===== *)
theory Provider_Wrapper
  imports Dynamic_Values
begin

text \<open>
  The operations on a provider plugin, \<^verbatim>\<open>pkg/provider/protocol/provider_wrapper_unified.go\<close>: every operation reads
  the schema, turns its data into messages, calls the plugin and turns the answer into data.

  The plugin is a process outside the program, reached through the unified client: \<open>plugin_client\<close> holds
  its calls, on handles \<open>'c\<close>, messages \<open>'d\<close> and a world \<open>'w\<close>. The client of a wrapper is made with the
  wrapper, so its lazy initialization does not occur.
\<close>

section \<open>The plugin\<close>

datatype severity = SeverityInvalid | SeverityError | SeverityWarning

record diagnostic =
  dg_severity :: severity
  dg_summary :: string
  dg_detail :: string

record plugin_schema =
  ps_provider :: "schema_block option"
  ps_resources :: "(string \<times> schema_block) list"
  ps_data_sources :: "(string \<times> schema_block) list"

record 'd plan_request =
  pq_type :: string
  pq_prior :: 'd
  pq_proposed :: 'd
  pq_config :: 'd

text \<open>A path of \<^verbatim>\<open>RequiresReplace\<close> is its string, or None where the pointer is nil.\<close>

record 'd plan_response =
  pr_planned :: "'d option"
  pr_requires_replace :: "string option list"
  pr_diagnostics :: "diagnostic list"

record 'd apply_request =
  aq_type :: string
  aq_config :: 'd
  aq_planned :: "'d option"
  aq_prior :: 'd

record ('w, 'c, 'd) plugin_client =
  pc_schema :: "'c \<Rightarrow> 'w \<Rightarrow> 'w \<times> (goerror + plugin_schema)"
  pc_configure :: "'c \<Rightarrow> 'd \<Rightarrow> 'w \<Rightarrow> 'w \<times> (goerror + diagnostic list)"
  pc_plan :: "'c \<Rightarrow> 'd plan_request \<Rightarrow> 'w \<Rightarrow> 'w \<times> (goerror + 'd plan_response)"
  pc_apply :: "'c \<Rightarrow> 'd apply_request \<Rightarrow> 'w \<Rightarrow> 'w \<times> (goerror + 'd option \<times> diagnostic list)"
  pc_read :: "'c \<Rightarrow> string \<Rightarrow> 'd \<Rightarrow> 'w \<Rightarrow> 'w \<times> (goerror + 'd option \<times> diagnostic list)"
  pc_read_data :: "'c \<Rightarrow> string \<Rightarrow> 'd \<Rightarrow> 'w \<Rightarrow> 'w \<times> (goerror + 'd option \<times> diagnostic list)"

section \<open>Steps that may fail\<close>

type_synonym ('w, 'a) attempt = "'w \<times> (goerror + 'a)"

text \<open>Go on with the value of a step, or return its error.\<close>

fun and_then :: "('w, 'a) attempt \<Rightarrow> ('a \<Rightarrow> 'w \<Rightarrow> ('w, 'b) attempt) \<Rightarrow> ('w, 'b) attempt" where
  "and_then (w, Inl e) f = (w, Inl e)"
| "and_then (w, Inr x) f = f x w"

lemma and_then_cong [fundef_cong]:
  "a = a' \<Longrightarrow> (\<And>w x. a' = (w, Inr x) \<Longrightarrow> f x w = g x w) \<Longrightarrow> and_then a f = and_then a' g"
  by (cases "(a, f)" rule: and_then.cases) auto

text \<open>Wrap the error of a step.\<close>

fun wrapping :: "string \<Rightarrow> ('w, 'a) attempt \<Rightarrow> ('w, 'a) attempt" where
  "wrapping s (w, Inl e) = (w, Inl (WrapError s e ''''))"
| "wrapping s (w, Inr x) = (w, Inr x)"

lemma and_then_Inr:
  "and_then a f = (w', Inr y) \<longleftrightarrow> (\<exists>w x. a = (w, Inr x) \<and> f x w = (w', Inr y))"
  by (cases "(a, f)" rule: and_then.cases) auto

lemma wrapping_Inr [simp]: "wrapping s a = (w, Inr x) \<longleftrightarrow> a = (w, Inr x)"
  by (cases "(s, a)" rule: wrapping.cases) auto

lemma fst_wrapping [simp]: "fst (wrapping s a) = fst a"
  by (cases "(s, a)" rule: wrapping.cases) auto

text \<open>The first diagnostic of severity error; the code looks at no other severity.\<close>

fun first_error :: "string \<Rightarrow> diagnostic list \<Rightarrow> goerror option" where
  "first_error what [] = None"
| "first_error what (d # ds) =
     (if dg_severity d = SeverityError
      then Some (ErrorString (what @ '': '' @ dg_summary d @ '' - '' @ dg_detail d))
      else first_error what ds)"

lemma first_error_None: "first_error what ds = None \<longleftrightarrow> (\<forall>d \<in> set ds. dg_severity d \<noteq> SeverityError)"
  by (induction ds) auto

definition check_diagnostics :: "string \<Rightarrow> diagnostic list \<Rightarrow> 'a \<Rightarrow> 'w \<Rightarrow> ('w, 'a) attempt" where
  "check_diagnostics what ds x w = (w, case first_error what ds of Some e \<Rightarrow> Inl e | None \<Rightarrow> Inr x)"

section \<open>Operations\<close>

definition wrapper_schema :: "('w, 'c, 'd) plugin_client \<Rightarrow> 'c \<Rightarrow> 'w \<Rightarrow> ('w, plugin_schema) attempt" where
  "wrapper_schema pc c w = pc_schema pc c w"

text \<open>The message of the configuration: empty only if the completed configuration is, or if there is no schema for it.\<close>

definition configuration_message ::
  "('v, 'd) value_ops \<Rightarrow> schema_block option \<Rightarrow> gmap \<Rightarrow> goerror + 'd" where
  "configuration_message vo schema config =
     (case schema of
        Some b \<Rightarrow> (if config \<noteq> [] then create_dynamic_value vo config b else Inr (vo_nil vo))
      | None \<Rightarrow> Inr (vo_nil vo))"

definition wrapper_configure ::
  "('w, 'c, 'd) plugin_client \<Rightarrow> ('v, 'd) value_ops \<Rightarrow> string \<Rightarrow> 'c \<Rightarrow> gmap \<Rightarrow> 'w \<Rightarrow> ('w, unit) attempt" where
  "wrapper_configure pc vo name c config w =
     and_then (wrapping ''failed to get provider schema: '' (pc_schema pc c w)) (\<lambda>schema w.
       and_then
         (wrapping ''failed to create config dynamic value: ''
           (w, configuration_message vo (ps_provider schema) (complete_provider_config (ps_provider schema) config name)))
         (\<lambda>msg w.
            and_then (wrapping ''failed to configure provider: '' (pc_configure pc c msg w)) (\<lambda>ds w.
              check_diagnostics ''provider configuration error'' ds () w)))"

definition block_of ::
  "('w, 'c, 'd) plugin_client \<Rightarrow> 'c \<Rightarrow> (plugin_schema \<Rightarrow> (string \<times> schema_block) list) \<Rightarrow> string \<Rightarrow> string \<Rightarrow> 'w \<Rightarrow>
     ('w, schema_block) attempt" where
  "block_of pc c blocks what ty w =
     and_then (wrapping ''failed to get schema: '' (pc_schema pc c w)) (\<lambda>schema w.
       (w, case map_of (blocks schema) ty of
             None \<Rightarrow> Inl (ErrorString (what @ '' type '' @ ty @ '' not found in schema''))
           | Some b \<Rightarrow> Inr b))"

definition message_of ::
  "('v, 'd) value_ops \<Rightarrow> string \<Rightarrow> gmap \<Rightarrow> schema_block \<Rightarrow> 'w \<Rightarrow> ('w, 'd) attempt" where
  "message_of vo what m b w = wrapping (''failed to create '' @ what @ '' dynamic value: '') (w, create_dynamic_value vo m b)"

definition data_of :: "('v, 'd) value_ops \<Rightarrow> schema_block \<Rightarrow> 'd option \<Rightarrow> 'w \<Rightarrow> ('w, gmap option) attempt" where
  "data_of vo b d w = wrapping ''failed to convert result to map: '' (w, convert_dynamic_value_to_map vo d (sb_type b))"

definition wrapper_plan ::
  "('w, 'c, 'd) plugin_client \<Rightarrow> ('v, 'd) value_ops \<Rightarrow> 'c \<Rightarrow> string \<Rightarrow> gmap \<Rightarrow> gmap \<Rightarrow> 'w \<Rightarrow> ('w, 'd plan_response) attempt" where
  "wrapper_plan pc vo c ty prior config w =
     and_then (block_of pc c ps_resources ''resource'' ty w) (\<lambda>b w.
       and_then (if prior \<noteq> [] then message_of vo ''prior state'' prior b w else (w, Inr (vo_nil vo))) (\<lambda>p w.
         and_then (message_of vo ''config'' config b w) (\<lambda>cfg w.
           pc_plan pc c \<lparr>pq_type = ty, pq_prior = p, pq_proposed = cfg, pq_config = cfg\<rparr> w)))"

text \<open>
  Plan a change and apply the plan, the common part of creation, update and deletion. A plan that requires a
  replacement is applied like any other.
\<close>

definition plan_and_apply ::
  "('w, 'c, 'd) plugin_client \<Rightarrow> 'c \<Rightarrow> string \<Rightarrow> 'd plan_request \<Rightarrow> 'w \<Rightarrow> ('w, 'd option) attempt" where
  "plan_and_apply pc c verb rq w =
     and_then (wrapping (''failed to plan resource '' @ verb @ '': '') (pc_plan pc c rq w)) (\<lambda>plan w.
       and_then (check_diagnostics ''plan error'' (pr_diagnostics plan) () w) (\<lambda>_ w.
         and_then
           (wrapping (''failed to apply resource '' @ verb @ '': '')
             (pc_apply pc c
                \<lparr>aq_type = pq_type rq, aq_config = pq_config rq, aq_planned = pr_planned plan, aq_prior = pq_prior rq\<rparr> w))
           (\<lambda>(state, ds) w. check_diagnostics ''apply error'' ds state w)))"

definition wrapper_create ::
  "('w, 'c, 'd) plugin_client \<Rightarrow> ('v, 'd) value_ops \<Rightarrow> 'c \<Rightarrow> string \<Rightarrow> gmap \<Rightarrow> 'w \<Rightarrow> ('w, gmap option) attempt" where
  "wrapper_create pc vo c ty config w =
     and_then (block_of pc c ps_resources ''resource'' ty w) (\<lambda>b w.
       and_then (message_of vo ''config'' config b w) (\<lambda>cfg w.
         and_then
           (plan_and_apply pc c ''creation'' \<lparr>pq_type = ty, pq_prior = vo_nil vo, pq_proposed = cfg, pq_config = cfg\<rparr> w)
           (data_of vo b)))"

definition wrapper_read ::
  "('w, 'c, 'd) plugin_client \<Rightarrow> ('v, 'd) value_ops \<Rightarrow> 'c \<Rightarrow> string \<Rightarrow> gmap \<Rightarrow> 'w \<Rightarrow> ('w, gmap option) attempt" where
  "wrapper_read pc vo c ty state w =
     and_then (block_of pc c ps_resources ''resource'' ty w) (\<lambda>b w.
       and_then (message_of vo ''state'' state b w) (\<lambda>s w.
         and_then (wrapping ''failed to read resource: '' (pc_read pc c ty s w)) (\<lambda>(r, ds) w.
           and_then (check_diagnostics ''read error'' ds r w) (data_of vo b))))"

definition wrapper_update ::
  "('w, 'c, 'd) plugin_client \<Rightarrow> ('v, 'd) value_ops \<Rightarrow> 'c \<Rightarrow> string \<Rightarrow> gmap \<Rightarrow> gmap \<Rightarrow> 'w \<Rightarrow> ('w, gmap option) attempt" where
  "wrapper_update pc vo c ty prior config w =
     and_then (block_of pc c ps_resources ''resource'' ty w) (\<lambda>b w.
       and_then (message_of vo ''prior state'' prior b w) (\<lambda>p w.
         and_then (message_of vo ''config'' config b w) (\<lambda>cfg w.
           and_then
             (plan_and_apply pc c ''update'' \<lparr>pq_type = ty, pq_prior = p, pq_proposed = cfg, pq_config = cfg\<rparr> w)
             (data_of vo b))))"

definition wrapper_delete ::
  "('w, 'c, 'd) plugin_client \<Rightarrow> ('v, 'd) value_ops \<Rightarrow> 'c \<Rightarrow> string \<Rightarrow> gmap \<Rightarrow> 'w \<Rightarrow> ('w, unit) attempt" where
  "wrapper_delete pc vo c ty state w =
     and_then (block_of pc c ps_resources ''resource'' ty w) (\<lambda>b w.
       and_then (message_of vo ''state'' state b w) (\<lambda>s w.
         and_then
           (plan_and_apply pc c ''deletion''
             \<lparr>pq_type = ty, pq_prior = s, pq_proposed = vo_nil vo, pq_config = vo_nil vo\<rparr> w)
           (\<lambda>_ w. (w, Inr ()))))"

definition wrapper_read_data ::
  "('w, 'c, 'd) plugin_client \<Rightarrow> ('v, 'd) value_ops \<Rightarrow> 'c \<Rightarrow> string \<Rightarrow> gmap \<Rightarrow> 'w \<Rightarrow> ('w, gmap option) attempt" where
  "wrapper_read_data pc vo c ty config w =
     and_then (block_of pc c ps_data_sources ''data source'' ty w) (\<lambda>b w.
       and_then (message_of vo ''config'' config b w) (\<lambda>cfg w.
         and_then (wrapping ''failed to read data source: '' (pc_read_data pc c ty cfg w)) (\<lambda>(r, ds) w.
           and_then (check_diagnostics ''data source read error'' ds r w) (data_of vo b))))"

section \<open>The calls of an operation\<close>

datatype 'd call =
    SchemaCall
  | ConfigureCall 'd
  | PlanCall "'d plan_request"
  | ApplyCall "'d apply_request"
  | ReadCall string 'd
  | ReadDataCall string 'd

text \<open>
  How a change goes: the plan is requested, and only if the plugin answers with a plan without errors is it
  applied, with its planned state and the prior state and the configuration it was made from.
\<close>

definition planned_change ::
  "('w, 'c, 'd) plugin_client \<Rightarrow> 'c \<Rightarrow> 'd plan_request \<Rightarrow> ('c \<times> 'd call) list \<Rightarrow> bool \<Rightarrow> bool" where
  "planned_change pc c rq calls done \<longleftrightarrow>
     (calls = [(c, PlanCall rq)] \<and> \<not> done) \<or>
     (\<exists>w w' plan aq. pc_plan pc c rq w = (w', Inr plan) \<and> calls = [(c, PlanCall rq), (c, ApplyCall aq)] \<and>
        (\<forall>d \<in> set (pr_diagnostics plan). dg_severity d \<noteq> SeverityError) \<and>
        aq = \<lparr>aq_type = pq_type rq, aq_config = pq_config rq, aq_planned = pr_planned plan, aq_prior = pq_prior rq\<rparr>)"

lemma planned_change_mono: "planned_change pc c rq calls p \<Longrightarrow> (q \<Longrightarrow> p) \<Longrightarrow> planned_change pc c rq calls q"
  by (auto simp: planned_change_def)

text \<open>
  An operation on \<open>c\<close> from world \<open>w\<close> to \<open>w'\<close>, where \<open>log\<close> reads the calls: it reads the schema and either fails, or
  it makes the plan request \<open>rq b\<close> for a block \<open>b\<close> of the schema.
\<close>

definition changes_by ::
  "('w, 'c, 'd) plugin_client \<Rightarrow> ('w \<Rightarrow> ('c \<times> 'd call) list) \<Rightarrow> 'c \<Rightarrow> (schema_block \<Rightarrow> goerror + 'd plan_request) \<Rightarrow>
     'w \<Rightarrow> 'w \<Rightarrow> bool \<Rightarrow> bool" where
  "changes_by pc log c rq w w' done \<longleftrightarrow>
     (log w' = log w @ [(c, SchemaCall)] \<and> \<not> done) \<or>
     (\<exists>b q calls. rq b = Inr q \<and> log w' = log w @ (c, SchemaCall) # calls \<and> planned_change pc c q calls done)"

text \<open>A world that keeps the calls of its plugins in \<open>log\<close>, in their order.\<close>

locale plugin_log =
  fixes pc :: "('w, 'c, 'd) plugin_client" and log :: "'w \<Rightarrow> ('c \<times> 'd call) list"
  assumes schema_logged [simp]: "log (fst (pc_schema pc c w)) = log w @ [(c, SchemaCall)]"
    and configure_logged [simp]: "log (fst (pc_configure pc c d w)) = log w @ [(c, ConfigureCall d)]"
    and plan_logged [simp]: "log (fst (pc_plan pc c rq w)) = log w @ [(c, PlanCall rq)]"
    and apply_logged [simp]: "log (fst (pc_apply pc c aq w)) = log w @ [(c, ApplyCall aq)]"
    and read_logged [simp]: "log (fst (pc_read pc c ty d w)) = log w @ [(c, ReadCall ty d)]"
    and read_data_logged [simp]: "log (fst (pc_read_data pc c ty d w)) = log w @ [(c, ReadDataCall ty d)]"
begin



lemma planned_and_applied:
  assumes "plan_and_apply pc c verb rq w = (w', r)"
  shows "\<exists>calls. log w' = log w @ calls \<and> planned_change pc c rq calls (\<exists>s. r = Inr s)"
proof (cases "pc_plan pc c rq w")
  case (Pair w1 p)
  then have log1: "log w1 = log w @ [(c, PlanCall rq)]" using plan_logged [of c rq w] by simp
  show ?thesis
  proof (cases p)
    case (Inl e)
    then show ?thesis using assms Pair log1 by (auto simp: plan_and_apply_def planned_change_def)
  next
    case (Inr plan)
    show ?thesis
    proof (cases "first_error ''plan error'' (pr_diagnostics plan)")
      case None
      let ?aq = "\<lparr>aq_type = pq_type rq, aq_config = pq_config rq, aq_planned = pr_planned plan, aq_prior = pq_prior rq\<rparr>"
      have "log w' = log w @ [(c, PlanCall rq), (c, ApplyCall ?aq)]"
        using assms Pair Inr None log1 apply_logged [of c ?aq w1]
        by (cases "pc_apply pc c ?aq w1"; cases "snd (pc_apply pc c ?aq w1)")
           (auto simp: plan_and_apply_def check_diagnostics_def split: prod.splits)
      then show ?thesis using Pair Inr None by (auto simp: planned_change_def first_error_None)
    next
      case (Some e)
      then show ?thesis using assms Pair Inr log1
        by (auto simp: plan_and_apply_def planned_change_def check_diagnostics_def)
    qed
  qed
qed

lemma block_logged: "block_of pc c blocks what ty w = (w', r) \<Longrightarrow> log w' = log w @ [(c, SchemaCall)]"
  using schema_logged [of c w]
  by (cases "pc_schema pc c w"; cases "snd (pc_schema pc c w)") (auto simp: block_of_def)

lemma changes_byI:
  assumes "block_of pc c blocks what ty w = (w1, Inr b)" and "rq b = Inr q"
    and "and_then (plan_and_apply pc c verb q w1) f = (w', r)" and "done \<longleftrightarrow> (\<exists>s. r = Inr s)"
    and "\<And>x w. fst (f x w) = w"
  shows "changes_by pc log c rq w w' done"
proof -
  obtain w2 p where p: "plan_and_apply pc c verb q w1 = (w2, p)" by (cases "plan_and_apply pc c verb q w1")
  have "w' = w2 \<and> ((\<exists>s. r = Inr s) \<longrightarrow> (\<exists>s. p = Inr s))"
  proof (cases p)
    case (Inr x)
    then have "f x w2 = (w', r)" using assms(3) p by simp
    then have "w' = w2" using assms(5) [of x w2] by simp
    then show ?thesis using Inr by simp
  qed (use assms(3) p in auto)
  moreover obtain calls where "log w2 = log w1 @ calls" "planned_change pc c q calls (\<exists>s. p = Inr s)"
    using planned_and_applied [OF p] by blast
  ultimately have "log w' = log w @ (c, SchemaCall) # calls" "planned_change pc c q calls done"
    using block_logged [OF assms(1)] assms(4) planned_change_mono [of pc c q calls "\<exists>s. p = Inr s" "done"] by simp_all
  then show ?thesis using assms(2) unfolding changes_by_def by blast
qed

lemma changes_by_blockE:
  assumes "and_then (block_of pc c blocks what ty w) f = (w', r)"
    and "\<And>w1 b. block_of pc c blocks what ty w = (w1, Inr b) \<Longrightarrow> f b w1 = (w', r) \<Longrightarrow>
           changes_by pc log c rq w w' (\<exists>s. r = Inr s)"
  shows "changes_by pc log c rq w w' (\<exists>s. r = Inr s)"
proof (cases "block_of pc c blocks what ty w")
  case (Pair w1 b)
  then show ?thesis using assms block_logged [OF Pair] by (cases b) (auto simp: changes_by_def)
qed

lemma changes_by_error:
  "block_of pc c blocks what ty w = (w', Inr b) \<Longrightarrow> changes_by pc log c rq w w' False"
  using block_logged by (simp add: changes_by_def)

lemma fst_data_of [simp]: "fst (data_of vo b x w) = w"
  by (simp add: data_of_def)

lemma message_Inl: "create_dynamic_value vo m b = Inl e \<Longrightarrow> message_of vo what m b w = (w, Inl (WrapError (''failed to create '' @ what @ '' dynamic value: '') e ''''))"
  by (simp add: message_of_def)

lemma message_Inr: "create_dynamic_value vo m b = Inr d \<Longrightarrow> message_of vo what m b w = (w, Inr d)"
  by (simp add: message_of_def)

lemma created_by:
  assumes "wrapper_create pc vo c ty config w = (w', r)"
  shows "changes_by pc log c
     (\<lambda>b. map_sum id (\<lambda>cfg. \<lparr>pq_type = ty, pq_prior = vo_nil vo, pq_proposed = cfg, pq_config = cfg\<rparr>)
            (create_dynamic_value vo config b)) w w' (\<exists>s. r = Inr s)"
  using assms unfolding wrapper_create_def
proof (rule changes_by_blockE, goal_cases)
  case (1 w1 b)
  show ?case
  proof (cases "create_dynamic_value vo config b")
    case Inr
    then show ?thesis using 1(2) by (intro changes_byI [OF 1(1)]) (auto simp: message_Inr)
  qed (use 1 in \<open>auto simp: message_Inl intro: changes_by_error\<close>)
qed

lemma updated_by:
  assumes "wrapper_update pc vo c ty prior config w = (w', r)"
  shows "changes_by pc log c
     (\<lambda>b. case create_dynamic_value vo prior b of
            Inl e \<Rightarrow> Inl e
          | Inr p \<Rightarrow> map_sum id (\<lambda>cfg. \<lparr>pq_type = ty, pq_prior = p, pq_proposed = cfg, pq_config = cfg\<rparr>)
                      (create_dynamic_value vo config b)) w w' (\<exists>s. r = Inr s)"
  using assms unfolding wrapper_update_def
proof (rule changes_by_blockE, goal_cases)
  case (1 w1 b)
  show ?case
  proof (cases "create_dynamic_value vo prior b")
    case (Inr p)
    show ?thesis
    proof (cases "create_dynamic_value vo config b")
      case cfg: Inr
      then show ?thesis using 1(2) Inr by (intro changes_byI [OF 1(1)]) (auto simp: message_Inr)
    qed (use 1 Inr in \<open>auto simp: message_Inl message_Inr intro: changes_by_error\<close>)
  qed (use 1 in \<open>auto simp: message_Inl intro: changes_by_error\<close>)
qed

lemma deleted_by:
  assumes "wrapper_delete pc vo c ty state w = (w', r)"
  shows "changes_by pc log c
     (\<lambda>b. map_sum id (\<lambda>s. \<lparr>pq_type = ty, pq_prior = s, pq_proposed = vo_nil vo, pq_config = vo_nil vo\<rparr>)
            (create_dynamic_value vo state b)) w w' (\<exists>s. r = Inr s)"
  using assms unfolding wrapper_delete_def
proof (rule changes_by_blockE, goal_cases)
  case (1 w1 b)
  show ?case
  proof (cases "create_dynamic_value vo state b")
    case Inr
    then show ?thesis using 1(2) by (intro changes_byI [OF 1(1)]) (auto simp: message_Inr)
  qed (use 1 in \<open>auto simp: message_Inl intro: changes_by_error\<close>)
qed

end

section \<open>A plugin that plans and applies what is proposed\<close>

definition echo_plugin :: "plugin_schema \<Rightarrow> (('c \<times> 'd call) list, 'c, 'd) plugin_client" where
  "echo_plugin schema =
     \<lparr>pc_schema = \<lambda>c w. (w @ [(c, SchemaCall)], Inr schema),
      pc_configure = \<lambda>c d w. (w @ [(c, ConfigureCall d)], Inr []),
      pc_plan = \<lambda>c rq w. (w @ [(c, PlanCall rq)],
        Inr \<lparr>pr_planned = Some (pq_proposed rq), pr_requires_replace = [], pr_diagnostics = []\<rparr>),
      pc_apply = \<lambda>c aq w. (w @ [(c, ApplyCall aq)], Inr (aq_planned aq, [])),
      pc_read = \<lambda>c ty d w. (w @ [(c, ReadCall ty d)], Inr (Some d, [])),
      pc_read_data = \<lambda>c ty d w. (w @ [(c, ReadDataCall ty d)], Inr (Some d, []))\<rparr>"

interpretation echo: plugin_log "echo_plugin schema" "\<lambda>w. w"
  by unfold_locales (simp_all add: echo_plugin_def)

text \<open>
  C26: nothing changes without a plan. Creating, updating and deleting a resource read the schema, request a plan (from
  nothing to the configuration, from the prior state to the configuration, from the state to nothing) and apply
  exactly the plan the plugin answered, if it has no error; only then can they succeed.
\<close>

theorem changes_follow_plans:
  assumes "plugin_log pc log"
  shows "changes_by pc log c
           (\<lambda>b. map_sum id (\<lambda>cfg. \<lparr>pq_type = ty, pq_prior = vo_nil vo, pq_proposed = cfg, pq_config = cfg\<rparr>)
                  (create_dynamic_value vo config b))
           w (fst (wrapper_create pc vo c ty config w)) (\<exists>s. snd (wrapper_create pc vo c ty config w) = Inr s) \<and>
         changes_by pc log c
           (\<lambda>b. case create_dynamic_value vo prior b of
                  Inl e \<Rightarrow> Inl e
                | Inr p \<Rightarrow> map_sum id (\<lambda>cfg. \<lparr>pq_type = ty, pq_prior = p, pq_proposed = cfg, pq_config = cfg\<rparr>)
                            (create_dynamic_value vo config b))
           w (fst (wrapper_update pc vo c ty prior config w)) (\<exists>s. snd (wrapper_update pc vo c ty prior config w) = Inr s) \<and>
         changes_by pc log c
           (\<lambda>b. map_sum id (\<lambda>s. \<lparr>pq_type = ty, pq_prior = s, pq_proposed = vo_nil vo, pq_config = vo_nil vo\<rparr>)
                  (create_dynamic_value vo prior b))
           w (fst (wrapper_delete pc vo c ty prior w)) (\<exists>s. snd (wrapper_delete pc vo c ty prior w) = Inr s)"
  using plugin_log.created_by [OF assms prod.collapse [symmetric]] plugin_log.updated_by [OF assms prod.collapse [symmetric]]
    plugin_log.deleted_by [OF assms prod.collapse [symmetric]]
  by blast

definition bucket_schema :: plugin_schema where
  "bucket_schema = \<lparr>ps_provider = None, ps_resources = [(''aws_s3_bucket'', bucket_block)], ps_data_sources = []\<rparr>"

lemma echo_plan_and_apply:
  "plan_and_apply (echo_plugin schema) c verb rq w =
     (w @ [(c, PlanCall rq), (c, ApplyCall \<lparr>aq_type = pq_type rq, aq_config = pq_config rq,
             aq_planned = Some (pq_proposed rq), aq_prior = pq_prior rq\<rparr>)], Inr (Some (pq_proposed rq)))"
  by (simp add: plan_and_apply_def echo_plugin_def check_diagnostics_def)

lemma echo_block:
  "block_of (echo_plugin bucket_schema) c ps_resources ''resource'' ''aws_s3_bucket'' w =
     (w @ [(c, SchemaCall)], Inr bucket_block)"
  by (simp add: block_of_def echo_plugin_def bucket_schema_def)

lemma bucket_messages:
  "create_dynamic_value term_values [(''bucket'', GStr s)] bucket_block =
     Inr (Some (Term (sb_type bucket_block) (NamedContent
       [(''bucket'', Term TfString (PlainContent (GStr s))), (''arn'', Term TfString NullContent),
        (''versioned'', Term TfString NullContent)])))"
  by (simp add: create_dynamic_value_def bucket_block_def or_null_def term_values_def)

lemma bucket_data:
  "convert_dynamic_value_to_map term_values (Some (Some (Term (sb_type bucket_block) (NamedContent
       [(''bucket'', Term TfString (PlainContent (GStr s))), (''arn'', Term TfString NullContent),
        (''versioned'', Term TfString NullContent)])))) (sb_type bucket_block) =
     Inr (Some [(''bucket'', GStr s), (''arn'', GNil), (''versioned'', GNil)])"
proof -
  have t: "sb_type bucket_block = TfObject [(''bucket'', TfString), (''arn'', TfString), (''versioned'', TfString)]"
    by (simp add: bucket_block_def)
  then have "conforms (sb_type bucket_block) (GMap [(''bucket'', GStr s)])" by (simp add: data_at_def)
  from terms.dynamic_value_read_back [OF this t bucket_messages] show ?thesis by (simp add: data_at_def)
qed

theorem changes_follow_plans_witness:
  "\<exists>rq aq s. wrapper_update (echo_plugin bucket_schema) term_values () ''aws_s3_bucket'' [(''bucket'', GStr ''a'')]
        [(''bucket'', GStr ''b'')] [] = ([((), SchemaCall), ((), PlanCall rq), ((), ApplyCall aq)], Inr s) \<and>
     changes_by (echo_plugin bucket_schema) (\<lambda>w. w) ()
       (\<lambda>b. case create_dynamic_value term_values [(''bucket'', GStr ''a'')] b of
              Inl e \<Rightarrow> Inl e
            | Inr p \<Rightarrow> map_sum id (\<lambda>cfg. \<lparr>pq_type = ''aws_s3_bucket'', pq_prior = p, pq_proposed = cfg, pq_config = cfg\<rparr>)
                        (create_dynamic_value term_values [(''bucket'', GStr ''b'')] b))
       [] [((), SchemaCall), ((), PlanCall rq), ((), ApplyCall aq)] True"
proof -
  obtain rq aq s where u: "wrapper_update (echo_plugin bucket_schema) term_values () ''aws_s3_bucket'' [(''bucket'', GStr ''a'')]
      [(''bucket'', GStr ''b'')] [] = ([((), SchemaCall), ((), PlanCall rq), ((), ApplyCall aq)], Inr s)"
    by (simp add: wrapper_update_def message_of_def bucket_messages echo_block echo_plan_and_apply data_of_def bucket_data)
  from changes_follow_plans [OF echo.plugin_log_axioms, of bucket_schema "()" "''aws_s3_bucket''" term_values
      "[(''bucket'', GStr ''b'')]" "[]" "[(''bucket'', GStr ''a'')]"] u
  show ?thesis by auto
qed

end
