(* ===== verification/Provider_Adapter.thy ===== *)
theory Provider_Adapter
  imports Provider_Manager Provider_Wrapper Executor
begin

text \<open>
  The adapters between the executor and the plugins: \<^verbatim>\<open>internal/system/concrete_provider.go\<close>, the provider the
  executor works with, and \<^verbatim>\<open>internal/system/provider_adapter.go\<close>, its provider manager, over the provider manager
  of plugins and its wrappers. \<open>production_providers\<close> is the interface of the executor on all of them.
\<close>

section \<open>A provider\<close>

text \<open>The connections of the model: plugins, values and processes; the processes are probed and configured by the wrapper.\<close>

record ('w, 'c, 'v, 'd) plugin_stack =
  st_plugins :: "('w, 'c, 'd) plugin_client"
  st_values :: "('v, 'd) value_ops"
  st_host :: "('w, 'c) plugin_host"
  st_elapsed :: "'w \<Rightarrow> 'w \<Rightarrow> duration"

fun as_error :: "'w \<times> (goerror + 'a) \<Rightarrow> 'w \<times> goerror option" where
  "as_error (w, Inl e) = (w, Some e)"
| "as_error (w, Inr _) = (w, None)"

definition stack_host :: "('w, 'c, 'v, 'd) plugin_stack \<Rightarrow> ('w, 'c) plugin_host" where
  "stack_host st =
     (st_host st)
       \<lparr>ph_schema := \<lambda>c w. as_error (wrapper_schema (st_plugins st) c w),
        ph_configure := \<lambda>name c config w. as_error (wrapper_configure (st_plugins st) (st_values st) name c config w)\<rparr>"

definition concrete_create ::
  "('w, 'c, 'v, 'd) plugin_stack \<Rightarrow> 'c \<Rightarrow> string \<Rightarrow> gmap \<Rightarrow> 'w \<Rightarrow> ('w, gmap option) attempt" where
  "concrete_create st c ty props w =
     wrapping (''create resource '' @ ty @ '': '') (wrapper_create (st_plugins st) (st_values st) c ty props w)"

definition concrete_read ::
  "('w, 'c, 'v, 'd) plugin_stack \<Rightarrow> 'c \<Rightarrow> string \<Rightarrow> gmap \<Rightarrow> 'w \<Rightarrow> ('w, gmap option) attempt" where
  "concrete_read st c ty props w =
     wrapping (''read resource '' @ ty @ '': '') (wrapper_read (st_plugins st) (st_values st) c ty props w)"

text \<open>The properties come before the current state, and the wrapper takes them in the other order.\<close>

definition concrete_update ::
  "('w, 'c, 'v, 'd) plugin_stack \<Rightarrow> 'c \<Rightarrow> string \<Rightarrow> gmap \<Rightarrow> gmap \<Rightarrow> 'w \<Rightarrow> ('w, gmap option) attempt" where
  "concrete_update st c ty props current w =
     wrapping (''update resource '' @ ty @ '': '') (wrapper_update (st_plugins st) (st_values st) c ty current props w)"

definition concrete_delete ::
  "('w, 'c, 'v, 'd) plugin_stack \<Rightarrow> 'c \<Rightarrow> string \<Rightarrow> gmap \<Rightarrow> 'w \<Rightarrow> ('w, unit) attempt" where
  "concrete_delete st c ty current w =
     wrapping (''delete resource '' @ ty @ '': '') (wrapper_delete (st_plugins st) (st_values st) c ty current w)"

definition concrete_read_data ::
  "('w, 'c, 'v, 'd) plugin_stack \<Rightarrow> 'c \<Rightarrow> string \<Rightarrow> gmap \<Rightarrow> 'w \<Rightarrow> ('w, gmap option) attempt" where
  "concrete_read_data st c ty config w =
     wrapping (''read data source '' @ ty @ '': '') (wrapper_read_data (st_plugins st) (st_values st) c ty config w)"

text \<open>
  \<^verbatim>\<open>PlanResourceChange\<close>: the action follows from which of the states is empty and from the paths that require a
  replacement; the planned state is the proposed one. The wrapper is given the proposed state as the configuration.
\<close>

definition plan_action_for :: "gmap \<Rightarrow> gmap \<Rightarrow> string option list \<Rightarrow> plan_action" where
  "plan_action_for current proposed paths =
     (if current = [] then PlanActionCreate
      else if proposed = [] then PlanActionDelete
      else if paths \<noteq> [] then PlanActionReplace
      else PlanActionUpdate)"

definition concrete_plan ::
  "('w, 'c, 'v, 'd) plugin_stack \<Rightarrow> 'c \<Rightarrow> string \<Rightarrow> gmap option \<Rightarrow> gmap \<Rightarrow> 'w \<Rightarrow> ('w, resource_plan) attempt" where
  "concrete_plan st c ty current proposed w =
     and_then
       (wrapping (''plan resource change for '' @ ty @ '': '')
         (wrapper_plan (st_plugins st) (st_values st) c ty (nil_map current) proposed w))
       (\<lambda>resp w.
          (w, Inr \<lparr>rp_resource_type = ty,
                   rp_action = plan_action_for (nil_map current) proposed (pr_requires_replace resp),
                   rp_current_state = current, rp_proposed_state = Some proposed, rp_planned_state = Some proposed,
                   rp_requires_replace = List.map_filter (\<lambda>p. p) (pr_requires_replace resp)\<rparr>))"

definition concrete_apply ::
  "('w, 'c, 'v, 'd) plugin_stack \<Rightarrow> 'c \<Rightarrow> string \<Rightarrow> resource_plan \<Rightarrow> 'w \<Rightarrow> ('w, gmap option) attempt" where
  "concrete_apply st c ty plan w =
     (let pc = st_plugins st; vo = st_values st;
          current = nil_map (rp_current_state plan); proposed = nil_map (rp_proposed_state plan) in
      case rp_action plan of
        PlanActionCreate \<Rightarrow> wrapping (''apply create for '' @ ty @ '': '') (wrapper_create pc vo c ty proposed w)
      | PlanActionUpdate \<Rightarrow> wrapping (''apply update for '' @ ty @ '': '') (wrapper_update pc vo c ty current proposed w)
      | PlanActionDelete \<Rightarrow>
          and_then (wrapping (''apply delete for '' @ ty @ '': '') (wrapper_delete pc vo c ty current w)) (\<lambda>_ w. (w, Inr None))
      | PlanActionReplace \<Rightarrow>
          and_then (wrapping (''replace delete for '' @ ty @ '': '') (wrapper_delete pc vo c ty current w)) (\<lambda>_ w.
            wrapping (''replace create for '' @ ty @ '': '') (wrapper_create pc vo c ty proposed w))
      | PlanActionNoop \<Rightarrow> (w, Inr (rp_current_state plan))
      | PlanActionOther _ \<Rightarrow> (w, Inr (rp_current_state plan)))"

definition concrete_configure ::
  "('w, 'c, 'v, 'd) plugin_stack \<Rightarrow> string \<Rightarrow> 'c \<Rightarrow> gmap \<Rightarrow> 'w \<Rightarrow> ('w, unit) attempt" where
  "concrete_configure st name c config w =
     wrapping ''configure provider: '' (wrapper_configure (st_plugins st) (st_values st) name c config w)"

text \<open>\<^verbatim>\<open>Close\<close> of the wrapper stops the process twice, through its client and directly, and reports the first error.\<close>

definition wrapper_close :: "('w, 'c) plugin_host \<Rightarrow> 'c \<Rightarrow> 'w \<Rightarrow> 'w \<times> goerror option" where
  "wrapper_close ph c w =
     (case ph_stop ph c w of
        (w1, r1) \<Rightarrow>
          (case ph_stop ph c w1 of
             (w2, r2) \<Rightarrow>
               (w2, case r1 of
                      Some e \<Rightarrow> Some (WrapError ''failed to close unified client: '' e '''')
                    | None \<Rightarrow> map_option (\<lambda>e. WrapError ''failed to stop provider instance: '' e '''') r2)))"

definition concrete_close :: "('w, 'c, 'v, 'd) plugin_stack \<Rightarrow> 'c \<Rightarrow> 'w \<Rightarrow> 'w \<times> goerror option" where
  "concrete_close st c w =
     (case wrapper_close (stack_host st) c w of
        (w1, r) \<Rightarrow> (w1, map_option (\<lambda>e. WrapError ''close provider: '' e '''') r))"

section \<open>The provider manager of the executor\<close>

record ('w, 'c) adapter =
  ad_manager :: "('w, 'c) manager"
  ad_active :: int
  ad_total :: int
  ad_errors :: int
  ad_average :: duration
  ad_initialized :: bool

definition new_adapter :: "'w \<Rightarrow> ('w, 'c) adapter" where
  "new_adapter w =
     \<lparr>ad_manager = new_manager w, ad_active = 0, ad_total = 0, ad_errors = 0, ad_average = 0, ad_initialized = False\<rparr>"

definition adapter_get_provider ::
  "('w, 'c, 'v, 'd) plugin_stack \<Rightarrow> string \<Rightarrow> string \<Rightarrow> string \<Rightarrow> provider_config option \<Rightarrow> string \<Rightarrow> ('w, 'c) adapter \<Rightarrow>
     ('w, 'c) adapter \<times> (goerror + 'c plugin_instance)" where
  "adapter_get_provider st i name version cfg ty a =
     (case get_provider (stack_host st) i name version cfg (ad_manager a) of
        (m, Inl e) \<Rightarrow>
          (a\<lparr>ad_manager := m, ad_errors := ad_errors a + 1\<rparr>, Inl (WrapError (''failed to get provider '' @ name @ '': '') e ''''))
      | (m, Inr p) \<Rightarrow>
          (let t = st_elapsed st (pm_world (ad_manager a)) (pm_world m) in
           (a\<lparr>ad_manager := m, ad_active := ad_active a + 1, ad_total := ad_total a + 1,
              ad_average := (if ad_average a = 0 then t else go_quot (ad_average a + t) 2)\<rparr>, Inr p)))"

definition adapter_release_provider :: "string \<Rightarrow> string \<Rightarrow> ('w, 'c) adapter \<Rightarrow> ('w, 'c) adapter \<times> goerror option" where
  "adapter_release_provider i name a = (a\<lparr>ad_active := ad_active a - 1\<rparr>, None)"

definition adapter_shutdown_deployment ::
  "('w, 'c, 'v, 'd) plugin_stack \<Rightarrow> string \<Rightarrow> ('w, 'c) adapter \<Rightarrow> ('w, 'c) adapter \<times> goerror option" where
  "adapter_shutdown_deployment st i a =
     (case manager_shutdown_deployment (stack_host st) i (ad_manager a) of
        (m, Some e) \<Rightarrow> (a\<lparr>ad_manager := m\<rparr>, Some (WrapError (''failed to shutdown deployment '' @ i @ '': '') e ''''))
      | (m, None) \<Rightarrow> (a\<lparr>ad_manager := m, ad_active := (if ad_active a > 0 then 0 else ad_active a)\<rparr>, None))"

definition list_active_providers :: "('w, 'c) adapter \<Rightarrow> (string \<times> string \<times> bool) list" where
  "list_active_providers a = map (\<lambda>p. (pl_name p, pl_version p, pl_status p = ''running'')) (list_providers (ad_manager a))"

definition adapter_initialize :: "('w, 'c) adapter \<Rightarrow> ('w, 'c) adapter" where
  "adapter_initialize a = a\<lparr>ad_initialized := True\<rparr>"

text \<open>Errors of a connection that is closing already do not count.\<close>

definition adapter_shutdown :: "('w, 'c, 'v, 'd) plugin_stack \<Rightarrow> ('w, 'c) adapter \<Rightarrow> ('w, 'c) adapter \<times> goerror option" where
  "adapter_shutdown st a =
     (case close_manager (stack_host st) (ad_manager a) of
        (m, None) \<Rightarrow> (a\<lparr>ad_manager := m, ad_initialized := False\<rparr>, None)
      | (m, Some e) \<Rightarrow>
          (if str_contains (error_message e) ''grpc: the client connection is closing'' \<or>
              str_contains (error_message e) ''rpc error: code = Canceled''
           then (a\<lparr>ad_manager := m, ad_initialized := False\<rparr>, None)
           else (a\<lparr>ad_manager := m\<rparr>, Some (WrapError ''failed to close wrapped provider manager: '' e ''''))))"

definition adapter_clear_cache :: "('w, 'c) adapter \<Rightarrow> ('w, 'c) adapter" where
  "adapter_clear_cache a = a\<lparr>ad_manager := clear_provider_cache (ad_manager a)\<rparr>"

definition adapter_is_healthy :: "('w, 'c) adapter \<Rightarrow> bool" where
  "adapter_is_healthy a = ad_initialized a"

text \<open>A call of a provider works on the world of the manager.\<close>

definition on_world :: "('w \<Rightarrow> ('w, 'a) attempt) \<Rightarrow> ('w, 'c) adapter \<Rightarrow> ('w, 'c) adapter \<times> (goerror + 'a)" where
  "on_world f a =
     (case f (pm_world (ad_manager a)) of (w, r) \<Rightarrow> (a\<lparr>ad_manager := (ad_manager a)\<lparr>pm_world := w\<rparr>\<rparr>, r))"

definition production_providers ::
  "('w, 'c, 'v, 'd) plugin_stack \<Rightarrow> (('w, 'c) adapter, 'c plugin_instance) provider_ops" where
  "production_providers st =
     \<lparr>po_get = adapter_get_provider st,
      po_release = adapter_release_provider,
      po_create = \<lambda>p ty props. on_world (concrete_create st (pi_client p) ty props),
      po_update = \<lambda>p ty props current. on_world (concrete_update st (pi_client p) ty (nil_map props) current),
      po_delete = \<lambda>p ty current a. as_error (on_world (concrete_delete st (pi_client p) ty current) a),
      po_plan = \<lambda>p ty current proposed. on_world (concrete_plan st (pi_client p) ty current proposed),
      po_apply = \<lambda>p ty plan. on_world (concrete_apply st (pi_client p) ty plan),
      po_read = \<lambda>p ty config. on_world (concrete_read_data st (pi_client p) ty config)\<rparr>"

end
