(* ===== verification/Executor_Results.thy ===== *)
theory Executor_Results
  imports Executor_Samples
begin

text \<open>
  What an execution leaves behind: the events it publishes, the provider instances it gives
  back, and the Terraform state it saves.
\<close>

section \<open>Events\<close>

lemma fail_with_simps:
  "xs_events (fst (fail_with i e x)) = xs_events x @
     [ResultReady i ((xs_result x)\<lparr>dr_error := Some e\<rparr>),
      StatusChanged i (if dr_success (xs_result x) then StatusCompleted else StatusFailed)]"
  "snd (fail_with i e x) = Some e" "xs_store (fst (fail_with i e x)) = xs_store x"
  "xs_providers (fst (fail_with i e x)) = xs_providers x"
  by (simp_all add: fail_with_def store_result_def publish_def)

lemma mark_successful_simps:
  "xs_events (mark_successful i now x) = xs_events x @
     [ResultReady i ((xs_result x)\<lparr>dr_success := True, dr_completed_at := now\<rparr>), StatusChanged i StatusCompleted]"
  "xs_store (mark_successful i now x) = xs_store x" "xs_providers (mark_successful i now x) = xs_providers x"
  "xs_result (mark_successful i now x) = (xs_result x)\<lparr>dr_success := True, dr_completed_at := now\<rparr>"
  by (simp_all add: mark_successful_def store_result_def publish_def)

lemma publish_simps:
  "xs_events (publish ev x) = xs_events x @ [ev]" "xs_store (publish ev x) = xs_store x"
  "xs_providers (publish ev x) = xs_providers x" "xs_result (publish ev x) = xs_result x"
  by (simp_all add: publish_def)

text \<open>A loop of undisturbing steps ends quietly or with the common ending of a failure.\<close>

lemma process_each_cases:
  assumes "\<And>a y. undisturbed held y (fst (f a y))" and "process_each i label f as x = (x', r)"
  obtains "r = None" and "undisturbed held x x'"
    | y e where "r = Some e" and "undisturbed held x y" and "x' = fst (fail_with i e y)"
proof -
  have "(r = None \<and> undisturbed held x x') \<or>
      (\<exists>y e. r = Some e \<and> undisturbed held x y \<and> x' = fst (fail_with i e y))"
    using assms(2)
  proof (induction as arbitrary: x)
    case (Cons a as)
    obtain x1 r1 where step: "f a x = (x1, r1)" by fastforce
    have quiet: "undisturbed held x x1" using assms(1) [of x a] step by simp
    show ?case
    proof (cases r1)
      case None
      then have "process_each i label f as x1 = (x', r)" using Cons.prems step by simp
      from Cons.IH [OF this] quiet show ?thesis using undisturbed_trans by blast
    next
      case (Some e)
      then have "fail_with i (WrapError (label a) e '''') x1 = (x', r)" using Cons.prems step by simp
      then show ?thesis using quiet by (auto simp: fail_with_def)
    qed
  qed simp
  then show thesis using that by blast
qed

text \<open>An execution of a request reports its outcome: one result and one status that agree with it.\<close>

definition reports :: "string \<Rightarrow> event list \<Rightarrow> goerror option \<Rightarrow> deployment_result \<Rightarrow> event list \<Rightarrow> bool" where
  "reports i evs r res evs' \<longleftrightarrow>
     evs' = evs @ [ResultReady i res, StatusChanged i (if r = None then StatusCompleted else StatusFailed)] \<and>
     dr_error res = r \<and> dr_success res = (r = None) \<and> dr_deployment_id res = i"

lemma reports_failure:
  assumes "undisturbed held x0 x" and "dr_deployment_id (xs_result x0) = i" and "\<not> dr_success (xs_result x0)"
  shows "reports i (xs_events x0) (Some e) ((xs_result x)\<lparr>dr_error := Some e\<rparr>) (xs_events (fst (fail_with i e x)))"
  using assms by (simp add: reports_def undisturbed_def fail_with_simps)

lemma reports_success:
  assumes "undisturbed held x0 x" and "dr_deployment_id (xs_result x0) = i" and "dr_error (xs_result x0) = None"
  shows "reports i (xs_events x0) None ((xs_result x)\<lparr>dr_success := True, dr_completed_at := now\<rparr>)
    (xs_events (mark_successful i now x))"
  using assms by (simp add: reports_def undisturbed_def mark_successful_simps)

lemma new_result_simps [simp]:
  "dr_deployment_id (new_result i) = i" "\<not> dr_success (new_result i)" "dr_error (new_result i) = None"
  "dr_resources (new_result i) = Some []"
  by (simp_all add: new_result_def)

lemma process_each_inv:
  assumes "process_each i label f as x = (x', None)" and "P x"
    and "\<And>a y y'. a \<in> set as \<Longrightarrow> P y \<Longrightarrow> f a y = (y', None) \<Longrightarrow> P y'"
  shows "P x'"
  using assms
proof (induction as arbitrary: x)
  case (Cons a as)
  then obtain x1 where x1: "f a x = (x1, None)" "process_each i label f as x1 = (x', None)"
    by (auto simp: fail_with_def split: prod.splits option.splits)
  have "P x1" using Cons.prems(2,3) x1(1) list.set_intros(1) by metis
  from x1(2) this show ?case by (rule Cons.IH) (meson Cons.prems(3) list.set_intros(2))
qed simp

lemma with_provider_None:
  assumes "with_provider P i n v c t body x = (x', None)"
  obtains inst p y p' where "body inst (x\<lparr>xs_providers := p\<rparr>) = (y, None)" and "x' = y\<lparr>xs_providers := p'\<rparr>"
  using assms by (auto simp: with_provider_def split: prod.splits sum.splits)

lemma data_source_keeps:
  assumes "process_data_source ex i vs cs d x = (x', None)"
  shows "xs_store x' = xs_store x \<and> dr_resources (xs_result x') = dr_resources (xs_result x)"
  using assms unfolding process_data_source_def Let_def
  by (rule with_provider_None)
     (auto simp: put_result_output_def split: sum.splits prod.splits)

lemma regular_cases:
  assumes "leases (ex_providers ex) held u" and "execute_regular_deployment ex i rq x = Some (x', r)"
  obtains (failure) y e where "r = Some e" and "x' = fst (fail_with i e y)"
      and "undisturbed held (x\<lparr>xs_result := new_result i\<rparr>) y"
    | (success) x1 rs y where "r = None" and "x' = mark_successful i (ex_now ex) y"
      and "sort_resources_by_dependencies (ex_resolver ex) (req_resources rq) = Some (Inr rs)"
      and "process_each i resource_label (process_resource ex i (opt_dry_run (req_options rq))
             (request_provider_versions rq) (request_provider_configs rq)) rs x1 = (y, None)"
      and "undisturbed held (x\<lparr>xs_result := new_result i\<rparr>) x1" and "undisturbed held x1 y"
      and "xs_store x1 = xs_store x" and "dr_resources (xs_result x1) = Some []"
proof -
  let ?vs = "request_provider_versions rq" and ?cs = "request_provider_configs rq"
  let ?x = "x\<lparr>xs_result := new_result i, xs_deployed := context_resources ex i (xs_store x)\<rparr>"
  let ?data = "process_data_source ex i ?vs ?cs"
  let ?run = "process_resource ex i (opt_dry_run (req_options rq)) ?vs ?cs"
  obtain x1 r1 where data: "process_each i data_source_label ?data (req_data_sources rq) ?x = (x1, r1)" by fastforce
  have start: "undisturbed held (x\<lparr>xs_result := new_result i\<rparr>) y" if "undisturbed held ?x y" for y
    using that by (simp add: undisturbed_def)
  show thesis
  proof (cases rule: process_each_cases [OF process_data_source_undisturbed [OF assms(1)] data])
    case (2 y e)
    then have "x' = x1" "r = Some e" using assms(2) data by (simp_all add: execute_regular_deployment_def Let_def)
    then show thesis using failure [of e y] 2 start by simp
  next
    case 1
    have kept: "xs_store x1 = xs_store ?x \<and> dr_resources (xs_result x1) = dr_resources (xs_result ?x)"
      using data unfolding 1(1)
      by (rule process_each_inv [where P = "\<lambda>y. xs_store y = xs_store ?x \<and> dr_resources (xs_result y) = dr_resources (xs_result ?x)"])
         (auto dest: data_source_keeps)
    have u1: "undisturbed held (x\<lparr>xs_result := new_result i\<rparr>) x1" using 1(2) start by blast
    from assms(2) data 1(1) consider
        (unsorted) e where "fail_with i e x1 = (x', r)"
      | (run) rs where "sort_resources_by_dependencies (ex_resolver ex) (req_resources rq) = Some (Inr rs)"
          "(case process_each i resource_label ?run rs x1 of (x2, Some e) \<Rightarrow> (x2, Some e)
            | (x2, None) \<Rightarrow> (mark_successful i (ex_now ex) x2, None)) = (x', r)"
      by (auto simp: execute_regular_deployment_def Let_def split: option.splits sum.splits prod.splits)
    then show thesis
    proof cases
      case (unsorted e)
      then have "x' = fst (fail_with i e x1)" "r = Some e" using fail_with_simps(2) [of i e x1] by simp_all
      then show thesis using failure u1 by blast
    next
      case (run rs)
      obtain x2 r2 where x2: "process_each i resource_label ?run rs x1 = (x2, r2)" by fastforce
      show thesis
      proof (cases rule: process_each_cases [OF process_resource_undisturbed [OF assms(1)] x2])
        case 1
        then show thesis using success [of x2 rs x1] run x2 u1 kept by simp
      next
        case (2 y e)
        then show thesis using failure [of e y] run(2) x2 undisturbed_trans [OF u1] by simp
      qed
    qed
  qed
qed

text \<open>
  C36: a regular execution publishes exactly one result and one status after it: the result carries the
  error the execution returns and is successful exactly if there is none, and the status is
  completed or failed accordingly.
\<close>

theorem regular_execution_reports_outcome:
  assumes "execute_regular_deployment ex i rq x = Some (x', r)"
  shows "\<exists>res. reports i (xs_events x) r res (xs_events x')"
proof (cases rule: regular_cases [OF leases_zero assms])
  case (1 y e)
  then show ?thesis using reports_failure [OF 1(3)] by auto
next
  case (2 x1 rs y)
  then show ?thesis using reports_success [OF undisturbed_trans [OF 2(5,6)]] by auto
qed

lemma sample_run:
  "\<exists>x'. execute_regular_deployment sample_executor ''d1'' (sample_request [sample_bucket] None) sample_start = Some (x', None)"
  by (simp add: execute_regular_deployment_def sample_executor_def sample_request_def sample_start_def Let_def
      single_sorted sample_bucket_facts process_resource_def with_provider_def counting_provider_def
      interpolate_properties_def split: option.split)

theorem regular_execution_reports_outcome_witness:
  "\<exists>x' res. execute_regular_deployment sample_executor ''d1'' (sample_request [sample_bucket] None) sample_start =
      Some (x', None) \<and> reports ''d1'' [] None res (xs_events x')"
proof -
  obtain x' where run: "execute_regular_deployment sample_executor ''d1'' (sample_request [sample_bucket] None) sample_start =
      Some (x', None)"
    using sample_run by blast
  from regular_execution_reports_outcome [OF run] run show ?thesis by (auto simp: sample_start_def)
qed

section \<open>Destruction\<close>

lemma destroy_each_undisturbed:
  assumes "leases (ex_providers ex) held u"
  shows "xs_events (destroy_each ex i vs rs x) = xs_events x \<and>
     held (xs_providers (destroy_each ex i vs rs x)) = held (xs_providers x) \<and>
     dr_deployment_id (xs_result (destroy_each ex i vs rs x)) = dr_deployment_id (xs_result x)"
proof (induction rs arbitrary: x)
  case (Cons r rs)
  obtain x1 r1 where d: "destroy_resource ex i vs r x = (x1, r1)" by fastforce
  have "undisturbed held x x1" using destroy_resource_undisturbed [OF assms, of x i vs r] d by simp
  then show ?case using d Cons
    by (cases r1) (simp_all add: undisturbed_def put_result_resource_def)
qed simp

text \<open>The resources whose destruction failed, by key.\<close>

definition failed_entry :: "gval \<Rightarrow> bool" where
  "failed_entry v \<longleftrightarrow> (\<exists>e. v = GMap [(''status'', GStr ''failed''), (''error'', GStr e)])"

text \<open>
  C37: the destruction of a deployment reports success whatever happened to its resources: once the
  resources are sorted, the execution returns no error, the destruction is completed, and the
  original deployment becomes destroyed, also if no provider could delete anything.
\<close>

theorem destruction_always_succeeds:
  assumes "request_string ''original_deployment_id'' rq = Some original"
    and "sort_resources_for_destruction (ex_resolver ex) (req_resources rq) = Some (Inr rs)"
  shows "\<exists>x' res. execute_destroy ex d rq x = Some (x', None) \<and> dr_success res \<and>
     xs_events x' = xs_events x @ [ResultReady (qd_id d) res, StatusChanged (qd_id d) StatusCompleted,
                                   StatusChanged original StatusDestroyed]"
proof -
  let ?y = "destroy_each ex original (request_provider_versions rq) rs (x\<lparr>xs_result := new_result (qd_id d)\<rparr>)"
  have "xs_events ?y = xs_events x"
    using destroy_each_undisturbed [OF leases_zero, THEN conjunct1] by (rule trans) simp
  then show ?thesis
    using assms by (simp add: execute_destroy_def Let_def publish_simps mark_successful_simps)
qed

text \<open>A provider that deletes nothing: the destruction still succeeds.\<close>

definition stubborn_executor :: "(file_store, int, unit, dependency_graph) executor" where
  "stubborn_executor =
     sample_executor\<lparr>ex_providers := counting_provider\<lparr>po_delete := (\<lambda>j t m p. (p, Some (ErrorString ''denied'')))\<rparr>\<rparr>"

definition destroy_request :: deployment_request where
  "destroy_request =
     sample_request [sample_bucket]
       (Some [(''operation'', MetaVal (GStr ''destroy'')), (''original_deployment_id'', MetaVal (GStr ''d1''))])"

theorem destruction_always_succeeds_witness:
  "\<exists>x' res. execute_destroy stubborn_executor (sample_queued destroy_request) destroy_request sample_start = Some (x', None) \<and>
     dr_success res \<and> xs_events x' = [ResultReady ''job-1'' res, StatusChanged ''job-1'' StatusCompleted,
       StatusChanged ''d1'' StatusDestroyed]"
proof -
  have original: "request_string ''original_deployment_id'' destroy_request = Some ''d1''"
    by (simp add: request_string_def destroy_request_def sample_request_def)
  have sorted: "sort_resources_for_destruction (ex_resolver stubborn_executor) (req_resources destroy_request) =
      Some (Inr [sample_bucket])"
    by (simp add: stubborn_executor_def sample_executor_def destroy_request_def sample_request_def single_sorted
        sample_bucket_facts)
  from destruction_always_succeeds [OF original sorted, of "sample_queued destroy_request" sample_start]
  show ?thesis by (simp add: sample_queued_def sample_start_def)
qed

section \<open>Updates\<close>

lemma with_provider_Some:
  assumes "with_provider P i n v c t body x = (x', Some e)"
  obtains p where "x' = x\<lparr>xs_providers := p\<rparr>"
    | inst p y p' where "body inst (x\<lparr>xs_providers := p\<rparr>) = (y, Some e)" and "x' = y\<lparr>xs_providers := p'\<rparr>"
  using assms by (auto simp: with_provider_def split: prod.splits sum.splits)

text \<open>A creation and a deletion touch neither the store nor any other entry of the result.\<close>

lemma apply_plan_store:
  assumes "\<And>a y. xs_store (k a y) = xs_store y"
  shows "xs_store (fst (apply_plan ex inst ty rp msg k x)) = xs_store x"
  by (simp add: apply_plan_def assms split: prod.split sum.split)

lemma with_provider_store:
  assumes "\<And>inst y. xs_store (fst (body inst y)) = xs_store y"
  shows "xs_store (fst (with_provider P i n v c t body x)) = xs_store x"
proof (cases "po_get P i n v c t (xs_providers x)")
  case (Pair p r)
  then show ?thesis
  proof (cases r)
    case (Inr inst)
    obtain y r' where y: "body inst (x\<lparr>xs_providers := p\<rparr>) = (y, r')" by fastforce
    then show ?thesis using Pair Inr assms [of inst "x\<lparr>xs_providers := p\<rparr>"]
      by (simp add: with_provider_def)
  qed (simp add: with_provider_def)
qed

lemma put_result_store [simp]: "xs_store (put_result_resource k v x) = xs_store x"
  by (simp add: put_result_resource_def)

lemma change_without_state:
  assumes "a \<in> {ActionCreate, ActionDelete, ActionNoOp}"
  shows "xs_store (fst (process_change ex dry plan a c x)) = xs_store x"
  using assms
  by (auto simp: process_create_def process_delete_def with_plan_provider_def Let_def
      intro!: with_provider_store apply_plan_store)

lemma process_each_store:
  assumes "\<And>a y. a \<in> set as \<Longrightarrow> xs_store (fst (f a y)) = xs_store y"
  shows "xs_store (fst (process_each i label f as x)) = xs_store x"
  using assms
proof (induction as arbitrary: x)
  case (Cons a as)
  obtain x1 r1 where s: "f a x = (x1, r1)" by fastforce
  have "xs_store x1 = xs_store x" using Cons.prems [of a x] s by simp
  then show ?case using s Cons by (cases r1) (simp_all add: fail_with_simps)
qed simp

lemma update_original_simps:
  "xs_store (update_original_deployment ex rq x) = xs_store x"
  "xs_providers (update_original_deployment ex rq x) = xs_providers x"
  by (simp_all add: update_original_deployment_def publish_def split: option.split)

text \<open>The changes an update runs.\<close>

definition update_order :: "'g resolver \<Rightarrow> update_plan \<Rightarrow> (goerror + resource_change list) option" where
  "update_order rv plan =
     (if up_execution_order plan \<noteq> [] then Some (Inr (up_execution_order plan))
      else analyze_update_dependencies rv (up_changes plan))"

lemma update_cases:
  assumes "execute_update ex d rq x = Some (x', r)"
  obtains (no_plan) e where "x' = x" and "r = Some e"
    | (no_order) e where "x' = fst (fail_with (qd_id d) e (x\<lparr>xs_result := new_result (qd_id d)\<rparr>))" and "r = Some e"
    | (run) plan cs y where "extract_update_plan (ex_decode ex) (Some d) = Inr plan"
        and "update_order (ex_resolver ex) plan = Some (Inr cs)"
        and "process_update_changes ex (qd_id d) (opt_dry_run (req_options rq)) plan cs
               (x\<lparr>xs_result := new_result (qd_id d)\<rparr>) = (y, r)"
        and "x' = (if r = None then update_original_deployment ex rq (mark_successful (qd_id d) (ex_now ex) y) else y)"
  using assms
  unfolding execute_update_def update_order_def [symmetric] Let_def
  by (auto simp: fail_with_def split: sum.splits option.splits prod.splits)

text \<open>
  An update that only creates and deletes resources leaves the state store as it was: the Terraform
  state of the deployment does not learn of the new resources and keeps the deleted ones.
\<close>

theorem creations_and_deletions_are_not_recorded:
  assumes "extract_update_plan (ex_decode ex) (Some d) = Inr plan"
    and "update_order (ex_resolver ex) plan = Some (Inr cs)"
    and "\<forall>c \<in> set cs. rc_action c \<in> {ActionCreate, ActionDelete, ActionNoOp}"
    and "execute_update ex d rq x = Some (x', r)"
  shows "xs_store x' = xs_store x"
proof -
  have keep: "xs_store (fst (process_update_changes ex i dry plan cs y)) = xs_store y" for i dry y
    unfolding process_update_changes_def
    by (rule process_each_store) (use assms(3) change_without_state in blast)
  from assms(4) show ?thesis
  proof (cases rule: update_cases)
    case (run plan' cs' y)
    then have "xs_store y = xs_store x"
      using assms(1,2) keep [of "qd_id d" "opt_dry_run (req_options rq)" "x\<lparr>xs_result := new_result (qd_id d)\<rparr>"] by simp
    then show ?thesis using run(4) by (simp add: update_original_simps mark_successful_simps)
  qed (simp_all add: fail_with_simps)
qed

text \<open>An update that creates one bucket, of a deployment in the file store.\<close>

definition sample_change :: resource_change where
  "sample_change = plain_change ''aws_s3_bucket.b'' ActionCreate [(''acl'', GStr ''private'')]"

definition sample_plan :: update_plan where
  "sample_plan =
     \<lparr>up_deployment_id = ''d1'', up_plan_id = ''p1'', up_changes = [sample_change], up_execution_order = [sample_change],
      up_summary = \<lparr>sum_to_create = 1, sum_to_update = 0, sum_to_delete = 0, sum_to_replace = 0, sum_no_changes = 0\<rparr>,
      up_dangerous_changes = [], up_created_at = 0, up_requires_approval = False, up_provider_configs = None,
      up_provider_versions = []\<rparr>"

definition update_request :: deployment_request where
  "update_request =
     sample_request [] (Some [(''operation'', MetaVal (GStr ''update'')), (''deployment_id'', MetaVal (GStr ''d1'')),
       (''update_plan'', MetaPlan sample_plan)])"

lemma sample_update_facts:
  "extract_update_plan dec (Some (sample_queued update_request)) = Inr sample_plan"
  "update_order rv sample_plan = Some (Inr [sample_change])"
  "qd_request (sample_queued update_request) = Some update_request"
  by (simp_all add: extract_update_plan_def sample_queued_def update_request_def sample_request_def deserialize_plan_def
      update_order_def sample_plan_def)

lemma sample_update:
  "\<exists>x'. execute_update sample_executor (sample_queued update_request) update_request sample_start = Some (x', None) \<and>
     map_of (nil_map (dr_resources (xs_result x'))) ''aws_s3_bucket.b'' = Some (GMap [(''acl'', GStr ''private'')])"
proof -
  have req: "opt_dry_run (req_options update_request) = False" by (simp add: update_request_def sample_request_def)
  have order: "up_execution_order sample_plan = [sample_change]" by (simp add: sample_plan_def)
  show ?thesis
    by (simp add: execute_update_def sample_update_facts order req process_update_changes_def sample_change_def
        plain_change_def process_create_def with_plan_provider_def with_provider_def apply_plan_def sample_executor_def
        counting_provider_def sample_start_def Let_def put_result_resource_def new_result_def nil_map_def
        update_original_deployment_def mark_successful_def store_result_def publish_def split: option.split)
qed

theorem creations_and_deletions_are_not_recorded_witness:
  "\<exists>x'. execute_update sample_executor (sample_queued update_request) update_request sample_start = Some (x', None) \<and>
     map_of (nil_map (dr_resources (xs_result x'))) ''aws_s3_bucket.b'' = Some (GMap [(''acl'', GStr ''private'')]) \<and>
     xs_store x' = empty_file_store"
proof -
  obtain x' where x': "execute_update sample_executor (sample_queued update_request) update_request sample_start = Some (x', None)"
    "map_of (nil_map (dr_resources (xs_result x'))) ''aws_s3_bucket.b'' = Some (GMap [(''acl'', GStr ''private'')])"
    using sample_update by blast
  have acts: "\<forall>c \<in> set [sample_change]. rc_action c \<in> {ActionCreate, ActionDelete, ActionNoOp}"
    by (simp add: sample_change_def plain_change_def)
  from creations_and_deletions_are_not_recorded [OF sample_update_facts(1,2) acts x'(1)] x' show ?thesis
    by (auto simp: sample_start_def)
qed

section \<open>Providers\<close>

text \<open>
  An execution gives back every provider instance it got, on every path: for any measure of the
  instances in use, as many are in use after the execution as before it.
\<close>

lemma execution_returns:
  assumes "leases (ex_providers ex) held u" and "execute ex d x = Some (x', r)"
  shows "held (xs_providers x') = held (xs_providers x)"
proof (cases "qd_request d")
  case None
  then show ?thesis using assms(2) by (simp add: execute_def)
next
  case (Some rq)
  have upd: "held (xs_providers x') = held (xs_providers x)" if "execute_update ex d rq x = Some (x', r)"
    using that
  proof (cases rule: update_cases)
    case (run plan cs y)
    show ?thesis
      using run(4)
      by (cases rule: process_each_cases [OF process_change_undisturbed [OF assms(1)] run(3) [unfolded process_update_changes_def]])
         (auto simp: undisturbed_def fail_with_simps update_original_simps mark_successful_simps)
  qed (simp_all add: fail_with_simps)
  have destroy: "held (xs_providers x') = held (xs_providers x)" if "execute_destroy ex d rq x = Some (x', r)"
    using that destroy_each_undisturbed [OF assms(1)]
    by (auto simp: execute_destroy_def Let_def publish_simps mark_successful_simps fail_with_def store_result_def
        split: option.splits sum.splits)
  have regular: "held (xs_providers x') = held (xs_providers x)"
    if "execute_regular_deployment ex (qd_id d) rq x = Some (x', r)"
    by (cases rule: regular_cases [OF assms(1) that])
       (auto simp: undisturbed_def fail_with_simps mark_successful_simps)
  show ?thesis
    using assms(2) Some upd destroy regular by (auto simp: execute_def Let_def split: if_splits)
qed

end
