(* ===== verification/Executor_State.thy ===== *)
theory Executor_State
  imports Executor_Results
begin

text \<open>
  The Terraform state after a regular deployment, the orders in which the executor goes through
  the resources, and what the original deployment's result becomes in an update.
\<close>

section \<open>Recording\<close>

text \<open>
  The state document of deployment \<open>i\<close> has the resource, with the attributes of its entry in the
  result, as they read after JSON.
\<close>

definition recorded :: "'s store_ops \<Rightarrow> string \<Rightarrow> ('s, 'p) exec_state \<Rightarrow> resource \<Rightarrow> bool" where
  "recorded ops i x r \<longleftrightarrow>
     (\<exists>st a. load_terraform_state ops i (xs_store x) = Inr st \<and>
        existing_attributes (res_type r) (res_name r) st = Some (map_option reload_map a) \<and>
        map_of (nil_map (dr_resources (xs_result x))) (resource_key r) = Some (GMap (nil_map a)))"

lemma existing_after_save:
  "existing_attributes t' n' (json_state (update_resource_in_state t n a st)) =
     (if t' = t \<and> n' = n then Some (map_option reload_map a)
      else map_option (map_option reload_map) (existing_attributes t' n' st))"
  by (simp add: existing_attributes_json existing_update)

lemma process_resource_success:
  assumes "ex_store ex = Some ops" and "process_resource ex i False vs cs r x = (x', None)"
  shows "\<exists>a st. working_state ex i (xs_store x) = Some st \<and>
     xs_store x' = fst (save_terraform_state ops i (update_resource_in_state (res_type r) (res_name r) a st) (xs_store x)) \<and>
     dr_resources (xs_result x') =
       Some (map_put (resource_key r) (GMap (nil_map a)) (nil_map (dr_resources (xs_result x))))"
proof -
  obtain st where st: "working_state ex i (xs_store x) = Some st"
    using assms(1) by (cases "load_terraform_state ops i (xs_store x)") (auto simp: working_state_def)
  have key: "resource_key r = make_resource_key (res_type r) (res_name r)"
    by (simp add: resource_key_def make_resource_key_def)
  show ?thesis
    using assms(2) unfolding process_resource_def Let_def if_False
    by (rule with_provider_None)
       (auto simp: st assms(1) put_result_resource_def key save_attributes_def split: sum.splits prod.splits option.splits)
qed

lemma working_state_load:
  assumes "ex_store ex = Some ops" and "load_terraform_state ops i s = Inr st"
  shows "working_state ex i s = Some st"
  using assms by (simp add: working_state_def)

context terraform_store begin

lemma process_resource_records:
  assumes "ex_store ex = Some ops" and "process_resource ex i False vs cs r x = (x', None)" and "works (xs_store x)"
  shows "works (xs_store x')" and "recorded ops i x' r"
    and "recorded ops i x q \<Longrightarrow> resource_key q \<noteq> resource_key r \<Longrightarrow> recorded ops i x' q"
proof -
  obtain a st where step: "working_state ex i (xs_store x) = Some st"
    "xs_store x' = fst (save_terraform_state ops i (update_resource_in_state (res_type r) (res_name r) a st) (xs_store x))"
    "dr_resources (xs_result x') =
       Some (map_put (resource_key r) (GMap (nil_map a)) (nil_map (dr_resources (xs_result x))))"
    using process_resource_success [OF assms(1,2)] by blast
  obtain s' where s': "save_terraform_state ops i (update_resource_in_state (res_type r) (res_name r) a st) (xs_store x) = (s', None)"
    "works s'" "load_terraform_state ops i s' = Inr (json_state (update_resource_in_state (res_type r) (res_name r) a st))"
    using save_load [OF assms(3)] by blast
  show "works (xs_store x')" using step(2) s' by simp
  show "recorded ops i x' r" using step(2,3) s' by (auto simp: recorded_def existing_after_save nil_map_def)
  show "recorded ops i x' q" if q: "recorded ops i x q" and k: "resource_key q \<noteq> resource_key r"
  proof -
    have "\<not> (res_type q = res_type r \<and> res_name q = res_name r)" using k by (auto simp: resource_key_def)
    then show ?thesis
      using q k step s' working_state_load [OF assms(1)]
      by (auto simp: recorded_def existing_after_save option.map_comp comp_def nil_map_def)
  qed
qed

lemma process_each_records:
  assumes "ex_store ex = Some ops" and "distinct (map resource_key rs)" and "works (xs_store x)"
    and "process_each i label (process_resource ex i False vs cs) rs x = (x', None)"
  shows "works (xs_store x') \<and> (\<forall>r \<in> set rs. recorded ops i x' r) \<and>
     (\<forall>q. recorded ops i x q \<longrightarrow> resource_key q \<notin> resource_key ` set rs \<longrightarrow> recorded ops i x' q)"
  using assms(2-4)
proof (induction rs arbitrary: x)
  case (Cons r rs)
  obtain y where y: "process_resource ex i False vs cs r x = (y, None)"
    "process_each i label (process_resource ex i False vs cs) rs y = (x', None)"
    using Cons.prems(3) by (auto simp: fail_with_def split: prod.splits option.splits)
  note step = process_resource_records [OF assms(1) y(1) Cons.prems(2)]
  have "distinct (map resource_key rs)" and new: "resource_key r \<notin> resource_key ` set rs" using Cons.prems(1) by auto
  from Cons.IH [OF this(1) step(1) y(2)] step(2,3) new show ?case by auto
qed simp

end

lemma recorded_simps:
  "recorded ops i (mark_successful j now x) r = recorded ops i x r"
  by (simp add: recorded_def mark_successful_simps)

context dependency_resolver begin

lemma sorted_is_permutation:
  assumes "distinct (map resource_key rs)" and "sort_resources_by_dependencies rv rs = Some (Inr out)"
  shows "mset out = mset rs \<and> \<not> cyclic_resources rs"
proof (cases "rs = []")
  case True
  then show ?thesis using assms by (auto simp: sort_resources_by_dependencies_def cyclic_resources_def)
next
  case False
  obtain g where g: "rv_build rv rs [] = Inr g" "cyclic_from (keys g) (deps g) \<longleftrightarrow> cyclic_resources rs"
    using resource_graph [OF assms(1)] by metis
  obtain xs where "rv_order rv g = Some (Inr xs)"
    using assms(2) False g(1) by (auto simp: sort_resources_by_dependencies_def split: sum.splits option.splits)
  then have "\<not> cyclic_resources rs" using order_spec [of g] g(2) by auto
  then show ?thesis using sorted_resources [OF assms(1)] assms(2) by (metis option.inject sum.inject(2))
qed

lemma destruction_reverses:
  "sort_resources_for_destruction rv rs = Some (Inr des) \<Longrightarrow> sort_resources_by_dependencies rv rs = Some (Inr (rev des))"
  by (auto simp: sort_resources_for_destruction_def sort_resources_by_dependencies_def pick_resources_def map_filter_rev
      split: if_splits sum.splits option.splits)

lemma cyclic_sorts:
  assumes "distinct (map resource_key rs)" and "cyclic_resources rs"
  shows "(\<exists>e. sort_resources_by_dependencies rv rs = Some (Inl e)) \<and> (\<exists>e. sort_resources_for_destruction rv rs = Some (Inl e))"
proof -
  have none: "sort_resources_by_dependencies rv rs \<noteq> Some (Inr out)" for out
    using sorted_is_permutation [OF assms(1)] assms(2) by blast
  then have "sort_resources_for_destruction rv rs \<noteq> Some (Inr out)" for out
    using destruction_reverses by blast
  with none show ?thesis using sort_ends(1,2) [of rs] by (metis option.exhaust sum.exhaust)
qed

end

text \<open>
  C31: when a regular deployment that is no dry run succeeds, on a file store whose operations do not fail,
  the deployment's Terraform state has every resource of the request, with the attributes that the
  result reports for it. The keys of the resources must be distinct.
\<close>

theorem successful_deployment_is_recorded:
  assumes "ex_store ex = Some file_store_ops" and "ex_resolver ex = production_resolver mb mv mw mo"
    and "tf_files_work (xs_store x)" and "distinct (map resource_key (req_resources rq))"
    and "\<not> opt_dry_run (req_options rq)" and "execute_regular_deployment ex i rq x = Some (x', None)"
  shows "\<forall>r \<in> set (req_resources rq). recorded file_store_ops i x' r"
proof (cases rule: regular_cases [OF leases_zero assms(6)])
  case (2 x1 rs y)
  have "mset rs = mset (req_resources rq)"
    using dres.sorted_is_permutation [OF assms(4)] 2(3) assms(2) by simp
  then have rs: "set rs = set (req_resources rq)" "distinct (map resource_key rs)"
    using assms(4) mset_eq_setD mset_eq_imp_distinct_iff [of "map resource_key rs" "map resource_key (req_resources rq)"]
    by (auto simp: mset_map)
  have "works_all": "\<forall>r \<in> set rs. recorded file_store_ops i y r"
    using ftf.process_each_records [OF assms(1) rs(2), of x1 i resource_label "request_provider_versions rq"
        "request_provider_configs rq" y] 2(4,7) assms(3,5)
    by simp
  then show ?thesis using rs(1) 2(2) by (simp add: recorded_simps)
qed simp



theorem successful_deployment_is_recorded_witness:
  "\<exists>x'. execute_regular_deployment sample_executor ''d1'' (sample_request [sample_bucket] None) sample_start = Some (x', None) \<and>
     recorded file_store_ops ''d1'' x' sample_bucket"
proof -
  obtain x' where run: "execute_regular_deployment sample_executor ''d1'' (sample_request [sample_bucket] None) sample_start =
      Some (x', None)"
    using sample_run by blast
  have "\<forall>r \<in> set (req_resources (sample_request [sample_bucket] None)). recorded file_store_ops ''d1'' x' r"
    by (rule successful_deployment_is_recorded [OF _ _ _ _ _ run])
       (simp_all add: sample_executor_def sample_start_def sample_files sample_request_def)
  then show ?thesis using run by (simp add: sample_request_def)
qed

section \<open>Orders\<close>

text \<open>
  C32: for resources with distinct keys and no cyclic dependencies, the executor creates every resource once and after those
  it refers to, and destroys every resource once and before those it refers to. The iteration orders of the maps may be
  others when the order of the destruction is computed, so it is the reverse of a possible order of creation,
  not of the one that was used; with the same iteration orders it is that one. For cyclic dependencies both
  fail.
\<close>

theorem destruction_respects_dependencies:
  assumes "distinct (map resource_key rs)"
  shows "if cyclic_resources rs
    then (\<exists>e. sort_resources_by_dependencies (production_resolver mb mv mw mo) rs = Some (Inl e)) \<and>
         (\<exists>e. sort_resources_for_destruction (production_resolver nb nv nw no) rs = Some (Inl e))
    else (\<exists>out des. sort_resources_by_dependencies (production_resolver mb mv mw mo) rs = Some (Inr out) \<and>
         sort_resources_for_destruction (production_resolver nb nv nw no) rs = Some (Inr des) \<and>
         sort_resources_by_dependencies (production_resolver nb nv nw no) rs = Some (Inr (rev des)) \<and>
         mset out = mset rs \<and> mset des = mset rs \<and>
         (\<forall>a \<in> set rs. \<forall>b \<in> set rs. resource_key b \<in> set (resource_dependencies a) \<longrightarrow> before out b a \<and> before des a b))"
proof (cases "cyclic_resources rs")
  case True
  then show ?thesis
    using dres.cyclic_sorts [OF assms True, of mb mv mw mo] dres.cyclic_sorts [OF assms True, of nb nv nw no] by simp
next
  case False
  obtain out where out: "sort_resources_by_dependencies (production_resolver mb mv mw mo) rs = Some (Inr out)" "mset out = mset rs"
    "sort_resources_for_destruction (production_resolver mb mv mw mo) rs = Some (Inr (rev out))"
    "\<And>a b. a \<in> set rs \<Longrightarrow> b \<in> set rs \<Longrightarrow> resource_key b \<in> set (resource_dependencies a) \<Longrightarrow> before out b a"
    by (rule dres.sorted_resources [OF assms False, of mb mv mw mo]) blast
  obtain out' where out': "sort_resources_by_dependencies (production_resolver nb nv nw no) rs = Some (Inr out')"
    "mset out' = mset rs" "sort_resources_for_destruction (production_resolver nb nv nw no) rs = Some (Inr (rev out'))"
    "\<And>a b. a \<in> set rs \<Longrightarrow> b \<in> set rs \<Longrightarrow> resource_key b \<in> set (resource_dependencies a) \<Longrightarrow> before out' b a"
    by (rule dres.sorted_resources [OF assms False, of nb nv nw no]) blast
  have "before (rev out') a b" if "before out' b a" for a b using that by (simp add: before_rev)
  then show ?thesis using False out out' by simp
qed

definition sample_network :: "resource list" where
  "sample_network =
     [\<lparr>res_type = ''web'', res_name = ''w'', res_properties = [(''net'', GStr ''${net.main.id}'')]\<rparr>,
      \<lparr>res_type = ''net'', res_name = ''main'', res_properties = []\<rparr>]"

lemma resource_pairs:
  "{(resource_key r, d) | r d. r \<in> set rs \<and> d \<in> set (resource_dependencies r)} =
     (\<Union>r \<in> set rs. Pair (resource_key r) ` set (resource_dependencies r))"
  by auto

theorem destruction_respects_dependencies_witness:
  "\<exists>out des. sort_resources_by_dependencies (production_resolver insertion_order insertion_order insertion_order insertion_order)
      sample_network = Some (Inr out) \<and> before out (sample_network ! 1) (sample_network ! 0) \<and>
    sort_resources_for_destruction (production_resolver reverse_order reverse_order reverse_order reverse_order)
      sample_network = Some (Inr des) \<and> before des (sample_network ! 0) (sample_network ! 1)"
proof -
  have keys: "distinct (map resource_key sample_network)" by (simp add: sample_network_def resource_key_def)
  have pairs: "{(resource_key r, d) | r d. r \<in> set sample_network \<and> d \<in> set (resource_dependencies r)} = {(''web.w'', ''net.main'')}"
    unfolding resource_pairs by (simp add: sample_network_def resource_key_def resource_dependencies_def reference_scan)
  have acyclic: "\<not> cyclic_resources sample_network"
    unfolding cyclic_resources_def pairs by (auto dest!: tranclD elim: converse_rtranclE)
  have "resource_key (sample_network ! 1) \<in> set (resource_dependencies (sample_network ! 0))"
    by (simp add: sample_network_def resource_key_def resource_dependencies_def reference_scan)
  moreover have "sample_network ! 1 \<in> set sample_network" "sample_network ! 0 \<in> set sample_network"
    by (simp_all add: sample_network_def)
  ultimately show ?thesis
    using destruction_respects_dependencies [OF keys, of insertion_order insertion_order insertion_order insertion_order
        reverse_order reverse_order reverse_order reverse_order] acyclic by (simp only: if_False) blast
qed

section \<open>Termination and the original deployment\<close>

text \<open>
  With the production resolver every execution ends, whatever the deployment, the stores and the providers.
\<close>

theorem execution_ends:
  "\<exists>x' r. execute (ex\<lparr>ex_resolver := production_resolver mb mv mw mo\<rparr>) d x = Some (x', r)"
  using dres.execute_ends [of "ex\<lparr>ex_resolver := production_resolver mb mv mw mo\<rparr>" mb mv mw mo d x] by auto

text \<open>The keys of a result's resources.\<close>

definition result_keys :: "deployment_result \<Rightarrow> string set" where
  "result_keys res = fst ` set (nil_map (dr_resources res))"

lemma put_keys [simp]:
  "result_keys (xs_result (put_result_resource k v x)) = insert k (result_keys (xs_result x))"
  by (simp add: put_result_resource_def nil_map_def result_keys_def)

lemma with_provider_result:
  assumes "with_provider P i n v c t body x = (x', None)"
    and "\<And>inst p y. body inst (x\<lparr>xs_providers := p\<rparr>) = (y, None) \<Longrightarrow> Q (xs_result y)"
  shows "Q (xs_result x')"
  using assms(1) by (rule with_provider_None) (use assms(2) in auto)

lemma update_state_store_result [simp]: "xs_result (update_state_store_after_update ex k a plan x) = xs_result x"
  by (simp add: update_state_store_after_update_def save_attributes_def split: prod.split option.split)

definition is_run :: "change_action \<Rightarrow> bool" where
  "is_run a \<longleftrightarrow> a \<in> {ActionCreate, ActionUpdate, ActionReplace, ActionDelete}"

lemma planned_keys:
  assumes "with_plan_provider ex plan ty (\<lambda>inst. apply_plan ex inst ty (rp inst) msg k) x = (x', None)"
    and "\<And>at y. result_keys (xs_result (k at y)) = insert key (result_keys (xs_result y))"
  shows "result_keys (xs_result x') = insert key (result_keys (xs_result x))"
  using assms(1) unfolding with_plan_provider_def Let_def
  by (rule with_provider_result) (auto simp: apply_plan_def assms(2) split: prod.splits sum.splits)

lemma process_change_keys:
  assumes "process_change ex dry plan a c x = (x', None)"
  shows "result_keys (xs_result x') =
    (if is_run a then insert (rc_key c) (result_keys (xs_result x)) else result_keys (xs_result x))"
proof -
  note defs = process_create_def process_update_def process_delete_def Let_def is_run_def
  show ?thesis
  proof (cases a)
    case ActionCreate
    then show ?thesis using assms by (cases dry) (auto simp: defs dest!: planned_keys)
  next
    case ActionUpdate
    then show ?thesis using assms by (cases dry) (auto simp: defs dest!: planned_keys)
  next
    case ActionReplace
    then show ?thesis using assms by (cases dry) (auto simp: defs dest!: planned_keys)
  next
    case ActionDelete
    then show ?thesis using assms by (auto simp: defs dest!: planned_keys)
  qed (use assms in \<open>simp_all add: is_run_def\<close>)
qed

lemma process_each_keys:
  assumes "process_each i label (\<lambda>c. process_change ex dry plan (rc_action c) c) cs x = (x', None)"
  shows "result_keys (xs_result x') = result_keys (xs_result x) \<union> {rc_key c | c. c \<in> set cs \<and> is_run (rc_action c)}"
  using assms
proof (induction cs arbitrary: x)
  case (Cons c cs)
  obtain y where y: "process_change ex dry plan (rc_action c) c x = (y, None)"
    "process_each i label (\<lambda>c. process_change ex dry plan (rc_action c) c) cs y = (x', None)"
    using Cons.prems by (auto simp: fail_with_def split: prod.splits option.splits)
  from Cons.IH [OF y(2)] process_change_keys [OF y(1)] show ?case by auto
qed simp

text \<open>
  When an update succeeds, the last event replaces the result of the deployment it updates, and
  that result lists the changed resources only: a resource the update leaves alone is no longer in
  the result of its deployment.
\<close>

theorem update_result_lists_only_changes:
  assumes "extract_update_plan (ex_decode ex) (Some d) = Inr plan"
    and "update_order (ex_resolver ex) plan = Some (Inr cs)"
    and "request_string ''deployment_id'' rq = Some original" and "original \<noteq> ''''"
    and "execute_update ex d rq x = Some (x', None)"
  shows "\<exists>res. last (xs_events x') = ResultReady original res \<and> dr_success res \<and>
     result_keys res = {rc_key c | c. c \<in> set cs \<and> is_run (rc_action c)}"
  using assms(5)
proof (cases rule: update_cases)
  case (run plan' cs' y)
  have "result_keys (new_result (qd_id d)) = {}" by (simp add: result_keys_def nil_map_def)
  moreover have "plan' = plan" "cs' = cs" using run(1,2) assms(1,2) by simp_all
  ultimately have "result_keys (xs_result y) = {rc_key c | c. c \<in> set cs \<and> is_run (rc_action c)}"
    using process_each_keys [OF run(3) [unfolded process_update_changes_def]] by simp
  then show ?thesis
    using run(4) assms(3,4)
    by (simp add: update_original_deployment_def publish_def mark_successful_simps result_keys_def)
qed (simp_all add: fail_with_simps)

theorem update_result_lists_only_changes_witness:
  "\<exists>x' res. execute_update sample_executor (sample_queued update_request) update_request sample_start = Some (x', None) \<and>
     last (xs_events x') = ResultReady ''d1'' res \<and> result_keys res = {''aws_s3_bucket.b''}"
proof -
  obtain x' where x': "execute_update sample_executor (sample_queued update_request) update_request sample_start = Some (x', None)"
    using sample_update by blast
  have original: "request_string ''deployment_id'' update_request = Some ''d1''"
    by (simp add: request_string_def update_request_def sample_request_def)
  have keys: "{rc_key c | c. c \<in> set [sample_change] \<and> is_run (rc_action c)} = {''aws_s3_bucket.b''}"
    by (auto simp: sample_change_def plain_change_def is_run_def)
  from update_result_lists_only_changes [OF sample_update_facts(1,2) original _ x', unfolded keys] x' show ?thesis by auto
qed

end
