(* ===== verification/Provider_Results.thy ===== *)
theory Provider_Results
  imports Service_Results Provider_Adapter Executor_State
begin

text \<open>
  The executor and the service on the production providers: what a deployment does to the number of active providers,
  which changes an update plans, and what a plugin is asked to do when a resource is deployed again.
\<close>

section \<open>Active providers\<close>

text \<open>The counter of active providers is a measure of the instances in use: only getting and releasing change it.\<close>

lemma as_error_world: "fst (as_error a) = fst a"
  by (cases a rule: as_error.cases) simp_all

lemma on_world_active: "ad_active (fst (on_world f a)) = ad_active a"
  by (simp add: on_world_def split: prod.split)

lemma get_active:
  "adapter_get_provider st i n v cfg t a = (a', r) \<Longrightarrow>
     ad_active a' = (case r of Inl _ \<Rightarrow> ad_active a | Inr _ \<Rightarrow> ad_active a + 1)"
  by (auto simp: adapter_get_provider_def Let_def split: prod.splits sum.splits)

lemma production_leases: "leases (production_providers st) ad_active 1"
  by (auto simp: leases_def production_providers_def get_active adapter_release_provider_def on_world_active as_error_world)

text \<open>
  No deployment leaks an active provider, whatever its plugins answer: after an execution, an update or a destruction,
  successful or not, the counter of active providers is what it was before.
\<close>

theorem executions_balance_active_providers:
  assumes "ex_providers ex = production_providers st" and "execute ex d x = Some (x', r)"
  shows "ad_active (xs_providers x') = ad_active (xs_providers x)"
  using production_leases [of st] assms execution_returns by metis

section \<open>Planned changes\<close>

text \<open>What the production providers make of a resource with the current state \<open>current\<close>.\<close>

definition changes_resource :: "gmap option \<Rightarrow> resource \<Rightarrow> resource_change \<Rightarrow> bool" where
  "changes_resource current r c \<longleftrightarrow>
     rc_key c = resource_key r \<and> rc_before c = current \<and> rc_after c = rc_proposed_state c \<and>
     (if nil_map current = [] then rc_action c = ActionCreate
      else if nil_map (rc_after c) = [] then rc_action c = ActionDelete
      else rc_action c \<in> {ActionUpdate, ActionReplace})"

lemma planned_on_production:
  assumes "plan_resource_change_with_state sv (production_providers st) i configs versions deployed states r p = (p', Inr c)"
  shows "changes_resource (opt_else None (map_of states (resource_key r))) r c"
proof -
  let ?P = "production_providers st" and ?name = "extract_provider_name (res_type r)"
    and ?current = "opt_else None (map_of states (resource_key r))"
  define current where "current = ?current"
  obtain p1 inst uc pl where
    steps: "po_plan ?P inst (res_type r) ?current uc p1 = (p', Inr pl)"
      "c = \<lparr>rc_key = resource_key r, rc_action = convert_plan_action (rp_action pl), rc_before = ?current,
            rc_after = rp_planned_state pl, rc_proposed_state = Some uc, rc_replace_paths = rp_requires_replace pl\<rparr>"
    using assms
    by (auto simp: plan_resource_change_with_state_def Let_def resource_key_def make_resource_key_def
        split: if_splits prod.splits sum.splits)
  obtain w q where q: "concrete_plan st (pi_client inst) (res_type r) ?current uc w = (q, Inr pl)"
    using steps(1) by (auto simp: production_providers_def on_world_def split: prod.splits)
  then obtain paths where "rp_action pl = plan_action_for (nil_map ?current) uc paths" "rp_planned_state pl = Some uc"
    by (cases "wrapper_plan (st_plugins st) (st_values st) (pi_client inst) (res_type r) (nil_map ?current) uc w";
        cases "snd (wrapper_plan (st_plugins st) (st_values st) (pi_client inst) (res_type r) (nil_map ?current) uc w)")
      (auto simp: concrete_plan_def)
  moreover have "nil_map (Some uc) = uc" by (simp add: nil_map_def)
  ultimately show ?thesis
    unfolding steps(2) changes_resource_def plan_action_for_def current_def [symmetric] by simp
qed

lemma all_planned_on_production:
  assumes "plan_resources (plan_resource_change_with_state sv (production_providers st) i configs versions deployed states)
    rs p = (p', Inr cs)"
  shows "list_all2 (\<lambda>r. changes_resource (opt_else None (map_of states (resource_key r))) r) rs cs"
  using assms
proof (induction rs arbitrary: p cs)
  case (Cons r rs)
  from Cons.prems obtain p1 c cs' where
    "plan_resource_change_with_state sv (production_providers st) i configs versions deployed states r p = (p1, Inr c)"
    "plan_resources (plan_resource_change_with_state sv (production_providers st) i configs versions deployed states) rs p1 =
      (p', Inr cs')" "cs = c # cs'"
    by (auto split: prod.splits sum.splits)
  then show ?case using Cons.IH planned_on_production by simp
qed simp

text \<open>
  C29: a plan with the production providers changes every resource of the new document, also one whose configuration is
  the state it has: a resource without stored attributes is created, a stored one whose configuration is empty is
  deleted though the document declares it, and any other stored one is updated or replaced. Nothing is left as it is.
\<close>

theorem plans_touch_every_resource:
  assumes "generate_update_plan sv now i (Some tf) x = Some (x', Inr plan)" and "parse_terraform_json tf = Inr (rs, ds)"
    and "sv_providers sv = Some (production_providers st)" and "sv_store sv = Some ops"
    and "load_states ops i (sw_store x) = Inr states"
  shows "\<exists>cs dels. up_changes plan = cs @ dels \<and> list_all (\<lambda>c. rc_action c = ActionDelete) dels \<and>
     list_all2 (\<lambda>r. changes_resource (opt_else None (map_of states (resource_key r))) r) rs cs"
  using assms(1)
proof (rule plan_success, goal_cases)
  case (1 tf' ops' P current new old changes p versions deployed states')
  have "new = rs" using 1(1,6) assms(2) by (auto simp: parse_configurations_def)
  moreover have "P = production_providers st" "states' = states" using 1(2,3,9) assms(3-5) by simp_all
  ultimately have cs: "list_all2 (\<lambda>r. changes_resource (opt_else None (map_of states (resource_key r))) r) rs changes"
    using all_planned_on_production 1(7) by blast
  have "up_changes plan = changes @ find_deleted_resources new old" using built_plan(2) [OF 1(8)] .
  moreover have "list_all (\<lambda>c. rc_action c = ActionDelete) (find_deleted_resources new old)"
    by (simp add: find_deleted_resources_def list_all_iff)
  ultimately show ?case using cs by blast
qed

text \<open>
  A stack whose processes start, whose plugin does what it is asked for, and whose world is the log of its calls.
\<close>

definition echo_stack :: "((unit \<times> tf_term option call) list, unit, tf_term, tf_term option) plugin_stack" where
  "echo_stack =
     \<lparr>st_plugins = echo_plugin bucket_schema, st_values = term_values,
      st_host =
        \<lparr>ph_server = [], ph_tmp = ''/tmp'', ph_format = (\<lambda>_. ''''), ph_make_dirs = \<lambda>d w. (w, None),
         ph_remove_dirs = \<lambda>d w. (w, None), ph_binary = \<lambda>n v w. (w, Inr ''/bin/provider''), ph_source = None,
         ph_start = \<lambda>path n v env w. (w, Inr ()), ph_client = \<lambda>c w. (w, None),
         ph_schema = \<lambda>c w. (w, None), ph_configure = \<lambda>n c cf w. (w, None),
         ph_stop = \<lambda>c w. (w, None), ph_healthy = \<lambda>c w. True\<rparr>,
      st_elapsed = \<lambda>_ _. 0\<rparr>"

lemma echo_get:
  assumes "config_for cfg ''aws'' = None"
  shows "\<exists>a. adapter_get_provider echo_stack i ''aws'' v cfg ty (new_adapter w) =
     (a, Inr \<lparr>pi_name = ''aws'', pi_version = v, pi_client = ()\<rparr>) \<and> pm_world (ad_manager a) = w"
  using assms
  by (simp add: adapter_get_provider_def new_adapter_def new_manager_def stack_host_def echo_stack_def get_provider_def
      create_working_dir_def get_cached_eq get_locked_def probe_def create_provider_def sourced_config_def
      start_provider_def create_provider_client_def put_pool_def pool_of_def opt_else_def
      drop_stale_def cache_key_def Let_def pooled_def)

section \<open>Deploying a resource again\<close>

lemma changed_by_provider:
  assumes "plugin_log (st_plugins st) log"
    and "po_update (production_providers st) p ty props current a = (a', r)"
  shows "changes_by (st_plugins st) log (pi_client p)
     (\<lambda>b. case create_dynamic_value (st_values st) current b of
            Inl e \<Rightarrow> Inl e
          | Inr prior \<Rightarrow> map_sum id (\<lambda>cfg. \<lparr>pq_type = ty, pq_prior = prior, pq_proposed = cfg, pq_config = cfg\<rparr>)
                          (create_dynamic_value (st_values st) (nil_map props) b))
     (pm_world (ad_manager a)) (pm_world (ad_manager a')) (\<exists>s. r = Inr s)"
proof -
  let ?w = "pm_world (ad_manager a)"
  let ?u = "wrapper_update (st_plugins st) (st_values st) (pi_client p) ty current (nil_map props) ?w"
  obtain w' s where u: "?u = (w', s)" by (cases ?u)
  then have "pm_world (ad_manager a') = w'" "(\<exists>s. r = Inr s) = (\<exists>t. s = Inr t)"
    using assms(2) by (cases s; auto simp: production_providers_def on_world_def concrete_update_def)+
  then show ?thesis using plugin_log.updated_by [OF assms(1) u] by simp
qed

text \<open>
  C28: deploying an existing resource again asks the provider for the old state, not for the new configuration: the executor
  passes the stored attributes where the provider expects the properties and the new properties where it expects the
  current state. The plan that the plugin is asked for, and the only one it applies, goes from the new properties as
  the prior state to the stored attributes as the configuration.
\<close>

theorem redeployment_swaps_states:
  assumes "plugin_log (st_plugins st) log" and "ex_providers ex = production_providers st"
    and "adapter_get_provider st i name (lookup_version versions name) (lookup_config configs name) (res_type r)
           (xs_providers x) = (a, Inr p)" and "name = extract_provider_name (res_type r)"
    and "interpolate_properties ex (res_properties r) (xs_deployed x) = Inr props"
    and "working_state ex i (xs_store x) = Some tf" and "existing_attributes (res_type r) (res_name r) tf = Some old"
    and "process_resource ex i False versions configs r x = (x', e)"
  shows "changes_by (st_plugins st) log (pi_client p)
     (\<lambda>b. case create_dynamic_value (st_values st) props b of
            Inl e \<Rightarrow> Inl e
          | Inr prior \<Rightarrow> map_sum id (\<lambda>cfg. \<lparr>pq_type = res_type r, pq_prior = prior, pq_proposed = cfg, pq_config = cfg\<rparr>)
                          (create_dynamic_value (st_values st) (nil_map old) b))
     (pm_world (ad_manager a)) (pm_world (ad_manager (xs_providers x'))) (e = None)"
proof -
  obtain a' s where u: "po_update (production_providers st) p (res_type r) old props a = (a', s)"
    by (cases "po_update (production_providers st) p (res_type r) old props a")
  have "ad_manager (xs_providers x') = ad_manager a'" "(\<exists>t. s = Inr t) = (e = None)"
    using assms(8) assms(2-7) u
    by (cases s; auto simp: process_resource_def with_provider_def Let_def production_providers_def
        adapter_release_provider_def save_attributes_def put_result_resource_def split: option.splits)+
  then show ?thesis using changed_by_provider [OF assms(1) u] by simp
qed

section \<open>A bucket that is stored and deployed again\<close>

definition renamed_bucket :: resource where
  "renamed_bucket = \<lparr>res_type = ''aws_s3_bucket'', res_name = ''b'', res_properties = [(''bucket'', GStr ''new'')]\<rparr>"

definition stored_bucket :: tf_state where
  "stored_bucket =
     update_resource_in_state ''aws_s3_bucket'' ''b'' (Some [(''bucket'', GStr ''old'')]) (create_empty_state 0)"

definition bucket_store :: file_store where
  "bucket_store = empty_file_store\<lparr>fs_tf_states := [(''d1'', TfDoc stored_bucket)]\<rparr>"

definition echo_executor ::
  "(file_store, ((unit \<times> tf_term option call) list, unit) adapter, unit plugin_instance, dependency_graph) executor" where
  "echo_executor =
     \<lparr>ex_store = Some file_store_ops, ex_providers = production_providers echo_stack,
      ex_resolver = production_resolver insertion_order insertion_order insertion_order insertion_order,
      ex_interpolate = (\<lambda>m _. Inr m), ex_decode = (\<lambda>_. Inl (ErrorString ''no plan'')), ex_now = 63745021234 * second\<rparr>"

definition echo_start :: "(file_store, ((unit \<times> tf_term option call) list, unit) adapter) exec_state" where
  "echo_start =
     \<lparr>xs_store = bucket_store, xs_providers = new_adapter [], xs_events = [], xs_result = new_result '''', xs_deployed = []\<rparr>"

lemma stored_bucket_facts:
  "working_state echo_executor ''d1'' bucket_store = Some stored_bucket"
  "existing_attributes ''aws_s3_bucket'' ''b'' stored_bucket = Some (Some [(''bucket'', GStr ''old'')])"
  by (simp_all add: working_state_def echo_executor_def load_terraform_state_def file_store_ops_def bucket_store_def
      fs_load_tf_def empty_file_store_def unmarshal_state_def stored_bucket_def update_resource_in_state_def
      create_empty_state_def find_resource_in_state_def same_resource_def existing_attributes_def new_instance_def Let_def)

definition bucket_message :: "string \<Rightarrow> tf_term option" where
  "bucket_message s =
     Some (Term (sb_type bucket_block) (NamedContent
       [(''bucket'', Term TfString (PlainContent (GStr s))), (''arn'', Term TfString NullContent),
        (''versioned'', Term TfString NullContent)]))"

lemma echo_update:
  "wrapper_update (echo_plugin bucket_schema) term_values () ''aws_s3_bucket'' [(''bucket'', GStr s)] [(''bucket'', GStr t)] w =
     (w @ [((), SchemaCall),
        ((), PlanCall \<lparr>pq_type = ''aws_s3_bucket'', pq_prior = bucket_message s, pq_proposed = bucket_message t,
               pq_config = bucket_message t\<rparr>),
        ((), ApplyCall \<lparr>aq_type = ''aws_s3_bucket'', aq_config = bucket_message t, aq_planned = Some (bucket_message t),
               aq_prior = bucket_message s\<rparr>)],
      Inr (Some [(''bucket'', GStr t), (''arn'', GNil), (''versioned'', GNil)]))"
  by (simp add: wrapper_update_def message_of_def bucket_messages echo_block echo_plan_and_apply data_of_def bucket_data
      bucket_message_def)


lemma echo_production_update:
  assumes "pm_world (ad_manager a) = w"
  shows "\<exists>a'. po_update (production_providers echo_stack) \<lparr>pi_name = n, pi_version = v, pi_client = ()\<rparr> ''aws_s3_bucket''
       (Some [(''bucket'', GStr t)]) [(''bucket'', GStr s)] a =
     (a', Inr (Some [(''bucket'', GStr t), (''arn'', GNil), (''versioned'', GNil)])) \<and>
     pm_world (ad_manager a') = fst (wrapper_update (echo_plugin bucket_schema) term_values () ''aws_s3_bucket''
       [(''bucket'', GStr s)] [(''bucket'', GStr t)] w)"
  using assms
  by (simp add: production_providers_def on_world_def concrete_update_def echo_stack_def echo_update nil_map_def)

text \<open>Deploying the renamed bucket keeps the old name.\<close>

lemma renamed_bucket_processed:
  "\<exists>x'. process_resource echo_executor ''d1'' False [] None renamed_bucket echo_start = (x', None) \<and>
     map_of (nil_map (dr_resources (xs_result x'))) ''aws_s3_bucket.b'' =
       Some (GMap [(''bucket'', GStr ''old''), (''arn'', GNil), (''versioned'', GNil)])"
proof -
  obtain a where a: "adapter_get_provider echo_stack ''d1'' ''aws'' '''' None ''aws_s3_bucket'' (new_adapter []) =
      (a, Inr \<lparr>pi_name = ''aws'', pi_version = '''', pi_client = ()\<rparr>)"
    using echo_get [of None "''d1''" "''''" "''aws_s3_bucket''" "[]"] by (auto simp: config_for_def)
  obtain a' where u: "po_update (production_providers echo_stack) \<lparr>pi_name = ''aws'', pi_version = '''', pi_client = ()\<rparr>
      ''aws_s3_bucket'' (Some [(''bucket'', GStr ''old'')]) [(''bucket'', GStr ''new'')] a =
      (a', Inr (Some [(''bucket'', GStr ''old''), (''arn'', GNil), (''versioned'', GNil)]))"
    using echo_production_update [OF refl] by blast
  have "extract_provider_name ''aws_s3_bucket'' = ''aws''" by (simp add: extract_provider_name_def)
  moreover have "po_get (production_providers echo_stack) = adapter_get_provider echo_stack"
    "ex_providers echo_executor = production_providers echo_stack" "ex_interpolate echo_executor = (\<lambda>m _. Inr m)"
    by (simp_all add: production_providers_def echo_executor_def)
  ultimately show ?thesis
    using a u stored_bucket_facts
    by (simp add: process_resource_def with_provider_def Let_def renamed_bucket_def echo_start_def interpolate_properties_def
        lookup_version_def lookup_config_def opt_else_def save_attributes_def put_result_resource_def make_resource_key_def nil_map_def new_result_def
        split: option.split)
qed

theorem redeployment_swaps_states_witness:
  "\<exists>a p x'. adapter_get_provider echo_stack ''d1'' ''aws'' '''' None ''aws_s3_bucket'' (new_adapter []) = (a, Inr p) \<and>
     process_resource echo_executor ''d1'' False [] None renamed_bucket echo_start = (x', None) \<and>
     changes_by (echo_plugin bucket_schema) (\<lambda>w. w) ()
       (\<lambda>b. case create_dynamic_value term_values [(''bucket'', GStr ''new'')] b of
              Inl e \<Rightarrow> Inl e
            | Inr prior \<Rightarrow> map_sum id (\<lambda>cfg. \<lparr>pq_type = ''aws_s3_bucket'', pq_prior = prior, pq_proposed = cfg, pq_config = cfg\<rparr>)
                            (create_dynamic_value term_values [(''bucket'', GStr ''old'')] b))
       (pm_world (ad_manager a)) (pm_world (ad_manager (xs_providers x'))) True"
proof -
  obtain x' where run: "process_resource echo_executor ''d1'' False [] None renamed_bucket echo_start = (x', None)"
    using renamed_bucket_processed by blast
  obtain a p where a: "adapter_get_provider echo_stack ''d1'' ''aws'' '''' None ''aws_s3_bucket'' (new_adapter []) = (a, Inr p)"
    "pi_client p = ()"
    using echo_get [of None "''d1''" "''''" "''aws_s3_bucket''" "[]"] by (auto simp: config_for_def)
  have log: "plugin_log (st_plugins echo_stack) (\<lambda>w. w)" by (simp add: echo_stack_def echo.plugin_log_axioms)
  have ops: "ex_providers echo_executor = production_providers echo_stack" by (simp add: echo_executor_def)
  have get: "adapter_get_provider echo_stack ''d1'' ''aws'' (lookup_version [] ''aws'') (lookup_config None ''aws'')
      (res_type renamed_bucket) (xs_providers echo_start) = (a, Inr p)"
    using a by (simp add: lookup_version_def lookup_config_def opt_else_def renamed_bucket_def echo_start_def)
  have name: "''aws'' = extract_provider_name (res_type renamed_bucket)"
    by (simp add: extract_provider_name_def renamed_bucket_def)
  have props: "interpolate_properties echo_executor (res_properties renamed_bucket) (xs_deployed echo_start) =
      Inr [(''bucket'', GStr ''new'')]"
    by (simp add: interpolate_properties_def echo_executor_def renamed_bucket_def)
  have stored: "working_state echo_executor ''d1'' (xs_store echo_start) = Some stored_bucket"
    "existing_attributes (res_type renamed_bucket) (res_name renamed_bucket) stored_bucket =
      Some (Some [(''bucket'', GStr ''old'')])"
    by (simp_all add: stored_bucket_facts echo_start_def renamed_bucket_def)
  have eqs: "st_plugins echo_stack = echo_plugin bucket_schema" "st_values echo_stack = term_values"
    "res_type renamed_bucket = ''aws_s3_bucket''" "nil_map (Some m) = m" for m
    by (simp_all add: echo_stack_def renamed_bucket_def nil_map_def)
  show ?thesis
    using redeployment_swaps_states [OF log ops get name props stored run, unfolded eqs] a run by auto
qed

theorem executions_balance_active_providers_witness:
  "\<exists>x' r. execute echo_executor (sample_queued (sample_request [renamed_bucket] None)) echo_start = Some (x', r) \<and>
     ad_active (xs_providers x') = 0"
proof -
  obtain x' r where run: "execute echo_executor (sample_queued (sample_request [renamed_bucket] None)) echo_start = Some (x', r)"
    using dres.execute_ends [of echo_executor insertion_order insertion_order insertion_order insertion_order
        "sample_queued (sample_request [renamed_bucket] None)" echo_start]
    by (auto simp: echo_executor_def)
  show ?thesis
    using executions_balance_active_providers [OF _ run, of echo_stack] run
    by (simp add: echo_executor_def echo_start_def new_adapter_def)
qed

text \<open>A plan for the document that declares the bucket exactly as it is stored.\<close>

definition same_document :: gmap where
  "same_document =
     [(''terraform'', GMap [(''required_providers'', GMap [(''aws'', GMap [(''version'', GStr ''6.0.0'')])])]),
      (''resource'', GMap [(''aws_s3_bucket'', GMap [(''b'', GMap [(''bucket'', GStr ''old'')])])])]"

definition same_bucket :: resource where
  "same_bucket = \<lparr>res_type = ''aws_s3_bucket'', res_name = ''b'', res_properties = [(''bucket'', GStr ''old'')]\<rparr>"

definition echo_service ::
  "(file_store, ((unit \<times> tf_term option call) list, unit) adapter, unit plugin_instance, dependency_graph) service" where
  "echo_service =
     \<lparr>sv_store = Some file_store_ops, sv_providers = Some (production_providers echo_stack), sv_interpolate = None,
      sv_resolver = None\<rparr>"

definition echo_sample :: "(file_store, ((unit \<times> tf_term option call) list, unit) adapter) service_state" where
  "echo_sample =
     \<lparr>sw_coordinator = [],
      sw_world = ((fst (fst (sw_world (service_sample StatusCompleted))),
                   empty_file_store\<lparr>fs_tf_states := [(''dep-1'', TfDoc stored_bucket)]\<rparr>),
                  snd (sw_world (service_sample StatusCompleted))),
      sw_providers = new_adapter []\<rparr>"

lemma same_document_parses: "parse_terraform_json same_document = Inr ([same_bucket], [])"
  by (simp add: parse_terraform_json_def same_document_def parse_resource_block_def same_bucket_def)

lemma stored_states: "load_states file_store_ops ''dep-1'' (sw_store echo_sample) =
    Inr [(''aws_s3_bucket.b'', Some [(''bucket'', GStr ''old'')])]"
  by (simp add: load_states_def load_terraform_state_def echo_sample_def sw_store_def file_store_ops_def fs_load_tf_def
      empty_file_store_def unmarshal_state_def states_by_key_def stored_bucket_def update_resource_in_state_def
      create_empty_state_def find_resource_in_state_def same_resource_def new_instance_def Let_def)

lemma echo_production_plan:
  "\<exists>a' pl. po_plan (production_providers echo_stack) \<lparr>pi_name = n, pi_version = v, pi_client = ()\<rparr> ''aws_s3_bucket''
       (Some [(''bucket'', GStr s)]) [(''bucket'', GStr t)] a = (a', Inr pl)"
proof -
  have plan: "pc_plan (echo_plugin bucket_schema) c rq w =
      (w @ [(c, PlanCall rq)], Inr \<lparr>pr_planned = Some (pq_proposed rq), pr_requires_replace = [], pr_diagnostics = []\<rparr>)"
    for c :: unit and rq :: "tf_term option plan_request" and w
    by (simp add: echo_plugin_def)
  show ?thesis
    by (simp add: production_providers_def on_world_def concrete_plan_def echo_stack_def wrapper_plan_def message_of_def
        bucket_messages echo_block plan check_diagnostics_def first_error_None nil_map_def)
qed

lemma echo_planned:
  "\<exists>x' plan. generate_update_plan echo_service 7 ''dep-1'' (Some same_document) echo_sample = Some (x', Inr plan)"
proof -
  have inv: "sw_inv echo_sample" "sw_lookup echo_sample ''dep-1'' = Some (bucket_deployment StatusCompleted)"
    using service_sample_facts(1,2) [of StatusCompleted]
    by (simp_all add: echo_sample_def deploy_lookup_def tracked_deployment_def sw_inv_def deploy_inv_def
        tracker_inv_def fun_eq_iff)
  have state: "extract_current_state ''dep-1'' echo_sample = Inr (Some [])"
    using get_by_id [OF inv] by (simp add: extract_current_state_def sample_request_def request_terraform_json_def)
  have versions: "merged_provider_versions same_document (Some []) = [(''aws'', ''6.0.0'')]"
    by (simp add: merged_provider_versions_def extract_provider_versions_def same_document_def Let_def)
  have "\<exists>e. parse_terraform_json [] = Inl e" by (simp add: parse_terraform_json_def)
  then have configs: "parse_configurations same_document (Some []) = Inr ([same_bucket], [])"
    by (auto simp: parse_configurations_def same_document_parses)
  have deployed: "\<exists>m. get_deployed_resources_for_interpolation file_store_ops ''dep-1'' (sw_store echo_sample) = Inr m"
    using stored_states by (simp add: get_deployed_resources_for_interpolation_def)
  have cfgs: "config_for (Some (provider_configs_of same_document)) ''aws'' = None"
    by (simp add: config_for_def provider_configs_of_def same_document_def)
  have bucket: "res_type same_bucket = ''aws_s3_bucket''" "res_properties same_bucket = [(''bucket'', GStr ''old'')]"
    "res_name same_bucket = ''b''" "extract_provider_name ''aws_s3_bucket'' = ''aws''"
    by (simp_all add: same_bucket_def extract_provider_name_def)
  obtain a where a: "po_get (production_providers echo_stack) ''dep-1'' ''aws'' ''6.0.0'' (Some (provider_configs_of same_document))
      ''aws_s3_bucket'' (new_adapter []) = (a, Inr \<lparr>pi_name = ''aws'', pi_version = ''6.0.0'', pi_client = ()\<rparr>)"
    using echo_get [OF cfgs, of "''dep-1''" "''6.0.0''" "''aws_s3_bucket''" "[]"] by (auto simp: production_providers_def)
  obtain a' pl where pl: "po_plan (production_providers echo_stack) \<lparr>pi_name = ''aws'', pi_version = ''6.0.0'', pi_client = ()\<rparr>
      ''aws_s3_bucket'' (Some [(''bucket'', GStr ''old'')]) [(''bucket'', GStr ''old'')] a = (a', Inr pl)"
    using echo_production_plan by blast
  have sv: "sv_store echo_service = Some file_store_ops" "sv_providers echo_service = Some (production_providers echo_stack)"
    "sv_interpolate echo_service = None" "sv_resolver echo_service = None" "sw_providers echo_sample = new_adapter []"
    by (simp_all add: echo_service_def echo_sample_def)
  show ?thesis
    using deployed
    by (auto simp: generate_update_plan_def sv state versions configs stored_states generate_resource_changes_def
        plan_resource_change_with_state_def bucket a pl Let_def build_update_plan_def opt_else_def make_resource_key_def)
qed

theorem plans_touch_every_resource_witness:
  "\<exists>x' plan c. generate_update_plan echo_service 7 ''dep-1'' (Some same_document) echo_sample = Some (x', Inr plan) \<and>
     take 1 (up_changes plan) = [c] \<and> rc_key c = ''aws_s3_bucket.b'' \<and> rc_before c = Some [(''bucket'', GStr ''old'')] \<and>
     changes_resource (Some [(''bucket'', GStr ''old'')]) same_bucket c"
proof -
  obtain x' plan where g: "generate_update_plan echo_service 7 ''dep-1'' (Some same_document) echo_sample = Some (x', Inr plan)"
    using echo_planned by blast
  have sv: "sv_providers echo_service = Some (production_providers echo_stack)" "sv_store echo_service = Some file_store_ops"
    by (simp_all add: echo_service_def)
  have key: "resource_key same_bucket = ''aws_s3_bucket.b''" by (simp add: resource_key_def same_bucket_def)
  from plans_touch_every_resource [OF g same_document_parses sv stored_states] obtain cs dels where
    cs: "up_changes plan = cs @ dels" "list_all2 (\<lambda>r. changes_resource (opt_else None
      (map_of [(''aws_s3_bucket.b'', Some [(''bucket'', GStr ''old'')])] (resource_key r))) r) [same_bucket] cs"
    by blast
  from cs(2) obtain c where "cs = [c]" "changes_resource (Some [(''bucket'', GStr ''old'')]) same_bucket c"
    by (auto simp: list_all2_Cons1 key opt_else_def)
  then show ?thesis using g cs(1) key by (auto simp: changes_resource_def)
qed

end
