(* ===== verification/AWS_Store.thy ===== *)
theory AWS_Store
  imports Terraform_State
begin

text \<open>
  The state store on DynamoDB and S3 (\<^verbatim>\<open>internal/state/aws_store.go\<close>): the records of deployments are items of a
  table, their Terraform states objects of a bucket. The two services are the parameter \<open>aws_cloud\<close>, their documented
  behaviour the locale \<open>cloud_services\<close>, and the locale \<open>stale_reads\<close> for reads of items. The bytes of an object are the document they encode, as in the store
  interface. Times are written in UTC.
\<close>

section \<open>The services\<close>

datatype attribute = AttrS string | AttrN string | AttrOther

type_synonym item = "(string \<times> attribute) list"

text \<open>The errors the code looks for with \<^verbatim>\<open>errors.As\<close>, and all others.\<close>

datatype aws_error =
    NoSuchKey string
  | NoSuchBucket string
  | ConditionFailed string
  | ResourceNotFound string
  | ResourceInUse string
  | OtherFailure goerror

fun aws_cause :: "aws_error \<Rightarrow> goerror" where
  "aws_cause (NoSuchKey s) = ErrorString s"
| "aws_cause (NoSuchBucket s) = ErrorString s"
| "aws_cause (ConditionFailed s) = ErrorString s"
| "aws_cause (ResourceNotFound s) = ErrorString s"
| "aws_cause (ResourceInUse s) = ErrorString s"
| "aws_cause (OtherFailure e) = e"

definition aws_wrap :: "string \<Rightarrow> aws_error \<Rightarrow> goerror" where
  "aws_wrap what e = WrapError what (aws_cause e) ''''"

text \<open>
  Requests name their table or bucket. A scan is the list of its pages, in which only the last may be an error; the
  body of an object may fail to be read. \<open>ac_sleep\<close> waits, unless the context ends first.
\<close>

record 'w aws_cloud =
  ac_now :: "'w \<Rightarrow> time"
  ac_get_item :: "string \<Rightarrow> string \<Rightarrow> 'w \<Rightarrow> aws_error + item option"
  ac_put_item :: "string \<Rightarrow> item \<Rightarrow> 'w \<Rightarrow> 'w \<times> aws_error option"
  ac_delete_item :: "string \<Rightarrow> string \<Rightarrow> 'w \<Rightarrow> 'w \<times> aws_error option"
  ac_scan :: "string \<Rightarrow> 'w \<Rightarrow> (aws_error + item list) list"
  ac_scan_created_before :: "string \<Rightarrow> string \<Rightarrow> 'w \<Rightarrow> aws_error + item list"
  ac_scan_count :: "string \<Rightarrow> 'w \<Rightarrow> aws_error + int"
  ac_put_object :: "string \<Rightarrow> string \<Rightarrow> tf_bytes \<Rightarrow> 'w \<Rightarrow> 'w \<times> aws_error option"
  ac_get_object :: "string \<Rightarrow> string \<Rightarrow> 'w \<Rightarrow> aws_error + (goerror + tf_bytes)"
  ac_delete_object :: "string \<Rightarrow> string \<Rightarrow> 'w \<Rightarrow> 'w \<times> aws_error option"
  ac_table_status :: "string \<Rightarrow> 'w \<Rightarrow> aws_error + string"
  ac_create_table :: "string \<Rightarrow> 'w \<Rightarrow> 'w \<times> aws_error option"
  ac_wait_table :: "string \<Rightarrow> 'w \<Rightarrow> 'w \<times> aws_error option"
  ac_head_bucket :: "string \<Rightarrow> 'w \<Rightarrow> aws_error option"
  ac_create_bucket :: "string \<Rightarrow> string option \<Rightarrow> 'w \<Rightarrow> 'w \<times> aws_error option"
  ac_sleep :: "duration \<Rightarrow> 'w \<Rightarrow> 'w \<times> goerror option"

record aws_config =
  ag_table :: string
  ag_dynamodb_region :: string
  ag_bucket :: string
  ag_s3_region :: string
  ag_prefix :: string
  ag_endpoint :: string

definition validate_aws_config :: "aws_config \<Rightarrow> goerror option" where
  "validate_aws_config cfg =
     (if ag_table cfg = '''' then Some (ErrorString ''DynamoDB table name is required'')
      else if ag_dynamodb_region cfg = '''' then Some (ErrorString ''DynamoDB region is required'')
      else if ag_bucket cfg = '''' then Some (ErrorString ''S3 bucket name is required'')
      else if ag_s3_region cfg = '''' then Some (ErrorString ''S3 region is required'')
      else None)"

section \<open>Setting up\<close>

text \<open>The attempts to create the table: \<open>n\<close> are left after this one.\<close>

fun create_table_attempts :: "'w aws_cloud \<Rightarrow> string \<Rightarrow> nat \<Rightarrow> 'w \<Rightarrow> 'w \<times> goerror option" where
  "create_table_attempts c t n w =
     (case ac_create_table c t w of
        (w1, None) \<Rightarrow> (w1, None)
      | (w1, Some (ResourceInUse s)) \<Rightarrow> (w1, None)
      | (w1, Some e) \<Rightarrow>
          (case n of
             0 \<Rightarrow> (w1, Some (aws_wrap ''failed to create DynamoDB table after 3 attempts: '' e))
           | Suc m \<Rightarrow>
               (case ac_sleep c second w1 of
                  (w2, Some ctx) \<Rightarrow> (w2, Some (WrapError ''timeout during table creation retry: '' ctx ''''))
                | (w2, None) \<Rightarrow> create_table_attempts c t m w2)))"

definition ensure_dynamodb_table :: "'w aws_cloud \<Rightarrow> aws_config \<Rightarrow> 'w \<Rightarrow> 'w \<times> goerror option" where
  "ensure_dynamodb_table c cfg w =
     (let t = ag_table cfg in
      case ac_table_status c t w of
        Inr st \<Rightarrow>
          (if st = ''ACTIVE'' then (w, None)
           else
             (case ac_wait_table c t w of
                (w1, Some e) \<Rightarrow> (w1, Some (aws_wrap ''failed to wait for existing table to be active: '' e))
              | (w1, None) \<Rightarrow> (w1, None)))
      | Inl (ResourceNotFound s) \<Rightarrow>
          (case create_table_attempts c t 2 w of
             (w1, Some e) \<Rightarrow> (w1, Some e)
           | (w1, None) \<Rightarrow>
               (case ac_wait_table c t w1 of
                  (w2, Some e) \<Rightarrow> (w2, Some (aws_wrap ''failed to wait for table to be active: '' e))
                | (w2, None) \<Rightarrow>
                    (case ac_table_status c t w2 of
                       Inl e \<Rightarrow> (w2, Some (aws_wrap ''failed to verify table is active: '' e))
                     | Inr st \<Rightarrow>
                         (w2, if st = ''ACTIVE'' then None
                              else Some (ErrorString (''table is not active after waiting, status: '' @ st))))))
      | Inl e \<Rightarrow> (w, Some (aws_wrap ''failed to describe table: '' e)))"

definition is_no_bucket :: "aws_error \<Rightarrow> bool" where
  "is_no_bucket e \<longleftrightarrow> (case e of NoSuchBucket _ \<Rightarrow> True | _ \<Rightarrow> str_contains (error_message (aws_cause e)) ''NotFound'')"

text \<open>The region is only given outside of \<^verbatim>\<open>us-east-1\<close> and of a local endpoint.\<close>

definition bucket_region :: "aws_config \<Rightarrow> string option" where
  "bucket_region cfg =
     (let local = ag_endpoint cfg \<noteq> '''' \<and>
                  (str_contains (ag_endpoint cfg) ''localstack'' \<or> str_contains (ag_endpoint cfg) ''localhost'') in
      if ag_s3_region cfg \<noteq> ''us-east-1'' \<and> \<not> local then Some (ag_s3_region cfg) else None)"

definition ensure_s3_bucket :: "'w aws_cloud \<Rightarrow> aws_config \<Rightarrow> 'w \<Rightarrow> 'w \<times> goerror option" where
  "ensure_s3_bucket c cfg w =
     (case ac_head_bucket c (ag_bucket cfg) w of
        None \<Rightarrow> (w, None)
      | Some e \<Rightarrow>
          (if is_no_bucket e then
             (case ac_create_bucket c (ag_bucket cfg) (bucket_region cfg) w of
                (w1, Some e1) \<Rightarrow> (w1, Some (aws_wrap ''failed to create S3 bucket: '' e1))
              | (w1, None) \<Rightarrow> (w1, None))
           else (w, Some (aws_wrap ''failed to access S3 bucket: '' e))))"

text \<open>Three attempts at table and bucket; \<open>attempt\<close> is the number of this one.\<close>

definition attempt_label :: "string \<Rightarrow> nat \<Rightarrow> string" where
  "attempt_label what attempt = ''failed to ensure '' @ what @ '' (attempt '' @ itoa (int attempt) @ ''/3): ''"

function initialize_store :: "'w aws_cloud \<Rightarrow> aws_config \<Rightarrow> nat \<Rightarrow> 'w \<Rightarrow> 'w \<times> goerror option" where
  "initialize_store c cfg attempt w =
     (case ensure_dynamodb_table c cfg w of
        (w1, Some e) \<Rightarrow>
          (if attempt < 3 then
             (case ac_sleep c (2 * second) w1 of
                (w2, Some ctx) \<Rightarrow> (w2, Some (WrapError ''timeout during DynamoDB table initialization: '' ctx ''''))
              | (w2, None) \<Rightarrow> initialize_store c cfg (attempt + 1) w2)
           else (w1, Some (WrapError (attempt_label ''DynamoDB table'' attempt) e '''')))
      | (w1, None) \<Rightarrow>
          (case ensure_s3_bucket c cfg w1 of
             (w2, Some e) \<Rightarrow>
               (if attempt < 3 then
                  (case ac_sleep c (2 * second) w2 of
                     (w3, Some ctx) \<Rightarrow> (w3, Some (WrapError ''timeout during S3 bucket initialization: '' ctx ''''))
                   | (w3, None) \<Rightarrow> initialize_store c cfg (attempt + 1) w3)
                else (w2, Some (WrapError (attempt_label ''S3 bucket'' attempt) e '''')))
           | (w2, None) \<Rightarrow> (w2, None)))"
  by pat_completeness auto

termination initialize_store
  by (relation "measure (\<lambda>(c, cfg, attempt, w). 3 - attempt)") auto

declare initialize_store.simps [simp del]

section \<open>Records\<close>

record aws_metadata =
  am_id :: string
  am_name :: string
  am_status :: string
  am_created_at :: time
  am_updated_at :: time
  am_state_key :: string
  am_resource_count :: int
  am_serial :: "64 word"
  am_lineage :: string
  am_version :: int

text \<open>The pattern \<^verbatim>\<open>^[a-zA-Z0-9][a-zA-Z0-9._-]*[a-zA-Z0-9]$\<close> has at least two characters.\<close>

definition state_id_pattern :: "string \<Rightarrow> bool" where
  "state_id_pattern s \<longleftrightarrow>
     2 \<le> length s \<and> is_alnum (hd s) \<and> is_alnum (last s) \<and>
     list_all (\<lambda>c. is_alnum c \<or> c \<in> {CHR ''.'', CHR ''_'', CHR ''-''}) s"

definition validate_state_id :: "string \<Rightarrow> goerror option" where
  "validate_state_id i =
     (if i = '''' then Some (ErrorString ''deployment ID cannot be empty'')
      else if length i > 100 then Some (ErrorString ''deployment ID too long (max 100 characters)'')
      else if \<not> state_id_pattern i then Some (ErrorString ''deployment ID contains invalid characters'')
      else None)"

definition trim_slash :: "string \<Rightarrow> string" where
  "trim_slash s = (if s \<noteq> '''' \<and> last s = CHR ''/'' then butlast s else s)"

definition state_s3_key :: "aws_config \<Rightarrow> string \<Rightarrow> string" where
  "state_s3_key cfg i =
     (let key = i @ ''.tfstate'' in if ag_prefix cfg \<noteq> '''' then trim_slash (ag_prefix cfg) @ ''/'' @ key else key)"

definition aws_lineage :: "time \<Rightarrow> string" where
  "aws_lineage now = ''lineage-'' @ itoa (unix_nano now)"

text \<open>\<^verbatim>\<open>strconv.ParseUint(s, 10, 64)\<close>.\<close>

definition parse_uint64 :: "string \<Rightarrow> nat option" where
  "parse_uint64 s = (case parse_nat s of None \<Rightarrow> None | Some n \<Rightarrow> if n < 2 ^ 64 then Some n else None)"

definition metadata_item :: "aws_metadata \<Rightarrow> item" where
  "metadata_item m =
     [(''PK'', AttrS (am_id m)), (''Name'', AttrS (am_name m)), (''Status'', AttrS (am_status m)),
      (''CreatedAt'', AttrS (format_rfc3339 0 (am_created_at m))),
      (''UpdatedAt'', AttrS (format_rfc3339 0 (am_updated_at m))),
      (''StateS3Key'', AttrS (am_state_key m)), (''ResourceCount'', AttrN (itoa (am_resource_count m))),
      (''Serial'', AttrN (itoa (uint (am_serial m)))), (''Lineage'', AttrS (am_lineage m)),
      (''Version'', AttrN (itoa (am_version m)))]"

text \<open>DynamoDB takes no empty strings: three members have defaults.\<close>

definition defaulted :: "aws_metadata \<Rightarrow> aws_metadata" where
  "defaulted m =
     m\<lparr>am_name := (if am_name m = '''' then am_id m else am_name m),
       am_state_key := (if am_state_key m = '''' then ''states/'' @ am_id m @ ''.tfstate'' else am_state_key m),
       am_lineage := (if am_lineage m = '''' then ''default'' else am_lineage m)\<rparr>"

definition marshal_deployment_metadata :: "aws_metadata \<Rightarrow> goerror + item" where
  "marshal_deployment_metadata m =
     (if am_id m = '''' then Inl (ErrorString ''DeploymentID cannot be empty'')
      else if am_status m = '''' then Inl (ErrorString ''status cannot be empty'')
      else Inr (metadata_item (defaulted m)))"

text \<open>An attribute that is missing, has another type or does not parse leaves the zero value.\<close>

definition text_of :: "item \<Rightarrow> string \<Rightarrow> string" where
  "text_of it k = (case map_of it k of Some (AttrS s) \<Rightarrow> s | _ \<Rightarrow> '''')"

definition time_of :: "item \<Rightarrow> string \<Rightarrow> time" where
  "time_of it k = (case map_of it k of Some (AttrS s) \<Rightarrow> opt_else time_zero (parse_rfc3339 s) | _ \<Rightarrow> time_zero)"

definition number_of :: "(string \<Rightarrow> 'a option) \<Rightarrow> 'a \<Rightarrow> item \<Rightarrow> string \<Rightarrow> 'a" where
  "number_of parse zero it k = (case map_of it k of Some (AttrN s) \<Rightarrow> opt_else zero (parse s) | _ \<Rightarrow> zero)"

definition unmarshal_deployment_metadata :: "item \<Rightarrow> aws_metadata" where
  "unmarshal_deployment_metadata it =
     \<lparr>am_id = text_of it ''PK'', am_name = text_of it ''Name'', am_status = text_of it ''Status'',
      am_created_at = time_of it ''CreatedAt'', am_updated_at = time_of it ''UpdatedAt'',
      am_state_key = text_of it ''StateS3Key'', am_resource_count = number_of parse_int64 0 it ''ResourceCount'',
      am_serial = number_of (\<lambda>s. map_option of_nat (parse_uint64 s)) 0 it ''Serial'',
      am_lineage = text_of it ''Lineage'', am_version = number_of parse_int64 0 it ''Version''\<rparr>"

definition get_deployment_metadata :: "'w aws_cloud \<Rightarrow> aws_config \<Rightarrow> string \<Rightarrow> 'w \<Rightarrow> goerror + aws_metadata" where
  "get_deployment_metadata c cfg i w =
     (case ac_get_item c (ag_table cfg) i w of
        Inl e \<Rightarrow> Inl (aws_wrap ''failed to get deployment metadata: '' e)
      | Inr None \<Rightarrow> Inl (ErrorString ''deployment not found'')
      | Inr (Some it) \<Rightarrow> Inr (unmarshal_deployment_metadata it))"

definition update_deployment_metadata :: "'w aws_cloud \<Rightarrow> aws_config \<Rightarrow> aws_metadata \<Rightarrow> 'w \<Rightarrow> 'w \<times> goerror option" where
  "update_deployment_metadata c cfg m w =
     (case marshal_deployment_metadata m of
        Inl e \<Rightarrow> (w, Some (WrapError ''failed to marshal metadata: '' e ''''))
      | Inr it \<Rightarrow>
          (case ac_put_item c (ag_table cfg) it w of
             (w1, Some e) \<Rightarrow> (w1, Some (aws_wrap ''failed to update metadata: '' e))
           | (w1, None) \<Rightarrow> (w1, None)))"

text \<open>Callers recognize a missing record by the text of the error.\<close>

definition says_not_found :: "goerror \<Rightarrow> bool" where
  "says_not_found e \<longleftrightarrow> str_contains (error_message e) ''not found''"

section \<open>States\<close>

definition convert_to_terraform_resource :: "gmap \<Rightarrow> tf_resource option" where
  "convert_to_terraform_resource r =
     (case (as_string (map_of r ''type''), as_string (map_of r ''name'')) of
        (Some ty, Some name) \<Rightarrow>
          Some \<lparr>tr_module = '''', tr_mode = ''managed'', tr_type = ty, tr_name = name,
                tr_provider = ''provider['' @ go_quote (extract_provider_name ty) @ '']'',
                tr_instances =
                  [\<lparr>ti_schema_version = 1,
                    ti_attributes = Some (opt_else r (as_map (map_of r ''attributes''))), ti_private = ''''\<rparr>]\<rparr>
      | _ \<Rightarrow> None)"

definition listed_resources :: "gmap \<Rightarrow> gval list option" where
  "listed_resources state = (case map_of state ''resources'' of Some (GList rs) \<Rightarrow> Some rs | _ \<Rightarrow> None)"

definition convert_to_terraform_state :: "gmap \<Rightarrow> aws_metadata \<Rightarrow> tf_state" where
  "convert_to_terraform_state state m =
     \<lparr>ts_version = 4, ts_terraform_version = ''1.5.0'', ts_serial = am_serial m, ts_lineage = am_lineage m,
      ts_outputs = opt_else [] (as_map (map_of state ''outputs'')),
      ts_resources = List.map_filter (\<lambda>v. Option.bind (as_map (Some v)) convert_to_terraform_resource)
                       (opt_else [] (listed_resources state))\<rparr>"

definition save_terraform_state_to_s3 ::
  "'w aws_cloud \<Rightarrow> aws_config \<Rightarrow> string \<Rightarrow> tf_state \<Rightarrow> 'w \<Rightarrow> 'w \<times> goerror option" where
  "save_terraform_state_to_s3 c cfg i st w =
     (case ac_put_object c (ag_bucket cfg) (state_s3_key cfg i) (TfDoc (json_state st)) w of
        (w1, Some e) \<Rightarrow> (w1, Some (aws_wrap ''failed to save state to S3: '' e))
      | (w1, None) \<Rightarrow> (w1, None))"

definition new_aws_metadata :: "aws_config \<Rightarrow> string \<Rightarrow> time \<Rightarrow> aws_metadata" where
  "new_aws_metadata cfg i now =
     \<lparr>am_id = i, am_name = i, am_status = ''queued'', am_created_at = now, am_updated_at = now,
      am_state_key = state_s3_key cfg i, am_resource_count = 0, am_serial = 0, am_lineage = aws_lineage now,
      am_version = 1\<rparr>"

definition aws_update_deployment_state ::
  "'w aws_cloud \<Rightarrow> aws_config \<Rightarrow> string \<Rightarrow> gmap \<Rightarrow> 'w \<Rightarrow> 'w \<times> goerror option" where
  "aws_update_deployment_state c cfg i state w =
     (case validate_state_id i of
        Some e \<Rightarrow> (w, Some (WrapError ''invalid deployment ID: '' e ''''))
      | None \<Rightarrow>
          (case (case get_deployment_metadata c cfg i w of
                   Inr m \<Rightarrow> Inr m
                 | Inl e \<Rightarrow>
                     if says_not_found e then Inr (new_aws_metadata cfg i (ac_now c w))
                     else Inl (WrapError ''failed to get deployment metadata: '' e '''')) of
             Inl e \<Rightarrow> (w, Some e)
           | Inr m \<Rightarrow>
               (let m1 = m\<lparr>am_updated_at := ac_now c w, am_serial := am_serial m + 1,
                           am_resource_count := (case listed_resources state of
                             Some rs \<Rightarrow> int (length rs) | None \<Rightarrow> am_resource_count m)\<rparr> in
                case save_terraform_state_to_s3 c cfg i (convert_to_terraform_state state m1) w of
                  (w1, Some e) \<Rightarrow> (w1, Some (WrapError ''failed to save Terraform state to S3: '' e ''''))
                | (w1, None) \<Rightarrow>
                    (case update_deployment_metadata c cfg m1 w1 of
                       (w2, Some e) \<Rightarrow> (w2, Some (WrapError ''failed to update deployment metadata: '' e ''''))
                     | (w2, None) \<Rightarrow> (w2, None)))))"


definition aws_get_deployment_state :: "'w aws_cloud \<Rightarrow> aws_config \<Rightarrow> string \<Rightarrow> 'w \<Rightarrow> goerror + gmap" where
  "aws_get_deployment_state c cfg i w =
     (case validate_state_id i of
        Some e \<Rightarrow> Inl (WrapError ''invalid deployment ID: '' e '''')
      | None \<Rightarrow>
          (case get_deployment_metadata c cfg i w of
             Inl e \<Rightarrow> Inl e
           | Inr m \<Rightarrow>
               Inr [(''deployment_id'', GStr (am_id m)), (''name'', GStr (am_name m)), (''status'', GStr (am_status m)),
                    (''created_at'', GStr (format_rfc3339 0 (am_created_at m))),
                    (''updated_at'', GStr (format_rfc3339 0 (am_updated_at m))),
                    (''resource_count'', GInt (am_resource_count m)), (''serial'', GInt (uint (am_serial m))),
                    (''lineage'', GStr (am_lineage m)), (''version'', GInt (am_version m))]))"

text \<open>A missing object is no error.\<close>

definition delete_state_object :: "'w aws_cloud \<Rightarrow> aws_config \<Rightarrow> string \<Rightarrow> 'w \<Rightarrow> 'w \<times> goerror option" where
  "delete_state_object c cfg i w =
     (case ac_delete_object c (ag_bucket cfg) (state_s3_key cfg i) w of
        (w1, None) \<Rightarrow> (w1, None)
      | (w1, Some (NoSuchKey s)) \<Rightarrow> (w1, None)
      | (w1, Some e) \<Rightarrow> (w1, Some (aws_wrap ''failed to delete state from S3: '' e)))"

definition aws_delete_deployment_state ::
  "'w aws_cloud \<Rightarrow> aws_config \<Rightarrow> string \<Rightarrow> 'w \<Rightarrow> 'w \<times> goerror option" where
  "aws_delete_deployment_state c cfg i w =
     (case validate_state_id i of
        Some e \<Rightarrow> (w, Some (WrapError ''invalid deployment ID: '' e ''''))
      | None \<Rightarrow>
          (case ac_delete_item c (ag_table cfg) i w of
             (w1, Some e) \<Rightarrow> (w1, Some (aws_wrap ''failed to delete deployment from DynamoDB: '' e))
           | (w1, None) \<Rightarrow> delete_state_object c cfg i w1))"

section \<open>Resources\<close>

definition invalid_resource_key :: "string \<Rightarrow> goerror" where
  "invalid_resource_key key = ErrorString (''invalid resource key format: '' @ key)"

text \<open>
  The resources are a map under \<^verbatim>\<open>resources\<close>, which the state of a deployment never has before. A state that is nil
  is the empty map here.
\<close>

definition aws_update_resource_state ::
  "'w aws_cloud \<Rightarrow> aws_config \<Rightarrow> string \<Rightarrow> gmap option \<Rightarrow> 'w \<Rightarrow> 'w \<times> goerror option" where
  "aws_update_resource_state c cfg key state w =
     (case split_first (CHR ''_'') key of
        [i, _] \<Rightarrow>
          (case aws_get_deployment_state c cfg i w of
             Inl e \<Rightarrow> (w, Some (WrapError ''failed to get deployment state: '' e ''''))
           | Inr current \<Rightarrow>
               (let resources = opt_else [] (as_map (map_of current ''resources'')) in
                aws_update_deployment_state c cfg i
                  (map_put ''resources'' (GMap (map_put key (GMap (nil_map state)) resources)) current) w))
      | _ \<Rightarrow> (w, Some (invalid_resource_key key)))"

definition empty_terraform_state :: "time \<Rightarrow> tf_state" where
  "empty_terraform_state now =
     \<lparr>ts_version = 4, ts_terraform_version = ''1.5.0'', ts_serial = 0, ts_lineage = aws_lineage now, ts_outputs = [],
      ts_resources = []\<rparr>"

definition aws_export_terraform_state :: "'w aws_cloud \<Rightarrow> aws_config \<Rightarrow> string \<Rightarrow> 'w \<Rightarrow> goerror + tf_state" where
  "aws_export_terraform_state c cfg i w =
     (case ac_get_object c (ag_bucket cfg) (state_s3_key cfg i) w of
        Inl (NoSuchKey s) \<Rightarrow> Inr (empty_terraform_state (ac_now c w))
      | Inl e \<Rightarrow> Inl (aws_wrap ''failed to get Terraform state from S3: '' e)
      | Inr (Inl e) \<Rightarrow> Inl (WrapError ''failed to decode Terraform state: '' e '''')
      | Inr (Inr (TfGarbage s)) \<Rightarrow> Inl (WrapError ''failed to decode Terraform state: '' (ErrorString ''json'') '''')
      | Inr (Inr (TfDoc st)) \<Rightarrow> Inr st)"

definition resource_attributes :: "tf_resource \<Rightarrow> gmap option option" where
  "resource_attributes r = (case tr_instances r of [] \<Rightarrow> None | t # _ \<Rightarrow> Some (ti_attributes t))"

text \<open>None is a nil map: also a resource that is not there.\<close>

definition aws_get_resource_state :: "'w aws_cloud \<Rightarrow> aws_config \<Rightarrow> string \<Rightarrow> 'w \<Rightarrow> goerror + gmap option" where
  "aws_get_resource_state c cfg key w =
     (case split_first (CHR ''_'') key of
        [i, _] \<Rightarrow>
          (case aws_export_terraform_state c cfg i w of
             Inl e \<Rightarrow> Inl e
           | Inr st \<Rightarrow>
               Inr (case List.find (\<lambda>r. tr_instances r \<noteq> [] \<and> i @ ''_'' @ tr_type r @ ''.'' @ tr_name r = key)
                           (ts_resources st) of
                      None \<Rightarrow> None
                    | Some r \<Rightarrow> opt_else None (resource_attributes r)))
      | _ \<Rightarrow> Inl (invalid_resource_key key))"

definition aws_get_all_resource_states ::
  "'w aws_cloud \<Rightarrow> aws_config \<Rightarrow> string \<Rightarrow> 'w \<Rightarrow> goerror + (string \<times> gmap option) list" where
  "aws_get_all_resource_states c cfg i w =
     (case aws_export_terraform_state c cfg i w of
        Inl e \<Rightarrow> Inl e
      | Inr st \<Rightarrow>
          Inr (fold (\<lambda>r m. case resource_attributes r of
                   None \<Rightarrow> m | Some a \<Rightarrow> map_put (tr_type r @ ''.'' @ tr_name r) a m) (ts_resources st) []))"

definition aws_delete_resource_state :: "'w aws_cloud \<Rightarrow> aws_config \<Rightarrow> string \<Rightarrow> 'w \<Rightarrow> 'w \<times> goerror option" where
  "aws_delete_resource_state c cfg key w = aws_update_resource_state c cfg key None w"

fun aws_update_resource_states_batch ::
  "'w aws_cloud \<Rightarrow> aws_config \<Rightarrow> (string \<times> gmap option) list \<Rightarrow> 'w \<Rightarrow> 'w \<times> goerror option" where
  "aws_update_resource_states_batch c cfg [] w = (w, None)"
| "aws_update_resource_states_batch c cfg ((key, state) # rest) w =
     (case aws_update_resource_state c cfg key state w of
        (w1, Some e) \<Rightarrow> (w1, Some (WrapError (''failed to update resource '' @ key @ '' in batch: '') e ''''))
      | (w1, None) \<Rightarrow> aws_update_resource_states_batch c cfg rest w1)"

definition aws_get_resource_states_batch ::
  "'w aws_cloud \<Rightarrow> aws_config \<Rightarrow> string list \<Rightarrow> 'w \<Rightarrow> (string \<times> gmap) list" where
  "aws_get_resource_states_batch c cfg ks w =
     fold (\<lambda>key m. case aws_get_resource_state c cfg key w of Inr (Some st) \<Rightarrow> map_put key st m | _ \<Rightarrow> m) ks []"

section \<open>Importing, cleaning up, counting\<close>

definition imported_metadata :: "aws_config \<Rightarrow> string \<Rightarrow> time \<Rightarrow> tf_state \<Rightarrow> aws_metadata" where
  "imported_metadata cfg i now st =
     \<lparr>am_id = i, am_name = i, am_status = ''completed'', am_created_at = now, am_updated_at = now,
      am_state_key = state_s3_key cfg i, am_resource_count = int (length (ts_resources st)), am_serial = ts_serial st,
      am_lineage = ts_lineage st, am_version = ts_version st\<rparr>"

definition refreshed_metadata :: "time \<Rightarrow> tf_state \<Rightarrow> aws_metadata \<Rightarrow> aws_metadata" where
  "refreshed_metadata now st m =
     m\<lparr>am_updated_at := now, am_serial := ts_serial st, am_lineage := ts_lineage st,
       am_resource_count := int (length (ts_resources st))\<rparr>"

definition aws_import_terraform_state ::
  "'w aws_cloud \<Rightarrow> aws_config \<Rightarrow> string \<Rightarrow> tf_state \<Rightarrow> 'w \<Rightarrow> 'w \<times> goerror option" where
  "aws_import_terraform_state c cfg i st w =
     (case save_terraform_state_to_s3 c cfg i st w of
        (w1, Some e) \<Rightarrow> (w1, Some (WrapError ''failed to save imported state to S3: '' e ''''))
      | (w1, None) \<Rightarrow>
          (case (case get_deployment_metadata c cfg i w1 of
                   Inr m \<Rightarrow> Inr (refreshed_metadata (ac_now c w1) st m)
                 | Inl e \<Rightarrow>
                     if says_not_found e then Inr (imported_metadata cfg i (ac_now c w1) st)
                     else Inl (WrapError ''failed to get deployment metadata: '' e '''')) of
             Inl e \<Rightarrow> (w1, Some e)
           | Inr m \<Rightarrow>
               (case update_deployment_metadata c cfg m w1 of
                  (w2, Some e) \<Rightarrow> (w2, Some (WrapError ''failed to update metadata after import: '' e ''''))
                | (w2, None) \<Rightarrow> (w2, None))))"

text \<open>Every old deployment of the first page goes, whatever its status; failures are passed over.\<close>

fun delete_old :: "'w aws_cloud \<Rightarrow> aws_config \<Rightarrow> item list \<Rightarrow> 'w \<Rightarrow> 'w" where
  "delete_old c cfg [] w = w"
| "delete_old c cfg (it # its) w =
     delete_old c cfg its
       (case map_of it ''PK'' of Some (AttrS i) \<Rightarrow> fst (aws_delete_deployment_state c cfg i w) | _ \<Rightarrow> w)"

definition aws_cleanup :: "'w aws_cloud \<Rightarrow> aws_config \<Rightarrow> duration \<Rightarrow> 'w \<Rightarrow> 'w \<times> goerror option" where
  "aws_cleanup c cfg older w =
     (case ac_scan_created_before c (ag_table cfg) (format_rfc3339 0 (ac_now c w - older)) w of
        Inl e \<Rightarrow> (w, Some (aws_wrap ''failed to query old deployments: '' e))
      | Inr its \<Rightarrow> (delete_old c cfg its w, None))"

record storage_info =
  si_type :: string
  si_exists :: bool
  si_writable :: bool
  si_deployment_count :: int
  si_total_size :: int

definition aws_storage_info :: "'w aws_cloud \<Rightarrow> aws_config \<Rightarrow> 'w \<Rightarrow> storage_info" where
  "aws_storage_info c cfg w =
     \<lparr>si_type = ''aws'', si_exists = True, si_writable = True,
      si_deployment_count = (case ac_scan_count c (ag_table cfg) w of Inl _ \<Rightarrow> 0 | Inr n \<Rightarrow> n), si_total_size = 0\<rparr>"

section \<open>The store interface\<close>

definition created_record :: "'w aws_cloud \<Rightarrow> aws_config \<Rightarrow> deployment_metadata \<Rightarrow> 'w \<Rightarrow> aws_metadata" where
  "created_record c cfg d w =
     (new_aws_metadata cfg (dm_deployment_id d) (ac_now c w))
       \<lparr>am_status := status_string (dm_status d), am_created_at := dm_created_at d,
         am_resource_count := dm_resource_count d\<rparr>"

definition aws_create_deployment ::
  "'w aws_cloud \<Rightarrow> aws_config \<Rightarrow> deployment_metadata \<Rightarrow> 'w \<Rightarrow> 'w \<times> goerror option" where
  "aws_create_deployment c cfg d w =
     (case validate_state_id (dm_deployment_id d) of
        Some e \<Rightarrow> (w, Some (WrapError ''invalid deployment ID: '' e ''''))
      | None \<Rightarrow>
          update_deployment_metadata c cfg (created_record c cfg d w) w)"

definition stored_metadata :: "aws_metadata \<Rightarrow> deployment_metadata" where
  "stored_metadata m =
     \<lparr>dm_deployment_id = am_id m, dm_status = status_of_string (am_status m), dm_created_at = am_created_at m,
      dm_updated_at = am_updated_at m, dm_configuration = None, dm_resource_count = am_resource_count m,
      dm_last_applied_at = Some (am_updated_at m), dm_error_message = ''''\<rparr>"

definition aws_get_deployment :: "'w aws_cloud \<Rightarrow> aws_config \<Rightarrow> string \<Rightarrow> 'w \<Rightarrow> goerror + deployment_metadata option" where
  "aws_get_deployment c cfg i w =
     (case validate_state_id i of
        Some e \<Rightarrow> Inl (WrapError ''invalid deployment ID: '' e '''')
      | None \<Rightarrow> map_sum id (\<lambda>m. Some (stored_metadata m)) (get_deployment_metadata c cfg i w))"

fun list_pages :: "(aws_error + item list) list \<Rightarrow> goerror + deployment_metadata list" where
  "list_pages [] = Inr []"
| "list_pages (Inl e # pages) = Inl (aws_wrap ''failed to scan deployments from DynamoDB: '' e)"
| "list_pages (Inr its # pages) =
     map_sum id (\<lambda>ds. map (\<lambda>it. stored_metadata (unmarshal_deployment_metadata it)) its @ ds) (list_pages pages)"

definition aws_list_deployments :: "'w aws_cloud \<Rightarrow> aws_config \<Rightarrow> 'w \<Rightarrow> goerror + deployment_metadata list" where
  "aws_list_deployments c cfg w = list_pages (ac_scan c (ag_table cfg) w)"

definition aws_update_deployment_status ::
  "'w aws_cloud \<Rightarrow> aws_config \<Rightarrow> string \<Rightarrow> deployment_status \<Rightarrow> 'w \<Rightarrow> 'w \<times> goerror option" where
  "aws_update_deployment_status c cfg i st w =
     (case get_deployment_metadata c cfg i w of
        Inl e \<Rightarrow> (w, Some e)
      | Inr m \<Rightarrow> update_deployment_metadata c cfg (m\<lparr>am_status := status_string st, am_updated_at := ac_now c w\<rparr>) w)"

text \<open>Once the object is stored nothing fails any more: errors of the record are only logged.\<close>

definition aws_save_terraform_state :: "'w aws_cloud \<Rightarrow> aws_config \<Rightarrow> string \<Rightarrow> tf_bytes \<Rightarrow> 'w \<Rightarrow> 'w \<times> goerror option" where
  "aws_save_terraform_state c cfg i data w =
     (case validate_state_id i of
        Some e \<Rightarrow> (w, Some (WrapError ''invalid deployment ID: '' e ''''))
      | None \<Rightarrow>
          (case ac_put_object c (ag_bucket cfg) (state_s3_key cfg i) data w of
             (w1, Some e) \<Rightarrow> (w1, Some (aws_wrap ''failed to save state to S3: '' e))
           | (w1, None) \<Rightarrow>
               (case data of
                  TfGarbage s \<Rightarrow> (w1, None)
                | TfDoc st \<Rightarrow>
                    (case get_deployment_metadata c cfg i w1 of
                       Inl e \<Rightarrow>
                         (if says_not_found e
                          then (fst (update_deployment_metadata c cfg (imported_metadata cfg i (ac_now c w1) st) w1), None)
                          else (w1, None))
                     | Inr m \<Rightarrow>
                         (fst (update_deployment_metadata c cfg
                            ((refreshed_metadata (ac_now c w1) st m)
                               \<lparr>am_version := (if ts_version st > 0 then ts_version st else am_version m)\<rparr>) w1), None)))))"

definition aws_load_terraform_state :: "'w aws_cloud \<Rightarrow> aws_config \<Rightarrow> string \<Rightarrow> 'w \<Rightarrow> goerror + tf_bytes" where
  "aws_load_terraform_state c cfg i w =
     (case validate_state_id i of
        Some e \<Rightarrow> Inl (WrapError ''invalid deployment ID: '' e '''')
      | None \<Rightarrow>
          (case ac_get_object c (ag_bucket cfg) (state_s3_key cfg i) w of
             Inl e \<Rightarrow> Inl (aws_wrap ''failed to get Terraform state from S3: '' e)
           | Inr (Inl e) \<Rightarrow> Inl (WrapError ''failed to read S3 object body: '' e '''')
           | Inr (Inr data) \<Rightarrow> Inr data))"

definition aws_delete_terraform_state :: "'w aws_cloud \<Rightarrow> aws_config \<Rightarrow> string \<Rightarrow> 'w \<Rightarrow> 'w \<times> goerror option" where
  "aws_delete_terraform_state c cfg i w =
     (case validate_state_id i of
        Some e \<Rightarrow> (w, Some (WrapError ''invalid deployment ID: '' e ''''))
      | None \<Rightarrow> delete_state_object c cfg i w)"

definition aws_ping :: "'w aws_cloud \<Rightarrow> aws_config \<Rightarrow> 'w \<Rightarrow> goerror option" where
  "aws_ping c cfg w =
     (case ac_table_status c (ag_table cfg) w of
        Inl e \<Rightarrow> Some (aws_wrap ''DynamoDB connectivity failed: '' e)
      | Inr _ \<Rightarrow> map_option (aws_wrap ''S3 connectivity failed: '') (ac_head_bucket c (ag_bucket cfg) w))"

definition aws_store_ops :: "'w aws_cloud \<Rightarrow> aws_config \<Rightarrow> 'w store_ops" where
  "aws_store_ops c cfg =
     \<lparr>so_create = aws_create_deployment c cfg, so_get = aws_get_deployment c cfg, so_list = aws_list_deployments c cfg,
      so_update_status = aws_update_deployment_status c cfg, so_delete = aws_delete_deployment_state c cfg,
      so_save_tf = aws_save_terraform_state c cfg, so_load_tf = aws_load_terraform_state c cfg,
      so_delete_tf = aws_delete_terraform_state c cfg\<rparr>"


section \<open>What the services promise\<close>

text \<open>
  \<open>items\<close> and \<open>objects\<close> are what the tables and the buckets hold. While the services are up, a bucket answers reads
  with what it holds; a write that returns no error is done, and no request to one of the services changes what the other
  one holds. A deletion whose object is missing is done, too.
\<close>

locale cloud_services =
  fixes c :: "'w aws_cloud"
    and items :: "'w \<Rightarrow> string \<Rightarrow> string \<Rightarrow> item option"
    and objects :: "'w \<Rightarrow> string \<Rightarrow> string \<Rightarrow> tf_bytes option"
    and up :: "'w \<Rightarrow> bool"
  assumes put_item: "ac_put_item c t it w = (w', None) \<Longrightarrow> map_of it ''PK'' = Some (AttrS k) \<Longrightarrow>
          items w' = (items w)(t := (items w t)(k \<mapsto> it))"
    and delete_item: "ac_delete_item c t k w = (w', None) \<Longrightarrow> items w' = (items w)(t := (items w t)(k := None))"
    and get_object: "up w \<Longrightarrow> objects w b k = Some d \<Longrightarrow> ac_get_object c b k w = Inr (Inr d)"
    and get_no_object: "up w \<Longrightarrow> objects w b k = None \<Longrightarrow> \<exists>s. ac_get_object c b k w = Inl (NoSuchKey s)"
    and put_object: "ac_put_object c b k d w = (w', None) \<Longrightarrow> objects w' = (objects w)(b := (objects w b)(k \<mapsto> d))"
    and delete_object: "ac_delete_object c b k w = (w', r) \<Longrightarrow> r = None \<or> r = Some (NoSuchKey s) \<Longrightarrow>
          objects w' = (objects w)(b := (objects w b)(k := None))"
    and objects_put_item: "ac_put_item c t it w = (w', r) \<Longrightarrow> objects w' = objects w"
    and objects_delete_item: "ac_delete_item c t k w = (w', r) \<Longrightarrow> objects w' = objects w"
    and items_put_object: "ac_put_object c b k d w = (w', r) \<Longrightarrow> items w' = items w"
    and items_delete_object: "ac_delete_object c b k w = (w', r) \<Longrightarrow> items w' = items w"
    and up_put_item: "ac_put_item c t it w = (w', r) \<Longrightarrow> up w \<Longrightarrow> up w'"
    and up_delete_item: "ac_delete_item c t k w = (w', r) \<Longrightarrow> up w \<Longrightarrow> up w'"
    and up_put_object: "ac_put_object c b k d w = (w', r) \<Longrightarrow> up w \<Longrightarrow> up w'"
    and up_delete_object: "ac_delete_object c b k w = (w', r) \<Longrightarrow> up w \<Longrightarrow> up w'"
begin

lemma update_metadata_frame:
  "objects (fst (update_deployment_metadata c cfg m w)) = objects w"
  "up w \<Longrightarrow> up (fst (update_deployment_metadata c cfg m w))"
  by (auto simp: update_deployment_metadata_def split: sum.split prod.split option.split
      intro: objects_put_item up_put_item)

lemma update_metadata_items:
  assumes "update_deployment_metadata c cfg m w = (w', None)"
  shows "items w' = (items w)(ag_table cfg := (items w (ag_table cfg))(am_id m \<mapsto> metadata_item (defaulted m)))"
  using assms
  by (auto simp: update_deployment_metadata_def marshal_deployment_metadata_def metadata_item_def defaulted_def
      intro!: put_item split: sum.splits prod.splits option.splits if_splits)

lemma create_frame:
  "objects (fst (aws_create_deployment c cfg d w)) = objects w"
  "up w \<Longrightarrow> up (fst (aws_create_deployment c cfg d w))"
  by (auto simp: aws_create_deployment_def update_metadata_frame split: option.split)

lemma delete_object_done:
  assumes "delete_state_object c cfg i w = (w', r)"
  shows "items w' = items w" and "up w \<Longrightarrow> up w'"
    and "r = None \<Longrightarrow> objects w' = (objects w)(ag_bucket cfg := (objects w (ag_bucket cfg))(state_s3_key cfg i := None))"
proof -
  obtain w1 e where d: "ac_delete_object c (ag_bucket cfg) (state_s3_key cfg i) w = (w1, e)" by fastforce
  then have w': "w' = w1" "r = None \<Longrightarrow> e = None \<or> (\<exists>s. e = Some (NoSuchKey s))"
    using assms by (auto simp: delete_state_object_def split: option.splits aws_error.splits)
  show "items w' = items w" "up w \<Longrightarrow> up w'"
    using w'(1) items_delete_object [OF d] up_delete_object [OF d] by simp_all
  show "r = None \<Longrightarrow> objects w' = (objects w)(ag_bucket cfg := (objects w (ag_bucket cfg))(state_s3_key cfg i := None))"
    using w' delete_object [OF d] by blast
qed

lemma delete_up: "up w \<Longrightarrow> up (fst (aws_delete_deployment_state c cfg i w))"
proof -
  assume u: "up w"
  obtain w1 e where d: "ac_delete_item c (ag_table cfg) i w = (w1, e)" by fastforce
  have "up w1" using up_delete_item [OF d u] by simp
  then show ?thesis
    using d u delete_object_done(2) [of cfg i w1, OF prod.collapse [symmetric]]
    by (auto simp: aws_delete_deployment_state_def split: option.split)
qed

lemma delete_done:
  assumes "aws_delete_deployment_state c cfg i w = (w', None)"
  shows "validate_state_id i = None"
    and "items w' = (items w)(ag_table cfg := (items w (ag_table cfg))(i := None))"
    and "objects w' = (objects w)(ag_bucket cfg := (objects w (ag_bucket cfg))(state_s3_key cfg i := None))"
proof -
  obtain w1 where d: "ac_delete_item c (ag_table cfg) i w = (w1, None)" "delete_state_object c cfg i w1 = (w', None)"
    and "validate_state_id i = None"
    using assms by (auto simp: aws_delete_deployment_state_def split: option.splits prod.splits)
  then show "validate_state_id i = None" by simp
  show "items w' = (items w)(ag_table cfg := (items w (ag_table cfg))(i := None))"
    using delete_object_done(1) [OF d(2)] delete_item [OF d(1)] by simp
  show "objects w' = (objects w)(ag_bucket cfg := (objects w (ag_bucket cfg))(state_s3_key cfg i := None))"
    using delete_object_done(3) [OF d(2) refl] objects_delete_item [OF d(1)] by simp
qed

end


section \<open>A store of deployments\<close>

lemma parse_uint64_itoa: "parse_uint64 (itoa (uint (n :: 64 word))) = Some (unat n)"
proof -
  have "nat (uint n) = unat n" by simp
  moreover have "unat n < 2 ^ LENGTH(64)" by (rule unsigned_less)
  ultimately show ?thesis by (simp add: parse_uint64_def itoa_def parse_nat_digits_of)
qed

text \<open>An instant to the second.\<close>

definition to_second :: "time \<Rightarrow> time" where
  "to_second t = t - t mod second"

lemma unmarshal_item:
  assumes "0 \<le> am_created_at m" "am_created_at m < max_time" "0 \<le> am_updated_at m" "am_updated_at m < max_time"
    and "- (2 ^ 63) \<le> am_resource_count m" "am_resource_count m < 2 ^ 63" "- (2 ^ 63) \<le> am_version m" "am_version m < 2 ^ 63"
  shows "unmarshal_deployment_metadata (metadata_item m) =
     m\<lparr>am_created_at := to_second (am_created_at m), am_updated_at := to_second (am_updated_at m)\<rparr>"
  using assms
  by (simp add: unmarshal_deployment_metadata_def metadata_item_def text_of_def time_of_def number_of_def
      parse_format_rfc3339 parse_int64_itoa parse_uint64_itoa opt_else_def to_second_def)

text \<open>What the store answers for an item that it reads, and the record it gives of a deployment that was created.\<close>

definition answer_of :: "string \<Rightarrow> item option \<Rightarrow> goerror + deployment_metadata option" where
  "answer_of i v =
     (case validate_state_id i of
        Some e \<Rightarrow> Inl (WrapError ''invalid deployment ID: '' e '''')
      | None \<Rightarrow>
          (case v of
             None \<Rightarrow> Inl (ErrorString ''deployment not found'')
           | Some it \<Rightarrow> Inr (Some (stored_metadata (unmarshal_deployment_metadata it)))))"

definition aws_reloaded :: "'w aws_cloud \<Rightarrow> 'w \<Rightarrow> deployment_metadata \<Rightarrow> deployment_metadata" where
  "aws_reloaded c w d =
     \<lparr>dm_deployment_id = dm_deployment_id d, dm_status = status_of_string (status_string (dm_status d)),
      dm_created_at = to_second (dm_created_at d), dm_updated_at = to_second (ac_now c w),
      dm_configuration = None, dm_resource_count = dm_resource_count d,
      dm_last_applied_at = Some (to_second (ac_now c w)), dm_error_message = ''''\<rparr>"

lemma created_put:
  assumes "aws_create_deployment c cfg d w = (w', None)"
  shows "validate_state_id (dm_deployment_id d) = None \<and>
    ac_put_item c (ag_table cfg) (metadata_item (defaulted (created_record c cfg d w))) w = (w', None)"
  using assms
  by (auto simp: aws_create_deployment_def update_deployment_metadata_def marshal_deployment_metadata_def metadata_item_def
      defaulted_def split: option.splits sum.splits prod.splits if_splits)

lemma created_item_key: "map_of (metadata_item (defaulted (created_record c cfg d w))) ''PK'' = Some (AttrS (dm_deployment_id d))"
  by (simp add: metadata_item_def defaulted_def created_record_def new_aws_metadata_def)

lemma created_item_read:
  assumes "0 \<le> dm_created_at d" "dm_created_at d < max_time" "0 \<le> ac_now c w" "ac_now c w < max_time"
    and "- (2 ^ 63) \<le> dm_resource_count d" "dm_resource_count d < 2 ^ 63"
  shows "stored_metadata (unmarshal_deployment_metadata (metadata_item (defaulted (created_record c cfg d w)))) = aws_reloaded c w d"
proof -
  let ?m = "defaulted (created_record c cfg d w)"
  have "unmarshal_deployment_metadata (metadata_item ?m) =
      ?m\<lparr>am_created_at := to_second (am_created_at ?m), am_updated_at := to_second (am_updated_at ?m)\<rparr>"
    using assms by (intro unmarshal_item) (simp_all add: defaulted_def created_record_def new_aws_metadata_def)
  then show ?thesis
    by (simp add: aws_reloaded_def stored_metadata_def defaulted_def created_record_def new_aws_metadata_def)
qed

text \<open>
  Reads of items are eventually consistent, since the store does not ask for consistent ones: \<open>readable\<close> are the
  versions of an item that a read may answer with. A read answers with one of them, and a write adds its version; the
  older ones go at a time of their own.
\<close>

locale stale_reads = cloud_services c items objects up
  for c :: "'w aws_cloud" and items :: "'w \<Rightarrow> string \<Rightarrow> string \<Rightarrow> item option"
    and objects :: "'w \<Rightarrow> string \<Rightarrow> string \<Rightarrow> tf_bytes option" and up :: "'w \<Rightarrow> bool" +
  fixes readable :: "'w \<Rightarrow> string \<Rightarrow> string \<Rightarrow> item option set"
  assumes get_item: "up w \<Longrightarrow> \<exists>v \<in> readable w t k. ac_get_item c t k w = Inr v"
    and readable_put: "ac_put_item c t it w = (w', None) \<Longrightarrow> map_of it ''PK'' = Some (AttrS k) \<Longrightarrow>
          readable w' t k \<subseteq> insert (Some it) (readable w t k)"
    and readable_delete: "ac_delete_item c t k w = (w', None) \<Longrightarrow> readable w' t k \<subseteq> insert None (readable w t k)"
begin

lemma read_answer:
  "up w \<Longrightarrow> \<exists>v \<in> readable w (ag_table cfg) i. aws_get_deployment c cfg i w = answer_of i v"
  using get_item [of w "ag_table cfg" i]
  by (auto simp: aws_get_deployment_def get_deployment_metadata_def answer_of_def split: option.split)

lemma created_answer:
  assumes "aws_create_deployment c cfg d w = (w', None)" and "up w1"
    and "readable w1 (ag_table cfg) (dm_deployment_id d) \<subseteq> readable w' (ag_table cfg) (dm_deployment_id d)"
  shows "\<exists>v \<in> readable w1 (ag_table cfg) (dm_deployment_id d).
    aws_get_deployment c cfg (dm_deployment_id d) w1 = answer_of (dm_deployment_id d) v \<and>
    (v = Some (metadata_item (defaulted (created_record c cfg d w))) \<or>
     v \<in> readable w (ag_table cfg) (dm_deployment_id d))"
  using read_answer [OF assms(2), of cfg "dm_deployment_id d"] assms(3) created_put [OF assms(1)]
    readable_put [of "ag_table cfg" _ w w' "dm_deployment_id d"] created_item_key [of c cfg d w] by blast

end

context cloud_services
begin

lemma deleted_state:
  assumes "up w" and "aws_delete_deployment_state c cfg i w = (w', None)"
  shows "\<exists>e. aws_load_terraform_state c cfg i w' = Inl e"
proof -
  have "up w'" using delete_up [OF assms(1), of cfg i] assms(2) by simp
  then obtain s where "ac_get_object c (ag_bucket cfg) (state_s3_key cfg i) w' = Inl (NoSuchKey s)"
    using get_no_object [of w' "ag_bucket cfg" "state_s3_key cfg i"] delete_done(3) [OF assms(2)] by auto
  then show ?thesis using delete_done(1) [OF assms(2)] by (simp add: aws_load_terraform_state_def)
qed

text \<open>Writing a record over an existing one deletes the Terraform state of the deployment.\<close>

lemma persisted_over:
  assumes "up w" and "aws_get_deployment c cfg (dm_deployment_id m) w = Inr (Some old)"
    and "aws_delete_deployment_state c cfg (dm_deployment_id m) w = (w1, None)"
  shows "\<exists>e. aws_load_terraform_state c cfg (dm_deployment_id m)
     (fst (aws_create_deployment c cfg m' w1)) = Inl e"
proof -
  let ?w = "fst (aws_create_deployment c cfg m' w1)" and ?i = "dm_deployment_id m"
  have "up w1" using delete_up [OF assms(1), of cfg ?i] assms(3) by simp
  then have "up ?w" by (rule create_frame(2))
  moreover have "objects ?w (ag_bucket cfg) (state_s3_key cfg ?i) = None"
    using delete_done(3) [OF assms(3)] create_frame(1) [of cfg m' w1] by simp
  ultimately obtain s where "ac_get_object c (ag_bucket cfg) (state_s3_key cfg ?i) ?w = Inl (NoSuchKey s)"
    using get_no_object by blast
  then show ?thesis using delete_done(1) [OF assms(3)] by (simp add: aws_load_terraform_state_def)
qed

end

section \<open>Services in memory\<close>

text \<open>Services that never fail, at a time that stands still; \<open>me_items\<close> and \<open>me_objects\<close> are what they hold.\<close>

record memory_cloud =
  me_now :: time
  me_items :: "string \<Rightarrow> string \<Rightarrow> item option"
  me_objects :: "string \<Rightarrow> string \<Rightarrow> tf_bytes option"

definition primary_key :: "item \<Rightarrow> string" where
  "primary_key it = (case map_of it ''PK'' of Some (AttrS k) \<Rightarrow> k | _ \<Rightarrow> '''')"

definition memory_services :: "memory_cloud aws_cloud" where
  "memory_services =
     \<lparr>ac_now = me_now,
      ac_get_item = \<lambda>t k w. Inr (me_items w t k),
      ac_put_item = \<lambda>t it w. (w\<lparr>me_items := (me_items w)(t := (me_items w t)(primary_key it \<mapsto> it))\<rparr>, None),
      ac_delete_item = \<lambda>t k w. (w\<lparr>me_items := (me_items w)(t := (me_items w t)(k := None))\<rparr>, None),
      ac_scan = \<lambda>t w. [], ac_scan_created_before = \<lambda>t cut w. Inr [], ac_scan_count = \<lambda>t w. Inr 0,
      ac_put_object = \<lambda>b k d w. (w\<lparr>me_objects := (me_objects w)(b := (me_objects w b)(k \<mapsto> d))\<rparr>, None),
      ac_get_object = \<lambda>b k w. (case me_objects w b k of None \<Rightarrow> Inl (NoSuchKey ''NoSuchKey'') | Some d \<Rightarrow> Inr (Inr d)),
      ac_delete_object = \<lambda>b k w. (w\<lparr>me_objects := (me_objects w)(b := (me_objects w b)(k := None))\<rparr>, None),
      ac_table_status = \<lambda>t w. Inr ''ACTIVE'', ac_create_table = \<lambda>t w. (w, None), ac_wait_table = \<lambda>t w. (w, None),
      ac_head_bucket = \<lambda>b w. None, ac_create_bucket = \<lambda>b r w. (w, None), ac_sleep = \<lambda>t w. (w, None)\<rparr>"

interpretation memory: stale_reads memory_services me_items me_objects "\<lambda>_. True" "\<lambda>w t k. {me_items w t k}"
  by unfold_locales (auto simp: memory_services_def primary_key_def)

definition empty_memory :: memory_cloud where
  "empty_memory = \<lparr>me_now = 63745021234 * second + 5, me_items = \<lambda>_ _. None, me_objects = \<lambda>_ _. None\<rparr>"

definition memory_config :: aws_config where
  "memory_config =
     \<lparr>ag_table = ''lattiam'', ag_dynamodb_region = ''us-east-1'', ag_bucket = ''lattiam-state'',
      ag_s3_region = ''us-east-1'', ag_prefix = '''', ag_endpoint = ''''\<rparr>"

text \<open>
  C15: after the AWS store created a deployment, and as long as nothing else writes its item, whenever it is read back,
  before the new item has spread or after, the store answers with the new record or with a version of the item that could be read before the creation, in
  particular that there is none; once only the new item can be read it is the new record. That has the
  identifier, the status and the resource count of the deployment, its creation time and the time of the creation to the
  second, the latter also as the time of the last application; its configuration and its error are gone.
\<close>

theorem aws_create_get:
  assumes "stale_reads c items objects up readable" and "aws_create_deployment c cfg d w = (w', None)"
    and "up w1" and "readable w1 (ag_table cfg) (dm_deployment_id d) \<subseteq> readable w' (ag_table cfg) (dm_deployment_id d)"
    and "0 \<le> dm_created_at d" and "dm_created_at d < max_time" and "0 \<le> ac_now c w" and "ac_now c w < max_time"
    and "- (2 ^ 63) \<le> dm_resource_count d" and "dm_resource_count d < 2 ^ 63"
  shows "(aws_get_deployment c cfg (dm_deployment_id d) w1 = Inr (Some (aws_reloaded c w d)) \<or>
      (\<exists>v \<in> readable w (ag_table cfg) (dm_deployment_id d).
         aws_get_deployment c cfg (dm_deployment_id d) w1 = answer_of (dm_deployment_id d) v)) \<and>
    (readable w1 (ag_table cfg) (dm_deployment_id d) = {items w' (ag_table cfg) (dm_deployment_id d)} \<longrightarrow>
      aws_get_deployment c cfg (dm_deployment_id d) w1 = Inr (Some (aws_reloaded c w d)))"
proof -
  let ?it = "metadata_item (defaulted (created_record c cfg d w))" and ?t = "ag_table cfg" and ?i = "dm_deployment_id d"
  have services: "cloud_services c items objects up" using assms(1) by (simp add: stale_reads_def)
  have item: "items w' ?t ?i = Some ?it"
    using cloud_services.put_item [OF services conjunct2 [OF created_put [OF assms(2)]] created_item_key] by simp
  have new: "answer_of ?i (Some ?it) = Inr (Some (aws_reloaded c w d))"
    using created_put [OF assms(2)] created_item_read [OF assms(5-10)] by (simp add: answer_of_def)
  obtain v where v: "v \<in> readable w1 ?t ?i" "aws_get_deployment c cfg ?i w1 = answer_of ?i v"
    "v = Some ?it \<or> v \<in> readable w ?t ?i"
    using stale_reads.created_answer [OF assms(1-4)] by blast
  have "aws_get_deployment c cfg ?i w1 = Inr (Some (aws_reloaded c w d)) \<or>
      (\<exists>v \<in> readable w ?t ?i. aws_get_deployment c cfg ?i w1 = answer_of ?i v)"
    using v(3)
  proof
    assume "v = Some ?it"
    then show ?thesis using v(2) new by simp
  qed (use v(2) in blast)
  moreover have "aws_get_deployment c cfg ?i w1 = Inr (Some (aws_reloaded c w d))"
    if "readable w1 ?t ?i = {items w' ?t ?i}"
  proof -
    have "v = Some ?it" using v(1) that item by simp
    then show ?thesis using v(2) new by simp
  qed
  ultimately show ?thesis by blast
qed

definition bucket_record :: deployment_metadata where
  "bucket_record =
     \<lparr>dm_deployment_id = ''dep-1'', dm_status = StatusCompleted, dm_created_at = 63745021234 * second,
      dm_updated_at = 0, dm_configuration = Some [(''k'', GNil)], dm_resource_count = 3, dm_last_applied_at = None,
      dm_error_message = ''''\<rparr>"

lemma bucket_record_created:
  "\<exists>w'. aws_create_deployment memory_services memory_config bucket_record empty_memory = (w', None) \<and>
     me_objects w' = me_objects empty_memory"
  by (simp add: aws_create_deployment_def bucket_record_def validate_state_id_def state_id_pattern_def is_alnum_def
      update_deployment_metadata_def marshal_deployment_metadata_def created_record_def new_aws_metadata_def
      memory_services_def)

theorem aws_create_get_witness:
  "\<exists>w' m. aws_create_deployment memory_services memory_config bucket_record empty_memory = (w', None) \<and>
     aws_get_deployment memory_services memory_config ''dep-1'' w' = Inr (Some m) \<and>
     dm_updated_at m = 63745021234 * second \<and> dm_configuration m = None \<and> dm_resource_count m = 3"
proof -
  obtain w' where w': "aws_create_deployment memory_services memory_config bucket_record empty_memory = (w', None)"
    using bucket_record_created by blast
  have now: "ac_now memory_services empty_memory = 63745021234 * second + 5"
    by (simp add: memory_services_def empty_memory_def)
  have "to_second (63745021234 * second + 5) = 63745021234 * second"
    by (simp add: to_second_def second_def millisecond_def)
  then show ?thesis
    using aws_create_get [OF memory.stale_reads_axioms w', of w'] w'
    by (simp add: now bucket_record_def aws_reloaded_def max_time_def second_def millisecond_def)
qed

end
