(* ===== verification/AWS_Results.thy ===== *)
theory AWS_Results
  imports AWS_Store Embedded_Tracker Executor_State
begin

text \<open>
  The tracker and the executor on the AWS store, as \<^verbatim>\<open>internal/system/background_system_factory.go\<close> puts them together
  for the state store of type \<^verbatim>\<open>aws\<close>.
\<close>

section \<open>Changing a tracked deployment\<close>

lemma persisted_store:
  assumes "et_store (fst ts) = Some ops"
  shows "\<exists>m. dm_deployment_id m = qd_id d \<and> snd (persist_deployment_with_result upd d result ts) = persist_metadata ops m (snd ts)"
proof (cases result)
  case None
  then have "snd (persist_deployment_with_result upd d result ts) =
      persist_metadata ops (queued_deployment_to_metadata upd d) (snd ts)"
    using assms by (cases ts) (simp add: persist_deployment_with_result_def Let_def)
  moreover have "dm_deployment_id (queued_deployment_to_metadata upd d) = qd_id d"
    by (simp add: queued_deployment_to_metadata_def)
  ultimately show ?thesis by blast
next
  case (Some r)
  let ?q = "queued_deployment_to_metadata upd d"
  let ?m = "?q\<lparr>dm_configuration := Some (map_put ''__result__'' (GMap (result_data r))
      (case dm_configuration ?q of None \<Rightarrow> [] | Some c \<Rightarrow> c))\<rparr>"
  have "snd (persist_deployment_with_result upd d result ts) = persist_metadata ops ?m (snd ts)"
    using assms Some by (cases ts) (simp add: persist_deployment_with_result_def Let_def)
  moreover have "dm_deployment_id ?m = qd_id d" by (simp add: queued_deployment_to_metadata_def)
  ultimately show ?thesis by blast
qed

lemma put_deployment_frame [simp]:
  "et_store (fst (put_deployment e ts)) = et_store (fst ts)" "snd (put_deployment e ts) = snd ts"
  by (simp_all add: put_deployment_def)

lemma changed_store:
  assumes s: "et_store (fst ts) = Some ops" and "tracker_inv ts" and "tracked_deployment ts i = Some d"
  shows "\<exists>m. dm_deployment_id m = i \<and> snd (fst (tracker_set_status now upd i st ts)) = persist_metadata ops m (snd ts)"
    and "\<exists>m. dm_deployment_id m = i \<and> snd (fst (tracker_set_result now upd i (Some r) ts)) = persist_metadata ops m (snd ts)"
proof -
  have i: "qd_id d = i" "i \<noteq> ''''" "map_of (et_deployments (fst ts)) i = Some d"
    using assms(2,3) by (auto simp: tracker_inv_tracked tracked_deployment_def)
  define d1 where "d1 = status_timestamps now st (d\<lparr>qd_status := st\<rparr>)"
  have "qd_id d1 = i" using i(1)
    by (cases st) (simp_all add: d1_def status_timestamps_def set_completed_def split: option.split)
  then show "\<exists>m. dm_deployment_id m = i \<and> snd (fst (tracker_set_status now upd i st ts)) = persist_metadata ops m (snd ts)"
    using persisted_store [of "put_deployment d1 ts" ops d1 upd] s i(2,3)
    by (simp add: tracker_set_status_def persist_deployment_def Let_def d1_def [symmetric])
  define d2 where "d2 = (if is_terminal_for_result (qd_status d) then d
    else set_completed now (d\<lparr>qd_status := (if dr_success r then StatusCompleted else StatusFailed)\<rparr>))"
  define t2 where "t2 = (fst ts)\<lparr>et_results := map_put i r (et_results (fst ts))\<rparr>"
  have "qd_id d2 = i" using i(1) by (simp add: d2_def set_completed_def split: option.split)
  moreover have "et_store t2 = Some ops" using s by (simp add: t2_def)
  ultimately show "\<exists>m. dm_deployment_id m = i \<and> snd (fst (tracker_set_result now upd i (Some r) ts)) = persist_metadata ops m (snd ts)"
    using persisted_store [of "put_deployment d2 (t2, snd ts)" ops d2 upd "Some r"] i(2,3)
    by (simp add: tracker_set_result_def Let_def d2_def [symmetric] t2_def [symmetric])
qed

context cloud_services
begin

lemma persisting_erases:
  assumes "up w" and "aws_get_deployment c cfg i w = Inr (Some old)"
    and "snd (aws_delete_deployment_state c cfg i w) = None" and "dm_deployment_id m = i"
  shows "\<exists>e. aws_load_terraform_state c cfg i (persist_metadata (aws_store_ops c cfg) m w) = Inl e"
proof -
  obtain w1 where d: "aws_delete_deployment_state c cfg i w = (w1, None)"
    using assms(3) by (metis prod.collapse)
  have "persist_metadata (aws_store_ops c cfg) m w =
      fst (aws_create_deployment c cfg (m\<lparr>dm_created_at := dm_created_at old\<rparr>) w1)"
    using assms(2,4) d by (simp add: persist_metadata_def aws_store_ops_def)
  then show ?thesis using persisted_over [of w cfg m old w1] assms(1,2,4) d by simp
qed

text \<open>\<^verbatim>\<open>UpdateResourceState\<close> hands over a map of resources where \<^verbatim>\<open>UpdateDeploymentState\<close> only takes lists.\<close>

lemma updated_state_object:
  assumes "aws_update_deployment_state c cfg i state w = (w', None)" and "listed_resources state = None"
  shows "\<exists>st. ts_resources st = [] \<and> objects w' = (objects w)(ag_bucket cfg :=
           (objects w (ag_bucket cfg))(state_s3_key cfg i \<mapsto> TfDoc st))"
    and "up w \<Longrightarrow> up w'"
proof -
  obtain m w1 where saved: "save_terraform_state_to_s3 c cfg i (convert_to_terraform_state state m) w = (w1, None)"
    and "w' = fst (update_deployment_metadata c cfg m w1)"
    using assms(1) by (auto simp: aws_update_deployment_state_def Let_def split: option.splits sum.splits prod.splits)
  then have w': "objects w' = objects w1" "up w1 \<Longrightarrow> up w'" by (simp_all add: update_metadata_frame)
  obtain e where put: "ac_put_object c (ag_bucket cfg) (state_s3_key cfg i)
      (TfDoc (json_state (convert_to_terraform_state state m))) w = (w1, e)" and "e = None"
    using saved by (auto simp: save_terraform_state_to_s3_def split: prod.splits option.splits)
  have "ts_resources (json_state (convert_to_terraform_state state m)) = []"
    using assms(2) by (simp add: json_state_def convert_to_terraform_state_def opt_else_def List.map_filter_def)
  moreover have "objects w1 = (objects w)(ag_bucket cfg := (objects w (ag_bucket cfg))(state_s3_key cfg i \<mapsto>
      TfDoc (json_state (convert_to_terraform_state state m))))"
    using put put_object \<open>e = None\<close> by simp
  ultimately show "\<exists>st. ts_resources st = [] \<and> objects w' = (objects w)(ag_bucket cfg :=
           (objects w (ag_bucket cfg))(state_s3_key cfg i \<mapsto> TfDoc st))"
    using w'(1) by auto
  show "up w \<Longrightarrow> up w'" using up_put_object [OF put] w'(2) by simp
qed

lemma updated_resource_gone:
  assumes "up w" and "aws_update_resource_state c cfg key state w = (w', None)"
  shows "\<exists>i n st. split_first (CHR ''_'') key = [i, n] \<and> aws_export_terraform_state c cfg i w' = Inr st \<and> ts_resources st = []"
proof -
  obtain i n cur where k: "split_first (CHR ''_'') key = [i, n]" and cur: "aws_get_deployment_state c cfg i w = Inr cur"
    and u: "aws_update_deployment_state c cfg i (map_put ''resources'' (GMap (map_put key (GMap (nil_map state))
        (opt_else [] (as_map (map_of cur ''resources''))))) cur) w = (w', None)"
    using assms(2) by (auto simp: aws_update_resource_state_def Let_def split: list.splits sum.splits)
  obtain st where st: "ts_resources st = []" "objects w' = (objects w)(ag_bucket cfg :=
           (objects w (ag_bucket cfg))(state_s3_key cfg i \<mapsto> TfDoc st))"
    using updated_state_object(1) [OF u] by (auto simp: listed_resources_def)
  have "up w'" using updated_state_object(2) [OF u _ assms(1)] by (simp add: listed_resources_def)
  then have "ac_get_object c (ag_bucket cfg) (state_s3_key cfg i) w' = Inr (Inr (TfDoc st))"
    using get_object st(2) by simp
  then show ?thesis using k st(1) by (auto simp: aws_export_terraform_state_def)
qed

end

text \<open>
  C13: when the AWS store updates the state of one resource without an error, the stored state of the deployment has no
  resources afterwards: the resource cannot be read back, and all others are gone, too.
\<close>

theorem resource_update_erases_resources:
  assumes "cloud_services c items objects up" and "up w" and "aws_update_resource_state c cfg key state w = (w', None)"
  shows "aws_get_resource_state c cfg key w' = Inr None \<and>
    (\<exists>i n. split_first (CHR ''_'') key = [i, n] \<and> aws_get_all_resource_states c cfg i w' = Inr [])"
  using cloud_services.updated_resource_gone [OF assms]
  by (auto simp: aws_get_resource_state_def aws_get_all_resource_states_def)

text \<open>
  C12: on the AWS store, recording the result of a deployment, or a change of its status, deletes its Terraform state: the
  tracker replaces an existing record by deleting and creating it, and the deletion also removes the state object. After
  it the state cannot be loaded, and the next execution of the deployment starts from an empty one.
\<close>

theorem recording_erases_state:
  assumes "cloud_services c items objects up" and "up (snd ts)"
    and "et_store (fst ts) = Some (aws_store_ops c cfg)" and "tracker_inv ts" and "tracked_deployment ts i = Some d"
    and "aws_get_deployment c cfg i (snd ts) = Inr (Some old)"
    and "snd (aws_delete_deployment_state c cfg i (snd ts)) = None"
    and "ex_store ex = Some (aws_store_ops c cfg)"
    and "ts' \<in> {fst (tracker_set_result now upd i (Some r) ts), fst (tracker_set_status now upd i st ts)}"
  shows "(\<exists>e. aws_load_terraform_state c cfg i (snd ts') = Inl e) \<and>
         working_state ex i (snd ts') = Some (create_empty_state (ex_now ex))"
proof -
  obtain m where "dm_deployment_id m = i" "snd ts' = persist_metadata (aws_store_ops c cfg) m (snd ts)"
    using changed_store [OF assms(3-5)] assms(9) by blast
  then have erased: "\<exists>e. aws_load_terraform_state c cfg i (snd ts') = Inl e"
    using cloud_services.persisting_erases [OF assms(1,2,6,7)] by simp
  show ?thesis
    using erased assms(8) by (auto simp: working_state_def load_terraform_state_def aws_store_ops_def)
qed

definition bucket_state :: tf_state where
  "bucket_state =
     (create_empty_state 7)\<lparr>ts_resources :=
       [\<lparr>tr_module = '''', tr_mode = ''managed'', tr_type = ''aws_s3_bucket'', tr_name = ''b'', tr_provider = ''aws'',
         tr_instances = [\<lparr>ti_schema_version = 0, ti_attributes = Some [(''id'', GStr ''x'')], ti_private = ''''\<rparr>]\<rparr>]\<rparr>"

definition cloud_saved :: memory_cloud where
  "cloud_saved =
     fst (aws_save_terraform_state memory_services memory_config ''dep-1'' (TfDoc bucket_state) empty_memory)"

definition cloud_start :: memory_cloud where
  "cloud_start = fst (aws_create_deployment memory_services memory_config bucket_record cloud_saved)"

definition cloud_tracker :: "memory_cloud tracked" where
  "cloud_tracker =
     (\<lparr>et_deployments = [(''dep-1'', waiting_deployment)], et_results = [],
       et_store = Some (aws_store_ops memory_services memory_config)\<rparr>, cloud_start)"

definition cloud_executor :: "(memory_cloud, int, unit, dependency_graph) executor" where
  "cloud_executor =
     \<lparr>ex_store = Some (aws_store_ops memory_services memory_config), ex_providers = counting_provider,
      ex_resolver = production_resolver insertion_order insertion_order insertion_order insertion_order,
      ex_interpolate = (\<lambda>m _. Inr m), ex_decode = (\<lambda>_. Inl (ErrorString ''no plan'')), ex_now = 63745021234 * second\<rparr>"

lemma sample_state_id: "validate_state_id ''dep-1'' = None"
  by (simp add: validate_state_id_def state_id_pattern_def is_alnum_def)

lemma cloud_start_facts:
  "\<exists>old. aws_get_deployment memory_services memory_config ''dep-1'' cloud_start = Inr (Some old)"
  "snd (aws_delete_deployment_state memory_services memory_config ''dep-1'' cloud_start) = None"
  "aws_load_terraform_state memory_services memory_config ''dep-1'' cloud_start = Inr (TfDoc bucket_state)"
proof -
  have "snd (aws_create_deployment memory_services memory_config bucket_record cloud_saved) = None"
    using sample_state_id
    by (simp add: aws_create_deployment_def bucket_record_def update_deployment_metadata_def
        marshal_deployment_metadata_def created_record_def new_aws_metadata_def memory_services_def)
  then have "aws_create_deployment memory_services memory_config bucket_record cloud_saved = (cloud_start, None)"
    unfolding cloud_start_def by (metis prod.collapse)
  note made = created_put [OF this]
  have "dm_deployment_id bucket_record = ''dep-1''" by (simp add: bucket_record_def)
  then have "me_items cloud_start (ag_table memory_config) ''dep-1'' \<noteq> None"
    using memory.put_item [OF conjunct2 [OF made] created_item_key] by simp
  then show "\<exists>old. aws_get_deployment memory_services memory_config ''dep-1'' cloud_start = Inr (Some old)"
    using memory.read_answer [of cloud_start memory_config "''dep-1''"] sample_state_id by (auto simp: answer_of_def)
  show "snd (aws_delete_deployment_state memory_services memory_config ''dep-1'' cloud_start) = None"
    using sample_state_id by (simp add: aws_delete_deployment_state_def memory_services_def delete_state_object_def)
  have put: "ac_put_object memory_services b k d w =
      (w\<lparr>me_objects := (me_objects w)(b := (me_objects w b)(k \<mapsto> d))\<rparr>, None)" for b k d w
    by (simp add: memory_services_def)
  have "me_objects cloud_start = me_objects cloud_saved"
    unfolding cloud_start_def by (rule memory.create_frame(1))
  also have "\<dots> = (me_objects empty_memory)(ag_bucket memory_config :=
      (me_objects empty_memory (ag_bucket memory_config))(state_s3_key memory_config ''dep-1'' \<mapsto> TfDoc bucket_state))"
    using sample_state_id put
    by (simp add: cloud_saved_def aws_save_terraform_state_def memory.update_metadata_frame split: sum.split)
  finally show "aws_load_terraform_state memory_services memory_config ''dep-1'' cloud_start = Inr (TfDoc bucket_state)"
    using sample_state_id by (simp add: aws_load_terraform_state_def memory_services_def)
qed


theorem recording_erases_state_witness:
  "aws_load_terraform_state memory_services memory_config ''dep-1'' (snd cloud_tracker) = Inr (TfDoc bucket_state) \<and>
   (\<exists>e. aws_load_terraform_state memory_services memory_config ''dep-1''
      (snd (fst (tracker_set_status 5 6 ''dep-1'' StatusProcessing cloud_tracker))) = Inl e) \<and>
   working_state cloud_executor ''dep-1'' (snd (fst (tracker_set_status 5 6 ''dep-1'' StatusProcessing cloud_tracker))) =
     Some (create_empty_state (63745021234 * second))"
proof -
  have s: "snd cloud_tracker = cloud_start" and e: "et_store (fst cloud_tracker) = Some (aws_store_ops memory_services memory_config)"
    and d: "tracked_deployment cloud_tracker ''dep-1'' = Some waiting_deployment" and i: "tracker_inv cloud_tracker"
    by (simp_all add: cloud_tracker_def tracked_deployment_def tracker_inv_def waiting_deployment_def)
  obtain old where "aws_get_deployment memory_services memory_config ''dep-1'' cloud_start = Inr (Some old)"
    using cloud_start_facts(1) by blast
  then show ?thesis
    using recording_erases_state [OF memory.cloud_services_axioms _ e i d, of old cloud_executor
        "fst (tracker_set_status 5 6 ''dep-1'' StatusProcessing cloud_tracker)" 5 6 _ StatusProcessing] cloud_start_facts(2,3)
    by (simp add: s cloud_executor_def)
qed


lemma cloud_start_record:
  "\<exists>m. get_deployment_metadata memory_services memory_config ''dep-1'' cloud_start = Inr m \<and> am_id m = ''dep-1'' \<and> am_status m = ''completed''"
proof -
  let ?m = "created_record memory_services memory_config bucket_record cloud_saved"
  have start: "cloud_start = fst (update_deployment_metadata memory_services memory_config ?m cloud_saved)"
    and "snd (update_deployment_metadata memory_services memory_config ?m cloud_saved) = None"
    using sample_state_id
    by (simp_all add: cloud_start_def aws_create_deployment_def bucket_record_def update_deployment_metadata_def
        marshal_deployment_metadata_def created_record_def new_aws_metadata_def memory_services_def)
  then have "update_deployment_metadata memory_services memory_config ?m cloud_saved = (cloud_start, None)"
    by (metis prod.collapse)
  from memory.update_metadata_items [OF this]
  have "me_items cloud_start (ag_table memory_config) ''dep-1'' = Some (metadata_item (defaulted ?m))"
    by (simp add: created_record_def new_aws_metadata_def bucket_record_def)
  moreover have "ac_get_item memory_services t k w = Inr (me_items w t k)" for t k w
    by (simp add: memory_services_def)
  ultimately show ?thesis
    by (simp add: get_deployment_metadata_def unmarshal_deployment_metadata_def text_of_def metadata_item_def defaulted_def
        created_record_def new_aws_metadata_def bucket_record_def)
qed

theorem resource_update_erases_resources_witness:
  "\<exists>w'. aws_get_all_resource_states memory_services memory_config ''dep-1'' cloud_start =
       Inr [(''aws_s3_bucket.b'', Some [(''id'', GStr ''x'')])] \<and>
     aws_update_resource_state memory_services memory_config ''dep-1_aws_s3_bucket.b'' (Some [(''id'', GStr ''y'')]) cloud_start =
       (w', None) \<and>
     aws_get_all_resource_states memory_services memory_config ''dep-1'' w' = Inr []"
proof -
  have key: "split_first (CHR ''_'') ''dep-1_aws_s3_bucket.b'' = [''dep-1'', ''aws_s3_bucket.b'']"
    by simp
  have before: "aws_get_all_resource_states memory_services memory_config ''dep-1'' cloud_start =
       Inr [(''aws_s3_bucket.b'', Some [(''id'', GStr ''x'')])]"
    using cloud_start_facts(3) sample_state_id
    by (auto simp: aws_load_terraform_state_def aws_get_all_resource_states_def aws_export_terraform_state_def
        bucket_state_def resource_attributes_def split: sum.splits)
  obtain m where "get_deployment_metadata memory_services memory_config ''dep-1'' cloud_start = Inr m"
    and "am_id m = ''dep-1''" "am_status m = ''completed''"
    using cloud_start_record by blast
  then have "snd (aws_update_resource_state memory_services memory_config ''dep-1_aws_s3_bucket.b'' (Some [(''id'', GStr ''y'')]) cloud_start) = None"
    using sample_state_id key
    by (simp add: aws_update_resource_state_def aws_get_deployment_state_def aws_update_deployment_state_def Let_def
        save_terraform_state_to_s3_def update_deployment_metadata_def marshal_deployment_metadata_def)
       (simp add: memory_services_def)
  then obtain w' where w': "aws_update_resource_state memory_services memory_config ''dep-1_aws_s3_bucket.b''
      (Some [(''id'', GStr ''y'')]) cloud_start = (w', None)"
    by (metis prod.collapse)
  show ?thesis
    using resource_update_erases_resources [OF memory.cloud_services_axioms _ w'] before w' key by simp
qed

end
