(* ===== verification/DynamoDB_Lock.thy ===== *)
theory DynamoDB_Lock
  imports AWS_Store
begin

text \<open>
  Locks on deployments as items of a DynamoDB table (\<^verbatim>\<open>internal/state/dynamodb_lock.go\<close>), and how the AWS store is
  opened with them and hands them out. The table is the parameter \<open>lock_service\<close>, its documented behaviour the locale
  \<open>lock_table\<close>. The methods of a provider only run one at a time here: its map of stop channels has no mutex.
\<close>

section \<open>Opening clients\<close>

text \<open>
  What the process has around it. \<open>pe_load\<close> is the SDK's loading of its configuration for a region, with the static test
  credentials or without.
\<close>

record process_env =
  pe_getenv :: "string \<Rightarrow> string"
  pe_arg0 :: string
  pe_hostname :: string
  pe_pid :: int
  pe_load :: "string \<Rightarrow> bool \<Rightarrow> goerror option"

definition is_endpoint_in_config :: "string \<Rightarrow> bool" where
  "is_endpoint_in_config endpoint \<longleftrightarrow>
     str_contains (to_lower endpoint) ''localstack'' \<or> str_contains (to_lower endpoint) ''localhost''"

definition has_suffix :: "string \<Rightarrow> string \<Rightarrow> bool" where
  "has_suffix s t \<longleftrightarrow> length t \<le> length s \<and> drop (length s - length t) s = t"

definition is_localstack_or_test_env :: "process_env \<Rightarrow> string \<Rightarrow> bool" where
  "is_localstack_or_test_env env endpoint \<longleftrightarrow>
     endpoint \<noteq> '''' \<and>
       (str_contains (to_lower endpoint) ''localstack'' \<or> str_contains (to_lower endpoint) ''localhost'') \<or>
     pe_getenv env ''LATTIAM_USE_LOCALSTACK'' = ''true'' \<or> pe_getenv env ''LOCALSTACK_ENDPOINT'' \<noteq> '''' \<or>
     pe_getenv env ''GO_TEST_PROCESS'' \<noteq> '''' \<or> has_suffix (pe_arg0 env) ''.test''"

definition load_aws_config_for_endpoint :: "process_env \<Rightarrow> string \<Rightarrow> string \<Rightarrow> goerror option" where
  "load_aws_config_for_endpoint env region endpoint =
     map_option (\<lambda>e. WrapError ''failed to load AWS config: '' e '''')
       (pe_load env region (is_localstack_or_test_env env endpoint))"

text \<open>The endpoint a client is built with, if it is not the one of the SDK's configuration; S3 also has its path style.\<close>

definition dynamodb_client_endpoint :: "string \<Rightarrow> string option" where
  "dynamodb_client_endpoint endpoint =
     (if endpoint \<noteq> '''' \<and> \<not> is_endpoint_in_config endpoint then Some endpoint else None)"

definition s3_client_options :: "string \<Rightarrow> string option \<times> bool" where
  "s3_client_options endpoint =
     (if endpoint \<noteq> '''' \<and> \<not> is_endpoint_in_config endpoint then (Some endpoint, True)
      else if endpoint \<noteq> '''' \<and>
              (str_contains (to_lower endpoint) ''localstack'' \<or> str_contains (to_lower endpoint) ''localhost'')
           then (None, True)
      else (None, False))"

definition lock_client_endpoint :: "process_env \<Rightarrow> string \<Rightarrow> string option" where
  "lock_client_endpoint env endpoint =
     (if endpoint \<noteq> '''' \<and> \<not> is_localstack_or_test_env env endpoint then Some endpoint else None)"

section \<open>The table\<close>

record lock_info =
  li_operation :: string
  li_created :: int
  li_info :: "(string \<times> string) list"

text \<open>A request on one item; an expression that is not given is empty.\<close>

record lock_request =
  rq_table :: string
  rq_key :: string
  rq_item :: item
  rq_condition :: string
  rq_update :: string
  rq_names :: "(string \<times> string) list"
  rq_values :: item

text \<open>
  \<open>ls_context\<close> is the error of the context of the acquisition, \<open>ls_sleep\<close> waits unless that context ends.
  \<open>ls_encode\<close> and \<open>ls_decode\<close> are the JSON text of a \<^verbatim>\<open>LockInfo\<close>.
\<close>

record 'w lock_service =
  ls_now :: "'w \<Rightarrow> time"
  ls_context :: "'w \<Rightarrow> goerror option"
  ls_sleep :: "duration \<Rightarrow> 'w \<Rightarrow> 'w \<times> goerror option"
  ls_put :: "lock_request \<Rightarrow> 'w \<Rightarrow> 'w \<times> aws_error option"
  ls_update :: "lock_request \<Rightarrow> 'w \<Rightarrow> 'w \<times> aws_error option"
  ls_delete :: "lock_request \<Rightarrow> 'w \<Rightarrow> 'w \<times> aws_error option"
  ls_scan :: "string \<Rightarrow> 'w \<Rightarrow> aws_error + item list"
  ls_describe :: "string \<Rightarrow> 'w \<Rightarrow> aws_error option"
  ls_create :: "string \<Rightarrow> 'w \<Rightarrow> 'w \<times> aws_error option"
  ls_wait :: "string \<Rightarrow> 'w \<Rightarrow> 'w \<times> goerror option"
  ls_enable_ttl :: "string \<Rightarrow> 'w \<Rightarrow> 'w"
  ls_encode :: "lock_info \<Rightarrow> string"
  ls_decode :: "string \<Rightarrow> lock_info option"

section \<open>Providers\<close>

record lock_config =
  lc_table :: string
  lc_region :: string
  lc_endpoint :: string
  lc_ttl :: duration
  lc_refresh_interval :: duration
  lc_timeout :: duration

text \<open>
  \<open>lp_closed\<close> are the stop channels that are closed, \<open>lp_next\<close> is the next one to be made; \<open>lp_refreshing\<close> are the
  goroutines that refresh, each with its stop channel and the key of its item.
\<close>

record lock_provider =
  lp_config :: lock_config
  lp_owner :: string
  lp_stops :: "(string \<times> nat) list"
  lp_closed :: "nat list"
  lp_next :: nat
  lp_refreshing :: "(nat \<times> string) list"

record dynamo_lock =
  dl_id :: string
  dl_lock_id :: string
  dl_deployment_id :: string
  dl_created_at :: time
  dl_operation :: string
  dl_stop :: nat

definition ensure_lock_table :: "'w lock_service \<Rightarrow> string \<Rightarrow> 'w \<Rightarrow> 'w \<times> goerror option" where
  "ensure_lock_table s t w =
     (case ls_describe s t w of
        None \<Rightarrow> (w, None)
      | Some (ResourceNotFound m) \<Rightarrow>
          (case ls_create s t w of
             (w1, Some e) \<Rightarrow> (w1, Some (aws_wrap ''failed to create DynamoDB table: '' e))
           | (w1, None) \<Rightarrow>
               (case ls_wait s t w1 of
                  (w2, Some e) \<Rightarrow> (w2, Some (WrapError ''timeout waiting for table to become active: '' e ''''))
                | (w2, None) \<Rightarrow> (ls_enable_ttl s t w2, None)))
      | Some e \<Rightarrow> (w, Some (aws_wrap ''failed to describe table: '' e)))"

definition lock_defaults :: "lock_config \<Rightarrow> lock_config" where
  "lock_defaults cfg =
     cfg\<lparr>lc_ttl := (if lc_ttl cfg = 0 then 15 * minute else lc_ttl cfg),
         lc_refresh_interval := (if lc_refresh_interval cfg = 0 then 3 * minute else lc_refresh_interval cfg),
         lc_timeout := (if lc_timeout cfg = 0 then 10 * second else lc_timeout cfg)\<rparr>"

definition lock_seconds :: "time \<Rightarrow> int" where
  "lock_seconds t = t div second - 62135596800"

definition owner_id :: "process_env \<Rightarrow> time \<Rightarrow> string" where
  "owner_id env now =
     (if pe_hostname env = '''' then ''unknown'' else pe_hostname env) @ ''-'' @ itoa (pe_pid env) @ ''-'' @
     itoa (lock_seconds now)"

definition new_lock_provider ::
  "'w lock_service \<Rightarrow> process_env \<Rightarrow> lock_config \<Rightarrow> 'w \<Rightarrow> 'w \<times> (goerror + lock_provider)" where
  "new_lock_provider s env cfg w =
     (if lc_table cfg = '''' then (w, Inl (ErrorString ''table name is required''))
      else if lc_region cfg = '''' then (w, Inl (ErrorString ''region is required''))
      else
        (let cfg1 = lock_defaults cfg in
         case load_aws_config_for_endpoint env (lc_region cfg1) (lc_endpoint cfg1) of
           Some e \<Rightarrow> (w, Inl (WrapError ''failed to load AWS config: '' e ''''))
         | None \<Rightarrow>
             (let p = \<lparr>lp_config = cfg1, lp_owner = owner_id env (ls_now s w), lp_stops = [], lp_closed = [],
                       lp_next = 0, lp_refreshing = []\<rparr> in
              case ensure_lock_table s (lc_table cfg1) w of
                (w1, Some e) \<Rightarrow> (w1, Inl (WrapError ''failed to ensure DynamoDB table exists: '' e ''''))
              | (w1, None) \<Rightarrow> (w1, Inr p))))"

section \<open>Acquiring\<close>

definition lock_key :: "string \<Rightarrow> string" where
  "lock_key i = ''deployment/'' @ i"

definition lock_info_of :: "lock_provider \<Rightarrow> string \<Rightarrow> string \<Rightarrow> time \<Rightarrow> lock_info" where
  "lock_info_of p i operation now =
     \<lparr>li_operation = operation, li_created = lock_seconds now,
      li_info = [(''deployment_id'', i), (''hostname'', lp_owner p)]\<rparr>"

definition lock_item :: "lock_provider \<Rightarrow> string \<Rightarrow> string \<Rightarrow> string \<Rightarrow> time \<Rightarrow> item" where
  "lock_item p i operation info now =
     [(''LockID'', AttrS (lock_key i)), (''Owner'', AttrS (lp_owner p)), (''Operation'', AttrS operation),
      (''Created'', AttrN (itoa (lock_seconds now))),
      (''TTL'', AttrN (itoa (lock_seconds (now + lc_ttl (lp_config p))))), (''Info'', AttrS info)]"

definition acquire_request :: "lock_provider \<Rightarrow> string \<Rightarrow> string \<Rightarrow> string \<Rightarrow> time \<Rightarrow> lock_request" where
  "acquire_request p i operation info now =
     \<lparr>rq_table = lc_table (lp_config p), rq_key = lock_key i, rq_item = lock_item p i operation info now,
      rq_condition = ''attribute_not_exists(LockID)'', rq_update = '''', rq_names = [], rq_values = []\<rparr>"

definition new_dynamo_lock :: "lock_provider \<Rightarrow> string \<Rightarrow> string \<Rightarrow> time \<Rightarrow> dynamo_lock" where
  "new_dynamo_lock p i operation now =
     \<lparr>dl_id = ''dynamodb-lock-'' @ itoa (unix_nano now), dl_lock_id = lock_key i, dl_deployment_id = i,
      dl_created_at = now, dl_operation = operation, dl_stop = lp_next p\<rparr>"

text \<open>The goroutine that refreshes starts, and its stop channel is stored.\<close>

definition start_refreshing :: "dynamo_lock \<Rightarrow> lock_provider \<Rightarrow> lock_provider" where
  "start_refreshing l p =
     p\<lparr>lp_next := lp_next p + 1, lp_refreshing := (dl_stop l, dl_lock_id l) # lp_refreshing p,
       lp_stops := map_put (dl_id l) (dl_stop l) (lp_stops p)\<rparr>"

text \<open>One attempt: the conditional write.\<close>

definition acquire_attempt ::
  "'w lock_service \<Rightarrow> lock_provider \<Rightarrow> string \<Rightarrow> string \<Rightarrow> string \<Rightarrow> 'w \<Rightarrow> 'w \<times> (aws_error + lock_provider \<times> dynamo_lock)" where
  "acquire_attempt s p i operation info w =
     (let now = ls_now s w in
      case ls_put s (acquire_request p i operation info now) w of
        (w1, Some e) \<Rightarrow> (w1, Inl e)
      | (w1, None) \<Rightarrow>
          (let l = new_dynamo_lock p i operation now in (w1, Inr (start_refreshing l p, l))))"

text \<open>The pause after an attempt: 100 ms doubled each time, at most 5000 ms, and half of it again.\<close>

definition retry_delay :: "nat \<Rightarrow> duration" where
  "retry_delay attempt =
     (let d = min (100 * 2 ^ attempt) 5000 in d * millisecond + (d div 2) * millisecond)"

text \<open>\<open>left\<close> attempts are left after this one, of four.\<close>

fun acquire_attempts ::
  "'w lock_service \<Rightarrow> lock_provider \<Rightarrow> string \<Rightarrow> string \<Rightarrow> string \<Rightarrow> nat \<Rightarrow> 'w \<Rightarrow>
     'w \<times> (goerror + lock_provider \<times> dynamo_lock)" where
  "acquire_attempts s p i operation info left w =
     (case ls_context s w of
        Some e \<Rightarrow> (w, Inl (WrapError ''lock acquisition canceled: '' e ''''))
      | None \<Rightarrow>
          (case acquire_attempt s p i operation info w of
             (w1, Inr r) \<Rightarrow> (w1, Inr r)
           | (w1, Inl (ConditionFailed m)) \<Rightarrow> (w1, Inl (ErrorString ''lock is already held by another process''))
           | (w1, Inl e) \<Rightarrow>
               (case left of
                  0 \<Rightarrow> (w1, Inl (aws_wrap ''failed to acquire lock after 3 retries: '' e))
                | Suc n \<Rightarrow>
                    (case ls_sleep s (retry_delay (3 - left)) w1 of
                       (w2, Some ctx) \<Rightarrow> (w2, Inl (WrapError ''lock acquisition canceled during retry: '' ctx ''''))
                     | (w2, None) \<Rightarrow> acquire_attempts s p i operation info n w2))))"

declare acquire_attempts.simps [simp del]

definition acquire_lock ::
  "'w lock_service \<Rightarrow> lock_provider \<Rightarrow> string \<Rightarrow> string \<Rightarrow> 'w \<Rightarrow> 'w \<times> (goerror + lock_provider \<times> dynamo_lock)" where
  "acquire_lock s p i operation w =
     acquire_attempts s p i operation (ls_encode s (lock_info_of p i operation (ls_now s w))) 3 w"

section \<open>Refreshing, releasing, listing\<close>

definition refresh_request :: "lock_provider \<Rightarrow> string \<Rightarrow> time \<Rightarrow> lock_request" where
  "refresh_request p k now =
     \<lparr>rq_table = lc_table (lp_config p), rq_key = k, rq_item = [], rq_condition = ''#owner = :owner'',
      rq_update = ''SET #ttl = :ttl'', rq_names = [(''#ttl'', ''TTL'')],
      rq_values = [('':ttl'', AttrN (itoa (lock_seconds (now + lc_ttl (lp_config p))))), ('':owner'', AttrS (lp_owner p))]\<rparr>"

text \<open>A tick of a goroutine that refreshes: an error ends it. It also ends when it finds its channel closed.\<close>

definition refresh_tick :: "'w lock_service \<Rightarrow> nat \<times> string \<Rightarrow> lock_provider \<Rightarrow> 'w \<Rightarrow> lock_provider \<times> 'w" where
  "refresh_tick s g p w =
     (case ls_update s (refresh_request p (snd g) (ls_now s w)) w of
        (w1, Some e) \<Rightarrow> (p\<lparr>lp_refreshing := remove1 g (lp_refreshing p)\<rparr>, w1)
      | (w1, None) \<Rightarrow> (p, w1))"

definition refresh_stopped :: "nat \<times> string \<Rightarrow> lock_provider \<Rightarrow> lock_provider option" where
  "refresh_stopped g p =
     (if fst g \<in> set (lp_closed p) then Some (p\<lparr>lp_refreshing := remove1 g (lp_refreshing p)\<rparr>) else None)"

definition delete_request :: "lock_provider \<Rightarrow> string \<Rightarrow> lock_request" where
  "delete_request p k =
     \<lparr>rq_table = lc_table (lp_config p), rq_key = k, rq_item = [], rq_condition = '''', rq_update = '''', rq_names = [],
      rq_values = []\<rparr>"

definition force_unlock :: "'w lock_service \<Rightarrow> lock_provider \<Rightarrow> string \<Rightarrow> 'w \<Rightarrow> 'w \<times> goerror option" where
  "force_unlock s p k w =
     (case ls_delete s (delete_request p k) w of
        (w1, Some e) \<Rightarrow> (w1, Some (aws_wrap ''failed to force unlock: '' e))
      | (w1, None) \<Rightarrow> (w1, None))"

text \<open>Closing a channel that is closed panics, written None.\<close>

definition close_channel :: "nat \<Rightarrow> lock_provider \<Rightarrow> lock_provider option" where
  "close_channel ch p = (if ch \<in> set (lp_closed p) then None else Some (p\<lparr>lp_closed := ch # lp_closed p\<rparr>))"

fun close_channels :: "nat list \<Rightarrow> lock_provider \<Rightarrow> lock_provider option" where
  "close_channels [] p = Some p"
| "close_channels (ch # chs) p = Option.bind (close_channel ch p) (close_channels chs)"

definition shutdown_locks :: "lock_provider \<Rightarrow> lock_provider option" where
  "shutdown_locks p = map_option (\<lambda>p. p\<lparr>lp_stops := []\<rparr>) (close_channels (map snd (lp_stops p)) p)"

definition release_request :: "lock_provider \<Rightarrow> string \<Rightarrow> lock_request" where
  "release_request p k =
     \<lparr>rq_table = lc_table (lp_config p), rq_key = k, rq_item = [], rq_condition = ''#owner = :owner'', rq_update = '''',
      rq_names = [(''#owner'', ''Owner'')], rq_values = [('':owner'', AttrS (lp_owner p))]\<rparr>"

definition release_dynamo_lock ::
  "'w lock_service \<Rightarrow> lock_provider \<Rightarrow> dynamo_lock \<Rightarrow> 'w \<Rightarrow> (lock_provider \<times> 'w \<times> goerror option) option" where
  "release_dynamo_lock s p l w =
     (case close_channel (dl_stop l) p of
        None \<Rightarrow> None
      | Some p1 \<Rightarrow>
          (let p2 = p1\<lparr>lp_stops := map_del (dl_id l) (lp_stops p1)\<rparr> in
           case ls_delete s (release_request p (dl_lock_id l)) w of
             (w1, None) \<Rightarrow> Some (p2, w1, None)
           | (w1, Some (ConditionFailed m)) \<Rightarrow> Some (p2, w1, Some (ErrorString ''lock is not owned by this process''))
           | (w1, Some e) \<Rightarrow> Some (p2, w1, Some (aws_wrap ''failed to release lock: '' e))))"

definition string_member :: "item \<Rightarrow> string \<Rightarrow> string \<Rightarrow> gmap" where
  "string_member it k name = (case map_of it k of Some (AttrS s) \<Rightarrow> [(name, GStr s)] | _ \<Rightarrow> [])"

definition time_member :: "item \<Rightarrow> string \<Rightarrow> string \<Rightarrow> gmap" where
  "time_member it k name =
     (case map_of it k of
        Some (AttrN s) \<Rightarrow> (case parse_int64 s of
            None \<Rightarrow> [] | Some n \<Rightarrow> [(name, GTime ((n + 62135596800) * second))])
      | _ \<Rightarrow> [])"

definition listed_lock :: "'w lock_service \<Rightarrow> item \<Rightarrow> gmap" where
  "listed_lock s it =
     string_member it ''LockID'' ''lock_id'' @ string_member it ''Owner'' ''owner'' @
     string_member it ''Operation'' ''operation'' @ time_member it ''Created'' ''created'' @
     time_member it ''TTL'' ''expires_at'' @
     (case map_of it ''Info'' of
        Some (AttrS t) \<Rightarrow> (case ls_decode s t of
            None \<Rightarrow> [] | Some info \<Rightarrow> [(''info'', GMap (map (\<lambda>(k, v). (k, GStr v)) (li_info info)))])
      | _ \<Rightarrow> [])"

definition list_locks :: "'w lock_service \<Rightarrow> lock_provider \<Rightarrow> 'w \<Rightarrow> goerror + gmap list" where
  "list_locks s p w =
     (case ls_scan s (lc_table (lp_config p)) w of
        Inl e \<Rightarrow> Inl (aws_wrap ''failed to list locks: '' e)
      | Inr its \<Rightarrow> Inr (map (listed_lock s) its))"

section \<open>The locks of the store\<close>

text \<open>The store without a lock provider refuses. A lock of another type is None.\<close>

definition aws_lock_deployment ::
  "'w lock_service \<Rightarrow> lock_provider option \<Rightarrow> string \<Rightarrow> 'w \<Rightarrow> 'w \<times> (goerror + lock_provider \<times> dynamo_lock)" where
  "aws_lock_deployment s provider i w =
     (case provider of
        None \<Rightarrow> (w, Inl (ErrorString ''locking is not enabled''))
      | Some p \<Rightarrow> acquire_lock s p i ''deployment'' w)"

definition aws_unlock_deployment ::
  "'w lock_service \<Rightarrow> lock_provider option \<Rightarrow> dynamo_lock option \<Rightarrow> 'w \<Rightarrow>
     (lock_provider option \<times> 'w \<times> goerror option) option" where
  "aws_unlock_deployment s provider lock w =
     (case provider of
        None \<Rightarrow> Some (None, w, Some (ErrorString ''locking is not enabled''))
      | Some p \<Rightarrow>
          (case lock of
             None \<Rightarrow> Some (Some p, w, Some (ErrorString ''invalid lock type''))
           | Some l \<Rightarrow> map_option (\<lambda>(p1, w1, r). (Some p1, w1, r)) (release_dynamo_lock s p l w)))"

text \<open>
  Opening the store: \<open>locking\<close> is the configuration of the locks when they are enabled. The table of the locks is prepared
  before the store's own table and bucket.
\<close>

definition store_lock_config :: "aws_config \<Rightarrow> lock_config \<Rightarrow> lock_config" where
  "store_lock_config cfg lc =
     lc\<lparr>lc_region := (if lc_region lc = '''' then ag_dynamodb_region cfg else lc_region lc),
        lc_endpoint := (if lc_endpoint lc = '''' then ag_endpoint cfg else lc_endpoint lc)\<rparr>"

definition new_aws_store ::
  "'w aws_cloud \<Rightarrow> 'w lock_service \<Rightarrow> process_env \<Rightarrow> aws_config \<Rightarrow> lock_config option \<Rightarrow> 'w \<Rightarrow>
     'w \<times> (goerror + lock_provider option)" where
  "new_aws_store c s env cfg locking w =
     (case validate_aws_config cfg of
        Some e \<Rightarrow> (w, Inl (WrapError ''invalid AWS configuration: '' e ''''))
      | None \<Rightarrow>
          (case load_aws_config_for_endpoint env (ag_dynamodb_region cfg) (ag_endpoint cfg) of
             Some e \<Rightarrow> (w, Inl (WrapError ''failed to load AWS config: '' e ''''))
           | None \<Rightarrow>
               (case (case locking of
                        None \<Rightarrow> (w, Inr None)
                      | Some lc \<Rightarrow>
                          (case new_lock_provider s env (store_lock_config cfg lc) w of
                             (w1, Inl e) \<Rightarrow> (w1, Inl (WrapError ''failed to create DynamoDB lock provider: '' e ''''))
                           | (w1, Inr p) \<Rightarrow> (w1, Inr (Some p)))) of
                  (w1, Inl e) \<Rightarrow> (w1, Inl e)
                | (w1, Inr provider) \<Rightarrow>
                    (case initialize_store c cfg 1 w1 of
                       (w2, Some e) \<Rightarrow> (w2, Inl (WrapError ''failed to initialize AWS state store: '' e ''''))
                     | (w2, None) \<Rightarrow> (w2, Inr provider)))))"

end
