(* ===== verification/Lock_Results.thy ===== *)
theory Lock_Results
  imports DynamoDB_Lock
begin

text \<open>
  What the table of the locks promises, the steps that providers, the table and its operators take in any order, and what
  the locks exclude.
\<close>

section \<open>What the table promises\<close>

text \<open>The placeholders of an expression: the words that start with a number sign.\<close>

fun placeholders :: "string \<Rightarrow> string list" where
  "placeholders [] = []"
| "placeholders (ch # s) =
     (if ch = CHR ''#'' then (ch # takeWhile is_alnum s) # placeholders s else placeholders s)"

definition undefined_name :: "lock_request \<Rightarrow> bool" where
  "undefined_name rq \<longleftrightarrow>
     list_ex (\<lambda>n. n \<notin> fst ` set (rq_names rq)) (placeholders (rq_condition rq) @ placeholders (rq_update rq))"

definition owned_by :: "string \<Rightarrow> item option \<Rightarrow> bool" where
  "owned_by owner it \<longleftrightarrow> Option.bind it (\<lambda>it. map_of it ''Owner'') = Some (AttrS owner)"

text \<open>
  \<open>held\<close> is what the tables hold. A conditional request that succeeds found its condition true and is done, one whose
  condition fails changes nothing; after any other error it may be done or not, unless it names a placeholder that it does
  not define: then it is refused.
\<close>

locale lock_table =
  fixes s :: "'w lock_service" and held :: "'w \<Rightarrow> string \<Rightarrow> string \<Rightarrow> item option"
  assumes put_absent: "ls_put s rq w = (w', r) \<Longrightarrow> rq_condition rq = ''attribute_not_exists(LockID)'' \<Longrightarrow>
          map_of (rq_item rq) ''LockID'' = Some (AttrS k) \<Longrightarrow> \<not> undefined_name rq \<Longrightarrow>
          (let put = held w (rq_table rq) k = None \<and>
               held w' = (held w)(rq_table rq := (held w (rq_table rq))(k \<mapsto> rq_item rq)) in
           case r of
             None \<Rightarrow> put
           | Some (ConditionFailed m) \<Rightarrow> held w (rq_table rq) k \<noteq> None \<and> held w' = held w
           | Some e \<Rightarrow> put \<or> held w' = held w)"
    and delete_owned: "ls_delete s rq w = (w', r) \<Longrightarrow> rq_condition rq = ''#owner = :owner'' \<Longrightarrow>
          map_of (rq_names rq) ''#owner'' = Some ''Owner'' \<Longrightarrow> map_of (rq_values rq) '':owner'' = Some (AttrS owner) \<Longrightarrow>
          \<not> undefined_name rq \<Longrightarrow>
          (let del = owned_by owner (held w (rq_table rq) (rq_key rq)) \<and>
               held w' = (held w)(rq_table rq := (held w (rq_table rq))(rq_key rq := None)) in
           case r of
             None \<Rightarrow> del
           | Some (ConditionFailed m) \<Rightarrow> \<not> owned_by owner (held w (rq_table rq) (rq_key rq)) \<and> held w' = held w
           | Some e \<Rightarrow> del \<or> held w' = held w)"
    and delete_any: "ls_delete s rq w = (w', None) \<Longrightarrow> rq_condition rq = '''' \<Longrightarrow>
          held w' = (held w)(rq_table rq := (held w (rq_table rq))(rq_key rq := None))"
    and update_refused: "ls_update s rq w = (w', r) \<Longrightarrow> undefined_name rq \<Longrightarrow> r \<noteq> None \<and> held w' = held w"
begin

lemma attempt_put:
  assumes "acquire_attempt s p i op info w = (w', Inr (p', l))"
  shows "dl_lock_id l = lock_key i \<and> p' = start_refreshing l p \<and> dl_stop l = lp_next p \<and>
    held w (lc_table (lp_config p)) (lock_key i) = None \<and>
    (\<exists>it. map_of it ''Owner'' = Some (AttrS (lp_owner p)) \<and>
       map_of it ''TTL'' = Some (AttrN (itoa (lock_seconds (dl_created_at l + lc_ttl (lp_config p))))) \<and>
       held w' = (held w)(lc_table (lp_config p) := (held w (lc_table (lp_config p)))(lock_key i \<mapsto> it)))"
proof -
  let ?rq = "acquire_request p i op info (ls_now s w)"
  have put: "ls_put s ?rq w = (w', None)" and l: "l = new_dynamo_lock p i op (ls_now s w)" "p' = start_refreshing l p"
    using assms by (auto simp: acquire_attempt_def Let_def split: prod.splits option.splits)
  have it: "map_of (rq_item ?rq) ''Owner'' = Some (AttrS (lp_owner p))"
    "map_of (rq_item ?rq) ''TTL'' = Some (AttrN (itoa (lock_seconds (ls_now s w + lc_ttl (lp_config p)))))"
    by (simp_all add: acquire_request_def lock_item_def)
  have "held w (lc_table (lp_config p)) (lock_key i) = None \<and>
      held w' = (held w)(lc_table (lp_config p) := (held w (lc_table (lp_config p)))(lock_key i \<mapsto> rq_item ?rq))"
    using put_absent [OF put, of "lock_key i"]
    by (simp add: acquire_request_def lock_item_def undefined_name_def Let_def)
  then show ?thesis using l it by (auto simp: new_dynamo_lock_def)
qed

lemma attempt_failed:
  assumes "acquire_attempt s p i op info w = (w', Inl e)"
  shows "held w' = held w \<or> held w (lc_table (lp_config p)) (lock_key i) = None \<and>
    (\<exists>it. held w' = (held w)(lc_table (lp_config p) := (held w (lc_table (lp_config p)))(lock_key i \<mapsto> it)))"
proof -
  let ?rq = "acquire_request p i op info (ls_now s w)"
  have put: "ls_put s ?rq w = (w', Some e)"
    using assms by (auto simp: acquire_attempt_def Let_def split: prod.splits option.splits)
  show ?thesis
    using put_absent [OF put, of "lock_key i"]
    by (cases e) (auto simp: acquire_request_def lock_item_def undefined_name_def Let_def)
qed

lemma attempt_absent:
  assumes "acquire_attempt s p i op info w = (w', Inl e)" and "held w (lc_table (lp_config p)) (lock_key i) = None"
  shows "e \<noteq> ConditionFailed m"
proof -
  let ?rq = "acquire_request p i op info (ls_now s w)"
  have put: "ls_put s ?rq w = (w', Some e)"
    using assms(1) by (auto simp: acquire_attempt_def Let_def split: prod.splits option.splits)
  show ?thesis
    using put_absent [OF put, of "lock_key i"] assms(2)
    by (auto simp: acquire_request_def lock_item_def undefined_name_def Let_def)
qed

lemma release_deletes:
  assumes "release_dynamo_lock s p l w = Some (p', w', r)"
  shows "lp_config p' = lp_config p" and "lp_owner p' = lp_owner p"
    and "held w' = held w \<or> owned_by (lp_owner p) (held w (lc_table (lp_config p)) (dl_lock_id l)) \<and>
      held w' = (held w)(lc_table (lp_config p) := (held w (lc_table (lp_config p)))(dl_lock_id l := None))"
    and "r = None \<Longrightarrow> held w' (lc_table (lp_config p)) (dl_lock_id l) = None"
proof -
  let ?rq = "release_request p (dl_lock_id l)"
  obtain e where del: "ls_delete s ?rq w = (w', e)" and r: "r = None \<Longrightarrow> e = None"
    and p': "lp_config p' = lp_config p" "lp_owner p' = lp_owner p"
    using assms
    by (auto simp: release_dynamo_lock_def close_channel_def Let_def split: option.splits prod.splits aws_error.splits if_splits)
  show "lp_config p' = lp_config p" "lp_owner p' = lp_owner p" by (fact p')+
  note law = delete_owned [OF del, of "lp_owner p"]
  show "held w' = held w \<or> owned_by (lp_owner p) (held w (lc_table (lp_config p)) (dl_lock_id l)) \<and>
      held w' = (held w)(lc_table (lp_config p) := (held w (lc_table (lp_config p)))(dl_lock_id l := None))"
    using law by (auto simp: release_request_def undefined_name_def is_alnum_def Let_def split: option.splits aws_error.splits)
  show "r = None \<Longrightarrow> held w' (lc_table (lp_config p)) (dl_lock_id l) = None"
    using law r by (auto simp: release_request_def undefined_name_def is_alnum_def Let_def)
qed

lemma tick_refused:
  "refresh_tick s g p w = (p', w') \<Longrightarrow>
     p' = p\<lparr>lp_refreshing := remove1 g (lp_refreshing p)\<rparr> \<and> held w' = held w"
  by (auto simp: refresh_tick_def refresh_request_def undefined_name_def is_alnum_def
      dest!: update_refused split: prod.splits option.splits)

end

section \<open>Providers at one table\<close>

text \<open>Providers with names, the locks that were handed out and not released, with the provider they are from, and the world.\<close>

record ('k, 'w) lock_system =
  sy_providers :: "'k \<Rightarrow> lock_provider"
  sy_live :: "('k \<times> dynamo_lock) list"
  sy_world :: 'w

text \<open>
  Requests come in any order, also between the attempts of one acquisition. Time passes in a step of its own, and a tick
  of a refreshing goroutine may come at any time while the goroutine lives: the ticks at the refresh interval are among
  the runs.
\<close>

inductive lock_step ::
  "'w lock_service \<Rightarrow> ('w \<Rightarrow> string \<Rightarrow> string \<Rightarrow> item option) \<Rightarrow> ('k, 'w) lock_system \<Rightarrow> ('k, 'w) lock_system \<Rightarrow> bool"
  for s held where
  acquired: "acquire_attempt s (sy_providers y k) i op info (sy_world y) = (w', Inr (p', l)) \<Longrightarrow>
     lock_step s held y (y\<lparr>sy_providers := (sy_providers y)(k := p'), sy_live := (k, l) # sy_live y, sy_world := w'\<rparr>)"
| refused: "acquire_attempt s (sy_providers y k) i op info (sy_world y) = (w', Inl e) \<Longrightarrow>
     lock_step s held y (y\<lparr>sy_world := w'\<rparr>)"
| released: "(k, l) \<in> set (sy_live y) \<Longrightarrow> release_dynamo_lock s (sy_providers y k) l (sy_world y) = Some (p', w', r) \<Longrightarrow>
     lock_step s held y
       (y\<lparr>sy_providers := (sy_providers y)(k := p'), sy_live := remove1 (k, l) (sy_live y), sy_world := w'\<rparr>)"
| ticked: "g \<in> set (lp_refreshing (sy_providers y k)) \<Longrightarrow>
     refresh_tick s g (sy_providers y k) (sy_world y) = (p', w') \<Longrightarrow>
     lock_step s held y (y\<lparr>sy_providers := (sy_providers y)(k := p'), sy_world := w'\<rparr>)"
| stopped: "refresh_stopped g (sy_providers y k) = Some p' \<Longrightarrow>
     lock_step s held y (y\<lparr>sy_providers := (sy_providers y)(k := p')\<rparr>)"
| shut_down: "shutdown_locks (sy_providers y k) = Some p' \<Longrightarrow>
     lock_step s held y (y\<lparr>sy_providers := (sy_providers y)(k := p')\<rparr>)"
| waited: "held w' = held (sy_world y) \<Longrightarrow> lock_step s held y (y\<lparr>sy_world := w'\<rparr>)"

text \<open>An operator removes a lock, or the table an item whose time has passed.\<close>

inductive open_step ::
  "'w lock_service \<Rightarrow> ('w \<Rightarrow> string \<Rightarrow> string \<Rightarrow> item option) \<Rightarrow> ('k, 'w) lock_system \<Rightarrow> ('k, 'w) lock_system \<Rightarrow> bool"
  for s held where
  plain: "lock_step s held y y' \<Longrightarrow> open_step s held y y'"
| forced: "force_unlock s (sy_providers y k) key (sy_world y) = (w', r) \<Longrightarrow> open_step s held y (y\<lparr>sy_world := w'\<rparr>)"
| expired: "held (sy_world y) t key = Some it \<Longrightarrow> map_of it ''TTL'' = Some (AttrN a) \<Longrightarrow> parse_int64 a = Some e \<Longrightarrow>
     e < lock_seconds (ls_now s (sy_world y)) \<Longrightarrow>
     held w' = (held (sy_world y))(t := (held (sy_world y) t)(key := None)) \<Longrightarrow>
     open_step s held y (y\<lparr>sy_world := w'\<rparr>)"

section \<open>Mutual exclusion\<close>

definition place_of :: "('k \<Rightarrow> lock_provider) \<Rightarrow> 'k \<times> dynamo_lock \<Rightarrow> string \<times> string" where
  "place_of ps kl = (lc_table (lp_config (ps (fst kl))), dl_lock_id (snd kl))"

text \<open>Every lock that is handed out has its own item, with the owner it was written by.\<close>

definition lock_inv :: "('w \<Rightarrow> string \<Rightarrow> string \<Rightarrow> item option) \<Rightarrow> ('k, 'w) lock_system \<Rightarrow> bool" where
  "lock_inv held y \<longleftrightarrow>
     distinct (map (place_of (sy_providers y)) (sy_live y)) \<and>
     (\<forall>(k, l) \<in> set (sy_live y).
        dl_lock_id l = lock_key (dl_deployment_id l) \<and>
        owned_by (lp_owner (sy_providers y k)) (held (sy_world y) (lc_table (lp_config (sy_providers y k))) (dl_lock_id l)))"


definition same_owner :: "lock_provider \<Rightarrow> lock_provider \<Rightarrow> bool" where
  "same_owner p p' \<longleftrightarrow> lp_config p' = lp_config p \<and> lp_owner p' = lp_owner p"

lemma same_owner_place:
  assumes "same_owner (ps k) p'"
  shows "place_of (ps(k := p')) = place_of ps" and "lp_owner ((ps(k := p')) j) = lp_owner (ps j)"
    and "lp_config ((ps(k := p')) j) = lp_config (ps j)"
  using assms by (auto simp: place_of_def same_owner_def fun_eq_iff)

lemma close_channels_same: "close_channels chs p = Some p' \<Longrightarrow> same_owner p p' \<and> lp_stops p' = lp_stops p"
  by (induction chs p rule: close_channels.induct)
     (auto simp: close_channel_def same_owner_def split: bind_splits if_splits)

lemma shutdown_same: "shutdown_locks p = Some p' \<Longrightarrow> same_owner p p'"
  by (auto simp: shutdown_locks_def same_owner_def dest!: close_channels_same)

lemma same_owner_simps [simp]:
  "same_owner p (start_refreshing l p)" "same_owner p (p\<lparr>lp_refreshing := gs\<rparr>)"
  by (simp_all add: same_owner_def start_refreshing_def)

lemma refresh_stopped_same: "refresh_stopped g p = Some p' \<Longrightarrow> same_owner p p'"
  by (auto simp: refresh_stopped_def split: if_splits)

text \<open>The two ways a step keeps the invariant: providers and world change, or the world changes at one place.\<close>

lemma lock_inv_same:
  assumes "lock_inv held y" and "same_owner (sy_providers y k) p'" and "held w' = held (sy_world y)"
  shows "lock_inv held (y\<lparr>sy_providers := (sy_providers y)(k := p'), sy_world := w'\<rparr>)"
  using assms by (auto simp: lock_inv_def same_owner_place simp del: fun_upd_apply)

lemma lock_inv_world:
  assumes "lock_inv held y" and "held w' = (held (sy_world y))(t := (held (sy_world y) t)(key := it))"
    and "(t, key) \<notin> place_of (sy_providers y) ` set (sy_live y)"
  shows "lock_inv held (y\<lparr>sy_world := w'\<rparr>)"
proof -
  have "held w' (lc_table (lp_config (sy_providers y k))) (dl_lock_id l) =
      held (sy_world y) (lc_table (lp_config (sy_providers y k))) (dl_lock_id l)"
    if "(k, l) \<in> set (sy_live y)" for k l
  proof -
    have "place_of (sy_providers y) (k, l) \<noteq> (t, key)" using that assms(3) by (metis imageI)
    then show ?thesis using assms(2) by (auto simp: place_of_def)
  qed
  then show ?thesis using assms(1) by (auto simp: lock_inv_def)
qed

lemma lock_inv_less:
  assumes "lock_inv held y"
  shows "lock_inv held (y\<lparr>sy_live := remove1 x (sy_live y)\<rparr>)"
    and "x \<in> set (sy_live y) \<Longrightarrow> place_of (sy_providers y) x \<notin> place_of (sy_providers y) ` set (remove1 x (sy_live y))"
proof -
  let ?f = "place_of (sy_providers y)"
  have d: "distinct (map ?f (sy_live y))" using assms by (simp add: lock_inv_def)
  then have "distinct (map ?f (remove1 x (sy_live y)))"
    by (auto simp: distinct_map distinct_remove1 intro: inj_on_subset)
  then show "lock_inv held (y\<lparr>sy_live := remove1 x (sy_live y)\<rparr>)"
    using assms by (auto simp: lock_inv_def dest: notin_set_remove1)
  show "x \<in> set (sy_live y) \<Longrightarrow> ?f x \<notin> ?f ` set (remove1 x (sy_live y))"
    using d by (auto simp: distinct_map set_remove1_eq dest: inj_onD)
qed

context lock_table
begin

lemma lock_inv_free:
  assumes "lock_inv held y" and "held (sy_world y) t key = None"
  shows "(t, key) \<notin> place_of (sy_providers y) ` set (sy_live y)"
  using assms by (fastforce simp: lock_inv_def place_of_def owned_by_def)

lemma lock_inv_acquired:
  assumes inv: "lock_inv held y" and a: "acquire_attempt s (sy_providers y k) i op info (sy_world y) = (w', Inr (p', l))"
  shows "lock_inv held (y\<lparr>sy_providers := (sy_providers y)(k := p'), sy_live := (k, l) # sy_live y, sy_world := w'\<rparr>)"
proof -
  let ?p = "sy_providers y k" and ?t = "lc_table (lp_config (sy_providers y k))"
  obtain it where l: "dl_lock_id l = lock_key i" "p' = start_refreshing l ?p" and none: "held (sy_world y) ?t (lock_key i) = None"
    and it: "map_of it ''Owner'' = Some (AttrS (lp_owner ?p))"
    and w': "held w' = (held (sy_world y))(?t := (held (sy_world y) ?t)(lock_key i \<mapsto> it))"
    using attempt_put [OF a] by blast
  have id: "dl_deployment_id l = i"
    using a by (auto simp: acquire_attempt_def new_dynamo_lock_def Let_def split: prod.splits option.splits)
  have new: "(?t, lock_key i) \<notin> place_of (sy_providers y) ` set (sy_live y)" by (rule lock_inv_free [OF inv none])
  have same: "same_owner ?p p'" using l(2) by simp
  have "lock_inv held (y\<lparr>sy_world := w'\<rparr>)" by (rule lock_inv_world [OF inv w' new])
  moreover have "owned_by (lp_owner ?p) (held w' ?t (dl_lock_id l))" using it w' l(1) by (simp add: owned_by_def)
  moreover have "place_of (sy_providers y) (k, l) = (?t, lock_key i)" using l(1) by (simp add: place_of_def)
  ultimately show ?thesis
    using new same l(1) id
    by (auto simp: lock_inv_def same_owner_place [of "sy_providers y" k p', OF same] simp del: fun_upd_apply)
qed

lemma lock_inv_released:
  assumes inv: "lock_inv held y" and kl: "(k, l) \<in> set (sy_live y)"
    and r: "release_dynamo_lock s (sy_providers y k) l (sy_world y) = Some (p', w', r)"
  shows "lock_inv held
    (y\<lparr>sy_providers := (sy_providers y)(k := p'), sy_live := remove1 (k, l) (sy_live y), sy_world := w'\<rparr>)"
proof -
  let ?z = "y\<lparr>sy_live := remove1 (k, l) (sy_live y)\<rparr>"
  have z: "lock_inv held ?z" and free: "place_of (sy_providers ?z) (k, l) \<notin> place_of (sy_providers ?z) ` set (sy_live ?z)"
    using lock_inv_less [OF inv, of "(k, l)"] kl by simp_all
  have "lock_inv held (?z\<lparr>sy_world := w'\<rparr>)"
  proof (cases "held w' = held (sy_world y)")
    case True
    then show ?thesis using lock_inv_same [OF z, of k "sy_providers ?z k" w'] by (simp add: same_owner_def)
  next
    case False
    then show ?thesis
      using release_deletes(3) [OF r] free by (intro lock_inv_world [OF z]) (auto simp: place_of_def)
  qed
  moreover have "same_owner (sy_providers y k) p'" using release_deletes(1,2) [OF r] by (simp add: same_owner_def)
  ultimately show ?thesis using lock_inv_same [of held "?z\<lparr>sy_world := w'\<rparr>" k p' w'] by (cases y) simp
qed

lemma lock_inv_step:
  assumes "lock_step s held y y'" and inv: "lock_inv held y"
  shows "lock_inv held y'"
  using assms(1)
proof cases
  case (acquired k i op info w' p' l)
  then show ?thesis using lock_inv_acquired [OF inv] by simp
next
  case (refused k i op info w' e)
  from attempt_failed [OF refused(2)] show ?thesis
  proof (elim disjE conjE exE)
    assume "held w' = held (sy_world y)"
    then show ?thesis
      using lock_inv_same [OF inv, of k "sy_providers y k" w'] refused(1) by (simp add: same_owner_def)
  next
    fix it
    assume "held (sy_world y) (lc_table (lp_config (sy_providers y k))) (lock_key i) = None"
      and "held w' = (held (sy_world y))(lc_table (lp_config (sy_providers y k)) :=
        (held (sy_world y) (lc_table (lp_config (sy_providers y k))))(lock_key i \<mapsto> it))"
    then show ?thesis using lock_inv_world [OF inv] lock_inv_free [OF inv] refused(1) by simp
  qed
next
  case (released k l p' w' r)
  then show ?thesis using lock_inv_released [OF inv] by simp
next
  case (ticked g k p' w')
  then show ?thesis using lock_inv_same [OF inv, of k p' w'] tick_refused [OF ticked(3)] by simp
next
  case (stopped g k p')
  then show ?thesis using lock_inv_same [OF inv, of k p' "sy_world y"] refresh_stopped_same by simp
next
  case (shut_down k p')
  then show ?thesis using lock_inv_same [OF inv, of k p' "sy_world y"] shutdown_same by simp
next
  case (waited w')
  then show ?thesis using inv by (simp add: lock_inv_def)
qed

lemma lock_inv_steps: "(lock_step s held)\<^sup>*\<^sup>* y y' \<Longrightarrow> lock_inv held y \<Longrightarrow> lock_inv held y'"
  by (induction rule: rtranclp_induct) (auto intro: lock_inv_step)

text \<open>A lock that is handed out keeps the item it was acquired with: nothing changes what is held at its place.\<close>

lemma step_keeps_item:
  assumes "lock_step s held y y'" and inv: "lock_inv held y" and kl: "(k, l) \<in> set (sy_live y)" "(k, l) \<in> set (sy_live y')"
  shows "held (sy_world y') (lc_table (lp_config (sy_providers y k))) (dl_lock_id l) =
      held (sy_world y) (lc_table (lp_config (sy_providers y k))) (dl_lock_id l) \<and>
    lp_config (sy_providers y' k) = lp_config (sy_providers y k)"
proof -
  let ?t = "lc_table (lp_config (sy_providers y k))"
  have some: "held (sy_world y) ?t (dl_lock_id l) \<noteq> None"
  proof -
    have "owned_by (lp_owner (sy_providers y k)) (held (sy_world y) ?t (dl_lock_id l))"
      using inv kl(1) by (auto simp: lock_inv_def)
    then show ?thesis by (auto simp: owned_by_def bind_eq_Some_conv)
  qed
  have away: "held w' ?t (dl_lock_id l) = held (sy_world y) ?t (dl_lock_id l)"
    if "held w' = (held (sy_world y))(t := (held (sy_world y) t)(key := it))" "(t, key) \<noteq> (?t, dl_lock_id l)" for w' t key it
    using that by auto
  show ?thesis using assms(1)
  proof cases
    case (acquired j i op info w' p' l')
    then show ?thesis using attempt_put [OF acquired(2)] some by (auto simp: start_refreshing_def)
  next
    case (refused j i op info w' e)
    then show ?thesis using attempt_failed [OF refused(2)] some by auto
  next
    case (released j l' p' w' r)
    have "place_of (sy_providers y) (j, l') \<notin> place_of (sy_providers y) ` set (remove1 (j, l') (sy_live y))"
      by (rule lock_inv_less(2) [OF inv released(2)])
    moreover have "(k, l) \<in> set (remove1 (j, l') (sy_live y))" using kl(2) released(1) by simp
    ultimately have "place_of (sy_providers y) (j, l') \<noteq> place_of (sy_providers y) (k, l)" by (metis imageI)
    then show ?thesis using release_deletes(1,3) [OF released(3)] released(1) by (auto simp: place_of_def)
  next
    case (ticked g j p' w')
    then show ?thesis using tick_refused [OF ticked(3)] by simp
  next
    case (stopped g j p')
    then show ?thesis using refresh_stopped_same [OF stopped(2)] by (simp add: same_owner_def)
  next
    case (shut_down j p')
    then show ?thesis using shutdown_same [OF shut_down(2)] by (simp add: same_owner_def)
  qed simp
qed

lemma lives_as_acquired:
  assumes "(lock_step s held)\<^sup>*\<^sup>* y y'" and "sy_live y = []" and "(k, l) \<in> set (sy_live y')"
  shows "Option.bind (held (sy_world y') (lc_table (lp_config (sy_providers y' k))) (dl_lock_id l)) (\<lambda>it. map_of it ''TTL'') =
    Some (AttrN (itoa (lock_seconds (dl_created_at l + lc_ttl (lp_config (sy_providers y' k))))))"
  using assms(1,3)
proof (induction arbitrary: k l rule: rtranclp_induct)
  case base
  then show ?case using assms(2) by simp
next
  case (step y' z)
  have "lock_inv held y" using assms(2) by (simp add: lock_inv_def)
  then have inv: "lock_inv held y'" using lock_inv_steps [OF step.hyps(1)] by simp
  show ?case
  proof (cases "(k, l) \<in> set (sy_live y')")
    case True
    then show ?thesis using step_keeps_item [OF step.hyps(2) inv True step.prems] step.IH [OF True] by simp
  next
    case False
    from step.hyps(2) show ?thesis
    proof cases
      case (acquired j i op info w' p' l')
      then have "j = k" "l' = l" using False step.prems by simp_all
      then show ?thesis using acquired attempt_put [OF acquired(2)] by (auto simp: start_refreshing_def)
    qed (use False step.prems in \<open>auto dest: notin_set_remove1\<close>)
  qed
qed

end


section \<open>A table in memory\<close>

text \<open>The two conditions of the code; a request that does not define its names is refused.\<close>

record lock_memory =
  lm_now :: time
  lm_items :: "string \<Rightarrow> string \<Rightarrow> item option"

definition condition_met :: "lock_request \<Rightarrow> item option \<Rightarrow> bool" where
  "condition_met rq it \<longleftrightarrow>
     (if rq_condition rq = '''' then True
      else if rq_condition rq = ''attribute_not_exists(LockID)'' then it = None
      else (\<exists>owner. map_of (rq_values rq) '':owner'' = Some (AttrS owner) \<and> owned_by owner it))"

definition lock_write ::
  "(lock_request \<Rightarrow> item option) \<Rightarrow> (lock_request \<Rightarrow> string) \<Rightarrow> lock_request \<Rightarrow> lock_memory \<Rightarrow> lock_memory \<times> aws_error option" where
  "lock_write new key rq w =
     (if undefined_name rq then (w, Some (OtherFailure (ErrorString ''ValidationException'')))
      else if \<not> condition_met rq (lm_items w (rq_table rq) (key rq))
      then (w, Some (ConditionFailed ''The conditional request failed''))
      else (w\<lparr>lm_items := (lm_items w)(rq_table rq := (lm_items w (rq_table rq))(key rq := new rq))\<rparr>, None))"

definition item_key :: "lock_request \<Rightarrow> string" where
  "item_key rq = (case map_of (rq_item rq) ''LockID'' of Some (AttrS k) \<Rightarrow> k | _ \<Rightarrow> '''')"

definition memory_locks :: "lock_memory lock_service" where
  "memory_locks =
     \<lparr>ls_now = lm_now, ls_context = \<lambda>w. None, ls_sleep = \<lambda>d w. (w\<lparr>lm_now := lm_now w + d\<rparr>, None),
      ls_put = lock_write (\<lambda>rq. Some (rq_item rq)) item_key,
      ls_update = lock_write (\<lambda>rq. Some (rq_values rq)) rq_key,
      ls_delete = lock_write (\<lambda>rq. None) rq_key,
      ls_scan = \<lambda>t w. Inr [], ls_describe = \<lambda>t w. None, ls_create = \<lambda>t w. (w, None), ls_wait = \<lambda>t w. (w, None),
      ls_enable_ttl = \<lambda>t w. w, ls_encode = li_operation, ls_decode = \<lambda>s. None\<rparr>"

interpretation memory_locks: lock_table memory_locks lm_items
  by unfold_locales
     (auto simp: memory_locks_def lock_write_def condition_met_def item_key_def Let_def split: if_splits option.splits)

definition memory_provider :: "string \<Rightarrow> lock_provider" where
  "memory_provider owner =
     \<lparr>lp_config = lock_defaults \<lparr>lc_table = ''locks'', lc_region = ''eu'', lc_endpoint = '''', lc_ttl = 0,
        lc_refresh_interval = 0, lc_timeout = 0\<rparr>,
      lp_owner = owner, lp_stops = [], lp_closed = [], lp_next = 0, lp_refreshing = []\<rparr>"

definition empty_locks :: "time \<Rightarrow> lock_memory" where
  "empty_locks now = \<lparr>lm_now = now, lm_items = \<lambda>_ _. None\<rparr>"

text \<open>Two processes at an empty table.\<close>

definition two_providers :: "time \<Rightarrow> (bool, lock_memory) lock_system" where
  "two_providers now =
     \<lparr>sy_providers = \<lambda>b. memory_provider (if b then ''host-1-17'' else ''host-2-18''), sy_live = [],
      sy_world = empty_locks now\<rparr>"

section \<open>Properties\<close>

text \<open>
  C11: as long as no operator removes a lock and no lock outlives its time, two locks on one deployment that were handed
  out and not released are the same lock of the same provider, whatever the order of the requests of all providers, and
  whichever of them fail.
\<close>

theorem locks_exclude:
  assumes "lock_table s held" and "sy_live y = []" and "(lock_step s held)\<^sup>*\<^sup>* y y'"
    and "(k, l) \<in> set (sy_live y')" and "(k', l') \<in> set (sy_live y')"
    and "lc_table (lp_config (sy_providers y' k)) = lc_table (lp_config (sy_providers y' k'))"
    and "dl_deployment_id l = dl_deployment_id l'"
  shows "k = k' \<and> l = l'"
proof -
  have "lock_inv held y" using assms(2) by (simp add: lock_inv_def)
  then have inv: "lock_inv held y'" using lock_table.lock_inv_steps [OF assms(1,3)] by simp
  then have "dl_lock_id l = lock_key (dl_deployment_id l)" "dl_lock_id l' = lock_key (dl_deployment_id l')"
    using assms(4,5) by (auto simp: lock_inv_def)
  then have "place_of (sy_providers y') (k, l) = place_of (sy_providers y') (k', l')"
    using assms(6,7) by (simp add: place_of_def)
  then have "(k, l) = (k', l')"
    using inv assms(4,5) by (auto simp: lock_inv_def distinct_map dest: inj_onD)
  then show ?thesis by simp
qed

text \<open>
  A lock is never refreshed: the condition of the request names a placeholder that the request does not define. The
  first tick fails, leaves the item with its time to live, and ends the goroutine.
\<close>

theorem refresh_never_extends:
  assumes "lock_table s held" and "refresh_tick s g p w = (p', w')"
  shows "held w' = held w \<and> p' = p\<lparr>lp_refreshing := remove1 g (lp_refreshing p)\<rparr>"
  using lock_table.tick_refused [OF assms] by simp

text \<open>
  After the provider was shut down, releasing a lock that it holds panics: the channel is closed twice. The item of
  the lock stays.
\<close>

theorem release_after_shutdown_panics:
  assumes "acquire_attempt s p i op info w = (w1, Inr (p1, l))" and "shutdown_locks p1 = Some p2"
  shows "release_dynamo_lock s p2 l w' = None \<and> aws_unlock_deployment s (Some p2) (Some l) w' = None"
proof -
  have "dl_stop l \<in> snd ` set (lp_stops p1)"
  proof -
    have "map_of (lp_stops p1) (dl_id l) = Some (dl_stop l)"
      using assms(1) by (auto simp: acquire_attempt_def start_refreshing_def Let_def split: prod.splits option.splits)
    then show ?thesis by (metis map_of_SomeD snd_conv imageI)
  qed
  moreover have "set chs \<subseteq> set (lp_closed q')" if "close_channels chs q = Some q'" for chs q q'
  proof -
    have "set chs \<union> set (lp_closed q) \<subseteq> set (lp_closed q')"
      using that by (induction chs q rule: close_channels.induct) (auto simp: close_channel_def split: bind_splits if_splits)
    then show ?thesis by simp
  qed
  ultimately have "dl_stop l \<in> set (lp_closed p2)" using assms(2) by (fastforce simp: shutdown_locks_def)
  then show ?thesis by (simp add: aws_unlock_deployment_def release_dynamo_lock_def close_channel_def)
qed


lemma memory_acquire:
  assumes "lm_items w (lc_table (lp_config p)) (lock_key i) = None"
  shows "acquire_attempt memory_locks p i op info w =
    (w\<lparr>lm_items := (lm_items w)(lc_table (lp_config p) := (lm_items w (lc_table (lp_config p)))
        (lock_key i \<mapsto> lock_item p i op info (lm_now w)))\<rparr>,
     Inr (start_refreshing (new_dynamo_lock p i op (lm_now w)) p, new_dynamo_lock p i op (lm_now w)))"
proof -
  have ok: "\<not> undefined_name (acquire_request p i op info (lm_now w))"
    by (simp add: undefined_name_def acquire_request_def)
  have key: "item_key (acquire_request p i op info (lm_now w)) = lock_key i"
    by (simp add: item_key_def acquire_request_def lock_item_def)
  have met: "condition_met (acquire_request p i op info (lm_now w)) None"
    by (simp add: condition_met_def acquire_request_def)
  show ?thesis
    using assms ok key met
    by (simp add: acquire_attempt_def memory_locks_def lock_write_def Let_def acquire_request_def)
qed

definition lock_time :: time where
  "lock_time = 63745021234 * second"

definition first_lock :: dynamo_lock where
  "first_lock = new_dynamo_lock (memory_provider ''host-1-17'') ''dep-1'' ''deployment'' lock_time"

definition first_held :: "(bool, lock_memory) lock_system" where
  "first_held =
     (two_providers lock_time)\<lparr>sy_providers := (sy_providers (two_providers lock_time))
         (True := start_refreshing first_lock (memory_provider ''host-1-17'')),
       sy_live := [(True, first_lock)],
       sy_world := (empty_locks lock_time)\<lparr>lm_items := (\<lambda>_ _. None)(''locks'' := (\<lambda>_. None)
         (lock_key ''dep-1'' \<mapsto> lock_item (memory_provider ''host-1-17'') ''dep-1'' ''deployment'' ''x'' lock_time))\<rparr>\<rparr>"

lemma first_acquired: "lock_step memory_locks lm_items (two_providers lock_time) first_held"
proof -
  have "acquire_attempt memory_locks (sy_providers (two_providers lock_time) True) ''dep-1'' ''deployment'' ''x''
      (sy_world (two_providers lock_time)) =
      (sy_world first_held, Inr (start_refreshing first_lock (memory_provider ''host-1-17''), first_lock))"
    by (simp add: memory_acquire two_providers_def empty_locks_def first_held_def first_lock_def memory_provider_def
        lock_defaults_def)
  from lock_step.acquired [OF this, of lm_items] show ?thesis
    by (simp add: first_held_def two_providers_def)
qed

theorem locks_exclude_witness:
  "acquire_attempt memory_locks (sy_providers first_held False) ''dep-1'' ''deployment'' ''x'' (sy_world first_held) =
     (sy_world first_held, Inl (ConditionFailed ''The conditional request failed'')) \<and>
   (True, first_lock) \<in> set (sy_live first_held) \<and>
   \<not> (\<exists>y l. (lock_step memory_locks lm_items)\<^sup>*\<^sup>* first_held y \<and> (True, first_lock) \<in> set (sy_live y) \<and>
        (False, l) \<in> set (sy_live y) \<and> dl_deployment_id l = ''dep-1'' \<and>
        lc_table (lp_config (sy_providers y True)) = lc_table (lp_config (sy_providers y False)))"
proof -
  have "\<not> (\<exists>y l. (lock_step memory_locks lm_items)\<^sup>*\<^sup>* first_held y \<and> (True, first_lock) \<in> set (sy_live y) \<and>
        (False, l) \<in> set (sy_live y) \<and> dl_deployment_id l = ''dep-1'' \<and>
        lc_table (lp_config (sy_providers y True)) = lc_table (lp_config (sy_providers y False)))"
  proof clarify
    fix y l
    assume "(lock_step memory_locks lm_items)\<^sup>*\<^sup>* first_held y"
    then have "(lock_step memory_locks lm_items)\<^sup>*\<^sup>* (two_providers lock_time) y"
      using first_acquired by (meson converse_rtranclp_into_rtranclp)
    moreover assume "(True, first_lock) \<in> set (sy_live y)" and "(False, l) \<in> set (sy_live y)"
      and "dl_deployment_id l = ''dep-1''"
      and "lc_table (lp_config (sy_providers y True)) = lc_table (lp_config (sy_providers y False))"
    moreover have "dl_deployment_id first_lock = ''dep-1''" by (simp add: first_lock_def new_dynamo_lock_def)
    ultimately have "True = False \<and> first_lock = l"
      by (intro locks_exclude [OF memory_locks.lock_table_axioms, of "two_providers lock_time" y])
         (simp_all add: two_providers_def)
    then show False by simp
  qed

  then show ?thesis
    by (simp add: first_held_def two_providers_def acquire_attempt_def memory_locks_def lock_write_def item_key_def
        acquire_request_def lock_item_def condition_met_def undefined_name_def memory_provider_def lock_defaults_def)
qed

theorem refresh_never_extends_witness:
  "\<exists>p' w'. refresh_tick memory_locks (0, lock_key ''dep-1'') (sy_providers first_held True) (sy_world first_held) = (p', w') \<and>
     lp_refreshing (sy_providers first_held True) = [(0, lock_key ''dep-1'')] \<and> lp_refreshing p' = [] \<and>
     lm_items w' = lm_items (sy_world first_held)"
proof -
  obtain p' w' where r: "refresh_tick memory_locks (0, lock_key ''dep-1'') (sy_providers first_held True)
      (sy_world first_held) = (p', w')" by fastforce
  have "lp_refreshing (sy_providers first_held True) = [(0, lock_key ''dep-1'')]"
    by (simp add: first_held_def start_refreshing_def first_lock_def new_dynamo_lock_def memory_provider_def)
  then show ?thesis using refresh_never_extends [OF memory_locks.lock_table_axioms r] r by simp
qed

theorem release_after_shutdown_panics_witness:
  "\<exists>p2. shutdown_locks (sy_providers first_held True) = Some p2 \<and>
     release_dynamo_lock memory_locks p2 first_lock (sy_world first_held) = None"
proof -
  let ?w = "empty_locks lock_time"
  have a: "acquire_attempt memory_locks (memory_provider ''host-1-17'') ''dep-1'' ''deployment'' ''x'' ?w =
      (sy_world first_held, Inr (sy_providers first_held True, first_lock))"
    by (simp add: memory_acquire empty_locks_def first_held_def first_lock_def memory_provider_def lock_defaults_def)
  obtain p2 where p2: "shutdown_locks (sy_providers first_held True) = Some p2"
    by (simp add: shutdown_locks_def first_held_def start_refreshing_def memory_provider_def close_channel_def)
  show ?thesis
    using release_after_shutdown_panics [OF a p2, of "sy_world first_held"] p2 by simp
qed


text \<open>Waiting, and the removal of an item whose time has passed.\<close>

definition pass_time :: "duration \<Rightarrow> (bool, lock_memory) lock_system \<Rightarrow> (bool, lock_memory) lock_system" where
  "pass_time d y = y\<lparr>sy_world := (sy_world y)\<lparr>lm_now := lm_now (sy_world y) + d\<rparr>\<rparr>"

lemma step_pass_time: "lock_step memory_locks lm_items y (pass_time d y)"
  unfolding pass_time_def by (intro lock_step.waited) simp

definition end_refresh :: "(bool, lock_memory) lock_system \<Rightarrow> (bool, lock_memory) lock_system" where
  "end_refresh y =
     y\<lparr>sy_providers := (sy_providers y)(True := (sy_providers y True)\<lparr>lp_refreshing := []\<rparr>)\<rparr>"

lemma memory_tick:
  assumes "lp_refreshing (sy_providers y True) = [g]"
  shows "lock_step memory_locks lm_items y (end_refresh y)"
proof -
  let ?p = "sy_providers y True"
  have "refresh_tick memory_locks g ?p (sy_world y) = (?p\<lparr>lp_refreshing := []\<rparr>, sy_world y)"
    using assms
    by (simp add: refresh_tick_def memory_locks_def lock_write_def refresh_request_def undefined_name_def is_alnum_def)
  from lock_step.ticked [OF _ this, of lm_items] show ?thesis
    using assms by (auto simp: end_refresh_def)
qed

text \<open>
  C14: a lock that its holder keeps for longer than its time to live is handed out again. Whatever the providers did since
  nothing was held, refreshing at any number of ticks included, the item of a lock that was handed out and not released
  expires at the time set when it was acquired; once the clock has passed it the table may remove the item, and then no
  provider is refused because the lock is held: an attempt fails with another error, or hands out a second lock on
  the same deployment while the first is still out.
\<close>

theorem expired_lock_is_handed_out_again:
  assumes "lock_table s held" and "sy_live y = []" and "(lock_step s held)\<^sup>*\<^sup>* y y'" and "(k, l) \<in> set (sy_live y')"
    and "t = lc_table (lp_config (sy_providers y' k))" and "lc_table (lp_config (sy_providers y' k')) = t"
    and "e = lock_seconds (dl_created_at l + lc_ttl (lp_config (sy_providers y' k)))"
    and "e < lock_seconds (ls_now s (sy_world y'))" and "- (2 ^ 63) \<le> e" and "e < 2 ^ 63"
    and "held w = (held (sy_world y'))(t := (held (sy_world y') t)(dl_lock_id l := None))"
    and "acquire_attempt s (sy_providers y' k') (dl_deployment_id l) op info w = (w', r)"
  shows "Option.bind (held (sy_world y') t (dl_lock_id l)) (\<lambda>it. map_of it ''TTL'') = Some (AttrN (itoa e)) \<and>
    open_step s held y' (y'\<lparr>sy_world := w\<rparr>) \<and>
    (case r of
       Inl err \<Rightarrow> \<forall>m. err \<noteq> ConditionFailed m
     | Inr (p', l') \<Rightarrow>
         open_step s held (y'\<lparr>sy_world := w\<rparr>)
           (y'\<lparr>sy_providers := (sy_providers y')(k' := p'), sy_live := (k', l') # sy_live y', sy_world := w'\<rparr>) \<and>
         dl_deployment_id l' = dl_deployment_id l \<and> dl_lock_id l' = dl_lock_id l)"
proof -
  have inv: "lock_inv held y'"
    using lock_table.lock_inv_steps [OF assms(1,3)] assms(2) by (simp add: lock_inv_def)
  have ttl: "Option.bind (held (sy_world y') t (dl_lock_id l)) (\<lambda>it. map_of it ''TTL'') = Some (AttrN (itoa e))"
    using lock_table.lives_as_acquired [OF assms(1,3,2,4)] assms(5,7) by simp
  then obtain it where it: "held (sy_world y') t (dl_lock_id l) = Some it" "map_of it ''TTL'' = Some (AttrN (itoa e))"
    by (auto simp: bind_eq_Some_conv)
  have gone: "open_step s held y' (y'\<lparr>sy_world := w\<rparr>)"
    by (rule open_step.expired [OF it parse_int64_itoa assms(8,11)]) (use assms(9,10) in simp_all)
  have key: "dl_lock_id l = lock_key (dl_deployment_id l)" using inv assms(4) by (auto simp: lock_inv_def)
  then have none: "held w (lc_table (lp_config (sy_providers y' k'))) (lock_key (dl_deployment_id l)) = None"
    using assms(6,11) by simp
  show ?thesis
  proof (cases r)
    case (Inl err)
    then show ?thesis using ttl gone lock_table.attempt_absent [OF assms(1) assms(12) [unfolded Inl] none] by simp
  next
    case (Inr pl)
    obtain p' l' where pl: "pl = (p', l')" by (cases pl)
    have a: "acquire_attempt s (sy_providers (y'\<lparr>sy_world := w\<rparr>) k') (dl_deployment_id l) op info
        (sy_world (y'\<lparr>sy_world := w\<rparr>)) = (w', Inr (p', l'))"
      using assms(12) Inr pl by simp
    have "dl_deployment_id l' = dl_deployment_id l"
      using a by (auto simp: acquire_attempt_def new_dynamo_lock_def Let_def split: prod.splits option.splits)
    moreover have "dl_lock_id l' = dl_lock_id l" using lock_table.attempt_put [OF assms(1) a] key by simp
    ultimately show ?thesis using ttl gone open_step.plain [OF lock_step.acquired [OF a]] Inr pl by simp
  qed
qed

lemma late_lock:
  "\<exists>y. (lock_step memory_locks lm_items)\<^sup>*\<^sup>* (two_providers lock_time) y \<and> sy_live y = [(True, first_lock)] \<and>
     sy_providers y False = memory_provider ''host-2-18'' \<and>
     sy_providers y True = (start_refreshing first_lock (memory_provider ''host-1-17''))\<lparr>lp_refreshing := []\<rparr> \<and>
     lm_now (sy_world y) = lock_time + 16 * minute"
proof -
  let ?late = "pass_time (13 * minute) (end_refresh (pass_time (3 * minute) first_held))"
  have refreshing: "lp_refreshing (sy_providers (pass_time (3 * minute) first_held) True) = [(0, lock_key ''dep-1'')]"
    by (simp add: pass_time_def first_held_def start_refreshing_def first_lock_def new_dynamo_lock_def memory_provider_def)
  have "(lock_step memory_locks lm_items)\<^sup>*\<^sup>* (two_providers lock_time) ?late"
    using first_acquired step_pass_time [of first_held "3 * minute"] memory_tick [OF refreshing]
      step_pass_time [of "end_refresh (pass_time (3 * minute) first_held)" "13 * minute"]
    by (meson rtranclp.rtrancl_into_rtrancl rtranclp.rtrancl_refl)
  moreover have "sy_live ?late = [(True, first_lock)]" "sy_providers ?late False = memory_provider ''host-2-18''"
    "sy_providers ?late True = (start_refreshing first_lock (memory_provider ''host-1-17''))\<lparr>lp_refreshing := []\<rparr>"
    "lm_now (sy_world ?late) = lock_time + 16 * minute"
    by (simp_all add: pass_time_def end_refresh_def first_held_def two_providers_def empty_locks_def)
  ultimately show ?thesis by blast
qed

text \<open>
  With the default times: the first tick, after three minutes, is refused and ends the refreshing; after sixteen minutes
  the item is removed, and a second process gets the lock.
\<close>

theorem expired_lock_is_handed_out_again_witness:
  "\<exists>y l l'. (open_step memory_locks lm_items)\<^sup>*\<^sup>* (two_providers lock_time) y \<and> sy_live y = [(False, l'), (True, l)] \<and>
     dl_deployment_id l = dl_deployment_id l' \<and> lp_refreshing (sy_providers y True) = [] \<and>
     lp_closed (sy_providers y True) = []"
proof -
  obtain y where run: "(lock_step memory_locks lm_items)\<^sup>*\<^sup>* (two_providers lock_time) y"
    and y: "sy_live y = [(True, first_lock)]" "sy_providers y False = memory_provider ''host-2-18''"
      "sy_providers y True = (start_refreshing first_lock (memory_provider ''host-1-17''))\<lparr>lp_refreshing := []\<rparr>"
    and clock: "lm_now (sy_world y) = lock_time + 16 * minute"
    using late_lock by blast
  let ?w = "(sy_world y)\<lparr>lm_items := (lm_items (sy_world y))(''locks'' :=
      (lm_items (sy_world y) ''locks'')(dl_lock_id first_lock := None))\<rparr>"
  have conf: "lc_table (lp_config (sy_providers y True)) = ''locks''" "lc_table (lp_config (sy_providers y False)) = ''locks''"
    using y(2,3) by (simp_all add: start_refreshing_def memory_provider_def lock_defaults_def)
  have ttl: "1609425334 = lock_seconds (dl_created_at first_lock + lc_ttl (lp_config (sy_providers y True)))"
    using y(3)
    by (simp add: start_refreshing_def first_lock_def new_dynamo_lock_def memory_provider_def lock_defaults_def lock_seconds_def
        lock_time_def minute_def second_def millisecond_def)
  have now: "1609425334 < lock_seconds (ls_now memory_locks (sy_world y))"
    using clock by (simp add: memory_locks_def lock_seconds_def lock_time_def minute_def second_def millisecond_def)
  have free: "lm_items ?w (lc_table (lp_config (sy_providers y False))) (lock_key ''dep-1'') = None"
    unfolding conf by (simp add: first_lock_def new_dynamo_lock_def)
  obtain w' p' l' where a: "acquire_attempt memory_locks (sy_providers y False) (dl_deployment_id first_lock)
      ''deployment'' ''x'' ?w = (w', Inr (p', l'))"
    using memory_acquire [OF free, of "''deployment''" "''x''"] by (auto simp: first_lock_def new_dynamo_lock_def)
  have "sy_live (two_providers lock_time) = []" by (simp add: two_providers_def)
  note again = expired_lock_is_handed_out_again [OF memory_locks.lock_table_axioms this run _ conf(1) [symmetric] conf(2)
      ttl now _ _ _ a]
  have steps: "open_step memory_locks lm_items y (y\<lparr>sy_world := ?w\<rparr>)"
    "open_step memory_locks lm_items (y\<lparr>sy_world := ?w\<rparr>)
       (y\<lparr>sy_providers := (sy_providers y)(False := p'), sy_live := (False, l') # sy_live y, sy_world := w'\<rparr>)"
    "dl_deployment_id l' = dl_deployment_id first_lock"
    using again y(1) by simp_all
  have "(open_step memory_locks lm_items)\<^sup>*\<^sup>* (two_providers lock_time) y"
    using run by (rule rtranclp_mono [THEN predicate2D, rotated]) (blast intro: open_step.plain)
  then have "(open_step memory_locks lm_items)\<^sup>*\<^sup>* (two_providers lock_time)
      (y\<lparr>sy_providers := (sy_providers y)(False := p'), sy_live := (False, l') # sy_live y, sy_world := w'\<rparr>)"
    using steps(1,2) by (meson rtranclp.rtrancl_into_rtrancl)
  then show ?thesis
    using y steps(3)
    by (intro exI [of _ "y\<lparr>sy_providers := (sy_providers y)(False := p'), sy_live := (False, l') # sy_live y, sy_world := w'\<rparr>"]
        exI [of _ first_lock] exI [of _ l'] conjI)
       (assumption, simp_all add: start_refreshing_def memory_provider_def)
qed

end
