(* ===== verification/Wire_Format.thy ===== *)
theory Wire_Format
  imports State_Store Update_Plan
begin

text \<open>
  What \<^verbatim>\<open>encoding/json\<close> makes of a queued deployment and of a result, with the tags of
  \<^verbatim>\<open>internal/interfaces/deployment_queue.go\<close>, \<^verbatim>\<open>deployment_types.go\<close> and \<^verbatim>\<open>job_system_interfaces.go\<close>, and of an update
  plan (\<^verbatim>\<open>Serialize\<close> of \<^verbatim>\<open>internal/deployment/serialization.go\<close>). The bytes are the document they encode. Times are
  written in UTC; an error in a document is its text, of which nothing but its presence is read again.
\<close>

section \<open>What can be written\<close>

text \<open>Infinities and numbers that are none have no JSON, nor have times outside of the years 0 to 9999.\<close>

definition json_time_ok :: "time \<Rightarrow> bool" where
  "json_time_ok t \<longleftrightarrow> - (366 * 86400 * second) \<le> t \<and> t < max_time"

definition finite_float :: "64 word \<Rightarrow> bool" where
  "finite_float f \<longleftrightarrow> unat (drop_bit 52 f) mod 2048 \<noteq> 2047"

fun json_ok :: "gval \<Rightarrow> bool" where
  "json_ok (GFloat f) = finite_float f"
| "json_ok (GTime t) = json_time_ok t"
| "json_ok (GList vs) = list_all json_ok vs"
| "json_ok (GMap m) = list_all (\<lambda>(k, v). json_ok v) m"
| "json_ok _ = True"

definition map_ok :: "gmap \<Rightarrow> bool" where
  "map_ok m \<longleftrightarrow> json_ok (GMap m)"

definition json_error :: goerror where
  "json_error = ErrorString ''json''"

section \<open>Plans\<close>

fun change_action_string :: "change_action \<Rightarrow> string" where
  "change_action_string ActionCreate = ''create''"
| "change_action_string ActionUpdate = ''update''"
| "change_action_string ActionDelete = ''delete''"
| "change_action_string ActionReplace = ''replace''"
| "change_action_string ActionNoOp = ''no-op''"
| "change_action_string (ActionOther s) = s"

text \<open>Members with \<^verbatim>\<open>omitempty\<close>: a map without entries is left out.\<close>

definition map_member :: "string \<Rightarrow> gmap option \<Rightarrow> gmap" where
  "map_member k m = (case m of None \<Rightarrow> [] | Some [] \<Rightarrow> [] | Some (x # xs) \<Rightarrow> [(k, GMap (x # xs))])"

definition list_member :: "string \<Rightarrow> gval list \<Rightarrow> gmap" where
  "list_member k vs = (if vs = [] then [] else [(k, GList vs)])"

definition change_json :: "resource_change \<Rightarrow> gval" where
  "change_json c =
     GMap ([(''resource_key'', GStr (rc_key c)), (''action'', GStr (change_action_string (rc_action c)))] @
           map_member ''before'' (rc_before c) @ map_member ''after'' (rc_after c) @
           map_member ''proposed_state'' (rc_proposed_state c) @
           list_member ''replace_paths'' (map GStr (rc_replace_paths c)))"

definition summary_json :: "update_summary \<Rightarrow> gval" where
  "summary_json s =
     GMap [(''to_create'', GInt (int (sum_to_create s))), (''to_update'', GInt (int (sum_to_update s))),
           (''to_delete'', GInt (int (sum_to_delete s))), (''to_replace'', GInt (int (sum_to_replace s))),
           (''no_changes'', GInt (int (sum_no_changes s)))]"

definition dangerous_json :: "dangerous_change \<Rightarrow> gval" where
  "dangerous_json c =
     GMap [(''resource_key'', GStr (dc_key c)), (''reason'', GStr (dc_reason c)), (''impact'', GStr (dc_impact c))]"

text \<open>A nil list of changes is \<^verbatim>\<open>null\<close>; a list that is nil and one that is empty are the same here and written empty.\<close>

definition plan_json :: "update_plan \<Rightarrow> gmap" where
  "plan_json p =
     [(''deployment_id'', GStr (up_deployment_id p)), (''plan_id'', GStr (up_plan_id p)),
      (''changes'', GList (map change_json (up_changes p))),
      (''execution_order'', GList (map change_json (up_execution_order p))),
      (''summary'', summary_json (up_summary p))] @
     list_member ''dangerous_changes'' (map dangerous_json (up_dangerous_changes p)) @
     [(''created_at'', GTime (up_created_at p)), (''requires_approval'', GBool (up_requires_approval p))] @
     map_member ''provider_configs'' (map_option (map (\<lambda>(k, m). (k, GMap m))) (up_provider_configs p)) @
     map_member ''provider_versions'' (Some (map (\<lambda>(k, v). (k, GStr v)) (up_provider_versions p)))"

definition serialize_plan :: "update_plan option \<Rightarrow> goerror + gmap" where
  "serialize_plan plan =
     (case plan of
        None \<Rightarrow> Inl (ErrorString ''update plan is nil'')
      | Some p \<Rightarrow>
          (if map_ok (plan_json p) then Inr (reload_map (plan_json p))
           else Inl (WrapError ''failed to marshal update plan: '' json_error '''')))"

section \<open>Deployments\<close>

fun meta_json :: "meta_value \<Rightarrow> gval" where
  "meta_json (MetaVal v) = v"
| "meta_json (MetaPlan p) = GMap (plan_json p)"

fun meta_reload :: "meta_value \<Rightarrow> meta_value" where
  "meta_reload v = MetaVal (json_reload (meta_json v))"

definition json_metadata :: "metadata option \<Rightarrow> metadata option" where
  "json_metadata md =
     (case md of None \<Rightarrow> None | Some [] \<Rightarrow> None | Some (x # xs) \<Rightarrow> Some (map (map_prod id meta_reload) (x # xs)))"

definition json_provider_config :: "provider_config option \<Rightarrow> provider_config option" where
  "json_provider_config pc =
     (case pc of None \<Rightarrow> None | Some [] \<Rightarrow> None | Some (x # xs) \<Rightarrow> Some (map (map_prod id reload_map) (x # xs)))"

definition json_resource_entry :: "resource \<Rightarrow> resource" where
  "json_resource_entry r = r\<lparr>res_properties := reload_map (res_properties r)\<rparr>"

definition json_data_source :: "data_source \<Rightarrow> data_source" where
  "json_data_source r = r\<lparr>ds_properties := reload_map (ds_properties r)\<rparr>"

definition json_request :: "deployment_request \<Rightarrow> deployment_request" where
  "json_request rq =
     \<lparr>req_resources = map json_resource_entry (req_resources rq), req_data_sources = map json_data_source (req_data_sources rq),
      req_options = (req_options rq)\<lparr>opt_provider_config := json_provider_config (opt_provider_config (req_options rq))\<rparr>,
      req_metadata = json_metadata (req_metadata rq)\<rparr>"

text \<open>What a document holds of a deployment.\<close>

definition json_deployment :: "queued_deployment \<Rightarrow> queued_deployment" where
  "json_deployment d =
     d\<lparr>qd_request := map_option json_request (qd_request d), qd_status := status_of_string (status_string (qd_status d))\<rparr>"

definition request_ok :: "deployment_request \<Rightarrow> bool" where
  "request_ok rq \<longleftrightarrow>
     list_all (\<lambda>r. map_ok (res_properties r)) (req_resources rq) \<and>
     list_all (\<lambda>r. map_ok (ds_properties r)) (req_data_sources rq) \<and>
     list_all (\<lambda>(k, m). map_ok m) (case opt_provider_config (req_options rq) of None \<Rightarrow> [] | Some pc \<Rightarrow> pc) \<and>
     list_all (\<lambda>(k, v). json_ok (meta_json v)) (case req_metadata rq of None \<Rightarrow> [] | Some md \<Rightarrow> md)"

definition deployment_ok :: "queued_deployment \<Rightarrow> bool" where
  "deployment_ok d \<longleftrightarrow>
     json_time_ok (qd_created_at d) \<and> pred_option json_time_ok (qd_started_at d) \<and>
     pred_option json_time_ok (qd_completed_at d) \<and> pred_option json_time_ok (qd_deleted_at d) \<and>
     pred_option request_ok (qd_request d)"

definition result_ok :: "deployment_result \<Rightarrow> bool" where
  "result_ok r \<longleftrightarrow>
     json_time_ok (dr_completed_at r) \<and> pred_option map_ok (dr_resources r) \<and> pred_option map_ok (dr_outputs r)"

definition json_result :: "deployment_result \<Rightarrow> deployment_result" where
  "json_result r =
     r\<lparr>dr_resources := map_option reload_map (dr_resources r),
       dr_outputs := (case dr_outputs r of None \<Rightarrow> None | Some [] \<Rightarrow> None | Some (x # xs) \<Rightarrow> Some (reload_map (x # xs)))\<rparr>"

section \<open>Documents\<close>

datatype document = DocDeployment queued_deployment | DocResult deployment_result | DocText string

definition marshal_deployment :: "queued_deployment \<Rightarrow> goerror + document" where
  "marshal_deployment d = (if deployment_ok d then Inr (DocDeployment (json_deployment d)) else Inl json_error)"

definition marshal_result :: "deployment_result \<Rightarrow> goerror + document" where
  "marshal_result r = (if result_ok r then Inr (DocResult (json_result r)) else Inl json_error)"

text \<open>
  An error is written as an object, and no object can be read into the interface \<^verbatim>\<open>error\<close>. Documents of one kind are
  only read as that kind, which the keys they are stored under ensure; the name of a status is no JSON.
\<close>

definition unmarshal_deployment :: "document \<Rightarrow> goerror + queued_deployment" where
  "unmarshal_deployment doc =
     (case doc of
        DocDeployment d \<Rightarrow> (if qd_last_error d = None then Inr d else Inl json_error)
      | _ \<Rightarrow> Inl json_error)"

text \<open>The result of what is written is what is read, if it has no error.\<close>

lemma unmarshal_marshal:
  "marshal_deployment d = Inr doc \<Longrightarrow>
     unmarshal_deployment doc = (if qd_last_error d = None then Inr (json_deployment d) else Inl json_error)"
  by (auto simp: marshal_deployment_def unmarshal_deployment_def json_deployment_def split: if_splits)

lemma json_metadata_idem [simp]: "json_metadata (json_metadata md) = json_metadata md"
proof -
  have "map_prod id meta_reload (map_prod id meta_reload x) = map_prod id meta_reload x" for x :: "string \<times> meta_value"
    by (cases x) simp
  then show ?thesis by (auto simp: json_metadata_def split: option.split list.split)
qed

lemma json_provider_config_idem [simp]: "json_provider_config (json_provider_config pc) = json_provider_config pc"
  by (auto simp: json_provider_config_def map_prod_def split: option.split list.split)

text \<open>Writing again changes nothing.\<close>

lemma json_deployment_idem [simp]: "json_deployment (json_deployment d) = json_deployment d"
proof -
  have "json_request (json_request rq) = json_request rq" for rq
    by (simp add: json_request_def json_resource_entry_def json_data_source_def)
  then have "map_option json_request (map_option json_request r) = map_option json_request r" for r
    by (cases r) simp_all
  then show ?thesis by (simp add: json_deployment_def)
qed

definition unmarshal_result :: "document \<Rightarrow> goerror + deployment_result" where
  "unmarshal_result doc =
     (case doc of
        DocResult r \<Rightarrow> (if dr_error r = None then Inr r else Inl json_error)
      | _ \<Rightarrow> Inl json_error)"

end
