(* ===== verification/Distributed_Tracker.thy ===== *)
theory Distributed_Tracker
  imports Wire_Format Embedded_Tracker
begin

text \<open>
  The tracker on Redis (\<^verbatim>\<open>internal/infra/distributed/tracker.go\<close>). The Redis client is the parameter \<open>redis\<close>, its
  behaviour the locale \<open>redis_values\<close>: what is stored and has not expired is a map from keys to documents.
  That locale is about the time in which Redis answers every request and no key expires; requests that fail are in the
  locale \<open>redis_replies\<close> of the results.
\<close>

section \<open>The client\<close>

datatype reply = RedisNil | RedisFails goerror | RedisValue document

text \<open>A scan is the list of the pages it returns; only the last may be an error. \<open>rd_text\<close> are the bytes of a document.\<close>

record 'w redis =
  rd_now :: "'w \<Rightarrow> time"
  rd_get :: "string \<Rightarrow> 'w \<Rightarrow> reply"
  rd_set :: "string \<Rightarrow> document \<Rightarrow> duration \<Rightarrow> 'w \<Rightarrow> 'w \<times> goerror option"
  rd_del :: "string \<Rightarrow> 'w \<Rightarrow> 'w"
  rd_scan :: "string \<Rightarrow> 'w \<Rightarrow> (goerror + string list) list"
  rd_close :: "'w \<Rightarrow> 'w \<times> goerror option"
  rd_text :: "document \<Rightarrow> string"

text \<open>
  The options of a connection: pointers to the client and the cluster options, and every other value of the interface,
  also the same options as values.
\<close>

datatype conn_opt = ClientOptPtr | ClusterOptPtr | OtherOpt

definition new_distributed_tracker :: "conn_opt \<Rightarrow> goerror option" where
  "new_distributed_tracker opt =
     (if opt = OtherOpt then Some (ErrorString ''unsupported redis connection type'') else None)"

section \<open>Keys\<close>

definition deployment_key :: "string \<Rightarrow> string" where
  "deployment_key i = ''deployment:'' @ i @ '':data''"

definition status_key :: "string \<Rightarrow> string" where
  "status_key i = ''deployment:'' @ i @ '':status''"

definition result_key :: "string \<Rightarrow> string" where
  "result_key i = ''deployment:'' @ i @ '':result''"

definition week :: duration where
  "week = 7 * 24 * 3600 * second"



lemma key_simps [simp]:
  "deployment_key i = deployment_key j \<longleftrightarrow> i = j" "status_key i = status_key j \<longleftrightarrow> i = j" "result_key i = result_key j \<longleftrightarrow> i = j"
  "deployment_key i \<noteq> status_key j" "status_key j \<noteq> deployment_key i" "deployment_key i \<noteq> result_key j"
  "result_key j \<noteq> deployment_key i" "status_key i \<noteq> result_key j" "result_key j \<noteq> status_key i"
proof -
  have ends: "last (deployment_key i) = CHR ''a''" "last (status_key i) = CHR ''s''" "last (result_key i) = CHR ''t''" for i
    by (simp_all add: deployment_key_def status_key_def result_key_def)
  have "deployment_key i \<noteq> status_key j" "deployment_key i \<noteq> result_key j" "status_key i \<noteq> result_key j"
    by (rule notI, drule arg_cong [where f = last], simp add: ends)+
  then show "deployment_key i \<noteq> status_key j" "status_key j \<noteq> deployment_key i" "deployment_key i \<noteq> result_key j"
    "result_key j \<noteq> deployment_key i" "status_key i \<noteq> result_key j" "result_key j \<noteq> status_key i"
    by simp_all
qed (simp_all add: deployment_key_def status_key_def result_key_def)

section \<open>Operations\<close>

definition dist_register :: "'w redis \<Rightarrow> queued_deployment option \<Rightarrow> 'w \<Rightarrow> 'w \<times> goerror option" where
  "dist_register r deployment w =
     (case deployment of
        None \<Rightarrow> (w, Some (ErrorString ''deployment is nil''))
      | Some d \<Rightarrow>
          (if qd_id d = '''' then (w, Some (ErrorString ''deployment ID is empty''))
           else
             (case marshal_deployment d of
                Inl e \<Rightarrow> (w, Some (WrapError ''failed to marshal deployment: '' e ''''))
              | Inr doc \<Rightarrow>
                  (case rd_set r (deployment_key (qd_id d)) doc week w of
                     (w1, Some e) \<Rightarrow> (w1, Some (WrapError ''failed to store deployment: '' e ''''))
                   | (w1, None) \<Rightarrow>
                       (case rd_set r (status_key (qd_id d)) (DocText (status_string (qd_status d))) week w1 of
                          (w2, Some e) \<Rightarrow> (w2, Some (WrapError ''failed to store status: '' e ''''))
                        | (w2, None) \<Rightarrow> (w2, None))))))"

definition id_empty :: goerror where
  "id_empty = ErrorString ''deployment ID is empty''"

definition no_deployment :: "string \<Rightarrow> goerror" where
  "no_deployment i = ErrorString (''deployment '' @ i @ '' not found'')"

definition unmarshaled :: "document \<Rightarrow> goerror + queued_deployment" where
  "unmarshaled doc =
     (case unmarshal_deployment doc of
        Inl e \<Rightarrow> Inl (WrapError ''failed to unmarshal deployment: '' e '''')
      | Inr d \<Rightarrow> Inr d)"

definition dist_get :: "'w redis \<Rightarrow> string \<Rightarrow> 'w \<Rightarrow> goerror + queued_deployment" where
  "dist_get r i w =
     (if i = '''' then Inl id_empty
      else
        (case rd_get r (deployment_key i) w of
           RedisNil \<Rightarrow> Inl (no_deployment i)
         | RedisFails e \<Rightarrow> Inl (WrapError ''failed to get deployment: '' e '''')
         | RedisValue doc \<Rightarrow> unmarshaled doc))"

text \<open>The status is looked up under its own key first.\<close>

definition dist_get_status :: "'w redis \<Rightarrow> string \<Rightarrow> 'w \<Rightarrow> goerror + deployment_status" where
  "dist_get_status r i w =
     (if i = '''' then Inl id_empty
      else
        (case rd_get r (status_key i) w of
           RedisValue doc \<Rightarrow> Inr (status_of_string (rd_text r doc))
         | _ \<Rightarrow>
             (case rd_get r (deployment_key i) w of
                RedisNil \<Rightarrow> Inl (no_deployment i)
              | RedisFails e \<Rightarrow> Inl (WrapError ''failed to get deployment: '' e '''')
              | RedisValue doc \<Rightarrow> map_sum id qd_status (unmarshaled doc))))"

fun status_times :: "time \<Rightarrow> deployment_status \<Rightarrow> queued_deployment \<Rightarrow> queued_deployment" where
  "status_times now StatusProcessing d = d\<lparr>qd_started_at := Some now\<rparr>"
| "status_times now StatusCompleted d = d\<lparr>qd_completed_at := Some now\<rparr>"
| "status_times now StatusFailed d = d\<lparr>qd_completed_at := Some now\<rparr>"
| "status_times now StatusCanceled d = d\<lparr>qd_completed_at := Some now\<rparr>"
| "status_times now StatusDestroyed d = d\<lparr>qd_completed_at := Some now\<rparr>"
| "status_times now StatusDeleted d = d\<lparr>qd_completed_at := Some now\<rparr>"
| "status_times now st d = d"

text \<open>
  Setting a status reads the record, writes the status, and writes the record that was read with the status: three
  requests, between which others may come. Whether the record is written is not looked at.
\<close>

definition set_status_read :: "'w redis \<Rightarrow> string \<Rightarrow> 'w \<Rightarrow> goerror + document" where
  "set_status_read r i w =
     (if i = '''' then Inl id_empty
      else
        (case rd_get r (deployment_key i) w of
           RedisNil \<Rightarrow> Inl (no_deployment i)
         | RedisFails e \<Rightarrow> Inl (WrapError ''failed to get deployment: '' e '''')
         | RedisValue doc \<Rightarrow> Inr doc))"

definition set_status_write :: "'w redis \<Rightarrow> string \<Rightarrow> deployment_status \<Rightarrow> 'w \<Rightarrow> 'w \<times> goerror option" where
  "set_status_write r i st w =
     (case rd_set r (status_key i) (DocText (status_string st)) week w of
        (w1, Some e) \<Rightarrow> (w1, Some (WrapError ''failed to update status: '' e ''''))
      | (w1, None) \<Rightarrow> (w1, None))"

definition set_status_record :: "'w redis \<Rightarrow> string \<Rightarrow> deployment_status \<Rightarrow> document \<Rightarrow> 'w \<Rightarrow> 'w" where
  "set_status_record r i st doc w =
     (case unmarshal_deployment doc of
        Inl e \<Rightarrow> w
      | Inr d \<Rightarrow>
          (case marshal_deployment (status_times (rd_now r w) st (d\<lparr>qd_status := st\<rparr>)) of
             Inl e \<Rightarrow> w
           | Inr doc' \<Rightarrow> fst (rd_set r (deployment_key i) doc' week w)))"

definition dist_set_status :: "'w redis \<Rightarrow> string \<Rightarrow> deployment_status \<Rightarrow> 'w \<Rightarrow> 'w \<times> goerror option" where
  "dist_set_status r i st w =
     (case set_status_read r i w of
        Inl e \<Rightarrow> (w, Some e)
      | Inr doc \<Rightarrow>
          (case set_status_write r i st w of
             (w1, Some e) \<Rightarrow> (w1, Some e)
           | (w1, None) \<Rightarrow> (set_status_record r i st doc w1, None)))"

definition dist_get_result :: "'w redis \<Rightarrow> string \<Rightarrow> 'w \<Rightarrow> goerror + deployment_result option" where
  "dist_get_result r i w =
     (if i = '''' then Inl id_empty
      else
        (case rd_get r (result_key i) w of
           RedisNil \<Rightarrow> Inr None
         | RedisFails e \<Rightarrow> Inl (WrapError ''failed to get result: '' e '''')
         | RedisValue doc \<Rightarrow>
             (case unmarshal_result doc of
                Inl e \<Rightarrow> Inl (WrapError ''failed to unmarshal result: '' e '''')
              | Inr res \<Rightarrow> Inr (Some res))))"

text \<open>Records that cannot be read are left out.\<close>

fun listed :: "'w redis \<Rightarrow> deployment_filter \<Rightarrow> 'w \<Rightarrow> string list \<Rightarrow> queued_deployment list" where
  "listed r f w [] = []"
| "listed r f w (k # ks) =
     (case rd_get r k w of
        RedisValue doc \<Rightarrow>
          (case unmarshal_deployment doc of
             Inl e \<Rightarrow> listed r f w ks
           | Inr d \<Rightarrow> if matches_filter d f then d # listed r f w ks else listed r f w ks)
      | _ \<Rightarrow> listed r f w ks)"

fun scan_pages :: "'w redis \<Rightarrow> deployment_filter \<Rightarrow> 'w \<Rightarrow> (goerror + string list) list \<Rightarrow> goerror + queued_deployment list" where
  "scan_pages r f w [] = Inr []"
| "scan_pages r f w (Inl e # pages) = Inl (WrapError ''failed to scan deployments: '' e '''')"
| "scan_pages r f w (Inr ks # pages) = map_sum id (\<lambda>ds. listed r f w ks @ ds) (scan_pages r f w pages)"

definition dist_list :: "'w redis \<Rightarrow> deployment_filter \<Rightarrow> 'w \<Rightarrow> goerror + queued_deployment list" where
  "dist_list r f w = scan_pages r f w (rd_scan r ''deployment:*:data'' w)"

definition dist_remove :: "'w redis \<Rightarrow> string \<Rightarrow> 'w \<Rightarrow> 'w \<times> goerror option" where
  "dist_remove r i w =
     (if i = '''' then (w, Some id_empty)
      else (rd_del r (result_key i) (rd_del r (status_key i) (rd_del r (deployment_key i) w)), None))"

definition dist_set_result :: "'w redis \<Rightarrow> string \<Rightarrow> deployment_result option \<Rightarrow> 'w \<Rightarrow> 'w \<times> goerror option" where
  "dist_set_result r i result w =
     (if i = '''' then (w, Some id_empty)
      else
        (case result of
           None \<Rightarrow> (w, Some (ErrorString ''result is nil''))
         | Some res \<Rightarrow>
             (case marshal_result res of
                Inl e \<Rightarrow> (w, Some (WrapError ''failed to marshal result: '' e ''''))
              | Inr doc \<Rightarrow>
                  (case rd_set r (result_key i) doc week w of
                     (w1, Some e) \<Rightarrow> (w1, Some (WrapError ''failed to store result: '' e ''''))
                   | (w1, None) \<Rightarrow> (w1, None)))))"

definition dist_close :: "'w redis \<Rightarrow> 'w \<Rightarrow> 'w \<times> goerror option" where
  "dist_close r w =
     (case rd_close r w of
        (w1, Some e) \<Rightarrow> (w1, Some (WrapError ''failed to close redis client: '' e ''''))
      | (w1, None) \<Rightarrow> (w1, None))"

definition dist_load :: "'s \<Rightarrow> 'w \<Rightarrow> 'w \<times> goerror option" where
  "dist_load store w = (w, None)"


section \<open>What the client promises\<close>

text \<open>
  While Redis is up, reads answer with what is stored, and writes are done. Keys that match the pattern of the scan are
  those of records; a scan may return a key more than once.
\<close>

locale redis_values =
  fixes r :: "'w redis" and stored :: "'w \<Rightarrow> string \<Rightarrow> document option" and up :: "'w \<Rightarrow> bool"
  assumes get_value: "up w \<Longrightarrow> stored w k = Some doc \<Longrightarrow> rd_get r k w = RedisValue doc"
    and get_nil: "up w \<Longrightarrow> stored w k = None \<Longrightarrow> rd_get r k w = RedisNil"
    and set_value: "up w \<Longrightarrow> rd_set r k doc ttl w = (w', e) \<Longrightarrow> e = None \<and> up w' \<and> stored w' = (stored w)(k \<mapsto> doc)"
    and del_value: "up w \<Longrightarrow> up (rd_del r k w) \<and> stored (rd_del r k w) = (stored w)(k := None)"
    and scan_keys: "up w \<Longrightarrow> \<exists>pages. rd_scan r ''deployment:*:data'' w = map Inr pages \<and>
          set (concat pages) = {k. stored w k \<noteq> None \<and> (\<exists>i. k = deployment_key i)}"
    and text_bytes: "rd_text r (DocText s) = s"
begin

lemma set_stored:
  assumes "up w"
  obtains w' where "rd_set r k doc ttl w = (w', None)" and "up w'" and "stored w' = (stored w)(k \<mapsto> doc)"
  using set_value [OF assms] by (metis prod.collapse)

lemma register_stores:
  assumes "up w" and "qd_id d \<noteq> ''''" and "deployment_ok d"
  obtains w' where "dist_register r (Some d) w = (w', None)" and "up w'"
    and "stored w' = (stored w)(deployment_key (qd_id d) \<mapsto> DocDeployment (json_deployment d),
      status_key (qd_id d) \<mapsto> DocText (status_string (qd_status d)))"
proof -
  obtain w1 where w1: "rd_set r (deployment_key (qd_id d)) (DocDeployment (json_deployment d)) week w = (w1, None)"
    "up w1" "stored w1 = (stored w)(deployment_key (qd_id d) \<mapsto> DocDeployment (json_deployment d))"
    by (rule set_stored [OF assms(1)])
  obtain w2 where w2: "rd_set r (status_key (qd_id d)) (DocText (status_string (qd_status d))) week w1 = (w2, None)"
    "up w2" "stored w2 = (stored w1)(status_key (qd_id d) \<mapsto> DocText (status_string (qd_status d)))"
    by (rule set_stored [OF w1(2)])
  show thesis
    by (rule that [of w2]) (use assms(2,3) w1 w2 in \<open>simp_all add: dist_register_def marshal_deployment_def\<close>)
qed

lemma get_stored:
  assumes "up w" and "i \<noteq> ''''"
  shows "dist_get r i w = (case stored w (deployment_key i) of None \<Rightarrow> Inl (no_deployment i) | Some doc \<Rightarrow> unmarshaled doc)"
  using assms get_value get_nil by (auto simp: dist_get_def split: option.split)

lemma status_stored:
  assumes "up w" and "i \<noteq> ''''" and "stored w (status_key i) = Some (DocText s)"
  shows "dist_get_status r i w = Inr (status_of_string s)"
  using assms get_value [OF assms(1)] by (simp add: dist_get_status_def text_bytes)

lemma result_stored:
  assumes "up w" and "i \<noteq> ''''"
  shows "dist_get_result r i w = (case stored w (result_key i) of None \<Rightarrow> Inr None
     | Some doc \<Rightarrow> (case unmarshal_result doc of
         Inl e \<Rightarrow> Inl (WrapError ''failed to unmarshal result: '' e '''') | Inr res \<Rightarrow> Inr (Some res)))"
  using assms get_value get_nil by (auto simp: dist_get_result_def split: option.split)

lemma result_is_stored:
  assumes "up w" and "i \<noteq> ''''" and "result_ok res"
  obtains w' where "dist_set_result r i (Some res) w = (w', None)" and "up w'"
    and "stored w' = (stored w)(result_key i \<mapsto> DocResult (json_result res))"
proof -
  obtain w1 where "rd_set r (result_key i) (DocResult (json_result res)) week w = (w1, None)" "up w1"
    "stored w1 = (stored w)(result_key i \<mapsto> DocResult (json_result res))"
    by (rule set_stored [OF assms(1)])
  then show thesis
    using that [of w1] assms(2,3) by (simp add: dist_set_result_def marshal_result_def)
qed

lemma write_stores:
  assumes "up w"
  obtains w' where "set_status_write r i st w = (w', None)" and "up w'"
    and "stored w' = (stored w)(status_key i \<mapsto> DocText (status_string st))"
proof -
  obtain w1 where "rd_set r (status_key i) (DocText (status_string st)) week w = (w1, None)" "up w1"
    "stored w1 = (stored w)(status_key i \<mapsto> DocText (status_string st))"
    by (rule set_stored [OF assms])
  then show thesis using that [of w1] by (simp add: set_status_write_def)
qed

lemma record_stores:
  assumes "up w" and "unmarshal_deployment doc = Inr d" and "json_time_ok (rd_now r w)" and "deployment_ok d"
  shows "up (set_status_record r i st doc w)"
    and "\<exists>d'. d' = json_deployment (status_times (rd_now r w) st (d\<lparr>qd_status := st\<rparr>)) \<and>
      stored (set_status_record r i st doc w) = (stored w)(deployment_key i \<mapsto> DocDeployment d')"
proof -
  define d1 where "d1 = status_times (rd_now r w) st (d\<lparr>qd_status := st\<rparr>)"
  have ok: "deployment_ok d1" using assms(3,4) unfolding d1_def by (cases st) (simp_all add: deployment_ok_def)
  obtain w1 where w1: "rd_set r (deployment_key i) (DocDeployment (json_deployment d1)) week w = (w1, None)" "up w1"
    "stored w1 = (stored w)(deployment_key i \<mapsto> DocDeployment (json_deployment d1))"
    by (rule set_stored [OF assms(1)])
  have rec: "set_status_record r i st doc w = w1"
    using assms(2) ok w1(1) by (simp add: set_status_record_def marshal_deployment_def d1_def [symmetric])
  then show "up (set_status_record r i st doc w)" using w1(2) by simp
  show "\<exists>d'. d' = json_deployment (status_times (rd_now r w) st (d\<lparr>qd_status := st\<rparr>)) \<and>
      stored (set_status_record r i st doc w) = (stored w)(deployment_key i \<mapsto> DocDeployment d')"
    using rec w1(3) by (simp add: d1_def)
qed

lemma set_status_missing:
  "up w \<Longrightarrow> i \<noteq> '''' \<Longrightarrow> stored w (deployment_key i) = None \<Longrightarrow>
     dist_set_status r i st w = (w, Some (no_deployment i))"
  by (simp add: dist_set_status_def set_status_read_def get_nil)

end

end
