(* ===== verification/Distributed_Queue.thy ===== *)
theory Distributed_Queue
  imports Distributed_Tracker Queue_Resilience
begin

text \<open>
  The queue, the workers and the dead letters of the distributed setup (\<^verbatim>\<open>internal/infra/distributed/queue.go\<close>,
  \<^verbatim>\<open>worker_pool.go\<close>, \<^verbatim>\<open>dlq_manager.go\<close>) over the asynq package, which is the parameter \<open>asynq\<close>. The server of asynq calls
  the handler of a task; starting and stopping it is left to it.
\<close>

section \<open>The package\<close>

record task_info =
  tk_id :: string
  tk_type :: string
  tk_payload :: document
  tk_last_err :: string
  tk_last_failed :: time
  tk_retried :: int
  tk_next_process :: time

record task_request =
  tq_type :: string
  tq_payload :: document
  tq_id :: string
  tq_queue :: string
  tq_max_retry :: int

record queue_info =
  qi_processed :: int
  qi_size :: int
  qi_active :: int
  qi_archived :: int
  qi_latency :: duration

text \<open>Lists are first pages, as the package returns them; \<open>aq_first_pending\<close> is a page of one task.\<close>

record 'w asynq =
  aq_parse :: "string \<Rightarrow> goerror + conn_opt"
  aq_enqueue :: "task_request \<Rightarrow> 'w \<Rightarrow> 'w \<times> goerror option"
  aq_delete_task :: "string \<Rightarrow> string \<Rightarrow> 'w \<Rightarrow> 'w \<times> goerror option"
  aq_archived :: "string \<Rightarrow> 'w \<Rightarrow> goerror + task_info list"
  aq_pending :: "string \<Rightarrow> 'w \<Rightarrow> goerror + task_info list"
  aq_first_pending :: "string \<Rightarrow> 'w \<Rightarrow> goerror + task_info list"
  aq_task :: "string \<Rightarrow> string \<Rightarrow> 'w \<Rightarrow> goerror + task_info"
  aq_info :: "string \<Rightarrow> 'w \<Rightarrow> goerror + queue_info"
  aq_servers :: "'w \<Rightarrow> goerror + int list"

section \<open>The queue\<close>

definition task_type_deployment :: string where
  "task_type_deployment = ''deployment:process''"

definition new_distributed_queue :: "'w asynq \<Rightarrow> string \<Rightarrow> 'w \<Rightarrow>
    goerror + conn_opt \<times> (resilience_config \<times> breaker \<times> 'w resilient)" where
  "new_distributed_queue aq url w =
     (if url = '''' then Inl (ErrorString ''redis URL is required'')
      else
        (case aq_parse aq url of
           Inl e \<Rightarrow> Inl (WrapError ''failed to parse redis URL: '' e '''')
         | Inr opt \<Rightarrow> Inr (opt, new_resilient_executor (Some default_resilience_config) w)))"

text \<open>The operation that is retried. A deployment without a request would panic in it.\<close>

definition enqueue_task :: "'w asynq \<Rightarrow> queued_deployment \<Rightarrow> deployment_request \<Rightarrow> 'w \<Rightarrow> 'w \<times> goerror option" where
  "enqueue_task aq d rq w =
     (case marshal_deployment d of
        Inl e \<Rightarrow> (w, Some (WrapError ''failed to marshal deployment: '' e ''''))
      | Inr doc \<Rightarrow>
          (case aq_enqueue aq \<lparr>tq_type = task_type_deployment, tq_payload = doc, tq_id = qd_id d, tq_queue = ''deployments'',
                  tq_max_retry = opt_max_retries (req_options rq)\<rparr> w of
             (w1, Some e) \<Rightarrow> (w1, Some (WrapError ''failed to enqueue deployment: '' e ''''))
           | (w1, None) \<Rightarrow> (w1, None)))"

text \<open>None is a deployment without a request.\<close>

definition dist_enqueue ::
  "'w asynq \<Rightarrow> exec_clock \<Rightarrow> ctx_err \<Rightarrow> resilience_config \<Rightarrow> 'w redis_info option \<Rightarrow> duration \<Rightarrow>
     (int \<Rightarrow> attempt_env) \<Rightarrow> queued_deployment option \<Rightarrow> breaker \<times> 'w resilient \<Rightarrow>
     ((breaker \<times> 'w resilient) \<times> outcome) option" where
  "dist_enqueue aq ck ctx cfg redis zone env deployment s =
     (case deployment of
        None \<Rightarrow> Some (s, Returned (Some (ErrorString ''deployment is nil'')))
      | Some d \<Rightarrow>
          (if qd_id d = '''' then Some (s, Returned (Some id_empty))
           else
             (case qd_request d of
                None \<Rightarrow> None
              | Some rq \<Rightarrow>
                  Some (execute_with_resilience ck ctx cfg redis zone env (''enqueue-'' @ qd_id d) (enqueue_task aq d rq) s))))"

text \<open>The second and third names are states of tasks, not queues.\<close>

definition dist_cancel :: "'w asynq \<Rightarrow> string \<Rightarrow> 'w \<Rightarrow> 'w \<times> goerror option" where
  "dist_cancel aq i w =
     (if i = '''' then (w, Some id_empty)
      else
        (case aq_delete_task aq ''deployments'' i w of
           (w1, None) \<Rightarrow> (w1, None)
         | (w1, Some _) \<Rightarrow>
             (case aq_delete_task aq ''scheduled'' i w1 of
                (w2, None) \<Rightarrow> (w2, None)
              | (w2, Some _) \<Rightarrow>
                  (case aq_delete_task aq ''retry'' i w2 of
                     (w3, None) \<Rightarrow> (w3, None)
                   | (w3, Some _) \<Rightarrow>
                       (w3, Some (ErrorString (''deployment '' @ i @ '' not found in any queue or already processing'')))))))"

definition no_metrics :: queue_metrics where
  "no_metrics = \<lparr>qm_total_enqueued = 0, qm_total_dequeued = 0, qm_current_depth = 0, qm_average_wait_time = 0,
     qm_oldest_deployment = time_zero\<rparr>"

text \<open>The latency, a duration already, is multiplied by a million, modulo \<open>2 ^ 64\<close>.\<close>

definition wrapped_duration :: "int \<Rightarrow> duration" where
  "wrapped_duration d = sint (word_of_int d :: 64 word)"

definition dist_metrics :: "'w asynq \<Rightarrow> 'w \<Rightarrow> queue_metrics" where
  "dist_metrics aq w =
     (case aq_info aq ''deployments'' w of
        Inl e \<Rightarrow> no_metrics
      | Inr info \<Rightarrow>
          \<lparr>qm_total_enqueued = qi_processed info + qi_size info + qi_active info, qm_total_dequeued = qi_processed info,
           qm_current_depth = nat (qi_size info),
           qm_average_wait_time = wrapped_duration (qi_latency info * millisecond),
           qm_oldest_deployment =
             (if qi_size info > 0
              then (case aq_first_pending aq ''deployments'' w of Inr (t # ts) \<Rightarrow> tk_next_process t | _ \<Rightarrow> time_zero)
              else time_zero)\<rparr>)"

definition dist_queue_close :: "'w resilient option \<Rightarrow> goerror option \<Rightarrow> goerror option" where
  "dist_queue_close executor client = map_option (\<lambda>e. WrapError ''failed to close asynq client: '' e '''') client"

section \<open>The workers\<close>

record dist_pool_config =
  wc_redis_url :: string
  wc_has_tracker :: bool
  wc_has_executor :: bool
  wc_concurrency :: int
  wc_queues :: "(string \<times> int) list option"

definition default_queues :: "(string \<times> int) list" where
  "default_queues = [(''critical'', 6), (''deployments'', 3), (''default'', 1)]"

text \<open>The connection, the concurrency and the priorities the server is created with.\<close>

definition new_dist_worker_pool :: "'w asynq \<Rightarrow> dist_pool_config \<Rightarrow> goerror + conn_opt \<times> int \<times> (string \<times> int) list" where
  "new_dist_worker_pool aq cfg =
     (if wc_redis_url cfg = '''' then Inl (ErrorString ''redis URL is required'')
      else if \<not> wc_has_tracker cfg then Inl (ErrorString ''tracker is required'')
      else if \<not> wc_has_executor cfg then Inl (ErrorString ''executor is required'')
      else
        (case aq_parse aq (wc_redis_url cfg) of
           Inl e \<Rightarrow> Inl (WrapError ''failed to parse redis URL: '' e '''')
         | Inr opt \<Rightarrow>
             Inr (opt, if wc_concurrency cfg \<le> 0 then 10 else wc_concurrency cfg,
                  case wc_queues cfg of None \<Rightarrow> default_queues | Some qs \<Rightarrow> qs)))"

definition task_result :: "string \<Rightarrow> deployment_result" where
  "task_result i =
     \<lparr>dr_deployment_id = i, dr_success = True, dr_error = None, dr_resources = Some [], dr_outputs = None,
      dr_completed_at = time_zero\<rparr>"

text \<open>Errors of the tracker are only logged. The executor acts on the same world: its events reach the tracker there.\<close>

definition handle_deployment_task ::
  "'w redis \<Rightarrow> (queued_deployment \<Rightarrow> 'w \<Rightarrow> 'w \<times> goerror option) \<Rightarrow> document \<Rightarrow> 'w \<Rightarrow> 'w \<times> goerror option" where
  "handle_deployment_task r exec payload w =
     (case unmarshal_deployment payload of
        Inl e \<Rightarrow> (w, Some (WrapError ''failed to unmarshal deployment: '' e ''''))
      | Inr d \<Rightarrow>
          (let w1 = fst (dist_set_status r (qd_id d) StatusProcessing w) in
           case exec d w1 of
             (w2, Some e) \<Rightarrow> (fst (dist_set_status r (qd_id d) StatusFailed w2), Some e)
           | (w2, None) \<Rightarrow>
               (let w3 = fst (dist_set_status r (qd_id d) StatusCompleted w2) in
                (fst (dist_set_result r (qd_id d) (Some (task_result (qd_id d))) w3), None))))"

text \<open>The pool recognizes its server by the concurrency.\<close>

definition dist_pool_stats :: "'w asynq \<Rightarrow> int \<Rightarrow> 'w \<Rightarrow> goerror + int" where
  "dist_pool_stats aq concurrency w =
     (case aq_servers aq w of
        Inl e \<Rightarrow> Inl (WrapError ''failed to get server info: '' e '''')
      | Inr servers \<Rightarrow>
          (case List.find (\<lambda>c. c = concurrency) servers of
             None \<Rightarrow> Inl (ErrorString ''server info not found'')
           | Some c \<Rightarrow> Inr c))"

section \<open>Dead letters\<close>

record dead_deployment =
  dd_id :: string
  dd_deployment :: queued_deployment
  dd_error :: string
  dd_last_failed :: time
  dd_retry_count :: int
  dd_queue :: string

definition dead_queues :: "string list" where
  "dead_queues = [''deployments'', ''critical'', ''default'']"

definition dead_of :: "string \<Rightarrow> task_info \<Rightarrow> queued_deployment \<Rightarrow> dead_deployment" where
  "dead_of q t d =
     \<lparr>dd_id = tk_id t, dd_deployment = d, dd_error = tk_last_err t, dd_last_failed = tk_last_failed t,
      dd_retry_count = tk_retried t, dd_queue = q\<rparr>"

definition archived_in :: "'w asynq \<Rightarrow> 'w \<Rightarrow> string \<Rightarrow> task_info list" where
  "archived_in aq w q = (case aq_archived aq q w of Inl e \<Rightarrow> [] | Inr ts \<Rightarrow> ts)"

definition list_dead :: "'w asynq \<Rightarrow> 'w \<Rightarrow> dead_deployment list" where
  "list_dead aq w =
     concat (map (\<lambda>q. List.map_filter
       (\<lambda>t. if tk_type t \<noteq> task_type_deployment then None
            else (case unmarshal_deployment (tk_payload t) of Inl e \<Rightarrow> None | Inr d \<Rightarrow> Some (dead_of q t d)))
       (archived_in aq w q)) dead_queues)"

fun find_dead :: "'w asynq \<Rightarrow> 'w \<Rightarrow> string \<Rightarrow> string list \<Rightarrow> goerror + dead_deployment" where
  "find_dead aq w i [] = Inl (ErrorString (''deployment '' @ i @ '' not found in archived tasks''))"
| "find_dead aq w i (q # qs) =
     (case List.find (\<lambda>t. tk_type t = task_type_deployment \<and> tk_id t = i) (archived_in aq w q) of
        None \<Rightarrow> find_dead aq w i qs
      | Some t \<Rightarrow>
          (case unmarshal_deployment (tk_payload t) of
             Inl e \<Rightarrow> Inl (WrapError ''failed to unmarshal deployment: '' e '''')
           | Inr d \<Rightarrow> Inr (dead_of q t d)))"

definition get_dead :: "'w asynq \<Rightarrow> string \<Rightarrow> 'w \<Rightarrow> goerror + dead_deployment" where
  "get_dead aq i w = find_dead aq w i dead_queues"

definition requeue_dead :: "'w asynq \<Rightarrow> string \<Rightarrow> 'w \<Rightarrow> 'w \<times> goerror option" where
  "requeue_dead aq i w =
     (case get_dead aq i w of
        Inl e \<Rightarrow> (w, Some e)
      | Inr dead \<Rightarrow>
          (case aq_delete_task aq (dd_queue dead) i w of
             (w1, Some e) \<Rightarrow> (w1, Some (WrapError ''failed to delete from archived tasks: '' e ''''))
           | (w1, None) \<Rightarrow>
               (case marshal_deployment (dd_deployment dead) of
                  Inl e \<Rightarrow> (w1, Some (WrapError ''failed to marshal deployment: '' e ''''))
                | Inr doc \<Rightarrow>
                    (case aq_enqueue aq \<lparr>tq_type = task_type_deployment, tq_payload = doc, tq_id = i,
                            tq_queue = ''deployments'', tq_max_retry = 3\<rparr> w1 of
                       (w2, Some e) \<Rightarrow> (w2, Some (WrapError ''failed to requeue deployment: '' e ''''))
                     | (w2, None) \<Rightarrow> (w2, None)))))"

definition purge_dead :: "'w asynq \<Rightarrow> string \<Rightarrow> 'w \<Rightarrow> 'w \<times> goerror option" where
  "purge_dead aq i w =
     (case get_dead aq i w of
        Inl e \<Rightarrow> (w, Some e)
      | Inr dead \<Rightarrow>
          (case aq_delete_task aq (dd_queue dead) i w of
             (w1, Some e) \<Rightarrow> (w1, Some (WrapError ''failed to delete from archived tasks: '' e ''''))
           | (w1, None) \<Rightarrow> (w1, None)))"

definition dead_stats :: "'w asynq \<Rightarrow> 'w \<Rightarrow> (string \<times> int) list" where
  "dead_stats aq w =
     List.map_filter
       (\<lambda>q. case aq_info aq q w of
              Inl e \<Rightarrow> None
            | Inr info \<Rightarrow> if qi_archived info > 0 then Some (q, qi_archived info) else None) dead_queues"

section \<open>The distributed system\<close>

text \<open>The parts of \<^verbatim>\<open>newDistributedSystem\<close>, in the order they are created.\<close>

definition new_distributed_system :: "'w asynq \<Rightarrow> string \<Rightarrow> 'w \<Rightarrow> goerror + conn_opt \<times> int" where
  "new_distributed_system aq url w =
     (if url = '''' then Inl (ErrorString ''redis URL is required for distributed mode'')
      else
        (case new_distributed_queue aq url w of
           Inl e \<Rightarrow> Inl (WrapError ''failed to create distributed queue: '' e '''')
         | Inr (opt, executor) \<Rightarrow>
             (case new_distributed_tracker opt of
                Some e \<Rightarrow> Inl (WrapError ''failed to create distributed tracker: '' e '''')
              | None \<Rightarrow>
                  (case new_dist_worker_pool aq \<lparr>wc_redis_url = url, wc_has_tracker = True, wc_has_executor = True,
                          wc_concurrency = 10, wc_queues = Some default_queues\<rparr> of
                     Inl e \<Rightarrow> Inl (WrapError ''failed to create distributed worker pool: '' e '''')
                   | Inr (opt', concurrency, qs) \<Rightarrow> Inr (opt, concurrency)))))"

end
