(* ===== verification/Distributed_Results.thy ===== *)
theory Distributed_Results
  imports Distributed_Queue
begin

text \<open>What the distributed setup keeps of a deployment, and where it differs from the embedded one.\<close>

section \<open>Sequences of operations\<close>

datatype dist_op =
    DoRegister queued_deployment
  | DoSetStatus string deployment_status
  | DoSetResult string deployment_result
  | DoRemove string

fun dist_step :: "'w redis \<Rightarrow> dist_op \<Rightarrow> 'w \<Rightarrow> 'w" where
  "dist_step r (DoRegister d) w = fst (dist_register r (Some d) w)"
| "dist_step r (DoSetStatus i st) w = fst (dist_set_status r i st w)"
| "dist_step r (DoSetResult i res) w = fst (dist_set_result r i (Some res) w)"
| "dist_step r (DoRemove i) w = fst (dist_remove r i w)"

text \<open>A deployment that can be written again after it was read.\<close>

definition rewritable :: "queued_deployment \<Rightarrow> bool" where
  "rewritable d \<longleftrightarrow> qd_last_error d = None \<and> deployment_ok (json_deployment d)"

fun op_ok :: "dist_op \<Rightarrow> bool" where
  "op_ok (DoRegister d) = rewritable d"
| "op_ok _ = True"

text \<open>The record and the status of one deployment agree.\<close>

definition agree_at :: "(string \<Rightarrow> document option) \<Rightarrow> string \<Rightarrow> bool" where
  "agree_at m i \<longleftrightarrow>
     (case m (deployment_key i) of
        None \<Rightarrow> True
      | Some doc \<Rightarrow> \<exists>d. doc = DocDeployment d \<and> qd_id d = i \<and> rewritable d \<and> json_deployment d = d \<and>
          m (status_key i) = Some (DocText (status_string (qd_status d))))"

lemma agree_at_frame:
  "m (deployment_key i) = m' (deployment_key i) \<Longrightarrow> m (status_key i) = m' (status_key i) \<Longrightarrow> agree_at m i = agree_at m' i"
  by (auto simp: agree_at_def split: option.split)

lemma agree_at_record:
  assumes "m (deployment_key i) = Some (DocDeployment (json_deployment d))" and "qd_id d = i" and "rewritable d"
    and "m (status_key i) = Some (DocText (status_string (qd_status d)))"
  shows "agree_at m i"
proof -
  have "qd_id (json_deployment d) = i" "status_string (qd_status (json_deployment d)) = status_string (qd_status d)"
    "qd_last_error (json_deployment d) = qd_last_error d"
    using assms(2) by (simp_all add: json_deployment_def)
  then show ?thesis using assms by (simp add: agree_at_def rewritable_def)
qed

lemma rewritable_later:
  assumes "rewritable d" and "json_time_ok now"
  shows "rewritable (status_times now st (d\<lparr>qd_status := st\<rparr>))"
  using assms by (cases st) (simp_all add: rewritable_def deployment_ok_def json_deployment_def)

context redis_values
begin

text \<open>One operation keeps the agreement, if the clock can be written.\<close>

lemma register_agrees:
  assumes up: "up w" and ok: "rewritable d" and agree: "\<And>i. agree_at (stored w) i"
  shows "up (fst (dist_register r (Some d) w)) \<and> (\<forall>i. agree_at (stored (fst (dist_register r (Some d) w))) i)"
proof (cases "qd_id d = '''' \<or> \<not> deployment_ok d")
  case True
  then have "fst (dist_register r (Some d) w) = w" by (auto simp: dist_register_def marshal_deployment_def)
  then show ?thesis using up agree by simp
next
  case False
  obtain w' where w': "dist_register r (Some d) w = (w', None)" "up w'"
    "stored w' = (stored w)(deployment_key (qd_id d) \<mapsto> DocDeployment (json_deployment d),
      status_key (qd_id d) \<mapsto> DocText (status_string (qd_status d)))"
    by (rule register_stores [OF up, of d]) (use False in auto)
  have "agree_at (stored w') i" for i
  proof (cases "i = qd_id d")
    case True
    then show ?thesis using w'(3) ok by (intro agree_at_record [of _ _ d]) simp_all
  next
    case False
    then show ?thesis using agree [of i] w'(3) agree_at_frame [of "stored w'" i "stored w"] by simp
  qed
  then show ?thesis using w'(1,2) by simp
qed

lemma set_status_agrees:
  assumes up: "up w" and clock: "\<And>w. json_time_ok (rd_now r w)" and agree: "\<And>i. agree_at (stored w) i"
  shows "up (fst (dist_set_status r i st w)) \<and> (\<forall>j. agree_at (stored (fst (dist_set_status r i st w))) j)"
proof (cases "i = '''' \<or> stored w (deployment_key i) = None")
  case True
  then have "fst (dist_set_status r i st w) = w"
    using set_status_missing [OF up] by (auto simp: dist_set_status_def set_status_read_def)
  then show ?thesis using up agree by simp
next
  case False
  then obtain d where d: "stored w (deployment_key i) = Some (DocDeployment d)" "qd_id d = i" "rewritable d" "json_deployment d = d"
    using agree [of i] by (auto simp: agree_at_def)
  obtain w1 where w1: "set_status_write r i st w = (w1, None)" "up w1"
    "stored w1 = (stored w)(status_key i \<mapsto> DocText (status_string st))"
    by (rule write_stores [OF up])
  define d2 where "d2 = status_times (rd_now r w1) st (d\<lparr>qd_status := st\<rparr>)"
  define w2 where "w2 = set_status_record r i st (DocDeployment d) w1"
  have un: "unmarshal_deployment (DocDeployment d) = Inr d" using d(3) by (simp add: unmarshal_deployment_def rewritable_def)
  have "deployment_ok d" using d(3,4) by (simp add: rewritable_def)
  then have w2: "up w2" "stored w2 = (stored w1)(deployment_key i \<mapsto> DocDeployment (json_deployment d2))"
    using record_stores [OF w1(2) un clock] by (simp_all add: d2_def w2_def)
  have step: "fst (dist_set_status r i st w) = w2"
    using False up d(1) w1(1) by (simp add: dist_set_status_def set_status_read_def get_value w2_def)
  have "qd_id d2 = i" "qd_status d2 = st" using d(2) unfolding d2_def by (cases st; simp)+
  moreover have "rewritable d2" unfolding d2_def by (rule rewritable_later [OF d(3) clock])
  ultimately have "agree_at (stored w2) i"
    using w2(2) w1(3) by (intro agree_at_record [of _ _ d2]) simp_all
  moreover have "agree_at (stored w2) j" if "j \<noteq> i" for j
    using agree [of j] that w2(2) w1(3) agree_at_frame [of "stored w2" j "stored w"] by simp
  ultimately show ?thesis using step w2(1) by metis
qed

lemma set_result_agrees:
  assumes up: "up w" and agree: "\<And>i. agree_at (stored w) i"
  shows "up (fst (dist_set_result r i (Some res) w)) \<and> (\<forall>j. agree_at (stored (fst (dist_set_result r i (Some res) w))) j)"
proof (cases "i = '''' \<or> \<not> result_ok res")
  case True
  then have "fst (dist_set_result r i (Some res) w) = w" by (auto simp: dist_set_result_def marshal_result_def)
  then show ?thesis using up agree by simp
next
  case False
  obtain w' where w': "dist_set_result r i (Some res) w = (w', None)" "up w'"
    "stored w' = (stored w)(result_key i \<mapsto> DocResult (json_result res))"
    by (rule result_is_stored [OF up, of i res]) (use False in auto)
  have "agree_at (stored w') j" for j
    using agree [of j] w'(3) agree_at_frame [of "stored w'" j "stored w"] by simp
  then show ?thesis using w'(1,2) by simp
qed

lemma removed:
  assumes "up w" and "i \<noteq> ''''"
  shows "up (fst (dist_remove r i w))"
    and "stored (fst (dist_remove r i w)) = (stored w)(deployment_key i := None, status_key i := None, result_key i := None)"
proof -
  define w1 where "w1 = rd_del r (deployment_key i) w"
  define w2 where "w2 = rd_del r (status_key i) w1"
  have "up w1" "stored w1 = (stored w)(deployment_key i := None)" using del_value [OF assms(1)] by (simp_all add: w1_def)
  then have "up w2" "stored w2 = (stored w)(deployment_key i := None, status_key i := None)"
    using del_value [of w1] by (simp_all add: w2_def)
  then show "up (fst (dist_remove r i w))"
    "stored (fst (dist_remove r i w)) = (stored w)(deployment_key i := None, status_key i := None, result_key i := None)"
    using del_value [of w2] assms(2) by (simp_all add: dist_remove_def w1_def w2_def)
qed

lemma remove_agrees:
  assumes up: "up w" and agree: "\<And>i. agree_at (stored w) i"
  shows "up (fst (dist_remove r i w)) \<and> (\<forall>j. agree_at (stored (fst (dist_remove r i w))) j)"
proof (cases "i = ''''")
  case True
  then show ?thesis using up agree by (simp add: dist_remove_def)
next
  case False
  have "agree_at (stored (fst (dist_remove r i w))) j" for j
  proof (cases "j = i")
    case True
    then show ?thesis using removed(2) [OF up False] by (simp add: agree_at_def)
  next
    case False': False
    then show ?thesis
      using agree [of j] removed(2) [OF up False] agree_at_frame [of "stored (fst (dist_remove r i w))" j "stored w"] by simp
  qed
  then show ?thesis using removed(1) [OF up False] by simp
qed

lemma step_agrees:
  assumes "up w" and "\<And>w. json_time_ok (rd_now r w)" and "op_ok x" and "\<And>i. agree_at (stored w) i"
  shows "up (dist_step r x w) \<and> (\<forall>i. agree_at (stored (dist_step r x w)) i)"
  using assms register_agrees set_status_agrees set_result_agrees remove_agrees by (cases x) simp_all

lemma steps_agree:
  assumes "up w" and "\<And>w. json_time_ok (rd_now r w)" and "list_all op_ok xs" and "\<And>i. agree_at (stored w) i"
  shows "up (fold (dist_step r) xs w) \<and> (\<forall>i. agree_at (stored (fold (dist_step r) xs w)) i)"
  using assms(1,3,4)
proof (induction xs arbitrary: w)
  case Nil
  then show ?case by simp
next
  case (Cons x xs)
  have "up (dist_step r x w) \<and> (\<forall>i. agree_at (stored (dist_step r x w)) i)"
    by (rule step_agrees) (use Cons.prems assms(2) in simp_all)
  then show ?case using Cons.IH [of "dist_step r x w"] Cons.prems by simp
qed

end


section \<open>Redis in memory\<close>

text \<open>A client that never fails, whose clock stands still; the first component lists the keys that were ever written.\<close>

definition record_key :: "string \<Rightarrow> bool" where
  "record_key k \<longleftrightarrow> k = deployment_key (take (length k - 16) (drop 11 k))"

lemma record_key: "record_key k \<longleftrightarrow> (\<exists>i. k = deployment_key i)"
proof
  assume "\<exists>i. k = deployment_key i"
  then show "record_key k" by (auto simp: record_key_def deployment_key_def)
qed (auto simp: record_key_def)

definition memory_redis :: "(string list \<times> (string \<Rightarrow> document option)) redis" where
  "memory_redis =
     \<lparr>rd_now = \<lambda>_. 63745021234 * second,
      rd_get = \<lambda>k w. (case snd w k of None \<Rightarrow> RedisNil | Some doc \<Rightarrow> RedisValue doc),
      rd_set = \<lambda>k doc ttl w. ((k # fst w, (snd w)(k \<mapsto> doc)), None),
      rd_del = \<lambda>k w. (fst w, (snd w)(k := None)),
      rd_scan = \<lambda>pat w. [Inr (filter (\<lambda>k. snd w k \<noteq> None \<and> record_key k) (fst w))],
      rd_close = \<lambda>w. (w, None), rd_text = \<lambda>doc. (case doc of DocText s \<Rightarrow> s | _ \<Rightarrow> ''{}'')\<rparr>"

definition keys_listed :: "string list \<times> (string \<Rightarrow> document option) \<Rightarrow> bool" where
  "keys_listed w \<longleftrightarrow> (\<forall>k. snd w k \<noteq> None \<longrightarrow> k \<in> set (fst w))"

interpretation memory_redis: redis_values memory_redis snd keys_listed
proof
  fix w :: "string list \<times> (string \<Rightarrow> document option)"
  assume "keys_listed w"
  then have "set (concat [filter (\<lambda>k. snd w k \<noteq> None \<and> record_key k) (fst w)]) =
      {k. snd w k \<noteq> None \<and> (\<exists>i. k = deployment_key i)}"
    by (auto simp: keys_listed_def record_key)
  then show "\<exists>pages. rd_scan memory_redis ''deployment:*:data'' w = map Inr pages \<and>
      set (concat pages) = {k. snd w k \<noteq> None \<and> (\<exists>i. k = deployment_key i)}"
    by (intro exI [of _ "[filter (\<lambda>k. snd w k \<noteq> None \<and> record_key k) (fst w)]"]) (simp add: memory_redis_def)
qed (auto simp: memory_redis_def keys_listed_def split: if_splits)

definition empty_redis :: "string list \<times> (string \<Rightarrow> document option)" where
  "empty_redis = ([], \<lambda>_. None)"

lemma empty_redis_up: "keys_listed empty_redis" "agree_at (snd empty_redis) i"
  by (simp_all add: keys_listed_def empty_redis_def agree_at_def)

lemma memory_clock: "json_time_ok (rd_now memory_redis w)"
  by (simp add: memory_redis_def json_time_ok_def max_time_def second_def millisecond_def)

section \<open>A client that may fail\<close>

text \<open>The record with a new status, if the old one can be read and the new one written.\<close>

definition record_with :: "time \<Rightarrow> deployment_status \<Rightarrow> document \<Rightarrow> document option" where
  "record_with now st doc =
     (case unmarshal_deployment doc of
        Inl _ \<Rightarrow> None
      | Inr d \<Rightarrow>
          (case marshal_deployment (status_times now st (d\<lparr>qd_status := st\<rparr>)) of
             Inl _ \<Rightarrow> None
           | Inr doc' \<Rightarrow> Some doc'))"

text \<open>
  What Redis promises without being up: a read that is answered tells what is stored, a write that returns no error is
  done, and after an error it may be done or not. Keys may have expired before an operation, but do not within one.
\<close>

locale redis_replies =
  fixes r :: "'w redis" and stored :: "'w \<Rightarrow> string \<Rightarrow> document option"
  assumes read_value: "rd_get r k w = RedisValue doc \<Longrightarrow> stored w k = Some doc"
    and read_nil: "rd_get r k w = RedisNil \<Longrightarrow> stored w k = None"
    and set_done: "rd_set r k doc ttl w = (w', None) \<Longrightarrow> stored w' = (stored w)(k \<mapsto> doc)"
    and set_failed: "rd_set r k doc ttl w = (w', Some e) \<Longrightarrow> stored w' = stored w \<or> stored w' = (stored w)(k \<mapsto> doc)"
begin

lemma status_read:
  "set_status_read r i w = Inr doc \<Longrightarrow> i \<noteq> '''' \<and> stored w (deployment_key i) = Some doc"
  by (auto simp: set_status_read_def dest: read_value split: if_splits reply.splits)

lemma status_write:
  assumes "set_status_write r i st w = (w', e)"
  shows "e = None \<Longrightarrow> stored w' = (stored w)(status_key i \<mapsto> DocText (status_string st))"
    and "stored w' = stored w \<or> stored w' = (stored w)(status_key i \<mapsto> DocText (status_string st))"
  using assms by (auto simp: set_status_write_def dest: set_done set_failed split: prod.splits option.splits)

lemma record_write:
  "case record_with (rd_now r w) st doc of
     None \<Rightarrow> stored (set_status_record r i st doc w) = stored w
   | Some doc' \<Rightarrow>
       if snd (rd_set r (deployment_key i) doc' week w) = None
       then stored (set_status_record r i st doc w) = (stored w)(deployment_key i \<mapsto> doc')
       else stored (set_status_record r i st doc w) \<in> {stored w, (stored w)(deployment_key i \<mapsto> doc')}"
proof (cases "record_with (rd_now r w) st doc")
  case None
  then show ?thesis by (auto simp: record_with_def set_status_record_def split: sum.splits)
next
  case (Some doc')
  obtain w1 e where s: "rd_set r (deployment_key i) doc' week w = (w1, e)" by fastforce
  moreover have "set_status_record r i st doc w = w1"
    using Some s by (auto simp: record_with_def set_status_record_def split: sum.splits)
  ultimately show ?thesis using Some set_done set_failed by (cases e) auto
qed

end

section \<open>Properties of the tracker\<close>

text \<open>
  As long as Redis answers every request and no key expires: after any sequence of whole operations of the tracker, from
  an empty store, what \<^verbatim>\<open>GetByID\<close> returns for an identifier has that identifier, and \<^verbatim>\<open>GetStatus\<close> returns its status.
\<close>

theorem record_and_status_agree:
  assumes "redis_values r stored up" and "\<forall>w. json_time_ok (rd_now r w)" and "up w" and "stored w = (\<lambda>_. None)"
    and "list_all op_ok xs" and "dist_get r i (fold (dist_step r) xs w) = Inr d"
  shows "qd_id d = i \<and> dist_get_status r i (fold (dist_step r) xs w) = Inr (qd_status d)"
proof -
  let ?w = "fold (dist_step r) xs w"
  have inv: "up ?w \<and> (\<forall>i. agree_at (stored ?w) i)"
    by (rule redis_values.steps_agree [OF assms(1,3)]) (use assms(2,4,5) in \<open>simp_all add: agree_at_def\<close>)
  have i: "i \<noteq> ''''" using assms(6) by (auto simp: dist_get_def)
  then obtain doc where "stored ?w (deployment_key i) = Some doc" and get: "unmarshaled doc = Inr d"
    using assms(6) redis_values.get_stored [OF assms(1), of ?w i] inv by (auto split: option.splits)
  then obtain d' where d': "doc = DocDeployment d'" "qd_id d' = i" "json_deployment d' = d'" "rewritable d'"
    "stored ?w (status_key i) = Some (DocText (status_string (qd_status d')))"
    using conjunct2 [OF inv, THEN spec, of i] by (auto simp: agree_at_def)
  then have "d = d'" using get by (simp add: unmarshaled_def unmarshal_deployment_def rewritable_def)
  moreover have "status_of_string (status_string (qd_status d')) = qd_status d'"
    using arg_cong [OF d'(3), of qd_status] by (simp add: json_deployment_def)
  ultimately show ?thesis
    using d'(2,5) redis_values.status_stored [OF assms(1), of ?w i] inv i by simp
qed


definition redis_deployment :: queued_deployment where
  "redis_deployment = waiting_deployment\<lparr>qd_request := None\<rparr>"

lemma redis_deployment_ok: "rewritable redis_deployment" "deployment_ok redis_deployment" "qd_id redis_deployment = ''dep-1''"
  "json_deployment redis_deployment = redis_deployment" "qd_status redis_deployment = StatusQueued"
  by (simp_all add: redis_deployment_def waiting_deployment_def rewritable_def deployment_ok_def json_deployment_def
      json_time_ok_def max_time_def second_def millisecond_def status_of_string_def)

theorem record_and_status_agree_witness:
  "\<exists>d. dist_get memory_redis ''dep-1'' (fold (dist_step memory_redis)
       [DoRegister redis_deployment, DoSetStatus ''dep-1'' StatusProcessing] empty_redis) = Inr d \<and>
     qd_status d = StatusProcessing \<and>
     dist_get_status memory_redis ''dep-1'' (fold (dist_step memory_redis)
       [DoRegister redis_deployment, DoSetStatus ''dep-1'' StatusProcessing] empty_redis) = Inr (qd_status d)"
proof -
  let ?w = "fold (dist_step memory_redis) [DoRegister redis_deployment, DoSetStatus ''dep-1'' StatusProcessing] empty_redis"
  obtain w1 where w1: "dist_register memory_redis (Some redis_deployment) empty_redis = (w1, None)" "keys_listed w1"
    "snd w1 = (snd empty_redis)(deployment_key ''dep-1'' \<mapsto> DocDeployment redis_deployment,
      status_key ''dep-1'' \<mapsto> DocText ''queued'')"
    by (rule memory_redis.register_stores [OF empty_redis_up(1), of redis_deployment])
       (use redis_deployment_ok in \<open>simp_all add: redis_deployment_ok\<close>)
  obtain w2 where w2: "set_status_write memory_redis ''dep-1'' StatusProcessing w1 = (w2, None)" "keys_listed w2"
    "snd w2 = (snd w1)(status_key ''dep-1'' \<mapsto> DocText (status_string StatusProcessing))"
    by (rule memory_redis.write_stores [OF w1(2)])
  define d where "d = json_deployment (status_times (rd_now memory_redis w2) StatusProcessing (redis_deployment\<lparr>qd_status := StatusProcessing\<rparr>))"
  have un: "unmarshal_deployment (DocDeployment redis_deployment) = Inr redis_deployment"
    using redis_deployment_ok(1) by (simp add: unmarshal_deployment_def rewritable_def)
  note rec = memory_redis.record_stores [OF w2(2) un memory_clock redis_deployment_ok(2), where i = "''dep-1''" and st = StatusProcessing]
  have "fst (dist_set_status memory_redis ''dep-1'' StatusProcessing w1) =
      set_status_record memory_redis ''dep-1'' StatusProcessing (DocDeployment redis_deployment) w2"
    using w1(2,3) w2(1) by (simp add: dist_set_status_def set_status_read_def memory_redis.get_value)
  then have w: "?w = set_status_record memory_redis ''dep-1'' StatusProcessing (DocDeployment redis_deployment) w2"
    using w1(1) by simp
  have d': "qd_last_error d = None" "qd_status d = StatusProcessing"
    by (simp_all add: d_def json_deployment_def redis_deployment_def waiting_deployment_def status_of_string_def)
  let ?v = "set_status_record memory_redis ''dep-1'' StatusProcessing (DocDeployment redis_deployment) w2"
  have "snd ?v (deployment_key ''dep-1'') = Some (DocDeployment d)" using rec(2) by (auto simp: d_def)
  then have "dist_get memory_redis ''dep-1'' ?v = Inr d"
    using memory_redis.get_stored [OF rec(1), of "''dep-1''"] d'(1)
    by (simp add: unmarshaled_def unmarshal_deployment_def)
  then have get: "dist_get memory_redis ''dep-1'' ?w = Inr d" by (simp only: w)
  have "qd_id d = ''dep-1'' \<and> dist_get_status memory_redis ''dep-1'' ?w = Inr (qd_status d)"
    by (rule record_and_status_agree [OF memory_redis.redis_values_axioms _ empty_redis_up(1) _ _ get])
       (use memory_clock redis_deployment_ok(1) in \<open>simp_all add: empty_redis_def\<close>)
  then show ?thesis using get d'(2) by blast
qed

text \<open>
  C16: what a status change leaves in Redis, whichever of its requests fail. If it returns no error, the deployment had a
  record and the status is stored under its own key; the record has it, too, if it can be written again and its write
  succeeds, but if that write fails the change is reported as done all the same, and the record may be left with
  the status of before. If it returns an error the record is as before, and the status may have been stored or not.
\<close>

theorem status_change_outcome:
  assumes "redis_replies r stored" and "dist_set_status r i st w = (w', e)"
    and "changed = (stored w)(status_key i \<mapsto> DocText (status_string st))"
  shows "case e of
    Some err \<Rightarrow> stored w' = stored w \<or> stored w' = changed
  | None \<Rightarrow>
      (\<exists>doc w1. stored w (deployment_key i) = Some doc \<and> set_status_write r i st w = (w1, None) \<and> stored w1 = changed \<and>
         (case record_with (rd_now r w1) st doc of
            None \<Rightarrow> stored w' = changed
          | Some doc' \<Rightarrow>
              if snd (rd_set r (deployment_key i) doc' week w1) = None then stored w' = changed(deployment_key i \<mapsto> doc')
              else stored w' \<in> {changed, changed(deployment_key i \<mapsto> doc')}))"
proof (cases "set_status_read r i w")
  case (Inl x)
  then show ?thesis using assms(2) by (auto simp: dist_set_status_def)
next
  case (Inr doc)
  obtain w1 e1 where wr: "set_status_write r i st w = (w1, e1)" by fastforce
  show ?thesis
  proof (cases e1)
    case None
    then have e: "e = None" and w': "w' = set_status_record r i st doc w1"
      using assms(2) Inr wr by (simp_all add: dist_set_status_def)
    have w1: "stored w1 = changed" using redis_replies.status_write(1) [OF assms(1) wr None] assms(3) by simp
    note rec = redis_replies.record_write [OF assms(1), where w = w1 and st = st and doc = doc and i = i, unfolded w1, folded w']
    have "stored w (deployment_key i) = Some doc" using redis_replies.status_read [OF assms(1) Inr] by simp
    then show ?thesis
      unfolding e option.case
      by (intro exI [of _ doc] exI [of _ w1] conjI) (assumption, rule wr [unfolded None], rule w1, rule rec)
  next
    case (Some x)
    then have "e = Some x" "w' = w1" using assms(2) Inr wr by (simp_all add: dist_set_status_def)
    then show ?thesis using redis_replies.status_write(2) [OF assms(1) wr] assms(3) by simp
  qed
qed

text \<open>A client that refuses to write records, once one is there.\<close>

definition full_redis :: "(string list \<times> (string \<Rightarrow> document option)) redis" where
  "full_redis =
     memory_redis\<lparr>rd_set := \<lambda>k doc ttl w. (if k = deployment_key ''dep-1'' then (w, Some (ErrorString ''OOM command not allowed''))
       else ((k # fst w, (snd w)(k \<mapsto> doc)), None))\<rparr>"

interpretation memory_replies: redis_replies memory_redis snd
  by unfold_locales (auto simp: memory_redis_def split: option.splits)

interpretation full_redis: redis_replies full_redis snd
  by unfold_locales (auto simp: full_redis_def memory_redis_def split: option.splits if_splits)

definition redis_registered :: "string list \<times> (string \<Rightarrow> document option)" where
  "redis_registered = fst (dist_register memory_redis (Some redis_deployment) empty_redis)"

lemma redis_registered_facts:
  "keys_listed redis_registered" "snd redis_registered (deployment_key ''dep-1'') = Some (DocDeployment redis_deployment)"
proof -
  obtain w1 where "dist_register memory_redis (Some redis_deployment) empty_redis = (w1, None)" "keys_listed w1"
    "snd w1 = (snd empty_redis)(deployment_key ''dep-1'' \<mapsto> DocDeployment redis_deployment,
      status_key ''dep-1'' \<mapsto> DocText ''queued'')"
    by (rule memory_redis.register_stores [OF empty_redis_up(1), of redis_deployment])
       (use redis_deployment_ok in \<open>simp_all add: redis_deployment_ok\<close>)
  then show "keys_listed redis_registered" "snd redis_registered (deployment_key ''dep-1'') = Some (DocDeployment redis_deployment)"
    by (simp_all add: redis_registered_def)
qed

text \<open>The change is reported as done; the status is the new one, the record has the old one.\<close>

theorem status_change_outcome_witness:
  "\<exists>w'. dist_set_status full_redis ''dep-1'' StatusProcessing redis_registered = (w', None) \<and>
     snd w' (status_key ''dep-1'') = Some (DocText ''processing'') \<and>
     snd w' (deployment_key ''dep-1'') = Some (DocDeployment redis_deployment) \<and> qd_status redis_deployment = StatusQueued"
proof -
  let ?S = "(snd redis_registered)(status_key ''dep-1'' \<mapsto> DocText (status_string StatusProcessing))"
  obtain w' e where s: "dist_set_status full_redis ''dep-1'' StatusProcessing redis_registered = (w', e)" by fastforce
  have get: "rd_get full_redis (deployment_key ''dep-1'') redis_registered = RedisValue (DocDeployment redis_deployment)"
    using redis_registered_facts(2) by (simp add: full_redis_def memory_redis_def)
  have ok: "e = None" "snd w' (deployment_key ''dep-1'') = Some (DocDeployment redis_deployment)"
    using s get redis_registered_facts(2)
    by (auto simp: dist_set_status_def set_status_read_def set_status_write_def set_status_record_def full_redis_def
        split: sum.splits)
  have "snd w' (status_key ''dep-1'') = Some (DocText (status_string StatusProcessing))"
    using status_change_outcome [OF full_redis.redis_replies_axioms s refl] ok(1)
    by (auto split: option.splits if_splits)
  then show ?thesis using s ok redis_deployment_ok(5) by simp
qed

text \<open>
  C17: two status changes of one deployment at the same time can leave its record with one status and its status key with
  the other: the change of the second comes between the two writes of the first.
\<close>

theorem concurrent_statuses_diverge:
  assumes "redis_values r stored up" and "\<forall>w. json_time_ok (rd_now r w)" and "up w" and "i \<noteq> ''''"
    and "stored w (deployment_key i) = Some (DocDeployment d)" and "rewritable d" and "json_deployment d = d"
    and "set_status_read r i w = Inr doc" and "set_status_write r i st1 w = (w1, None)"
    and "dist_set_status r i st2 w1 = (w2, e)" and "w3 = set_status_record r i st1 doc w2"
  shows "dist_get_status r i w3 = Inr (status_of_string (status_string st2)) \<and>
    (\<exists>d'. dist_get r i w3 = Inr d' \<and> qd_status d' = status_of_string (status_string st1))"
proof -
  note laws = assms(1)
  have doc: "doc = DocDeployment d"
    using assms(3-5,8) redis_values.get_value [OF laws] by (simp add: set_status_read_def)
  have un: "unmarshal_deployment (DocDeployment d) = Inr d" and ok: "deployment_ok d"
    using assms(6,7) by (simp_all add: unmarshal_deployment_def rewritable_def)
  have w1: "up w1" "stored w1 = (stored w)(status_key i \<mapsto> DocText (status_string st1))"
    using redis_values.write_stores [OF laws assms(3), of i st1] assms(9) by (metis prod.inject)+
  obtain w11 where w11: "set_status_write r i st2 w1 = (w11, None)" "up w11"
    "stored w11 = (stored w1)(status_key i \<mapsto> DocText (status_string st2))"
    by (rule redis_values.write_stores [OF laws w1(1)])
  have clock: "json_time_ok (rd_now r v)" for v using assms(2) by simp
  note rec2 = redis_values.record_stores [OF laws w11(2) un clock ok, where i = i and st = st2]
  have w2: "w2 = set_status_record r i st2 (DocDeployment d) w11"
    using assms(4,5,10) w1 w11(1) redis_values.get_value [OF laws w1(1), of "deployment_key i"]
    by (simp add: dist_set_status_def set_status_read_def)
  have st2: "stored w2 (status_key i) = Some (DocText (status_string st2))" using rec2(2) w11(3) by (auto simp: w2)
  note rec3 = redis_values.record_stores [OF laws rec2(1) [folded w2] un clock ok, where i = i and st = st1]
  define d1 where "d1 = json_deployment (status_times (rd_now r w2) st1 (d\<lparr>qd_status := st1\<rparr>))"
  have w3: "up w3" "stored w3 = (stored w2)(deployment_key i \<mapsto> DocDeployment d1)"
    using rec3 by (simp_all add: assms(11) doc d1_def)
  have d1: "qd_last_error d1 = None" "qd_status d1 = status_of_string (status_string st1)"
    using assms(6) unfolding d1_def by (cases st1; simp add: json_deployment_def rewritable_def)+
  have "dist_get r i w3 = Inr d1"
    using redis_values.get_stored [OF laws w3(1) assms(4)] w3(2) d1(1) by (simp add: unmarshaled_def unmarshal_deployment_def)
  moreover have "dist_get_status r i w3 = Inr (status_of_string (status_string st2))"
    by (rule redis_values.status_stored [OF laws w3(1) assms(4)]) (use w3(2) st2 in simp)
  ultimately show ?thesis using d1(2) by blast
qed


theorem concurrent_statuses_diverge_witness:
  "\<exists>w1 w2 w3. set_status_write memory_redis ''dep-1'' StatusProcessing redis_registered = (w1, None) \<and>
     dist_set_status memory_redis ''dep-1'' StatusCanceling w1 = (w2, None) \<and>
     w3 = set_status_record memory_redis ''dep-1'' StatusProcessing (DocDeployment redis_deployment) w2 \<and>
     dist_get_status memory_redis ''dep-1'' w3 = Inr StatusCanceling \<and>
     (\<exists>d. dist_get memory_redis ''dep-1'' w3 = Inr d \<and> qd_status d = StatusProcessing)"
proof -
  have read: "set_status_read memory_redis ''dep-1'' redis_registered = Inr (DocDeployment redis_deployment)"
    by (simp add: set_status_read_def memory_redis.get_value [OF redis_registered_facts])
  obtain w1 where w1: "set_status_write memory_redis ''dep-1'' StatusProcessing redis_registered = (w1, None)" "keys_listed w1"
    "snd w1 = (snd redis_registered)(status_key ''dep-1'' \<mapsto> DocText (status_string StatusProcessing))"
    by (rule memory_redis.write_stores [OF redis_registered_facts(1)])
  then have "rd_get memory_redis (deployment_key ''dep-1'') w1 = RedisValue (DocDeployment redis_deployment)"
    using redis_registered_facts(2) by (intro memory_redis.get_value) simp_all
  moreover obtain w11 where "set_status_write memory_redis ''dep-1'' StatusCanceling w1 = (w11, None)"
    using memory_redis.write_stores [OF w1(2), of "''dep-1''" StatusCanceling] by metis
  ultimately have "snd (dist_set_status memory_redis ''dep-1'' StatusCanceling w1) = None"
    by (simp add: dist_set_status_def set_status_read_def)
  then obtain w2 where w2: "dist_set_status memory_redis ''dep-1'' StatusCanceling w1 = (w2, None)" by (metis prod.collapse)
  let ?w3 = "set_status_record memory_redis ''dep-1'' StatusProcessing (DocDeployment redis_deployment) w2"
  have "dist_get_status memory_redis ''dep-1'' ?w3 = Inr (status_of_string (status_string StatusCanceling)) \<and>
      (\<exists>d. dist_get memory_redis ''dep-1'' ?w3 = Inr d \<and> qd_status d = status_of_string (status_string StatusProcessing))"
    by (rule concurrent_statuses_diverge [OF memory_redis.redis_values_axioms _ redis_registered_facts(1) _
          redis_registered_facts(2) redis_deployment_ok(1,4) read w1(1) w2 refl]) (simp_all add: memory_clock)
  then have "dist_get_status memory_redis ''dep-1'' ?w3 = Inr StatusCanceling \<and>
      (\<exists>d. dist_get memory_redis ''dep-1'' ?w3 = Inr d \<and> qd_status d = StatusProcessing)"
    by (simp add: status_of_string_def)
  then show ?thesis using w1(1) w2 by blast
qed

section \<open>Listing\<close>

lemma set_listed:
  "set (listed r f w ks) = {d. \<exists>k \<in> set ks. \<exists>doc. rd_get r k w = RedisValue doc \<and> unmarshal_deployment doc = Inr d \<and> matches_filter d f}"
  by (induction r f w ks rule: listed.induct) (auto split: reply.splits sum.splits if_splits)

lemma scan_pages_done: "scan_pages r f w (map Inr pages) = Inr (concat (map (listed r f w) pages))"
  by (induction pages) simp_all

text \<open>The list has every record that can be read and matches, and nothing else.\<close>

lemma list_exact:
  assumes "redis_values r stored up" and "up w"
  shows "\<exists>ds. dist_list r f w = Inr ds \<and>
    set ds = {d. \<exists>i doc. stored w (deployment_key i) = Some doc \<and> unmarshal_deployment doc = Inr d \<and> matches_filter d f}"
proof -
  obtain pages where pages: "rd_scan r ''deployment:*:data'' w = map Inr pages"
    "set (concat pages) = {k. stored w k \<noteq> None \<and> (\<exists>i. k = deployment_key i)}"
    using redis_values.scan_keys [OF assms] by blast
  have found: "rd_get r k w = RedisValue doc \<longleftrightarrow> stored w k = Some doc" for k doc
    using redis_values.get_value [OF assms] redis_values.get_nil [OF assms] by (cases "stored w k") auto
  have "set (concat (map (listed r f w) pages)) = {d. \<exists>k \<in> set (concat pages). \<exists>doc. stored w k = Some doc \<and>
      unmarshal_deployment doc = Inr d \<and> matches_filter d f}"
    by (auto simp: set_listed found)
  also have "\<dots> = {d. \<exists>i doc. stored w (deployment_key i) = Some doc \<and> unmarshal_deployment doc = Inr d \<and> matches_filter d f}"
    unfolding pages(2) by auto
  finally show ?thesis by (simp add: dist_list_def pages(1) scan_pages_done)
qed

section \<open>Results, tasks and plans\<close>

text \<open>An unsuccessful result is accepted and cannot be read again.\<close>

lemma failed_result_unreadable:
  assumes "redis_values r stored up" and "up w" and "i \<noteq> ''''" and "result_ok res" and "dr_error res = Some e"
  shows "\<exists>w'. dist_set_result r i (Some res) w = (w', None) \<and>
    dist_get_result r i w' = Inl (WrapError ''failed to unmarshal result: '' json_error '''')"
proof -
  obtain w' where w': "dist_set_result r i (Some res) w = (w', None)" "up w'"
    "stored w' = (stored w)(result_key i \<mapsto> DocResult (json_result res))"
    by (rule redis_values.result_is_stored [OF assms(1-4)])
  then show ?thesis
    using redis_values.result_stored [OF assms(1) w'(2) assms(3)] assms(5)
    by (simp add: unmarshal_result_def json_result_def)
qed

text \<open>
  C18: after a task that the executor finished without an error, the deployment is completed and has a successful result
  without resources, whatever status and result the executor and its events have stored before.
\<close>

theorem task_replaces_outcome:
  assumes "redis_values r stored up" and "\<forall>w. json_time_ok (rd_now r w)" and "unmarshal_deployment payload = Inr d"
    and "qd_id d \<noteq> ''''" and "exec d (fst (dist_set_status r (qd_id d) StatusProcessing w)) = (w2, None)" and "up w2"
    and "stored w2 (deployment_key (qd_id d)) = Some (DocDeployment d2)" and "rewritable d2" and "json_deployment d2 = d2"
  shows "\<exists>w'. handle_deployment_task r exec payload w = (w', None) \<and>
    dist_get_status r (qd_id d) w' = Inr StatusCompleted \<and> dist_get_result r (qd_id d) w' = Inr (Some (task_result (qd_id d)))"
proof -
  note laws = assms(1)
  have un: "unmarshal_deployment (DocDeployment d2) = Inr d2" and ok: "deployment_ok d2"
    using assms(8,9) by (simp_all add: unmarshal_deployment_def rewritable_def)
  obtain w21 where w21: "set_status_write r (qd_id d) StatusCompleted w2 = (w21, None)" "up w21"
    "stored w21 = (stored w2)(status_key (qd_id d) \<mapsto> DocText (status_string StatusCompleted))"
    by (rule redis_values.write_stores [OF laws assms(6)])
  have clock: "json_time_ok (rd_now r v)" for v using assms(2) by simp
  define w3 where "w3 = set_status_record r (qd_id d) StatusCompleted (DocDeployment d2) w21"
  note rec = redis_values.record_stores [OF laws w21(2) un clock ok, where i = "qd_id d" and st = StatusCompleted, folded w3_def]
  have set: "dist_set_status r (qd_id d) StatusCompleted w2 = (w3, None)"
    using assms(4,7) w21(1) redis_values.get_value [OF laws assms(6)]
    by (simp add: dist_set_status_def set_status_read_def w3_def)
  have res: "result_ok (task_result (qd_id d))" "json_result (task_result (qd_id d)) = task_result (qd_id d)"
    by (simp_all add: result_ok_def task_result_def json_time_ok_def time_zero_def max_time_def map_ok_def json_result_def
        reload_map_def second_def millisecond_def)
  obtain w4 where w4: "dist_set_result r (qd_id d) (Some (task_result (qd_id d))) w3 = (w4, None)" "up w4"
    "stored w4 = (stored w3)(result_key (qd_id d) \<mapsto> DocResult (task_result (qd_id d)))"
    using redis_values.result_is_stored [OF laws rec(1) assms(4) res(1)] unfolding res(2) by metis
  have "handle_deployment_task r exec payload w = (w4, None)"
    using assms(3,5) set w4(1) by (simp add: handle_deployment_task_def Let_def)
  moreover have "stored w4 (status_key (qd_id d)) = Some (DocText ''completed'')"
    using w4(3) rec(2) w21(3) by auto
  then have "dist_get_status r (qd_id d) w4 = Inr StatusCompleted"
    using redis_values.status_stored [OF laws w4(2) assms(4)] by (simp add: status_of_string_def)
  moreover have "dist_get_result r (qd_id d) w4 = Inr (Some (task_result (qd_id d)))"
    using redis_values.result_stored [OF laws w4(2) assms(4)] w4(3) by (simp add: unmarshal_result_def task_result_def)
  ultimately show ?thesis by blast
qed

text \<open>
  C19: the plan of an update does not survive the distributed queue: the job that holds the plan itself is read back with
  the plan as a map, whose creation time is a string. A decoder that does not take strings for times, as the one of the
  code, then fails, while the plan of the job that was queued is found.
\<close>

theorem queued_plans_are_lost:
  assumes "\<forall>m s. map_of m ''created_at'' = Some (GStr s) \<longrightarrow> (\<exists>e. decode (GMap m) = Inl e)"
    and "qd_request d = Some rq" and "req_metadata rq = Some md" and "map_of md ''update_plan'' = Some (MetaPlan p)"
    and "marshal_deployment d = Inr doc" and "unmarshal_deployment doc = Inr d'"
  shows "extract_update_plan decode (Some d) = Inr p \<and> (\<exists>e. extract_update_plan decode (Some d') = Inl e)"
proof -
  have "d' = json_deployment d" using unmarshal_marshal [OF assms(5)] assms(6) by (simp split: if_splits)
  then have rq': "qd_request d' = Some (json_request rq)" using assms(2) by (simp add: json_deployment_def)
  obtain x xs where md: "md = x # xs" using assms(4) by (cases md) auto
  have reloaded: "map_of (map (map_prod id meta_reload) m) k = map_option meta_reload (map_of m k)" for m k
    by (induction m) auto
  have md': "req_metadata (json_request rq) = Some (map (map_prod id meta_reload) md)"
    using assms(3) by (simp add: json_request_def json_metadata_def md)
  have plan: "map_of (map (map_prod id meta_reload) md) ''update_plan'' = Some (MetaVal (GMap (reload_map (plan_json p))))"
    using reloaded [of md "''update_plan''"] assms(4) by simp
  have "map_of (reload_map (plan_json p)) ''created_at'' = Some (GStr (format_rfc3339_nano 0 (up_created_at p)))"
    by (simp add: plan_json_def list_member_def)
  then obtain e where "decode (GMap (reload_map (plan_json p))) = Inl e" using assms(1) by blast
  then have "\<exists>e. extract_update_plan decode (Some d') = Inl e"
    using rq' md' plan by (simp add: extract_update_plan_def deserialize_plan_def)
  moreover have "extract_update_plan decode (Some d) = Inr p"
    using assms(2-4) by (simp add: extract_update_plan_def deserialize_plan_def)
  ultimately show ?thesis by blast
qed


section \<open>Witnesses\<close>

context redis_values
begin

lemma status_is_stored:
  assumes "up w" and clock: "\<And>w. json_time_ok (rd_now r w)" and "i \<noteq> ''''"
    and "stored w (deployment_key i) = Some (DocDeployment d)" and "rewritable d" and "json_deployment d = d"
  obtains w' d' where "dist_set_status r i st w = (w', None)" and "up w'"
    and "stored w' (deployment_key i) = Some (DocDeployment d')" and "rewritable d'" and "json_deployment d' = d'"
proof -
  have un: "unmarshal_deployment (DocDeployment d) = Inr d" and ok: "deployment_ok d"
    using assms(5,6) by (simp_all add: unmarshal_deployment_def rewritable_def)
  obtain w1 where w1: "set_status_write r i st w = (w1, None)" "up w1"
    "stored w1 = (stored w)(status_key i \<mapsto> DocText (status_string st))"
    by (rule write_stores [OF assms(1)])
  define d2 where "d2 = status_times (rd_now r w1) st (d\<lparr>qd_status := st\<rparr>)"
  define w2 where "w2 = set_status_record r i st (DocDeployment d) w1"
  note rec = record_stores [OF w1(2) un clock ok, where i = i and st = st, folded w2_def]
  have "dist_set_status r i st w = (w2, None)"
    using assms(1,3,4) w1(1) by (simp add: dist_set_status_def set_status_read_def get_value w2_def)
  moreover have "rewritable d2" unfolding d2_def by (rule rewritable_later [OF assms(5) clock])
  then have "rewritable (json_deployment d2)" by (simp add: rewritable_def) (simp add: json_deployment_def)
  ultimately show thesis using that [of w2 "json_deployment d2"] rec by (simp add: d2_def)
qed

end

definition destroying_executor :: "queued_deployment \<Rightarrow> string list \<times> (string \<Rightarrow> document option) \<Rightarrow>
    (string list \<times> (string \<Rightarrow> document option)) \<times> goerror option" where
  "destroying_executor d w = (fst (dist_set_status memory_redis (qd_id d) StatusDestroyed w), None)"

theorem task_replaces_outcome_witness:
  "\<exists>w'. handle_deployment_task memory_redis destroying_executor (DocDeployment redis_deployment) redis_registered = (w', None) \<and>
     dist_get_status memory_redis ''dep-1'' w' = Inr StatusCompleted \<and>
     dist_get_result memory_redis ''dep-1'' w' = Inr (Some (task_result ''dep-1''))"
proof -
  have id: "''dep-1'' \<noteq> ''''" by simp
  obtain w1 d1 where w1: "dist_set_status memory_redis ''dep-1'' StatusProcessing redis_registered = (w1, None)" "keys_listed w1"
    "snd w1 (deployment_key ''dep-1'') = Some (DocDeployment d1)" "rewritable d1" "json_deployment d1 = d1"
    by (rule memory_redis.status_is_stored [OF redis_registered_facts(1) memory_clock id redis_registered_facts(2)
          redis_deployment_ok(1,4)])
  obtain w2 d2 where w2: "dist_set_status memory_redis ''dep-1'' StatusDestroyed w1 = (w2, None)" "keys_listed w2"
    "snd w2 (deployment_key ''dep-1'') = Some (DocDeployment d2)" "rewritable d2" "json_deployment d2 = d2"
    by (rule memory_redis.status_is_stored [OF w1(2) memory_clock id w1(3-5)])
  have "unmarshal_deployment (DocDeployment redis_deployment) = Inr redis_deployment"
    using redis_deployment_ok(1) by (simp add: unmarshal_deployment_def rewritable_def)
  from task_replaces_outcome [OF memory_redis.redis_values_axioms _ this, of destroying_executor redis_registered w2 d2]
  show ?thesis
    using w1(1) w2 memory_clock by (simp add: redis_deployment_ok destroying_executor_def)
qed

definition planned_deployment :: "update_plan \<Rightarrow> queued_deployment" where
  "planned_deployment p =
     redis_deployment\<lparr>qd_request := Some \<lparr>req_resources = [], req_data_sources = [],
       req_options = \<lparr>opt_dry_run = False, opt_timeout = 0, opt_max_retries = 0, opt_provider_config = None\<rparr>,
       req_metadata = Some [(''update_plan'', MetaPlan p)]\<rparr>\<rparr>"

definition queued_plan :: update_plan where
  "queued_plan =
     \<lparr>up_deployment_id = ''dep-1'', up_plan_id = ''plan-1'',
      up_changes = [\<lparr>rc_key = ''aws_s3_bucket.b'', rc_action = ActionCreate, rc_before = None,
        rc_after = Some [(''acl'', GStr ''private'')], rc_proposed_state = None, rc_replace_paths = []\<rparr>],
      up_execution_order = [],
      up_summary = \<lparr>sum_to_create = 1, sum_to_update = 0, sum_to_delete = 0, sum_to_replace = 0, sum_no_changes = 0\<rparr>,
      up_dangerous_changes = [], up_created_at = 63745021234 * second, up_requires_approval = False,
      up_provider_configs = None, up_provider_versions = []\<rparr>"

definition strict_decoder :: "gval \<Rightarrow> goerror + update_plan" where
  "strict_decoder v =
     (case v of GMap m \<Rightarrow>
        (case map_of m ''created_at'' of
           Some (GStr s) \<Rightarrow> Inl (ErrorString ''expected a map, got string'')
         | _ \<Rightarrow> Inr queued_plan)
      | _ \<Rightarrow> Inl (ErrorString ''expected a map''))"

theorem queued_plans_are_lost_witness:
  "\<exists>doc d'. marshal_deployment (planned_deployment queued_plan) = Inr doc \<and> unmarshal_deployment doc = Inr d' \<and>
     extract_update_plan strict_decoder (Some (planned_deployment queued_plan)) = Inr queued_plan \<and>
     (\<exists>e. extract_update_plan strict_decoder (Some d') = Inl e)"
proof -
  have ok: "deployment_ok (planned_deployment queued_plan)"
    using redis_deployment_ok(2)
    by (simp add: planned_deployment_def deployment_ok_def request_ok_def plan_json_def queued_plan_def list_member_def
        map_member_def change_json_def summary_json_def dangerous_json_def json_time_ok_def max_time_def second_def millisecond_def)
  have err: "qd_last_error (planned_deployment queued_plan) = None"
    by (simp add: planned_deployment_def redis_deployment_def waiting_deployment_def)
  obtain doc where doc: "marshal_deployment (planned_deployment queued_plan) = Inr doc"
    using ok by (simp add: marshal_deployment_def)
  then have un: "unmarshal_deployment doc = Inr (json_deployment (planned_deployment queued_plan))"
    using unmarshal_marshal [OF doc] err by simp
  have "extract_update_plan strict_decoder (Some (planned_deployment queued_plan)) = Inr queued_plan \<and>
      (\<exists>e. extract_update_plan strict_decoder (Some (json_deployment (planned_deployment queued_plan))) = Inl e)"
    by (rule queued_plans_are_lost [OF _ _ _ _ doc un, where md = "[(''update_plan'', MetaPlan queued_plan)]" and
          rq = "the (qd_request (planned_deployment queued_plan))"])
       (simp_all add: strict_decoder_def planned_deployment_def)
  then show ?thesis using doc un by blast
qed

section \<open>Dead letters\<close>

text \<open>
  What the package promises of a task: a deletion that returns no error removes it, and an enqueueing that returns none
  adds the task it was given; after an error the request may have been done, if only its reply was lost, or not.
\<close>

definition without_task :: "string \<Rightarrow> string \<Rightarrow> (string \<Rightarrow> string \<Rightarrow> document option) \<Rightarrow> string \<Rightarrow> string \<Rightarrow> document option" where
  "without_task q i m = m(q := (m q)(i := None))"

definition with_task ::
  "string \<Rightarrow> string \<Rightarrow> document \<Rightarrow> (string \<Rightarrow> string \<Rightarrow> document option) \<Rightarrow> string \<Rightarrow> string \<Rightarrow> document option" where
  "with_task q i doc m = m(q := (m q)(i \<mapsto> doc))"

locale task_store =
  fixes aq :: "'w asynq" and task_at :: "'w \<Rightarrow> string \<Rightarrow> string \<Rightarrow> document option"
  assumes deleted: "aq_delete_task aq q i w = (w', None) \<Longrightarrow> task_at w' = without_task q i (task_at w)"
    and not_deleted: "aq_delete_task aq q i w = (w', Some e) \<Longrightarrow> task_at w' \<in> {task_at w, without_task q i (task_at w)}"
    and enqueued: "aq_enqueue aq rq w = (w', None) \<Longrightarrow> task_at w' = with_task (tq_queue rq) (tq_id rq) (tq_payload rq) (task_at w)"
    and not_enqueued: "aq_enqueue aq rq w = (w', Some e) \<Longrightarrow>
          task_at w' \<in> {task_at w, with_task (tq_queue rq) (tq_id rq) (tq_payload rq) (task_at w)}"
begin

lemma requeue_undeleted:
  assumes "get_dead aq i w = Inr dead" and "requeue_dead aq i w = (w', r)"
    and "aq_delete_task aq (dd_queue dead) i w = (w1, Some e)"
  shows "r \<noteq> None \<and> task_at w' \<in> {task_at w, without_task (dd_queue dead) i (task_at w)}"
  using assms not_deleted [OF assms(3)] by (auto simp: requeue_dead_def)

lemma requeue_deleted:
  assumes "get_dead aq i w = Inr dead" and "requeue_dead aq i w = (w', r)"
    and "aq_delete_task aq (dd_queue dead) i w = (w1, None)"
    and "gone = without_task (dd_queue dead) i (task_at w)"
    and "moved = with_task ''deployments'' i (DocDeployment (json_deployment (dd_deployment dead))) gone"
  shows "(r = None \<and> task_at w' = moved) \<or> (r \<noteq> None \<and> task_at w' \<in> {gone, moved})"
proof (cases "marshal_deployment (dd_deployment dead)")
  case (Inl x)
  then show ?thesis using assms deleted [OF assms(3)] by (auto simp: requeue_dead_def)
next
  case (Inr doc)
  then have doc: "doc = DocDeployment (json_deployment (dd_deployment dead))"
    by (simp add: marshal_deployment_def split: if_splits)
  define rq where "rq = \<lparr>tq_type = task_type_deployment, tq_payload = doc, tq_id = i, tq_queue = ''deployments'', tq_max_retry = 3\<rparr>"
  have fields: "tq_queue rq = ''deployments''" "tq_id rq = i" "tq_payload rq = doc" by (simp_all add: rq_def)
  obtain e where enq: "aq_enqueue aq rq w1 = (w', e)" and r: "r = None \<longleftrightarrow> e = None"
    using assms(1-3) Inr by (auto simp: requeue_dead_def rq_def [symmetric] split: prod.splits option.splits)
  show ?thesis
  proof (cases e)
    case None
    then show ?thesis using enqueued [of rq w1 w'] enq r deleted [OF assms(3)] assms(4,5) by (simp add: fields doc)
  next
    case (Some x)
    then show ?thesis using not_enqueued [of rq w1 w' x] enq r deleted [OF assms(3)] assms(4,5) by (simp add: fields doc)
  qed
qed

end

text \<open>
  C20: requeueing a dead deployment deletes it first. If the deletion fails, so does the requeueing, and at most the task
  is gone. If it succeeds the dead task is gone whatever follows: without an error the deployment is in the queue
  of deployments with its new task, and nothing else has changed; with an error it may be there, if only the
  reply was lost, and otherwise the deployment is in no queue any more.
\<close>

theorem requeue_moves_or_loses:
  assumes "task_store aq task_at" and "get_dead aq i w = Inr dead" and "requeue_dead aq i w = (w', r)"
    and "gone = without_task (dd_queue dead) i (task_at w)"
    and "moved = with_task ''deployments'' i (DocDeployment (json_deployment (dd_deployment dead))) gone"
  shows "case aq_delete_task aq (dd_queue dead) i w of
    (w1, Some e) \<Rightarrow> r \<noteq> None \<and> task_at w' \<in> {task_at w, gone}
  | (w1, None) \<Rightarrow> (r = None \<and> task_at w' = moved) \<or> (r \<noteq> None \<and> task_at w' \<in> {gone, moved})"
  using task_store.requeue_undeleted [OF assms(1-3)] task_store.requeue_deleted [OF assms(1-3) _ assms(4,5)] assms(4)
  by (auto split: prod.split option.split)

text \<open>A package in memory whose enqueueing fails.\<close>

definition memory_tasks :: "bool \<Rightarrow> (string \<Rightarrow> string \<Rightarrow> document option) asynq" where
  "memory_tasks works =
     \<lparr>aq_parse = \<lambda>u. Inr OtherOpt,
      aq_enqueue = \<lambda>rq w. (if works then (w(tq_queue rq := (w (tq_queue rq))(tq_id rq \<mapsto> tq_payload rq)), None)
        else (w, Some (ErrorString ''connection refused''))),
      aq_delete_task = \<lambda>q i w. (if w q i = None then (w, Some (ErrorString ''asynq: task not found''))
        else (w(q := (w q)(i := None)), None)),
      aq_archived = \<lambda>q w. (case w q ''dep-1'' of None \<Rightarrow> Inr []
        | Some doc \<Rightarrow> Inr [\<lparr>tk_id = ''dep-1'', tk_type = task_type_deployment, tk_payload = doc, tk_last_err = '''',
            tk_last_failed = 0, tk_retried = 3, tk_next_process = 0\<rparr>]),
      aq_pending = \<lambda>q w. Inr [], aq_first_pending = \<lambda>q w. Inr [], aq_task = \<lambda>q i w. Inl (ErrorString ''not found''),
      aq_info = \<lambda>q w. Inl (ErrorString ''not found''), aq_servers = \<lambda>w. Inr []\<rparr>"

interpretation memory_tasks: task_store "memory_tasks works" "\<lambda>w. w"
  by unfold_locales (auto simp: memory_tasks_def without_task_def with_task_def split: if_splits)

definition dead_tasks :: "string \<Rightarrow> string \<Rightarrow> document option" where
  "dead_tasks = (\<lambda>_ _. None)(''deployments'' := (\<lambda>_. None)(''dep-1'' \<mapsto> DocDeployment redis_deployment))"

theorem requeue_moves_or_loses_witness:
  "\<exists>w' e dead. get_dead (memory_tasks False) ''dep-1'' dead_tasks = Inr dead \<and>
     requeue_dead (memory_tasks False) ''dep-1'' dead_tasks = (w', Some e) \<and>
     dead_tasks ''deployments'' ''dep-1'' \<noteq> None \<and> w' = without_task ''deployments'' ''dep-1'' dead_tasks \<and>
     w' ''deployments'' ''dep-1'' = None"
proof -
  have un: "unmarshal_deployment (DocDeployment redis_deployment) = Inr redis_deployment"
    using redis_deployment_ok(1) by (simp add: unmarshal_deployment_def rewritable_def)
  obtain dead where dead: "get_dead (memory_tasks False) ''dep-1'' dead_tasks = Inr dead" "dd_queue dead = ''deployments''"
    "dd_deployment dead = redis_deployment"
    using un by (simp add: get_dead_def dead_queues_def archived_in_def memory_tasks_def dead_tasks_def dead_of_def)
  obtain w' r where r: "requeue_dead (memory_tasks False) ''dep-1'' dead_tasks = (w', r)" by fastforce
  then have lost: "r \<noteq> None \<and> w' ''deployments'' ''dep-1'' = None"
    using dead redis_deployment_ok(2)
    by (auto simp: requeue_dead_def memory_tasks_def dead_tasks_def marshal_deployment_def)
  have del: "aq_delete_task (memory_tasks False) ''deployments'' ''dep-1'' dead_tasks =
      (dead_tasks(''deployments'' := (dead_tasks ''deployments'')(''dep-1'' := None)), None)"
    using dead(2) by (simp add: memory_tasks_def dead_tasks_def)
  have "w' = without_task ''deployments'' ''dep-1'' dead_tasks"
    using requeue_moves_or_loses [OF memory_tasks.task_store_axioms dead(1) r refl refl] lost
    unfolding dead(2,3) del by (auto simp: with_task_def)
  then show ?thesis using dead(1) r lost by (auto simp: dead_tasks_def)
qed

section \<open>Starting\<close>

text \<open>
  The package parses addresses to options that are no pointers, which the tracker does not know: the distributed system
  is never built.
\<close>

lemma distributed_mode_never_starts:
  assumes "\<forall>u opt. aq_parse aq u = Inr opt \<longrightarrow> opt = OtherOpt"
  shows "\<exists>e. new_distributed_system aq url w = Inl e"
proof (cases "url = ''''")
  case False
  then show ?thesis
    using assms by (cases "aq_parse aq url")
      (auto simp: new_distributed_system_def new_distributed_queue_def new_distributed_tracker_def split: prod.split)
qed (simp add: new_distributed_system_def)

end
