(* ===== verification/Go_Paths.thy ===== *)
theory Go_Paths
  imports Lattiam_Prelude
begin

text \<open>
  The paths of \<^verbatim>\<open>path/filepath\<close> on Unix: \<^verbatim>\<open>Clean\<close>, \<^verbatim>\<open>Join\<close> and \<^verbatim>\<open>Dir\<close>, as the configuration uses them, and that
  cleaning is done once.
\<close>

section \<open>Cleaning\<close>

text \<open>The elements kept so far, the last one first.\<close>

fun clean_element :: "bool \<Rightarrow> string \<Rightarrow> string list \<Rightarrow> string list" where
  "clean_element rooted c out =
     (if c = '''' \<or> c = ''.'' then out
      else if c = ''..'' then
        (case out of
           [] \<Rightarrow> if rooted then [] else [''..'']
         | x # xs \<Rightarrow> if x = ''..'' then ''..'' # out else xs)
      else c # out)"

declare clean_element.simps [simp del]

definition rooted_path :: "string \<Rightarrow> bool" where
  "rooted_path p \<longleftrightarrow> has_prefix p ''/''"

definition clean_elements :: "string \<Rightarrow> string list" where
  "clean_elements p = rev (fold (clean_element (rooted_path p)) (split_on CHR 0x2F p) [])"

fun join_slash :: "string list \<Rightarrow> string" where
  "join_slash [] = ''''"
| "join_slash [x] = x"
| "join_slash (x # xs) = x @ CHR 0x2F # join_slash xs"

definition clean_path :: "string \<Rightarrow> string" where
  "clean_path p =
     (if rooted_path p then CHR 0x2F # join_slash (clean_elements p)
      else if clean_elements p = [] then ''.'' else join_slash (clean_elements p))"

text \<open>Empty elements in front are skipped.\<close>

definition path_join :: "string list \<Rightarrow> string" where
  "path_join xs = (let ys = dropWhile (\<lambda>x. x = '''') xs in if ys = [] then '''' else clean_path (join_slash ys))"

text \<open>The directory is what stands before the last separator.\<close>

definition path_dir :: "string \<Rightarrow> string" where
  "path_dir p = clean_path (rev (dropWhile (\<lambda>c. c \<noteq> CHR 0x2F) (rev p)))"

section \<open>Clean paths\<close>

definition plain_element :: "string \<Rightarrow> bool" where
  "plain_element c \<longleftrightarrow> c \<noteq> '''' \<and> c \<noteq> ''.'' \<and> c \<noteq> ''..'' \<and> CHR 0x2F \<notin> set c"

text \<open>What is kept, last element first: plain elements, then, in a path that is not rooted, parents.\<close>

fun clean_stack :: "bool \<Rightarrow> string list \<Rightarrow> bool" where
  "clean_stack rooted [] = True"
| "clean_stack rooted (x # xs) =
     (clean_stack rooted xs \<and> (plain_element x \<or> (x = ''..'' \<and> \<not> rooted \<and> set xs \<subseteq> {''..''})))"

lemma clean_element_stack: "clean_stack rooted out \<Longrightarrow> CHR 0x2F \<notin> set c \<Longrightarrow> clean_stack rooted (clean_element rooted c out)"
  by (cases out) (auto simp: plain_element_def clean_element.simps)

lemma clean_elements_stack: "clean_stack (rooted_path p) (rev (clean_elements p))"
proof -
  have "clean_stack r (fold (clean_element r) cs out)" if "\<forall>c\<in>set cs. CHR 0x2F \<notin> set c" "clean_stack r out" for r cs out
    using that by (induction cs arbitrary: out) (auto intro: clean_element_stack)
  from this [where cs = "split_on CHR 0x2F p" and out = "[]" and r = "rooted_path p"] show ?thesis
    using split_on_parts [of _ "CHR 0x2F" p] by (simp add: clean_elements_def)
qed

lemma clean_stack_no_slash: "clean_stack r xs \<Longrightarrow> x \<in> set xs \<Longrightarrow> CHR 0x2F \<notin> set x \<and> x \<noteq> ''''"
  by (induction xs) (auto simp: plain_element_def)

text \<open>A clean stack is not changed.\<close>

lemma clean_stack_fold: "clean_stack r xs \<Longrightarrow> fold (clean_element r) (rev xs) [] = xs"
proof (induction xs)
  case (Cons x xs)
  then have IH: "fold (clean_element r) (rev (x # xs)) [] = clean_element r x xs" by simp
  show ?case
  proof (cases "plain_element x")
    case True
    then show ?thesis unfolding IH by (simp add: clean_element.simps plain_element_def)
  next
    case False
    then have "x = ''..''" "\<not> r" "set xs \<subseteq> {''..''}" using Cons.prems by auto
    then show ?thesis unfolding IH by (cases xs) (auto simp: clean_element.simps)
  qed
qed simp

lemma split_on_join:
  "xs \<noteq> [] \<Longrightarrow> (\<And>x. x \<in> set xs \<Longrightarrow> CHR 0x2F \<notin> set x) \<Longrightarrow> split_on CHR 0x2F (join_slash xs) = xs"
  by (induction xs rule: join_slash.induct) (auto simp: split_on_append split_on_single)

lemma rooted_join: "xs \<noteq> [] \<Longrightarrow> hd xs \<noteq> '''' \<Longrightarrow> CHR 0x2F \<notin> set (hd xs) \<Longrightarrow> \<not> rooted_path (join_slash xs)"
  by (cases xs rule: join_slash.cases) (auto simp: rooted_path_def neq_Nil_conv)

lemma clean_again_rooted: "clean_elements (CHR 0x2F # join_slash xs) = xs" if "clean_stack True (rev xs)"
proof (cases "xs = []")
  case False
  then have "split_on CHR 0x2F (join_slash xs) = xs" using clean_stack_no_slash [OF that] by (intro split_on_join) auto
  then show ?thesis using clean_stack_fold [OF that]
    by (simp add: clean_elements_def rooted_path_def clean_element.simps)
qed (simp add: clean_elements_def rooted_path_def clean_element.simps)

lemma clean_again_relative: "clean_elements (join_slash xs) = xs" if "clean_stack False (rev xs)" and "xs \<noteq> []"
proof -
  have parts: "CHR 0x2F \<notin> set x \<and> x \<noteq> ''''" if "x \<in> set xs" for x
    using clean_stack_no_slash [OF \<open>clean_stack False (rev xs)\<close>] that by simp
  then have "split_on CHR 0x2F (join_slash xs) = xs" "\<not> rooted_path (join_slash xs)"
    using \<open>xs \<noteq> []\<close> parts rooted_join [of xs] by (auto intro: split_on_join)
  then show ?thesis using clean_stack_fold [OF that(1)] by (simp add: clean_elements_def)
qed

lemma rooted_clean [simp]: "rooted_path (clean_path p) = rooted_path p"
proof (cases "rooted_path p")
  case False
  then have "clean_elements p \<noteq> [] \<Longrightarrow> \<not> rooted_path (join_slash (clean_elements p))"
    using clean_stack_no_slash [OF clean_elements_stack, of "hd (clean_elements p)" p] by (intro rooted_join) auto
  with False show ?thesis by (auto simp: clean_path_def rooted_path_def)
qed (simp add: clean_path_def rooted_path_def)

theorem clean_idempotent: "clean_path (clean_path p) = clean_path p"
proof (cases "rooted_path p")
  case True
  then show ?thesis
    using clean_again_rooted [of "clean_elements p"] clean_elements_stack [of p]
    by (simp add: clean_path_def rooted_path_def)
next
  case False
  then show ?thesis
    using clean_again_relative [of "clean_elements p"] clean_elements_stack [of p] rooted_clean [of p]
    by (cases "clean_elements p = []") (auto simp: clean_path_def rooted_path_def clean_elements_def clean_element.simps)
qed

lemma clean_not_empty [simp]: "clean_path p \<noteq> ''''"
proof (cases "clean_elements p")
  case (Cons x xs)
  then have "x \<noteq> ''''" using clean_stack_no_slash [OF clean_elements_stack, of x p] by simp
  then show ?thesis using Cons by (cases xs) (auto simp: clean_path_def)
qed (simp add: clean_path_def)

section \<open>The last element\<close>

lemma split_on_snoc: "split_on d (s @ d # t) = split_on d s @ split_on d t"
  by (induction s) (auto split: list.splits)

lemma clean_elements_clean: "clean_elements (clean_path p) = clean_elements p"
proof (cases "rooted_path p")
  case True
  then show ?thesis using clean_again_rooted [of "clean_elements p"] clean_elements_stack [of p] by (simp add: clean_path_def)
next
  case False
  then show ?thesis using clean_again_relative [of "clean_elements p"] clean_elements_stack [of p]
    by (auto simp: clean_path_def clean_elements_def rooted_path_def clean_element.simps)
qed

lemma clean_elements_snoc:
  assumes "plain_element x"
  shows "last (clean_elements (d @ CHR 0x2F # x)) = x"
  using assms split_on_single [of "CHR 0x2F" x]
  by (simp add: clean_elements_def split_on_snoc plain_element_def clean_element.simps)

text \<open>Files of different names in any directories are different files.\<close>

lemma clean_names_differ:
  assumes "plain_element x" and "plain_element y" and "x \<noteq> y"
  shows "clean_path (d @ CHR 0x2F # x) \<noteq> clean_path (d' @ CHR 0x2F # y)"
  using assms clean_elements_snoc clean_elements_clean by metis

end
