(* ===== verification/Server_Config.thy ===== *)
theory Server_Config
  imports Go_Paths Go_Time Provider_Environment
begin

text \<open>
  The configuration of the server (\<^verbatim>\<open>internal/config/server_config.go\<close>): its defaults, the environment, the paths, its
  validation and what is shown of it; and how the commands load it (\<^verbatim>\<open>cmd/lattiam\<close>, \<^verbatim>\<open>cmd/api-server\<close>). An operation on
  the configuration returns it as it is left, also when there is an error. The home directory is \<^verbatim>\<open>HOME\<close> and the
  directory of temporary files \<^verbatim>\<open>TMPDIR\<close>, as on Unix.
\<close>

section \<open>Data\<close>

record aws_s3_config =
  s3_bucket :: string
  s3_region :: string
  s3_prefix :: string
  s3_endpoint :: string

record aws_locking_config =
  lk_enabled :: bool
  lk_ttl_seconds :: int

record aws_dynamodb_config =
  dy_table :: string
  dy_region :: string
  dy_endpoint :: string
  dy_locking :: aws_locking_config

record state_store_config =
  st_type :: string
  st_file_path :: string
  st_s3 :: aws_s3_config
  st_dynamodb :: aws_dynamodb_config

record server_config =
  sv_port :: int
  sv_debug :: bool
  sv_state_dir :: string
  sv_log_file :: string
  sv_provider_dir :: string
  sv_store :: state_store_config
  sv_queue_type :: string
  sv_redis_url :: string
  sv_daemon_mode :: bool
  sv_pid_file :: string

definition new_server_config :: server_config where
  "new_server_config =
     \<lparr>sv_port = 8080, sv_debug = False, sv_state_dir = ''~/.lattiam/state'', sv_log_file = '''',
      sv_provider_dir = ''./providers'',
      sv_store = \<lparr>st_type = ''file'', st_file_path = ''~/.lattiam/state/deployments'',
        st_s3 = \<lparr>s3_bucket = '''', s3_region = '''', s3_prefix = ''states/'', s3_endpoint = ''''\<rparr>,
        st_dynamodb = \<lparr>dy_table = '''', dy_region = '''', dy_endpoint = '''',
          dy_locking = \<lparr>lk_enabled = True, lk_ttl_seconds = 300\<rparr>\<rparr>\<rparr>,
      sv_queue_type = ''embedded'', sv_redis_url = '''', sv_daemon_mode = False, sv_pid_file = ''''\<rparr>"

section \<open>The environment\<close>

text \<open>
  \<^verbatim>\<open>fmt.Sscanf\<close> with \<^verbatim>\<open>%d\<close>: spaces but no newline, a sign, and as many digits as there are; what follows is not read.
\<close>

fun is_digit :: "char \<Rightarrow> bool" where
  "is_digit c = (digit_value c \<noteq> None)"

definition scan_decimal :: "string \<Rightarrow> int option" where
  "scan_decimal s =
     (let spaces = takeWhile is_space s; t = dropWhile is_space s;
          sign = (if has_prefix t ''-'' \<or> has_prefix t ''+'' then take 1 t else '''');
          digits = takeWhile is_digit (drop (length sign) t)
      in if CHR 0x0A \<in> set spaces \<or> digits = '''' then None else parse_int64 (sign @ digits))"

definition parse_bool :: "string \<Rightarrow> bool" where
  "parse_bool v = (to_lower v \<in> {''true'', ''1'', ''yes'', ''on'', ''enabled''})"

text \<open>A variable that is not empty is taken over.\<close>

definition override :: "string list \<Rightarrow> string \<Rightarrow> (string \<Rightarrow> 'c \<Rightarrow> 'c) \<Rightarrow> 'c \<Rightarrow> 'c" where
  "override env k f c = (if getenv env k = '''' then c else f (getenv env k) c)"

definition load_port :: "string list \<Rightarrow> server_config \<Rightarrow> server_config \<times> goerror option" where
  "load_port env c =
     (let port = getenv env ''LATTIAM_PORT'' in
      if port = '''' then (c, None)
      else (case scan_decimal port of
              None \<Rightarrow> (c, Some (ErrorString (''invalid LATTIAM_PORT value: '' @ port)))
            | Some p \<Rightarrow> (c\<lparr>sv_port := p\<rparr>, None)))"

definition load_debug :: "string list \<Rightarrow> server_config \<Rightarrow> server_config \<times> goerror option" where
  "load_debug env c =
     (let debug = getenv env ''LATTIAM_DEBUG'' in
      if debug = '''' then (c, None)
      else if to_lower debug \<in> {''true'', ''1'', ''yes'', ''on''} then (c\<lparr>sv_debug := True\<rparr>, None)
      else if to_lower debug \<in> {''false'', ''0'', ''no'', ''off''} then (c\<lparr>sv_debug := False\<rparr>, None)
      else (c, Some (ErrorString (''invalid LATTIAM_DEBUG value: '' @ debug))))"

definition load_s3 :: "string list \<Rightarrow> aws_s3_config \<Rightarrow> aws_s3_config" where
  "load_s3 env c =
     override env ''LATTIAM_AWS_S3_ENDPOINT'' (\<lambda>v c. c\<lparr>s3_endpoint := v\<rparr>)
      (override env ''LATTIAM_AWS_S3_PREFIX'' (\<lambda>v c. c\<lparr>s3_prefix := v\<rparr>)
       (override env ''LATTIAM_AWS_S3_REGION'' (\<lambda>v c. c\<lparr>s3_region := v\<rparr>)
        (override env ''LATTIAM_AWS_S3_BUCKET'' (\<lambda>v c. c\<lparr>s3_bucket := v\<rparr>) c)))"

text \<open>A time to live that is no number is ignored.\<close>

definition load_locking :: "string list \<Rightarrow> aws_locking_config \<Rightarrow> aws_locking_config" where
  "load_locking env c =
     override env ''LATTIAM_AWS_LOCKING_TTL_SECONDS''
       (\<lambda>v c. case parse_int64 v of None \<Rightarrow> c | Some n \<Rightarrow> c\<lparr>lk_ttl_seconds := n\<rparr>)
      (override env ''LATTIAM_AWS_LOCKING_ENABLED'' (\<lambda>v c. c\<lparr>lk_enabled := parse_bool v\<rparr>) c)"

definition load_dynamodb :: "string list \<Rightarrow> aws_dynamodb_config \<Rightarrow> aws_dynamodb_config" where
  "load_dynamodb env c =
     dy_locking_update (load_locking env)
      (override env ''LATTIAM_AWS_DYNAMODB_ENDPOINT'' (\<lambda>v c. c\<lparr>dy_endpoint := v\<rparr>)
       (override env ''LATTIAM_AWS_DYNAMODB_REGION'' (\<lambda>v c. c\<lparr>dy_region := v\<rparr>)
        (override env ''LATTIAM_AWS_DYNAMODB_TABLE'' (\<lambda>v c. c\<lparr>dy_table := v\<rparr>) c)))"

definition load_store :: "string list \<Rightarrow> state_store_config \<Rightarrow> state_store_config" where
  "load_store env c =
     st_dynamodb_update (load_dynamodb env) (st_s3_update (load_s3 env)
      (override env ''LATTIAM_STATE_PATH'' (\<lambda>v c. c\<lparr>st_file_path := v\<rparr>)
       (override env ''LATTIAM_STATE_STORE'' (\<lambda>v c. c\<lparr>st_type := v\<rparr>) c)))"

definition load_from_env :: "string list \<Rightarrow> server_config \<Rightarrow> server_config \<times> goerror option" where
  "load_from_env env c =
     (case for_each (\<lambda>f c. f env c) [load_port, load_debug] c of
        (c1, Some e) \<Rightarrow> (c1, Some e)
      | (c1, None) \<Rightarrow>
          (override env ''LATTIAM_PID_FILE'' (\<lambda>v c. c\<lparr>sv_pid_file := v\<rparr>)
            (override env ''LATTIAM_REDIS_URL'' (\<lambda>v c. c\<lparr>sv_redis_url := v\<rparr>)
             (override env ''LATTIAM_QUEUE_TYPE'' (\<lambda>v c. c\<lparr>sv_queue_type := v\<rparr>)
              (sv_store_update (load_store env)
               (override env ''LATTIAM_PROVIDER_DIR'' (\<lambda>v c. c\<lparr>sv_provider_dir := v\<rparr>)
                (override env ''LATTIAM_LOG_FILE'' (\<lambda>v c. c\<lparr>sv_log_file := v\<rparr>)
                 (override env ''LATTIAM_STATE_DIR'' (\<lambda>v c. c\<lparr>sv_state_dir := v\<rparr>) c1)))))), None))"

section \<open>Paths\<close>

definition user_home_dir :: "string list \<Rightarrow> goerror + string" where
  "user_home_dir env =
     (if getenv env ''HOME'' = '''' then Inl (ErrorString ''$HOME is not defined'') else Inr (getenv env ''HOME''))"

definition temp_dir :: "string list \<Rightarrow> string" where
  "temp_dir env = (if getenv env ''TMPDIR'' = '''' then ''/tmp'' else getenv env ''TMPDIR'')"

definition expand_path :: "string list \<Rightarrow> string \<Rightarrow> goerror + string" where
  "expand_path env p =
     (if p = '''' then Inr p
      else if has_prefix p ''~/'' then
        (case user_home_dir env of
           Inl e \<Rightarrow> Inl (WrapError ''failed to get home directory: '' e '''')
         | Inr home \<Rightarrow> Inr (clean_path (path_join [home, drop 2 p])))
      else Inr (clean_path p))"

text \<open>A path that cannot be expanded is left empty.\<close>

definition expand_in ::
  "string list \<Rightarrow> string \<Rightarrow> ('c \<Rightarrow> string) \<Rightarrow> ((string \<Rightarrow> string) \<Rightarrow> 'c \<Rightarrow> 'c) \<Rightarrow> 'c \<Rightarrow> 'c \<times> goerror option" where
  "expand_in env name get upd c =
     (case expand_path env (get c) of
        Inl e \<Rightarrow> (upd (\<lambda>_. '''') c, Some (WrapError (''failed to expand '' @ name @ '': '') e ''''))
      | Inr p \<Rightarrow> (upd (\<lambda>_. p) c, None))"

definition expand_pid_file :: "string list \<Rightarrow> server_config \<Rightarrow> server_config \<times> goerror option" where
  "expand_pid_file env c =
     (if sv_pid_file c = '''' then (c\<lparr>sv_pid_file := path_join [temp_dir env, ''lattiam-server.pid'']\<rparr>, None)
      else expand_in env ''pid_file'' sv_pid_file sv_pid_file_update c)"

definition expand_paths :: "string list \<Rightarrow> server_config \<Rightarrow> server_config \<times> goerror option" where
  "expand_paths env c =
     for_each (\<lambda>f c. f c)
       [expand_in env ''state_dir'' sv_state_dir sv_state_dir_update,
        \<lambda>c. if sv_log_file c = '''' then (c, None) else expand_in env ''log_file'' sv_log_file sv_log_file_update c,
        expand_in env ''provider_dir'' sv_provider_dir sv_provider_dir_update,
        expand_in env ''state_path'' (\<lambda>c. st_file_path (sv_store c)) (\<lambda>f. sv_store_update (st_file_path_update f)),
        expand_pid_file env] c"

section \<open>Validation\<close>

definition validate_aws :: "state_store_config \<Rightarrow> state_store_config \<times> goerror option" where
  "validate_aws c =
     (if s3_bucket (st_s3 c) = '''' then (c, Some (ErrorString ''AWS S3 bucket is required when using AWS state store''))
      else if s3_region (st_s3 c) = '''' then (c, Some (ErrorString ''AWS S3 region is required when using AWS state store''))
      else if dy_table (st_dynamodb c) = ''''
      then (c, Some (ErrorString ''AWS DynamoDB table is required when using AWS state store''))
      else if dy_region (st_dynamodb c) = ''''
      then (c, Some (ErrorString ''AWS DynamoDB region is required when using AWS state store''))
      else
        (let c' = (if s3_prefix (st_s3 c) = '''' then st_s3_update (s3_prefix_update (\<lambda>_. ''states/'')) c else c) in
         if lk_ttl_seconds (dy_locking (st_dynamodb c)) \<le> 0
         then (c', Some (ErrorString ''AWS locking TTL seconds must be positive''))
         else (c', None)))"

definition validate_config :: "server_config \<Rightarrow> server_config \<times> goerror option" where
  "validate_config c =
     (if sv_port c < 1 \<or> 65535 < sv_port c then (c, Some (ErrorString (''invalid port: '' @ itoa (sv_port c))))
      else if sv_state_dir c = '''' then (c, Some (ErrorString ''state directory cannot be empty''))
      else if sv_provider_dir c = '''' then (c, Some (ErrorString ''provider directory cannot be empty''))
      else if st_type (sv_store c) \<notin> {''file'', ''memory'', ''aws''}
      then (c, Some (ErrorString (''invalid state store type: '' @ st_type (sv_store c))))
      else if st_type (sv_store c) = ''aws''
      then (let (st, e) = validate_aws (sv_store c) in (c\<lparr>sv_store := st\<rparr>, e))
      else (c, None))"

section \<open>What is shown\<close>

definition get_log_path :: "string list \<Rightarrow> server_config \<Rightarrow> string" where
  "get_log_path env c =
     (if sv_log_file c \<noteq> '''' then sv_log_file c
      else if sv_daemon_mode c then path_join [temp_dir env, ''lattiam-server.log'']
      else '''')"

definition sanitized_aws :: "state_store_config \<Rightarrow> gmap" where
  "sanitized_aws c =
     [(''s3_bucket_configured'', GBool (s3_bucket (st_s3 c) \<noteq> '''')),
      (''s3_region_configured'', GBool (s3_region (st_s3 c) \<noteq> '''')),
      (''s3_prefix'', GStr (s3_prefix (st_s3 c))),
      (''s3_endpoint_configured'', GBool (s3_endpoint (st_s3 c) \<noteq> '''')),
      (''dynamodb_table_configured'', GBool (dy_table (st_dynamodb c) \<noteq> '''')),
      (''dynamodb_region_configured'', GBool (dy_region (st_dynamodb c) \<noteq> '''')),
      (''dynamodb_endpoint_configured'', GBool (dy_endpoint (st_dynamodb c) \<noteq> '''')),
      (''locking_enabled'', GBool (lk_enabled (dy_locking (st_dynamodb c)))),
      (''locking_ttl_seconds'', GInt (lk_ttl_seconds (dy_locking (st_dynamodb c))))]"

definition get_sanitized :: "string list \<Rightarrow> server_config \<Rightarrow> gmap" where
  "get_sanitized env c =
     [(''port'', GInt (sv_port c)), (''debug'', GBool (sv_debug c)), (''daemon_mode'', GBool (sv_daemon_mode c)),
      (''state_store'', GStr (st_type (sv_store c)))] @
     (if sv_debug c
      then [(''state_configured'', GBool (sv_state_dir c \<noteq> '''')), (''log_configured'', GBool (get_log_path env c \<noteq> '''')),
            (''provider_configured'', GBool (sv_provider_dir c \<noteq> ''''))] @
           (if st_type (sv_store c) = ''aws'' then [(''aws_config'', GMap (sanitized_aws (sv_store c)))] else [])
      else [])"

text \<open>The document and the file of \<^verbatim>\<open>WriteConfigInfo\<close>; \<open>zone\<close> is the offset of the local time.\<close>

definition config_info :: "string list \<Rightarrow> duration \<Rightarrow> time \<Rightarrow> int \<Rightarrow> string \<Rightarrow> server_config \<Rightarrow> gmap" where
  "config_info env zone now pid version c =
     [(''started_at'', GStr (format_rfc3339 zone now)), (''pid'', GInt pid), (''version'', GStr version),
      (''config'', GMap (get_sanitized env c))]"

definition info_path :: "string list \<Rightarrow> string" where
  "info_path env =
     (let p = (if getenv env ''LATTIAM_INFO_FILE'' = '''' then path_join [temp_dir env, ''lattiam.info'']
               else getenv env ''LATTIAM_INFO_FILE'')
      in case expand_path env p of Inl e \<Rightarrow> p | Inr p' \<Rightarrow> p')"

definition write_config_info ::
  "(string \<Rightarrow> gmap \<Rightarrow> 'w \<Rightarrow> 'w \<times> goerror option) \<Rightarrow> string list \<Rightarrow> duration \<Rightarrow> time \<Rightarrow> int \<Rightarrow> string \<Rightarrow>
     server_config \<Rightarrow> 'w \<Rightarrow> 'w \<times> goerror option" where
  "write_config_info write env zone now pid version c w =
     (case write (info_path env) (config_info env zone now pid version c) w of
        (w1, Some e) \<Rightarrow> (w1, Some (WrapError ''failed to write server info: '' e ''''))
      | (w1, None) \<Rightarrow> (w1, None))"

section \<open>The lightweight accessors\<close>

definition get_pid_path :: "string list \<Rightarrow> string" where
  "get_pid_path env =
     (let default = (case user_home_dir env of Inl e \<Rightarrow> ''/tmp/lattiam.pid''
                     | Inr home \<Rightarrow> path_join [home, ''.lattiam'', ''lattiam.pid''])
      in if getenv env ''LATTIAM_PID_FILE'' = '''' then default
         else (case expand_path env (getenv env ''LATTIAM_PID_FILE'') of Inl e \<Rightarrow> default | Inr p \<Rightarrow> p))"

definition get_port :: "string list \<Rightarrow> int" where
  "get_port env =
     (let port = getenv env ''LATTIAM_PORT'' in
      if port = '''' then 8080
      else (case parse_int64 port of None \<Rightarrow> 8080 | Some p \<Rightarrow> if p < 1 \<or> 65535 < p then 8080 else p))"

section \<open>The commands\<close>

definition with_error :: "string \<Rightarrow> 'c \<times> goerror option \<Rightarrow> goerror + 'c" where
  "with_error text r = (case snd r of None \<Rightarrow> Inr (fst r) | Some e \<Rightarrow> Inl (WrapError text e ''''))"

definition load_standard_config :: "string list \<Rightarrow> goerror + server_config" where
  "load_standard_config env =
     (case with_error ''failed to load config from environment: '' (load_from_env env new_server_config) of
        Inl e \<Rightarrow> Inl e
      | Inr c \<Rightarrow> with_error ''failed to expand paths: '' (expand_paths env c))"

text \<open>The flags are set before the environment is read, which therefore goes first.\<close>

definition create_server_config :: "string list \<Rightarrow> int \<Rightarrow> bool \<Rightarrow> goerror + server_config" where
  "create_server_config env port debug =
     (case with_error ''failed to load config from environment: ''
             (load_from_env env (new_server_config\<lparr>sv_port := port, sv_debug := debug\<rparr>)) of
        Inl e \<Rightarrow> Inl e
      | Inr c \<Rightarrow>
          (case with_error ''failed to expand paths: '' (expand_paths env c) of
             Inl e \<Rightarrow> Inl e
           | Inr c' \<Rightarrow> with_error ''invalid configuration: '' (validate_config c')))"

definition daemon_config :: "string list \<Rightarrow> int \<Rightarrow> bool \<Rightarrow> goerror + server_config" where
  "daemon_config env port debug =
     (case with_error ''failed to load config: ''
             (load_from_env env (new_server_config\<lparr>sv_port := port, sv_debug := debug, sv_daemon_mode := True\<rparr>)) of
        Inl e \<Rightarrow> Inl e
      | Inr c \<Rightarrow> with_error ''failed to expand paths: '' (expand_paths env c))"

section \<open>Expanded paths\<close>

lemma expand_path_clean: "expand_path env p = Inr q \<Longrightarrow> p \<noteq> '''' \<Longrightarrow> q \<noteq> '''' \<and> clean_path q = q"
  by (auto simp: expand_path_def clean_idempotent split: if_splits sum.splits)

text \<open>Every path of an expanded configuration is clean, and none but the log file is empty if none was.\<close>

definition paths_clean :: "server_config \<Rightarrow> bool" where
  "paths_clean c \<longleftrightarrow>
     list_all (\<lambda>p. clean_path p = p)
       [sv_state_dir c, sv_provider_dir c, st_file_path (sv_store c), sv_pid_file c] \<and>
     (sv_log_file c = '''' \<or> clean_path (sv_log_file c) = sv_log_file c)"

definition paths_given :: "server_config \<Rightarrow> bool" where
  "paths_given c \<longleftrightarrow> sv_state_dir c \<noteq> '''' \<and> sv_provider_dir c \<noteq> '''' \<and> st_file_path (sv_store c) \<noteq> ''''"

lemma path_join_clean: "path_join xs \<noteq> '''' \<Longrightarrow> clean_path (path_join xs) = path_join xs"
  by (cases "dropWhile (\<lambda>x. x = '''') xs = []") (simp_all add: path_join_def Let_def clean_idempotent del: dropWhile_eq_Nil_conv)

lemma temp_pid_clean: "clean_path (path_join [temp_dir env, name]) = path_join [temp_dir env, name]"
  by (rule path_join_clean) (simp add: path_join_def temp_dir_def)

lemma expand_in_ok:
  "expand_in env name get upd c = (c', None) \<longleftrightarrow> (\<exists>p. expand_path env (get c) = Inr p \<and> c' = upd (\<lambda>_. p) c)"
  by (auto simp: expand_in_def split: sum.splits)

lemma for_each_Cons_ok: "for_each f (x # xs) s = (s', None) \<longleftrightarrow> (\<exists>s1. f x s = (s1, None) \<and> for_each f xs s1 = (s', None))"
  by (auto split: prod.splits option.splits)

lemma expand_paths_clean:
  assumes "expand_paths env c = (c', None)" and "paths_given c"
  shows "paths_clean c' \<and> paths_given c' \<and> sv_port c' = sv_port c \<and>
    sv_store c' = (sv_store c)\<lparr>st_file_path := st_file_path (sv_store c')\<rparr> \<and>
    (sv_pid_file c = '''' \<longrightarrow> sv_pid_file c' = path_join [temp_dir env, ''lattiam-server.pid''])"
proof -
  obtain c1 c2 c3 c4 where
    1: "expand_in env ''state_dir'' sv_state_dir sv_state_dir_update c = (c1, None)" and
    2: "(if sv_log_file c1 = '''' then (c1, None) else expand_in env ''log_file'' sv_log_file sv_log_file_update c1) = (c2, None)" and
    3: "expand_in env ''provider_dir'' sv_provider_dir sv_provider_dir_update c2 = (c3, None)" and
    4: "expand_in env ''state_path'' (\<lambda>c. st_file_path (sv_store c)) (\<lambda>f. sv_store_update (st_file_path_update f)) c3 = (c4, None)" and
    5: "expand_pid_file env c4 = (c', None)"
    using assms(1) unfolding expand_paths_def for_each_Cons_ok by auto
  obtain p1 where p1: "expand_path env (sv_state_dir c) = Inr p1" "c1 = c\<lparr>sv_state_dir := p1\<rparr>"
    using 1 unfolding expand_in_ok by auto
  obtain l where l: "c2 = c1\<lparr>sv_log_file := l\<rparr>" "l = '''' \<or> clean_path l = l"
  proof (cases "sv_log_file c1 = ''''")
    case True
    then show ?thesis using 2 that [of "''''"] by simp
  next
    case False
    then obtain p where "expand_path env (sv_log_file c1) = Inr p" "c2 = c1\<lparr>sv_log_file := p\<rparr>"
      using 2 by (auto simp: expand_in_ok)
    then show ?thesis using that [of p] expand_path_clean False by blast
  qed
  obtain p3 where p3: "expand_path env (sv_provider_dir c2) = Inr p3" "c3 = c2\<lparr>sv_provider_dir := p3\<rparr>"
    using 3 unfolding expand_in_ok by auto
  obtain p4 where p4: "expand_path env (st_file_path (sv_store c3)) = Inr p4"
    "c4 = c3\<lparr>sv_store := (sv_store c3)\<lparr>st_file_path := p4\<rparr>\<rparr>"
    using 4 unfolding expand_in_ok by auto
  obtain p5 where p5: "c' = c4\<lparr>sv_pid_file := p5\<rparr>" "clean_path p5 = p5"
    using 5 expand_path_clean [of env "sv_pid_file c4"] temp_pid_clean [of env]
    by (auto simp: expand_pid_file_def expand_in_ok split: if_splits)
  have "sv_pid_file c4 = sv_pid_file c" using p1 l p3 p4 by simp
  then have "sv_pid_file c = '''' \<longrightarrow> sv_pid_file c' = path_join [temp_dir env, ''lattiam-server.pid'']"
    using 5 by (auto simp: expand_pid_file_def)
  then show ?thesis
    using assms(2) expand_path_clean [OF p1(1)] expand_path_clean [OF p3(1)] expand_path_clean [OF p4(1)] p1 l p3 p4 p5
    by (simp add: paths_clean_def paths_given_def)
qed

section \<open>What is accepted\<close>

lemma override_keep: "(\<And>v. v \<noteq> '''' \<Longrightarrow> P c \<Longrightarrow> P (f v c)) \<Longrightarrow> P c \<Longrightarrow> P (override env k f c)"
  by (simp add: override_def)

lemma load_store_path: "st_file_path c \<noteq> '''' \<Longrightarrow> st_file_path (load_store env c) \<noteq> ''''"
  by (simp add: load_store_def override_def)

lemma load_from_env_paths:
  assumes "load_from_env env c = (c', None)" and "paths_given c"
  shows "paths_given c'"
proof -
  obtain c1 where c1: "for_each (\<lambda>f c. f env c) [load_port, load_debug] c = (c1, None)" and
    c': "c' = fst (load_from_env env c)" using assms(1) by (auto simp: load_from_env_def split: prod.splits option.splits)
  have "paths_given c1"
    using c1 assms(2) unfolding for_each_Cons_ok
    by (auto simp: load_port_def load_debug_def paths_given_def Let_def split: if_splits option.splits)
  then show ?thesis using c' c1 load_store_path
    by (simp add: load_from_env_def paths_given_def override_def)
qed

lemma load_from_env_pid:
  assumes "load_from_env env c = (c', None)" and "sv_pid_file c = ''''" and "getenv env ''LATTIAM_PID_FILE'' = ''''"
  shows "sv_pid_file c' = ''''"
proof -
  obtain c1 where c1: "for_each (\<lambda>f c. f env c) [load_port, load_debug] c = (c1, None)" and
    c': "c' = fst (load_from_env env c)" using assms(1) by (auto simp: load_from_env_def split: prod.splits option.splits)
  have "sv_pid_file c1 = ''''"
    using c1 assms(2) unfolding for_each_Cons_ok
    by (auto simp: load_port_def load_debug_def Let_def split: if_splits option.splits)
  then show ?thesis using c' c1 assms(3) by (simp add: load_from_env_def override_def)
qed

lemma with_error_ok: "with_error text r = Inr c \<longleftrightarrow> r = (c, None)"
  by (cases r) (auto simp: with_error_def split: option.splits)

text \<open>The configurations that validation leaves as they are.\<close>

definition config_valid :: "server_config \<Rightarrow> bool" where
  "config_valid c \<longleftrightarrow>
     1 \<le> sv_port c \<and> sv_port c \<le> 65535 \<and> sv_state_dir c \<noteq> '''' \<and> sv_provider_dir c \<noteq> '''' \<and>
     st_type (sv_store c) \<in> {''file'', ''memory'', ''aws''} \<and>
     (st_type (sv_store c) \<noteq> ''aws'' \<or>
       s3_bucket (st_s3 (sv_store c)) \<noteq> '''' \<and> s3_region (st_s3 (sv_store c)) \<noteq> '''' \<and> s3_prefix (st_s3 (sv_store c)) \<noteq> '''' \<and>
       dy_table (st_dynamodb (sv_store c)) \<noteq> '''' \<and> dy_region (st_dynamodb (sv_store c)) \<noteq> '''' \<and>
       0 < lk_ttl_seconds (dy_locking (st_dynamodb (sv_store c))))"

lemma validate_aws_ok:
  "validate_aws c = (c', None) \<longleftrightarrow>
     s3_bucket (st_s3 c) \<noteq> '''' \<and> s3_region (st_s3 c) \<noteq> '''' \<and> dy_table (st_dynamodb c) \<noteq> '''' \<and>
     dy_region (st_dynamodb c) \<noteq> '''' \<and> 0 < lk_ttl_seconds (dy_locking (st_dynamodb c)) \<and>
     c' = (if s3_prefix (st_s3 c) = '''' then c\<lparr>st_s3 := (st_s3 c)\<lparr>s3_prefix := ''states/''\<rparr>\<rparr> else c)"
  by (auto simp: validate_aws_def Let_def)

lemma validate_config_ok:
  assumes "validate_config c = (c', None)"
  shows "config_valid c' \<and> validate_config c' = (c', None) \<and>
    c' = c\<lparr>sv_store := (sv_store c)\<lparr>st_s3 := (st_s3 (sv_store c))\<lparr>s3_prefix := s3_prefix (st_s3 (sv_store c'))\<rparr>\<rparr>\<rparr>"
proof (cases "st_type (sv_store c) = ''aws''")
  case True
  then obtain st where st: "validate_aws (sv_store c) = (st, None)" "c' = c\<lparr>sv_store := st\<rparr>"
    and ok: "1 \<le> sv_port c" "sv_port c \<le> 65535" "sv_state_dir c \<noteq> ''''" "sv_provider_dir c \<noteq> ''''"
    using assms by (auto simp: validate_config_def split: if_splits prod.splits)
  have again: "validate_aws st = (st, None)" and type: "st_type st = ''aws''"
    using st(1) True unfolding validate_aws_ok by auto
  have "validate_config c' = (c', None)" using again type st(2) ok by (simp add: validate_config_def)
  moreover have "config_valid c'" using st ok True unfolding validate_aws_ok by (auto simp: config_valid_def)
  moreover have "c' = c\<lparr>sv_store := (sv_store c)\<lparr>st_s3 := (st_s3 (sv_store c))\<lparr>s3_prefix := s3_prefix (st_s3 (sv_store c'))\<rparr>\<rparr>\<rparr>"
    using st unfolding validate_aws_ok by auto
  ultimately show ?thesis by blast
next
  case False
  then show ?thesis using assms by (auto simp: validate_config_def config_valid_def split: if_splits)
qed

text \<open>
  A configuration the server starts with is valid, has clean paths, and validating it again changes nothing.
\<close>

lemma started_configuration_valid:
  assumes "create_server_config env port debug = Inr c"
  shows "config_valid c \<and> paths_clean c \<and> validate_config c = (c, None)"
proof -
  obtain c1 c2 where 1: "load_from_env env (new_server_config\<lparr>sv_port := port, sv_debug := debug\<rparr>) = (c1, None)"
    and 2: "expand_paths env c1 = (c2, None)" and 3: "validate_config c2 = (c, None)"
    using assms by (auto simp: create_server_config_def with_error_ok split: sum.splits)
  have "paths_given c1" by (rule load_from_env_paths [OF 1]) (simp add: paths_given_def new_server_config_def)
  then have "paths_clean c2" using expand_paths_clean [OF 2] by simp
  moreover have "sv_state_dir c = sv_state_dir c2 \<and> sv_provider_dir c = sv_provider_dir c2 \<and> sv_pid_file c = sv_pid_file c2 \<and>
      sv_log_file c = sv_log_file c2 \<and> st_file_path (sv_store c) = st_file_path (sv_store c2)"
    by (subst (1 2 3 4 5) conjunct2 [OF conjunct2 [OF validate_config_ok [OF 3]]]) simp
  ultimately show ?thesis using validate_config_ok [OF 3] by (simp add: paths_clean_def)
qed

definition sample_env :: "string list" where
  "sample_env = [''HOME=/home/ops'', ''LATTIAM_PORT=9090x'', ''LATTIAM_STATE_DIR=/var//lib/./lattiam/'',
     ''LATTIAM_LOG_FILE=~/log/../lattiam.log'']"

lemma sample_configuration:
  "\<exists>c. create_server_config sample_env 8084 False = Inr c \<and> sv_port c = 9090 \<and> sv_state_dir c = ''/var/lib/lattiam'' \<and>
     sv_log_file c = ''/home/ops/lattiam.log'' \<and> config_valid c \<and> paths_clean c"
proof -
  have port: "case create_server_config sample_env 8084 False of Inl e \<Rightarrow> False | Inr c \<Rightarrow> sv_port c = 9090" by code_simp
  have dir: "map_sum (\<lambda>_. ()) sv_state_dir (create_server_config sample_env 8084 False) = Inr ''/var/lib/lattiam''" by code_simp
  have log: "map_sum (\<lambda>_. ()) sv_log_file (create_server_config sample_env 8084 False) = Inr ''/home/ops/lattiam.log''"
    by code_simp
  from port obtain c where c: "create_server_config sample_env 8084 False = Inr c" "sv_port c = 9090"
    by (auto split: sum.splits)
  then have "sv_state_dir c = ''/var/lib/lattiam''" "sv_log_file c = ''/home/ops/lattiam.log''" using dir log by simp_all
  then show ?thesis using started_configuration_valid [OF c(1)] c by blast
qed

section \<open>Starting and stopping\<close>

lemma path_join_two: "d \<noteq> '''' \<Longrightarrow> path_join [d, x] = clean_path (d @ CHR 0x2F # x)"
  by (simp add: path_join_def)

text \<open>
  Without \<^verbatim>\<open>LATTIAM_PID_FILE\<close> the daemon writes its process to another file than the one that stopping it and asking for
  its status read, whatever the home directory and the directory of temporary files are.
\<close>

lemma daemon_and_stop_disagree:
  assumes "getenv env ''LATTIAM_PID_FILE'' = ''''" and "daemon_config env port debug = Inr c"
  shows "sv_pid_file c = path_join [temp_dir env, ''lattiam-server.pid''] \<and> sv_pid_file c \<noteq> get_pid_path env"
proof -
  obtain c1 where 1: "load_from_env env (new_server_config\<lparr>sv_port := port, sv_debug := debug, sv_daemon_mode := True\<rparr>) = (c1, None)"
    and 2: "expand_paths env c1 = (c, None)"
    using assms(2) by (auto simp: daemon_config_def with_error_ok split: sum.splits)
  have "sv_pid_file c1 = ''''" by (rule load_from_env_pid [OF 1]) (simp_all add: assms(1) new_server_config_def)
  moreover have "paths_given c1" by (rule load_from_env_paths [OF 1]) (simp add: paths_given_def new_server_config_def)
  ultimately have pid: "sv_pid_file c = path_join [temp_dir env, ''lattiam-server.pid'']"
    using expand_paths_clean [OF 2] by blast
  have temp: "temp_dir env \<noteq> ''''" by (simp add: temp_dir_def)
  have differ: "clean_path (temp_dir env @ CHR 0x2F # ''lattiam-server.pid'') \<noteq> clean_path (d @ CHR 0x2F # ''lattiam.pid'')" for d
    by (rule clean_names_differ) (simp_all add: plain_element_def)
  show ?thesis
  proof (cases "getenv env ''HOME'' = ''''")
    case True
    have "clean_path (''/tmp'' @ CHR 0x2F # ''lattiam.pid'') = ''/tmp/lattiam.pid''" by code_simp
    then show ?thesis using differ [of "''/tmp''"] True pid temp assms(1)
      by (simp add: get_pid_path_def user_home_dir_def path_join_two)
  next
    case False
    then have "get_pid_path env = clean_path ((getenv env ''HOME'' @ ''/.lattiam'') @ CHR 0x2F # ''lattiam.pid'')"
      using assms(1) by (simp add: get_pid_path_def user_home_dir_def path_join_def)
    then show ?thesis using differ [of "getenv env ''HOME'' @ ''/.lattiam''"] pid path_join_two [OF temp] by simp
  qed
qed

text \<open>
  The port that is asked for and the one the server listens on differ for a variable with trailing text, and a
  flag has no effect when the variable is set.
\<close>

lemma ports_disagree:
  "map_sum (\<lambda>_. ()) sv_port (create_server_config [''HOME=/root'', ''LATTIAM_PORT=9090x''] 8084 False) = Inr 9090 \<and>
   get_port [''HOME=/root'', ''LATTIAM_PORT=9090x''] = 8080"
  by code_simp

end
