(* ===== verification/Backend_Guard.thy ===== *)
theory Backend_Guard
  imports Server_Config Wire_Format
begin

text \<open>
  The guard against a change of the storage backend (\<^verbatim>\<open>internal/state/backend_metadata.go\<close>): a file \<^verbatim>\<open>backend.lock\<close> in the
  state directory records the backend a server was first started with, and the API server
  (\<^verbatim>\<open>cmd/api-server/main.go\<close>) refuses to start with another one. A file that is replaced by a rename has its old or its
  new content. Which calls of the file system fail is part of the disk; \<open>hash\<close> is SHA-256 of the critical
  configuration, whose members are written in the order of their names.
\<close>

section \<open>Data\<close>

record backend_metadata =
  bm_type :: string
  bm_config_hash :: string
  bm_initialized_at :: time
  bm_last_validated_at :: time
  bm_deployment_count :: int
  bm_configuration :: gmap
  bm_version :: string

datatype backend_file = NoBackendFile | BackendFile backend_metadata | BrokenFile string

datatype guard_call = GuardMkdir | GuardRead | GuardWrite | GuardRename | GuardRemove

record guard_disk =
  gd_files :: "string \<Rightarrow> backend_file"
  gd_fails :: "guard_call \<Rightarrow> goerror option"

definition backend_mismatch :: goerror where
  "backend_mismatch = ErrorString ''configured backend does not match initialized backend''"

definition backend_not_initialized :: goerror where
  "backend_not_initialized = ErrorString ''backend not initialized - no backend.lock file found''"

definition backend_lock_corrupted :: goerror where
  "backend_lock_corrupted = ErrorString ''backend.lock file is corrupted or invalid''"

definition unsafe_backend_switch :: goerror where
  "unsafe_backend_switch = ErrorString ''unsafe backend switch detected''"

definition backend_lock_path :: "string \<Rightarrow> string" where
  "backend_lock_path state_dir = path_join [state_dir, ''backend.lock'']"

section \<open>The file\<close>

definition get_backend_metadata :: "string \<Rightarrow> guard_disk \<Rightarrow> goerror + backend_metadata" where
  "get_backend_metadata p s =
     (case gd_fails s GuardMkdir of
        Some e \<Rightarrow> Inl (WrapError ''failed to create state directory: '' e '''')
      | None \<Rightarrow>
          (case gd_fails s GuardRead of
             Some e \<Rightarrow> Inl (WrapError ''failed to read backend lock file: '' e '''')
           | None \<Rightarrow>
               (case gd_files s p of
                  NoBackendFile \<Rightarrow> Inl backend_not_initialized
                | BrokenFile text \<Rightarrow> Inl (WrapError '''' backend_lock_corrupted ('': '' @ text))
                | BackendFile m \<Rightarrow> Inr m)))"

text \<open>The document that is read again.\<close>

definition stored_backend :: "backend_metadata \<Rightarrow> backend_metadata" where
  "stored_backend m = m\<lparr>bm_configuration := reload_map (bm_configuration m)\<rparr>"

definition save_backend_metadata :: "string \<Rightarrow> backend_metadata \<Rightarrow> guard_disk \<Rightarrow> guard_disk \<times> goerror option" where
  "save_backend_metadata p m s =
     (case gd_fails s GuardMkdir of
        Some e \<Rightarrow> (s, Some (WrapError ''failed to create state directory: '' e ''''))
      | None \<Rightarrow>
          (if \<not> (json_time_ok (bm_initialized_at m) \<and> json_time_ok (bm_last_validated_at m))
           then (s, Some (WrapError ''failed to marshal metadata: '' json_error ''''))
           else
             (case gd_fails s GuardWrite of
                Some e \<Rightarrow> (s, Some (WrapError ''failed to write temp file: '' e ''''))
              | None \<Rightarrow>
                  (case gd_fails s GuardRename of
                     Some e \<Rightarrow> (s, Some (WrapError ''failed to atomic rename: '' e ''''))
                   | None \<Rightarrow> (s\<lparr>gd_files := (gd_files s)(p := BackendFile (stored_backend m))\<rparr>, None)))))"

section \<open>The configuration\<close>

definition critical_config :: "state_store_config \<Rightarrow> gmap" where
  "critical_config c =
     (if st_type c = ''aws''
      then [(''dynamodb_region'', GStr (dy_region (st_dynamodb c))), (''dynamodb_table'', GStr (dy_table (st_dynamodb c))),
            (''s3_bucket'', GStr (s3_bucket (st_s3 c))), (''s3_prefix'', GStr (s3_prefix (st_s3 c))),
            (''s3_region'', GStr (s3_region (st_s3 c))), (''type'', GStr (st_type c))]
      else if st_type c = ''file'' then [(''path'', GStr (st_file_path c)), (''type'', GStr (st_type c))]
      else [(''type'', GStr (st_type c))])"

definition calculate_config_hash :: "(gmap \<Rightarrow> string) \<Rightarrow> server_config \<Rightarrow> string" where
  "calculate_config_hash hash c = hash (critical_config (sv_store c))"

definition sanitize_backend :: "state_store_config \<Rightarrow> gmap" where
  "sanitize_backend c =
     (''type'', GStr (st_type c)) #
     (if st_type c = ''aws''
      then [(''aws'', GMap
        [(''s3_bucket_configured'', GBool (s3_bucket (st_s3 c) \<noteq> '''')), (''s3_region'', GStr (s3_region (st_s3 c))),
         (''s3_prefix'', GStr (s3_prefix (st_s3 c))), (''s3_endpoint_configured'', GBool (s3_endpoint (st_s3 c) \<noteq> '''')),
         (''dynamodb_table_configured'', GBool (dy_table (st_dynamodb c) \<noteq> '''')),
         (''dynamodb_region'', GStr (dy_region (st_dynamodb c))),
         (''dynamodb_endpoint_configured'', GBool (dy_endpoint (st_dynamodb c) \<noteq> '''')),
         (''locking_enabled'', GBool (lk_enabled (dy_locking (st_dynamodb c))))])]
      else if st_type c = ''file'' then [(''file'', GMap [(''path_configured'', GBool (st_file_path c \<noteq> ''''))])]
      else [])"

section \<open>The guard\<close>

definition initialize_backend ::
  "(gmap \<Rightarrow> string) \<Rightarrow> string \<Rightarrow> time \<Rightarrow> string \<Rightarrow> server_config \<Rightarrow> int \<Rightarrow> guard_disk \<Rightarrow> guard_disk \<times> goerror option" where
  "initialize_backend hash version now p c deployments s =
     save_backend_metadata p
       \<lparr>bm_type = st_type (sv_store c), bm_config_hash = calculate_config_hash hash c, bm_initialized_at = now,
        bm_last_validated_at = now, bm_deployment_count = deployments,
        bm_configuration = sanitize_backend (sv_store c), bm_version = version\<rparr> s"

text \<open>Other members, and values of other types, are ignored.\<close>

definition apply_update :: "string \<times> gval \<Rightarrow> backend_metadata \<Rightarrow> backend_metadata" where
  "apply_update u m =
     (case snd u of
        GInt n \<Rightarrow> if fst u = ''deployment_count'' then m\<lparr>bm_deployment_count := n\<rparr> else m
      | GTime t \<Rightarrow> if fst u = ''last_validated_at'' then m\<lparr>bm_last_validated_at := t\<rparr> else m
      | _ \<Rightarrow> m)"

definition update_backend_metadata :: "string \<Rightarrow> gmap \<Rightarrow> guard_disk \<Rightarrow> guard_disk \<times> goerror option" where
  "update_backend_metadata p updates s =
     (case get_backend_metadata p s of
        Inl e \<Rightarrow> (s, Some (WrapError ''failed to load existing metadata: '' e ''''))
      | Inr m \<Rightarrow> save_backend_metadata p (fold apply_update updates m) s)"

definition validate_backend ::
  "(gmap \<Rightarrow> string) \<Rightarrow> time \<Rightarrow> string \<Rightarrow> server_config \<Rightarrow> guard_disk \<Rightarrow> guard_disk \<times> goerror option" where
  "validate_backend hash now p c s =
     (case get_backend_metadata p s of
        Inl e \<Rightarrow>
          (s, Some (if backend_not_initialized \<in> set (error_chain e) then e
                    else WrapError ''failed to load backend metadata: '' e ''''))
      | Inr m \<Rightarrow>
          (if bm_type m \<noteq> st_type (sv_store c)
           then (s, Some (WrapError '''' backend_mismatch
                  ('': initialized='' @ bm_type m @ '', configured='' @ st_type (sv_store c))))
           else if st_type (sv_store c) = ''aws'' \<and> bm_config_hash m \<noteq> calculate_config_hash hash c
           then (s, Some (WrapError '''' unsafe_backend_switch '': configuration has changed since initialization''))
           else (fst (update_backend_metadata p [(''last_validated_at'', GTime now)] s), None)))"

definition force_reinitialize ::
  "(gmap \<Rightarrow> string) \<Rightarrow> string \<Rightarrow> time \<Rightarrow> string \<Rightarrow> server_config \<Rightarrow> guard_disk \<Rightarrow> guard_disk \<times> goerror option" where
  "force_reinitialize hash version now p c s =
     (case gd_fails s GuardRemove of
        Some e \<Rightarrow> (s, Some (WrapError ''failed to remove existing backend lock: '' e ''''))
      | None \<Rightarrow> initialize_backend hash version now p c 0 (s\<lparr>gd_files := (gd_files s)(p := NoBackendFile)\<rparr>))"

definition validate_or_initialize ::
  "(gmap \<Rightarrow> string) \<Rightarrow> string \<Rightarrow> time \<Rightarrow> string \<Rightarrow> server_config \<Rightarrow> guard_disk \<Rightarrow> guard_disk \<times> goerror option" where
  "validate_or_initialize hash version now p c s =
     (case validate_backend hash now p c s of
        (s1, None) \<Rightarrow> (s1, None)
      | (s1, Some e) \<Rightarrow>
          (if backend_not_initialized \<in> set (error_chain e)
           then (case initialize_backend hash version now p c 0 s1 of
                   (s2, None) \<Rightarrow> (s2, None)
                 | (s2, Some e2) \<Rightarrow> (s2, Some (WrapError ''failed to initialize backend: '' e2 '''')))
           else (s1, Some (WrapError ''backend validation failed: '' e ''''))))"

definition validate_backend_safety ::
  "(gmap \<Rightarrow> string) \<Rightarrow> string list \<Rightarrow> string \<Rightarrow> time \<Rightarrow> server_config \<Rightarrow> guard_disk \<Rightarrow> guard_disk \<times> goerror option" where
  "validate_backend_safety hash env version now c s =
     (let p = backend_lock_path (sv_state_dir c) in
      if st_type (sv_store c) = ''memory'' then (s, None)
      else if getenv env ''LATTIAM_FORCE_BACKEND_REINIT'' = ''true''
      then (case force_reinitialize hash version now p c s of
              (s1, None) \<Rightarrow> (s1, None)
            | (s1, Some e) \<Rightarrow> (s1, Some (WrapError ''failed to force reinitialize backend: '' e '''')))
      else
        (case validate_or_initialize hash version now p c s of
           (s1, None) \<Rightarrow> (s1, None)
         | (s1, Some e) \<Rightarrow>
             (s1, Some (WrapError (if backend_mismatch \<in> set (error_chain e) \<or> unsafe_backend_switch \<in> set (error_chain e)
                                   then ''backend validation failed: '' else ''backend validation error: '') e ''''))))"

section \<open>What the file records\<close>

text \<open>A start of the server: the calls that fail during it, the time and the configuration.\<close>

type_synonym server_start = "(guard_call \<Rightarrow> goerror option) \<times> time \<times> server_config"

definition guarded_start ::
  "(gmap \<Rightarrow> string) \<Rightarrow> string list \<Rightarrow> string \<Rightarrow> server_start \<Rightarrow> guard_disk \<Rightarrow> guard_disk \<times> goerror option" where
  "guarded_start hash env version st s =
     (case st of (fails, now, c) \<Rightarrow> validate_backend_safety hash env version now c (s\<lparr>gd_fails := fails\<rparr>))"

definition bound_to :: "string \<Rightarrow> string \<Rightarrow> string \<Rightarrow> guard_disk \<Rightarrow> bool" where
  "bound_to p type h s \<longleftrightarrow> (case gd_files s p of BackendFile m \<Rightarrow> bm_type m = type \<and> bm_config_hash m = h | _ \<Rightarrow> False)"

lemma bound_faults [simp]: "bound_to p type h (s\<lparr>gd_fails := f\<rparr>) = bound_to p type h s"
  by (simp add: bound_to_def)

lemma save_backend_either:
  "save_backend_metadata p m s = (s\<lparr>gd_files := (gd_files s)(p := BackendFile (stored_backend m))\<rparr>, None) \<or>
   (\<exists>e. save_backend_metadata p m s = (s, Some e))"
  by (simp add: save_backend_metadata_def split: option.splits)

lemma save_backend_cases:
  obtains "save_backend_metadata p m s = (s\<lparr>gd_files := (gd_files s)(p := BackendFile (stored_backend m))\<rparr>, None)"
  | e where "save_backend_metadata p m s = (s, Some e)"
  using save_backend_either by blast

lemma update_bound:
  assumes "bound_to q type h s"
  shows "bound_to q type h (fst (update_backend_metadata p updates s))"
proof (cases "get_backend_metadata p s")
  case (Inr m)
  have kept: "bm_type (fold apply_update us m) = bm_type m \<and> bm_config_hash (fold apply_update us m) = bm_config_hash m" for us
    by (induction us arbitrary: m) (auto simp: apply_update_def split: gval.splits)
  have "gd_files s p = BackendFile m"
    using Inr by (auto simp: get_backend_metadata_def split: option.splits backend_file.splits)
  then show ?thesis
    using assms kept Inr
    by (cases rule: save_backend_cases [of p "fold apply_update updates m" s])
      (auto simp: update_backend_metadata_def bound_to_def stored_backend_def)
qed (use assms in \<open>simp add: update_backend_metadata_def\<close>)

text \<open>A validation accepts what is recorded, and keeps it.\<close>

lemma validate_bound: "bound_to q type h s \<Longrightarrow> bound_to q type h (fst (validate_backend hash now p c s))"
  by (auto simp: validate_backend_def update_bound split: sum.splits)

lemma validate_accepts:
  assumes "validate_backend hash now p c s = (s', None)"
  obtains m where "gd_files s p = BackendFile m" "bm_type m = st_type (sv_store c)"
    "st_type (sv_store c) = ''aws'' \<longrightarrow> bm_config_hash m = calculate_config_hash hash c"
    "bound_to p (bm_type m) (bm_config_hash m) s'"
proof (cases "get_backend_metadata p s")
  case (Inr m)
  have stored: "gd_files s p = BackendFile m"
    using Inr by (auto simp: get_backend_metadata_def split: option.splits backend_file.splits)
  then have "bound_to p (bm_type m) (bm_config_hash m) (fst (validate_backend hash now p c s))"
    by (intro validate_bound) (simp add: bound_to_def)
  then show ?thesis using that [OF stored] assms Inr by (auto simp: validate_backend_def split: if_splits)
qed (use assms in \<open>simp add: validate_backend_def\<close>)

definition os_errors :: "(guard_call \<Rightarrow> goerror option) \<Rightarrow> bool" where
  "os_errors fails \<longleftrightarrow> (\<forall>f e. fails f = Some e \<longrightarrow> backend_not_initialized \<notin> set (error_chain e))"

lemma sentinel_texts [simp]:
  "backend_not_initialized \<noteq> backend_lock_corrupted" "backend_not_initialized \<noteq> backend_mismatch"
  "backend_not_initialized \<noteq> unsafe_backend_switch" "backend_not_initialized \<noteq> WrapError b e a"
  by (simp_all add: backend_not_initialized_def backend_lock_corrupted_def backend_mismatch_def unsafe_backend_switch_def)

lemma sentinel_chains [simp]:
  "error_chain backend_lock_corrupted = [backend_lock_corrupted]" "error_chain backend_mismatch = [backend_mismatch]"
  "error_chain unsafe_backend_switch = [unsafe_backend_switch]" "error_chain backend_not_initialized = [backend_not_initialized]"
  by (simp_all add: backend_not_initialized_def backend_lock_corrupted_def backend_mismatch_def unsafe_backend_switch_def)

lemma not_initialized_metadata:
  assumes "os_errors (gd_fails s)" and "get_backend_metadata p s = Inl e" and "backend_not_initialized \<in> set (error_chain e)"
  shows "gd_files s p = NoBackendFile"
  using assms by (auto simp: get_backend_metadata_def os_errors_def split: option.splits backend_file.splits)

lemma validate_refuses:
  assumes "os_errors (gd_fails s)" and "validate_backend hash now p c s = (s', Some e)"
  shows "s' = s \<and> (backend_not_initialized \<in> set (error_chain e) \<longrightarrow> gd_files s p = NoBackendFile)"
proof (cases "get_backend_metadata p s")
  case (Inl e')
  then show ?thesis using not_initialized_metadata [OF assms(1) Inl] assms(2) by (auto simp: validate_backend_def split: if_splits)
qed (use assms(2) in \<open>auto simp: validate_backend_def split: if_splits\<close>)

text \<open>What is recorded is never given up without force.\<close>

lemma initialize_records:
  assumes "initialize_backend hash version now p c n s = (s', None)"
  shows "bound_to p (st_type (sv_store c)) (calculate_config_hash hash c) s'"
  using assms unfolding initialize_backend_def
  by (cases rule: save_backend_cases [of p "\<lparr>bm_type = st_type (sv_store c), bm_config_hash = calculate_config_hash hash c,
      bm_initialized_at = now, bm_last_validated_at = now, bm_deployment_count = n,
      bm_configuration = sanitize_backend (sv_store c), bm_version = version\<rparr>" s])
    (auto simp: bound_to_def stored_backend_def)

lemma initialize_elsewhere:
  "gd_files s p = NoBackendFile \<Longrightarrow> bound_to q type h s \<Longrightarrow> bound_to q type h (fst (initialize_backend hash version now p c n s))"
  unfolding initialize_backend_def
  by (cases rule: save_backend_cases [of p "\<lparr>bm_type = st_type (sv_store c), bm_config_hash = calculate_config_hash hash c,
      bm_initialized_at = now, bm_last_validated_at = now, bm_deployment_count = n,
      bm_configuration = sanitize_backend (sv_store c), bm_version = version\<rparr>" s])
    (auto simp: bound_to_def)

lemma validate_or_initialize_bound:
  assumes "os_errors (gd_fails s)" and "bound_to q type h s"
  shows "bound_to q type h (fst (validate_or_initialize hash version now p c s))"
proof (cases "validate_backend hash now p c s")
  case (Pair s1 r)
  show ?thesis
  proof (cases r)
    case None
    then show ?thesis using Pair validate_bound [OF assms(2), of hash now p c] by (simp add: validate_or_initialize_def)
  next
    case (Some e)
    note refused = validate_refuses [OF assms(1) Pair [unfolded Some]]
    show ?thesis
    proof (cases "backend_not_initialized \<in> set (error_chain e)")
      case True
      then have "bound_to q type h (fst (initialize_backend hash version now p c 0 s))"
        using refused assms(2) by (intro initialize_elsewhere) auto
      then show ?thesis using refused True Pair Some
        by (auto simp: validate_or_initialize_def split: prod.splits option.splits)
    qed (use refused Pair Some assms(2) in \<open>simp add: validate_or_initialize_def\<close>)
  qed
qed

lemma validate_or_initialize_accepts:
  assumes "os_errors (gd_fails s)" and "validate_or_initialize hash version now p c s = (s', None)"
  shows "\<exists>h. bound_to p (st_type (sv_store c)) h s' \<and> (st_type (sv_store c) = ''aws'' \<longrightarrow> h = calculate_config_hash hash c) \<and>
    (\<forall>type h'. bound_to p type h' s \<longrightarrow> type = st_type (sv_store c) \<and> h' = h)"
proof (cases "validate_backend hash now p c s")
  case (Pair s1 r)
  show ?thesis
  proof (cases r)
    case None
    then have "validate_backend hash now p c s = (s', None)" using Pair assms(2) by (simp add: validate_or_initialize_def)
    then obtain m where "gd_files s p = BackendFile m" "bm_type m = st_type (sv_store c)"
      "st_type (sv_store c) = ''aws'' \<longrightarrow> bm_config_hash m = calculate_config_hash hash c"
      "bound_to p (bm_type m) (bm_config_hash m) s'" by (rule validate_accepts)
    then show ?thesis by (intro exI [of _ "bm_config_hash m"]) (auto simp: bound_to_def)
  next
    case (Some e)
    note refused = validate_refuses [OF assms(1) Pair [unfolded Some]]
    have init: "backend_not_initialized \<in> set (error_chain e)" "initialize_backend hash version now p c 0 s = (s', None)"
      using assms(2) refused Pair Some by (auto simp: validate_or_initialize_def split: if_splits prod.splits option.splits)
    then show ?thesis using initialize_records [OF init(2)] refused by (auto simp: bound_to_def)
  qed
qed

lemma guarded_start_bound:
  assumes "getenv env ''LATTIAM_FORCE_BACKEND_REINIT'' \<noteq> ''true''" and "os_errors (fst st)" and "bound_to q type h s"
  shows "bound_to q type h (fst (guarded_start hash env version st s))"
proof (cases st)
  case (fields fails now c)
  then have "bound_to q type h (fst (validate_or_initialize hash version now (backend_lock_path (sv_state_dir c)) c (s\<lparr>gd_fails := fails\<rparr>)))"
    using assms(2,3) by (intro validate_or_initialize_bound) simp_all
  then show ?thesis using assms(1,3) fields
    by (auto simp: guarded_start_def validate_backend_safety_def Let_def split: prod.splits option.splits)
qed

text \<open>A start that is accepted, of a store that is not in memory.\<close>

lemma guarded_start_accepts:
  assumes "getenv env ''LATTIAM_FORCE_BACKEND_REINIT'' \<noteq> ''true''" and "os_errors fails" and "st_type (sv_store c) \<noteq> ''memory''"
    and "guarded_start hash env version (fails, now, c) s = (s', None)"
  shows "\<exists>h. bound_to (backend_lock_path (sv_state_dir c)) (st_type (sv_store c)) h s' \<and>
    (st_type (sv_store c) = ''aws'' \<longrightarrow> h = calculate_config_hash hash c) \<and>
    (\<forall>type h'. bound_to (backend_lock_path (sv_state_dir c)) type h' s \<longrightarrow> type = st_type (sv_store c) \<and> h' = h)"
proof -
  let ?p = "backend_lock_path (sv_state_dir c)" and ?s = "s\<lparr>gd_fails := fails\<rparr>"
  have "validate_or_initialize hash version now ?p c ?s = (s', None)"
    using assms(1,3,4) by (auto simp: guarded_start_def validate_backend_safety_def Let_def split: prod.splits option.splits)
  from validate_or_initialize_accepts [OF _ this] show ?thesis using assms(2) by simp
qed

section \<open>The guard keeps the backend\<close>

definition guarded_starts ::
  "(gmap \<Rightarrow> string) \<Rightarrow> string list \<Rightarrow> string \<Rightarrow> server_start list \<Rightarrow> guard_disk \<Rightarrow> guard_disk" where
  "guarded_starts hash env version sts s = fold (\<lambda>st s. fst (guarded_start hash env version st s)) sts s"

lemma guarded_starts_bound:
  assumes "getenv env ''LATTIAM_FORCE_BACKEND_REINIT'' \<noteq> ''true''" and "list_all (\<lambda>st. os_errors (fst st)) sts" and "bound_to q type h s"
  shows "bound_to q type h (guarded_starts hash env version sts s)"
  using assms(2,3) unfolding guarded_starts_def
  by (induction sts arbitrary: s) (use guarded_start_bound [OF assms(1)] in auto)

text \<open>Where the state is kept on AWS.\<close>

definition aws_location :: "state_store_config \<Rightarrow> string list" where
  "aws_location c =
     [s3_bucket (st_s3 c), s3_region (st_s3 c), s3_prefix (st_s3 c), dy_table (st_dynamodb c), dy_region (st_dynamodb c)]"

text \<open>
  C21: after a start that was accepted, and any further starts that were accepted or not, with any failures of the disk, a
  start with the same state directory is only accepted with the same kind of store, and on AWS with the same bucket,
  prefix, table and regions, unless the hashes of two configurations collide or the reinitialization is forced.
\<close>

theorem guard_keeps_backend:
  assumes "getenv env ''LATTIAM_FORCE_BACKEND_REINIT'' \<noteq> ''true''"
    and "os_errors fails" and "os_errors fails'" and "list_all (\<lambda>st. os_errors (fst st)) sts"
    and "guarded_start hash env version (fails, now, c) s = (s1, None)"
    and "guarded_start hash env version (fails', now', c') (guarded_starts hash env version sts s1) = (s2, None)"
    and "sv_state_dir c' = sv_state_dir c" and "st_type (sv_store c) \<noteq> ''memory''" and "st_type (sv_store c') \<noteq> ''memory''"
    and "inj_on hash {critical_config (sv_store c), critical_config (sv_store c')}"
  shows "st_type (sv_store c') = st_type (sv_store c) \<and>
    (st_type (sv_store c) = ''aws'' \<longrightarrow> aws_location (sv_store c') = aws_location (sv_store c))"
proof -
  let ?p = "backend_lock_path (sv_state_dir c)"
  obtain h where h: "bound_to ?p (st_type (sv_store c)) h s1"
    "st_type (sv_store c) = ''aws'' \<longrightarrow> h = calculate_config_hash hash c"
    using guarded_start_accepts [OF assms(1,2,8,5)] by blast
  obtain h' where h': "st_type (sv_store c') = ''aws'' \<longrightarrow> h' = calculate_config_hash hash c'"
    "\<forall>type k. bound_to ?p type k (guarded_starts hash env version sts s1) \<longrightarrow> type = st_type (sv_store c') \<and> k = h'"
    using guarded_start_accepts [OF assms(1,3,9,6)] assms(7) by auto
  have type: "st_type (sv_store c') = st_type (sv_store c)" and "h' = h"
    using h'(2) guarded_starts_bound [OF assms(1,4) h(1)] by metis+
  moreover have "aws_location (sv_store c') = aws_location (sv_store c)" if aws: "st_type (sv_store c) = ''aws''"
  proof -
    have "hash (critical_config (sv_store c)) = hash (critical_config (sv_store c'))"
      using aws type \<open>h' = h\<close> h(2) h'(1) by (simp add: calculate_config_hash_def)
    from inj_onD [OF assms(10) this] have "critical_config (sv_store c) = critical_config (sv_store c')" by blast
    then show ?thesis using aws type by (simp add: critical_config_def aws_location_def)
  qed
  ultimately show ?thesis by blast
qed

definition guard_sample :: "string \<Rightarrow> string \<Rightarrow> server_config" where
  "guard_sample bucket table =
     new_server_config\<lparr>sv_state_dir := ''/s'',
       sv_store := \<lparr>st_type = ''aws'', st_file_path = ''/s/d'',
         st_s3 = \<lparr>s3_bucket = bucket, s3_region = ''eu'', s3_prefix = ''p/'', s3_endpoint = ''''\<rparr>,
         st_dynamodb = \<lparr>dy_table = table, dy_region = ''eu'', dy_endpoint = '''',
           dy_locking = \<lparr>lk_enabled = True, lk_ttl_seconds = 300\<rparr>\<rparr>\<rparr>\<rparr>"

text \<open>The critical configuration written as text.\<close>

definition sample_hash :: "gmap \<Rightarrow> string" where
  "sample_hash m = concat (map (\<lambda>(k, v). case v of GStr s \<Rightarrow> k @ ''='' @ s @ '';'' | _ \<Rightarrow> k) m)"

definition fresh_disk :: guard_disk where
  "fresh_disk = \<lparr>gd_files = \<lambda>_. NoBackendFile, gd_fails = \<lambda>_. None\<rparr>"

definition sample_start :: "string \<Rightarrow> server_start" where
  "sample_start bucket = ((\<lambda>_. None), 63745021234000000000, guard_sample bucket ''t'')"

text \<open>The first start is accepted, the second, with another bucket, refused, the third accepted.\<close>

theorem guard_keeps_backend_witness:
  "\<exists>s1 s2. guarded_start sample_hash [] ''dev'' (sample_start ''a'') fresh_disk = (s1, None) \<and>
     snd (guarded_start sample_hash [] ''dev'' (sample_start ''b'') s1) \<noteq> None \<and>
     guarded_start sample_hash [] ''dev'' (sample_start ''a'') (guarded_starts sample_hash [] ''dev'' [sample_start ''b''] s1) = (s2, None) \<and>
     aws_location (sv_store (guard_sample ''a'' ''t'')) = [''a'', ''eu'', ''p/'', ''t'', ''eu'']"
proof -
  let ?start = "\<lambda>b. guarded_start sample_hash [] ''dev'' (sample_start b)"
  have "snd (?start ''a'' fresh_disk) = None" by code_simp
  then obtain s1 where s1: "?start ''a'' fresh_disk = (s1, None)" by (cases "?start ''a'' fresh_disk") auto
  have "snd (?start ''a'' (guarded_starts sample_hash [] ''dev'' [sample_start ''b''] (fst (?start ''a'' fresh_disk)))) = None"
    by code_simp
  then obtain s2 where s2: "?start ''a'' (guarded_starts sample_hash [] ''dev'' [sample_start ''b''] s1) = (s2, None)"
    using s1 by (cases "?start ''a'' (guarded_starts sample_hash [] ''dev'' [sample_start ''b''] s1)") auto
  have refused: "snd (?start ''b'' (fst (?start ''a'' fresh_disk))) \<noteq> None" by code_simp
  have force: "getenv [] ''LATTIAM_FORCE_BACKEND_REINIT'' \<noteq> ''true''" by (simp add: getenv_def entries_def)
  have faults: "os_errors (\<lambda>_. None)" by (simp add: os_errors_def)
  have "aws_location (sv_store (guard_sample ''a'' ''t'')) = aws_location (sv_store (guard_sample ''a'' ''t''))"
    using guard_keeps_backend [OF force faults faults _ s1 [unfolded sample_start_def] s2 [unfolded sample_start_def [of "''a''"]]] faults
    by (simp add: guard_sample_def sample_start_def)
  then show ?thesis using s1 s2 refused by (auto simp: guard_sample_def aws_location_def)
qed

text \<open>The path of the file store is hashed and recorded, and never compared: another path is accepted.\<close>

lemma file_switch_unnoticed:
  assumes "getenv env ''LATTIAM_FORCE_BACKEND_REINIT'' \<noteq> ''true''" and "os_errors fails"
    and "guarded_start hash env version (fails, now, c) s = (s1, None)" and "sv_state_dir c' = sv_state_dir c"
    and "st_type (sv_store c) = ''file''" and "st_type (sv_store c') = ''file''"
  shows "\<exists>s2. guarded_start hash env version ((\<lambda>_. None), now', c') s1 = (s2, None)"
proof -
  let ?p = "backend_lock_path (sv_state_dir c)"
  obtain h where "bound_to ?p ''file'' h s1" using guarded_start_accepts [OF assms(1,2) _ assms(3)] assms(5) by auto
  then obtain m where "gd_files s1 ?p = BackendFile m" "bm_type m = ''file''" by (auto simp: bound_to_def split: backend_file.splits)
  then have "\<exists>s2. validate_backend hash now' ?p c' (s1\<lparr>gd_fails := \<lambda>_. None\<rparr>) = (s2, None)"
    using assms(6) by (simp add: validate_backend_def get_backend_metadata_def)
  then obtain s2 where s2: "validate_backend hash now' ?p c' (s1\<lparr>gd_fails := \<lambda>_. None\<rparr>) = (s2, None)" by blast
  show ?thesis
    using assms(1,4,6) s2
    by (auto simp: guarded_start_def validate_backend_safety_def validate_or_initialize_def Let_def)
qed

end
