(* ===== verification/System_Setup.thy ===== *)
theory System_Setup
  imports Server_Config DynamoDB_Lock Worker_Pool Distributed_Queue
begin

text \<open>
  How the components are created: \<^verbatim>\<open>internal/system/component_factory.go\<close>, \<^verbatim>\<open>background_system_factory.go\<close> and
  \<^verbatim>\<open>internal/utils/components/factories.go\<close>. The constructor of a store is a parameter \<open>opened\<close> that takes which store
  is created with which arguments; mocks are one such store. The options are maps; those of a store hold a path and the
  configuration of the server.
\<close>

section \<open>Stores\<close>

datatype store_choice = MockStore | FileStoreAt string | AWSStoreWith aws_config "lock_config option"

record store_options =
  so_path :: "string option"
  so_server_config :: "server_config option"

text \<open>The locks are in a table of their own.\<close>

definition extract_aws_config :: "store_options \<Rightarrow> goerror + store_choice" where
  "extract_aws_config options =
     (case so_server_config options of
        None \<Rightarrow> Inl (ErrorString ''server configuration not found in options'')
      | Some c \<Rightarrow>
          (let s3 = st_s3 (sv_store c); dy = st_dynamodb (sv_store c) in
           Inr (AWSStoreWith
             \<lparr>ag_table = dy_table dy, ag_dynamodb_region = dy_region dy, ag_bucket = s3_bucket s3, ag_s3_region = s3_region s3,
              ag_prefix = s3_prefix s3,
              ag_endpoint = (if s3_endpoint s3 = '''' \<and> dy_endpoint dy \<noteq> '''' then dy_endpoint dy else s3_endpoint s3)\<rparr>
             (if lk_enabled (dy_locking dy)
              then Some \<lparr>lc_table = dy_table dy @ ''-locks'', lc_region = dy_region dy, lc_endpoint = dy_endpoint dy,
                     lc_ttl = wrapped_duration (lk_ttl_seconds (dy_locking dy) * second), lc_refresh_interval = 0,
                     lc_timeout = 0\<rparr>
              else None))))"

definition file_store_path :: "string list \<Rightarrow> store_options option \<Rightarrow> goerror + string" where
  "file_store_path env options =
     (let p = (case options of None \<Rightarrow> ''./deployments''
               | Some os \<Rightarrow> (case so_path os of None \<Rightarrow> ''./deployments'' | Some p \<Rightarrow> p))
      in if has_prefix p ''~/''
         then (case user_home_dir env of
                 Inl e \<Rightarrow> Inl (WrapError ''failed to get home directory: '' e '''')
               | Inr home \<Rightarrow> Inr (path_join [home, drop 2 p]))
         else Inr p)"

definition create_state_store ::
  "string list \<Rightarrow> (store_choice \<Rightarrow> goerror + 's) \<Rightarrow> string \<Rightarrow> store_options option \<Rightarrow> goerror + 's" where
  "create_state_store env opened type options =
     (if type = ''memory'' \<or> type = ''mock'' \<or> type = '''' then opened MockStore
      else if type = ''file''
      then (case file_store_path env options of
              Inl e \<Rightarrow> Inl e
            | Inr p \<Rightarrow> map_sum (\<lambda>e. WrapError ''failed to create file state store: '' e '''') id (opened (FileStoreAt p)))
      else if type = ''aws''
      then (case options of
              None \<Rightarrow> Inl (ErrorString ''AWS configuration options are required'')
            | Some os \<Rightarrow>
                (case extract_aws_config os of
                   Inl e \<Rightarrow> Inl (WrapError ''failed to extract AWS configuration: '' e '''')
                 | Inr choice \<Rightarrow> map_sum (\<lambda>e. WrapError ''failed to create AWS state store: '' e '''') id (opened choice)))
      else Inl (ErrorString (''unsupported StateStore type: '' @ type @ '' (supported: memory, mock, aws)'')))"

text \<open>The store of the executor and the API.\<close>

definition create_server_store :: "string list \<Rightarrow> (store_choice \<Rightarrow> goerror + 's) \<Rightarrow> server_config \<Rightarrow> goerror + 's" where
  "create_server_store env opened c =
     map_sum (\<lambda>e. WrapError ''failed to create state store: '' e '''') id
       (create_state_store env opened (st_type (sv_store c))
         (Some \<lparr>so_path = Some (st_file_path (sv_store c)), so_server_config = Some c\<rparr>))"

section \<open>Providers and resolvers\<close>

text \<open>None is a panic: an option that is no bool.\<close>

definition flag_option :: "gmap option \<Rightarrow> string \<Rightarrow> bool option" where
  "flag_option options k =
     (case options of None \<Rightarrow> Some False
      | Some m \<Rightarrow> (case map_of m k of None \<Rightarrow> Some False | Some (GBool b) \<Rightarrow> Some b | Some _ \<Rightarrow> None))"

datatype manager_choice = MockManager bool | RealManager string bool

definition create_real_manager :: "gmap option \<Rightarrow> manager_choice option" where
  "create_real_manager options =
     (let dir = (case options of None \<Rightarrow> ''./providers''
                 | Some m \<Rightarrow> (case map_of m ''provider_dir'' of Some (GStr d) \<Rightarrow> d | _ \<Rightarrow> ''./providers''))
      in map_option (RealManager dir) (flag_option options ''enable_binary_cache''))"

text \<open>The mock fails on request; this option may be anything.\<close>

definition create_lifecycle_manager :: "gmap option \<Rightarrow> manager_choice option" where
  "create_lifecycle_manager options =
     (case flag_option options ''use_mock'' of
        None \<Rightarrow> None
      | Some True \<Rightarrow> Some (MockManager (case options of None \<Rightarrow> False
          | Some m \<Rightarrow> (case map_of m ''should_fail'' of Some (GBool b) \<Rightarrow> b | _ \<Rightarrow> False)))
      | Some False \<Rightarrow> create_real_manager options)"

definition create_provider_monitor :: "gmap option \<Rightarrow> manager_choice option" where
  "create_provider_monitor options =
     (case flag_option options ''use_mock'' of
        None \<Rightarrow> None
      | Some True \<Rightarrow> Some (MockManager False)
      | Some False \<Rightarrow> create_real_manager options)"

text \<open>Whether the resolvers of production are created, with their mode.\<close>

definition create_dependency_resolver :: "gmap option \<Rightarrow> bool \<Rightarrow> bool option option" where
  "create_dependency_resolver options debug =
     map_option (\<lambda>mock. if mock then None else Some debug) (flag_option options ''use_mock'')"

definition create_interpolation_resolver :: "gmap option \<Rightarrow> bool \<Rightarrow> bool option option" where
  "create_interpolation_resolver options strict =
     map_option (\<lambda>mock. if mock then None else Some strict) (flag_option options ''use_mock'')"

definition create_server_manager :: "server_config \<Rightarrow> manager_choice option" where
  "create_server_manager c = create_lifecycle_manager (Some [(''provider_dir'', GStr (sv_provider_dir c))])"

definition create_server_interpolator :: "bool option option" where
  "create_server_interpolator = create_interpolation_resolver (Some []) False"

section \<open>The background system\<close>

datatype 's background =
    EmbeddedSystem emb_queue "'s tracked" int
  | DistributedSystem conn_opt int

definition embedded_options :: "server_config \<Rightarrow> store_options" where
  "embedded_options c =
     \<lparr>so_path = (if st_type (sv_store c) = ''file'' \<and> st_file_path (sv_store c) \<noteq> '''' then Some (st_file_path (sv_store c)) else None),
      so_server_config = (if st_type (sv_store c) = ''aws'' then Some c else None)\<rparr>"

text \<open>The tracker gets a store of its own. \<open>s0\<close> stands for no store.\<close>

definition new_embedded_system ::
  "string list \<Rightarrow> (store_choice \<Rightarrow> goerror + 's store_ops \<times> 's) \<Rightarrow> server_config \<Rightarrow> 's \<Rightarrow> goerror + 's background" where
  "new_embedded_system env opened c s0 =
     (let queue = new_queue 100; type = st_type (sv_store c) in
      case (if type \<noteq> '''' \<and> type \<noteq> ''none''
            then (case create_state_store env opened type (Some (embedded_options c)) of
                    Inl e \<Rightarrow> Inl (WrapError ''failed to create state store: '' e '''')
                  | Inr (ops, st) \<Rightarrow>
                      (case tracker_load (Some ops) (new_tracker, st) of
                         (ts, Some e) \<Rightarrow> Inl (WrapError ''failed to load deployments from state store: '' e '''')
                       | (ts, None) \<Rightarrow> Inr ts))
            else Inr (new_tracker, s0)) of
        Inl e \<Rightarrow> Inl e
      | Inr ts \<Rightarrow>
          (case new_worker_pool \<lparr>worker_pool_config.wc_min_workers = 1, wc_max_workers = 4, wc_has_queue = True,
                  wc_has_tracker = True, wc_has_executor = True\<rparr> of
             Inl e \<Rightarrow> Inl (WrapError ''failed to create embedded worker pool: '' e '''')
           | Inr workers \<Rightarrow> Inr (EmbeddedSystem queue ts workers)))"

definition new_background_system ::
  "string list \<Rightarrow> (store_choice \<Rightarrow> goerror + 's store_ops \<times> 's) \<Rightarrow> 'w asynq \<Rightarrow> 'w \<Rightarrow> server_config option \<Rightarrow> bool \<Rightarrow> 's \<Rightarrow>
     goerror + 's background" where
  "new_background_system env opened aq w cfg has_executor s0 =
     (case cfg of
        None \<Rightarrow> Inl (ErrorString ''configuration is required'')
      | Some c \<Rightarrow>
          (if \<not> has_executor then Inl (ErrorString ''executor is required'')
           else if sv_queue_type c = ''embedded'' then new_embedded_system env opened c s0
           else if sv_queue_type c = ''distributed''
           then map_sum id (\<lambda>(opt, n). DistributedSystem opt n) (new_distributed_system aq (sv_redis_url c) w)
           else Inl (ErrorString (''unsupported queue type: '' @ sv_queue_type c))))"

text \<open>The components that are there are closed in this order, up to the first that fails.\<close>

definition close_component :: "string \<times> ('w \<Rightarrow> 'w \<times> goerror option) option \<Rightarrow> 'w \<Rightarrow> 'w \<times> goerror option" where
  "close_component part w =
     (case snd part of
        None \<Rightarrow> (w, None)
      | Some f \<Rightarrow> (case f w of (w1, e) \<Rightarrow> (w1, map_option (\<lambda>e. WrapError (fst part) e '''') e)))"

definition close_system ::
  "('w \<Rightarrow> 'w \<times> goerror option) option \<Rightarrow> ('w \<Rightarrow> 'w \<times> goerror option) \<Rightarrow> ('w \<Rightarrow> 'w \<times> goerror option) option \<Rightarrow>
     ('w \<Rightarrow> 'w \<times> goerror option) option \<Rightarrow> 'w \<Rightarrow> 'w \<times> goerror option" where
  "close_system monitor pool queue tracker =
     for_each close_component
       [(''failed to stop orphan monitor: '', monitor), (''failed to stop worker pool: '', Some pool),
        (''failed to close queue: '', queue), (''failed to close tracker: '', tracker)]"

section \<open>From the configuration to the store\<close>

text \<open>What the constructors check of their arguments, and what makes the locks work.\<close>

definition sound_choice :: "server_config \<Rightarrow> store_choice \<Rightarrow> bool" where
  "sound_choice c choice =
     (case choice of
        MockStore \<Rightarrow> st_type (sv_store c) = ''memory''
      | FileStoreAt p \<Rightarrow> st_type (sv_store c) = ''file'' \<and> p \<noteq> '''' \<and> clean_path p = p
      | AWSStoreWith cfg locking \<Rightarrow>
          st_type (sv_store c) = ''aws'' \<and> validate_aws_config cfg = None \<and> ag_prefix cfg \<noteq> '''' \<and>
          (case locking of
             None \<Rightarrow> \<not> lk_enabled (dy_locking (st_dynamodb (sv_store c)))
           | Some lc \<Rightarrow>
               lc_table lc \<noteq> '''' \<and> lc_table lc \<noteq> ag_table cfg \<and> lc_region lc \<noteq> '''' \<and>
               (9223372036 < lk_ttl_seconds (dy_locking (st_dynamodb (sv_store c))) \<or>
                0 < lc_ttl lc \<and> lc_ttl lc = lk_ttl_seconds (dy_locking (st_dynamodb (sv_store c))) * second)))"

lemma map_sum_id_Inr [simp]: "map_sum f id x = Inr s \<longleftrightarrow> x = Inr s"
  by (cases x) simp_all

lemma wrapped_small: "0 \<le> d \<Longrightarrow> d < 2 ^ 63 \<Longrightarrow> wrapped_duration d = d"
  by (simp add: wrapped_duration_def sint_sbintrunc' signed_take_bit_int_eq_self)

text \<open>
  C25: for every configuration the server starts with, creating its store comes down to one constructor, whose arguments
  pass its checks: a clean path that is not empty, or a bucket and a table with their regions and a prefix, and locks in
  another table with the time to live that was configured, up to 9223372036 seconds.
\<close>

theorem started_configuration_opens_store:
  assumes "create_server_config env port debug = Inr c" and "getenv env ''HOME'' \<noteq> ''''"
  shows "\<exists>choice. sound_choice c choice \<and>
    (\<forall>opened. (\<exists>s. create_server_store env opened c = Inr s) \<longleftrightarrow> (\<exists>s. opened choice = Inr s))"
proof -
  have valid: "config_valid c" and clean: "paths_clean c"
    using started_configuration_valid [OF assms(1)] by simp_all
  consider (files) "st_type (sv_store c) = ''file''" | (memory) "st_type (sv_store c) = ''memory''"
    | (aws) "st_type (sv_store c) = ''aws''" using valid by (auto simp: config_valid_def)
  then show ?thesis
  proof cases
    case files
    let ?q = "st_file_path (sv_store c)"
    define p where "p = (if has_prefix ?q ''~/'' then path_join [getenv env ''HOME'', drop 2 ?q] else ?q)"
    have "?q \<noteq> ''''" using clean clean_not_empty [of ?q] by (auto simp: paths_clean_def)
    moreover have "clean_path ?q = ?q" using clean by (simp add: paths_clean_def)
    moreover have "path_join [getenv env ''HOME'', x] \<noteq> ''''" for x using assms(2) by (simp add: path_join_def)
    ultimately have "p \<noteq> '''' \<and> clean_path p = p" using path_join_clean by (simp add: p_def)
    moreover have "file_store_path env (Some \<lparr>so_path = Some ?q, so_server_config = Some c\<rparr>) = Inr p"
      using assms(2) by (simp add: file_store_path_def user_home_dir_def p_def)
    ultimately show ?thesis
      using files by (intro exI [of _ "FileStoreAt p"]) (auto simp: sound_choice_def create_server_store_def create_state_store_def
          split: sum.splits)
  next
    case memory
    then show ?thesis
      by (intro exI [of _ MockStore]) (auto simp: sound_choice_def create_server_store_def create_state_store_def split: sum.splits)
  next
    case aws
    let ?os = "\<lparr>so_path = Some (st_file_path (sv_store c)), so_server_config = Some c\<rparr>"
    let ?ttl = "lk_ttl_seconds (dy_locking (st_dynamodb (sv_store c)))"
    obtain cfg locking where made: "extract_aws_config ?os = Inr (AWSStoreWith cfg locking)"
      by (simp add: extract_aws_config_def Let_def)
    have ttl: "wrapped_duration (?ttl * second) = ?ttl * second" if "?ttl \<le> 9223372036"
      using that valid aws by (intro wrapped_small) (simp_all add: config_valid_def second_def millisecond_def)
    have "sound_choice c (AWSStoreWith cfg locking)"
      using made valid aws ttl
      by (auto simp: extract_aws_config_def Let_def sound_choice_def config_valid_def validate_aws_config_def second_def
          millisecond_def not_less split: if_splits)
    then show ?thesis
      using aws made by (intro exI [of _ "AWSStoreWith cfg locking"])
        (auto simp: create_server_store_def create_state_store_def split: sum.splits)
  qed
qed

definition aws_env :: "string list" where
  "aws_env = [''HOME=/h'', ''LATTIAM_STATE_STORE=aws'', ''LATTIAM_AWS_S3_BUCKET=b'', ''LATTIAM_AWS_S3_REGION=eu'',
     ''LATTIAM_AWS_DYNAMODB_TABLE=t'', ''LATTIAM_AWS_DYNAMODB_REGION=eu'']"

theorem started_configuration_opens_store_witness:
  "\<exists>c cfg lc. create_server_config aws_env 8084 False = Inr c \<and> sound_choice c (AWSStoreWith cfg (Some lc)) \<and>
     create_server_store aws_env Inr c = Inr (AWSStoreWith cfg (Some lc))"
proof -
  have "case create_server_config aws_env 8084 False of Inl e \<Rightarrow> False
    | Inr c \<Rightarrow> st_type (sv_store c) = ''aws'' \<and> lk_enabled (dy_locking (st_dynamodb (sv_store c)))"
    by code_simp
  then obtain c where c: "create_server_config aws_env 8084 False = Inr c" "st_type (sv_store c) = ''aws''"
    "lk_enabled (dy_locking (st_dynamodb (sv_store c)))"
    by (auto split: sum.splits)
  have "getenv aws_env ''HOME'' \<noteq> ''''" by code_simp
  from started_configuration_opens_store [where ?'a = store_choice, OF c(1) this] obtain choice where both: "sound_choice c choice \<and>
    (\<forall>opened :: store_choice \<Rightarrow> goerror + store_choice.
      (\<exists>s. create_server_store aws_env opened c = Inr s) \<longleftrightarrow> (\<exists>s. opened choice = Inr s))" by (rule exE)
  note choice = conjunct1 [OF both] conjunct2 [OF both, rule_format]
  obtain cfg lc where made: "create_server_store aws_env Inr c = Inr (AWSStoreWith cfg (Some lc))"
    using c by (auto simp: create_server_store_def create_state_store_def extract_aws_config_def Let_def)
  have "(\<exists>s. create_server_store aws_env (\<lambda>x. if x = AWSStoreWith cfg (Some lc) then Inr x else Inl CtxCanceled) c = Inr s)"
    using made c by (auto simp: create_server_store_def create_state_store_def extract_aws_config_def Let_def)
  then have "choice = AWSStoreWith cfg (Some lc)" unfolding choice(2) by (auto split: if_splits)
  then show ?thesis using c(1) made choice(1) by blast
qed

text \<open>One second more, and the locks expire before they are made.\<close>

lemma long_locks_expire_at_once: "wrapped_duration (9223372037 * second) < 0"
  by (simp add: wrapped_duration_def second_def millisecond_def signed_take_bit_eq_if_negative bit_iff_odd take_bit_eq_mod)

text \<open>The kind of the queue is not validated: the server fails after its store is opened.\<close>

lemma queue_kind_unchecked:
  "validate_config (c\<lparr>sv_queue_type := q\<rparr>) = (let (c', e) = validate_config c in (c'\<lparr>sv_queue_type := q\<rparr>, e))"
  by (simp add: validate_config_def Let_def split: prod.split)

section \<open>Starting and closing\<close>

text \<open>
  With the embedded queue and a store that opens and lists its deployments, the background system starts with an
  empty queue for a hundred deployments, four workers, and a tracker that holds the deployments of the store and writes
  to it.
\<close>

lemma embedded_system_starts_loaded:
  assumes "sv_queue_type c = ''embedded''" and "st_type (sv_store c) \<notin> {'''', ''none''}"
    and "create_state_store env opened (st_type (sv_store c)) (Some (embedded_options c)) = Inr (ops, st)"
    and "so_list ops st = Inr ms"
  shows "\<exists>ts. new_background_system env opened aq w (Some c) True s0 = Inr (EmbeddedSystem (new_queue 100) ts 4) \<and>
    ts = (fold load_single_deployment ms (new_tracker\<lparr>et_store := Some ops\<rparr>), st) \<and>
    eq_channel (new_queue 100) = [] \<and> eq_capacity (new_queue 100) = 100"
  using assms by (simp add: new_background_system_def new_embedded_system_def tracker_load_def Let_def new_worker_pool_def
      new_queue_def)

text \<open>A component that fails to close keeps the later ones open.\<close>

lemma close_stops_at_failure:
  assumes "pool w = (w', Some e)"
  shows "close_system None pool queue tracker w = (w', Some (WrapError ''failed to stop worker pool: '' e ''''))"
  using assms by (simp add: close_system_def close_component_def)

end
