(* ===== verification/Server_Command.thy ===== *)
theory Server_Command
  imports System_Setup
begin

text \<open>
  Starting and stopping the server from the command line (\<^verbatim>\<open>cmd/lattiam/server.go\<close>): the file with the number of its
  process, the daemon, and stopping it. Files are inodes under a path, so that a file that was removed can still be
  written by who has it open. Every call of the operating system is a step of its own; which calls fail, and the
  processes, are parameters.
\<close>

section \<open>Files of processes\<close>

record pid_dir =
  pd_entries :: "string \<Rightarrow> nat option"
  pd_contents :: "nat \<Rightarrow> string"
  pd_next :: nat

record pid_calls =
  pc_mkdir :: "goerror option"
  pc_open :: "goerror option"
  pc_open_again :: "goerror option"
  pc_write :: "goerror option"

definition no_such_file :: goerror where
  "no_such_file = ErrorString ''no such file or directory''"

definition file_exists :: goerror where
  "file_exists = ErrorString ''file exists''"

definition invalid_number :: goerror where
  "invalid_number = ErrorString ''invalid syntax''"

definition read_pid_from_file :: "string \<Rightarrow> pid_dir \<Rightarrow> goerror + int" where
  "read_pid_from_file path d =
     (case pd_entries d path of
        None \<Rightarrow> Inl (WrapError (''failed to read PID file '' @ path @ '': '') no_such_file '''')
      | Some ino \<Rightarrow>
          (let text = trim_space (pd_contents d ino) in
           case parse_int64 text of
             None \<Rightarrow> Inl (WrapError (''failed to parse PID from file '' @ path @ '' (content: '' @ go_quote text @ ''): '')
                       invalid_number '''')
           | Some pid \<Rightarrow> Inr pid))"

definition remove_pid_file :: "string \<Rightarrow> pid_dir \<Rightarrow> pid_dir" where
  "remove_pid_file path d = d\<lparr>pd_entries := (pd_entries d)(path := None)\<rparr>"

definition is_server_running :: "(int \<Rightarrow> bool) \<Rightarrow> string \<Rightarrow> pid_dir \<Rightarrow> bool" where
  "is_server_running alive path d = (case read_pid_from_file path d of Inl e \<Rightarrow> False | Inr pid \<Rightarrow> alive pid)"

text \<open>Where \<^verbatim>\<open>savePID\<close> is; from the creation of the file on it holds its inode.\<close>

datatype save_point =
    SaveCreate | SaveCheck | SaveRemove | SaveCreateAgain | SaveWrite nat | SaveDone "goerror option"

definition create_exclusive :: "string \<Rightarrow> pid_dir \<Rightarrow> pid_dir \<times> nat" where
  "create_exclusive path d =
     (d\<lparr>pd_entries := (pd_entries d)(path \<mapsto> pd_next d), pd_contents := (pd_contents d)(pd_next d := ''''),
        pd_next := pd_next d + 1\<rparr>, pd_next d)"

fun save_step :: "pid_calls \<Rightarrow> (int \<Rightarrow> bool) \<Rightarrow> string \<Rightarrow> int \<Rightarrow> save_point \<times> pid_dir \<Rightarrow> save_point \<times> pid_dir" where
  "save_step v alive path me (SaveCreate, d) =
     (case pc_mkdir v of
        Some e \<Rightarrow> (SaveDone (Some (WrapError ''failed to create PID directory: '' e '''')), d)
      | None \<Rightarrow>
          (case pc_open v of
             Some e \<Rightarrow> (SaveDone (Some (WrapError (''failed to create PID file '' @ path @ '': '') e '''')), d)
           | None \<Rightarrow>
               (if pd_entries d path \<noteq> None then (SaveCheck, d)
                else (case create_exclusive path d of (d', ino) \<Rightarrow> (SaveWrite ino, d')))))"
| "save_step v alive path me (SaveCheck, d) =
     (case read_pid_from_file path d of
        Inr pid \<Rightarrow>
          (if alive pid
           then (SaveDone (Some (ErrorString (''server already running with PID '' @ itoa pid @ '' (pid file: '' @ path @ '')''))), d)
           else (SaveRemove, d))
      | Inl e \<Rightarrow> (SaveRemove, d))"
| "save_step v alive path me (SaveRemove, d) = (SaveCreateAgain, remove_pid_file path d)"
| "save_step v alive path me (SaveCreateAgain, d) =
     (let failed = (\<lambda>e. (SaveDone (Some (WrapError (''failed to create PID file '' @ path @ '' after removing stale file: '') e '''')), d))
      in case pc_open_again v of
           Some e \<Rightarrow> failed e
         | None \<Rightarrow>
             (if pd_entries d path \<noteq> None then failed file_exists
              else (case create_exclusive path d of (d', ino) \<Rightarrow> (SaveWrite ino, d'))))"
| "save_step v alive path me (SaveWrite ino, d) =
     (case pc_write v of
        Some e \<Rightarrow> (SaveDone (Some (WrapError ''failed to write PID: '' e '''')), remove_pid_file path d)
      | None \<Rightarrow> (SaveDone None, d\<lparr>pd_contents := (pd_contents d)(ino := itoa me @ [CHR 0x0A])\<rparr>))"
| "save_step v alive path me (SaveDone r, d) = (SaveDone r, d)"

text \<open>Run by itself it ends after five steps.\<close>

definition save_pid :: "pid_calls \<Rightarrow> (int \<Rightarrow> bool) \<Rightarrow> string \<Rightarrow> int \<Rightarrow> pid_dir \<Rightarrow> pid_dir \<times> goerror option" where
  "save_pid v alive path me d =
     (case (save_step v alive path me ^^ 5) (SaveCreate, d) of
        (SaveDone r, d') \<Rightarrow> (d', r)
      | (_, d') \<Rightarrow> (d', None))"

section \<open>The daemon\<close>

record 'w os_calls =
  oc_mkdir_all :: "string \<Rightarrow> 'w \<Rightarrow> 'w \<times> goerror option"
  oc_open_log :: "string \<Rightarrow> 'w \<Rightarrow> 'w \<times> goerror option"
  oc_executable :: "goerror + string"
  oc_start :: "string \<Rightarrow> string list \<Rightarrow> 'w \<Rightarrow> 'w \<times> (goerror + int)"
  oc_close_log :: "'w \<Rightarrow> 'w \<times> goerror option"
  oc_alive :: "int \<Rightarrow> 'w \<Rightarrow> bool"
  oc_terminate :: "int \<Rightarrow> 'w \<Rightarrow> 'w \<times> goerror option"
  oc_kill :: "int \<Rightarrow> 'w \<Rightarrow> 'w"
  oc_sleep :: "duration \<Rightarrow> 'w \<Rightarrow> 'w"

definition daemon_arguments :: "int \<Rightarrow> bool \<Rightarrow> string list" where
  "daemon_arguments port debug = [''server'', ''start'', ''--port'', itoa port] @ (if debug then [''--debug''] else [])"

definition server_failed_to_start :: goerror where
  "server_failed_to_start = ErrorString ''server failed to start, check logs''"

definition server_not_running :: goerror where
  "server_not_running = ErrorString ''server is not running''"

text \<open>From the start of the process on.\<close>

definition register_daemon ::
  "'w os_calls \<Rightarrow> pid_calls \<Rightarrow> server_config \<Rightarrow> string \<Rightarrow> int \<Rightarrow> pid_dir \<times> 'w \<Rightarrow> (pid_dir \<times> 'w) \<times> goerror option" where
  "register_daemon os v c log_path pid s =
     (case oc_close_log os (snd s) of
        (w1, Some e) \<Rightarrow> ((fst s, w1), Some (WrapError ''failed to close log file: '' e ''''))
      | (w1, None) \<Rightarrow>
          (case save_pid v (\<lambda>p. oc_alive os p w1) (sv_pid_file c) pid (fst s) of
             (d1, Some e) \<Rightarrow> ((d1, oc_kill os pid w1), Some (WrapError ''failed to save PID: '' e ''''))
           | (d1, None) \<Rightarrow>
               (let w2 = oc_sleep os (2 * second) w1 in
                ((d1, w2),
                 if is_server_running (\<lambda>p. oc_alive os p w2) (sv_pid_file c) d1 then None
                 else Some (WrapError '''' server_failed_to_start ('' at: '' @ log_path))))))"

definition run_server_daemon ::
  "'w os_calls \<Rightarrow> pid_calls \<Rightarrow> string list \<Rightarrow> int \<Rightarrow> bool \<Rightarrow> pid_dir \<times> 'w \<Rightarrow> (pid_dir \<times> 'w) \<times> goerror option" where
  "run_server_daemon os v env port debug s =
     (case daemon_config env port debug of
        Inl e \<Rightarrow> (s, Some e)
      | Inr c \<Rightarrow>
          (let log_path = get_log_path env c in
           case (if log_path = '''' then (snd s, None) else oc_mkdir_all os (path_dir log_path) (snd s)) of
             (w1, Some e) \<Rightarrow> ((fst s, w1), Some (WrapError ''failed to create log directory: '' e ''''))
           | (w1, None) \<Rightarrow>
               (case oc_open_log os log_path w1 of
                  (w2, Some e) \<Rightarrow> ((fst s, w2), Some (WrapError ''failed to create log file: '' e ''''))
                | (w2, None) \<Rightarrow>
                    (case oc_executable os of
                       Inl e \<Rightarrow> ((fst s, fst (oc_close_log os w2)), Some (WrapError ''failed to get executable path: '' e ''''))
                     | Inr executable \<Rightarrow>
                         (case oc_start os executable (daemon_arguments port debug) w2 of
                            (w3, Inl e) \<Rightarrow> ((fst s, fst (oc_close_log os w3)), Some (WrapError ''failed to start server: '' e ''''))
                          | (w3, Inr pid) \<Rightarrow> register_daemon os v c log_path pid (fst s, w3))))))"

section \<open>Stopping\<close>

text \<open>At most ten waits of half a second, while the process runs. Finding a process by its number never fails on Unix.\<close>

fun wait_for_exit :: "'w os_calls \<Rightarrow> nat \<Rightarrow> int \<Rightarrow> 'w \<Rightarrow> 'w" where
  "wait_for_exit os 0 pid w = w"
| "wait_for_exit os (Suc n) pid w =
     (if oc_alive os pid w then wait_for_exit os n pid (oc_sleep os (500 * millisecond) w) else w)"

definition stop_server :: "'w os_calls \<Rightarrow> string \<Rightarrow> pid_dir \<times> 'w \<Rightarrow> (pid_dir \<times> 'w) \<times> goerror option" where
  "stop_server os path s =
     (case read_pid_from_file path (fst s) of
        Inl e \<Rightarrow> (s, Some server_not_running)
      | Inr pid \<Rightarrow>
          (case oc_terminate os pid (snd s) of
             (w1, Some e) \<Rightarrow> ((remove_pid_file path (fst s), w1), Some server_not_running)
           | (w1, None) \<Rightarrow>
               (let w2 = wait_for_exit os 10 pid w1;
                    w3 = (if oc_alive os pid w2 then oc_kill os pid w2 else w2)
                in ((remove_pid_file path (fst s), w3), None))))"

definition server_stop_command :: "'w os_calls \<Rightarrow> string list \<Rightarrow> pid_dir \<times> 'w \<Rightarrow> (pid_dir \<times> 'w) \<times> goerror option" where
  "server_stop_command os env s = stop_server os (get_pid_path env) s"

section \<open>One start at a time\<close>

lemma itoa_graph: "c \<in> set (itoa i) \<Longrightarrow> \<not> is_space c"
proof -
  assume "c \<in> set (itoa i)"
  then have "c = CHR 0x2D \<or> 48 \<le> (of_char c :: nat) \<and> (of_char c :: nat) \<le> 57"
    using digits_of_digit [of c] by (auto simp: itoa_def split: if_splits)
  then show ?thesis by (auto simp: is_space_def Let_def)
qed

lemma itoa_not_Nil [simp]: "itoa i \<noteq> ''''"
  by (simp add: itoa_def)

lemma trim_space_line: "(\<And>c. c \<in> set s \<Longrightarrow> \<not> is_space c) \<Longrightarrow> s \<noteq> '''' \<Longrightarrow> trim_space (s @ [CHR 0x0A]) = s"
proof -
  assume graph: "\<And>c. c \<in> set s \<Longrightarrow> \<not> is_space c" and "s \<noteq> ''''"
  then obtain c t where s: "s = c # t" by (cases s) auto
  have "rev s \<noteq> ''''" using \<open>s \<noteq> ''''\<close> by simp
  then obtain c' t' where r: "rev s = c' # t'" by (cases "rev s") auto
  have "c' \<in> set s" using r by (metis list.set_intros(1) set_rev)
  then have "dropWhile is_space (rev s) = rev s" using graph r by simp
  moreover have "dropWhile is_space (s @ [CHR 0x0A]) = s @ [CHR 0x0A]" using graph s by simp
  moreover have "is_space CHR 0x0A" by (simp add: is_space_def Let_def)
  ultimately show ?thesis by (simp add: trim_space_def)
qed

definition pid_number :: "int \<Rightarrow> bool" where
  "pid_number p \<longleftrightarrow> - (2 ^ 63) \<le> p \<and> p < 2 ^ 63"

lemma read_written:
  assumes "pd_entries d path = Some ino" and "pd_contents d ino = itoa me @ [CHR 0x0A]" and "pid_number me"
  shows "read_pid_from_file path d = Inr me"
  using assms trim_space_line [OF itoa_graph itoa_not_Nil, of me] parse_int64_itoa [of me]
  by (simp add: read_pid_from_file_def pid_number_def)

text \<open>The straight line of the steps.\<close>

lemma save_pid_fresh:
  assumes "pc_mkdir v = None" and "pc_open v = None" and "pd_entries d path = None"
  shows "save_pid v alive path me d =
    (case save_step v alive path me (SaveWrite (pd_next d), fst (create_exclusive path d)) of
       (SaveDone r, d') \<Rightarrow> (d', r) | (_, d') \<Rightarrow> (d', None))"
  using assms by (cases "pc_write v") (simp_all add: save_pid_def create_exclusive_def numeral_eq_Suc)

lemma save_pid_running:
  assumes "pc_mkdir v = None" and "pc_open v = None" and "read_pid_from_file path d = Inr pid" and "alive pid"
  shows "save_pid v alive path me d =
    (d, Some (ErrorString (''server already running with PID '' @ itoa pid @ '' (pid file: '' @ path @ '')'')))"
proof -
  have "pd_entries d path \<noteq> None" using assms(3) by (cases "pd_entries d path") (simp_all add: read_pid_from_file_def)
  then show ?thesis using assms by (simp add: save_pid_def numeral_eq_Suc)
qed

lemma save_pid_stale:
  assumes "pc_mkdir v = None" and "pc_open v = None" and "pd_entries d path \<noteq> None"
    and "\<not> is_server_running alive path d" and "pc_open_again v = None"
  shows "save_pid v alive path me d =
    (case save_step v alive path me (SaveWrite (pd_next d), fst (create_exclusive path (remove_pid_file path d))) of
       (SaveDone r, d') \<Rightarrow> (d', r) | (_, d') \<Rightarrow> (d', None))"
proof -
  have "save_step v alive path me (SaveCheck, d) = (SaveRemove, d)"
    using assms(4) by (auto simp: is_server_running_def split: sum.splits)
  then show ?thesis using assms
    by (cases "pc_write v") (simp_all add: save_pid_def create_exclusive_def remove_pid_file_def numeral_eq_Suc Let_def del: save_step.simps(2))
qed

text \<open>
  C23: a process number that was saved is the one that is read, and while its process runs nobody else saves one and the
  file is left as it is.
\<close>

theorem saved_pid_excludes:
  assumes "save_pid v alive path me d = (d', None)" and "pid_number me" and "alive' me"
    and "pc_mkdir v' = None" and "pc_open v' = None"
  shows "read_pid_from_file path d' = Inr me \<and> (\<exists>e. save_pid v' alive' path other d' = (d', Some e))"
proof -
  have "pd_entries d' path = Some (pd_next d) \<and> pd_contents d' (pd_next d) = itoa me @ [CHR 0x0A]"
  proof (cases "pc_mkdir v \<noteq> None \<or> pc_open v \<noteq> None")
    case True
    then show ?thesis using assms(1) by (cases "pc_mkdir v"; cases "pc_open v") (auto simp: save_pid_def numeral_eq_Suc)
  next
    case False
    then have ok: "pc_mkdir v = None" "pc_open v = None" by simp_all
    consider (fresh) "pd_entries d path = None" | (running) "is_server_running alive path d"
      | (refused) "pd_entries d path \<noteq> None" "\<not> is_server_running alive path d" "pc_open_again v \<noteq> None"
      | (stale) "pd_entries d path \<noteq> None" "\<not> is_server_running alive path d" "pc_open_again v = None"
      by blast
    then show ?thesis
    proof cases
      case fresh
      then show ?thesis using assms(1) save_pid_fresh [OF ok fresh]
        by (cases "pc_write v") (auto simp: create_exclusive_def)
    next
      case running
      then obtain pid where "read_pid_from_file path d = Inr pid" "alive pid"
        by (auto simp: is_server_running_def split: sum.splits)
      then show ?thesis using save_pid_running [OF ok] assms(1) by simp
    next
      case refused
      have "save_step v alive path me (SaveCheck, d) = (SaveRemove, d)"
        using refused(2) by (auto simp: is_server_running_def split: sum.splits)
      then show ?thesis using refused ok assms(1)
        by (auto simp: save_pid_def numeral_eq_Suc Let_def simp del: save_step.simps(2))
    next
      case stale
      then show ?thesis using assms(1) save_pid_stale [OF ok stale]
        by (cases "pc_write v") (auto simp: create_exclusive_def remove_pid_file_def)
    qed
  qed
  then have "read_pid_from_file path d' = Inr me" using assms(2) by (intro read_written [of _ _ "pd_next d"]) simp_all
  then show ?thesis using save_pid_running [OF assms(4,5)] assms(3) by blast
qed

definition no_calls_fail :: pid_calls where
  "no_calls_fail = \<lparr>pc_mkdir = None, pc_open = None, pc_open_again = None, pc_write = None\<rparr>"

definition empty_pid_dir :: pid_dir where
  "empty_pid_dir = \<lparr>pd_entries = \<lambda>_. None, pd_contents = \<lambda>_. '''', pd_next = 0\<rparr>"

theorem saved_pid_excludes_witness:
  "\<exists>d e. save_pid no_calls_fail (\<lambda>p. p = 41) ''/p'' 41 empty_pid_dir = (d, None) \<and>
     read_pid_from_file ''/p'' d = Inr 41 \<and> save_pid no_calls_fail (\<lambda>p. p = 41) ''/p'' 42 d = (d, Some e)"
proof -
  have "snd (save_pid no_calls_fail (\<lambda>p. p = 41) ''/p'' 41 empty_pid_dir) = None" by code_simp
  then obtain d where d: "save_pid no_calls_fail (\<lambda>p. p = 41) ''/p'' 41 empty_pid_dir = (d, None)"
    by (cases "save_pid no_calls_fail (\<lambda>p. p = 41) ''/p'' 41 empty_pid_dir") auto
  from saved_pid_excludes [OF d, of "\<lambda>p. p = 41" no_calls_fail 42] show ?thesis
    using d by (auto simp: pid_number_def no_calls_fail_def)
qed

section \<open>Two starts at once\<close>

text \<open>Two processes at one file; a schedule says whose step is next.\<close>

definition two_starts ::
  "pid_calls \<Rightarrow> (int \<Rightarrow> bool) \<Rightarrow> string \<Rightarrow> int \<Rightarrow> int \<Rightarrow> bool list \<Rightarrow> pid_dir \<Rightarrow> (save_point \<times> save_point) \<times> pid_dir" where
  "two_starts v alive path me other schedule d =
     fold (\<lambda>first ((p, q), d).
         if first then (case save_step v alive path me (p, d) of (p', d') \<Rightarrow> ((p', q), d'))
         else (case save_step v alive path other (q, d) of (q', d') \<Rightarrow> ((p, q'), d')))
       schedule ((SaveCreate, SaveCreate), d)"

text \<open>
  C22: two daemons that start at the same time can both succeed, in a directory without the file as well: the second finds
  the file the first has created and not yet written, takes it for a stale one and replaces it. Then the file names only the
  second; the first runs without being known.
\<close>

theorem concurrent_starts_both_succeed:
  assumes "pd_entries d path = None" and "pc_mkdir v = None" and "pc_open v = None" and "pc_open_again v = None"
    and "pc_write v = None" and "pid_number other"
  shows "\<exists>schedule d'. two_starts v alive path me other schedule d = ((SaveDone None, SaveDone None), d') \<and>
    read_pid_from_file path d' = Inr other"
proof -
  let ?s = "[True, False, False, False, False, False, True]"
  have unwritten: "read_pid_from_file path (d\<lparr>pd_entries := (pd_entries d)(path \<mapsto> pd_next d),
      pd_contents := (pd_contents d)(pd_next d := ''''), pd_next := pd_next d + 1\<rparr>) =
      Inl (WrapError (''failed to parse PID from file '' @ path @ '' (content: '' @ go_quote '''' @ ''): '') invalid_number '''')"
    by (simp add: read_pid_from_file_def trim_space_def parse_int64_def parse_nat_def Let_def)
  obtain d' where run: "two_starts v alive path me other ?s d = ((SaveDone None, SaveDone None), d')"
    and d': "pd_entries d' path = Some (pd_next d + 1)" "pd_contents d' (pd_next d + 1) = itoa other @ [CHR 0x0A]"
    using assms(1-5) unwritten
    by (simp add: two_starts_def create_exclusive_def remove_pid_file_def)
  then show ?thesis using read_written [OF d' assms(6)] by blast
qed

theorem concurrent_starts_both_succeed_witness:
  "\<exists>schedule d'. two_starts no_calls_fail (\<lambda>p. True) ''/p'' 41 42 schedule empty_pid_dir = ((SaveDone None, SaveDone None), d') \<and>
     read_pid_from_file ''/p'' d' = Inr 42"
  by (rule concurrent_starts_both_succeed) (simp_all add: empty_pid_dir_def no_calls_fail_def pid_number_def)

section \<open>Stopping the daemon\<close>

lemma save_step_elsewhere: "q \<noteq> path \<Longrightarrow> pd_entries (snd (save_step v alive path me x)) q = pd_entries (snd x) q"
  by (cases "(v, alive, path, me, x)" rule: save_step.cases)
    (auto simp: create_exclusive_def remove_pid_file_def Let_def split: option.splits sum.splits)

lemma save_pid_elsewhere: "q \<noteq> path \<Longrightarrow> pd_entries (fst (save_pid v alive path me d)) q = pd_entries d q"
proof -
  assume other: "q \<noteq> path"
  have "pd_entries (snd ((save_step v alive path me ^^ n) x)) q = pd_entries (snd x) q" for n x
    by (induction n) (simp_all add: save_step_elsewhere [OF other])
  moreover have "fst (save_pid v alive path me d) = snd ((save_step v alive path me ^^ 5) (SaveCreate, d))"
    unfolding save_pid_def by (auto split: prod.split save_point.split)
  ultimately show ?thesis by simp
qed

text \<open>A daemon that started has registered and runs.\<close>

lemma register_daemon_ok:
  assumes "register_daemon os v c log_path pid s = (s', None)"
  shows "\<exists>w. fst s' = fst (save_pid v (\<lambda>p. oc_alive os p w) (sv_pid_file c) pid (fst s)) \<and>
    is_server_running (\<lambda>p. oc_alive os p (snd s')) (sv_pid_file c) (fst s')"
proof (cases "oc_close_log os (snd s)")
  case (Pair w1 e)
  then have "e = None" using assms by (cases e) (simp_all add: register_daemon_def)
  obtain d1 r where saved: "save_pid v (\<lambda>p. oc_alive os p w1) (sv_pid_file c) pid (fst s) = (d1, r)" by fastforce
  then have "r = None" using assms Pair \<open>e = None\<close> by (cases r) (simp_all add: register_daemon_def)
  then show ?thesis
    using assms Pair \<open>e = None\<close> saved
    by (intro exI [of _ w1]) (auto simp: register_daemon_def Let_def split: if_splits)
qed

lemma daemon_registered:
  assumes "run_server_daemon os v env port debug s = (s', None)"
  shows "\<exists>c pid w. daemon_config env port debug = Inr c \<and>
    fst s' = fst (save_pid v (\<lambda>p. oc_alive os p w) (sv_pid_file c) pid (fst s)) \<and>
    is_server_running (\<lambda>p. oc_alive os p (snd s')) (sv_pid_file c) (fst s')"
proof -
  obtain c where c: "daemon_config env port debug = Inr c" using assms by (cases "daemon_config env port debug") (simp_all add: run_server_daemon_def)
  obtain log_path pid w where "register_daemon os v c log_path pid (fst s, w) = (s', None)"
    using assms c by (auto simp: run_server_daemon_def Let_def split: sum.splits prod.splits option.splits)
  from register_daemon_ok [OF this] show ?thesis using c by auto
qed

text \<open>
  C24: a daemon that was started successfully, without \<^verbatim>\<open>LATTIAM_PID_FILE\<close> and with no file of another server in the home
  directory, cannot be stopped: stopping reports that no server is running and changes nothing, while the server runs.
\<close>

theorem daemon_cannot_be_stopped:
  assumes "getenv env ''LATTIAM_PID_FILE'' = ''''" and "pd_entries (fst s) (get_pid_path env) = None"
    and "run_server_daemon os v env port debug s = (s', None)"
  shows "server_stop_command os env s' = (s', Some server_not_running) \<and>
    is_server_running (\<lambda>p. oc_alive os p (snd s')) (path_join [temp_dir env, ''lattiam-server.pid'']) (fst s')"
proof -
  obtain c pid w where c: "daemon_config env port debug = Inr c"
    "fst s' = fst (save_pid v (\<lambda>p. oc_alive os p w) (sv_pid_file c) pid (fst s))"
    "is_server_running (\<lambda>p. oc_alive os p (snd s')) (sv_pid_file c) (fst s')"
    using daemon_registered [OF assms(3)] by blast
  have pid: "sv_pid_file c = path_join [temp_dir env, ''lattiam-server.pid'']" "get_pid_path env \<noteq> sv_pid_file c"
    using daemon_and_stop_disagree [OF assms(1) c(1)] by auto
  then have "pd_entries (fst s') (get_pid_path env) = None" using save_pid_elsewhere [OF pid(2)] assms(2) c(2) by simp
  then show ?thesis using c(3) pid(1) by (simp add: server_stop_command_def stop_server_def read_pid_from_file_def)
qed

text \<open>An operating system with one server, the world being whether it runs.\<close>

definition one_server :: "bool os_calls" where
  "one_server =
     \<lparr>oc_mkdir_all = \<lambda>p w. (w, None), oc_open_log = \<lambda>p w. (w, None), oc_executable = Inr ''/bin/lattiam'',
      oc_start = \<lambda>e args w. (True, Inr 41), oc_close_log = \<lambda>w. (w, None), oc_alive = \<lambda>p w. p = 41 \<and> w,
      oc_terminate = \<lambda>p w. (False, None), oc_kill = \<lambda>p w. False, oc_sleep = \<lambda>t w. w\<rparr>"

theorem daemon_cannot_be_stopped_witness:
  "\<exists>s'. run_server_daemon one_server no_calls_fail [''HOME=/h''] 8084 False (empty_pid_dir, False) = (s', None) \<and>
     server_stop_command one_server [''HOME=/h''] s' = (s', Some server_not_running) \<and>
     is_server_running (\<lambda>p. oc_alive one_server p (snd s')) ''/tmp/lattiam-server.pid'' (fst s')"
proof -
  have env: "getenv [''HOME=/h''] ''LATTIAM_PID_FILE'' = ''''" by code_simp
  have path: "path_join [temp_dir [''HOME=/h''], ''lattiam-server.pid''] = ''/tmp/lattiam-server.pid''" by code_simp
  have "case daemon_config [''HOME=/h''] 8084 False of Inl e \<Rightarrow> False | Inr c \<Rightarrow> True" by code_simp
  then obtain c where c: "daemon_config [''HOME=/h''] 8084 False = Inr c" by (auto split: sum.splits)
  define d where "d = fst (save_pid no_calls_fail (\<lambda>p. p = 41) (sv_pid_file c) 41 empty_pid_dir)"
  have saved: "save_pid no_calls_fail (\<lambda>p. p = 41) (sv_pid_file c) 41 empty_pid_dir = (d, None)"
    unfolding d_def by (subst (1 2) save_pid_fresh) (simp_all add: no_calls_fail_def empty_pid_dir_def create_exclusive_def)
  have "pd_entries d (sv_pid_file c) = Some 0 \<and> pd_contents d 0 = itoa 41 @ [CHR 0x0A]"
    unfolding d_def by (subst (1 2) save_pid_fresh) (simp_all add: no_calls_fail_def empty_pid_dir_def create_exclusive_def)
  then have "pd_entries d (sv_pid_file c) = Some 0" "pd_contents d 0 = itoa 41 @ [CHR 0x0A]" by (rule conjunct1, rule conjunct2)
  then have "read_pid_from_file (sv_pid_file c) d = Inr 41" by (rule read_written) (simp add: pid_number_def)
  then have "run_server_daemon one_server no_calls_fail [''HOME=/h''] 8084 False (empty_pid_dir, False) = ((d, True), None)"
    using c saved by (simp add: run_server_daemon_def register_daemon_def one_server_def Let_def is_server_running_def)
  moreover have "pd_entries (fst (empty_pid_dir, False)) (get_pid_path [''HOME=/h'']) = None" by (simp add: empty_pid_dir_def)
  ultimately show ?thesis using daemon_cannot_be_stopped [OF env, of "(empty_pid_dir, False)" one_server no_calls_fail 8084 False "(d, True)"] path
    by (intro exI [of _ "(d, True)"]) simp
qed

text \<open>
  A server whose number is read is ended and its file removed: the server exits in five seconds or is killed.
\<close>

lemma wait_for_exit_invariant:
  assumes "\<And>t w. P w \<Longrightarrow> P (oc_sleep os t w)" and "P w"
  shows "P (wait_for_exit os n pid w)"
  using assms(2) by (induction n arbitrary: w) (simp_all add: assms(1))

lemma stopped_server_is_gone:
  assumes "\<And>w. \<not> oc_alive os pid (oc_kill os pid w)" and "read_pid_from_file path d = Inr pid"
    and "stop_server os path (d, w) = ((d', w'), None)"
  shows "\<not> oc_alive os pid w' \<and> pd_entries d' path = None"
  using assms by (auto simp: stop_server_def remove_pid_file_def Let_def split: prod.splits option.splits if_splits)

end
