(* ===== verification/Spec2Isabelle.thy ===== *)
theory Spec2Isabelle
  imports Queue_Resilience Change_Ordering Worker_Pool Handler_Results Provider_Results AWS_Results Lock_Results
    Distributed_Results Backend_Guard Server_Command
begin

text \<open>
  Lattiam: a server that applies Terraform JSON documents. The control flow of a deployment and
  the components modelled:

  A request passes the validators of its route (\<^verbatim>\<open>internal/apiserver\<close>) and a handler turns it into a deployment
  request, which the deployment service (\<^verbatim>\<open>internal/deployment/service.go\<close>) makes a queued deployment. The transaction
  coordinator (\<^verbatim>\<open>internal/deployment/transaction.go\<close>) registers it with a tracker
  (\<^verbatim>\<open>internal/infra/embedded/tracker.go\<close>) and puts it into a queue
  (\<^verbatim>\<open>internal/infra/embedded/queue.go\<close>). The tracker writes every change to a state store
  (\<^verbatim>\<open>internal/system/state_store_adapter.go\<close>). A worker of the pool (\<^verbatim>\<open>internal/infra/embedded/worker_pool.go\<close>)
  hands the deployment to the executor (\<^verbatim>\<open>internal/executor\<close>), which orders the resources by their
  dependencies (\<^verbatim>\<open>internal/dependency\<close>), asks a provider to create, update or delete each, writes the attributes
  into the Terraform state and publishes the result as events, which the tracker takes up. The providers come from the
  provider manager (\<^verbatim>\<open>pkg/provider/protocol\<close>), which starts a plugin process per deployment, through the adapters of
  \<^verbatim>\<open>internal/system\<close>. In the distributed setup every queue operation goes through a circuit breaker, a retry loop and a
  fallback queue (\<^verbatim>\<open>internal/infra/distributed\<close>).

  Theories:
  \<^item> \<open>Lattiam_Prelude\<close>: errors, maps, strings, integers and loops of Go; \<open>Go_Time\<close>: dates and the
    RFC 3339 format; \<open>Lattiam_Types\<close>: the data of \<^verbatim>\<open>internal/interfaces\<close>.
  \<^item> \<open>Circuit_Breaker\<close>, \<open>Error_Classification\<close>, \<open>Fallback_Queue\<close>, \<open>Queue_Resilience\<close>: the four files
    of \<^verbatim>\<open>internal/infra/distributed\<close> that make queue operations resilient.
  \<^item> \<open>Embedded_Queue\<close>: the channel queue; locale \<open>deployment_queue\<close>.
  \<^item> \<open>State_Store\<close>, \<open>File_State_Store\<close>: the store interface (locale \<open>deployment_store\<close>) and the file store.
  \<^item> \<open>Embedded_Tracker\<close>: the tracker over any store; locale \<open>deployment_tracker\<close>.
  \<^item> \<open>Transactions\<close>: the coordinator and the creation of a deployment, proved in the locale
    \<open>transaction_backend\<close>, which extends the tracker's contract by a queue.
  \<^item> \<open>Interpolations\<close>, \<open>Dependency_Graph\<close>, \<open>Change_Ordering\<close>: references in properties, the graph and its
    depth-first searches (locale \<open>dependency_resolver\<close>), the order of a plan's changes.
  \<^item> \<open>Terraform_State\<close>, \<open>Update_Plan\<close>: the Terraform state document and the plan of an update in the metadata of a job.
  \<^item> \<open>Executor\<close>, \<open>Executor_Samples\<close>, \<open>Executor_Results\<close>, \<open>Executor_State\<close>: the executor over any providers, store and
    resolver: regular deployments, updates, destructions; that an execution ends, reports its outcome, returns its
    providers and records what it created.
  \<^item> \<open>Worker_Pool\<close>: the workers as a step relation on the queue, the tracker and the tasks, with the asynchronous event bus.
  \<^item> \<open>Terraform_Request\<close>: the parser of Terraform JSON and the conversion of API requests.
  \<^item> \<open>Deployment_Service\<close>, \<open>Update_Service\<close>, \<open>Service_Results\<close>: the operations of the service; planning and queueing an
    update; what they promise.
  \<^item> \<open>Request_Validation\<close>, \<open>Deployment_Handler\<close>, \<open>API_Server\<close>, \<open>Handler_Results\<close>: validators, handlers, routes, and what
    an answer of the server says of its state.
  \<^item> \<open>Dynamic_Values\<close>: between JSON data and the typed values of a plugin's schema, over any implementation of these
    values that keeps the laws of the locale \<open>value_library\<close>.
  \<^item> \<open>Provider_Wrapper\<close>: the operations on a plugin (\<^verbatim>\<open>provider_wrapper_unified.go\<close>), with the locale \<open>plugin_log\<close> for
    plugins whose calls are logged.
  \<^item> \<open>Provider_Environment\<close>, \<open>Provider_Manager\<close>: the environment of a plugin process and the pool of processes
    (\<^verbatim>\<open>manager.go\<close>), with the locale \<open>plugin_processes\<close> for the operating system.
  \<^item> \<open>Provider_Adapter\<close>, \<open>Provider_Results\<close>: the interface of executor and service on all of these
    (\<^verbatim>\<open>internal/system/provider_adapter.go\<close>, \<^verbatim>\<open>concrete_provider.go\<close>), and what executions and plans do through it.
  \<^item> \<open>AWS_Store\<close>, \<open>AWS_Results\<close>: the store on DynamoDB and S3 (\<^verbatim>\<open>internal/state/aws_store.go\<close>) over services that keep
    the laws of the locale \<open>cloud_services\<close>, with reads of items that may be stale in its extension \<open>stale_reads\<close>, and
    what the tracker does to it.
  \<^item> \<open>DynamoDB_Lock\<close>, \<open>Lock_Results\<close>: the distributed locks (\<^verbatim>\<open>internal/state/dynamodb_lock.go\<close>) as a step relation of
    providers at one table (locale \<open>lock_table\<close>), what they exclude and for how long.
  \<^item> \<open>Wire_Format\<close>: deployments, results and plans as JSON, and what is left of them when they are read again.
  \<^item> \<open>Distributed_Tracker\<close>, \<open>Distributed_Queue\<close>, \<open>Distributed_Results\<close>: the tracker on Redis (locale \<open>redis_values\<close> while
    Redis answers every request and no key expires, locale \<open>redis_replies\<close> for requests that may fail), the queue, the
    task handler and the dead letters on asynq (locale \<open>task_store\<close>, errors of which may be lost replies), and what they
    keep of a deployment.
  \<^item> \<open>Go_Paths\<close>, \<open>Server_Config\<close>: cleaned paths and the configuration of the server from defaults, flags and environment
    (\<^verbatim>\<open>internal/config/server_config.go\<close>).
  \<^item> \<open>Backend_Guard\<close>: the file that keeps a server from starting with another storage backend
    (\<^verbatim>\<open>internal/state/backend_metadata.go\<close>), over a disk whose calls may fail.
  \<^item> \<open>System_Setup\<close>: the construction of stores, providers, resolvers and of the background system from a configuration
    (\<^verbatim>\<open>internal/system/component_factory.go\<close>, \<^verbatim>\<open>background_system_factory.go\<close>).
  \<^item> \<open>Server_Command\<close>: starting and stopping the server (\<^verbatim>\<open>cmd/lattiam/server.go\<close>); saving the number of its process
    as single steps that can be interleaved.

  Conventions. A string is a list of bytes. A Go map is an association list; where code ranges
  over a map, the order is the list's or an explicit \<open>map_order\<close>, so that a theorem for every list
  or order holds for every iteration order. A \<^verbatim>\<open>time.Time\<close> is a count of nanoseconds and the
  clock is an argument. Code under a mutex is one step; \<open>enqueue\<close>, which gives up the mutex, is
  also modelled as its three phases, and \<open>get_provider\<close> as its two. Logging is left out. The recursive closures of the
  resolver run on fuel: one more than the number of nodes and dependency entries suffices,
  because every nested call marks a new node, and the theorems show that \<open>None\<close> is never returned.

  Not modelled: the scheduling of the asynq server, the S3 store of the tests, the download of provider binaries, the
  translation between gRPC messages and those of terraform-plugin-go, the evaluation of HCL expressions, monitoring and
  metrics, the handlers that report the configuration and the disk, and the command lines but for starting and stopping
  the server.
\<close>

end
